(* ===== verification/Prelude.thy ===== *)
theory Prelude
  imports Main
begin

text \<open>
  Shared material of the development: the parts of the Go language and of its standard library
  that the driver's own code rests on (packages \<^verbatim>\<open>strings\<close>, \<^verbatim>\<open>strconv\<close>, \<^verbatim>\<open>fmt\<close>, \<^verbatim>\<open>errors\<close>,
  \<^verbatim>\<open>time\<close>), and the generic lemmas about them.

  \<^item> A Go string is a list of bytes, so a \<open>string\<close> of HOL; \<open>len\<close> is \<open>length\<close>.
  \<^item> \<open>int64\<close> and \<open>int\<close> are \<open>int\<close> here; where an operation of the source can leave the 64-bit
    range the wrap-around is written out with \<open>wrap64\<close>.
  \<^item> \<^verbatim>\<open>time.Time\<close> is a count of nanoseconds; the zero time is \<open>zero_time\<close>. \<^verbatim>\<open>Time.Sub\<close> and
    \<^verbatim>\<open>time.Since\<close> saturate at the \<open>int64\<close> bounds, as the library does. Every call of
    \<^verbatim>\<open>time.Now\<close> is a clock reading handed to the operation as an argument.
  \<^item> An \<^verbatim>\<open>error\<close> is a \<open>goerr\<close>: a message, a wrapped error (the \<^verbatim>\<open>%w\<close> verb), one of the sentinels
    of \<^verbatim>\<open>pkg/utils/errors.go\<close> or one of the typed errors of \<^verbatim>\<open>pkg/rds/types.go\<close>. A function that
    returns \<^verbatim>\<open>error\<close> returns \<open>goerr option\<close> here (\<open>None\<close> is \<^verbatim>\<open>nil\<close>), one that returns
    \<^verbatim>\<open>(T, error)\<close> returns \<open>goerr + 'a\<close>.
  \<^item> A CSI handler returns \<open>grpc_code + 'a\<close>: the status code of the error, or the response. The
    human-readable text of a status is not modelled.
\<close>

named_theorems str_simps \<open>characterisations of the string functions of package strings\<close>
named_theorems inv_intros \<open>preservation of component invariants\<close>

type_synonym time = int
type_synonym duration = int

subsection \<open>Machine integers, durations and clock readings\<close>

definition max_int64 :: int where
  "max_int64 = 9223372036854775807"

definition min_int64 :: int where
  "min_int64 = -9223372036854775808"

definition wrap64 :: "int \<Rightarrow> int" where
  "wrap64 x = (x + 9223372036854775808) mod 18446744073709551616 - 9223372036854775808"

definition sat64 :: "int \<Rightarrow> int" where
  "sat64 x = (if x > max_int64 then max_int64 else if x < min_int64 then min_int64 else x)"

definition second :: duration where
  "second = 1000000000"

definition minute :: duration where
  "minute = 60 * second"

definition hour :: duration where
  "hour = 60 * minute"

text \<open>January 1, year 1, in nanoseconds from the Unix epoch: what \<^verbatim>\<open>Time.IsZero\<close> tests for.\<close>

definition zero_time :: time where
  "zero_time = -62135596800000000000"

definition sub_time :: "time \<Rightarrow> time \<Rightarrow> duration" where
  "sub_time t u = sat64 (t - u)"

abbreviation since :: "time \<Rightarrow> time \<Rightarrow> duration" where
  "since now t \<equiv> sub_time now t"

lemma wrap64_id: "min_int64 \<le> x \<Longrightarrow> x \<le> max_int64 \<Longrightarrow> wrap64 x = x"
  by (simp add: wrap64_def min_int64_def max_int64_def)

lemma wrap64_minus: "wrap64 (x - m * 18446744073709551616) = wrap64 x"
proof -
  have "x - m * 18446744073709551616 + 9223372036854775808 = x + 9223372036854775808 + (- m) * 18446744073709551616" by simp
  then show ?thesis unfolding wrap64_def by (simp only: mod_mult_self1)
qed

lemma wrap64_mult: "wrap64 (wrap64 a * b) = wrap64 (a * b)"
proof -
  let ?k = "(a + 9223372036854775808) div 18446744073709551616"
  have "wrap64 a = a - ?k * 18446744073709551616"
    unfolding wrap64_def by (simp add: minus_div_mult_eq_mod [symmetric])
  then have "wrap64 a * b = (a - ?k * 18446744073709551616) * b" by simp
  also have "\<dots> = a * b - (?k * b) * 18446744073709551616" by (simp add: algebra_simps)
  finally show ?thesis by (simp only: wrap64_minus)
qed

lemma wrap64_le: "0 \<le> x \<Longrightarrow> wrap64 x \<le> x"
  using zmod_le_nonneg_dividend [of "x + 9223372036854775808" 18446744073709551616] by (simp add: wrap64_def)

lemma wrap64_range: "min_int64 \<le> wrap64 x \<and> wrap64 x \<le> max_int64"
proof -
  let ?m = "(x + 9223372036854775808) mod 18446744073709551616"
  have "0 \<le> ?m" and "?m < 18446744073709551616" by simp_all
  then show ?thesis unfolding wrap64_def min_int64_def max_int64_def by linarith
qed

lemma sat64_range: "min_int64 \<le> sat64 x \<and> sat64 x \<le> max_int64"
  by (simp add: sat64_def min_int64_def max_int64_def)

lemma sub_time_less_iff:
  "min_int64 < d \<Longrightarrow> d \<le> max_int64 \<Longrightarrow> sub_time t u < d \<longleftrightarrow> t - u < d"
  by (auto simp: sub_time_def sat64_def min_int64_def max_int64_def)

lemma sub_time_greater_iff:
  "min_int64 \<le> d \<Longrightarrow> d < max_int64 \<Longrightarrow> d < sub_time t u \<longleftrightarrow> d < t - u"
  by (auto simp: sub_time_def sat64_def min_int64_def max_int64_def)

subsection \<open>Package strings\<close>

definition HasPrefix :: "string \<Rightarrow> string \<Rightarrow> bool" where
  "HasPrefix s p \<longleftrightarrow> take (length p) s = p"

definition HasSuffix :: "string \<Rightarrow> string \<Rightarrow> bool" where
  "HasSuffix s p \<longleftrightarrow> length p \<le> length s \<and> drop (length s - length p) s = p"

fun Contains :: "string \<Rightarrow> string \<Rightarrow> bool" where
  "Contains [] p = (p = [])"
| "Contains (c # cs) p = (HasPrefix (c # cs) p \<or> Contains cs p)"

definition TrimPrefix :: "string \<Rightarrow> string \<Rightarrow> string" where
  "TrimPrefix s p = (if HasPrefix s p then drop (length p) s else s)"

definition TrimSuffix :: "string \<Rightarrow> string \<Rightarrow> string" where
  "TrimSuffix s p = (if HasSuffix s p then take (length s - length p) s else s)"

text \<open>\<open>strings.Split\<close> for a separator of one byte: never the empty list.\<close>

fun Split :: "char \<Rightarrow> string \<Rightarrow> string list" where
  "Split sep [] = [[]]"
| "Split sep (c # cs) =
     (if c = sep then [] # Split sep cs
      else (case Split sep cs of [] \<Rightarrow> [[c]] | w # ws \<Rightarrow> (c # w) # ws))"

text \<open>\<open>strings.Join\<close> for a separator of one byte.\<close>

fun Join :: "char \<Rightarrow> string list \<Rightarrow> string" where
  "Join sep [] = []"
| "Join sep [w] = w"
| "Join sep (w # v # ws) = w @ sep # Join sep (v # ws)"

definition is_space :: "char \<Rightarrow> bool" where
  "is_space c \<longleftrightarrow> c \<in> {CHR '' '', CHR 0x09, CHR 0x0A, CHR 0x0B, CHR 0x0C, CHR 0x0D}"

definition TrimSpace :: "string \<Rightarrow> string" where
  "TrimSpace s = rev (dropWhile is_space (rev (dropWhile is_space s)))"

text \<open>\<open>strings.Fields\<close>: the maximal runs of non-space bytes.\<close>

fun fields_from :: "string \<Rightarrow> string \<Rightarrow> string list" where
  "fields_from w [] = (if w = [] then [] else [w])"
| "fields_from w (c # cs) =
     (if is_space c then (if w = [] then fields_from [] cs else w # fields_from [] cs)
      else fields_from (w @ [c]) cs)"

definition Fields :: "string \<Rightarrow> string list" where
  "Fields s = fields_from [] s"

definition is_upper :: "char \<Rightarrow> bool" where
  "is_upper c \<longleftrightarrow> 65 \<le> (of_char c :: nat) \<and> (of_char c :: nat) \<le> 90"

definition is_lower :: "char \<Rightarrow> bool" where
  "is_lower c \<longleftrightarrow> 97 \<le> (of_char c :: nat) \<and> (of_char c :: nat) \<le> 122"

definition is_digit :: "char \<Rightarrow> bool" where
  "is_digit c \<longleftrightarrow> 48 \<le> (of_char c :: nat) \<and> (of_char c :: nat) \<le> 57"

definition lower_char :: "char \<Rightarrow> char" where
  "lower_char c = (if is_upper c then char_of ((of_char c :: nat) + 32) else c)"

definition upper_char :: "char \<Rightarrow> char" where
  "upper_char c = (if is_lower c then char_of ((of_char c :: nat) - 32) else c)"

text \<open>Case mapping of ASCII text, which is all the driver applies it to.\<close>

definition ToLower :: "string \<Rightarrow> string" where
  "ToLower s = map lower_char s"

definition ToUpper :: "string \<Rightarrow> string" where
  "ToUpper s = map upper_char s"

text \<open>\<open>strings.ReplaceAll\<close> with a one-byte pattern and an empty replacement.\<close>

definition remove_char :: "char \<Rightarrow> string \<Rightarrow> string" where
  "remove_char c s = filter (\<lambda>x. x \<noteq> c) s"

subsection \<open>Facts about package strings\<close>

lemma HasPrefix_iff [str_simps]: "HasPrefix s p \<longleftrightarrow> (\<exists>r. s = p @ r)"
  by (auto simp: HasPrefix_def) (metis append_take_drop_id)

lemma HasSuffix_iff [str_simps]: "HasSuffix s p \<longleftrightarrow> (\<exists>r. s = r @ p)"
  by (auto simp: HasSuffix_def) (metis append_take_drop_id)

lemma HasPrefix_append [simp]: "HasPrefix (p @ r) p"
  by (auto simp: HasPrefix_iff)

lemma HasPrefix_Nil [simp]: "HasPrefix s []"
  by (simp add: HasPrefix_iff)

lemma HasPrefix_trans: "HasPrefix s p \<Longrightarrow> HasPrefix p q \<Longrightarrow> HasPrefix s q"
  by (auto simp: HasPrefix_iff)

lemma Contains_iff [str_simps]: "Contains s p \<longleftrightarrow> (\<exists>a b. s = a @ p @ b)"
proof (induction s)
  case Nil
  then show ?case by auto
next
  case (Cons c s)
  show ?case
  proof
    assume "Contains (c # s) p"
    then consider "HasPrefix (c # s) p" | "Contains s p" by auto
    then show "\<exists>a b. c # s = a @ p @ b"
    proof cases
      case 1
      then obtain r where "c # s = [] @ p @ r" by (auto simp: HasPrefix_iff)
      then show ?thesis by blast
    next
      case 2
      with Cons.IH obtain a b where "s = a @ p @ b" by blast
      then have "c # s = (c # a) @ p @ b" by simp
      then show ?thesis by blast
    qed
  next
    assume "\<exists>a b. c # s = a @ p @ b"
    then obtain a b where ab: "c # s = a @ p @ b" by blast
    show "Contains (c # s) p"
    proof (cases a)
      case Nil
      with ab have "HasPrefix (c # s) p" by (auto simp: HasPrefix_iff)
      then show ?thesis by simp
    next
      case (Cons d a')
      with ab have "s = a' @ p @ b" by simp
      with Cons.IH show ?thesis by auto
    qed
  qed
qed

lemma Contains_single [simp]: "Contains s [c] \<longleftrightarrow> c \<in> set s"
  by (auto simp: Contains_iff dest: split_list)

lemma TrimPrefix_append [simp]: "TrimPrefix (p @ s) p = s"
  by (simp add: TrimPrefix_def)

lemma TrimSuffix_append [simp]: "TrimSuffix (s @ p) p = s"
  by (auto simp: TrimSuffix_def HasSuffix_iff)

lemma Split_not_Nil [simp]: "Split sep s \<noteq> []"
  by (cases s) (auto split: list.splits)

lemma Split_nosep: "sep \<notin> set s \<Longrightarrow> Split sep s = [s]"
  by (induction s) auto

lemma Split_append: "sep \<notin> set w \<Longrightarrow> Split sep (w @ sep # s) = w # Split sep s"
  by (induction w) auto

lemma Split_parts_nosep: "w \<in> set (Split sep s) \<Longrightarrow> sep \<notin> set w"
proof (induction s arbitrary: w)
  case Nil
  then show ?case by simp
next
  case (Cons c s)
  obtain v vs where vs: "Split sep s = v # vs" by (cases "Split sep s") auto
  with Cons show ?case by (auto split: if_splits)
qed

lemma Join_Split [simp]: "Join sep (Split sep s) = s"
proof (induction s)
  case Nil
  then show ?case by simp
next
  case (Cons c s)
  obtain v vs where vs: "Split sep s = v # vs" by (cases "Split sep s") auto
  show ?case using Cons vs by (cases vs) auto
qed

lemma Split_Join:
  "ws \<noteq> [] \<Longrightarrow> \<forall>w \<in> set ws. sep \<notin> set w \<Longrightarrow> Split sep (Join sep ws) = ws"
  by (induction sep ws rule: Join.induct) (auto simp: Split_nosep Split_append)

lemma is_digit_iff: "is_digit c \<longleftrightarrow> (of_char c :: nat) \<in> {48..57}"
  by (auto simp: is_digit_def)

lemma length_ToLower [simp]: "length (ToLower s) = length s"
  by (simp add: ToLower_def)

lemma ToLower_append [simp]: "ToLower (a @ b) = ToLower a @ ToLower b"
  by (simp add: ToLower_def)

lemma lower_char_id: "\<not> is_upper c \<Longrightarrow> lower_char c = c"
  by (simp add: lower_char_def)

lemma ToLower_id: "list_all (\<lambda>c. \<not> is_upper c) s \<Longrightarrow> ToLower s = s"
  by (induction s) (auto simp: ToLower_def lower_char_id)

subsection \<open>Packages strconv and fmt: decimal numbers\<close>

definition digit_char :: "nat \<Rightarrow> char" where
  "digit_char d = char_of (48 + d)"

definition digit_val :: "char \<Rightarrow> nat" where
  "digit_val c = of_char c - 48"

fun dec_nat :: "nat \<Rightarrow> string" where
  "dec_nat n = (if n < 10 then [digit_char n] else dec_nat (n div 10) @ [digit_char (n mod 10)])"

declare dec_nat.simps [simp del]

text \<open>\<^verbatim>\<open>strconv.Itoa\<close> and the verb \<^verbatim>\<open>%d\<close>.\<close>

definition Itoa :: "int \<Rightarrow> string" where
  "Itoa i = (if i < 0 then CHR ''-'' # dec_nat (nat (- i)) else dec_nat (nat i))"

definition digits_val :: "string \<Rightarrow> nat" where
  "digits_val s = foldl (\<lambda>n c. 10 * n + digit_val c) 0 s"

definition in_int64 :: "int \<Rightarrow> bool" where
  "in_int64 i \<longleftrightarrow> min_int64 \<le> i \<and> i \<le> max_int64"

text \<open>Unsigned decimal text: at least one digit and nothing else.\<close>

definition parse_digits :: "string \<Rightarrow> nat option" where
  "parse_digits s = (if s \<noteq> [] \<and> list_all is_digit s then Some (digits_val s) else None)"

text \<open>
  \<^verbatim>\<open>strconv.Atoi\<close> and \<^verbatim>\<open>strconv.ParseInt(s, 10, 64)\<close> on a 64-bit platform: an optional sign, digits,
  and an error (\<open>None\<close>) for anything else or for a value outside \<open>int64\<close>.
\<close>

definition Atoi :: "string \<Rightarrow> int option" where
  "Atoi s =
     (let (neg, ds) = (case s of [] \<Rightarrow> (False, [])
                       | c # cs \<Rightarrow> if c = CHR ''-'' then (True, cs)
                                   else if c = CHR ''+'' then (False, cs) else (False, s))
      in case parse_digits ds of
           None \<Rightarrow> None
         | Some n \<Rightarrow> (let i = (if neg then - int n else int n)
                      in if in_int64 i then Some i else None))"

text \<open>
  \<^verbatim>\<open>fmt.Sscanf(s, "%d", &x)\<close>: leading blanks are skipped, then an optional sign and the longest run
  of digits are read; the text after them is ignored.
\<close>

definition sscanf_blank :: "char \<Rightarrow> bool" where
  "sscanf_blank c \<longleftrightarrow> is_space c \<and> c \<noteq> CHR 0x0A"

definition Sscanf_d :: "string \<Rightarrow> int option" where
  "Sscanf_d s =
     (let t = dropWhile sscanf_blank s;
          (sg, ds) = (case t of [] \<Rightarrow> ([], [])
                      | c # cs \<Rightarrow> if c = CHR ''-'' \<or> c = CHR ''+'' then ([c], cs) else ([], t))
      in Atoi (sg @ takeWhile is_digit ds))"

lemma digit_char_is_digit: "d < 10 \<Longrightarrow> is_digit (digit_char d)"
  by (simp add: is_digit_def digit_char_def)

lemma digit_val_digit_char [simp]: "d < 10 \<Longrightarrow> digit_val (digit_char d) = d"
  by (simp add: digit_val_def digit_char_def)

lemma dec_nat_not_Nil [simp]: "dec_nat n \<noteq> []"
  by (subst dec_nat.simps) simp

lemma dec_nat_digits: "list_all is_digit (dec_nat n)"
proof (induction n rule: dec_nat.induct)
  case (1 n)
  show ?case
  proof (cases "n < 10")
    case True
    then show ?thesis by (subst dec_nat.simps) (simp add: digit_char_is_digit)
  next
    case False
    with 1 show ?thesis by (subst dec_nat.simps) (simp add: digit_char_is_digit)
  qed
qed

lemma digits_val_snoc: "digits_val (s @ [c]) = 10 * digits_val s + digit_val c"
  by (simp add: digits_val_def)

lemma digits_val_dec_nat [simp]: "digits_val (dec_nat n) = n"
proof (induction n rule: dec_nat.induct)
  case (1 n)
  show ?case
  proof (cases "n < 10")
    case True
    then show ?thesis by (subst dec_nat.simps) (simp add: digits_val_def)
  next
    case False
    with 1 show ?thesis by (subst dec_nat.simps) (simp add: digits_val_snoc)
  qed
qed

lemma parse_digits_dec_nat [simp]: "parse_digits (dec_nat n) = Some n"
  by (simp add: parse_digits_def dec_nat_digits)

lemma is_digit_sign [simp]: "\<not> is_digit (CHR ''-'')" "\<not> is_digit (CHR ''+'')"
  by (simp_all add: is_digit_def)

lemma Atoi_minus: "Atoi (CHR ''-'' # s) =
    (case parse_digits s of None \<Rightarrow> None
     | Some n \<Rightarrow> if in_int64 (- int n) then Some (- int n) else None)"
  by (simp add: Atoi_def Let_def split: option.splits)

lemma Atoi_digits: "s = c # cs \<Longrightarrow> is_digit c \<Longrightarrow> Atoi s =
    (case parse_digits s of None \<Rightarrow> None
     | Some n \<Rightarrow> if in_int64 (int n) then Some (int n) else None)"
  by (auto simp: Atoi_def Let_def split: option.splits)

lemma Atoi_Itoa [simp]: "in_int64 i \<Longrightarrow> Atoi (Itoa i) = Some i"
proof (cases "i < 0")
  case True
  assume "in_int64 i"
  with True show ?thesis by (simp add: Itoa_def Atoi_minus)
next
  case False
  assume i: "in_int64 i"
  obtain c cs where c: "dec_nat (nat i) = c # cs" by (cases "dec_nat (nat i)") auto
  with dec_nat_digits [of "nat i"] have "is_digit c" by simp
  from Atoi_digits [OF c this] False i show ?thesis
    by (simp add: Itoa_def)
qed

lemma Atoi_range: "Atoi s = Some i \<Longrightarrow> in_int64 i"
  by (auto simp: Atoi_def Let_def split: prod.splits option.splits if_splits)

lemma Itoa_inj: "in_int64 i \<Longrightarrow> in_int64 j \<Longrightarrow> Itoa i = Itoa j \<Longrightarrow> i = j"
  by (metis Atoi_Itoa option.inject)

text \<open>\<^verbatim>\<open>strconv.Quote\<close> and the verb \<^verbatim>\<open>%q\<close>, for ASCII text.\<close>

definition hex_char :: "nat \<Rightarrow> char" where
  "hex_char d = (if d < 10 then char_of (48 + d) else char_of (87 + d))"

definition quote_char :: "char \<Rightarrow> string" where
  "quote_char c =
     (if c = CHR 0x22 then [CHR 0x5C, CHR 0x22] else if c = CHR 0x5C then [CHR 0x5C, CHR 0x5C]
      else if c = CHR 0x07 then [CHR 0x5C, CHR ''a''] else if c = CHR 0x08 then [CHR 0x5C, CHR ''b'']
      else if c = CHR 0x0C then [CHR 0x5C, CHR ''f''] else if c = CHR 0x0A then [CHR 0x5C, CHR ''n'']
      else if c = CHR 0x0D then [CHR 0x5C, CHR ''r''] else if c = CHR 0x09 then [CHR 0x5C, CHR ''t'']
      else if c = CHR 0x0B then [CHR 0x5C, CHR ''v'']
      else if (of_char c :: nat) < 32 \<or> (of_char c :: nat) = 127
      then [CHR 0x5C, CHR ''x'', hex_char (of_char c div 16), hex_char (of_char c mod 16)] else [c])"

definition Quote :: "string \<Rightarrow> string" where
  "Quote s = CHR 0x22 # concat (map quote_char s) @ [CHR 0x22]"

subsection \<open>Errors and status codes\<close>

text \<open>The sentinel errors of \<^verbatim>\<open>pkg/utils/errors.go\<close>.\<close>

datatype sentinel =
    ErrVolumeNotFound | ErrVolumeExists | ErrNodeNotFound | ErrInvalidParameter
  | ErrResourceExhausted | ErrOperationTimeout | ErrConnectionFailed | ErrDeviceNotFound
  | ErrDeviceInUse | ErrMountFailed | ErrUnmountFailed

fun sentinel_msg :: "sentinel \<Rightarrow> string" where
  "sentinel_msg ErrVolumeNotFound = ''volume not found''"
| "sentinel_msg ErrVolumeExists = ''volume already exists''"
| "sentinel_msg ErrNodeNotFound = ''node not found''"
| "sentinel_msg ErrInvalidParameter = ''invalid parameter''"
| "sentinel_msg ErrResourceExhausted = ''resource exhausted''"
| "sentinel_msg ErrOperationTimeout = ''operation timeout''"
| "sentinel_msg ErrConnectionFailed = ''connection failed''"
| "sentinel_msg ErrDeviceNotFound = ''device not found''"
| "sentinel_msg ErrDeviceInUse = ''device in use''"
| "sentinel_msg ErrMountFailed = ''mount failed''"
| "sentinel_msg ErrUnmountFailed = ''unmount failed''"

datatype goerr =
    GoErr string \<comment> \<open>\<^verbatim>\<open>errors.New\<close>, or \<^verbatim>\<open>fmt.Errorf\<close> without \<^verbatim>\<open>%w\<close>\<close>
  | GoWrap string goerr string \<comment> \<open>\<^verbatim>\<open>fmt.Errorf\<close> with \<^verbatim>\<open>%w\<close>: text before, wrapped error, text after\<close>
  | Sentinel sentinel
  | VolumeNotFoundError string
  | SnapshotNotFoundError string

fun err_msg :: "goerr \<Rightarrow> string" where
  "err_msg (GoErr m) = m"
| "err_msg (GoWrap pre e post) = pre @ err_msg e @ post"
| "err_msg (Sentinel s) = sentinel_msg s"
| "err_msg (VolumeNotFoundError slot) = ''volume not found: '' @ slot"
| "err_msg (SnapshotNotFoundError name) = ''snapshot not found: '' @ name"

text \<open>\<^verbatim>\<open>errors.Is\<close> against a sentinel, and \<^verbatim>\<open>errors.As\<close> for the two typed errors.\<close>

fun errors_is :: "goerr \<Rightarrow> sentinel \<Rightarrow> bool" where
  "errors_is (GoErr m) s = False"
| "errors_is (GoWrap pre e post) s = errors_is e s"
| "errors_is (Sentinel t) s = (t = s)"
| "errors_is (VolumeNotFoundError v) s = False"
| "errors_is (SnapshotNotFoundError v) s = False"

fun as_volume_not_found :: "goerr \<Rightarrow> bool" where
  "as_volume_not_found (VolumeNotFoundError v) = True"
| "as_volume_not_found (GoWrap pre e post) = as_volume_not_found e"
| "as_volume_not_found _ = False"

fun as_snapshot_not_found :: "goerr \<Rightarrow> bool" where
  "as_snapshot_not_found (SnapshotNotFoundError v) = True"
| "as_snapshot_not_found (GoWrap pre e post) = as_snapshot_not_found e"
| "as_snapshot_not_found _ = False"

text \<open>The error of \<^verbatim>\<open>strconv.Atoi\<close>, for a text it does not accept.\<close>

definition atoi_error :: "string \<Rightarrow> goerr" where
  "atoi_error s =
     (let ds = (case s of [] \<Rightarrow> [] | c # cs \<Rightarrow> if c = CHR ''-'' \<or> c = CHR ''+'' then cs else s)
      in GoErr (''strconv.Atoi: parsing '' @ Quote s @
           (if parse_digits ds = None then '': invalid syntax'' else '': value out of range'')))"

abbreviation wrap_err :: "string \<Rightarrow> goerr \<Rightarrow> goerr" where
  "wrap_err pre e \<equiv> GoWrap pre e []"

text \<open>\<^verbatim>\<open>utils.WrapVolumeError\<close>.\<close>

definition WrapVolumeError :: "sentinel \<Rightarrow> string \<Rightarrow> string \<Rightarrow> goerr" where
  "WrapVolumeError s volumeID details =
     (if details \<noteq> [] then GoWrap (''volume '' @ volumeID @ '': '' @ details @ '': '') (Sentinel s) []
      else GoWrap (''volume '' @ volumeID @ '': '') (Sentinel s) [])"

lemma errors_is_WrapVolumeError [simp]: "errors_is (WrapVolumeError s v d) t \<longleftrightarrow> s = t"
  by (simp add: WrapVolumeError_def)

datatype grpc_code =
    InvalidArgument | NotFound | AlreadyExists | ResourceExhausted | FailedPrecondition
  | Aborted | OutOfRange | Unimplemented | Internal | Unavailable

subsection \<open>Maps\<close>

text \<open>A Go map read yields the zero value for a missing key.\<close>

definition map_str :: "(string \<rightharpoonup> string) \<Rightarrow> string \<Rightarrow> string" where
  "map_str m k = (case m k of None \<Rightarrow> [] | Some v \<Rightarrow> v)"

end
