(* ===== verification/Locks.thy ===== *)
theory Locks
  imports Prelude
begin

text \<open>
  The per-volume locks: \<^verbatim>\<open>pkg/attachment/lock.go\<close>. Any number of goroutines call \<^verbatim>\<open>Lock\<close> and \<^verbatim>\<open>Unlock\<close>;
  a state holds the owner of the manager mutex \<open>mu\<close>, the map from volumes to mutexes (mutexes are
  addresses, so that two volumes could share one or a volume could get a second one if the code were
  wrong), the owner of every mutex and the position of every goroutine in the two methods. The step
  relation interleaves them at every lock operation. The invariant gives mutual exclusion per volume,
  which is what allows the operations of the attachment manager to be modelled as single steps.
\<close>

type_synonym addr = nat
type_synonym thread = nat

datatype lock_pc =
    Idle
  | LockStart string \<comment> \<open>in \<^verbatim>\<open>Lock\<close>, before \<^verbatim>\<open>vlm.mu.Lock()\<close>\<close>
  | LockMu string \<comment> \<open>in \<^verbatim>\<open>Lock\<close>, holding \<open>mu\<close>\<close>
  | LockWait string addr \<comment> \<open>in \<^verbatim>\<open>Lock\<close>, before \<^verbatim>\<open>lock.Lock()\<close>\<close>
  | Holding string \<comment> \<open>between \<^verbatim>\<open>Lock\<close> and \<^verbatim>\<open>Unlock\<close>\<close>
  | UnlockStart string \<comment> \<open>in \<^verbatim>\<open>Unlock\<close>, before \<^verbatim>\<open>vlm.mu.Lock()\<close>\<close>
  | UnlockMu string \<comment> \<open>in \<^verbatim>\<open>Unlock\<close>, holding \<open>mu\<close>\<close>
  | UnlockFree string addr \<comment> \<open>in \<^verbatim>\<open>Unlock\<close>, before \<^verbatim>\<open>lock.Unlock()\<close>\<close>

record VolumeLockManager =
  mu :: "thread option"
  locks :: "string \<rightharpoonup> addr"
  fresh :: addr \<comment> \<open>the next address the allocator gives out\<close>
  owner :: "addr \<Rightarrow> thread option"
  pc :: "thread \<Rightarrow> lock_pc"

definition NewVolumeLockManager :: VolumeLockManager where
  "NewVolumeLockManager =
     \<lparr>mu = None, locks = Map.empty, fresh = 0, owner = (\<lambda>_. None), pc = (\<lambda>_. Idle)\<rparr>"

text \<open>The part of \<^verbatim>\<open>Lock\<close> under the manager mutex: find the mutex of the volume, or allocate it.\<close>

definition get_or_create :: "string \<Rightarrow> VolumeLockManager \<Rightarrow> addr \<times> VolumeLockManager" where
  "get_or_create volumeID s =
     (case locks s volumeID of
        Some a \<Rightarrow> (a, s)
      | None \<Rightarrow> (fresh s, s\<lparr>locks := (locks s)(volumeID \<mapsto> fresh s), fresh := Suc (fresh s)\<rparr>))"

definition goto :: "thread \<Rightarrow> lock_pc \<Rightarrow> VolumeLockManager \<Rightarrow> VolumeLockManager" where
  "goto t p s = s\<lparr>pc := (pc s)(t := p)\<rparr>"

inductive lock_step :: "thread \<Rightarrow> VolumeLockManager \<Rightarrow> VolumeLockManager \<Rightarrow> bool" where
  call_Lock: "pc s t = Idle \<Longrightarrow> lock_step t s (goto t (LockStart v) s)"
| Lock_mu: "pc s t = LockStart v \<Longrightarrow> mu s = None \<Longrightarrow>
    lock_step t s (goto t (LockMu v) (s\<lparr>mu := Some t\<rparr>))"
| Lock_get: "pc s t = LockMu v \<Longrightarrow> get_or_create v s = (a, s') \<Longrightarrow>
    lock_step t s (goto t (LockWait v a) (s'\<lparr>mu := None\<rparr>))"
| Lock_acquire: "pc s t = LockWait v a \<Longrightarrow> owner s a = None \<Longrightarrow>
    lock_step t s (goto t (Holding v) (s\<lparr>owner := (owner s)(a := Some t)\<rparr>))"
| call_Unlock: "pc s t = Holding v \<Longrightarrow> lock_step t s (goto t (UnlockStart v) s)"
| Unlock_mu: "pc s t = UnlockStart v \<Longrightarrow> mu s = None \<Longrightarrow>
    lock_step t s (goto t (UnlockMu v) (s\<lparr>mu := Some t\<rparr>))"
| Unlock_found: "pc s t = UnlockMu v \<Longrightarrow> locks s v = Some a \<Longrightarrow>
    lock_step t s (goto t (UnlockFree v a) (s\<lparr>mu := None\<rparr>))"
| Unlock_missing: "pc s t = UnlockMu v \<Longrightarrow> locks s v = None \<Longrightarrow>
    lock_step t s (goto t Idle (s\<lparr>mu := None\<rparr>))"
| Unlock_free: "pc s t = UnlockFree v a \<Longrightarrow>
    lock_step t s (goto t Idle (s\<lparr>owner := (owner s)(a := None)\<rparr>))"

inductive lock_reachable :: "VolumeLockManager \<Rightarrow> bool" where
  start: "lock_reachable NewVolumeLockManager"
| step: "lock_reachable s \<Longrightarrow> lock_step t s s' \<Longrightarrow> lock_reachable s'"

inductive_cases lock_stepE: "lock_step t s s'"

subsection \<open>The invariant\<close>

text \<open>The volume whose lock a goroutine holds, from the end of \<^verbatim>\<open>Lock\<close> to the end of \<^verbatim>\<open>Unlock\<close>.\<close>

fun holds :: "lock_pc \<Rightarrow> string option" where
  "holds (Holding v) = Some v"
| "holds (UnlockStart v) = Some v"
| "holds (UnlockMu v) = Some v"
| "holds (UnlockFree v a) = Some v"
| "holds _ = None"

fun in_mu :: "lock_pc \<Rightarrow> bool" where
  "in_mu (LockMu v) = True"
| "in_mu (UnlockMu v) = True"
| "in_mu _ = False"

fun knows :: "lock_pc \<Rightarrow> (string \<times> addr) option" where
  "knows (LockWait v a) = Some (v, a)"
| "knows (UnlockFree v a) = Some (v, a)"
| "knows _ = None"

text \<open>
  The six parts of the invariant, over the maps that describe a state: who is inside \<open>mu\<close>, which
  addresses are allocated, that no two volumes share one, that a remembered address is the one filed,
  and that holding a volume and owning its mutex are the same thing.
\<close>

definition mu_inv :: "thread option \<Rightarrow> (thread \<Rightarrow> bool) \<Rightarrow> bool" where
  "mu_inv m i \<longleftrightarrow> (\<forall>t. m = Some t \<longleftrightarrow> i t)"

definition alloc_inv :: "(string \<rightharpoonup> addr) \<Rightarrow> addr \<Rightarrow> bool" where
  "alloc_inv l f \<longleftrightarrow> (\<forall>v a. l v = Some a \<longrightarrow> a < f) \<and> (\<forall>u v a. l u = Some a \<longrightarrow> l v = Some a \<longrightarrow> u = v)"

definition know_inv :: "(string \<rightharpoonup> addr) \<Rightarrow> (thread \<Rightarrow> (string \<times> addr) option) \<Rightarrow> bool" where
  "know_inv l k \<longleftrightarrow> (\<forall>t v a. k t = Some (v, a) \<longrightarrow> l v = Some a)"

definition own_inv :: "(string \<rightharpoonup> addr) \<Rightarrow> (addr \<Rightarrow> thread option) \<Rightarrow> (thread \<Rightarrow> string option) \<Rightarrow> bool" where
  "own_inv l own h \<longleftrightarrow>
     (\<forall>t v. h t = Some v \<longrightarrow> (\<exists>a. l v = Some a \<and> own a = Some t)) \<and>
     (\<forall>a t. own a = Some t \<longrightarrow> (\<exists>v. l v = Some a \<and> h t = Some v))"

definition lock_inv :: "VolumeLockManager \<Rightarrow> bool" where
  "lock_inv s \<longleftrightarrow> mu_inv (mu s) (in_mu \<circ> pc s) \<and> alloc_inv (locks s) (fresh s) \<and>
     know_inv (locks s) (knows \<circ> pc s) \<and> own_inv (locks s) (owner s) (holds \<circ> pc s)"

lemma lock_invD:
  assumes "lock_inv s"
  shows "mu s = Some t \<longleftrightarrow> in_mu (pc s t)"
    and "locks s v = Some a \<Longrightarrow> a < fresh s"
    and "locks s u = Some a \<Longrightarrow> locks s v = Some a \<Longrightarrow> u = v"
    and "knows (pc s t) = Some (v, a) \<Longrightarrow> locks s v = Some a"
    and "holds (pc s t) = Some v \<Longrightarrow> \<exists>a. locks s v = Some a \<and> owner s a = Some t"
    and "owner s a = Some t \<Longrightarrow> \<exists>v. locks s v = Some a \<and> holds (pc s t) = Some v"
  using assms unfolding lock_inv_def mu_inv_def alloc_inv_def know_inv_def own_inv_def comp_def by blast+

lemma upd_same: "f (g t) = x \<Longrightarrow> (f \<circ> g)(t := x) = f \<circ> g"
  by auto

lemma mu_inv_enter: "mu_inv None i \<Longrightarrow> mu_inv (Some t) (i(t := True))"
  by (auto simp: mu_inv_def)

lemma mu_inv_leave: "mu_inv m i \<Longrightarrow> i t \<Longrightarrow> mu_inv None (i(t := False))"
  unfolding mu_inv_def by (metis fun_upd_apply option.distinct(1) option.inject)

lemma know_inv_forget: "know_inv l k \<Longrightarrow> know_inv l (k(t := None))"
  by (auto simp: know_inv_def)

lemma know_inv_learn: "know_inv l k \<Longrightarrow> l v = Some a \<Longrightarrow> know_inv l (k(t := Some (v, a)))"
  by (auto simp: know_inv_def)

lemma know_inv_create: "know_inv l k \<Longrightarrow> l v = None \<Longrightarrow> know_inv (l(v \<mapsto> a)) k"
  unfolding know_inv_def by fastforce

lemma alloc_inv_create: "alloc_inv l f \<Longrightarrow> alloc_inv (l(v \<mapsto> f)) (Suc f)"
  unfolding alloc_inv_def by (auto simp: less_Suc_eq split: if_splits)

lemma own_inv_create:
  assumes "own_inv l own h" "l v = None"
  shows "own_inv (l(v \<mapsto> a)) own h"
proof -
  have "h t \<noteq> Some v" for t using assms unfolding own_inv_def by fastforce
  with assms(1) show ?thesis unfolding own_inv_def by (metis fun_upd_other)
qed

lemma own_inv_acquire:
  assumes "own_inv l own h" "l v = Some a" "own a = None" "h t = None"
  shows "own_inv l (own(a := Some t)) (h(t := Some v))"
proof -
  have n: "own b \<noteq> Some t" for b using assms(1,4) unfolding own_inv_def by fastforce
  have "\<exists>b. l u = Some b \<and> (own(a := Some t)) b = Some t'" if "(h(t := Some v)) t' = Some u" for t' u
  proof (cases "t' = t")
    case True
    with that assms(2) show ?thesis by auto
  next
    case False
    with that have "h t' = Some u" by simp
    then obtain b where b: "l u = Some b" "own b = Some t'" using assms(1) unfolding own_inv_def by blast
    with assms(3) have "b \<noteq> a" by auto
    with b show ?thesis by auto
  qed
  moreover have "\<exists>u. l u = Some b \<and> (h(t := Some v)) t' = Some u" if "(own(a := Some t)) b = Some t'" for t' b
    using that assms n by (cases "b = a") (auto simp: own_inv_def)
  ultimately show ?thesis unfolding own_inv_def by blast
qed

lemma own_inv_free:
  assumes "own_inv l own h" "l v = Some a" "h t = Some v" "\<And>u w b. l u = Some b \<Longrightarrow> l w = Some b \<Longrightarrow> u = w"
  shows "own_inv l (own(a := None)) (h(t := None))"
proof -
  have o: "own a = Some t" using assms(1-3) unfolding own_inv_def by fastforce
  have u: "b = a" if "own b = Some t" for b using that assms(1-3) unfolding own_inv_def by fastforce
  have "\<exists>b. l w = Some b \<and> (own(a := None)) b = Some t'" if "(h(t := None)) t' = Some w" for t' w
  proof -
    from that have "t' \<noteq> t" "h t' = Some w" by (auto split: if_splits)
    then obtain b where "l w = Some b" "own b = Some t'" using assms(1) unfolding own_inv_def by blast
    with o \<open>t' \<noteq> t\<close> show ?thesis by (intro exI [of _ b]) auto
  qed
  moreover have "\<exists>w. l w = Some b \<and> (h(t := None)) t' = Some w" if "(own(a := None)) b = Some t'" for t' b
  proof -
    from that have "b \<noteq> a" "own b = Some t'" by (auto split: if_splits)
    moreover from this u have "t' \<noteq> t" by blast
    ultimately show ?thesis using assms(1) unfolding own_inv_def by simp
  qed
  ultimately show ?thesis unfolding own_inv_def by blast
qed

lemma get_or_create_inv:
  assumes "lock_inv s" "get_or_create v s = (a, s')"
  shows "lock_inv s' \<and> locks s' v = Some a \<and> pc s' = pc s"
proof (cases "locks s v")
  case (Some b)
  with assms show ?thesis by (auto simp: get_or_create_def)
next
  case None
  then have "a = fresh s" "s' = s\<lparr>locks := (locks s)(v \<mapsto> fresh s), fresh := Suc (fresh s)\<rparr>"
    using assms(2) by (auto simp: get_or_create_def)
  with None assms(1) show ?thesis
    by (simp add: lock_inv_def alloc_inv_create know_inv_create own_inv_create)
qed

lemma lock_inv_init: "lock_inv NewVolumeLockManager"
  by (simp add: lock_inv_def NewVolumeLockManager_def mu_inv_def alloc_inv_def know_inv_def own_inv_def)

lemmas lock_parts = lock_inv_def goto_def fun_upd_comp upd_same know_inv_forget

lemma lock_inv_step:
  assumes "lock_step t s s'" "lock_inv s"
  shows "lock_inv s'"
  using assms
proof (induction rule: lock_step.induct)
  case (Lock_get s t v a s')
  then have g: "lock_inv s'" "locks s' v = Some a" "pc s' = pc s" using get_or_create_inv by blast+
  have "mu_inv None ((in_mu \<circ> pc s)(t := False))"
    using g Lock_get.hyps(1) mu_inv_leave [of "mu s'" "in_mu \<circ> pc s'" t] by (simp add: lock_inv_def)
  with g Lock_get.hyps(1) show ?case by (simp add: lock_parts know_inv_learn)
next
  case (Lock_acquire s t v a)
  then have "locks s v = Some a" using lock_invD(4) [of s t v a] by simp
  with Lock_acquire show ?case by (simp add: lock_parts own_inv_acquire)
next
  case (Unlock_found s t v a)
  then have "mu_inv None ((in_mu \<circ> pc s)(t := False))"
    using mu_inv_leave [of "mu s" "in_mu \<circ> pc s" t] by (simp add: lock_inv_def)
  with Unlock_found show ?case by (simp add: lock_parts know_inv_learn)
next
  case (Unlock_missing s t v)
  then show ?case using lock_invD(5) [of s t v] by simp
next
  case (Unlock_free s t v a)
  then have l: "locks s v = Some a" using lock_invD(4) [of s t v a] by simp
  have "own_inv (locks s) ((owner s)(a := None)) ((holds \<circ> pc s)(t := None))"
    using Unlock_free l lock_invD(3) by (intro own_inv_free [where v = v]) (auto simp: lock_inv_def)
  with Unlock_free show ?case by (simp add: lock_parts)
qed (simp_all add: lock_parts mu_inv_enter)

lemma lock_inv_reachable: "lock_reachable s \<Longrightarrow> lock_inv s"
  by (induction rule: lock_reachable.induct) (auto intro: lock_inv_init lock_inv_step)

subsection \<open>Properties\<close>

text \<open>C27. Whatever the interleaving, two goroutines never hold the lock of the same volume at the same
  time (from the end of \<^verbatim>\<open>Lock\<close> to the end of \<^verbatim>\<open>Unlock\<close>), and each mutex in use belongs to one volume.\<close>

theorem volume_lock_exclusive:
  assumes "lock_reachable s" and "holds (pc s t) = Some v" and "holds (pc s t') = Some v"
  shows "t = t' \<and> (\<exists>a. locks s v = Some a \<and> owner s a = Some t \<and> (\<forall>u. locks s u = Some a \<longrightarrow> u = v))"
proof -
  note i = lock_inv_reachable [OF assms(1)]
  obtain a where "locks s v = Some a" "owner s a = Some t" "owner s a = Some t'"
    using lock_invD(5) [OF i assms(2)] lock_invD(5) [OF i assms(3)] by auto
  then show ?thesis using lock_invD(3) [OF i] by auto
qed

text \<open>The manager mutex is never a bottleneck: a goroutine that holds it can always take its next
  step, whatever volume lock others hold, and releases it with that step. A goroutine that waits for a
  volume lock held by nobody can acquire it.\<close>

theorem manager_mutex_released:
  assumes "lock_reachable s"
  shows "(mu s = Some t \<longrightarrow> (\<exists>s'. lock_step t s s')) \<and>
    (mu s = Some t \<and> lock_step t s s' \<longrightarrow> mu s' = None) \<and>
    (pc s t = LockWait v a \<and> (\<forall>u. holds (pc s u) \<noteq> Some v) \<longrightarrow> lock_step t s (goto t (Holding v) (s\<lparr>owner := (owner s)(a := Some t)\<rparr>)))"
proof (intro conjI impI)
  note i = lock_inv_reachable [OF assms]
  show "\<exists>s'. lock_step t s s'" if "mu s = Some t"
  proof -
    from that lock_invD(1) [OF i] consider v where "pc s t = LockMu v" | v where "pc s t = UnlockMu v"
      by (cases "pc s t") auto
    then show ?thesis
    proof cases
      case (1 v)
      then show ?thesis using Lock_get [OF 1, of _ "snd (get_or_create v s)"] by (metis prod.collapse)
    next
      case (2 v)
      then show ?thesis using Unlock_found [OF 2] Unlock_missing [OF 2] by (cases "locks s v") blast+
    qed
  qed
  show "mu s' = None" if "mu s = Some t \<and> lock_step t s s'"
    using that lock_invD(1) [OF i, of t] by (auto elim!: lock_stepE simp: goto_def)
  show "lock_step t s (goto t (Holding v) (s\<lparr>owner := (owner s)(a := Some t)\<rparr>))"
    if p: "pc s t = LockWait v a \<and> (\<forall>u. holds (pc s u) \<noteq> Some v)"
  proof (rule Lock_acquire)
    show "pc s t = LockWait v a" using p by simp
    then have "locks s v = Some a" using lock_invD(4) [OF i, of t] by simp
    then show "owner s a = None"
      using lock_invD(6) [OF i, of a] lock_invD(3) [OF i] p by (metis not_None_eq)
  qed
qed

lemma reach_two:
  "lock_reachable (goto 0 (LockMu ''v'') ((goto 0 (LockStart ''v'') NewVolumeLockManager)\<lparr>mu := Some 0\<rparr>))"
proof -
  have "lock_step 0 NewVolumeLockManager (goto 0 (LockStart ''v'') NewVolumeLockManager)"
    by (rule call_Lock) (simp add: NewVolumeLockManager_def)
  moreover have "lock_step 0 (goto 0 (LockStart ''v'') NewVolumeLockManager)
      (goto 0 (LockMu ''v'') ((goto 0 (LockStart ''v'') NewVolumeLockManager)\<lparr>mu := Some 0\<rparr>))"
    by (rule Lock_mu) (simp_all add: NewVolumeLockManager_def goto_def)
  ultimately show ?thesis by (blast intro: lock_reachable.intros)
qed

lemma reach_holding: "\<exists>s. lock_reachable s \<and> pc s 0 = Holding ''v''"
proof -
  let ?s = "goto 0 (LockMu ''v'') ((goto 0 (LockStart ''v'') NewVolumeLockManager)\<lparr>mu := Some 0\<rparr>)"
  let ?s1 = "goto 0 (LockWait ''v'' 0) ((snd (get_or_create ''v'' ?s))\<lparr>mu := None\<rparr>)"
  have "lock_step 0 ?s ?s1"
    by (rule Lock_get) (simp_all add: goto_def get_or_create_def NewVolumeLockManager_def)
  moreover have "lock_step 0 ?s1 (goto 0 (Holding ''v'') (?s1\<lparr>owner := (owner ?s1)(0 := Some 0)\<rparr>))"
    by (rule Lock_acquire) (simp_all add: goto_def get_or_create_def NewVolumeLockManager_def)
  ultimately have "lock_reachable (goto 0 (Holding ''v'') (?s1\<lparr>owner := (owner ?s1)(0 := Some 0)\<rparr>))"
    using reach_two by (blast intro: lock_reachable.step)
  then show ?thesis by (intro exI conjI) (auto simp: goto_def)
qed

theorem volume_lock_exclusive_witness:
  "\<exists>s. lock_reachable s \<and> holds (pc s 0) = Some ''v'' \<and> (\<exists>a. locks s ''v'' = Some a \<and> owner s a = Some 0)"
proof -
  obtain s where s: "lock_reachable s" "pc s 0 = Holding ''v''" using reach_holding by blast
  then have "holds (pc s 0) = Some ''v''" by simp
  with volume_lock_exclusive [OF s(1) this this] s show ?thesis by blast
qed

theorem manager_mutex_released_witness:
  "\<exists>s s'. lock_reachable s \<and> mu s = Some 0 \<and> lock_step 0 s s' \<and> mu s' = None"
proof -
  let ?s = "goto 0 (LockMu ''v'') ((goto 0 (LockStart ''v'') NewVolumeLockManager)\<lparr>mu := Some 0\<rparr>)"
  have m: "mu ?s = Some 0" by (simp add: goto_def)
  then obtain s' where "lock_step 0 ?s s'" using manager_mutex_released [OF reach_two, of 0] by blast
  with m manager_mutex_released [OF reach_two, of 0 s'] reach_two show ?thesis by blast
qed

end
