(* ===== verification/Pool.thy ===== *)
theory Pool
  imports Prelude
begin

text \<open>
  The connection pool and its circuit breaker: \<^verbatim>\<open>pkg/rds/pool.go\<close>. Clients are values of a type \<open>'c\<close>;
  what \<^verbatim>\<open>IsConnected\<close> says of them, the result of the rate limiter and the result of the factory are
  arguments. \<^verbatim>\<open>Get\<close> is cut where it releases the pool mutex: \<open>get_pop\<close> is one turn of the loop over the
  idle connections with the reservation of a slot, \<open>get_created\<close> what follows the factory call. \<open>Get\<close>
  composes them for a single goroutine; the relation \<open>pool_step\<close> lets any number of goroutines interleave
  them with \<^verbatim>\<open>Put\<close> and \<^verbatim>\<open>Close\<close>.
\<close>

subsection \<open>The circuit breaker\<close>

datatype CircuitState = CircuitClosed | CircuitOpen | CircuitHalfOpen

record CircuitBreaker =
  cb_threshold :: int
  cb_timeout :: duration
  cb_failures :: int
  cb_lastFailTime :: time
  cb_state :: CircuitState

definition NewCircuitBreaker :: "int \<Rightarrow> duration \<Rightarrow> CircuitBreaker" where
  "NewCircuitBreaker threshold timeout =
     \<lparr>cb_threshold = threshold, cb_timeout = timeout, cb_failures = 0, cb_lastFailTime = zero_time,
      cb_state = CircuitClosed\<rparr>"

definition Allow :: "time \<Rightarrow> CircuitBreaker \<Rightarrow> bool \<times> CircuitBreaker" where
  "Allow now cb =
     (case cb_state cb of
        CircuitClosed \<Rightarrow> (True, cb)
      | CircuitOpen \<Rightarrow>
          if sub_time now (cb_lastFailTime cb) > cb_timeout cb
          then (True, cb\<lparr>cb_state := CircuitHalfOpen, cb_failures := 0\<rparr>)
          else (False, cb)
      | CircuitHalfOpen \<Rightarrow> (True, cb))"

definition RecordSuccess :: "CircuitBreaker \<Rightarrow> CircuitBreaker" where
  "RecordSuccess cb =
     (let cb = (if cb_state cb = CircuitHalfOpen then cb\<lparr>cb_state := CircuitClosed\<rparr> else cb)
      in cb\<lparr>cb_failures := 0\<rparr>)"

definition RecordFailure :: "time \<Rightarrow> CircuitBreaker \<Rightarrow> CircuitBreaker" where
  "RecordFailure now cb =
     (let cb = cb\<lparr>cb_failures := cb_failures cb + 1, cb_lastFailTime := now\<rparr>
      in if cb_failures cb \<ge> cb_threshold cb
         then if cb_state cb \<noteq> CircuitOpen then cb\<lparr>cb_state := CircuitOpen\<rparr> else cb
         else cb)"

definition GetState :: "CircuitBreaker \<Rightarrow> CircuitState" where
  "GetState cb = cb_state cb"

subsection \<open>The pool\<close>

record PoolMetrics =
  totalConnections :: int
  activeConnections :: int
  idleConnections :: int
  connectionErrors :: int
  circuitBreaks :: int
  rateLimitHits :: int
  waitTimeTotal :: duration
  waitCount :: int

record 'c pooledConnection =
  pc_client :: 'c
  pc_lastUsed :: time

record 'c ConnectionPool =
  maxSize :: int
  maxIdle :: int
  idleTime :: duration
  breaker :: CircuitBreaker
  idle :: "'c pooledConnection list"
  active :: int
  closed :: bool
  metrics :: PoolMetrics

record PoolConfig =
  cfg_Factory :: bool \<comment> \<open>the function is not \<^verbatim>\<open>nil\<close>\<close>
  cfg_MaxSize :: int
  cfg_MaxIdle :: int
  cfg_IdleTimeout :: duration
  cfg_CircuitBreakerThreshold :: int
  cfg_CircuitBreakerTimeout :: duration

definition NewConnectionPool :: "PoolConfig \<Rightarrow> goerr + 'c ConnectionPool" where
  "NewConnectionPool config =
     (if \<not> cfg_Factory config then Inl (GoErr ''factory function is required'')
      else
        (let MaxSize = (if cfg_MaxSize config \<le> 0 then 10 else cfg_MaxSize config);
             MaxIdle = (if cfg_MaxIdle config \<le> 0 then 5 else cfg_MaxIdle config);
             MaxIdle = (if MaxIdle > MaxSize then MaxSize else MaxIdle);
             IdleTimeout = (if cfg_IdleTimeout config = 0 then 5 * minute else cfg_IdleTimeout config);
             Threshold = (if cfg_CircuitBreakerThreshold config \<le> 0 then 5 else cfg_CircuitBreakerThreshold config);
             Timeout = (if cfg_CircuitBreakerTimeout config = 0 then 30 * second else cfg_CircuitBreakerTimeout config)
         in Inr \<lparr>maxSize = MaxSize, maxIdle = MaxIdle, idleTime = IdleTimeout,
                 breaker = NewCircuitBreaker Threshold Timeout, idle = [], active = 0, closed = False,
                 metrics = \<lparr>totalConnections = 0, activeConnections = 0, idleConnections = 0,
                   connectionErrors = 0, circuitBreaks = 0, rateLimitHits = 0, waitTimeTotal = 0, waitCount = 0\<rparr>\<rparr>))"

definition updateMetrics :: "'c ConnectionPool \<Rightarrow> 'c ConnectionPool" where
  "updateMetrics p =
     p\<lparr>metrics := (metrics p)\<lparr>activeConnections := active p, idleConnections := int (length (idle p))\<rparr>\<rparr>"

definition incrementTotal :: "PoolMetrics \<Rightarrow> PoolMetrics" where
  "incrementTotal m = m\<lparr>totalConnections := totalConnections m + 1\<rparr>"

definition incrementErrors :: "PoolMetrics \<Rightarrow> PoolMetrics" where
  "incrementErrors m = m\<lparr>connectionErrors := connectionErrors m + 1\<rparr>"

definition incrementCircuitBreaks :: "PoolMetrics \<Rightarrow> PoolMetrics" where
  "incrementCircuitBreaks m = m\<lparr>circuitBreaks := circuitBreaks m + 1\<rparr>"

definition incrementRateLimitHits :: "PoolMetrics \<Rightarrow> PoolMetrics" where
  "incrementRateLimitHits m = m\<lparr>rateLimitHits := rateLimitHits m + 1\<rparr>"

definition recordWait :: "duration \<Rightarrow> PoolMetrics \<Rightarrow> PoolMetrics" where
  "recordWait d m = m\<lparr>waitTimeTotal := waitTimeTotal m + d, waitCount := waitCount m + 1\<rparr>"

definition GetMetrics :: "'c ConnectionPool \<Rightarrow> PoolMetrics" where
  "GetMetrics p = metrics p"

text \<open>One turn of the loop in \<^verbatim>\<open>Get\<close>, under the mutex, and what the goroutine does after it.\<close>

datatype 'c popped =
    Stale 'c \<comment> \<open>close it and try again\<close>
  | Reused 'c
  | Exhausted
  | Reserved \<comment> \<open>call the factory\<close>

definition get_pop :: "time \<Rightarrow> bool \<Rightarrow> 'c ConnectionPool \<Rightarrow> 'c popped \<times> 'c ConnectionPool" where
  "get_pop now isConnected p =
     (if length (idle p) > 0 then
        (let conn = last (idle p); p = p\<lparr>idle := butlast (idle p)\<rparr>
         in if since now (pc_lastUsed conn) > idleTime p \<or> \<not> isConnected then (Stale (pc_client conn), p)
            else (Reused (pc_client conn), updateMetrics (p\<lparr>active := active p + 1\<rparr>)))
      else if active p \<ge> maxSize p then (Exhausted, p)
      else (Reserved, p\<lparr>active := active p + 1\<rparr>))"

definition get_created :: "time \<Rightarrow> goerr + 'c \<Rightarrow> 'c ConnectionPool \<Rightarrow> (goerr + 'c) \<times> 'c ConnectionPool" where
  "get_created now made p =
     (case made of
        Inl err \<Rightarrow>
          (Inl (wrap_err ''failed to create connection: '' err),
           p\<lparr>active := active p - 1, metrics := incrementErrors (metrics p), breaker := RecordFailure now (breaker p)\<rparr>)
      | Inr client \<Rightarrow>
          (Inr client,
           updateMetrics (p\<lparr>metrics := incrementTotal (metrics p), breaker := RecordSuccess (breaker p)\<rparr>)))"

lemma get_pop_shrinks: "get_pop now con p = (Stale c, p') \<Longrightarrow> length (idle p') < length (idle p)"
  by (auto simp: get_pop_def Let_def split: if_splits)

text \<open>The loop of one goroutine that is not disturbed: it ends because each turn removes an idle connection.\<close>

function get_loop :: "(nat \<Rightarrow> time) \<Rightarrow> ('c \<Rightarrow> bool) \<Rightarrow> goerr + 'c \<Rightarrow> nat \<Rightarrow> 'c ConnectionPool
    \<Rightarrow> (goerr + 'c) \<times> 'c ConnectionPool" where
  "get_loop clk isConnected made i p =
     (case get_pop (clk i) (isConnected (pc_client (last (idle p)))) p of
        (Stale c, p') \<Rightarrow> get_loop clk isConnected made (Suc i) p'
      | (Reused c, p') \<Rightarrow> (Inr c, p')
      | (Exhausted, p') \<Rightarrow> (Inl (GoErr ''connection pool exhausted''), p')
      | (Reserved, p') \<Rightarrow> get_created (clk (Suc i)) made p')"
  by pat_completeness auto
termination
  by (relation "measure (\<lambda>(clk, con, made, i, p). length (idle p))") (auto dest: get_pop_shrinks [OF sym])

declare get_loop.simps [simp del]

definition Get :: "(nat \<Rightarrow> time) \<Rightarrow> goerr option \<Rightarrow> ('c \<Rightarrow> bool) \<Rightarrow> goerr + 'c \<Rightarrow> 'c ConnectionPool
    \<Rightarrow> (goerr + 'c) \<times> 'c ConnectionPool" where
  "Get clk limiterWait isConnected made p =
     (if closed p then (Inl (GoErr ''connection pool is closed''), p)
      else
        (let (allowed, cb) = Allow (clk 0) (breaker p); p = p\<lparr>breaker := cb\<rparr>
         in if \<not> allowed
            then (Inl (GoErr ''circuit breaker is open''), p\<lparr>metrics := incrementCircuitBreaks (metrics p)\<rparr>)
            else
              (case limiterWait of
                 Some err \<Rightarrow>
                   (Inl (wrap_err ''rate limit wait failed: '' err),
                    p\<lparr>metrics := incrementRateLimitHits (metrics p)\<rparr>)
               | None \<Rightarrow>
                   get_loop clk isConnected made 3
                     (p\<lparr>metrics := recordWait (since (clk 2) (clk 1)) (metrics p)\<rparr>))))"

definition Put :: "time \<Rightarrow> 'c option \<Rightarrow> bool \<Rightarrow> 'c ConnectionPool \<Rightarrow> 'c list \<times> 'c ConnectionPool" where
  \<comment> \<open>the first component lists the clients closed by the call\<close>
  "Put now client isConnected p =
     (case client of
        None \<Rightarrow> ([], p)
      | Some client \<Rightarrow>
          if closed p then ([client], p)
          else
            (let p = p\<lparr>active := active p - 1\<rparr>
             in if int (length (idle p)) \<ge> maxIdle p \<or> \<not> isConnected then ([client], updateMetrics p)
                else ([], updateMetrics (p\<lparr>idle := idle p @ [\<lparr>pc_client = client, pc_lastUsed = now\<rparr>]\<rparr>))))"

definition Close :: "'c ConnectionPool \<Rightarrow> 'c list \<times> 'c ConnectionPool" where
  "Close p =
     (if closed p then ([], p)
      else (map pc_client (idle p), p\<lparr>closed := True, idle := []\<rparr>))"

subsection \<open>Interleaved use\<close>

text \<open>
  The pool with the goroutines that use it: how many are between the reservation of a slot and the
  result of the factory, and how many connections have been handed out and not given back.
\<close>

record 'c pool_sys =
  the_pool :: "'c ConnectionPool"
  creating :: nat
  lent :: nat

inductive pool_step :: "'c pool_sys \<Rightarrow> 'c pool_sys \<Rightarrow> bool" where
  check: "pool_step s (s\<lparr>the_pool := (the_pool s)\<lparr>breaker := snd (Allow now (breaker (the_pool s)))\<rparr>\<rparr>)"
| pop_stale: "get_pop now con (the_pool s) = (Stale c, p) \<Longrightarrow> pool_step s (s\<lparr>the_pool := p\<rparr>)"
| pop_reused: "get_pop now con (the_pool s) = (Reused c, p) \<Longrightarrow> pool_step s (s\<lparr>the_pool := p, lent := Suc (lent s)\<rparr>)"
| pop_exhausted: "get_pop now con (the_pool s) = (Exhausted, p) \<Longrightarrow> pool_step s (s\<lparr>the_pool := p\<rparr>)"
| pop_reserved: "get_pop now con (the_pool s) = (Reserved, p) \<Longrightarrow>
    pool_step s (s\<lparr>the_pool := p, creating := Suc (creating s)\<rparr>)"
| created: "creating s = Suc n \<Longrightarrow> get_created now (Inr c) (the_pool s) = (r, p) \<Longrightarrow>
    pool_step s (s\<lparr>the_pool := p, creating := n, lent := Suc (lent s)\<rparr>)"
| creation_failed: "creating s = Suc n \<Longrightarrow> get_created now (Inl e) (the_pool s) = (r, p) \<Longrightarrow>
    pool_step s (s\<lparr>the_pool := p, creating := n\<rparr>)"
| put: "lent s = Suc n \<Longrightarrow> Put now (Some c) con (the_pool s) = (cl, p) \<Longrightarrow> pool_step s (s\<lparr>the_pool := p, lent := n\<rparr>)"
| close: "Close (the_pool s) = (cl, p) \<Longrightarrow> pool_step s (s\<lparr>the_pool := p\<rparr>)"

inductive pool_reachable :: "PoolConfig \<Rightarrow> 'c pool_sys \<Rightarrow> bool" for cfg where
  start: "NewConnectionPool cfg = Inr p \<Longrightarrow> pool_reachable cfg \<lparr>the_pool = p, creating = 0, lent = 0\<rparr>"
| step: "pool_reachable cfg s \<Longrightarrow> pool_step s s' \<Longrightarrow> pool_reachable cfg s'"

subsection \<open>The pool never holds more connections than its size\<close>

definition pool_inv :: "'c pool_sys \<Rightarrow> bool" where
  "pool_inv s \<longleftrightarrow> (let p = the_pool s in
     0 < maxIdle p \<and> maxIdle p \<le> maxSize p \<and>
     int (length (idle p)) \<le> maxIdle p \<and> active p + int (length (idle p)) \<le> maxSize p \<and>
     int (creating s + lent s) \<le> active p \<and>
     (closed p \<longrightarrow> idle p = []) \<and> (\<not> closed p \<longrightarrow> active p = int (creating s + lent s)))"

lemma updateMetrics_fields [simp]:
  "maxSize (updateMetrics p) = maxSize p" "maxIdle (updateMetrics p) = maxIdle p"
  "idleTime (updateMetrics p) = idleTime p" "breaker (updateMetrics p) = breaker p"
  "idle (updateMetrics p) = idle p" "active (updateMetrics p) = active p" "closed (updateMetrics p) = closed p"
  by (simp_all add: updateMetrics_def)

lemma pool_inv_init: "NewConnectionPool cfg = Inr p \<Longrightarrow> pool_inv \<lparr>the_pool = p, creating = 0, lent = 0\<rparr>"
  by (auto simp: NewConnectionPool_def pool_inv_def Let_def split: if_splits)

lemma pool_inv_pop:
  assumes "pool_inv s" "get_pop now con (the_pool s) = (r, p)"
  shows "pool_inv (s\<lparr>the_pool := p, lent := (case r of Reused c \<Rightarrow> Suc (lent s) | _ \<Rightarrow> lent s),
    creating := (case r of Reserved \<Rightarrow> Suc (creating s) | _ \<Rightarrow> creating s)\<rparr>)"
proof (cases "idle (the_pool s) = []")
  case True
  with assms show ?thesis
    by (auto simp: get_pop_def pool_inv_def Let_def split: if_splits)
next
  case False
  then have "int (length (butlast (idle (the_pool s)))) = int (length (idle (the_pool s))) - 1"
    by (simp add: of_nat_diff Suc_leI)
  with False assms show ?thesis
    by (auto simp: get_pop_def pool_inv_def Let_def split: if_splits)
qed

lemma pool_inv_step:
  assumes "pool_step s s'" "pool_inv s"
  shows "pool_inv s'"
  using assms
proof (induction rule: pool_step.induct)
  case (check s now)
  then show ?case by (simp add: pool_inv_def Let_def)
next
  case (pop_stale now con s c p)
  then show ?case using pool_inv_pop [OF pop_stale(2,1)] by simp
next
  case (pop_reused now con s c p)
  then show ?case using pool_inv_pop [OF pop_reused(2,1)] by simp
next
  case (pop_exhausted now con s p)
  then show ?case using pool_inv_pop [OF pop_exhausted(2,1)] by simp
next
  case (pop_reserved now con s p)
  then show ?case using pool_inv_pop [OF pop_reserved(2,1)] by simp
next
  case (created s n now c r p)
  then show ?case by (auto simp: get_created_def pool_inv_def Let_def)
next
  case (creation_failed s n now e r p)
  then show ?case by (auto simp: get_created_def pool_inv_def Let_def)
next
  case (put s n now c con cl p)
  then show ?case by (auto simp: Put_def pool_inv_def Let_def split: if_splits)
next
  case (close s cl p)
  then show ?case by (auto simp: Close_def pool_inv_def Let_def split: if_splits)
qed

lemma pool_inv_reachable: "pool_reachable cfg s \<Longrightarrow> pool_inv s"
  by (induction rule: pool_reachable.induct) (auto intro: pool_inv_init pool_inv_step)

subsection \<open>The breaker as a function of the recorded results\<close>

datatype cb_event = CSuccess | CFailure time

fun cb_apply :: "CircuitBreaker \<Rightarrow> cb_event \<Rightarrow> CircuitBreaker" where
  "cb_apply cb CSuccess = RecordSuccess cb"
| "cb_apply cb (CFailure t) = RecordFailure t cb"

definition is_failure :: "cb_event \<Rightarrow> bool" where
  "is_failure e \<longleftrightarrow> e \<noteq> CSuccess"

definition trailing_failures :: "cb_event list \<Rightarrow> nat" where
  "trailing_failures es = length (takeWhile is_failure (rev es))"

lemma trailing_snoc:
  "trailing_failures (es @ [e]) = (if is_failure e then Suc (trailing_failures es) else 0)"
  by (simp add: trailing_failures_def)

lemma trailing_run:
  "k \<le> trailing_failures es \<longleftrightarrow> (\<exists>pre mid. es = pre @ mid \<and> length mid = k \<and> list_all is_failure mid)"
proof
  let ?t = "takeWhile is_failure (rev es)"
  assume k: "k \<le> trailing_failures es"
  then have "take k (?t @ dropWhile is_failure (rev es)) = take k ?t"
    unfolding take_append by (simp add: trailing_failures_def)
  then have t: "take k (rev es) = take k ?t" by simp
  have "es = rev (drop k (rev es)) @ rev (take k (rev es))"
    by (simp add: rev_append [symmetric] del: rev_append)
  moreover have "length (rev (take k (rev es))) = k" using k by (simp add: t trailing_failures_def)
  moreover have "list_all is_failure (rev (take k (rev es)))"
    unfolding t by (auto simp: list_all_iff dest: in_set_takeD set_takeWhileD)
  ultimately show "\<exists>pre mid. es = pre @ mid \<and> length mid = k \<and> list_all is_failure mid" by blast
next
  assume "\<exists>pre mid. es = pre @ mid \<and> length mid = k \<and> list_all is_failure mid"
  then obtain pre mid where "es = pre @ mid" "length mid = k" "list_all is_failure mid" by blast
  moreover from this have "takeWhile is_failure (rev mid @ rev pre) = rev mid @ takeWhile is_failure (rev pre)"
    by (intro takeWhile_append2) (auto simp: list_all_iff)
  ultimately show "k \<le> trailing_failures es" by (simp add: trailing_failures_def)
qed

lemma cb_run_state:
  assumes "1 \<le> n"
  shows "let cb = foldl cb_apply (NewCircuitBreaker (int n) tmo) es in
    cb_threshold cb = int n \<and> cb_timeout cb = tmo \<and> cb_failures cb = int (trailing_failures es) \<and>
    cb_state cb = (if \<exists>pre post. es = pre @ post \<and> n \<le> trailing_failures pre then CircuitOpen else CircuitClosed)"
proof (induction es rule: rev_induct)
  case Nil
  then show ?case using assms by (simp add: NewCircuitBreaker_def trailing_failures_def)
next
  case (snoc e es)
  have ex: "(\<exists>pre post. es @ [e] = pre @ post \<and> n \<le> trailing_failures pre) \<longleftrightarrow>
      (\<exists>pre post. es = pre @ post \<and> n \<le> trailing_failures pre) \<or> n \<le> trailing_failures (es @ [e])"
  proof
    assume "\<exists>pre post. es @ [e] = pre @ post \<and> n \<le> trailing_failures pre"
    then obtain pre post where p: "es @ [e] = pre @ post" "n \<le> trailing_failures pre" by blast
    then show "(\<exists>pre post. es = pre @ post \<and> n \<le> trailing_failures pre) \<or> n \<le> trailing_failures (es @ [e])"
      by (cases post rule: rev_cases) auto
  next
    assume "(\<exists>pre post. es = pre @ post \<and> n \<le> trailing_failures pre) \<or> n \<le> trailing_failures (es @ [e])"
    then show "\<exists>pre post. es @ [e] = pre @ post \<and> n \<le> trailing_failures pre"
      by (metis append.assoc append_Nil2)
  qed
  show ?case
    using snoc assms unfolding ex trailing_snoc
    by (cases e) (auto simp: Let_def RecordSuccess_def RecordFailure_def is_failure_def)
qed

subsection \<open>Properties\<close>

text \<open>C28. However goroutines interleave \<^verbatim>\<open>Get\<close>, \<^verbatim>\<open>Put\<close> and \<^verbatim>\<open>Close\<close>, the connections handed out, being created
  and idle together never exceed the maximum size, the idle ones never exceed the maximum of idle
  connections, the counter \<open>active\<close> of an open pool is exact, and a closed pool keeps no idle
  connection.\<close>

theorem pool_never_overcommits:
  assumes "pool_reachable cfg s"
  shows "int (lent s + creating s + length (idle (the_pool s))) \<le> maxSize (the_pool s) \<and>
    int (length (idle (the_pool s))) \<le> maxIdle (the_pool s) \<and>
    (if closed (the_pool s) then idle (the_pool s) = []
     else active (the_pool s) = int (lent s + creating s))"
  using pool_inv_reachable [OF assms] by (auto simp: pool_inv_def Let_def)

theorem pool_never_overcommits_witness:
  "\<exists>s :: nat pool_sys. pool_reachable \<lparr>cfg_Factory = True, cfg_MaxSize = 1, cfg_MaxIdle = 1, cfg_IdleTimeout = 0,
      cfg_CircuitBreakerThreshold = 0, cfg_CircuitBreakerTimeout = 0\<rparr> s \<and> lent s = 1 \<and>
    int (lent s + creating s + length (idle (the_pool s))) \<le> 1"
    (is "\<exists>s. pool_reachable ?cfg s \<and> _")
proof -
  obtain p :: "nat ConnectionPool" where p: "NewConnectionPool ?cfg = Inr p" "maxSize p = 1" "active p = 0" "idle p = []"
    by (simp add: NewConnectionPool_def)
  let ?s = "\<lparr>the_pool = p, creating = 0, lent = 0\<rparr>"
  have r: "get_pop 0 True p = (Reserved, p\<lparr>active := 1\<rparr>)" using p by (simp add: get_pop_def)
  let ?s1 = "\<lparr>the_pool = p\<lparr>active := 1\<rparr>, creating = 1, lent = 0\<rparr>"
  have 1: "pool_step ?s ?s1" using pop_reserved [of 0 True ?s "p\<lparr>active := 1\<rparr>"] r by simp
  obtain res p2 where c: "get_created 0 (Inr 7) (p\<lparr>active := 1\<rparr>) = (res, p2)" by fastforce
  have 2: "pool_step ?s1 \<lparr>the_pool = p2, creating = 0, lent = 1\<rparr>"
    using created [of ?s1 0 0 7 res p2] c by simp
  have reach: "pool_reachable ?cfg \<lparr>the_pool = p2, creating = 0, lent = 1\<rparr>"
    using pool_reachable.start [OF p(1)] 1 2 by (blast intro: pool_reachable.step)
  have "maxSize p2 = 1" using c p(2) by (auto simp: get_created_def)
  with reach pool_never_overcommits [OF reach] show ?thesis
    by (intro exI [of _ "\<lparr>the_pool = p2, creating = 0, lent = 1\<rparr>"]) simp
qed

text \<open>Between two calls of \<^verbatim>\<open>Allow\<close>, a breaker that started closed is open exactly when as many
  consecutive failures as the threshold have been recorded somewhere, and it counts the failures
  since the last success. An open breaker rejects until more than the timeout has passed since the
  last failure, and then turns half-open with its count reset; a success then closes it.\<close>

theorem breaker_opens_after_threshold:
  assumes "1 \<le> n" and "cb = foldl cb_apply (NewCircuitBreaker (int n) tmo) es"
  shows "cb_state cb = (if \<exists>pre mid post. es = pre @ mid @ post \<and> length mid = n \<and> list_all is_failure mid
      then CircuitOpen else CircuitClosed) \<and>
    (cb_state cb = CircuitOpen \<longrightarrow>
       (fst (Allow now cb) \<longleftrightarrow> sub_time now (cb_lastFailTime cb) > tmo) \<and>
       (fst (Allow now cb) \<longrightarrow> cb_state (snd (Allow now cb)) = CircuitHalfOpen \<and>
          cb_state (RecordSuccess (snd (Allow now cb))) = CircuitClosed \<and>
          cb_failures (snd (Allow now cb)) = 0))"
proof -
  have "(\<exists>pre post. es = pre @ post \<and> n \<le> trailing_failures pre) \<longleftrightarrow>
      (\<exists>pre mid post. es = pre @ mid @ post \<and> length mid = n \<and> list_all is_failure mid)"
    unfolding trailing_run by (metis append.assoc)
  then show ?thesis
    using cb_run_state [OF assms(1), of tmo es] assms(2)
    by (auto simp: Let_def Allow_def RecordSuccess_def)
qed

theorem breaker_opens_after_threshold_witness:
  "cb_state (foldl cb_apply (NewCircuitBreaker 2 5) [CFailure 1, CFailure 2]) = CircuitOpen"
proof -
  have "\<exists>pre mid post. [CFailure 1, CFailure 2] = pre @ mid @ post \<and> length mid = 2 \<and> list_all is_failure mid"
    by (intro exI [of _ "[]"] exI [of _ "[CFailure 1, CFailure 2]"]) (simp add: is_failure_def)
  then show ?thesis
    using breaker_opens_after_threshold [OF _ refl, of 2 5 "[CFailure 1, CFailure 2]"] by simp
qed

text \<open>A half-open breaker lets every request through and, with a threshold above one, a failed trial
  does not open it again.\<close>

lemma half_open_admits_all:
  "Allow now (cb\<lparr>cb_state := CircuitHalfOpen\<rparr>) = (True, cb\<lparr>cb_state := CircuitHalfOpen\<rparr>) \<and>
   (1 < cb_threshold cb \<longrightarrow>
     cb_state (RecordFailure now (cb\<lparr>cb_state := CircuitHalfOpen, cb_failures := 0\<rparr>)) = CircuitHalfOpen)"
  by (simp add: Allow_def RecordFailure_def)

text \<open>The pool is checked for being closed before the mutex is released: a connection can still be
  created and handed out after \<^verbatim>\<open>Close\<close>.\<close>

lemma get_after_close:
  "fst (get_pop now con (p\<lparr>closed := True, idle := [], active := 0, maxSize := 1\<rparr>)) = Reserved"
  by (simp add: get_pop_def)

end
