(* ===== verification/GoRegex.thy ===== *)
theory GoRegex
  imports Prelude
begin

text \<open>
  The part of Go's package \<^verbatim>\<open>regexp\<close> that the driver uses. A pattern of the source is transcribed as
  a value of type \<open>rx\<close>; \<open>rx_run\<close> lists the ways a pattern can match at a position in the order in
  which Go's leftmost-first semantics prefers them (greedy repetition, left alternative first), so
  the head of the list is the match Go reports. On top of it stand \<^verbatim>\<open>MatchString\<close>,
  \<^verbatim>\<open>FindStringSubmatch\<close>, \<^verbatim>\<open>Split\<close> and \<^verbatim>\<open>ReplaceAllString\<close>.

  A position is the byte before it (none at the start of the text) and the text after it; the byte
  before is what \<^verbatim>\<open>^\<close>, \<^verbatim>\<open>(?m)^\<close> and \<^verbatim>\<open>\b\<close> look at. The classes of the source are ASCII classes or
  complements of them, for which matching bytes and matching code points agree. No pattern of the
  source repeats an expression that matches the empty string.
\<close>

datatype rx =
    RCls "char \<Rightarrow> bool"
  | REps
  | RBeg
  | RBegLine
  | REnd
  | RWordB
  | RSeq rx rx
  | RAlt rx rx
  | RStar rx
  | RGrp rx

definition is_word :: "char \<Rightarrow> bool" where
  "is_word c \<longleftrightarrow> is_digit c \<or> is_upper c \<or> is_lower c \<or> c = CHR ''_''"

definition rx_space :: "char \<Rightarrow> bool" where
  "rx_space c \<longleftrightarrow> c \<in> {CHR '' '', CHR 0x09, CHR 0x0A, CHR 0x0C, CHR 0x0D}"

definition word_at :: "char option \<Rightarrow> bool" where
  "word_at p = (case p of None \<Rightarrow> False | Some c \<Rightarrow> is_word c)"

definition next_char :: "string \<Rightarrow> char option" where
  "next_char s = (case s of [] \<Rightarrow> None | c # _ \<Rightarrow> Some c)"

function rx_run :: "rx \<Rightarrow> char option \<Rightarrow> string \<Rightarrow> (char option \<times> string \<times> string list) list" where
  "rx_run (RCls P) p s =
     (case s of [] \<Rightarrow> [] | c # cs \<Rightarrow> if P c then [(Some c, cs, [])] else [])"
| "rx_run REps p s = [(p, s, [])]"
| "rx_run RBeg p s = (if p = None then [(p, s, [])] else [])"
| "rx_run RBegLine p s = (if p = None \<or> p = Some (CHR 0x0A) then [(p, s, [])] else [])"
| "rx_run REnd p s = (if s = [] then [(p, s, [])] else [])"
| "rx_run RWordB p s =
     (if word_at p \<noteq> word_at (next_char s) then [(p, s, [])] else [])"
| "rx_run (RSeq a b) p s =
     concat (map (\<lambda>(p1, s1, c1). map (\<lambda>(p2, s2, c2). (p2, s2, c1 @ c2)) (rx_run b p1 s1))
       (rx_run a p s))"
| "rx_run (RAlt a b) p s = rx_run a p s @ rx_run b p s"
| "rx_run (RStar a) p s =
     concat (map (\<lambda>(p1, s1, c1).
         if length s1 < length s
         then map (\<lambda>(p2, s2, c2). (p2, s2, c1 @ c2)) (rx_run (RStar a) p1 s1) else [])
       (rx_run a p s)) @ [(p, s, [])]"
| "rx_run (RGrp a) p s =
     map (\<lambda>(p1, s1, c1). (p1, s1, take (length s - length s1) s # c1)) (rx_run a p s)"
  by pat_completeness auto
termination
  by (relation "measures [\<lambda>(r, p, s). size r, \<lambda>(r, p, s). length s]") auto

declare rx_run.simps(9) [simp del] \<comment> \<open>the repetition unfolds without end on an open text\<close>

subsection \<open>Pattern abbreviations\<close>

fun rx_lit :: "string \<Rightarrow> rx" where
  "rx_lit [] = REps"
| "rx_lit (c # cs) = RSeq (RCls (\<lambda>x. x = c)) (rx_lit cs)"

fun rx_rep :: "nat \<Rightarrow> rx \<Rightarrow> rx" where
  "rx_rep 0 r = REps"
| "rx_rep (Suc n) r = RSeq r (rx_rep n r)"

fun rx_upto :: "nat \<Rightarrow> rx \<Rightarrow> rx" where
  "rx_upto 0 r = REps"
| "rx_upto (Suc n) r = RAlt (RSeq r (rx_upto n r)) REps"

definition rx_opt :: "rx \<Rightarrow> rx" where
  "rx_opt r = RAlt r REps"

definition rx_plus :: "rx \<Rightarrow> rx" where
  "rx_plus r = RSeq r (RStar r)"

fun rx_seq :: "rx list \<Rightarrow> rx" where
  "rx_seq [] = REps"
| "rx_seq (r # rs) = RSeq r (rx_seq rs)"

subsection \<open>Searching\<close>

text \<open>
  The leftmost match from a position on: the text skipped before it, the byte before the text after
  the match, that text, and the groups.
\<close>

fun rx_find :: "rx \<Rightarrow> char option \<Rightarrow> string
    \<Rightarrow> (string \<times> char option \<times> string \<times> string list) option" where
  "rx_find r p [] = (case rx_run r p [] of [] \<Rightarrow> None | (p1, s1, cs) # _ \<Rightarrow> Some ([], p1, s1, cs))"
| "rx_find r p (c # t) =
     (case rx_run r p (c # t) of
        (p1, s1, cs) # _ \<Rightarrow> Some ([], p1, s1, cs)
      | [] \<Rightarrow> (case rx_find r (Some c) t of
                None \<Rightarrow> None
              | Some (pre, p1, s1, cs) \<Rightarrow> Some (c # pre, p1, s1, cs)))"

definition MatchString :: "rx \<Rightarrow> string \<Rightarrow> bool" where
  "MatchString r s \<longleftrightarrow> rx_find r None s \<noteq> None"

text \<open>\<^verbatim>\<open>FindStringSubmatch\<close>: the groups of the leftmost match (index 1 of the source is index 0 here).\<close>

definition FindGroups :: "rx \<Rightarrow> string \<Rightarrow> string list option" where
  "FindGroups r s = map_option (\<lambda>(pre, p1, s1, cs). cs) (rx_find r None s)"

text \<open>The first group of the leftmost match.\<close>

definition FindGroup1 :: "rx \<Rightarrow> string \<Rightarrow> string option" where
  "FindGroup1 r s = (case FindGroups r s of Some (g # _) \<Rightarrow> Some g | _ \<Rightarrow> None)"

text \<open>
  \<^verbatim>\<open>Split(s, -1)\<close> and \<^verbatim>\<open>ReplaceAllString\<close> for a pattern that matches no empty text: successive
  non-overlapping matches from left to right. The fuel counts the bytes left; one match consumes at
  least one.
\<close>

fun rx_split :: "nat \<Rightarrow> rx \<Rightarrow> char option \<Rightarrow> string \<Rightarrow> string list" where
  "rx_split 0 r p s = [s]"
| "rx_split (Suc n) r p s =
     (case rx_find r p s of
        None \<Rightarrow> [s]
      | Some (pre, p1, s1, cs) \<Rightarrow> pre # rx_split n r p1 s1)"

definition RegexSplit :: "rx \<Rightarrow> string \<Rightarrow> string list" where
  "RegexSplit r s = rx_split (length s) r None s"

fun rx_replace :: "nat \<Rightarrow> rx \<Rightarrow> string \<Rightarrow> char option \<Rightarrow> string \<Rightarrow> string" where
  "rx_replace 0 r w p s = s"
| "rx_replace (Suc n) r w p s =
     (case rx_find r p s of
        None \<Rightarrow> s
      | Some (pre, p1, s1, cs) \<Rightarrow> pre @ w @ rx_replace n r w p1 s1)"

definition ReplaceAllString :: "rx \<Rightarrow> string \<Rightarrow> string \<Rightarrow> string" where
  "ReplaceAllString r s w = rx_replace (length s) r w None s"

subsection \<open>What a pattern can consume\<close>

text \<open>\<open>rx_ends r p s\<close>: the positions at which a match that starts at \<open>p, s\<close> can end.\<close>

definition rx_ends :: "rx \<Rightarrow> char option \<Rightarrow> string \<Rightarrow> (char option \<times> string) set" where
  "rx_ends r p s = (\<lambda>(p1, s1, c1). (p1, s1)) ` set (rx_run r p s)"

named_theorems rx_simps \<open>what a pattern consumes\<close>

lemma rx_ends_iff: "(p1, s1) \<in> rx_ends r p s \<longleftrightarrow> (\<exists>c. (p1, s1, c) \<in> set (rx_run r p s))"
  by (force simp: rx_ends_def)

lemma rx_ends_Cls [rx_simps]:
  "(p1, s1) \<in> rx_ends (RCls P) p s \<longleftrightarrow> (\<exists>c. s = c # s1 \<and> P c \<and> p1 = Some c)"
  by (auto simp: rx_ends_iff split: list.splits)

lemma rx_ends_Eps [rx_simps]: "(p1, s1) \<in> rx_ends REps p s \<longleftrightarrow> p1 = p \<and> s1 = s"
  by (auto simp: rx_ends_iff)

lemma rx_ends_Beg [rx_simps]: "(p1, s1) \<in> rx_ends RBeg p s \<longleftrightarrow> p = None \<and> p1 = p \<and> s1 = s"
  by (auto simp: rx_ends_iff)

lemma rx_ends_End [rx_simps]: "(p1, s1) \<in> rx_ends REnd p s \<longleftrightarrow> s = [] \<and> p1 = p \<and> s1 = s"
  by (auto simp: rx_ends_iff)

lemma in_rx_tag:
  "(p2, s2, c) \<in> (\<lambda>(p2, s2, c2). (p2, s2, c1 @ c2)) ` A \<longleftrightarrow>
     (\<exists>c2. (p2, s2, c2) \<in> A \<and> c = c1 @ c2)"
  by (auto simp: image_iff split: prod.splits)

lemma in_rx_bind:
  "(p2, s2, c) \<in> set (concat (map (\<lambda>(p1, s1, c1). map (\<lambda>(p2, s2, c2). (p2, s2, c1 @ c2)) (f p1 s1)) xs)) \<longleftrightarrow>
   (\<exists>p1 s1 c1 c2. (p1, s1, c1) \<in> set xs \<and> (p2, s2, c2) \<in> set (f p1 s1) \<and> c = c1 @ c2)"
proof (induction xs)
  case Nil then show ?case by simp
next
  case (Cons x xs)
  obtain p1 s1 c1 where x: "x = (p1, s1, c1)" by (cases x)
  let ?g = "\<lambda>xs. set (concat (map (\<lambda>(p1, s1, c1). map (\<lambda>(p2, s2, c2). (p2, s2, c1 @ c2)) (f p1 s1)) xs))"
  have "(p2, s2, c) \<in> ?g (x # xs) \<longleftrightarrow>
      (\<exists>c2. (p2, s2, c2) \<in> set (f p1 s1) \<and> c = c1 @ c2) \<or> (p2, s2, c) \<in> ?g xs"
    by (simp add: x in_rx_tag del: set_concat)
  also have "\<dots> \<longleftrightarrow> (\<exists>c2. (p2, s2, c2) \<in> set (f p1 s1) \<and> c = c1 @ c2) \<or>
      (\<exists>p1 s1 c1 c2. (p1, s1, c1) \<in> set xs \<and> (p2, s2, c2) \<in> set (f p1 s1) \<and> c = c1 @ c2)"
    by (simp only: Cons.IH)
  also have "\<dots> \<longleftrightarrow>
      (\<exists>p1 s1 c1 c2. (p1, s1, c1) \<in> set (x # xs) \<and> (p2, s2, c2) \<in> set (f p1 s1) \<and> c = c1 @ c2)"
    by (simp only: x list.set insert_iff prod.inject) blast
  finally show ?case .
qed

lemma in_rx_bind_if:
  "(p2, s2, c) \<in> set (concat (map (\<lambda>(p1, s1, c1). if Q s1 then map (\<lambda>(p2, s2, c2). (p2, s2, c1 @ c2)) (f p1 s1) else []) xs)) \<longleftrightarrow>
   (\<exists>p1 s1 c1 c2. (p1, s1, c1) \<in> set xs \<and> Q s1 \<and> (p2, s2, c2) \<in> set (f p1 s1) \<and> c = c1 @ c2)"
proof -
  have "(\<lambda>(p1, s1, c1). if Q s1 then map (\<lambda>(p2, s2, c2). (p2, s2, c1 @ c2)) (f p1 s1) else []) =
      (\<lambda>(p1, s1, c1). map (\<lambda>(p2, s2, c2). (p2, s2, c1 @ c2)) (if Q s1 then f p1 s1 else []))"
    by (auto simp: fun_eq_iff)
  then show ?thesis unfolding in_rx_bind by (simp only: in_rx_bind) (auto split: if_splits)
qed

lemma in_rx_run_Seq:
  "(p2, s2, c) \<in> set (rx_run (RSeq a b) p s) \<longleftrightarrow>
     (\<exists>p1 s1 c1 c2. (p1, s1, c1) \<in> set (rx_run a p s) \<and>
        (p2, s2, c2) \<in> set (rx_run b p1 s1) \<and> c = c1 @ c2)"
  unfolding rx_run.simps by (rule in_rx_bind)

lemma rx_ends_Seq [rx_simps]:
  "(p2, s2) \<in> rx_ends (RSeq a b) p s \<longleftrightarrow>
     (\<exists>p1 s1. (p1, s1) \<in> rx_ends a p s \<and> (p2, s2) \<in> rx_ends b p1 s1)"
  unfolding rx_ends_iff in_rx_run_Seq by blast

lemma rx_ends_Alt [rx_simps]:
  "(p1, s1) \<in> rx_ends (RAlt a b) p s \<longleftrightarrow>
     (p1, s1) \<in> rx_ends a p s \<or> (p1, s1) \<in> rx_ends b p s"
  by (auto simp: rx_ends_iff)

lemma rx_ends_Grp [rx_simps]: "(p1, s1) \<in> rx_ends (RGrp a) p s \<longleftrightarrow> (p1, s1) \<in> rx_ends a p s"
  by (force simp: rx_ends_iff)

lemma in_rx_run_Star:
  "(p2, s2, c) \<in> set (rx_run (RStar a) p s) \<longleftrightarrow>
     (p2 = p \<and> s2 = s \<and> c = []) \<or>
     (\<exists>p1 s1 c1 c2. (p1, s1, c1) \<in> set (rx_run a p s) \<and> length s1 < length s \<and>
        (p2, s2, c2) \<in> set (rx_run (RStar a) p1 s1) \<and> c = c1 @ c2)"
  by (subst rx_run.simps(9), simp only: set_append Un_iff in_rx_bind_if list.set) auto

lemma rx_ends_Star_unfold:
  "(p2, s2) \<in> rx_ends (RStar a) p s \<longleftrightarrow>
     (p2 = p \<and> s2 = s) \<or>
     (\<exists>p1 s1. (p1, s1) \<in> rx_ends a p s \<and> length s1 < length s \<and> (p2, s2) \<in> rx_ends (RStar a) p1 s1)"
  unfolding rx_ends_iff by (subst in_rx_run_Star) blast

text \<open>The byte before the position after \<open>w\<close> has been consumed.\<close>

definition after :: "char option \<Rightarrow> string \<Rightarrow> char option" where
  "after p w = (if w = [] then p else Some (last w))"

lemma after_Nil [simp]: "after p [] = p"
  by (simp add: after_def)

lemma after_Cons [simp]: "after p (c # w) = after (Some c) w"
  by (simp add: after_def)

lemma after_append [simp]: "after p (v @ w) = after (after p v) w"
  by (simp add: after_def)

lemma rx_ends_Star_Cls [rx_simps]:
  "(p1, s1) \<in> rx_ends (RStar (RCls P)) p s \<longleftrightarrow>
     (\<exists>w. s = w @ s1 \<and> list_all P w \<and> p1 = after p w)"
proof (induction s arbitrary: p)
  case Nil
  then show ?case
    by (subst rx_ends_Star_unfold) (auto simp: rx_ends_Cls)
next
  case (Cons c s)
  show ?case (is "?L \<longleftrightarrow> ?R")
  proof
    assume ?L
    then consider "p1 = p \<and> s1 = c # s" | "P c" "(p1, s1) \<in> rx_ends (RStar (RCls P)) (Some c) s"
      by (subst (asm) rx_ends_Star_unfold) (auto simp: rx_ends_Cls)
    then show ?R
    proof cases
      case 1
      then show ?thesis by (intro exI [of _ "[]"]) simp
    next
      case 2
      with Cons.IH obtain w where "s = w @ s1" "list_all P w" "p1 = after (Some c) w" by blast
      with 2 show ?thesis by (intro exI [of _ "c # w"]) simp
    qed
  next
    assume ?R
    then obtain w where w: "c # s = w @ s1" "list_all P w" "p1 = after p w" by blast
    show ?L
    proof (cases w)
      case Nil
      with w show ?thesis by (subst rx_ends_Star_unfold) simp
    next
      case (Cons d w')
      with w have s: "s = w' @ s1" and "d = c" "P c" "list_all P w'" "p1 = after (Some c) w'"
        by auto
      then have "(p1, s1) \<in> rx_ends (RStar (RCls P)) (Some c) s" using Cons.IH by blast
      with \<open>P c\<close> show ?thesis
        by (subst rx_ends_Star_unfold) (auto simp: rx_ends_Cls)
    qed
  qed
qed

lemma rx_ends_plus_Cls [rx_simps]:
  "(p1, s1) \<in> rx_ends (rx_plus (RCls P)) p s \<longleftrightarrow>
     (\<exists>w. w \<noteq> [] \<and> s = w @ s1 \<and> list_all P w \<and> p1 = after p w)"
proof
  assume "(p1, s1) \<in> rx_ends (rx_plus (RCls P)) p s"
  then obtain c t w where "s = c # t" "P c" "t = w @ s1" "list_all P w" "p1 = after (Some c) w"
    by (auto simp: rx_plus_def rx_ends_Seq rx_ends_Cls rx_ends_Star_Cls)
  then show "\<exists>w. w \<noteq> [] \<and> s = w @ s1 \<and> list_all P w \<and> p1 = after p w"
    by (intro exI [of _ "c # w"]) simp
next
  assume "\<exists>w. w \<noteq> [] \<and> s = w @ s1 \<and> list_all P w \<and> p1 = after p w"
  then obtain c w where "s = (c # w) @ s1" "list_all P (c # w)" "p1 = after p (c # w)"
    by (metis neq_Nil_conv)
  then show "(p1, s1) \<in> rx_ends (rx_plus (RCls P)) p s"
    by (auto simp: rx_plus_def rx_ends_Seq rx_ends_Cls rx_ends_Star_Cls)
qed

lemma rx_ends_lit [rx_simps]:
  "(p1, s1) \<in> rx_ends (rx_lit w) p s \<longleftrightarrow> s = w @ s1 \<and> p1 = after p w"
  by (induction w arbitrary: p s) (auto simp: rx_ends_Eps rx_ends_Seq rx_ends_Cls)

lemma rx_ends_rep_Cls [rx_simps]:
  "(p1, s1) \<in> rx_ends (rx_rep n (RCls P)) p s \<longleftrightarrow>
     (\<exists>w. length w = n \<and> s = w @ s1 \<and> list_all P w \<and> p1 = after p w)"
proof (induction n arbitrary: p s)
  case 0
  then show ?case by (auto simp: rx_ends_Eps)
next
  case (Suc n)
  show ?case
  proof
    assume "(p1, s1) \<in> rx_ends (rx_rep (Suc n) (RCls P)) p s"
    with Suc.IH obtain c w where "length w = n" "s = c # w @ s1" "P c" "list_all P w"
        "p1 = after (Some c) w"
      by (auto simp: rx_ends_Seq rx_ends_Cls)
    then show "\<exists>w. length w = Suc n \<and> s = w @ s1 \<and> list_all P w \<and> p1 = after p w"
      by (intro exI [of _ "c # w"]) simp
  next
    assume "\<exists>w. length w = Suc n \<and> s = w @ s1 \<and> list_all P w \<and> p1 = after p w"
    then obtain c w where "length w = n" "s = (c # w) @ s1" "list_all P (c # w)"
        "p1 = after p (c # w)"
      by (metis length_Suc_conv)
    with Suc.IH show "(p1, s1) \<in> rx_ends (rx_rep (Suc n) (RCls P)) p s"
      by (auto simp: rx_ends_Seq rx_ends_Cls)
  qed
qed

subsection \<open>Anchored patterns\<close>

lemma rx_find_None_iff:
  "rx_find r p s = None \<longleftrightarrow>
     (\<forall>pre t. s = pre @ t \<longrightarrow> rx_run r (after p pre) t = [])"
proof (induction s arbitrary: p)
  case Nil
  then show ?case by (auto split: list.splits)
next
  case (Cons c s)
  have "rx_find r p (c # s) = None \<longleftrightarrow> rx_run r p (c # s) = [] \<and> rx_find r (Some c) s = None"
    by (auto split: list.splits option.splits)
  also have "\<dots> \<longleftrightarrow> rx_run r p (c # s) = [] \<and>
      (\<forall>pre t. s = pre @ t \<longrightarrow> rx_run r (after (Some c) pre) t = [])"
    by (simp add: Cons.IH)
  also have "\<dots> \<longleftrightarrow> (\<forall>pre t. c # s = pre @ t \<longrightarrow> rx_run r (after p pre) t = [])"
  proof (intro iffI allI impI conjI)
    fix pre t
    assume "rx_run r p (c # s) = [] \<and>
        (\<forall>pre t. s = pre @ t \<longrightarrow> rx_run r (after (Some c) pre) t = [])" and "c # s = pre @ t"
    then show "rx_run r (after p pre) t = []" by (cases pre) auto
  next
    assume *: "\<forall>pre t. c # s = pre @ t \<longrightarrow> rx_run r (after p pre) t = []"
    then show "rx_run r p (c # s) = []" by (metis after_Nil append_Nil)
    fix pre t
    assume "s = pre @ t"
    then have "c # s = (c # pre) @ t" by simp
    with * have "rx_run r (after p (c # pre)) t = []" by blast
    then show "rx_run r (after (Some c) pre) t = []" by simp
  qed
  finally show ?case .
qed

lemma rx_run_Nil_iff: "rx_run r p s = [] \<longleftrightarrow> (\<forall>p1 s1. (p1, s1) \<notin> rx_ends r p s)"
proof -
  have "rx_ends r p s = {} \<longleftrightarrow> rx_run r p s = []" by (simp add: rx_ends_def)
  then show ?thesis by auto
qed

lemma after_eq_None [simp]: "after p w = None \<longleftrightarrow> p = None \<and> w = []"
  by (auto simp: after_def)

lemma MatchString_iff:
  "MatchString r s \<longleftrightarrow> (\<exists>pre t p1 s1. s = pre @ t \<and> (p1, s1) \<in> rx_ends r (after None pre) t)"
  by (auto simp: MatchString_def rx_find_None_iff rx_run_Nil_iff)

text \<open>A pattern that starts with \<^verbatim>\<open>^\<close> can only match at the start of the text.\<close>

lemma MatchString_Beg:
  "MatchString (RSeq RBeg r) s \<longleftrightarrow> (\<exists>p1 s1. (p1, s1) \<in> rx_ends r None s)"
proof -
  have "MatchString (RSeq RBeg r) s \<longleftrightarrow>
      (\<exists>pre t p1 s1. s = pre @ t \<and> after None pre = None \<and> (p1, s1) \<in> rx_ends r (after None pre) t)"
    by (auto simp: MatchString_iff rx_ends_Seq rx_ends_Beg)
  then show ?thesis by auto
qed

text \<open>\<^verbatim>\<open>^[class]+$\<close>: a non-empty text all of whose bytes are in the class.\<close>

lemma MatchString_class_plus:
  "MatchString (rx_seq [RBeg, rx_plus (RCls P), REnd]) s \<longleftrightarrow> s \<noteq> [] \<and> list_all P s"
  by (auto simp: MatchString_Beg rx_simps)

end
