(* ===== verification/VolumeID.thy ===== *)
theory VolumeID
  imports GoRegex
begin

text \<open>
  Identifiers: \<^verbatim>\<open>pkg/utils/volumeid.go\<close> and \<^verbatim>\<open>pkg/utils/snapshotid.go\<close>. The regular expressions are
  transcribed as \<open>rx\<close> values, the validators return the error they return in the source. The UUID
  library is a parameter: \<open>uuid5 name\<close> is the text of \<^verbatim>\<open>uuid.NewSHA1(volumeNamespace, name)\<close>, and
  \<open>is_uuid\<close> is the documented format of \<^verbatim>\<open>UUID.String\<close>. The lemmas characterise which texts each
  validator accepts, and show the conversions between volume IDs and NVMe Qualified Names correct.
\<close>

subsection \<open>Patterns\<close>

definition VolumeIDPrefix :: string where
  "VolumeIDPrefix = ''pvc-''"

definition NQNPrefix :: string where
  "NQNPrefix = ''nqn.2000-02.com.mikrotik''"

definition SnapshotIDPrefix :: string where
  "SnapshotIDPrefix = ''snap-''"

definition lhex :: "char \<Rightarrow> bool" where
  "lhex c \<longleftrightarrow> is_digit c \<or> (97 \<le> (of_char c :: nat) \<and> (of_char c :: nat) \<le> 102)"

definition hex :: "char \<Rightarrow> bool" where
  "hex c \<longleftrightarrow> lhex c \<or> (65 \<le> (of_char c :: nat) \<and> (of_char c :: nat) \<le> 70)"

definition slot_char :: "char \<Rightarrow> bool" where
  "slot_char c \<longleftrightarrow> is_lower c \<or> is_upper c \<or> is_digit c \<or> c = CHR ''-''"

definition domain_char :: "char \<Rightarrow> bool" where
  "domain_char c \<longleftrightarrow> is_lower c \<or> is_digit c \<or> c = CHR ''.'' \<or> c = CHR ''-''"

definition ident_char :: "char \<Rightarrow> bool" where
  "ident_char c \<longleftrightarrow> is_lower c \<or> is_digit c \<or> c = CHR ''.'' \<or> c = CHR ''_'' \<or> c = CHR ''-''"

text \<open>The five groups of digits of a UUID, for a class of digits.\<close>

definition uuid_rx :: "(char \<Rightarrow> bool) \<Rightarrow> rx" where
  "uuid_rx P = rx_seq [rx_rep 8 (RCls P), rx_lit ''-'', rx_rep 4 (RCls P), rx_lit ''-'',
     rx_rep 4 (RCls P), rx_lit ''-'', rx_rep 4 (RCls P), rx_lit ''-'', rx_rep 12 (RCls P)]"

definition volumeIDPattern :: rx where
  "volumeIDPattern = rx_seq [RBeg, rx_lit ''pvc-'', uuid_rx lhex, REnd]"

definition safeSlotPattern :: rx where
  "safeSlotPattern = rx_seq [RBeg, rx_plus (RCls slot_char), REnd]"

definition nqnPattern :: rx where
  "nqnPattern = rx_seq [RBeg, rx_lit ''nqn.'', rx_rep 4 (RCls is_digit), rx_lit ''-'',
     rx_rep 2 (RCls is_digit), rx_lit ''.'', rx_plus (RCls domain_char), rx_lit '':'',
     rx_plus (RCls ident_char), REnd]"

definition uuidLikePattern :: rx where
  "uuidLikePattern = rx_seq [RBeg, uuid_rx hex, REnd]"

definition snapshotIDPattern :: rx where
  "snapshotIDPattern = rx_seq [RBeg, rx_lit ''snap-'', uuid_rx lhex, rx_lit ''-at-'',
     rx_plus (RCls lhex), REnd]"

definition snapshotIDLegacyPattern :: rx where
  "snapshotIDLegacyPattern = rx_seq [RBeg, rx_lit ''snap-'', uuid_rx lhex, REnd]"

definition dangerousNQNChars :: "string list" where
  "dangerousNQNChars = ['';'', ''|'', ''&'', ''$'', ''`'', ''('', '')'', ''<'', ''>'', [CHR 0x0A],
     [CHR 0x0D], '' '', [CHR 0x09], [CHR 0x22], [CHR 0x27], [CHR 0x5C], ''*'', ''?'', ''['', '']'']"

subsection \<open>Volume IDs, slots and NQNs\<close>

definition GenerateVolumeID :: "string \<Rightarrow> string" where
  "GenerateVolumeID random_uuid = VolumeIDPrefix @ random_uuid"

definition VolumeNameToID :: "(string \<Rightarrow> string) \<Rightarrow> string \<Rightarrow> string" where
  "VolumeNameToID uuid5 name = VolumeIDPrefix @ uuid5 name"

definition ValidateVolumeID :: "string \<Rightarrow> goerr option" where
  "ValidateVolumeID volumeID =
     (if volumeID = [] then Some (GoErr ''volume ID cannot be empty'')
      else if MatchString volumeIDPattern volumeID then None
      else if \<not> MatchString safeSlotPattern volumeID
      then Some (GoErr (''invalid volume ID format: '' @ volumeID
             @ '' (only alphanumeric and hyphen allowed)''))
      else if HasPrefix volumeID VolumeIDPrefix
      then Some (GoErr (''invalid volume ID format: '' @ volumeID @ '' (expected pvc-<lowercase-uuid>)''))
      else if MatchString uuidLikePattern volumeID
      then Some (GoErr (''invalid volume ID format: '' @ volumeID @ '' (missing pvc- prefix)''))
      else if length volumeID > 250
      then Some (GoErr (''volume ID too long: '' @ Itoa (int (length volumeID))
             @ '' characters (max 250)''))
      else None)"

definition ValidateSlotName :: "string \<Rightarrow> goerr option" where
  "ValidateSlotName slot =
     (if slot = [] then Some (GoErr ''slot name cannot be empty'')
      else if \<not> MatchString safeSlotPattern slot
      then Some (GoErr (''invalid slot name: '' @ slot @ '' (only alphanumeric and hyphen allowed)''))
      else None)"

definition ValidateNQN :: "string \<Rightarrow> goerr option" where
  "ValidateNQN nqn =
     (if nqn = [] then Some (GoErr ''NQN cannot be empty'')
      else case find (Contains nqn) dangerousNQNChars of
        Some ch \<Rightarrow> Some (GoErr (''NQN contains dangerous character '' @ Quote ch @ '': '' @ nqn))
      | None \<Rightarrow>
          if \<not> MatchString nqnPattern nqn
          then Some (GoErr (''invalid NQN format: '' @ nqn
                 @ '' (expected format: nqn.YYYY-MM.domain:identifier)''))
          else if length nqn > 223
          then Some (GoErr (''NQN too long: '' @ Itoa (int (length nqn)) @ '' bytes (max 223)''))
          else None)"

definition VolumeIDToNQN :: "string \<Rightarrow> goerr + string" where
  "VolumeIDToNQN volumeID =
     (case ValidateVolumeID volumeID of
        Some err \<Rightarrow> Inl err
      | None \<Rightarrow>
          (let volumeIDLower = ToLower volumeID;
               nqn = NQNPrefix @ '':'' @ volumeIDLower
           in case ValidateNQN nqn of
                Some err \<Rightarrow> Inl (wrap_err ''generated NQN failed validation: '' err)
              | None \<Rightarrow> Inr nqn))"

definition VolumeIDToFilePath :: "string \<Rightarrow> string \<Rightarrow> goerr + string" where
  "VolumeIDToFilePath volumeID basePath =
     (case ValidateVolumeID volumeID of
        Some err \<Rightarrow> Inl err
      | None \<Rightarrow>
          (let basePath = (if basePath = [] then ''/storage-pool/kubernetes-volumes'' else basePath)
           in Inr (basePath @ ''/'' @ volumeID @ ''.img'')))"

definition ExtractVolumeIDFromNQN :: "string \<Rightarrow> goerr + string" where
  "ExtractVolumeIDFromNQN nqn =
     (let expectedPrefix = NQNPrefix @ '':''
      in if length nqn \<le> length expectedPrefix
         then Inl (GoErr (''invalid NQN format: '' @ nqn))
         else if take (length expectedPrefix) nqn \<noteq> expectedPrefix
         then Inl (GoErr (''NQN does not have expected prefix: '' @ nqn))
         else (let volumeID = drop (length expectedPrefix) nqn
               in case ValidateVolumeID volumeID of
                    Some err \<Rightarrow> Inl (wrap_err ''invalid volume ID in NQN: '' err)
                  | None \<Rightarrow> Inr volumeID))"

subsection \<open>Target addresses\<close>

text \<open>
  Whether \<^verbatim>\<open>net.ParseIP\<close> accepts a text: dotted decimal without leading zeros, or the colon form
  with at most one ellipsis and an optional dotted tail. \<open>ipv6_loop n ell s\<close> is the library's loop
  with \<open>n\<close> of the eight 16-bit fields left to fill.
\<close>

definition ipv4_octet :: "string \<Rightarrow> bool" where
  "ipv4_octet w \<longleftrightarrow> w \<noteq> [] \<and> list_all is_digit w \<and> (length w = 1 \<or> hd w \<noteq> CHR ''0'')
     \<and> digits_val w \<le> 255"

definition parse_ipv4 :: "string \<Rightarrow> bool" where
  "parse_ipv4 s \<longleftrightarrow> (let ws = Split (CHR ''.'') s in length ws = 4 \<and> list_all ipv4_octet ws)"

fun ipv6_loop :: "nat \<Rightarrow> bool \<Rightarrow> string \<Rightarrow> bool" where
  "ipv6_loop 0 ell s = (s = [] \<and> \<not> ell)"
| "ipv6_loop (Suc n) ell s =
     (let h = takeWhile hex s; r = dropWhile hex s
      in if h = [] \<or> length h > 4 then False
         else (case r of
             [] \<Rightarrow> (n = 0 \<longleftrightarrow> \<not> ell)
           | c # r1 \<Rightarrow>
               if c = CHR ''.'' then
                 (if (\<not> ell \<and> n \<noteq> 1) \<or> n = 0 then False
                  else parse_ipv4 s \<and> (n = 1 \<longleftrightarrow> \<not> ell))
               else if c \<noteq> CHR '':'' then False
               else (case r1 of
                   [] \<Rightarrow> False
                 | d # r2 \<Rightarrow>
                     if d = CHR '':'' then
                       (if ell then False else if r2 = [] then n \<noteq> 0 else ipv6_loop n True r2)
                     else ipv6_loop n ell r1)))"

definition parse_ipv6 :: "string \<Rightarrow> bool" where
  "parse_ipv6 s =
     (if CHR ''%'' \<in> set s then False
      else if HasPrefix s ''::'' then (drop 2 s = [] \<or> ipv6_loop 8 True (drop 2 s))
      else ipv6_loop 8 False s)"

definition ParseIP :: "string \<Rightarrow> bool" where
  "ParseIP s =
     (case find (\<lambda>c. c = CHR ''.'' \<or> c = CHR '':'' \<or> c = CHR ''%'') s of
        None \<Rightarrow> False
      | Some c \<Rightarrow> if c = CHR ''.'' then parse_ipv4 s else if c = CHR '':'' then parse_ipv6 s else False)"

definition ValidateIPAddress :: "string \<Rightarrow> goerr option" where
  "ValidateIPAddress address =
     (if address = [] then Some (GoErr ''IP address cannot be empty'')
      else if \<not> ParseIP address then Some (GoErr (''invalid IP address: '' @ address))
      else None)"

definition ValidatePort :: "int \<Rightarrow> bool \<Rightarrow> goerr option" where
  "ValidatePort port allowPrivileged =
     (if port < 1 \<or> port > 65535
      then Some (GoErr (''port must be in range 1-65535: got '' @ Itoa port))
      else if \<not> allowPrivileged \<and> port < 1024
      then Some (GoErr (''privileged port (< 1024) not allowed: '' @ Itoa port))
      else None)"

definition ValidatePortString :: "string \<Rightarrow> bool \<Rightarrow> goerr + int" where
  "ValidatePortString portStr allowPrivileged =
     (if portStr = [] then Inl (GoErr ''port cannot be empty'')
      else case Atoi portStr of
        None \<Rightarrow> Inl (GoErr (''invalid port format: '' @ portStr))
      | Some port \<Rightarrow>
          (case ValidatePort port allowPrivileged of Some err \<Rightarrow> Inl err | None \<Rightarrow> Inr port))"

definition ValidateNVMEAddress :: "string \<Rightarrow> int \<Rightarrow> goerr option" where
  "ValidateNVMEAddress address port =
     (case ValidateIPAddress address of
        Some err \<Rightarrow> Some (wrap_err ''invalid NVMe address: '' err)
      | None \<Rightarrow>
          (case ValidatePort port True of
             Some err \<Rightarrow> Some (wrap_err ''invalid NVMe port: '' err)
           | None \<Rightarrow> None))"

definition ValidateNVMETargetContext :: "string \<Rightarrow> string \<Rightarrow> int \<Rightarrow> string \<Rightarrow> goerr option" where
  "ValidateNVMETargetContext nqn address port expectedAddress =
     (if nqn = [] then Some (GoErr ''NQN cannot be empty'')
      else case ValidateNVMEAddress address port of
        Some err \<Rightarrow> Some err
      | None \<Rightarrow>
          if expectedAddress \<noteq> [] \<and> address \<noteq> expectedAddress
          then Some (GoErr (''NVMe address '' @ address @ '' does not match expected RDS address ''
                 @ expectedAddress))
          else None)"

subsection \<open>Snapshot IDs\<close>

definition GenerateSnapshotID :: "(string \<Rightarrow> string) \<Rightarrow> string \<Rightarrow> string \<Rightarrow> string" where
  "GenerateSnapshotID uuid5 csiName sourceVolumeID =
     (let nameUUID = uuid5 csiName;
          nameHex = remove_char (CHR ''-'') nameUUID;
          suffix = take 10 nameHex
      in ''snap-'' @ nameUUID @ ''-at-'' @ suffix)"

definition ValidateSnapshotID :: "string \<Rightarrow> goerr option" where
  "ValidateSnapshotID snapshotID =
     (if snapshotID = [] then Some (GoErr ''snapshot ID cannot be empty'')
      else if MatchString snapshotIDPattern snapshotID then None
      else if MatchString snapshotIDLegacyPattern snapshotID then None
      else if \<not> MatchString safeSlotPattern snapshotID
      then Some (GoErr (''invalid snapshot ID format: '' @ snapshotID
             @ '' (only alphanumeric and hyphen allowed)''))
      else if HasPrefix snapshotID SnapshotIDPrefix
      then Some (GoErr (''invalid snapshot ID format: '' @ snapshotID
             @ '' (expected snap-<lowercase-uuid>-at-<suffix>)''))
      else if MatchString uuidLikePattern snapshotID
      then Some (GoErr (''invalid snapshot ID format: '' @ snapshotID @ '' (missing snap- prefix)''))
      else if length snapshotID > 250
      then Some (GoErr (''snapshot ID too long: '' @ Itoa (int (length snapshotID))
             @ '' characters (max 250)''))
      else None)"

definition GenerateSnapshotIDLegacy :: "string \<Rightarrow> string" where
  "GenerateSnapshotIDLegacy random_uuid = SnapshotIDPrefix @ random_uuid"

definition SnapshotNameToID :: "(string \<Rightarrow> string) \<Rightarrow> string \<Rightarrow> string" where
  "SnapshotNameToID uuid5 name = SnapshotIDPrefix @ uuid5 name"

subsection \<open>What the patterns accept\<close>

text \<open>The canonical text of a UUID over a class of digits.\<close>

definition uuid_text :: "(char \<Rightarrow> bool) \<Rightarrow> string \<Rightarrow> bool" where
  "uuid_text P u \<longleftrightarrow>
     (case Split (CHR ''-'') u of
        [a, b, c, d, e] \<Rightarrow> map length [a, b, c, d, e] = [8, 4, 4, 4, 12] \<and> list_all (list_all P) [a, b, c, d, e]
      | _ \<Rightarrow> False)"

abbreviation is_uuid :: "string \<Rightarrow> bool" where
  "is_uuid \<equiv> uuid_text lhex"

lemma class_no_hyphen [simp]: "\<not> lhex (CHR ''-'')" "\<not> hex (CHR ''-'')"
  by (simp_all add: lhex_def hex_def is_digit_def)

lemma nosep_class: "\<not> P c \<Longrightarrow> list_all P w \<Longrightarrow> c \<notin> set w"
  by (auto simp: list_all_iff)

lemma uuid_text_iff:
  assumes "\<not> P (CHR ''-'')"
  shows "uuid_text P u \<longleftrightarrow>
    (\<exists>a b c d e. u = a @ ''-'' @ b @ ''-'' @ c @ ''-'' @ d @ ''-'' @ e \<and>
       length a = 8 \<and> length b = 4 \<and> length c = 4 \<and> length d = 4 \<and> length e = 12 \<and>
       list_all P a \<and> list_all P b \<and> list_all P c \<and> list_all P d \<and> list_all P e)" (is "_ = ?R")
proof
  assume L: "uuid_text P u"
  then obtain a b c d e where s: "Split (CHR ''-'') u = [a, b, c, d, e]"
    by (auto simp: uuid_text_def split: list.splits)
  have "u = Join (CHR ''-'') (Split (CHR ''-'') u)" by simp
  then have "u = a @ ''-'' @ b @ ''-'' @ c @ ''-'' @ d @ ''-'' @ e" unfolding s by simp
  moreover from L s have "map length [a, b, c, d, e] = [8, 4, 4, 4, 12]"
      "list_all (list_all P) [a, b, c, d, e]" by (simp_all add: uuid_text_def)
  ultimately show ?R
    by (intro exI [of _ a] exI [of _ b] exI [of _ c] exI [of _ d] exI [of _ e]) simp
next
  assume ?R
  then obtain a b c d e where u: "u = a @ ''-'' @ b @ ''-'' @ c @ ''-'' @ d @ ''-'' @ e"
    and l: "length a = 8" "length b = 4" "length c = 4" "length d = 4" "length e = 12"
    and P: "list_all P a" "list_all P b" "list_all P c" "list_all P d" "list_all P e" by blast
  have "Split (CHR ''-'') u = [a, b, c, d, e]"
    using P [THEN nosep_class [of P, OF assms]] by (simp add: u Split_append Split_nosep)
  with l P show "uuid_text P u" by (simp add: uuid_text_def)
qed

lemma rx_ends_uuid [rx_simps]:
  assumes "\<not> P (CHR ''-'')"
  shows "(p1, s1) \<in> rx_ends (uuid_rx P) p s \<longleftrightarrow> (\<exists>u. s = u @ s1 \<and> uuid_text P u \<and> p1 = after p u)"
  unfolding uuid_rx_def uuid_text_iff [of P, OF assms] by (fastforce simp: rx_simps)

lemma MatchString_volumeIDPattern:
  "MatchString volumeIDPattern s \<longleftrightarrow> (\<exists>u. s = ''pvc-'' @ u \<and> is_uuid u)"
  by (auto simp: volumeIDPattern_def MatchString_Beg rx_simps)

lemma MatchString_safeSlotPattern:
  "MatchString safeSlotPattern s \<longleftrightarrow> s \<noteq> [] \<and> list_all slot_char s"
  unfolding safeSlotPattern_def by (rule MatchString_class_plus)

lemma MatchString_uuidLikePattern: "MatchString uuidLikePattern s \<longleftrightarrow> uuid_text hex s"
  by (auto simp: uuidLikePattern_def MatchString_Beg rx_simps)

lemma MatchString_snapshotIDPattern:
  "MatchString snapshotIDPattern s \<longleftrightarrow>
     (\<exists>u x. s = ''snap-'' @ u @ ''-at-'' @ x \<and> is_uuid u \<and> x \<noteq> [] \<and> list_all lhex x)"
  by (fastforce simp: snapshotIDPattern_def MatchString_Beg rx_simps)

lemma MatchString_snapshotIDLegacyPattern:
  "MatchString snapshotIDLegacyPattern s \<longleftrightarrow> (\<exists>u. s = ''snap-'' @ u \<and> is_uuid u)"
  by (auto simp: snapshotIDLegacyPattern_def MatchString_Beg rx_simps)

lemma MatchString_nqnPattern:
  "MatchString nqnPattern s \<longleftrightarrow>
     (\<exists>y m d i. s = ''nqn.'' @ y @ ''-'' @ m @ ''.'' @ d @ '':'' @ i \<and> length y = 4 \<and> length m = 2 \<and>
        list_all is_digit y \<and> list_all is_digit m \<and> d \<noteq> [] \<and> list_all domain_char d \<and>
        i \<noteq> [] \<and> list_all ident_char i)"
  by (fastforce simp: nqnPattern_def MatchString_Beg rx_simps)

lemmas pattern_simps = MatchString_volumeIDPattern MatchString_safeSlotPattern
  MatchString_uuidLikePattern MatchString_snapshotIDPattern MatchString_snapshotIDLegacyPattern

lemma lhex_slot: "lhex c \<Longrightarrow> slot_char c"
  by (auto simp: lhex_def slot_char_def is_lower_def)

lemma slot_char_hyphen [simp]: "slot_char (CHR ''-'')"
  by (simp add: slot_char_def)

lemma slot_char_safe: "slot_char c \<Longrightarrow> [c] \<notin> set dangerousNQNChars"
  by (auto simp: slot_char_def dangerousNQNChars_def is_lower_def is_upper_def is_digit_def)

lemma list_all_mono2: "list_all P w \<Longrightarrow> (\<And>c. P c \<Longrightarrow> Q c) \<Longrightarrow> list_all Q w"
  by (auto simp: list_all_iff)

lemma is_uuid_slot: "is_uuid u \<Longrightarrow> list_all slot_char u"
  by (auto simp: uuid_text_iff intro: lhex_slot elim!: list_all_mono2)

lemma is_uuid_length: "is_uuid u \<Longrightarrow> length u = 36"
  by (auto simp: uuid_text_iff)

lemma ValidateVolumeID_None_iff:
  "ValidateVolumeID v = None \<longleftrightarrow>
     (\<exists>u. v = ''pvc-'' @ u \<and> is_uuid u) \<or>
     (v \<noteq> [] \<and> list_all slot_char v \<and> \<not> HasPrefix v ''pvc-'' \<and> \<not> uuid_text hex v \<and> length v \<le> 250)"
  by (auto simp: ValidateVolumeID_def pattern_simps VolumeIDPrefix_def)

lemma ValidateVolumeID_slot:
  assumes "ValidateVolumeID v = None"
  shows "v \<noteq> []" "list_all slot_char v" "length v \<le> 250"
  using assms by (auto simp: ValidateVolumeID_None_iff slot_char_def is_lower_def
      dest: is_uuid_slot is_uuid_length)

lemma ValidateSnapshotID_slot:
  assumes "ValidateSnapshotID v = None"
  shows "v \<noteq> []" "list_all slot_char v"
  using assms
  by (auto simp: ValidateSnapshotID_def pattern_simps slot_char_def is_lower_def
      dest: is_uuid_slot elim!: list_all_mono2 split: if_splits intro: lhex_slot)

subsection \<open>NVMe Qualified Names\<close>

lemma ident_char_lower: "slot_char c \<Longrightarrow> ident_char (lower_char c)"
  by (auto simp: slot_char_def ident_char_def lower_char_def is_lower_def is_upper_def is_digit_def)

lemma ident_ToLower: "list_all slot_char v \<Longrightarrow> list_all ident_char (ToLower v)"
  by (auto simp: list_all_iff ToLower_def intro: ident_char_lower)

definition nqn_char :: "char \<Rightarrow> bool" where
  "nqn_char c \<longleftrightarrow> ident_char c \<or> c = CHR '':''"

lemma nqn_char_safe: "nqn_char c \<Longrightarrow> [c] \<notin> set dangerousNQNChars"
  by (auto simp: nqn_char_def ident_char_def dangerousNQNChars_def is_lower_def is_digit_def)

lemma nqnPattern_chars:
  assumes "MatchString nqnPattern s"
  shows "list_all nqn_char s"
proof -
  have "\<And>c. is_digit c \<Longrightarrow> nqn_char c" "\<And>c. domain_char c \<Longrightarrow> nqn_char c"
    "\<And>c. ident_char c \<Longrightarrow> nqn_char c"
    by (auto simp: nqn_char_def ident_char_def domain_char_def)
  moreover have "nqn_char (CHR ''n'')" "nqn_char (CHR ''q'')" "nqn_char (CHR ''.'')"
    "nqn_char (CHR ''-'')" "nqn_char (CHR '':'')"
    by (simp_all add: nqn_char_def ident_char_def is_lower_def)
  ultimately show ?thesis
    using assms by (auto simp: MatchString_nqnPattern elim!: list_all_mono2)
qed

lemma dangerous_single: "m \<in> set dangerousNQNChars \<Longrightarrow> \<exists>c. m = [c]"
  by (auto simp: dangerousNQNChars_def)

lemma safe_not_Contains:
  assumes "list_all P s" "\<And>c. P c \<Longrightarrow> [c] \<notin> set dangerousNQNChars"
    and "m \<in> set dangerousNQNChars"
  shows "\<not> Contains s m"
  using assms dangerous_single [of m] by (auto simp: list_all_iff)

text \<open>The blacklist of the NQN validator never rejects what the pattern accepts.\<close>

lemma ValidateNQN_None_iff:
  "ValidateNQN n = None \<longleftrightarrow> MatchString nqnPattern n \<and> length n \<le> 223"
proof (cases "MatchString nqnPattern n")
  case True
  from safe_not_Contains [OF nqnPattern_chars [OF True] nqn_char_safe]
  have "find (Contains n) dangerousNQNChars = None" by (auto simp: find_None_iff)
  moreover from True have "n \<noteq> []" by (auto simp: MatchString_nqnPattern)
  ultimately show ?thesis using True by (simp add: ValidateNQN_def)
next
  case False
  then show ?thesis by (auto simp: ValidateNQN_def split: option.splits)
qed

lemma nqnPattern_prefix:
  assumes "i \<noteq> []" "list_all ident_char i"
  shows "MatchString nqnPattern (NQNPrefix @ '':'' @ i)"
proof -
  have e: "NQNPrefix @ '':'' @ i = ''nqn.'' @ ''2000'' @ ''-'' @ ''02'' @ ''.'' @ ''com.mikrotik'' @ '':'' @ i"
    by (simp add: NQNPrefix_def)
  have "list_all is_digit ''2000''" "list_all is_digit ''02''" "list_all domain_char ''com.mikrotik''"
    by (simp_all add: is_digit_def domain_char_def is_lower_def)
  then show ?thesis unfolding MatchString_nqnPattern e using assms
    by (intro exI [of _ "''2000''"] exI [of _ "''02''"] exI [of _ "''com.mikrotik''"] exI [of _ i]) simp
qed

lemma length_NQNPrefix [simp]: "length NQNPrefix = 24"
  by (simp add: NQNPrefix_def)

lemma VolumeIDToNQN_Inr_iff:
  "VolumeIDToNQN v = Inr n \<longleftrightarrow>
     ValidateVolumeID v = None \<and> length v \<le> 198 \<and> n = NQNPrefix @ '':'' @ ToLower v"
proof (cases "ValidateVolumeID v")
  case None
  note v = ValidateVolumeID_slot [OF None]
  have "MatchString nqnPattern (NQNPrefix @ '':'' @ ToLower v)"
    using v by (intro nqnPattern_prefix ident_ToLower) (simp_all add: ToLower_def)
  then have "ValidateNQN (NQNPrefix @ '':'' @ ToLower v) = None \<longleftrightarrow> length v \<le> 198"
    by (simp add: ValidateNQN_None_iff)
  with None show ?thesis
    by (auto simp: VolumeIDToNQN_def Let_def split: option.splits)
next
  case (Some e)
  then show ?thesis by (simp add: VolumeIDToNQN_def)
qed

lemma ExtractVolumeIDFromNQN_Inr_iff:
  "ExtractVolumeIDFromNQN n = Inr v \<longleftrightarrow> ValidateVolumeID v = None \<and> n = NQNPrefix @ '':'' @ v"
proof
  let ?p = "NQNPrefix @ '':''"
  assume L: "ExtractVolumeIDFromNQN n = Inr v"
  then have t: "take (length ?p) n = ?p" and v: "v = drop (length ?p) n" "ValidateVolumeID v = None"
    unfolding ExtractVolumeIDFromNQN_def Let_def by (auto split: if_splits option.splits)
  from t v(1) have "n = ?p @ v" by (metis append_take_drop_id)
  with v show "ValidateVolumeID v = None \<and> n = NQNPrefix @ '':'' @ v" by simp
next
  assume R: "ValidateVolumeID v = None \<and> n = NQNPrefix @ '':'' @ v"
  then have "v \<noteq> []" by (simp add: ValidateVolumeID_slot)
  with R show "ExtractVolumeIDFromNQN n = Inr v"
    by (simp add: ExtractVolumeIDFromNQN_def Let_def)
qed

subsection \<open>Properties\<close>

text \<open>\<^verbatim>\<open>ValidateVolumeID\<close> accepts exactly the production IDs (\<open>pvc-\<close> and a lower-case UUID) and the
  non-empty texts of at most 250 letters, digits and hyphens that neither start with \<open>pvc-\<close> nor look
  like a bare UUID.\<close>

theorem ValidateVolumeID_accepts:
  "ValidateVolumeID v = None \<longleftrightarrow>
     (\<exists>u. v = ''pvc-'' @ u \<and> is_uuid u) \<or>
     (v \<noteq> [] \<and> length v \<le> 250 \<and> list_all slot_char v \<and> \<not> HasPrefix v ''pvc-'' \<and> \<not> uuid_text hex v)"
  unfolding ValidateVolumeID_None_iff by blast

text \<open>C23. Every identifier that passes \<^verbatim>\<open>ValidateVolumeID\<close>, \<^verbatim>\<open>ValidateSlotName\<close> or \<^verbatim>\<open>ValidateSnapshotID\<close>,
  and every text that passes \<^verbatim>\<open>ValidateNQN\<close>, is free of each of the shell metacharacters listed in the
  source, and the three identifiers contain no path separator and no dot.\<close>

theorem identifiers_inject_nothing:
  assumes "ValidateVolumeID v = None \<or> ValidateSlotName v = None \<or> ValidateSnapshotID v = None"
    and "ValidateNQN n = None"
    and "m \<in> set dangerousNQNChars"
  shows "\<not> Contains v m \<and> \<not> Contains n m \<and> \<not> Contains v ''/'' \<and> \<not> Contains v ''.''"
proof -
  have v: "list_all slot_char v"
    using assms(1) by (auto simp: ValidateVolumeID_slot ValidateSnapshotID_slot ValidateSlotName_def
        MatchString_safeSlotPattern split: if_splits)
  moreover have "list_all nqn_char n"
    using assms(2) by (simp add: ValidateNQN_None_iff nqnPattern_chars)
  moreover have "CHR ''/'' \<notin> set v" "CHR ''.'' \<notin> set v"
    using v by (auto simp: list_all_iff slot_char_def is_lower_def is_upper_def is_digit_def)
  ultimately show ?thesis
    using safe_not_Contains [OF _ slot_char_safe assms(3)] safe_not_Contains [OF _ nqn_char_safe assms(3)]
    by auto
qed

theorem identifiers_inject_nothing_witness:
  "\<not> Contains ''vol-1'' '';'' \<and> \<not> Contains (NQNPrefix @ '':vol-1'') '';'' \<and>
   \<not> Contains ''vol-1'' ''/'' \<and> \<not> Contains ''vol-1'' ''.''"
proof -
  have "ValidateSlotName ''vol-1'' = None"
    by (simp add: ValidateSlotName_def MatchString_safeSlotPattern slot_char_def is_lower_def is_digit_def)
  moreover have "ValidateNQN (NQNPrefix @ '':vol-1'') = None"
    using nqnPattern_prefix [of "''vol-1''"]
    by (simp add: ValidateNQN_None_iff ident_char_def is_lower_def is_digit_def)
  moreover have "'';'' \<in> set dangerousNQNChars" by (simp add: dangerousNQNChars_def)
  ultimately show ?thesis
    using identifiers_inject_nothing [of "''vol-1''" "NQNPrefix @ '':vol-1''" "'';''"] by blast
qed

text \<open>\<^verbatim>\<open>VolumeIDToNQN\<close> succeeds exactly on the valid volume IDs of at most 198 bytes, and then
  returns the MikroTik prefix, a colon and the lower-cased ID; on an ID without upper-case letters
  \<^verbatim>\<open>ExtractVolumeIDFromNQN\<close> gives the ID back.\<close>

theorem VolumeIDToNQN_roundtrip:
  "(VolumeIDToNQN v = Inr n \<longleftrightarrow>
      ValidateVolumeID v = None \<and> length v \<le> 198 \<and> n = NQNPrefix @ '':'' @ ToLower v) \<and>
   (VolumeIDToNQN v = Inr n \<and> ToLower v = v \<longrightarrow> ExtractVolumeIDFromNQN n = Inr v)"
  by (simp add: VolumeIDToNQN_Inr_iff ExtractVolumeIDFromNQN_Inr_iff)

theorem VolumeIDToNQN_roundtrip_witness:
  "VolumeIDToNQN ''vol-1'' = Inr ''nqn.2000-02.com.mikrotik:vol-1'' \<and>
   ExtractVolumeIDFromNQN ''nqn.2000-02.com.mikrotik:vol-1'' = Inr ''vol-1''"
proof -
  have v: "ValidateVolumeID ''vol-1'' = None"
    by (simp add: ValidateVolumeID_None_iff slot_char_def is_lower_def is_digit_def HasPrefix_def
        uuid_text_def)
  have l: "ToLower ''vol-1'' = ''vol-1''" by (simp add: ToLower_def lower_char_def is_upper_def)
  show ?thesis
    using VolumeIDToNQN_roundtrip [of "''vol-1''" "''nqn.2000-02.com.mikrotik:vol-1''"] v l
    by (simp add: NQNPrefix_def)
qed

text \<open>With a UUID library that prints UUIDs in the canonical lower-case form, the ID that
  \<^verbatim>\<open>GenerateSnapshotID\<close> derives from a snapshot name passes \<^verbatim>\<open>ValidateSnapshotID\<close>, has 55 bytes, does
  not depend on the source volume, and two names get the same ID only if they have the same UUID.\<close>

theorem GenerateSnapshotID_valid:
  assumes "\<forall>name. is_uuid (uuid5 name)"
  shows "ValidateSnapshotID (GenerateSnapshotID uuid5 name src) = None \<and>
    length (GenerateSnapshotID uuid5 name src) = 55 \<and>
    (GenerateSnapshotID uuid5 name src = GenerateSnapshotID uuid5 name' src' \<longleftrightarrow> uuid5 name = uuid5 name')"
proof -
  have u: "is_uuid (uuid5 n)" "length (uuid5 n) = 36" for n
    using assms by (simp_all add: is_uuid_length)
  obtain a b c d e where e: "uuid5 name = a @ ''-'' @ b @ ''-'' @ c @ ''-'' @ d @ ''-'' @ e"
      "length a = 8" "length b = 4" "list_all lhex a" "list_all lhex b" "list_all lhex c"
      "list_all lhex d" "list_all lhex e"
    using u(1) [of name] by (auto simp: uuid_text_iff)
  let ?x = "take 10 (remove_char (CHR ''-'') (uuid5 name))"
  have "remove_char (CHR ''-'') w = w" if "list_all lhex w" for w
    using that by (auto simp: remove_char_def filter_id_conv list_all_iff)
  then have x: "remove_char (CHR ''-'') (uuid5 name) = a @ b @ c @ d @ e"
    using e by (simp add: remove_char_def)
  have "list_all lhex (take 10 (a @ b @ c @ d @ e))" "length ?x = 10"
    using e x by (auto simp: list_all_iff dest!: in_set_takeD)
  then have "list_all lhex ?x \<and> ?x \<noteq> []" by (auto simp: x)
  moreover have g: "GenerateSnapshotID uuid5 n s = ''snap-'' @ uuid5 n @ ''-at-'' @
      take 10 (remove_char (CHR ''-'') (uuid5 n))" for n s
    by (simp add: GenerateSnapshotID_def Let_def)
  ultimately have "MatchString snapshotIDPattern (GenerateSnapshotID uuid5 name src)"
    unfolding MatchString_snapshotIDPattern using u by blast
  then have "ValidateSnapshotID (GenerateSnapshotID uuid5 name src) = None"
    by (simp add: ValidateSnapshotID_def g)
  moreover have "length (GenerateSnapshotID uuid5 name src) = 55"
    using u(2) \<open>length ?x = 10\<close> unfolding g by simp
  moreover have "GenerateSnapshotID uuid5 name src = GenerateSnapshotID uuid5 name' src'
      \<longleftrightarrow> uuid5 name = uuid5 name'"
    using u(2) unfolding g by (auto simp: append_eq_append_conv)
  ultimately show ?thesis by blast
qed

theorem GenerateSnapshotID_valid_witness:
  "ValidateSnapshotID (GenerateSnapshotID (\<lambda>_. ''a1b2c3d4-e5f6-7890-abcd-ef1234567890'') ''s'' ''v'') = None"
  using GenerateSnapshotID_valid [of "\<lambda>_. ''a1b2c3d4-e5f6-7890-abcd-ef1234567890''" "''s''" "''v''"]
  by (simp add: uuid_text_def lhex_def is_digit_def)

text \<open>The lower-casing makes different IDs collide, and an upper-case prefix is lost on the way back.\<close>

lemma VolumeIDToNQN_collision: "VolumeIDToNQN ''VOL-1'' = VolumeIDToNQN ''vol-1''"
  by code_simp

lemma ExtractVolumeIDFromNQN_not_inverse:
  "VolumeIDToNQN ''PVC-1'' = Inr (NQNPrefix @ '':pvc-1'') \<and>
   (\<forall>v. ExtractVolumeIDFromNQN (NQNPrefix @ '':pvc-1'') \<noteq> Inr v)"
proof
  show "VolumeIDToNQN ''PVC-1'' = Inr (NQNPrefix @ '':pvc-1'')" by code_simp
  have "ValidateVolumeID ''pvc-1'' \<noteq> None"
    by (simp add: ValidateVolumeID_None_iff uuid_text_def HasPrefix_def)
  then show "\<forall>v. ExtractVolumeIDFromNQN (NQNPrefix @ '':pvc-1'') \<noteq> Inr v"
    by (auto simp: ExtractVolumeIDFromNQN_Inr_iff)
qed

end
