(* ===== verification/PathValidation.thy ===== *)
theory PathValidation
  imports VolumeID
begin

text \<open>
  Backing-file paths: \<^verbatim>\<open>pkg/utils/validation.go\<close>. The package variable \<^verbatim>\<open>AllowedBasePaths\<close> is a list of
  paths that the operations read and return; \<^verbatim>\<open>filepath.Clean\<close> is modelled on the components of the
  path. The lemmas say what a path that passes \<^verbatim>\<open>ValidateFilePath\<close> looks like and that the paths the
  driver builds from a sanitised base path and a valid volume ID pass it.
\<close>

subsection \<open>Package path/filepath\<close>

text \<open>
  The component stack of \<^verbatim>\<open>Clean\<close>, innermost component first: empty components and \<open>.\<close> vanish, \<open>..\<close>
  removes the component before it, and is kept only where a relative path has none.
\<close>

fun clean_step :: "bool \<Rightarrow> string list \<Rightarrow> string \<Rightarrow> string list" where
  "clean_step rooted st w =
     (if w = [] \<or> w = ''.'' then st
      else if w = ''..'' then
        (case st of
           [] \<Rightarrow> if rooted then [] else [''..'']
         | t # ts \<Rightarrow> if t = ''..'' then ''..'' # st else ts)
      else w # st)"

definition IsAbs :: "string \<Rightarrow> bool" where
  "IsAbs p = HasPrefix p ''/''"

definition clean_parts :: "string \<Rightarrow> string list" where
  "clean_parts p = rev (foldl (clean_step (IsAbs p)) [] (Split (CHR ''/'') p))"

definition Clean :: "string \<Rightarrow> string" where
  "Clean p =
     (if p = [] then ''.''
      else if IsAbs p then CHR ''/'' # Join (CHR ''/'') (clean_parts p)
      else if clean_parts p = [] then ''.''
      else Join (CHR ''/'') (clean_parts p))"

subsection \<open>The validators\<close>

definition dangerousCharacters :: "string list" where
  "dangerousCharacters = ['';'', ''|'', ''&'', ''$'', ''`'', ''('', '')'', ''<'', ''>'', [CHR 0x0A],
     [CHR 0x0D], ''*'', ''?'', ''['', '']'', [CHR 0x27], [CHR 0x22], [CHR 0x5C], [CHR 0x09], [CHR 0x00]]"

definition SanitizeBasePath :: "string \<Rightarrow> goerr + string" where
  "SanitizeBasePath basePath =
     (if basePath = [] then Inl (GoErr ''base path cannot be empty'')
      else if Contains basePath ''//''
      then Inl (GoErr (''base path contains double slashes: '' @ basePath))
      else (let cleanPath = Clean basePath
            in if \<not> IsAbs cleanPath then Inl (GoErr (''base path must be absolute: '' @ basePath))
               else case find (Contains cleanPath) dangerousCharacters of
                   Some ch \<Rightarrow> Inl (GoErr (''base path contains dangerous character '' @ Quote ch
                                @ '': '' @ cleanPath))
                 | None \<Rightarrow> Inr cleanPath))"

definition SetAllowedBasePath :: "string \<Rightarrow> string list \<Rightarrow> goerr option \<times> string list" where
  "SetAllowedBasePath path allowed =
     (if path = [] then (Some (GoErr ''base path cannot be empty''), allowed)
      else case SanitizeBasePath path of
        Inl err \<Rightarrow> (Some (wrap_err ''invalid base path: '' err), allowed)
      | Inr cleanPath \<Rightarrow> (None, [cleanPath]))"

definition AddAllowedBasePath :: "string \<Rightarrow> string list \<Rightarrow> goerr option \<times> string list" where
  "AddAllowedBasePath path allowed =
     (if path = [] then (None, allowed)
      else case SanitizeBasePath path of
        Inl err \<Rightarrow> (Some (wrap_err ''invalid base path: '' err), allowed)
      | Inr cleanPath \<Rightarrow>
          if list_ex (\<lambda>existing. existing = cleanPath) allowed then (None, allowed)
          else (None, allowed @ [cleanPath]))"

definition ResetAllowedBasePaths :: "string list \<Rightarrow> string list" where
  "ResetAllowedBasePaths allowed = []"

definition ValidateFilePath :: "string list \<Rightarrow> string \<Rightarrow> goerr option" where
  "ValidateFilePath AllowedBasePaths path =
     (if path = [] then Some (GoErr ''file path cannot be empty'')
      else case find (Contains path) dangerousCharacters of
        Some ch \<Rightarrow> Some (GoErr (''file path contains dangerous character '' @ Quote ch @ '': '' @ path))
      | None \<Rightarrow>
          (let cleanPath = Clean path
           in if cleanPath \<noteq> path
              then Some (GoErr (''file path contains traversal sequences or unnecessary components: ''
                     @ path @ '' (cleaned: '' @ cleanPath @ '')''))
              else if \<not> IsAbs cleanPath then Some (GoErr (''file path must be absolute: '' @ path))
              else if \<not> list_ex (HasPrefix cleanPath) AllowedBasePaths
              then Some (GoErr (''file path not in allowed base paths: '' @ cleanPath
                     @ '' (allowed: ['' @ Join (CHR '' '') AllowedBasePaths @ ''])''))
              else if Contains cleanPath ''//''
              then Some (GoErr (''file path contains double slashes: '' @ cleanPath))
              else None))"

definition ValidateFilePathWithBase :: "string list \<Rightarrow> string \<Rightarrow> string \<Rightarrow> goerr option" where
  "ValidateFilePathWithBase AllowedBasePaths path basePath =
     (case ValidateFilePath AllowedBasePaths path of
        Some err \<Rightarrow> Some err
      | None \<Rightarrow>
          if basePath = [] then Some (GoErr ''base path cannot be empty'')
          else (let cleanBase = Clean basePath; cleanPath = Clean path
                in if \<not> HasPrefix cleanPath cleanBase
                   then Some (GoErr (''file path '' @ cleanPath @ '' is not within base path '' @ cleanBase))
                   else None))"

definition ValidateCreateVolumeOptions ::
    "string list \<Rightarrow> string \<Rightarrow> int \<Rightarrow> string \<Rightarrow> goerr option" where
  "ValidateCreateVolumeOptions AllowedBasePaths filePath sizeBytes slot =
     (case ValidateFilePath AllowedBasePaths filePath of
        Some err \<Rightarrow> Some (wrap_err ''invalid file path: '' err)
      | None \<Rightarrow>
          if sizeBytes \<le> 0 then Some (GoErr (''volume size must be positive: '' @ Itoa sizeBytes))
          else case ValidateSlotName slot of
            Some err \<Rightarrow> Some (wrap_err ''invalid slot name: '' err)
          | None \<Rightarrow> None)"

definition IsPathSafe :: "string list \<Rightarrow> string \<Rightarrow> bool" where
  "IsPathSafe AllowedBasePaths path \<longleftrightarrow> ValidateFilePath AllowedBasePaths path = None"

subsection \<open>Clean paths\<close>

definition plain :: "string \<Rightarrow> bool" where
  "plain w \<longleftrightarrow> w \<noteq> [] \<and> w \<noteq> ''.'' \<and> w \<noteq> ''..'' \<and> CHR ''/'' \<notin> set w"

text \<open>The absolute paths that \<^verbatim>\<open>Clean\<close> leaves alone: the root, and a slash before each plain component.\<close>

definition clean_abs :: "string \<Rightarrow> bool" where
  "clean_abs p \<longleftrightarrow> (\<exists>ws. list_all plain ws \<and> p = CHR ''/'' # Join (CHR ''/'') ws)"

lemma IsAbs_Cons [simp]: "IsAbs (c # p) \<longleftrightarrow> c = CHR ''/''"
  by (auto simp: IsAbs_def HasPrefix_def)

lemma IsAbs_Nil [simp]: "\<not> IsAbs []"
  by (simp add: IsAbs_def HasPrefix_def)

lemma IsAbs_conv: "IsAbs p \<longleftrightarrow> (\<exists>q. p = CHR ''/'' # q)"
  by (cases p) auto

lemma Split_abs: "Split (CHR ''/'') (CHR ''/'' # p) = [] # Split (CHR ''/'') p"
  by simp

lemma foldl_clean_plain:
  "list_all plain ws \<Longrightarrow> foldl (clean_step r) st ws = rev ws @ st"
  by (induction ws arbitrary: st) (auto simp: plain_def)

lemma foldl_clean_rooted:
  assumes "\<forall>w \<in> set ws. CHR ''/'' \<notin> set w" "list_all plain st"
  shows "list_all plain (foldl (clean_step True) st ws)"
  using assms
proof (induction ws arbitrary: st)
  case Nil
  then show ?case by simp
next
  case (Cons w ws)
  have "list_all plain (clean_step True st w)"
    using Cons.prems by (cases st) (auto simp: plain_def [of w])
  with Cons show ?case by simp
qed

lemma clean_parts_plain: "IsAbs p \<Longrightarrow> list_all plain (clean_parts p)"
  unfolding clean_parts_def
  using foldl_clean_rooted [of "Split (CHR ''/'') p" "[]"]
  by (auto simp: list_all_iff dest: Split_parts_nosep)

lemma IsAbs_append: "w \<noteq> [] \<Longrightarrow> CHR ''/'' \<notin> set w \<Longrightarrow> \<not> IsAbs (w @ r)"
  by (cases w) auto

lemma IsAbs_single: "IsAbs w \<Longrightarrow> CHR ''/'' \<in> set w"
  by (cases w) auto

lemma clean_step_set: "v \<in> set (clean_step r st w) \<Longrightarrow> v \<in> set st \<or> v = ''..'' \<or> (v = w \<and> w \<noteq> [])"
  by (cases st) (auto split: if_splits)

lemma foldl_clean_named:
  assumes "\<forall>w \<in> set ws. CHR ''/'' \<notin> set w" "\<forall>w \<in> set st. w \<noteq> [] \<and> CHR ''/'' \<notin> set w"
  shows "\<forall>w \<in> set (foldl (clean_step r) st ws). w \<noteq> [] \<and> CHR ''/'' \<notin> set w"
  using assms
proof (induction ws arbitrary: st)
  case Nil
  then show ?case by simp
next
  case (Cons w ws)
  have "\<forall>v \<in> set (clean_step r st w). v \<noteq> [] \<and> CHR ''/'' \<notin> set v"
    using Cons.prems by (auto dest!: clean_step_set simp del: clean_step.simps)
  from Cons.IH [OF _ this] Cons.prems(1) show ?case by (simp del: clean_step.simps)
qed

lemma IsAbs_Clean [simp]: "IsAbs (Clean p) \<longleftrightarrow> IsAbs p"
proof (cases "IsAbs p")
  case True
  then have "p \<noteq> []" by auto
  with True show ?thesis by (simp add: Clean_def)
next
  case False
  have "\<forall>w \<in> set (clean_parts p). w \<noteq> [] \<and> CHR ''/'' \<notin> set w"
    using foldl_clean_named [of "Split (CHR ''/'') p" "[]" False] False
    by (auto simp: clean_parts_def dest: Split_parts_nosep)
  then have "\<not> IsAbs (Join (CHR ''/'') (clean_parts p))"
    by (cases "(CHR ''/'', clean_parts p)" rule: Join.cases) (auto simp: IsAbs_append dest: IsAbs_single)
  with False show ?thesis by (simp add: Clean_def)
qed

lemma Clean_abs: "IsAbs p \<Longrightarrow> clean_abs (Clean p)"
  using clean_parts_plain [of p] by (auto simp: Clean_def clean_abs_def)

lemma Clean_Join_plain:
  assumes "list_all plain ws"
  shows "Clean (CHR ''/'' # Join (CHR ''/'') ws) = CHR ''/'' # Join (CHR ''/'') ws"
proof (cases "ws = []")
  case True
  then show ?thesis by (simp add: Clean_def clean_parts_def)
next
  case False
  with assms have "Split (CHR ''/'') (Join (CHR ''/'') ws) = ws"
    by (intro Split_Join) (auto simp: plain_def list_all_iff)
  with assms show ?thesis
    by (simp add: Clean_def clean_parts_def foldl_clean_plain)
qed

lemma Clean_fixed_iff: "IsAbs p \<Longrightarrow> Clean p = p \<longleftrightarrow> clean_abs p"
  by (metis Clean_abs Clean_Join_plain clean_abs_def)

lemma Clean_idem_abs: "IsAbs p \<Longrightarrow> Clean (Clean p) = Clean p"
  by (metis Clean_abs Clean_Join_plain clean_abs_def)

text \<open>A clean absolute path has no doubled slash: the last check of \<^verbatim>\<open>ValidateFilePath\<close> is redundant.\<close>

lemma Join_no_double:
  assumes "list_all plain ws"
  shows "\<not> Contains (Join (CHR ''/'') ws) ''//'' \<and> \<not> HasPrefix (Join (CHR ''/'') ws) ''/''"
  using assms
proof (induction "CHR ''/''" ws rule: Join.induct)
  case 1
  then show ?case by (simp add: HasPrefix_def)
next
  case (2 w)
  then have "CHR ''/'' \<notin> set w" by (simp add: plain_def)
  then show ?case by (auto simp: Contains_iff HasPrefix_iff)
next
  case (3 w v ws)
  let ?t = "Join (CHR ''/'') (v # ws)"
  from 3 have IH: "\<not> Contains ?t ''//''" "\<not> HasPrefix ?t ''/''" and w: "CHR ''/'' \<notin> set w" "w \<noteq> []"
    by (auto simp: plain_def)
  have "\<not> Contains (u @ CHR ''/'' # ?t) ''//''" if "CHR ''/'' \<notin> set u" for u
    using that IH
  proof (induction u)
    case Nil
    then show ?case by (simp add: HasPrefix_def)
  next
    case (Cons c u)
    then show ?case by (auto simp: HasPrefix_def)
  qed
  with w show ?case by (cases w) (auto simp: HasPrefix_def)
qed

lemma clean_abs_no_double: "clean_abs p \<Longrightarrow> \<not> Contains p ''//''"
  using Join_no_double by (fastforce simp: clean_abs_def HasPrefix_def)

lemma dangerous_single_path: "m \<in> set dangerousCharacters \<Longrightarrow> \<exists>c. m = [c]"
  by (auto simp: dangerousCharacters_def)

lemma ValidateFilePath_None_iff:
  "ValidateFilePath allowed p = None \<longleftrightarrow>
     clean_abs p \<and> (\<forall>m \<in> set dangerousCharacters. \<not> Contains p m) \<and> list_ex (HasPrefix p) allowed"
proof (cases "IsAbs p")
  case True
  have f: "find (Contains p) dangerousCharacters = None \<longleftrightarrow> (\<forall>m \<in> set dangerousCharacters. \<not> Contains p m)"
    by (auto simp: find_None_iff)
  from True have n: "p \<noteq> []" by auto
  show ?thesis
  proof (cases "clean_abs p")
    case c: True
    with True have "Clean p = p" by (simp add: Clean_fixed_iff)
    with True c n show ?thesis
      by (cases "find (Contains p) dangerousCharacters")
        (simp_all add: ValidateFilePath_def clean_abs_no_double flip: f)
  next
    case c: False
    with True have "Clean p \<noteq> p" by (simp add: Clean_fixed_iff)
    with c n show ?thesis
      by (cases "find (Contains p) dangerousCharacters") (simp_all add: ValidateFilePath_def)
  qed
next
  case False
  then have "\<not> clean_abs p" by (auto simp: clean_abs_def)
  with False show ?thesis
    by (cases "find (Contains p) dangerousCharacters") (simp_all add: ValidateFilePath_def Let_def)
qed

lemma SanitizeBasePath_Inr:
  assumes "SanitizeBasePath b = Inr c"
  shows "clean_abs c" "\<forall>m \<in> set dangerousCharacters. \<not> Contains c m" "Clean c = c"
proof -
  from assms have c: "c = Clean b" "IsAbs b" and f: "find (Contains c) dangerousCharacters = None"
    by (auto simp: SanitizeBasePath_def Let_def split: if_splits option.splits)
  show "clean_abs c" "Clean c = c" using c by (simp_all add: Clean_abs Clean_idem_abs)
  show "\<forall>m \<in> set dangerousCharacters. \<not> Contains c m" using f by (simp add: find_None_iff)
qed

subsection \<open>The list of allowed base paths\<close>

definition base_ok :: "string \<Rightarrow> bool" where
  "base_ok b \<longleftrightarrow> clean_abs b \<and> \<not> list_ex (Contains b) dangerousCharacters"

definition allowed_ok :: "string list \<Rightarrow> bool" where
  "allowed_ok allowed \<longleftrightarrow> list_all base_ok allowed \<and> distinct allowed"

lemma SanitizeBasePath_ok: "SanitizeBasePath b = Inr c \<Longrightarrow> base_ok c"
  using SanitizeBasePath_Inr [of b c] by (auto simp: base_ok_def list_ex_iff)

lemma SetAllowedBasePath_ok [inv_intros]:
  "allowed_ok allowed \<Longrightarrow> allowed_ok (snd (SetAllowedBasePath path allowed))"
  by (auto simp: SetAllowedBasePath_def allowed_ok_def SanitizeBasePath_ok split: sum.splits)

lemma AddAllowedBasePath_ok [inv_intros]:
  "allowed_ok allowed \<Longrightarrow> allowed_ok (snd (AddAllowedBasePath path allowed))"
  by (auto simp: AddAllowedBasePath_def allowed_ok_def SanitizeBasePath_ok list_ex_iff split: sum.splits)

lemma ResetAllowedBasePaths_ok [inv_intros]: "allowed_ok (ResetAllowedBasePaths allowed)"
  by (simp add: ResetAllowedBasePaths_def allowed_ok_def)

subsection \<open>The paths the driver builds\<close>

lemma Join_snoc: "ws \<noteq> [] \<Longrightarrow> Join sep (ws @ [w]) = Join sep ws @ sep # w"
  by (induction sep ws rule: Join.induct) auto

lemma clean_abs_extend:
  assumes "clean_abs b" "b \<noteq> ''/''" "plain w"
  shows "clean_abs (b @ ''/'' @ w)"
proof -
  from assms(1) obtain ws where ws: "list_all plain ws" "b = CHR ''/'' # Join (CHR ''/'') ws"
    by (auto simp: clean_abs_def)
  with assms(2) have "ws \<noteq> []" by auto
  then have "b @ ''/'' @ w = CHR ''/'' # Join (CHR ''/'') (ws @ [w])"
    by (simp add: ws(2) Join_snoc)
  with ws(1) assms(3) show ?thesis unfolding clean_abs_def by (intro exI [of _ "ws @ [w]"]) simp
qed

lemma image_name_plain:
  assumes "list_all slot_char v" "v \<noteq> []"
  shows "plain (v @ ''.img'')"
proof -
  have "CHR ''/'' \<notin> set v"
    using assms(1) by (auto simp: list_all_iff slot_char_def is_lower_def is_upper_def is_digit_def)
  with assms(2) show ?thesis by (auto simp: plain_def append_eq_Cons_conv)
qed

lemma slot_char_not_dangerous: "slot_char c \<Longrightarrow> [c] \<notin> set dangerousCharacters"
  by (auto simp: slot_char_def dangerousCharacters_def is_lower_def is_upper_def is_digit_def)

lemma image_path_not_dangerous:
  assumes "\<not> list_ex (Contains b) dangerousCharacters" "list_all slot_char v"
    and m: "m \<in> set dangerousCharacters"
  shows "\<not> Contains (b @ ''/'' @ v @ ''.img'') m"
proof -
  obtain c where c: "m = [c]" using dangerous_single_path [OF m] by blast
  have "c \<notin> set b" using assms(1) m c by (auto simp: list_ex_iff)
  moreover have "c \<notin> set v" using assms(2) m c by (auto simp: list_all_iff dest: slot_char_not_dangerous)
  moreover have "c \<notin> set ''/.img''" using m c by (auto simp: dangerousCharacters_def)
  ultimately show ?thesis by (simp add: c)
qed

lemma image_path_valid:
  assumes "base_ok b" "b \<noteq> ''/''" "list_all slot_char v" "v \<noteq> []" "b \<in> set allowed"
  shows "ValidateFilePath allowed (b @ ''/'' @ v @ ''.img'') = None"
proof -
  have "clean_abs (b @ ''/'' @ v @ ''.img'')"
    using assms by (intro clean_abs_extend image_name_plain) (simp_all add: base_ok_def)
  moreover have "list_ex (HasPrefix (b @ ''/'' @ v @ ''.img'')) allowed"
    using assms(5) HasPrefix_append unfolding list_ex_iff by blast
  ultimately show ?thesis
    using assms image_path_not_dangerous [of b v]
    by (auto simp: ValidateFilePath_None_iff base_ok_def)
qed

subsection \<open>Properties\<close>

text \<open>C25. \<^verbatim>\<open>ValidateFilePath\<close> accepts exactly the clean absolute paths (a slash before each component, no
  empty, \<open>.\<close> or \<open>..\<close> component) that contain none of the listed metacharacters and that have one of
  the allowed base paths as a textual prefix.\<close>

theorem ValidateFilePath_accepts:
  "ValidateFilePath allowed p = None \<longleftrightarrow>
     (\<exists>ws. list_all plain ws \<and> p = CHR ''/'' # Join (CHR ''/'') ws) \<and>
     \<not> list_ex (Contains p) dangerousCharacters \<and> list_ex (HasPrefix p) allowed"
  by (auto simp: ValidateFilePath_None_iff clean_abs_def list_ex_iff)

text \<open>C24. Once \<^verbatim>\<open>SetAllowedBasePath\<close> has accepted a base path other than the root, the file path built
  for a valid volume ID under the sanitised base path always passes \<^verbatim>\<open>ValidateFilePath\<close>, and the
  creation options with it, a positive size and the ID as the slot pass
  \<^verbatim>\<open>ValidateCreateVolumeOptions\<close>.\<close>

theorem VolumeIDToFilePath_validates:
  assumes "SetAllowedBasePath path old = (None, [base])" and "base \<noteq> ''/''"
    and "VolumeIDToFilePath v base = Inr p" and "0 < sz"
  shows "ValidateFilePath [base] p = None \<and> ValidateCreateVolumeOptions [base] p sz v = None"
proof -
  from assms(1) have base: "base_ok base"
    by (auto simp: SetAllowedBasePath_def SanitizeBasePath_ok split: if_splits sum.splits)
  then have "base \<noteq> []" by (auto simp: base_ok_def clean_abs_def)
  with assms(3) have v: "ValidateVolumeID v = None" and p: "p = base @ ''/'' @ v @ ''.img''"
    by (auto simp: VolumeIDToFilePath_def split: option.splits)
  note v = ValidateVolumeID_slot [OF v]
  have "ValidateFilePath [base] p = None"
    using image_path_valid [OF base assms(2) v(2,1)] p by simp
  then show ?thesis
    using v assms(4) by (simp add: ValidateCreateVolumeOptions_def ValidateSlotName_def
        MatchString_safeSlotPattern)
qed

theorem VolumeIDToFilePath_validates_witness:
  "ValidateFilePath [''/pool''] ''/pool/vol-1.img'' = None \<and>
   ValidateCreateVolumeOptions [''/pool''] ''/pool/vol-1.img'' 1 ''vol-1'' = None"
proof -
  have "SetAllowedBasePath ''/pool/'' [] = (None, [''/pool''])" by code_simp
  moreover have "VolumeIDToFilePath ''vol-1'' ''/pool'' = Inr ''/pool/vol-1.img''" by code_simp
  ultimately show ?thesis
    using VolumeIDToFilePath_validates [of "''/pool/''" "[]" "''/pool''" "''vol-1''" "''/pool/vol-1.img''" 1]
    by simp
qed

text \<open>The prefix test does not stop at a component boundary, and a blank is not a listed character.\<close>

lemma ValidateFilePath_sibling: "ValidateFilePath [''/pool''] ''/pool-evil/a b.img'' = None"
  by code_simp

end
