(* ===== verification/Params.thy ===== *)
theory Params
  imports Prelude
begin

text \<open>
  StorageClass parameters: \<^verbatim>\<open>pkg/driver/params.go\<close>. The parameters are a map from names to texts;
  \<^verbatim>\<open>strconv.Atoi\<close> is the one of the prelude. The lemmas bound what is parsed, show that the volume
  context carries it unchanged, and describe the clamping of the migration timeout with the
  \<open>int64\<close> product written out.
\<close>

record NVMEConnectionParams =
  CtrlLossTmo :: int
  ReconnectDelay :: int
  KeepAliveTmo :: int

definition DefaultNVMEConnectionParams :: NVMEConnectionParams where
  "DefaultNVMEConnectionParams = \<lparr>CtrlLossTmo = -1, ReconnectDelay = 5, KeepAliveTmo = 0\<rparr>"

text \<open>
  One parameter: absent, it leaves the configuration alone; present, it is an integer of at least
  \<open>lo\<close>, or an error.
\<close>

definition parse_param :: "(string \<rightharpoonup> string) \<Rightarrow> string \<Rightarrow> int \<Rightarrow> (int \<Rightarrow> string)
    \<Rightarrow> (int \<Rightarrow> NVMEConnectionParams \<Rightarrow> NVMEConnectionParams)
    \<Rightarrow> NVMEConnectionParams \<Rightarrow> goerr + NVMEConnectionParams" where
  "parse_param params key lo complaint upd config =
     (case params key of
        None \<Rightarrow> Inr config
      | Some val \<Rightarrow>
          (case Atoi val of
             None \<Rightarrow> Inl (wrap_err (''invalid '' @ key @ '' value '' @ Quote val @ '': '') (atoi_error val))
           | Some parsed \<Rightarrow>
               if parsed < lo then Inl (GoErr (key @ complaint parsed)) else Inr (upd parsed config)))"

definition ParseNVMEConnectionParams :: "(string \<rightharpoonup> string) \<Rightarrow> goerr + NVMEConnectionParams" where
  "ParseNVMEConnectionParams params =
     (let config = DefaultNVMEConnectionParams
      in case parse_param params ''ctrlLossTmo'' (-1)
             (\<lambda>i. '' must be -1 (unlimited), 0 (kernel default), or positive; got '' @ Itoa i)
             (\<lambda>i c. c\<lparr>CtrlLossTmo := i\<rparr>) config of
           Inl err \<Rightarrow> Inl err
         | Inr config \<Rightarrow>
      (case parse_param params ''reconnectDelay'' 1
             (\<lambda>i. '' must be positive; got '' @ Itoa i) (\<lambda>i c. c\<lparr>ReconnectDelay := i\<rparr>) config of
           Inl err \<Rightarrow> Inl err
         | Inr config \<Rightarrow>
       parse_param params ''keepAliveTmo'' 0
             (\<lambda>i. '' must be non-negative; got '' @ Itoa i) (\<lambda>i c. c\<lparr>KeepAliveTmo := i\<rparr>) config))"

definition ToVolumeContext :: "NVMEConnectionParams \<Rightarrow> (string \<rightharpoonup> string)" where
  "ToVolumeContext params =
     [''ctrlLossTmo'' \<mapsto> Itoa (CtrlLossTmo params),
      ''reconnectDelay'' \<mapsto> Itoa (ReconnectDelay params),
      ''keepAliveTmo'' \<mapsto> Itoa (KeepAliveTmo params)]"

definition DefaultMigrationTimeout :: duration where
  "DefaultMigrationTimeout = 5 * minute"

definition MinMigrationTimeout :: duration where
  "MinMigrationTimeout = 30 * second"

definition MaxMigrationTimeout :: duration where
  "MaxMigrationTimeout = 1 * hour"

definition ParseMigrationTimeout :: "(string \<rightharpoonup> string) \<Rightarrow> duration" where
  "ParseMigrationTimeout params =
     (case params ''migrationTimeoutSeconds'' of
        None \<Rightarrow> DefaultMigrationTimeout
      | Some timeoutStr \<Rightarrow>
          if timeoutStr = [] then DefaultMigrationTimeout
          else case Atoi timeoutStr of
            None \<Rightarrow> DefaultMigrationTimeout
          | Some seconds \<Rightarrow>
              if seconds \<le> 0 then DefaultMigrationTimeout
              else (let timeout = wrap64 (seconds * second)
                    in if timeout < MinMigrationTimeout then MinMigrationTimeout
                       else if timeout > MaxMigrationTimeout then MaxMigrationTimeout
                       else timeout))"

subsection \<open>Lemmas\<close>

definition params_ok :: "NVMEConnectionParams \<Rightarrow> bool" where
  "params_ok p \<longleftrightarrow> -1 \<le> CtrlLossTmo p \<and> 1 \<le> ReconnectDelay p \<and> 0 \<le> KeepAliveTmo p \<and>
     in_int64 (CtrlLossTmo p) \<and> in_int64 (ReconnectDelay p) \<and> in_int64 (KeepAliveTmo p)"

lemma params_ok_default: "params_ok DefaultNVMEConnectionParams"
  by (simp add: params_ok_def DefaultNVMEConnectionParams_def in_int64_def min_int64_def max_int64_def)

lemma parse_param_Inr:
  "parse_param params key lo cm st config = Inr config' \<Longrightarrow>
     config' = config \<or> (\<exists>i. lo \<le> i \<and> in_int64 i \<and> config' = st i config)"
  by (auto simp: parse_param_def not_less split: option.splits if_splits dest: Atoi_range)

lemma parse_param_Itoa:
  "params key = Some (Itoa i) \<Longrightarrow> in_int64 i \<Longrightarrow> lo \<le> i \<Longrightarrow>
     parse_param params key lo cm st config = Inr (st i config)"
  by (simp add: parse_param_def)

lemma ParseNVMEConnectionParams_ok:
  assumes "ParseNVMEConnectionParams params = Inr p"
  shows "params_ok p"
proof -
  from assms obtain a b
    where "parse_param params ''ctrlLossTmo'' (-1)
             (\<lambda>i. '' must be -1 (unlimited), 0 (kernel default), or positive; got '' @ Itoa i)
             (\<lambda>i c. c\<lparr>CtrlLossTmo := i\<rparr>) DefaultNVMEConnectionParams = Inr a"
      "parse_param params ''reconnectDelay'' 1
             (\<lambda>i. '' must be positive; got '' @ Itoa i) (\<lambda>i c. c\<lparr>ReconnectDelay := i\<rparr>) a = Inr b"
      "parse_param params ''keepAliveTmo'' 0
             (\<lambda>i. '' must be non-negative; got '' @ Itoa i) (\<lambda>i c. c\<lparr>KeepAliveTmo := i\<rparr>) b = Inr p"
    unfolding ParseNVMEConnectionParams_def Let_def by (auto split: sum.splits)
  then show ?thesis
    using params_ok_default by (auto simp: params_ok_def dest!: parse_param_Inr)
qed

subsection \<open>Properties\<close>

text \<open>What \<^verbatim>\<open>ParseNVMEConnectionParams\<close> accepts is within the documented ranges, and the volume
  context made from it with \<^verbatim>\<open>ToVolumeContext\<close> parses to the same parameters, whatever keys of other
  names it is merged with.\<close>

theorem ParseNVMEConnectionParams_roundtrip:
  assumes "ParseNVMEConnectionParams params = Inr p"
  shows "-1 \<le> CtrlLossTmo p \<and> 1 \<le> ReconnectDelay p \<and> 0 \<le> KeepAliveTmo p \<and>
    ParseNVMEConnectionParams (other ++ ToVolumeContext p) = Inr p"
proof -
  have ok: "params_ok p" using assms by (rule ParseNVMEConnectionParams_ok)
  let ?m = "other ++ ToVolumeContext p"
  have "?m ''ctrlLossTmo'' = Some (Itoa (CtrlLossTmo p))"
    "?m ''reconnectDelay'' = Some (Itoa (ReconnectDelay p))"
    "?m ''keepAliveTmo'' = Some (Itoa (KeepAliveTmo p))"
    by (simp_all add: ToVolumeContext_def map_add_def)
  with ok have "ParseNVMEConnectionParams ?m = Inr p"
    by (simp add: ParseNVMEConnectionParams_def parse_param_Itoa params_ok_def Let_def)
  with ok show ?thesis by (simp add: params_ok_def)
qed

theorem ParseNVMEConnectionParams_roundtrip_witness:
  "ParseNVMEConnectionParams (Map.empty ++ ToVolumeContext \<lparr>CtrlLossTmo = 600, ReconnectDelay = 5, KeepAliveTmo = 0\<rparr>)
     = Inr \<lparr>CtrlLossTmo = 600, ReconnectDelay = 5, KeepAliveTmo = 0\<rparr>"
proof -
  have "ParseNVMEConnectionParams [''ctrlLossTmo'' \<mapsto> ''600'']
      = Inr \<lparr>CtrlLossTmo = 600, ReconnectDelay = 5, KeepAliveTmo = 0\<rparr>" by code_simp
  from ParseNVMEConnectionParams_roundtrip [OF this, of Map.empty] show ?thesis by blast
qed

text \<open>C26. \<^verbatim>\<open>ParseMigrationTimeout\<close> always returns between 30 seconds and one hour; a positive number of
  seconds whose product with the nanoseconds of a second fits \<open>int64\<close> is clamped to that interval, and
  a missing, empty, malformed or non-positive value gives five minutes.\<close>

theorem ParseMigrationTimeout_clamps:
  "30 * second \<le> ParseMigrationTimeout params \<and> ParseMigrationTimeout params \<le> hour \<and>
   ParseMigrationTimeout (params(''migrationTimeoutSeconds'' := v)) =
     (case v of
        None \<Rightarrow> 300 * second
      | Some s \<Rightarrow>
          (case Atoi s of
             None \<Rightarrow> 300 * second
           | Some n \<Rightarrow>
               if n \<le> 0 then 300 * second
               else if n \<le> 9223372036 then max (30 * second) (min hour (n * second))
               else max (30 * second) (min hour (wrap64 (n * second)))))"
proof (intro conjI)
  show "30 * second \<le> ParseMigrationTimeout params" "ParseMigrationTimeout params \<le> hour"
    by (auto simp: ParseMigrationTimeout_def DefaultMigrationTimeout_def MinMigrationTimeout_def
        MaxMigrationTimeout_def second_def minute_def hour_def Let_def split: option.splits)
  have e: "Atoi [] = None" by (simp add: Atoi_def parse_digits_def)
  have w: "wrap64 (n * second) = n * second" if "0 < n" "n \<le> 9223372036" for n
    using that by (intro wrap64_id) (simp_all add: min_int64_def max_int64_def second_def)
  have c: "(if t < MinMigrationTimeout then MinMigrationTimeout
      else if t > MaxMigrationTimeout then MaxMigrationTimeout else t) = max (30 * second) (min hour t)" for t
    by (auto simp: MinMigrationTimeout_def MaxMigrationTimeout_def hour_def minute_def second_def)
  have d: "DefaultMigrationTimeout = 300 * second"
    by (simp add: DefaultMigrationTimeout_def minute_def)
  show "ParseMigrationTimeout (params(''migrationTimeoutSeconds'' := v)) =
     (case v of
        None \<Rightarrow> 300 * second
      | Some s \<Rightarrow>
          (case Atoi s of
             None \<Rightarrow> 300 * second
           | Some n \<Rightarrow>
               if n \<le> 0 then 300 * second
               else if n \<le> 9223372036 then max (30 * second) (min hour (n * second))
               else max (30 * second) (min hour (wrap64 (n * second)))))"
    unfolding ParseMigrationTimeout_def Let_def c d
    by (cases v) (auto simp: e w split: option.split)
qed

text \<open>The product wraps for a huge request, which then gets the minimum instead of the maximum.\<close>

lemma ParseMigrationTimeout_wraps:
  "ParseMigrationTimeout [''migrationTimeoutSeconds'' \<mapsto> ''18446744074''] = MinMigrationTimeout"
  by (simp add: ParseMigrationTimeout_def Atoi_def parse_digits_def digits_val_def digit_val_def is_digit_def
      in_int64_def min_int64_def max_int64_def wrap64_def MinMigrationTimeout_def second_def)

end
