(* ===== verification/RdsClient.thy ===== *)
theory RdsClient
  imports Prelude
begin

text \<open>
  The storage server as the driver sees it: the data types of \<^verbatim>\<open>pkg/rds/types.go\<close> and the interface
  \<^verbatim>\<open>RDSClient\<close> of \<^verbatim>\<open>pkg/rds/client.go\<close>. The interface is a record of functions over a state of any type;
  the contract that the volume operations promise to the controller is the locale \<open>volume_service\<close>, for the names, creation
  options and sizes that the server can take. The locale \<open>rds_volumes\<close> is the contract of a server that can take all of them, and
  \<open>rds_store\<close> extends it by the snapshot operations. The in-memory client of \<^verbatim>\<open>pkg/rds/mock.go\<close> is modelled here in full and
  shown to fulfil them; the SSH client fulfils the first (theory \<open>SshController\<close>).
\<close>

subsection \<open>Data\<close>

record VolumeInfo =
  vi_Slot :: string
  vi_Type :: string
  vi_FilePath :: string
  vi_FileSizeBytes :: int
  vi_NVMETCPExport :: bool
  vi_NVMETCPPort :: int
  vi_NVMETCPNQN :: string
  vi_Status :: string

record CapacityInfo =
  ci_TotalBytes :: int
  ci_FreeBytes :: int
  ci_UsedBytes :: int

record CreateVolumeOptions =
  co_Slot :: string
  co_FilePath :: string
  co_FileSizeBytes :: int
  co_NVMETCPPort :: int
  co_NVMETCPNQN :: string

record FileInfo =
  fi_Name :: string
  fi_Path :: string
  fi_SizeBytes :: int
  fi_Type :: string
  fi_CreatedAt :: time

record SnapshotInfo =
  si_Name :: string
  si_SourceVolume :: string
  si_FileSizeBytes :: int
  si_CreatedAt :: time
  si_FilePath :: string

record CreateSnapshotOptions =
  so_Name :: string
  so_SourceVolume :: string
  so_BasePath :: string

subsection \<open>The interface\<close>

record 'r RDSClient =
  rCreateVolume :: "CreateVolumeOptions \<Rightarrow> 'r \<Rightarrow> goerr option \<times> 'r"
  rDeleteVolume :: "string \<Rightarrow> 'r \<Rightarrow> goerr option \<times> 'r"
  rResizeVolume :: "string \<Rightarrow> int \<Rightarrow> 'r \<Rightarrow> goerr option \<times> 'r"
  rGetVolume :: "string \<Rightarrow> 'r \<Rightarrow> (goerr + VolumeInfo) \<times> 'r"
  rListVolumes :: "'r \<Rightarrow> (goerr + VolumeInfo list) \<times> 'r"
  rListFiles :: "string \<Rightarrow> 'r \<Rightarrow> (goerr + FileInfo list) \<times> 'r"
  rDeleteFile :: "string \<Rightarrow> 'r \<Rightarrow> goerr option \<times> 'r"
  rGetCapacity :: "string \<Rightarrow> 'r \<Rightarrow> (goerr + CapacityInfo) \<times> 'r"
  rGetAddress :: "'r \<Rightarrow> string"
  rCreateSnapshot :: "CreateSnapshotOptions \<Rightarrow> 'r \<Rightarrow> (goerr + SnapshotInfo) \<times> 'r"
  rDeleteSnapshot :: "string \<Rightarrow> 'r \<Rightarrow> goerr option \<times> 'r"
  rGetSnapshot :: "string \<Rightarrow> 'r \<Rightarrow> (goerr + SnapshotInfo) \<times> 'r"
  rListSnapshots :: "'r \<Rightarrow> (goerr + SnapshotInfo list) \<times> 'r"
  rRestoreSnapshot :: "string \<Rightarrow> CreateVolumeOptions \<Rightarrow> 'r \<Rightarrow> goerr option \<times> 'r"

text \<open>The volume that creation options describe.\<close>

definition volume_of :: "CreateVolumeOptions \<Rightarrow> VolumeInfo" where
  "volume_of opts =
     \<lparr>vi_Slot = co_Slot opts, vi_Type = ''file'', vi_FilePath = co_FilePath opts,
      vi_FileSizeBytes = co_FileSizeBytes opts, vi_NVMETCPExport = True,
      vi_NVMETCPPort = co_NVMETCPPort opts, vi_NVMETCPNQN = co_NVMETCPNQN opts, vi_Status = ''ready''\<rparr>"

definition volume_missing :: "goerr \<Rightarrow> bool" where
  "volume_missing e \<longleftrightarrow> as_volume_not_found e \<or> errors_is e ErrVolumeNotFound"

text \<open>An error of the connection rather than of the request.\<close>

definition is_unavailable :: "goerr \<Rightarrow> bool" where
  "is_unavailable e \<longleftrightarrow> errors_is e ErrConnectionFailed \<or> errors_is e ErrOperationTimeout"

locale volume_service =
  fixes c :: "'r RDSClient"
    and vols :: "'r \<Rightarrow> string \<rightharpoonup> VolumeInfo"
    and ok :: "'r \<Rightarrow> bool"
    and named :: "string \<Rightarrow> bool"
    and fits :: "CreateVolumeOptions \<Rightarrow> bool"
    and whole :: "int \<Rightarrow> bool"
  assumes get_found: "ok r \<Longrightarrow> named s \<Longrightarrow> vols r s = Some v \<Longrightarrow> rGetVolume c s r = (Inr v, r)"
    and get_missing: "ok r \<Longrightarrow> named s \<Longrightarrow> vols r s = None \<Longrightarrow>
          \<exists>e. rGetVolume c s r = (Inl e, r) \<and> volume_missing e \<and> \<not> is_unavailable e"
    and create_new: "ok r \<Longrightarrow> fits opts \<Longrightarrow> vols r (co_Slot opts) = None \<Longrightarrow>
          \<exists>r'. rCreateVolume c opts r = (None, r') \<and> ok r' \<and> vols r' = (vols r)(co_Slot opts \<mapsto> volume_of opts)"
    and delete: "ok r \<Longrightarrow> named s \<Longrightarrow> \<exists>r'. rDeleteVolume c s r = (None, r') \<and> ok r' \<and> vols r' = (vols r)(s := None)"
    and resize: "ok r \<Longrightarrow> named s \<Longrightarrow> whole n \<Longrightarrow> vols r s = Some v \<Longrightarrow> vi_FileSizeBytes v < n \<Longrightarrow>
          \<exists>r'. rResizeVolume c s n r = (None, r') \<and> ok r' \<and> vols r' = (vols r)(s \<mapsto> v\<lparr>vi_FileSizeBytes := n\<rparr>)"

locale rds_volumes =
  fixes c :: "'r RDSClient"
    and vols :: "'r \<Rightarrow> string \<rightharpoonup> VolumeInfo"
    and ok :: "'r \<Rightarrow> bool"
  assumes get_found: "ok r \<Longrightarrow> vols r s = Some v \<Longrightarrow> rGetVolume c s r = (Inr v, r)"
    and get_missing: "ok r \<Longrightarrow> vols r s = None \<Longrightarrow>
          \<exists>e. rGetVolume c s r = (Inl e, r) \<and> volume_missing e \<and> \<not> is_unavailable e"
    and create_new: "ok r \<Longrightarrow> vols r (co_Slot opts) = None \<Longrightarrow>
          \<exists>r'. rCreateVolume c opts r = (None, r') \<and> ok r' \<and> vols r' = (vols r)(co_Slot opts \<mapsto> volume_of opts)"
    and delete: "ok r \<Longrightarrow> \<exists>r'. rDeleteVolume c s r = (None, r') \<and> ok r' \<and> vols r' = (vols r)(s := None)"
    and resize: "ok r \<Longrightarrow> vols r s = Some v \<Longrightarrow>
          \<exists>r'. rResizeVolume c s n r = (None, r') \<and> ok r' \<and> vols r' = (vols r)(s \<mapsto> v\<lparr>vi_FileSizeBytes := n\<rparr>)"
    and list_volumes: "ok r \<Longrightarrow>
          \<exists>l. rListVolumes c r = (Inr l, r) \<and> set l = ran (vols r)"
begin

lemma create_get:
  assumes "ok r" "vols r (co_Slot opts) = None"
  shows "\<exists>r'. rCreateVolume c opts r = (None, r') \<and> rGetVolume c (co_Slot opts) r' = (Inr (volume_of opts), r')"
proof -
  obtain r' where r': "rCreateVolume c opts r = (None, r')" "ok r'"
      "vols r' = (vols r)(co_Slot opts \<mapsto> volume_of opts)"
    using create_new [OF assms] by blast
  then have "vols r' (co_Slot opts) = Some (volume_of opts)" by simp
  with r' show ?thesis using get_found by blast
qed

lemma delete_get:
  assumes "ok r"
  shows "\<exists>r' e. rDeleteVolume c s r = (None, r') \<and> rGetVolume c s r' = (Inl e, r') \<and> volume_missing e"
proof -
  obtain r' where r': "rDeleteVolume c s r = (None, r')" "ok r'" "vols r' = (vols r)(s := None)"
    using delete [OF assms] by blast
  then have "vols r' s = None" by simp
  with r' show ?thesis using get_missing by blast
qed

end

sublocale rds_volumes \<subseteq> svc: volume_service c vols ok "\<lambda>_. True" "\<lambda>_. True" "\<lambda>_. True"
  by unfold_locales (use get_found get_missing create_new delete resize in blast)+

locale rds_store = rds_volumes +
  fixes snaps :: "'a \<Rightarrow> string \<rightharpoonup> SnapshotInfo"
  assumes snap_found: "ok r \<Longrightarrow> snaps r s = Some i \<Longrightarrow> rGetSnapshot c s r = (Inr i, r)"
    and snap_missing: "ok r \<Longrightarrow> snaps r s = None \<Longrightarrow>
          \<exists>e. rGetSnapshot c s r = (Inl e, r) \<and> as_snapshot_not_found e"
    and snap_create: "ok r \<Longrightarrow> vols r (so_SourceVolume o') = Some v \<Longrightarrow> snaps r (so_Name o') = None \<Longrightarrow>
          \<exists>i r'. rCreateSnapshot c o' r = (Inr i, r') \<and> ok r' \<and> vols r' = vols r \<and>
            snaps r' = (snaps r)(so_Name o' \<mapsto> i) \<and> si_Name i = so_Name o' \<and>
            si_SourceVolume i = so_SourceVolume o' \<and> si_FileSizeBytes i = vi_FileSizeBytes v"
    and snap_delete: "ok r \<Longrightarrow>
          \<exists>r'. rDeleteSnapshot c s r = (None, r') \<and> ok r' \<and> vols r' = vols r \<and> snaps r' = (snaps r)(s := None)"
    and restore: "ok r \<Longrightarrow> snaps r s = Some i \<Longrightarrow> vols r (co_Slot opts) = None \<Longrightarrow>
          \<exists>r'. rRestoreSnapshot c s opts r = (None, r') \<and> ok r' \<and> snaps r' = snaps r \<and>
            vols r' = (vols r)(co_Slot opts \<mapsto> volume_of opts)"
    and snap_list: "ok r \<Longrightarrow> \<exists>l. rListSnapshots c r = (Inr l, r) \<and> set l = ran (snaps r) \<and> distinct (map si_Name l)"
    and snaps_create_volume: "ok r \<Longrightarrow> vols r (co_Slot opts) = None \<Longrightarrow> snaps (snd (rCreateVolume c opts r)) = snaps r"

subsection \<open>The in-memory client\<close>

text \<open>
  \<^verbatim>\<open>MockClient\<close>: two maps and the injected errors. A Go map is iterated in an order of its own; the
  field \<open>mc_order\<close> turns the keys of a map into a list, and the well-formedness condition only asks that
  it lists each key once. Metrics and hardware health are not modelled. A clock reading is a field.
\<close>

record MockClient =
  mc_volumes :: "string \<rightharpoonup> VolumeInfo"
  mc_snapshots :: "string \<rightharpoonup> SnapshotInfo"
  mc_address :: string
  mc_connected :: bool
  mc_nextError :: "goerr option"
  mc_persistentErr :: "goerr option"
  mc_order :: "string set \<Rightarrow> string list"
  mc_now :: time

definition NewMockClient :: "(string set \<Rightarrow> string list) \<Rightarrow> time \<Rightarrow> MockClient" where
  "NewMockClient order now =
     \<lparr>mc_volumes = Map.empty, mc_snapshots = Map.empty, mc_address = ''mock-rds-server'',
      mc_connected = True, mc_nextError = None, mc_persistentErr = None, mc_order = order, mc_now = now\<rparr>"

definition mock_AddVolume :: "VolumeInfo \<Rightarrow> MockClient \<Rightarrow> MockClient" where
  "mock_AddVolume v m = m\<lparr>mc_volumes := (mc_volumes m)(vi_Slot v \<mapsto> v)\<rparr>"

definition mock_RemoveVolume :: "string \<Rightarrow> MockClient \<Rightarrow> MockClient" where
  "mock_RemoveVolume slot m = m\<lparr>mc_volumes := (mc_volumes m)(slot := None)\<rparr>"

definition mock_AddSnapshot :: "SnapshotInfo \<Rightarrow> MockClient \<Rightarrow> MockClient" where
  "mock_AddSnapshot s m = m\<lparr>mc_snapshots := (mc_snapshots m)(si_Name s \<mapsto> s)\<rparr>"

definition mock_RemoveSnapshot :: "string \<Rightarrow> MockClient \<Rightarrow> MockClient" where
  "mock_RemoveSnapshot name m = m\<lparr>mc_snapshots := (mc_snapshots m)(name := None)\<rparr>"

definition mock_SetAddress :: "string \<Rightarrow> MockClient \<Rightarrow> MockClient" where
  "mock_SetAddress addr m = m\<lparr>mc_address := addr\<rparr>"

definition mock_SetError :: "goerr option \<Rightarrow> MockClient \<Rightarrow> MockClient" where
  "mock_SetError err m = m\<lparr>mc_nextError := err\<rparr>"

definition mock_SetPersistentError :: "goerr option \<Rightarrow> MockClient \<Rightarrow> MockClient" where
  "mock_SetPersistentError err m = m\<lparr>mc_persistentErr := err\<rparr>"

definition mock_ClearError :: "MockClient \<Rightarrow> MockClient" where
  "mock_ClearError m = m\<lparr>mc_nextError := None, mc_persistentErr := None\<rparr>"

definition mock_SetConnected :: "bool \<Rightarrow> MockClient \<Rightarrow> MockClient" where
  "mock_SetConnected b m = m\<lparr>mc_connected := b\<rparr>"

definition mock_checkError :: "MockClient \<Rightarrow> goerr option \<times> MockClient" where
  "mock_checkError m =
     (if mc_persistentErr m \<noteq> None then (mc_persistentErr m, m)
      else if mc_nextError m \<noteq> None then (mc_nextError m, m\<lparr>mc_nextError := None\<rparr>)
      else (None, m))"

definition mock_Connect :: "MockClient \<Rightarrow> goerr option \<times> MockClient" where
  "mock_Connect m =
     (if mc_persistentErr m \<noteq> None then (mc_persistentErr m, m) else (None, m\<lparr>mc_connected := True\<rparr>))"

definition mock_Close :: "MockClient \<Rightarrow> goerr option \<times> MockClient" where
  "mock_Close m = (None, m\<lparr>mc_connected := False\<rparr>)"

definition mock_IsConnected :: "MockClient \<Rightarrow> bool" where
  "mock_IsConnected m = mc_connected m"

definition mock_GetAddress :: "MockClient \<Rightarrow> string" where
  "mock_GetAddress m = mc_address m"

definition mock_CreateVolume :: "CreateVolumeOptions \<Rightarrow> MockClient \<Rightarrow> goerr option \<times> MockClient" where
  "mock_CreateVolume opts m =
     (case mock_checkError m of
        (Some err, m) \<Rightarrow> (Some err, m)
      | (None, m) \<Rightarrow>
          if mc_volumes m (co_Slot opts) \<noteq> None
          then (Some (GoErr (''volume '' @ co_Slot opts @ '' already exists'')), m)
          else (None, m\<lparr>mc_volumes := (mc_volumes m)(co_Slot opts \<mapsto> volume_of opts)\<rparr>))"

definition mock_DeleteVolume :: "string \<Rightarrow> MockClient \<Rightarrow> goerr option \<times> MockClient" where
  "mock_DeleteVolume slot m =
     (case mock_checkError m of
        (Some err, m) \<Rightarrow> (Some err, m)
      | (None, m) \<Rightarrow>
          if mc_volumes m slot = None then (None, m)
          else (None, m\<lparr>mc_volumes := (mc_volumes m)(slot := None)\<rparr>))"

definition mock_ResizeVolume :: "string \<Rightarrow> int \<Rightarrow> MockClient \<Rightarrow> goerr option \<times> MockClient" where
  "mock_ResizeVolume slot newSizeBytes m =
     (case mock_checkError m of
        (Some err, m) \<Rightarrow> (Some err, m)
      | (None, m) \<Rightarrow>
          (case mc_volumes m slot of
             None \<Rightarrow> (Some (VolumeNotFoundError slot), m)
           | Some vol \<Rightarrow>
               (None, m\<lparr>mc_volumes := (mc_volumes m)(slot \<mapsto> vol\<lparr>vi_FileSizeBytes := newSizeBytes\<rparr>)\<rparr>)))"

definition mock_GetVolume :: "string \<Rightarrow> MockClient \<Rightarrow> (goerr + VolumeInfo) \<times> MockClient" where
  "mock_GetVolume slot m =
     (case mock_checkError m of
        (Some err, m) \<Rightarrow> (Inl err, m)
      | (None, m) \<Rightarrow>
          (case mc_volumes m slot of None \<Rightarrow> (Inl (VolumeNotFoundError slot), m) | Some vol \<Rightarrow> (Inr vol, m)))"

definition mock_VerifyVolumeExists :: "string \<Rightarrow> MockClient \<Rightarrow> goerr option" where
  "mock_VerifyVolumeExists slot m =
     (if mc_volumes m slot = None then Some (VolumeNotFoundError slot) else None)"

definition mock_ListVolumes :: "MockClient \<Rightarrow> (goerr + VolumeInfo list) \<times> MockClient" where
  "mock_ListVolumes m =
     (Inr (map (\<lambda>k. the (mc_volumes m k)) (mc_order m (dom (mc_volumes m)))), m)"

definition mock_ListFiles :: "string \<Rightarrow> MockClient \<Rightarrow> (goerr + FileInfo list) \<times> MockClient" where
  "mock_ListFiles path m = (Inr [], m)"

definition mock_DeleteFile :: "string \<Rightarrow> MockClient \<Rightarrow> goerr option \<times> MockClient" where
  "mock_DeleteFile path m = (None, m)"

definition mock_GetCapacity :: "string \<Rightarrow> MockClient \<Rightarrow> (goerr + CapacityInfo) \<times> MockClient" where
  "mock_GetCapacity basePath m =
     (Inr \<lparr>ci_TotalBytes = 1024 * 1024 * 1024 * 1024, ci_FreeBytes = 512 * 1024 * 1024 * 1024,
           ci_UsedBytes = 512 * 1024 * 1024 * 1024\<rparr>, m)"

definition mock_CreateSnapshot :: "CreateSnapshotOptions \<Rightarrow> MockClient \<Rightarrow> (goerr + SnapshotInfo) \<times> MockClient" where
  "mock_CreateSnapshot opts m =
     (case mock_checkError m of
        (Some err, m) \<Rightarrow> (Inl err, m)
      | (None, m) \<Rightarrow>
          (case mc_volumes m (so_SourceVolume opts) of
             None \<Rightarrow> (Inl (VolumeNotFoundError (so_SourceVolume opts)), m)
           | Some sourceVol \<Rightarrow>
               (case mc_snapshots m (so_Name opts) of
                  Some existing \<Rightarrow>
                    if si_SourceVolume existing = so_SourceVolume opts then (Inr existing, m)
                    else (Inl (GoErr (''snapshot '' @ so_Name opts
                           @ '' already exists with different source volume (existing: '' @ si_SourceVolume existing
                           @ '', requested: '' @ so_SourceVolume opts @ '')'')), m)
                | None \<Rightarrow>
                    (let snapshot = \<lparr>si_Name = so_Name opts, si_SourceVolume = so_SourceVolume opts,
                           si_FileSizeBytes = vi_FileSizeBytes sourceVol, si_CreatedAt = mc_now m,
                           si_FilePath = (if so_BasePath opts \<noteq> []
                             then so_BasePath opts @ ''/'' @ so_Name opts @ ''.img'' else [])\<rparr>
                     in (Inr snapshot, m\<lparr>mc_snapshots := (mc_snapshots m)(so_Name opts \<mapsto> snapshot)\<rparr>)))))"

definition mock_DeleteSnapshot :: "string \<Rightarrow> MockClient \<Rightarrow> goerr option \<times> MockClient" where
  "mock_DeleteSnapshot snapshotID m =
     (case mock_checkError m of
        (Some err, m) \<Rightarrow> (Some err, m)
      | (None, m) \<Rightarrow> (None, m\<lparr>mc_snapshots := (mc_snapshots m)(snapshotID := None)\<rparr>))"

definition mock_GetSnapshot :: "string \<Rightarrow> MockClient \<Rightarrow> (goerr + SnapshotInfo) \<times> MockClient" where
  "mock_GetSnapshot snapshotID m =
     (case mock_checkError m of
        (Some err, m) \<Rightarrow> (Inl err, m)
      | (None, m) \<Rightarrow>
          (case mc_snapshots m snapshotID of
             None \<Rightarrow> (Inl (SnapshotNotFoundError snapshotID), m)
           | Some snapshot \<Rightarrow> (Inr snapshot, m)))"

definition mock_ListSnapshots :: "MockClient \<Rightarrow> (goerr + SnapshotInfo list) \<times> MockClient" where
  "mock_ListSnapshots m =
     (case mock_checkError m of
        (Some err, m) \<Rightarrow> (Inl err, m)
      | (None, m) \<Rightarrow> (Inr (map (\<lambda>k. the (mc_snapshots m k)) (mc_order m (dom (mc_snapshots m)))), m))"

definition mock_RestoreSnapshot :: "string \<Rightarrow> CreateVolumeOptions \<Rightarrow> MockClient \<Rightarrow> goerr option \<times> MockClient" where
  "mock_RestoreSnapshot snapshotID newVolumeOpts m =
     (case mock_checkError m of
        (Some err, m) \<Rightarrow> (Some err, m)
      | (None, m) \<Rightarrow>
          if mc_snapshots m snapshotID = None then (Some (SnapshotNotFoundError snapshotID), m)
          else if mc_volumes m (co_Slot newVolumeOpts) \<noteq> None
          then (Some (GoErr (''volume '' @ co_Slot newVolumeOpts @ '' already exists'')), m)
          else (None, m\<lparr>mc_volumes := (mc_volumes m)(co_Slot newVolumeOpts \<mapsto> volume_of newVolumeOpts)\<rparr>))"

definition mock_client :: "MockClient RDSClient" where
  "mock_client =
     \<lparr>rCreateVolume = mock_CreateVolume, rDeleteVolume = mock_DeleteVolume, rResizeVolume = mock_ResizeVolume,
      rGetVolume = mock_GetVolume, rListVolumes = mock_ListVolumes, rListFiles = mock_ListFiles,
      rDeleteFile = mock_DeleteFile, rGetCapacity = mock_GetCapacity, rGetAddress = mock_GetAddress,
      rCreateSnapshot = mock_CreateSnapshot, rDeleteSnapshot = mock_DeleteSnapshot,
      rGetSnapshot = mock_GetSnapshot, rListSnapshots = mock_ListSnapshots, rRestoreSnapshot = mock_RestoreSnapshot\<rparr>"

subsection \<open>The in-memory client fulfils the contract\<close>

text \<open>
  Well-formed: no error is injected, every entry is filed under its own name, the maps are finite and
  the iteration lists the keys of a finite map once each.
\<close>

definition filed :: "('b \<Rightarrow> string) \<Rightarrow> (string \<rightharpoonup> 'b) \<Rightarrow> bool" where
  "filed key m \<longleftrightarrow> (\<forall>k v. m k = Some v \<longrightarrow> key v = k) \<and> finite (dom m)"

definition mock_ok :: "MockClient \<Rightarrow> bool" where
  "mock_ok m \<longleftrightarrow> mc_nextError m = None \<and> mc_persistentErr m = None \<and>
     filed vi_Slot (mc_volumes m) \<and> filed si_Name (mc_snapshots m) \<and>
     (\<forall>K. finite K \<longrightarrow> set (mc_order m K) = K \<and> distinct (mc_order m K))"

named_theorems mock_defs \<open>unfolding of the operations of the in-memory client\<close>

declare mock_client_def [mock_defs] mock_CreateVolume_def [mock_defs] mock_DeleteVolume_def [mock_defs]
  mock_ResizeVolume_def [mock_defs] mock_GetVolume_def [mock_defs] mock_ListVolumes_def [mock_defs]
  mock_CreateSnapshot_def [mock_defs] mock_DeleteSnapshot_def [mock_defs] mock_GetSnapshot_def [mock_defs]
  mock_ListSnapshots_def [mock_defs] mock_RestoreSnapshot_def [mock_defs] mock_GetAddress_def [mock_defs]

lemma mock_checkError_ok [simp]: "mock_ok m \<Longrightarrow> mock_checkError m = (None, m)"
  by (simp add: mock_checkError_def mock_ok_def)

lemma filed_upd:
  "filed key m \<Longrightarrow> key v = s \<Longrightarrow> filed key (m(s \<mapsto> v))"
  "filed key m \<Longrightarrow> filed key (m(s := None))"
  by (simp_all add: filed_def)

lemma mock_ok_volumes:
  "mock_ok m \<Longrightarrow> vi_Slot v = s \<Longrightarrow> mock_ok (m\<lparr>mc_volumes := (mc_volumes m)(s \<mapsto> v)\<rparr>)"
  "mock_ok m \<Longrightarrow> mock_ok (m\<lparr>mc_volumes := (mc_volumes m)(s := None)\<rparr>)"
  by (simp_all add: mock_ok_def filed_upd)

lemma mock_ok_snapshots:
  "mock_ok m \<Longrightarrow> si_Name i = s \<Longrightarrow> mock_ok (m\<lparr>mc_snapshots := (mc_snapshots m)(s \<mapsto> i)\<rparr>)"
  "mock_ok m \<Longrightarrow> mock_ok (m\<lparr>mc_snapshots := (mc_snapshots m)(s := None)\<rparr>)"
  by (simp_all add: mock_ok_def filed_upd)

lemma mock_okD:
  assumes "mock_ok m"
  shows "mc_volumes m k = Some v \<Longrightarrow> vi_Slot v = k" "mc_snapshots m k = Some i \<Longrightarrow> si_Name i = k"
    "set (mc_order m (dom (mc_volumes m))) = dom (mc_volumes m)"
    "set (mc_order m (dom (mc_snapshots m))) = dom (mc_snapshots m)"
    "distinct (mc_order m (dom (mc_snapshots m)))"
  using assms by (auto simp: mock_ok_def filed_def)

lemma image_the_dom: "(\<lambda>k. the (m k)) ` dom m = ran m"
  by (force simp: ran_def)

lemma volume_of_Slot [simp]: "vi_Slot (volume_of opts) = co_Slot opts"
  by (simp add: volume_of_def)

interpretation mock: rds_store mock_client mc_volumes mock_ok mc_snapshots
proof
  fix m :: MockClient and s :: string and opts :: CreateVolumeOptions and n :: int
  assume ok: "mock_ok m"
  show "\<exists>r'. rDeleteVolume mock_client s m = (None, r') \<and> mock_ok r' \<and> mc_volumes r' = (mc_volumes m)(s := None)"
    using ok by (auto simp: mock_defs mock_ok_volumes fun_upd_idem)
  show "\<exists>l. rListVolumes mock_client m = (Inr l, m) \<and> set l = ran (mc_volumes m)"
    using ok by (simp add: mock_defs mock_okD image_the_dom)
  show "\<exists>r'. rDeleteSnapshot mock_client s m = (None, r') \<and> mock_ok r' \<and> mc_volumes r' = mc_volumes m \<and>
      mc_snapshots r' = (mc_snapshots m)(s := None)"
    using ok by (simp add: mock_defs mock_ok_snapshots)
  have "map si_Name (map (\<lambda>k. the (mc_snapshots m k)) (mc_order m (dom (mc_snapshots m))))
      = mc_order m (dom (mc_snapshots m))"
    using mock_okD [OF ok] by (auto intro!: map_idI)
  with ok show "\<exists>l. rListSnapshots mock_client m = (Inr l, m) \<and> set l = ran (mc_snapshots m) \<and> distinct (map si_Name l)"
    by (simp add: mock_defs mock_okD image_the_dom del: map_map)
  { fix v assume "mc_volumes m s = Some v"
    with ok show "rGetVolume mock_client s m = (Inr v, m)" by (simp add: mock_defs) }
  { assume "mc_volumes m s = None"
    with ok show "\<exists>e. rGetVolume mock_client s m = (Inl e, m) \<and> volume_missing e \<and> \<not> is_unavailable e"
      by (simp add: mock_defs volume_missing_def is_unavailable_def) }
  { assume "mc_volumes m (co_Slot opts) = None"
    with ok show "\<exists>r'. rCreateVolume mock_client opts m = (None, r') \<and> mock_ok r' \<and>
        mc_volumes r' = (mc_volumes m)(co_Slot opts \<mapsto> volume_of opts)"
      by (simp add: mock_defs mock_ok_volumes) }
  { assume "mc_volumes m (co_Slot opts) = None"
    with ok show "mc_snapshots (snd (rCreateVolume mock_client opts m)) = mc_snapshots m"
      by (simp add: mock_defs) }
  { fix v assume v: "mc_volumes m s = Some v"
    then have "vi_Slot v = s" using ok by (simp add: mock_okD)
    with ok v show "\<exists>r'. rResizeVolume mock_client s n m = (None, r') \<and> mock_ok r' \<and>
        mc_volumes r' = (mc_volumes m)(s \<mapsto> v\<lparr>vi_FileSizeBytes := n\<rparr>)"
      by (simp add: mock_defs mock_ok_volumes) }
  { fix i assume "mc_snapshots m s = Some i"
    with ok show "rGetSnapshot mock_client s m = (Inr i, m)" by (simp add: mock_defs) }
  { assume "mc_snapshots m s = None"
    with ok show "\<exists>e. rGetSnapshot mock_client s m = (Inl e, m) \<and> as_snapshot_not_found e"
      by (simp add: mock_defs) }
  { fix i assume "mc_snapshots m s = Some i" "mc_volumes m (co_Slot opts) = None"
    with ok show "\<exists>r'. rRestoreSnapshot mock_client s opts m = (None, r') \<and> mock_ok r' \<and>
        mc_snapshots r' = mc_snapshots m \<and> mc_volumes r' = (mc_volumes m)(co_Slot opts \<mapsto> volume_of opts)"
      by (simp add: mock_defs mock_ok_volumes) }
  { fix v and o' :: CreateSnapshotOptions assume "mc_volumes m (so_SourceVolume o') = Some v" "mc_snapshots m (so_Name o') = None"
    with ok show "\<exists>i r'. rCreateSnapshot mock_client o' m = (Inr i, r') \<and> mock_ok r' \<and> mc_volumes r' = mc_volumes m \<and>
        mc_snapshots r' = (mc_snapshots m)(so_Name o' \<mapsto> i) \<and> si_Name i = so_Name o' \<and>
        si_SourceVolume i = so_SourceVolume o' \<and> si_FileSizeBytes i = vi_FileSizeBytes v"
      by (simp add: mock_defs Let_def mock_ok_snapshots) }
qed

end
