(* ===== verification/Kube.thy ===== *)
theory Kube
  imports Prelude
begin

text \<open>
  The Kubernetes API as the driver sees it. Client-go and the API server are not part of the
  repository, so the calls the driver makes are the fields of a record \<open>kube\<close>: functions over a
  cluster state of any type \<open>'k\<close>, which every call may read and change. Nothing is assumed of them
  except where a theorem says so. The objects carry the fields the driver reads or writes.
\<close>

record PV =
  pv_Name :: string
  pv_CSI :: "(string \<times> string) option" \<comment> \<open>\<^verbatim>\<open>Spec.CSI\<close>: driver and volume handle\<close>
  pv_Annotations :: "(string \<rightharpoonup> string) option"
  pv_AccessModes :: "string list"
  pv_ClaimRef :: "(string \<times> string) option" \<comment> \<open>namespace and name of the bound claim\<close>

record VolumeAttachment =
  va_Name :: string
  va_Attacher :: string
  va_PVName :: "string option"
  va_NodeName :: string
  va_Attached :: bool
  va_CreationTimestamp :: time

record 'k kube =
  kPVGet :: "string \<Rightarrow> 'k \<Rightarrow> (goerr + PV) \<times> 'k"
  kPVUpdate :: "PV \<Rightarrow> 'k \<Rightarrow> goerr option \<times> 'k"
  kPVList :: "'k \<Rightarrow> (goerr + PV list) \<times> 'k"
  kVAList :: "'k \<Rightarrow> (goerr + VolumeAttachment list) \<times> 'k"
  kNodeExists :: "string \<Rightarrow> 'k \<Rightarrow> (goerr + bool) \<times> 'k" \<comment> \<open>\<^verbatim>\<open>Nodes().Get\<close>: \<open>Inr False\<close> is a NotFound error\<close>
  kRetryOnConflict :: "('k \<Rightarrow> goerr option \<times> 'k) \<Rightarrow> 'k \<Rightarrow> goerr option \<times> 'k"
  kNowStamp :: "'k \<Rightarrow> string" \<comment> \<open>\<^verbatim>\<open>metav1.Now().Format(metav1.RFC3339Micro)\<close>\<close>
  kPVCGet :: "string \<Rightarrow> string \<Rightarrow> 'k \<Rightarrow> goerr option \<times> 'k" \<comment> \<open>namespace and name of a claim; \<open>None\<close> is success\<close>
  kEvent :: "string \<times> string \<Rightarrow> string \<Rightarrow> string \<Rightarrow> string \<Rightarrow> 'k \<Rightarrow> 'k" \<comment> \<open>\<^verbatim>\<open>recorder.Event\<close>: claim, type, reason, message\<close>

end
