(* ===== verification/Attachment.thy ===== *)
theory Attachment
  imports Kube
begin

text \<open>
  The attachment manager: \<^verbatim>\<open>pkg/attachment/types.go\<close>, \<^verbatim>\<open>manager.go\<close> and \<^verbatim>\<open>persist.go\<close>. A state is the
  record of the two maps the manager holds. Every operation runs under the lock of its volume (theory
  \<open>Locks\<close> models the lock manager), so it is one function from state to state; it also threads the
  cluster state through the annotation writes. Logging and metrics are left out. Callers only read
  through the pointers the manager hands out, so an attachment state is a value here.

  After the operations come the invariant of the attachment table with one preservation lemma per
  operation, the abstraction to an ordered list of nodes per volume, and the contract of the manager
  as a locale that the operations are shown to fulfil.
\<close>

subsection \<open>Types\<close>

record NodeAttachment =
  na_NodeID :: string
  na_AttachedAt :: time

record AttachmentState =
  VolumeID :: string
  NodeID :: string
  Nodes :: "NodeAttachment list"
  AttachedAt :: time
  DetachedAt :: "time option"
  AccessMode :: string
  MigrationStartedAt :: "time option"
  MigrationTimeout :: duration

record AttachmentManager =
  attachments :: "string \<rightharpoonup> AttachmentState"
  detachTimestamps :: "string \<rightharpoonup> time"

definition GetNodeIDs :: "AttachmentState \<Rightarrow> string list" where
  "GetNodeIDs as = map na_NodeID (Nodes as)"

definition state_IsAttachedToNode :: "AttachmentState \<Rightarrow> string \<Rightarrow> bool" where
  "state_IsAttachedToNode as nodeID \<longleftrightarrow> list_ex (\<lambda>na. na_NodeID na = nodeID) (Nodes as)"

definition NodeCount :: "AttachmentState \<Rightarrow> nat" where
  "NodeCount as = length (Nodes as)"

definition IsMigrating :: "AttachmentState \<Rightarrow> bool" where
  "IsMigrating as \<longleftrightarrow> MigrationStartedAt as \<noteq> None \<and> length (Nodes as) > 1"

definition IsMigrationTimedOut :: "time \<Rightarrow> AttachmentState \<Rightarrow> bool" where
  "IsMigrationTimedOut now as =
     (case MigrationStartedAt as of
        None \<Rightarrow> False
      | Some started \<Rightarrow>
          if MigrationTimeout as = 0 then False else since now started > MigrationTimeout as)"

subsection \<open>Annotations\<close>

definition AnnotationAttachedNode :: string where
  "AnnotationAttachedNode = ''rds.csi.srvlab.io/attached-node''"

definition AnnotationAttachedAt :: string where
  "AnnotationAttachedAt = ''rds.csi.srvlab.io/attached-at''"

function indexOf_from :: "nat \<Rightarrow> string \<Rightarrow> string \<Rightarrow> int" where
  "indexOf_from i s substr =
     (if i + length substr \<le> length s
      then if take (length substr) (drop i s) = substr then int i
           else indexOf_from (Suc i) s substr
      else -1)"
  by pat_completeness auto
termination
  by (relation "measure (\<lambda>(i, s, substr). length s + 1 - i)") auto

declare indexOf_from.simps [simp del]

definition indexOf :: "string \<Rightarrow> string \<Rightarrow> int" where
  "indexOf s substr = indexOf_from 0 s substr"

definition containsSubstring :: "string \<Rightarrow> string \<Rightarrow> bool" where
  "containsSubstring s substr \<longleftrightarrow>
     length s \<ge> length substr \<and>
     (s = substr \<or>
      (length s > length substr \<and>
       (take (length substr) s = substr \<or> drop (length s - length substr) s = substr \<or>
        indexOf s substr \<ge> 0)))"

definition isNotFoundError :: "goerr option \<Rightarrow> bool" where
  "isNotFoundError err =
     (case err of None \<Rightarrow> False
      | Some e \<Rightarrow> err_msg e = ''not found'' \<or> containsSubstring (err_msg e) ''not found'')"

definition persistAttachment ::
    "'k kube option \<Rightarrow> string \<Rightarrow> string \<Rightarrow> 'k \<Rightarrow> goerr option \<times> 'k" where
  "persistAttachment k8sClient volumeID nodeID w =
     (case k8sClient of
        None \<Rightarrow> (None, w)
      | Some k \<Rightarrow>
          (let (res, w') = kRetryOnConflict k (\<lambda>w.
                 case kPVGet k volumeID w of
                   (Inl err, w) \<Rightarrow> (Some err, w)
                 | (Inr pv, w) \<Rightarrow>
                     (let ann = (case pv_Annotations pv of None \<Rightarrow> Map.empty | Some m \<Rightarrow> m);
                          ann = ann(AnnotationAttachedNode \<mapsto> nodeID, AnnotationAttachedAt \<mapsto> kNowStamp k w)
                      in kPVUpdate k (pv\<lparr>pv_Annotations := Some ann\<rparr>) w)) w
           in case res of
                None \<Rightarrow> (None, w')
              | Some err \<Rightarrow>
                  if err_msg err = ''not found'' \<or> isNotFoundError (Some err) then (None, w')
                  else (Some (wrap_err ''failed to persist attachment annotation: '' err), w')))"

definition clearAttachment :: "'k kube option \<Rightarrow> string \<Rightarrow> 'k \<Rightarrow> goerr option \<times> 'k" where
  "clearAttachment k8sClient volumeID w =
     (case k8sClient of
        None \<Rightarrow> (None, w)
      | Some k \<Rightarrow>
          (let (res, w') = kRetryOnConflict k (\<lambda>w.
                 case kPVGet k volumeID w of
                   (Inl err, w) \<Rightarrow> (Some err, w)
                 | (Inr pv, w) \<Rightarrow>
                     (let ann = map_option (\<lambda>m. m(AnnotationAttachedNode := None, AnnotationAttachedAt := None))
                                  (pv_Annotations pv)
                      in kPVUpdate k (pv\<lparr>pv_Annotations := ann\<rparr>) w)) w
           in case res of
                None \<Rightarrow> (None, w')
              | Some err \<Rightarrow>
                  if err_msg err = ''not found'' \<or> isNotFoundError (Some err) then (None, w')
                  else (Some (wrap_err ''failed to clear attachment annotation: '' err), w')))"

subsection \<open>Operations\<close>

definition NewAttachmentManager :: AttachmentManager where
  "NewAttachmentManager = \<lparr>attachments = Map.empty, detachTimestamps = Map.empty\<rparr>"

definition new_state :: "time \<Rightarrow> string \<Rightarrow> string \<Rightarrow> string \<Rightarrow> AttachmentState" where
  "new_state now volumeID nodeID accessMode =
     \<lparr>VolumeID = volumeID, NodeID = nodeID,
      Nodes = [\<lparr>na_NodeID = nodeID, na_AttachedAt = now\<rparr>], AttachedAt = now, DetachedAt = None,
      AccessMode = accessMode, MigrationStartedAt = None, MigrationTimeout = 0\<rparr>"

definition TrackAttachmentWithMode ::
    "'k kube option \<Rightarrow> time \<Rightarrow> string \<Rightarrow> string \<Rightarrow> string \<Rightarrow> AttachmentManager \<Rightarrow> 'k
     \<Rightarrow> goerr option \<times> AttachmentManager \<times> 'k" where
  "TrackAttachmentWithMode k8sClient now volumeID nodeID accessMode am w =
     (case attachments am volumeID of
        Some existing \<Rightarrow>
          if state_IsAttachedToNode existing nodeID then (None, am, w)
          else (Some (GoErr (''volume '' @ volumeID @ '' already attached to node '' @ NodeID existing)), am, w)
      | None \<Rightarrow>
          (let state = new_state now volumeID nodeID accessMode;
               am = am\<lparr>attachments := (attachments am)(volumeID \<mapsto> state)\<rparr>
           in case persistAttachment k8sClient volumeID nodeID w of
                (Some err, w) \<Rightarrow>
                  (Some (wrap_err ''failed to persist attachment: '' err),
                   am\<lparr>attachments := (attachments am)(volumeID := None)\<rparr>, w)
              | (None, w) \<Rightarrow> (None, am, w)))"

definition TrackAttachment ::
    "'k kube option \<Rightarrow> time \<Rightarrow> string \<Rightarrow> string \<Rightarrow> AttachmentManager \<Rightarrow> 'k
     \<Rightarrow> goerr option \<times> AttachmentManager \<times> 'k" where
  "TrackAttachment k8sClient now volumeID nodeID am w =
     TrackAttachmentWithMode k8sClient now volumeID nodeID ''RWO'' am w"

text \<open>The clock is read twice: \<open>now1\<close> for the node, \<open>now2\<close> for the start of the migration.\<close>

definition AddSecondaryAttachment ::
    "time \<Rightarrow> time \<Rightarrow> string \<Rightarrow> string \<Rightarrow> duration \<Rightarrow> AttachmentManager
     \<Rightarrow> goerr option \<times> AttachmentManager" where
  "AddSecondaryAttachment now1 now2 volumeID nodeID migrationTimeout am =
     (case attachments am volumeID of
        None \<Rightarrow> (Some (GoErr (''volume '' @ volumeID @ '' not attached'')), am)
      | Some existing \<Rightarrow>
          if state_IsAttachedToNode existing nodeID then (None, am)
          else if length (Nodes existing) \<ge> 2
          then (Some (GoErr (''volume '' @ volumeID @ '' already attached to 2 nodes (migration limit)'')), am)
          else (let existing = existing\<lparr>Nodes := Nodes existing @ [\<lparr>na_NodeID = nodeID, na_AttachedAt = now1\<rparr>],
                      MigrationStartedAt := Some now2, MigrationTimeout := migrationTimeout\<rparr>
                in (None, am\<lparr>attachments := (attachments am)(volumeID \<mapsto> existing)\<rparr>)))"

definition UntrackAttachment ::
    "'k kube option \<Rightarrow> time \<Rightarrow> string \<Rightarrow> AttachmentManager \<Rightarrow> 'k
     \<Rightarrow> goerr option \<times> AttachmentManager \<times> 'k" where
  "UntrackAttachment k8sClient now volumeID am w =
     (case attachments am volumeID of
        None \<Rightarrow> (None, am, w)
      | Some _ \<Rightarrow>
          (let am = am\<lparr>detachTimestamps := (detachTimestamps am)(volumeID \<mapsto> now),
                       attachments := (attachments am)(volumeID := None)\<rparr>;
               (_, w) = clearAttachment k8sClient volumeID w
           in (None, am, w)))"

definition GetAttachment :: "string \<Rightarrow> AttachmentManager \<Rightarrow> AttachmentState option" where
  "GetAttachment volumeID am = attachments am volumeID"

definition ListAttachments :: "AttachmentManager \<Rightarrow> (string \<rightharpoonup> AttachmentState)" where
  "ListAttachments am = attachments am"

definition IsWithinGracePeriod :: "time \<Rightarrow> string \<Rightarrow> duration \<Rightarrow> AttachmentManager \<Rightarrow> bool" where
  "IsWithinGracePeriod now volumeID gracePeriod am =
     (case detachTimestamps am volumeID of
        None \<Rightarrow> False
      | Some detachTime \<Rightarrow> since now detachTime < gracePeriod)"

definition GetDetachTimestamp :: "string \<Rightarrow> AttachmentManager \<Rightarrow> time" where
  "GetDetachTimestamp volumeID am =
     (case detachTimestamps am volumeID of None \<Rightarrow> zero_time | Some t \<Rightarrow> t)"

definition ClearDetachTimestamp :: "string \<Rightarrow> AttachmentManager \<Rightarrow> AttachmentManager" where
  "ClearDetachTimestamp volumeID am =
     am\<lparr>detachTimestamps := (detachTimestamps am)(volumeID := None)\<rparr>"

definition GetNodeCount :: "string \<Rightarrow> AttachmentManager \<Rightarrow> nat" where
  "GetNodeCount volumeID am =
     (case attachments am volumeID of Some state \<Rightarrow> NodeCount state | None \<Rightarrow> 0)"

definition IsAttachedToNode :: "string \<Rightarrow> string \<Rightarrow> AttachmentManager \<Rightarrow> bool" where
  "IsAttachedToNode volumeID nodeID am =
     (case attachments am volumeID of Some state \<Rightarrow> state_IsAttachedToNode state nodeID | None \<Rightarrow> False)"

definition GetAccessMode :: "string \<Rightarrow> AttachmentManager \<Rightarrow> string" where
  "GetAccessMode volumeID am =
     (case attachments am volumeID of Some state \<Rightarrow> AccessMode state | None \<Rightarrow> [])"

definition ClearMigrationState :: "string \<Rightarrow> AttachmentManager \<Rightarrow> AttachmentManager" where
  "ClearMigrationState volumeID am =
     (case attachments am volumeID of
        Some state \<Rightarrow>
          am\<lparr>attachments := (attachments am)(volumeID \<mapsto>
               state\<lparr>MigrationStartedAt := None, MigrationTimeout := 0\<rparr>)\<rparr>
      | None \<Rightarrow> am)"

definition RemoveNodeAttachment ::
    "'k kube option \<Rightarrow> time \<Rightarrow> string \<Rightarrow> string \<Rightarrow> AttachmentManager \<Rightarrow> 'k
     \<Rightarrow> (goerr + bool) \<times> AttachmentManager \<times> 'k" where
  "RemoveNodeAttachment k8sClient now volumeID nodeID am w =
     (case attachments am volumeID of
        None \<Rightarrow> (Inr False, am, w)
      | Some existing \<Rightarrow>
          (let newNodes = filter (\<lambda>na. na_NodeID na \<noteq> nodeID) (Nodes existing);
               found = list_ex (\<lambda>na. na_NodeID na = nodeID) (Nodes existing)
           in if \<not> found then (Inr False, am, w)
              else if length newNodes = 0 then
                (let am = am\<lparr>detachTimestamps := (detachTimestamps am)(volumeID \<mapsto> now),
                             attachments := (attachments am)(volumeID := None)\<rparr>;
                     (_, w) = clearAttachment k8sClient volumeID w
                 in (Inr True, am, w))
              else
                (let existing = (if found \<and> length newNodes = 1
                       then existing\<lparr>MigrationStartedAt := None, MigrationTimeout := 0\<rparr> else existing);
                     existing = existing\<lparr>Nodes := newNodes, NodeID := na_NodeID (newNodes ! 0)\<rparr>
                 in (Inr False, am\<lparr>attachments := (attachments am)(volumeID \<mapsto> existing)\<rparr>, w))))"

subsection \<open>The substring helper\<close>

text \<open>The hand-written search agrees with \<^verbatim>\<open>strings.Contains\<close>.\<close>

lemma indexOf_from_nonneg_iff:
  "indexOf_from i s p \<ge> 0 \<longleftrightarrow> (\<exists>j\<ge>i. j + length p \<le> length s \<and> take (length p) (drop j s) = p)"
proof (induction i s p rule: indexOf_from.induct)
  case (1 i s p)
  show ?case
  proof (cases "i + length p \<le> length s")
    case True
    show ?thesis
    proof (cases "take (length p) (drop i s) = p")
      case m: True
      have "indexOf_from i s p \<ge> 0" using True m by (subst indexOf_from.simps) simp
      with True m show ?thesis by blast
    next
      case m: False
      have "indexOf_from i s p \<ge> 0 \<longleftrightarrow> indexOf_from (Suc i) s p \<ge> 0"
        using True m by (subst indexOf_from.simps) simp
      also have "\<dots> \<longleftrightarrow> (\<exists>j\<ge>Suc i. j + length p \<le> length s \<and> take (length p) (drop j s) = p)"
        by (rule 1 [OF True m])
      also have "\<dots> \<longleftrightarrow> (\<exists>j\<ge>i. j + length p \<le> length s \<and> take (length p) (drop j s) = p)"
        using m by (metis Suc_leD le_neq_implies_less Suc_leI)
      finally show ?thesis .
    qed
  next
    case False
    then show ?thesis by (subst indexOf_from.simps) auto
  qed
qed

lemma indexOf_nonneg_iff: "indexOf s p \<ge> 0 \<longleftrightarrow> Contains s p"
proof
  assume "indexOf s p \<ge> 0"
  then obtain j where "take (length p) (drop j s) = p"
    unfolding indexOf_def indexOf_from_nonneg_iff by blast
  then have "s = take j s @ p @ drop (length p) (drop j s)"
    by (metis append_take_drop_id)
  then show "Contains s p" unfolding Contains_iff by blast
next
  assume "Contains s p"
  then obtain a b where s: "s = a @ p @ b" unfolding Contains_iff by blast
  have "\<exists>j\<ge>0. j + length p \<le> length s \<and> take (length p) (drop j s) = p"
    by (rule exI [of _ "length a"]) (simp add: s)
  then show "indexOf s p \<ge> 0" unfolding indexOf_def indexOf_from_nonneg_iff .
qed

lemma containsSubstring_eq: "containsSubstring s p = Contains s p"
proof
  assume "containsSubstring s p"
  then consider "s = p" | "take (length p) s = p" | "drop (length s - length p) s = p" | "indexOf s p \<ge> 0"
    unfolding containsSubstring_def by blast
  then show "Contains s p"
  proof cases
    case 1
    then have "s = [] @ p @ []" by simp
    then show ?thesis unfolding Contains_iff by blast
  next
    case 2
    then have "s = [] @ p @ drop (length p) s" by (metis append_Nil append_take_drop_id)
    then show ?thesis unfolding Contains_iff by blast
  next
    case 3
    then have "s = take (length s - length p) s @ p @ []" by (metis append_Nil2 append_take_drop_id)
    then show ?thesis unfolding Contains_iff by blast
  next
    case 4
    then show ?thesis by (simp add: indexOf_nonneg_iff)
  qed
next
  assume c: "Contains s p"
  then obtain a b where s: "s = a @ p @ b" unfolding Contains_iff by blast
  with c show "containsSubstring s p"
    by (auto simp: containsSubstring_def indexOf_nonneg_iff)
qed

subsection \<open>The attachment table\<close>

text \<open>The nodes of a volume in attachment order; empty when the volume is not tracked.\<close>

definition nodes_of :: "AttachmentManager \<Rightarrow> string \<Rightarrow> string list" where
  "nodes_of am v = (case attachments am v of None \<Rightarrow> [] | Some s \<Rightarrow> map na_NodeID (Nodes s))"

text \<open>
  A well-formed entry: filed under its own volume, one or two distinct nodes, the primary node
  repeated in \<open>NodeID\<close>, and migration data only while there are two nodes.
\<close>

definition entry_ok :: "string \<Rightarrow> AttachmentState \<Rightarrow> bool" where
  "entry_ok v s \<longleftrightarrow> VolumeID s = v \<and> Nodes s \<noteq> [] \<and> length (Nodes s) \<le> 2 \<and>
     distinct (map na_NodeID (Nodes s)) \<and> NodeID s = na_NodeID (hd (Nodes s)) \<and> DetachedAt s = None \<and>
     (length (Nodes s) = 1 \<longrightarrow> MigrationStartedAt s = None \<and> MigrationTimeout s = 0)"

text \<open>The entries the driver itself produces also record the start of every migration.\<close>

definition entry_migration :: "AttachmentState \<Rightarrow> bool" where
  "entry_migration s \<longleftrightarrow> (length (Nodes s) = 2 \<longrightarrow> MigrationStartedAt s \<noteq> None)"

definition am_ok :: "AttachmentManager \<Rightarrow> bool" where
  "am_ok am \<longleftrightarrow> (\<forall>v s. attachments am v = Some s \<longrightarrow> entry_ok v s)"

definition am_migrations :: "AttachmentManager \<Rightarrow> bool" where
  "am_migrations am \<longleftrightarrow> (\<forall>v s. attachments am v = Some s \<longrightarrow> entry_migration s)"

named_theorems am_defs \<open>unfolding of the manager's operations\<close>

declare TrackAttachmentWithMode_def [am_defs] TrackAttachment_def [am_defs]
  AddSecondaryAttachment_def [am_defs] UntrackAttachment_def [am_defs]
  ClearDetachTimestamp_def [am_defs] ClearMigrationState_def [am_defs] RemoveNodeAttachment_def [am_defs]
  NewAttachmentManager_def [am_defs] new_state_def [am_defs] Let_def [am_defs]

lemmas am_splits = option.splits prod.splits if_splits

lemma length_le_2_cases:
  assumes "length xs \<le> 2" "xs \<noteq> []"
  obtains x where "xs = [x]" | x y where "xs = [x, y]"
  using assms by (cases xs rule: remdups_adj.cases) (auto simp: Suc_le_eq)

lemma am_okD: "am_ok am \<Longrightarrow> attachments am v = Some s \<Longrightarrow> entry_ok v s"
  by (simp add: am_ok_def)

lemma am_ok_upd: "am_ok am \<Longrightarrow> entry_ok v s \<Longrightarrow> am_ok (am\<lparr>attachments := (attachments am)(v \<mapsto> s)\<rparr>)"
  by (simp add: am_ok_def)

lemma am_ok_del: "am_ok am \<Longrightarrow> am_ok (am\<lparr>attachments := (attachments am)(v := None)\<rparr>)"
  by (simp add: am_ok_def)

lemma am_ok_detach [simp]:
  "am_ok (am\<lparr>detachTimestamps := d\<rparr>) = am_ok am"
  "am_ok (am\<lparr>detachTimestamps := d, attachments := a\<rparr>) = am_ok (am\<lparr>attachments := a\<rparr>)"
  by (simp_all add: am_ok_def)

lemma am_mig_upd:
  "am_migrations am \<Longrightarrow> entry_migration s \<Longrightarrow> am_migrations (am\<lparr>attachments := (attachments am)(v \<mapsto> s)\<rparr>)"
  by (simp add: am_migrations_def)

lemma am_mig_del:
  "am_migrations am \<Longrightarrow> am_migrations (am\<lparr>attachments := (attachments am)(v := None)\<rparr>)"
  by (simp add: am_migrations_def)

lemma am_mig_detach [simp]:
  "am_migrations (am\<lparr>detachTimestamps := d\<rparr>) = am_migrations am"
  "am_migrations (am\<lparr>detachTimestamps := d, attachments := a\<rparr>) = am_migrations (am\<lparr>attachments := a\<rparr>)"
  by (simp_all add: am_migrations_def)

lemma entry_ok_new: "entry_ok v (new_state now v n m)"
  by (simp add: entry_ok_def new_state_def)

lemma entry_migration_new: "entry_migration (new_state now v n m)"
  by (simp add: entry_migration_def new_state_def)

subsection \<open>What the operations do\<close>

text \<open>
  Each operation as a function of the table: the new attachments and detach times. The other
  component of the result (the error, the cluster state) is described apart.
\<close>

lemma Track_existing:
  "attachments am v = Some s \<Longrightarrow> TrackAttachmentWithMode k now v n m am w =
     (if n \<in> set (nodes_of am v) then None
      else Some (GoErr (''volume '' @ v @ '' already attached to node '' @ NodeID s)), am, w)"
  by (auto simp: am_defs nodes_of_def state_IsAttachedToNode_def list_ex_iff)

lemma Track_new:
  assumes "attachments am v = None"
  shows "TrackAttachmentWithMode k now v n m am w =
    (case persistAttachment k v n w of
       (Some err, w') \<Rightarrow> (Some (wrap_err ''failed to persist attachment: '' err), am, w')
     | (None, w') \<Rightarrow> (None, am\<lparr>attachments := (attachments am)(v \<mapsto> new_state now v n m)\<rparr>, w'))"
proof -
  have "(attachments am)(v := None) = attachments am" using assms by (simp add: fun_upd_idem)
  then show ?thesis using assms
    by (simp add: TrackAttachmentWithMode_def Let_def split: prod.split option.split)
qed

lemma Untrack_am:
  "fst (snd (UntrackAttachment k now v am w)) =
     (if attachments am v = None then am
      else am\<lparr>detachTimestamps := (detachTimestamps am)(v \<mapsto> now), attachments := (attachments am)(v := None)\<rparr>)"
  by (auto simp: am_defs split: am_splits)

lemma Untrack_err [simp]: "fst (UntrackAttachment k now v am w) = None"
  by (auto simp: am_defs split: am_splits)

text \<open>The node removal, on a well-formed entry: by the number of nodes left.\<close>

definition drop_node :: "string \<Rightarrow> AttachmentState \<Rightarrow> AttachmentState" where
  "drop_node n s = (let ns = filter (\<lambda>na. na_NodeID na \<noteq> n) (Nodes s) in
     s\<lparr>MigrationStartedAt := None, MigrationTimeout := 0, Nodes := ns, NodeID := na_NodeID (hd ns)\<rparr>)"

lemma Remove_ok:
  assumes "am_ok am"
  shows "RemoveNodeAttachment k now v n am w =
    (if n \<notin> set (nodes_of am v) then (Inr False, am, w)
     else if nodes_of am v = [n]
     then (Inr True, am\<lparr>detachTimestamps := (detachTimestamps am)(v \<mapsto> now),
                        attachments := (attachments am)(v := None)\<rparr>, snd (clearAttachment k v w))
     else (Inr False, am\<lparr>attachments := (attachments am)(v \<mapsto> drop_node n (the (attachments am v)))\<rparr>, w))"
proof (cases "attachments am v")
  case None
  then show ?thesis by (simp add: RemoveNodeAttachment_def nodes_of_def)
next
  case (Some s)
  with assms have ok: "entry_ok v s" by (rule am_okD)
  then have "length (Nodes s) \<le> 2" "Nodes s \<noteq> []" by (auto simp: entry_ok_def)
  then show ?thesis
    by (cases rule: length_le_2_cases)
      (use Some ok in \<open>auto simp: RemoveNodeAttachment_def nodes_of_def drop_node_def entry_ok_def Let_def
          split: prod.splits\<close>)
qed

lemma entry_ok_drop_node:
  assumes "entry_ok v s" "n \<in> set (map na_NodeID (Nodes s))" "map na_NodeID (Nodes s) \<noteq> [n]"
  shows "entry_ok v (drop_node n s) \<and> entry_migration (drop_node n s)"
proof -
  have "length (Nodes s) \<le> 2" "Nodes s \<noteq> []" using assms(1) by (auto simp: entry_ok_def)
  then show ?thesis
    by (cases rule: length_le_2_cases)
      (use assms in \<open>auto simp: drop_node_def entry_ok_def entry_migration_def Let_def\<close>)
qed

subsection \<open>The invariant is kept\<close>

lemma am_ok_New [inv_intros]: "am_ok NewAttachmentManager" "am_migrations NewAttachmentManager"
  by (simp_all add: am_ok_def am_migrations_def NewAttachmentManager_def)

lemma am_ok_Track [inv_intros]:
  assumes "am_ok am"
  shows "am_ok (fst (snd (TrackAttachmentWithMode k now v n m am w)))"
  using assms by (cases "attachments am v")
    (auto simp: Track_existing Track_new am_ok_upd entry_ok_new split: prod.splits option.splits)

lemma am_mig_Track [inv_intros]:
  assumes "am_migrations am"
  shows "am_migrations (fst (snd (TrackAttachmentWithMode k now v n m am w)))"
  using assms by (cases "attachments am v")
    (auto simp: Track_existing Track_new am_mig_upd entry_migration_new split: prod.splits option.splits)

lemma AddSecondary_am:
  "snd (AddSecondaryAttachment now1 now2 v n tmo am) =
     (case attachments am v of
        None \<Rightarrow> am
      | Some s \<Rightarrow> if n \<in> set (nodes_of am v) \<or> length (nodes_of am v) \<ge> 2 then am
          else am\<lparr>attachments := (attachments am)(v \<mapsto>
            s\<lparr>Nodes := Nodes s @ [\<lparr>na_NodeID = n, na_AttachedAt = now1\<rparr>],
              MigrationStartedAt := Some now2, MigrationTimeout := tmo\<rparr>)\<rparr>)"
  by (auto simp: AddSecondaryAttachment_def Let_def nodes_of_def state_IsAttachedToNode_def list_ex_iff
      split: option.splits)

lemma entry_ok_add:
  assumes "entry_ok v s" "n \<notin> set (map na_NodeID (Nodes s))" "\<not> length (Nodes s) \<ge> 2"
  shows "entry_ok v (s\<lparr>Nodes := Nodes s @ [\<lparr>na_NodeID = n, na_AttachedAt = t\<rparr>],
    MigrationStartedAt := Some u, MigrationTimeout := tmo\<rparr>)"
proof -
  have "length (Nodes s) \<le> 2" "Nodes s \<noteq> []" using assms(1) by (auto simp: entry_ok_def)
  then show ?thesis
    by (cases rule: length_le_2_cases) (use assms in \<open>auto simp: entry_ok_def\<close>)
qed

lemma am_ok_AddSecondary [inv_intros]:
  assumes "am_ok am"
  shows "am_ok (snd (AddSecondaryAttachment now1 now2 v n tmo am))"
  using assms am_okD [OF assms, of v]
  by (auto simp: AddSecondary_am nodes_of_def intro!: am_ok_upd entry_ok_add split: option.split)

lemma am_mig_AddSecondary [inv_intros]:
  assumes "am_migrations am"
  shows "am_migrations (snd (AddSecondaryAttachment now1 now2 v n tmo am))"
  using assms
  by (auto simp: AddSecondary_am entry_migration_def intro!: am_mig_upd split: option.split)

lemma am_ok_Untrack [inv_intros]:
  "am_ok am \<Longrightarrow> am_ok (fst (snd (UntrackAttachment k now v am w)))"
  by (simp add: Untrack_am am_ok_def)

lemma am_mig_Untrack [inv_intros]:
  "am_migrations am \<Longrightarrow> am_migrations (fst (snd (UntrackAttachment k now v am w)))"
  by (simp add: Untrack_am am_migrations_def)

lemma am_ok_ClearDetach [inv_intros]:
  "am_ok am \<Longrightarrow> am_ok (ClearDetachTimestamp v am)"
  "am_migrations am \<Longrightarrow> am_migrations (ClearDetachTimestamp v am)"
  by (simp_all add: ClearDetachTimestamp_def)

lemma am_ok_ClearMigration [inv_intros]: "am_ok am \<Longrightarrow> am_ok (ClearMigrationState v am)"
  by (auto simp: ClearMigrationState_def am_ok_def entry_ok_def split: option.split)

text \<open>A node removal leaves the table alone, deletes an entry or replaces it by a well-formed one.\<close>

lemma Remove_cases:
  assumes "am_ok am"
  obtains (same) "fst (snd (RemoveNodeAttachment k now v n am w)) = am"
  | (del) "fst (snd (RemoveNodeAttachment k now v n am w)) =
      am\<lparr>detachTimestamps := (detachTimestamps am)(v \<mapsto> now), attachments := (attachments am)(v := None)\<rparr>"
  | (upd) s where "fst (snd (RemoveNodeAttachment k now v n am w)) =
      am\<lparr>attachments := (attachments am)(v \<mapsto> drop_node n s)\<rparr>"
      "entry_ok v (drop_node n s)" "entry_migration (drop_node n s)"
proof (cases "n \<in> set (nodes_of am v) \<and> nodes_of am v \<noteq> [n]")
  case True
  then obtain s where s: "attachments am v = Some s" by (auto simp: nodes_of_def split: option.splits)
  with assms have "entry_ok v s" by (simp add: am_okD)
  with True s upd show ?thesis
    using entry_ok_drop_node [of v s n] by (simp add: Remove_ok [OF assms] nodes_of_def)
next
  case False
  with same del show ?thesis by (auto simp: Remove_ok [OF assms] split: if_splits)
qed

lemma am_ok_Remove [inv_intros]:
  assumes "am_ok am"
  shows "am_ok (fst (snd (RemoveNodeAttachment k now v n am w)))"
  by (cases rule: Remove_cases [OF assms, of k now v n w]) (use assms in \<open>simp_all add: am_ok_upd am_ok_del\<close>)

lemma am_mig_Remove [inv_intros]:
  assumes "am_ok am" "am_migrations am"
  shows "am_migrations (fst (snd (RemoveNodeAttachment k now v n am w)))"
  by (cases rule: Remove_cases [OF assms(1), of k now v n w])
    (use assms in \<open>simp_all add: am_mig_upd am_mig_del\<close>)

subsection \<open>The contract of the manager\<close>

text \<open>
  What the controller relies on, in terms of the ordered list of nodes of each volume. An operation
  takes an environment (API client, clock, cluster state) of any type.
\<close>

locale attachment_tracker =
  fixes nodes :: "'s \<Rightarrow> string \<Rightarrow> string list"
    and ok :: "'s \<Rightarrow> bool"
    and track :: "'e \<Rightarrow> string \<Rightarrow> string \<Rightarrow> 's \<Rightarrow> bool \<times> 's"
    and add :: "'e \<Rightarrow> string \<Rightarrow> string \<Rightarrow> 's \<Rightarrow> bool \<times> 's"
    and remove :: "'e \<Rightarrow> string \<Rightarrow> string \<Rightarrow> 's \<Rightarrow> bool \<times> 's"
    and untrack :: "'e \<Rightarrow> string \<Rightarrow> 's \<Rightarrow> 's"
  assumes ok_track: "ok s \<Longrightarrow> ok (snd (track e v n s))"
    and ok_add: "ok s \<Longrightarrow> ok (snd (add e v n s))"
    and ok_remove: "ok s \<Longrightarrow> ok (snd (remove e v n s))"
    and ok_untrack: "ok s \<Longrightarrow> ok (untrack e v s)"
    and nodes_ok: "ok s \<Longrightarrow> length (nodes s v) \<le> 2 \<and> distinct (nodes s v)"
    and nodes_track: "nodes (snd (track e v n s)) =
          (if fst (track e v n s) \<and> nodes s v = [] then (nodes s)(v := [n]) else nodes s)"
    and track_attached: "ok s \<Longrightarrow> nodes s v \<noteq> [] \<Longrightarrow> fst (track e v n s) \<longleftrightarrow> n \<in> set (nodes s v)"
    and nodes_add: "ok s \<Longrightarrow> nodes (snd (add e v n s)) =
          (if fst (add e v n s) \<and> n \<notin> set (nodes s v) then (nodes s)(v := nodes s v @ [n]) else nodes s)"
    and add_iff: "ok s \<Longrightarrow> fst (add e v n s) \<longleftrightarrow>
          nodes s v \<noteq> [] \<and> (n \<in> set (nodes s v) \<or> length (nodes s v) < 2)"
    and nodes_remove: "ok s \<Longrightarrow> nodes (snd (remove e v n s)) = (nodes s)(v := removeAll n (nodes s v))"
    and remove_last: "ok s \<Longrightarrow> fst (remove e v n s) \<longleftrightarrow> nodes s v = [n]"
    and nodes_untrack: "nodes (untrack e v s) = (nodes s)(v := [])"
begin

lemma exclusive:
  assumes "ok s" "nodes s v = [a]" "b \<noteq> a"
  shows "\<not> fst (track e v b s) \<and> nodes (snd (track e v b s)) = nodes s"
  using assms track_attached [of s v e b] nodes_track [of e v b s] by auto

lemma third_node_refused:
  assumes "ok s" "nodes s v = [a, b]" "c \<notin> {a, b}"
  shows "\<not> fst (add e v c s) \<and> nodes (snd (add e v c s)) = nodes s"
  using assms add_iff [of s e v c] nodes_add [of s e v c] by auto

lemma migration:
  assumes "ok s" "nodes s v = [a]" "b \<noteq> a"
  shows "fst (add e v b s) \<and> nodes (snd (add e v b s)) = (nodes s)(v := [a, b]) \<and>
    \<not> fst (remove e' v a (snd (add e v b s))) \<and>
    nodes (snd (remove e' v a (snd (add e v b s)))) = (nodes s)(v := [b]) \<and>
    fst (remove e'' v b (snd (remove e' v a (snd (add e v b s)))))"
proof -
  let ?s1 = "snd (add e v b s)"
  let ?s2 = "snd (remove e' v a ?s1)"
  have a: "fst (add e v b s)" using assms by (simp add: add_iff)
  have n1: "nodes ?s1 = (nodes s)(v := [a, b])" using assms a by (simp add: nodes_add)
  have o1: "ok ?s1" using assms(1) by (rule ok_add)
  have n2: "nodes ?s2 = (nodes s)(v := [b])" using nodes_remove [OF o1] n1 assms(3) by simp
  have o2: "ok ?s2" using o1 by (rule ok_remove)
  show ?thesis using a n1 n2 remove_last [OF o1] remove_last [OF o2] by simp
qed

lemma handoff:
  assumes "ok s" "nodes s v = [a]"
  shows "fst (remove e v a s) \<and> nodes (snd (remove e v a s)) = (nodes s)(v := []) \<and>
    (fst (track e' v b (snd (remove e v a s))) \<longrightarrow>
     nodes (snd (track e' v b (snd (remove e v a s)))) = (nodes s)(v := [b]))"
  using assms nodes_track [of e' v b "snd (remove e v a s)"] by (simp add: remove_last nodes_remove)

end

text \<open>The manager's operations in the form of the contract.\<close>

type_synonym 'k am_env = "'k kube option \<times> time \<times> time \<times> string \<times> duration \<times> 'k"

definition am_track :: "'k am_env \<Rightarrow> string \<Rightarrow> string \<Rightarrow> AttachmentManager \<Rightarrow> bool \<times> AttachmentManager" where
  "am_track e v n am = (case e of (k, now, _, mode, _, w) \<Rightarrow>
     (case TrackAttachmentWithMode k now v n mode am w of (err, am', _) \<Rightarrow> (err = None, am')))"

definition am_add :: "'k am_env \<Rightarrow> string \<Rightarrow> string \<Rightarrow> AttachmentManager \<Rightarrow> bool \<times> AttachmentManager" where
  "am_add e v n am = (case e of (_, now1, now2, _, tmo, _) \<Rightarrow>
     (case AddSecondaryAttachment now1 now2 v n tmo am of (err, am') \<Rightarrow> (err = None, am')))"

definition am_remove :: "'k am_env \<Rightarrow> string \<Rightarrow> string \<Rightarrow> AttachmentManager \<Rightarrow> bool \<times> AttachmentManager" where
  "am_remove e v n am = (case e of (k, now, _, _, _, w) \<Rightarrow>
     (case RemoveNodeAttachment k now v n am w of (res, am', _) \<Rightarrow> (res = Inr True, am')))"

definition am_untrack :: "'k am_env \<Rightarrow> string \<Rightarrow> AttachmentManager \<Rightarrow> AttachmentManager" where
  "am_untrack e v am = (case e of (k, now, _, _, _, w) \<Rightarrow> fst (snd (UntrackAttachment k now v am w)))"

lemma nodes_of_upd [simp]:
  "nodes_of (am\<lparr>attachments := (attachments am)(v \<mapsto> s)\<rparr>) = (nodes_of am)(v := map na_NodeID (Nodes s))"
  "nodes_of (am\<lparr>attachments := (attachments am)(v := None)\<rparr>) = (nodes_of am)(v := [])"
  "nodes_of (am\<lparr>detachTimestamps := d\<rparr>) = nodes_of am"
  "nodes_of (am\<lparr>detachTimestamps := d, attachments := a\<rparr>) = nodes_of (am\<lparr>attachments := a\<rparr>)"
  by (auto simp: nodes_of_def)

lemma nodes_of_Nil_iff: "am_ok am \<Longrightarrow> nodes_of am v = [] \<longleftrightarrow> attachments am v = None"
  by (auto simp: nodes_of_def entry_ok_def dest: am_okD split: option.splits)

lemma nodes_of_None: "attachments am v = None \<Longrightarrow> nodes_of am v = []"
  by (simp add: nodes_of_def)

lemma nodes_of_bound: "am_ok am \<Longrightarrow> length (nodes_of am v) \<le> 2 \<and> distinct (nodes_of am v)"
  by (auto simp: nodes_of_def entry_ok_def dest: am_okD split: option.splits)

lemma AddSecondary_err_iff:
  "fst (AddSecondaryAttachment now1 now2 v n tmo am) = None \<longleftrightarrow>
     attachments am v \<noteq> None \<and> (n \<in> set (nodes_of am v) \<or> length (nodes_of am v) < 2)"
  by (auto simp: AddSecondaryAttachment_def Let_def nodes_of_def state_IsAttachedToNode_def list_ex_iff
      split: option.splits)

lemma map_drop_node:
  "map na_NodeID (Nodes (drop_node n s)) = removeAll n (map na_NodeID (Nodes s))"
  by (simp add: drop_node_def Let_def filter_map o_def removeAll_filter_not_eq) (metis (mono_tags))

interpretation tracker: attachment_tracker nodes_of am_ok am_track am_add am_remove am_untrack
proof
  fix am :: AttachmentManager and e :: "'k am_env" and v n
  obtain k now now2 mode tmo w where e: "e = (k, now, now2, mode, tmo, w)" by (cases e)
  have tr: "snd (am_track e v n am) = fst (snd (TrackAttachmentWithMode k now v n mode am w))"
    "fst (am_track e v n am) \<longleftrightarrow> fst (TrackAttachmentWithMode k now v n mode am w) = None"
    by (simp_all add: am_track_def e split: prod.splits)
  have ad: "snd (am_add e v n am) = snd (AddSecondaryAttachment now now2 v n tmo am)"
    "fst (am_add e v n am) \<longleftrightarrow> fst (AddSecondaryAttachment now now2 v n tmo am) = None"
    by (simp_all add: am_add_def e split: prod.splits)
  have rm: "snd (am_remove e v n am) = fst (snd (RemoveNodeAttachment k now v n am w))"
    "fst (am_remove e v n am) \<longleftrightarrow> fst (RemoveNodeAttachment k now v n am w) = Inr True"
    by (simp_all add: am_remove_def e split: prod.splits)
  have ut: "am_untrack e v am = fst (snd (UntrackAttachment k now v am w))"
    by (simp add: am_untrack_def e)
  show "nodes_of (snd (am_track e v n am)) =
      (if fst (am_track e v n am) \<and> nodes_of am v = [] then (nodes_of am)(v := [n]) else nodes_of am)"
  proof (cases "attachments am v")
    case None
    then show ?thesis
      by (simp add: tr Track_new nodes_of_None new_state_def split: prod.split option.split)
  next
    case (Some s)
    show ?thesis by (cases "nodes_of am v") (auto simp: tr Track_existing [OF Some])
  qed
  show "nodes_of (am_untrack e v am) = (nodes_of am)(v := [])"
    by (auto simp: ut Untrack_am nodes_of_None fun_upd_idem)
  assume ok: "am_ok am"
  show "am_ok (snd (am_track e v n am))" "am_ok (snd (am_add e v n am))"
    "am_ok (snd (am_remove e v n am))" "am_ok (am_untrack e v am)"
    unfolding tr ad rm ut using ok by (rule inv_intros)+
  show "length (nodes_of am v) \<le> 2 \<and> distinct (nodes_of am v)" using ok by (rule nodes_of_bound)
  show "nodes_of (snd (am_add e v n am)) =
      (if fst (am_add e v n am) \<and> n \<notin> set (nodes_of am v)
       then (nodes_of am)(v := nodes_of am v @ [n]) else nodes_of am)"
    by (cases "attachments am v") (auto simp: ad AddSecondary_am AddSecondary_err_iff nodes_of_def)
  show "fst (am_add e v n am) \<longleftrightarrow>
      nodes_of am v \<noteq> [] \<and> (n \<in> set (nodes_of am v) \<or> length (nodes_of am v) < 2)"
    using ok by (simp add: ad AddSecondary_err_iff nodes_of_Nil_iff)
  show "nodes_of (snd (am_remove e v n am)) = (nodes_of am)(v := removeAll n (nodes_of am v))"
  proof (cases "attachments am v")
    case None
    then show ?thesis by (auto simp: rm Remove_ok [OF ok] nodes_of_None fun_upd_idem)
  next
    case (Some s)
    have "nodes_of am v = map na_NodeID (Nodes s)" by (simp add: nodes_of_def Some)
    then show ?thesis by (auto simp: rm Remove_ok [OF ok] map_drop_node Some fun_upd_idem removeAll_id)
  qed
  show "fst (am_remove e v n am) \<longleftrightarrow> nodes_of am v = [n]"
    by (auto simp: rm Remove_ok [OF ok])
  assume "nodes_of am v \<noteq> []"
  then obtain s where "attachments am v = Some s" using ok by (auto simp: nodes_of_Nil_iff)
  then show "fst (am_track e v n am) \<longleftrightarrow> n \<in> set (nodes_of am v)"
    by (auto simp: tr Track_existing)
qed

subsection \<open>Sequences of operations\<close>

datatype am_cmd =
    CTrack time string string string
  | CAddSecondary time time string string duration
  | CUntrack time string
  | CRemoveNode time string string
  | CClearDetach string

fun am_exec :: "'k kube option \<Rightarrow> am_cmd \<Rightarrow> AttachmentManager \<times> 'k \<Rightarrow> AttachmentManager \<times> 'k" where
  "am_exec k (CTrack now v n m) (am, w) = snd (TrackAttachmentWithMode k now v n m am w)"
| "am_exec k (CAddSecondary now1 now2 v n tmo) (am, w) = (snd (AddSecondaryAttachment now1 now2 v n tmo am), w)"
| "am_exec k (CUntrack now v) (am, w) = snd (UntrackAttachment k now v am w)"
| "am_exec k (CRemoveNode now v n) (am, w) = snd (RemoveNodeAttachment k now v n am w)"
| "am_exec k (CClearDetach v) (am, w) = (ClearDetachTimestamp v am, w)"

definition am_run :: "'k kube option \<Rightarrow> am_cmd list \<Rightarrow> AttachmentManager \<times> 'k \<Rightarrow> AttachmentManager \<times> 'k" where
  "am_run k cmds st = fold (am_exec k) cmds st"

lemma am_run_simps [simp]:
  "am_run k [] st = st" "am_run k (c # cs) st = am_run k cs (am_exec k c st)"
  by (simp_all add: am_run_def)

lemma am_exec_ok:
  assumes "am_ok (fst st)" "am_migrations (fst st)"
  shows "am_ok (fst (am_exec k c st)) \<and> am_migrations (fst (am_exec k c st))"
  using assms by (cases c; cases st) (simp_all add: inv_intros)

lemma am_run_ok:
  assumes "am_ok (fst st)" "am_migrations (fst st)"
  shows "am_ok (fst (am_run k cmds st)) \<and> am_migrations (fst (am_run k cmds st))"
  using assms by (induction cmds arbitrary: st) (simp_all add: am_exec_ok)

lemma am_run_New: "am_ok (fst (am_run k cmds (NewAttachmentManager, w)))"
  "am_migrations (fst (am_run k cmds (NewAttachmentManager, w)))"
  by (simp_all add: am_run_ok am_ok_New)

fun adds_secondary :: "string \<Rightarrow> am_cmd \<Rightarrow> bool" where
  "adds_secondary v (CAddSecondary _ _ u _ _) = (u = v)"
| "adds_secondary v _ = False"

lemma nodes_of_Track:
  "nodes_of (fst (snd (TrackAttachmentWithMode k now u n m am w))) v \<in> {nodes_of am v, [n]}"
  by (cases "attachments am u")
    (auto simp: Track_existing Track_new new_state_def split: prod.split option.split)

lemma am_exec_single:
  assumes "am_ok (fst st)" "\<not> adds_secondary v c" "length (nodes_of (fst st) v) \<le> 1"
  shows "length (nodes_of (fst (am_exec k c st)) v) \<le> 1"
proof -
  obtain am w where st: "st = (am, w)" by (cases st)
  show ?thesis
  proof (cases c)
    case (CTrack now u n m)
    then show ?thesis using nodes_of_Track [of k now u n m am w v] assms by (auto simp: st)
  next
    case (CAddSecondary t1 t2 u n tmo)
    with assms show ?thesis by (auto simp: st AddSecondary_am split: option.split)
  next
    case (CUntrack now u)
    with assms show ?thesis by (simp add: st Untrack_am)
  next
    case (CRemoveNode now u n)
    have "length (removeAll n (nodes_of am v)) \<le> 1"
      using assms(3) by (cases "nodes_of am v") (auto simp: st)
    with assms CRemoveNode show ?thesis
      using tracker.nodes_remove [of am "(k, now, now, [], 0, w)" u n]
      by (auto simp: st am_remove_def split: prod.splits)
  next
    case (CClearDetach u)
    with assms show ?thesis by (simp add: st ClearDetachTimestamp_def)
  qed
qed

lemma am_run_single:
  assumes "am_ok (fst st)" "am_migrations (fst st)" "list_all (\<lambda>c. \<not> adds_secondary v c) cmds"
    "length (nodes_of (fst st) v) \<le> 1"
  shows "length (nodes_of (fst (am_run k cmds st)) v) \<le> 1"
  using assms
proof (induction cmds arbitrary: st)
  case (Cons c cmds)
  have "am_ok (fst (am_exec k c st))" "am_migrations (fst (am_exec k c st))"
    using am_exec_ok [OF Cons.prems(1,2)] by simp_all
  moreover have "length (nodes_of (fst (am_exec k c st)) v) \<le> 1"
    using Cons.prems by (intro am_exec_single) auto
  ultimately show ?case using Cons by simp
qed simp

subsection \<open>Properties\<close>

text \<open>C10. After any sequence of the manager's operations every tracked volume is filed under its own ID,
  has one or two distinct nodes, has its first node as primary, and is migrating exactly when it has
  two nodes; a volume that is not migrating carries no migration data.\<close>

theorem attachment_table_invariant:
  assumes "attachments (fst (am_run k cmds (NewAttachmentManager, w))) v = Some s"
  shows "VolumeID s = v \<and> NodeCount s \<in> {1, 2} \<and> distinct (GetNodeIDs s) \<and>
    NodeID s = hd (GetNodeIDs s) \<and> (IsMigrating s \<longleftrightarrow> NodeCount s = 2) \<and>
    (MigrationStartedAt s = None \<and> MigrationTimeout s = 0 \<or> IsMigrating s)"
proof -
  have e: "entry_ok v s" "entry_migration s"
    using am_run_New [of k cmds w] assms by (auto simp: am_ok_def am_migrations_def)
  then have "length (Nodes s) \<le> 2" "Nodes s \<noteq> []" by (auto simp: entry_ok_def)
  then show ?thesis
    by (cases rule: length_le_2_cases)
      (use e in \<open>auto simp: entry_ok_def entry_migration_def NodeCount_def GetNodeIDs_def IsMigrating_def\<close>)
qed

theorem attachment_table_invariant_witness:
  "\<exists>s. attachments (fst (am_run (None :: unit kube option)
        [CTrack 0 ''v'' ''a'' ''RWX'', CAddSecondary 1 1 ''v'' ''b'' 60] (NewAttachmentManager, ()))) ''v'' = Some s \<and>
      IsMigrating s \<and> NodeCount s = 2"
proof -
  let ?cs = "[CTrack 0 ''v'' ''a'' ''RWX'', CAddSecondary 1 1 ''v'' ''b'' 60]"
  obtain s where s: "attachments (fst (am_run (None :: unit kube option) ?cs (NewAttachmentManager, ()))) ''v'' = Some s"
      "NodeCount s = 2"
    by (simp add: am_defs persistAttachment_def state_IsAttachedToNode_def NodeCount_def)
  then show ?thesis using attachment_table_invariant [OF s(1)] by blast
qed

text \<open>C21. A volume for which no secondary attachment is requested is never attached to more than one
  node, whatever operations are performed on it and on other volumes.\<close>

theorem single_node_without_secondary:
  assumes "list_all (\<lambda>c. \<not> adds_secondary v c) cmds"
  shows "length (nodes_of (fst (am_run k cmds (NewAttachmentManager, w))) v) \<le> 1"
proof -
  have "nodes_of NewAttachmentManager v = []" by (simp add: nodes_of_def NewAttachmentManager_def)
  with assms show ?thesis by (intro am_run_single) (simp_all add: am_ok_New)
qed

theorem single_node_without_secondary_witness:
  "length (nodes_of (fst (am_run (None :: unit kube option)
      [CTrack 0 ''v'' ''a'' ''RWO'', CTrack 1 ''v'' ''b'' ''RWO''] (NewAttachmentManager, ()))) ''v'') \<le> 1"
  by (rule single_node_without_secondary) simp

text \<open>C22. A migration from node \<open>a\<close> to node \<open>b\<close>: on a well-formed table in which the volume is tracked in the shared mode RWX and \<open>a\<close> is
  its only node, \<^verbatim>\<open>AddSecondaryAttachment\<close> of \<open>b\<close> succeeds and appends it, \<^verbatim>\<open>RemoveNodeAttachment\<close> of \<open>a\<close>
  then leaves exactly \<open>b\<close> and does not report a full detach, and removing \<open>b\<close> reports one; the other
  volumes are untouched throughout.\<close>

theorem migration_handover:
  assumes "am_ok am" and "nodes_of am v = [a]" and "b \<noteq> a" and "GetAccessMode v am = ''RWX''"
    and "AddSecondaryAttachment t1 t2 v b tmo am = (err1, am1)"
    and "RemoveNodeAttachment k t3 v a am1 w = (res2, am2, w2)"
    and "RemoveNodeAttachment k t4 v b am2 w2 = (res3, am3, w3)"
  shows "err1 = None \<and> nodes_of am1 = (nodes_of am)(v := [a, b]) \<and>
    res2 = Inr False \<and> nodes_of am2 = (nodes_of am)(v := [b]) \<and>
    res3 = Inr True \<and> nodes_of am3 = (nodes_of am)(v := [])"
proof -
  let ?e1 = "(k, t1, t2, [], tmo, w)" and ?e2 = "(k, t3, t3, [], tmo, w)" and ?e3 = "(k, t4, t4, [], tmo, w2)"
  note m = tracker.migration [OF assms(1-3), of ?e1 ?e2 ?e3]
  have ok1: "am_ok am1" using am_ok_AddSecondary [OF assms(1), of t1 t2 v b tmo] assms(5) by simp
  have ok2: "am_ok am2" using am_ok_Remove [OF ok1, of k t3 v a w] assms(6) by simp
  have "res2 \<in> {Inr False, Inr True}"
    using Remove_ok [OF ok1, of k t3 v a w] assms(6) by (auto split: if_splits)
  moreover have "nodes_of am3 = (nodes_of am2)(v := removeAll b (nodes_of am2 v))"
    using tracker.nodes_remove [OF ok2, of ?e3 v b] assms(7) by (simp add: am_remove_def)
  ultimately show ?thesis
    using m assms(5-7) by (auto simp: am_add_def am_remove_def)
qed

theorem migration_handover_witness:
  "\<exists>am1 am2 am3. AddSecondaryAttachment 1 1 ''v'' ''b'' 60
      (fst (am_run (None :: unit kube option) [CTrack 0 ''v'' ''a'' ''RWX''] (NewAttachmentManager, ()))) = (None, am1) \<and>
    RemoveNodeAttachment (None :: unit kube option) 2 ''v'' ''a'' am1 () = (Inr False, am2, ()) \<and>
    RemoveNodeAttachment (None :: unit kube option) 3 ''v'' ''b'' am2 () = (Inr True, am3, ())"
proof -
  let ?am = "fst (am_run (None :: unit kube option) [CTrack 0 ''v'' ''a'' ''RWX''] (NewAttachmentManager, ()))"
  obtain e1 am1 where 1: "AddSecondaryAttachment 1 1 ''v'' ''b'' 60 ?am = (e1, am1)" by fastforce
  obtain r2 am2 w2 where 2: "RemoveNodeAttachment (None :: unit kube option) 2 ''v'' ''a'' am1 () = (r2, am2, w2)"
    by (cases "RemoveNodeAttachment (None :: unit kube option) 2 ''v'' ''a'' am1 ()")
  obtain r3 am3 w3 where 3: "RemoveNodeAttachment (None :: unit kube option) 3 ''v'' ''b'' am2 w2 = (r3, am3, w3)"
    by (cases "RemoveNodeAttachment (None :: unit kube option) 3 ''v'' ''b'' am2 w2")
  have n: "nodes_of ?am ''v'' = [''a'']" "GetAccessMode ''v'' ?am = ''RWX''"
    by (simp_all add: am_defs persistAttachment_def nodes_of_def GetAccessMode_def new_state_def)
  have "''b'' \<noteq> ''a''" by simp
  from migration_handover [OF am_run_New(1) n(1) this n(2) 1 2 3] 1 2 3 show ?thesis
    by (intro exI [of _ am1] exI [of _ am2] exI [of _ am3]) simp
qed

text \<open>A failed \<^verbatim>\<open>TrackAttachmentWithMode\<close> leaves the attachment table as it was, also when the
  failure is that of the annotation write after the in-memory insertion.\<close>

theorem TrackAttachment_failure_atomic:
  assumes "TrackAttachmentWithMode k now v n m am w = (Some err, am', w')"
  shows "am' = am"
  using assms
  by (cases "attachments am v") (auto simp: Track_existing Track_new split: prod.splits option.splits)

theorem TrackAttachment_failure_atomic_witness:
  "\<exists>err. TrackAttachmentWithMode (Some \<lparr>kPVGet = \<lambda>_ w. (Inl (GoErr ''timeout''), w), kPVUpdate = \<lambda>_ w. (None, w),
      kPVList = \<lambda>w. (Inr [], w), kVAList = \<lambda>w. (Inr [], w), kNodeExists = \<lambda>_ w. (Inr True, w),
      kRetryOnConflict = \<lambda>f w. f w, kNowStamp = \<lambda>_. ''t'', kPVCGet = \<lambda>_ _ w. (None, w), kEvent = \<lambda>_ _ _ _ w. w\<rparr>) 0 ''v'' ''a'' ''RWO'' NewAttachmentManager ()
      = (Some err, NewAttachmentManager, ())"
    (is "\<exists>err. TrackAttachmentWithMode ?k _ _ _ _ _ _ = _")
proof -
  have "isNotFoundError (Some (GoErr ''timeout'')) = False"
    by (simp add: isNotFoundError_def containsSubstring_eq HasPrefix_def)
  then have "fst (persistAttachment ?k ''v'' ''a'' ()) \<noteq> None"
    by (simp add: persistAttachment_def)
  then obtain err where "persistAttachment ?k ''v'' ''a'' () = (Some err, ())"
    by (cases "persistAttachment ?k ''v'' ''a'' ()") auto
  then obtain err am' where t: "TrackAttachmentWithMode ?k 0 ''v'' ''a'' ''RWO'' NewAttachmentManager () = (Some err, am', ())"
    using Track_new [of NewAttachmentManager "''v''" ?k 0 "''a''" "''RWO''" "()"]
    by (auto simp: NewAttachmentManager_def)
  with TrackAttachment_failure_atomic [OF t] show ?thesis by blast
qed

text \<open>The hand-written substring search of \<^verbatim>\<open>persist.go\<close> agrees with \<^verbatim>\<open>strings.Contains\<close>, and its index
  function returns a non-negative index exactly when the text occurs.\<close>

theorem containsSubstring_is_Contains:
  "containsSubstring s p = Contains s p \<and> (indexOf s p \<ge> 0 \<longleftrightarrow> Contains s p)"
  by (simp add: containsSubstring_eq indexOf_nonneg_iff)

text \<open>The access mode is not consulted: a second node is accepted for a volume tracked as RWO.\<close>

lemma AddSecondary_ignores_mode:
  "fst (AddSecondaryAttachment 1 1 ''v'' ''b'' 60
     (fst (am_run (None :: unit kube option) [CTrack 0 ''v'' ''a'' ''RWO''] (NewAttachmentManager, ())))) = None"
  by (simp add: am_defs persistAttachment_def state_IsAttachedToNode_def)

end
