(* ===== verification/Controller.thy ===== *)
theory Controller
  imports PathValidation Params RdsClient Attachment "HOL-Library.List_Lexorder" "HOL-Library.Char_ord"
begin

text \<open>
  The CSI controller service, volumes and snapshots: \<^verbatim>\<open>pkg/driver/controller.go\<close> without the publishing of
  volumes (theory \<open>Publish\<close>), and the capability tables of \<^verbatim>\<open>pkg/driver/driver.go\<close>. A handler is a function
  of the driver, the request and the controller's state; it returns a status or a response and the new
  state. The storage server is any implementation of the interface \<open>RDSClient\<close>, the cluster any \<open>kube\<close>.
  A pointer that may be \<^verbatim>\<open>nil\<close> is an option, and dereferencing \<^verbatim>\<open>nil\<close> is the outcome \<open>NilPanic\<close>. Logging,
  metrics and the text of a status are left out.
\<close>

subsection \<open>Requests, responses, state\<close>

datatype access_mode =
    UNKNOWN | SINGLE_NODE_WRITER | SINGLE_NODE_READER_ONLY | MULTI_NODE_READER_ONLY
  | MULTI_NODE_SINGLE_WRITER | MULTI_NODE_MULTI_WRITER | SINGLE_NODE_SINGLE_WRITER | SINGLE_NODE_MULTI_WRITER

datatype access_type = Block | Mount | NoAccessType

record VolumeCapability =
  cap_Mode :: access_mode
  cap_Type :: access_type

datatype content_source = FromSnapshot string | FromVolume string | FromNothing

record CreateVolumeRequest =
  cv_Name :: string
  cv_RequiredBytes :: int
  cv_LimitBytes :: int
  cv_Capabilities :: "VolumeCapability list"
  cv_Parameters :: "string \<rightharpoonup> string"
  cv_ContentSource :: "content_source option"

record CreateVolumeResponse =
  cr_VolumeId :: string
  cr_CapacityBytes :: int
  cr_VolumeContext :: "string \<rightharpoonup> string"
  cr_ContentSource :: "string option" \<comment> \<open>the snapshot a volume was restored from\<close>

record Snapshot =
  sn_SnapshotId :: string
  sn_SourceVolumeId :: string
  sn_CreationTime :: time
  sn_SizeBytes :: int
  sn_ReadyToUse :: bool

record ListSnapshotsRequest =
  ls_SnapshotId :: string
  ls_SourceVolumeId :: string
  ls_MaxEntries :: int
  ls_StartingToken :: string

record ListSnapshotsResponse =
  lr_Entries :: "Snapshot list"
  lr_NextToken :: string

datatype cs_rpc =
    CREATE_DELETE_VOLUME | GET_CAPACITY | EXPAND_VOLUME | PUBLISH_UNPUBLISH_VOLUME
  | CREATE_DELETE_SNAPSHOT | LIST_SNAPSHOTS

record ('r, 'k) Driver =
  drv_rdsClient :: "'r RDSClient option"
  drv_k8sClient :: "'k kube option"
  drv_nodeID :: string
  drv_attachmentManager :: bool \<comment> \<open>whether the driver has one\<close>
  drv_attachmentGracePeriod :: duration
  drv_vcaps :: "access_mode list"
  drv_cscaps :: "cs_rpc list"

record ('r, 'k) CtrlState =
  st_rds :: 'r
  st_am :: AttachmentManager
  st_k :: 'k

datatype fault = Status grpc_code | NilPanic

abbreviation fail :: "grpc_code \<Rightarrow> 's \<Rightarrow> (fault + 'a) \<times> 's" where
  "fail c st \<equiv> (Inl (Status c), st)"

definition addVolumeCapabilities :: "('r, 'k) Driver \<Rightarrow> ('r, 'k) Driver" where
  "addVolumeCapabilities d =
     d\<lparr>drv_vcaps := [SINGLE_NODE_WRITER, SINGLE_NODE_READER_ONLY, MULTI_NODE_MULTI_WRITER]\<rparr>"

definition addControllerServiceCapabilities :: "('r, 'k) Driver \<Rightarrow> ('r, 'k) Driver" where
  "addControllerServiceCapabilities d =
     d\<lparr>drv_cscaps := [CREATE_DELETE_VOLUME, GET_CAPACITY, EXPAND_VOLUME, PUBLISH_UNPUBLISH_VOLUME,
                      CREATE_DELETE_SNAPSHOT, LIST_SNAPSHOTS]\<rparr>"

subsection \<open>Parameters\<close>

definition defaultVolumeBasePath :: string where
  "defaultVolumeBasePath = ''/storage-pool/metal-csi''"

definition defaultNVMETCPPort :: int where
  "defaultNVMETCPPort = 4420"

definition minVolumeSizeBytes :: int where
  "minVolumeSizeBytes = 1 * 1024 * 1024 * 1024"

definition maxVolumeSizeBytes :: int where
  "maxVolumeSizeBytes = 16 * 1024 * 1024 * 1024 * 1024"

definition getRDSAddress :: "'r RDSClient \<Rightarrow> (string \<rightharpoonup> string) \<Rightarrow> 'r \<Rightarrow> string" where
  "getRDSAddress c params r =
     (case params ''rdsAddress'' of Some addr \<Rightarrow> addr | None \<Rightarrow> rGetAddress c r)"

definition getNVMEAddress :: "'r RDSClient \<Rightarrow> (string \<rightharpoonup> string) \<Rightarrow> 'r \<Rightarrow> string" where
  "getNVMEAddress c params r =
     (case params ''nvmeAddress'' of Some addr \<Rightarrow> addr | None \<Rightarrow> getRDSAddress c params r)"

definition volume_base_path :: "(string \<rightharpoonup> string) \<Rightarrow> string" where
  "volume_base_path params = (case params ''volumePath'' of Some path \<Rightarrow> path | None \<Rightarrow> defaultVolumeBasePath)"

definition nvme_port_param :: "(string \<rightharpoonup> string) \<Rightarrow> int" where
  "nvme_port_param params =
     (case params ''nvmePort'' of
        Some portStr \<Rightarrow> (case Sscanf_d portStr of Some port \<Rightarrow> port | None \<Rightarrow> defaultNVMETCPPort)
      | None \<Rightarrow> defaultNVMETCPPort)"

text \<open>\<^verbatim>\<open>fmt.Sprintf("%.0f", d.Seconds())\<close>: the nearest whole number of seconds, ties to even. The driver
  applies it to whole seconds only.\<close>

definition seconds_text :: "duration \<Rightarrow> string" where
  "seconds_text d =
     (let q = d div second; r = d mod second
      in Itoa (if 2 * r < second \<or> 2 * r = second \<and> even q then q else q + 1))"

text \<open>The volume context of a response; the three handlers that build one fill in the same keys.\<close>

definition volume_context ::
    "'r RDSClient \<Rightarrow> (string \<rightharpoonup> string) \<Rightarrow> 'r \<Rightarrow> int \<Rightarrow> string \<Rightarrow> string \<Rightarrow> NVMEConnectionParams \<Rightarrow> duration
     \<Rightarrow> (string \<rightharpoonup> string)" where
  "volume_context c params r port nqn path nvmeParams migrationTimeout =
     [''rdsAddress'' \<mapsto> getRDSAddress c params r,
      ''nvmeAddress'' \<mapsto> getNVMEAddress c params r,
      ''nvmePort'' \<mapsto> Itoa port,
      ''nqn'' \<mapsto> nqn,
      ''volumePath'' \<mapsto> path,
      ''ctrlLossTmo'' \<mapsto> Itoa (CtrlLossTmo nvmeParams),
      ''reconnectDelay'' \<mapsto> Itoa (ReconnectDelay nvmeParams),
      ''keepAliveTmo'' \<mapsto> Itoa (KeepAliveTmo nvmeParams),
      ''migrationTimeoutSeconds'' \<mapsto> seconds_text migrationTimeout]"

subsection \<open>Capabilities\<close>

fun mode_name :: "access_mode \<Rightarrow> string" where
  "mode_name UNKNOWN = ''UNKNOWN''"
| "mode_name SINGLE_NODE_WRITER = ''SINGLE_NODE_WRITER''"
| "mode_name SINGLE_NODE_READER_ONLY = ''SINGLE_NODE_READER_ONLY''"
| "mode_name MULTI_NODE_READER_ONLY = ''MULTI_NODE_READER_ONLY''"
| "mode_name MULTI_NODE_SINGLE_WRITER = ''MULTI_NODE_SINGLE_WRITER''"
| "mode_name MULTI_NODE_MULTI_WRITER = ''MULTI_NODE_MULTI_WRITER''"
| "mode_name SINGLE_NODE_SINGLE_WRITER = ''SINGLE_NODE_SINGLE_WRITER''"
| "mode_name SINGLE_NODE_MULTI_WRITER = ''SINGLE_NODE_MULTI_WRITER''"

fun validateVolumeCapabilities :: "access_mode list \<Rightarrow> VolumeCapability list \<Rightarrow> goerr option" where
  "validateVolumeCapabilities vcaps [] = None"
| "validateVolumeCapabilities vcaps (cap # caps) =
     (if \<not> list_ex (\<lambda>m. cap_Mode cap = m) vcaps
      then Some (GoErr (''access mode '' @ mode_name (cap_Mode cap) @ '' is not supported''))
      else if cap_Type cap = NoAccessType
      then Some (GoErr ''volume capability must specify either block or mount'')
      else if cap_Mode cap = MULTI_NODE_MULTI_WRITER \<and> cap_Type cap = Mount
      then Some (GoErr (''RWX access mode requires volumeMode: Block. ''
             @ ''Filesystem volumes risk data corruption with multi-node access. ''
             @ ''For KubeVirt VM live migration, use volumeMode: Block in your PVC''))
      else validateVolumeCapabilities vcaps caps)"

subsection \<open>Creating volumes\<close>

text \<open>The requested size after defaulting, or \<^verbatim>\<open>OutOfRange\<close>.\<close>

definition create_size :: "CreateVolumeRequest \<Rightarrow> grpc_code + int" where
  "create_size req =
     (let requiredBytes = cv_RequiredBytes req;
          requiredBytes = (if requiredBytes = 0 then minVolumeSizeBytes else requiredBytes);
          requiredBytes = (if requiredBytes < minVolumeSizeBytes then minVolumeSizeBytes else requiredBytes);
          limitBytes = cv_LimitBytes req
      in if limitBytes > 0 \<and> requiredBytes > limitBytes then Inl OutOfRange
         else if requiredBytes > maxVolumeSizeBytes then Inl OutOfRange
         else Inr requiredBytes)"

definition createVolumeFromSnapshot ::
    "'r RDSClient \<Rightarrow> CreateVolumeRequest \<Rightarrow> string \<Rightarrow> string \<Rightarrow> int \<Rightarrow> ('r, 'k) CtrlState
     \<Rightarrow> (fault + CreateVolumeResponse) \<times> ('r, 'k) CtrlState" where
  "createVolumeFromSnapshot c req volumeID snapshotID requiredBytes st =
     (if ValidateSnapshotID snapshotID \<noteq> None then fail InvalidArgument st
      else case rGetSnapshot c snapshotID (st_rds st) of
        (Inl err, r) \<Rightarrow> fail (if as_snapshot_not_found err then NotFound else Internal) (st\<lparr>st_rds := r\<rparr>)
      | (Inr snapshotInfo, r) \<Rightarrow>
          (let st = st\<lparr>st_rds := r\<rparr>;
               requiredBytes = (if requiredBytes < si_FileSizeBytes snapshotInfo
                                then si_FileSizeBytes snapshotInfo else requiredBytes);
               params = cv_Parameters req;
               nvmePort = nvme_port_param params
           in case ParseNVMEConnectionParams params of
                Inl err \<Rightarrow> fail InvalidArgument st
              | Inr nvmeParams \<Rightarrow>
                  (let migrationTimeout = ParseMigrationTimeout params
                   in case VolumeIDToNQN volumeID of
                        Inl err \<Rightarrow> fail Internal st
                      | Inr nqn \<Rightarrow>
                          (case VolumeIDToFilePath volumeID (volume_base_path params) of
                             Inl err \<Rightarrow> fail Internal st
                           | Inr filePath \<Rightarrow>
                               (case rRestoreSnapshot c snapshotID
                                       \<lparr>co_Slot = volumeID, co_FilePath = filePath, co_FileSizeBytes = requiredBytes,
                                        co_NVMETCPPort = nvmePort, co_NVMETCPNQN = nqn\<rparr> r of
                                  (Some err, r) \<Rightarrow>
                                    fail (if is_unavailable err then Unavailable else Internal) (st\<lparr>st_rds := r\<rparr>)
                                | (None, r) \<Rightarrow>
                                    (Inr \<lparr>cr_VolumeId = volumeID, cr_CapacityBytes = requiredBytes,
                                          cr_VolumeContext = volume_context c params r nvmePort nqn filePath nvmeParams
                                            migrationTimeout,
                                          cr_ContentSource = Some snapshotID\<rparr>, st\<lparr>st_rds := r\<rparr>))))))"

definition create_existing ::
    "'r RDSClient \<Rightarrow> CreateVolumeRequest \<Rightarrow> int \<Rightarrow> VolumeInfo \<Rightarrow> ('r, 'k) CtrlState
     \<Rightarrow> (fault + CreateVolumeResponse) \<times> ('r, 'k) CtrlState" where
  "create_existing c req requiredBytes existingVolume st =
     (if vi_FileSizeBytes existingVolume \<noteq> requiredBytes then fail AlreadyExists st
      else
        (let params = cv_Parameters req
         in case ParseNVMEConnectionParams params of
              Inl err \<Rightarrow> fail InvalidArgument st
            | Inr nvmeParams \<Rightarrow>
                (Inr \<lparr>cr_VolumeId = cv_Name req, cr_CapacityBytes = vi_FileSizeBytes existingVolume,
                      cr_VolumeContext = volume_context c params (st_rds st) (vi_NVMETCPPort existingVolume)
                        (vi_NVMETCPNQN existingVolume) (vi_FilePath existingVolume) nvmeParams
                        (ParseMigrationTimeout params),
                      cr_ContentSource = None\<rparr>, st)))"

definition create_empty ::
    "'r RDSClient \<Rightarrow> CreateVolumeRequest \<Rightarrow> int \<Rightarrow> ('r, 'k) CtrlState
     \<Rightarrow> (fault + CreateVolumeResponse) \<times> ('r, 'k) CtrlState" where
  "create_empty c req requiredBytes st =
     (let volumeID = cv_Name req;
          params = cv_Parameters req;
          nvmePort = nvme_port_param params
      in case ParseNVMEConnectionParams params of
           Inl err \<Rightarrow> fail InvalidArgument st
         | Inr nvmeParams \<Rightarrow>
             (let migrationTimeout = ParseMigrationTimeout params
              in case VolumeIDToNQN volumeID of
                   Inl err \<Rightarrow> fail Internal st
                 | Inr nqn \<Rightarrow>
                     (case VolumeIDToFilePath volumeID (volume_base_path params) of
                        Inl err \<Rightarrow> fail Internal st
                      | Inr filePath \<Rightarrow>
                          (case rCreateVolume c
                                  \<lparr>co_Slot = volumeID, co_FilePath = filePath, co_FileSizeBytes = requiredBytes,
                                   co_NVMETCPPort = nvmePort, co_NVMETCPNQN = nqn\<rparr> (st_rds st) of
                             (Some err, r) \<Rightarrow>
                               fail (if is_unavailable err then Unavailable
                                     else if errors_is err ErrResourceExhausted then ResourceExhausted
                                     else Internal) (st\<lparr>st_rds := r\<rparr>)
                           | (None, r) \<Rightarrow>
                               (Inr \<lparr>cr_VolumeId = volumeID, cr_CapacityBytes = requiredBytes,
                                     cr_VolumeContext = volume_context c params r nvmePort nqn filePath nvmeParams
                                       migrationTimeout,
                                     cr_ContentSource = None\<rparr>, st\<lparr>st_rds := r\<rparr>)))))"

definition CreateVolume ::
    "('r, 'k) Driver \<Rightarrow> CreateVolumeRequest \<Rightarrow> ('r, 'k) CtrlState
     \<Rightarrow> (fault + CreateVolumeResponse) \<times> ('r, 'k) CtrlState" where
  "CreateVolume d req st =
     (if cv_Name req = [] then fail InvalidArgument st
      else if cv_Capabilities req = [] then fail InvalidArgument st
      else if validateVolumeCapabilities (drv_vcaps d) (cv_Capabilities req) \<noteq> None then fail InvalidArgument st
      else case create_size req of
        Inl code \<Rightarrow> fail code st
      | Inr requiredBytes \<Rightarrow>
          (let volumeID = cv_Name req
           in if ValidateVolumeID volumeID \<noteq> None then fail InvalidArgument st
              else case drv_rdsClient d of
                None \<Rightarrow> (Inl NilPanic, st)
              | Some c \<Rightarrow>
                  (case rGetVolume c volumeID (st_rds st) of
                     (Inr existingVolume, r) \<Rightarrow> create_existing c req requiredBytes existingVolume (st\<lparr>st_rds := r\<rparr>)
                   | (Inl err, r) \<Rightarrow>
                       (let st = st\<lparr>st_rds := r\<rparr>
                        in case cv_ContentSource req of
                             Some (FromSnapshot snapshotID) \<Rightarrow>
                               createVolumeFromSnapshot c req volumeID snapshotID requiredBytes st
                           | Some (FromVolume _) \<Rightarrow> fail InvalidArgument st
                           | Some FromNothing \<Rightarrow> create_empty c req requiredBytes st
                           | None \<Rightarrow> create_empty c req requiredBytes st))))"

subsection \<open>The other volume handlers\<close>

definition DeleteVolume ::
    "('r, 'k) Driver \<Rightarrow> string \<Rightarrow> ('r, 'k) CtrlState \<Rightarrow> (fault + unit) \<times> ('r, 'k) CtrlState" where
  "DeleteVolume d volumeID st =
     (if volumeID = [] then fail InvalidArgument st
      else if ValidateVolumeID volumeID \<noteq> None then fail InvalidArgument st
      else case drv_rdsClient d of
        None \<Rightarrow> fail Internal st
      | Some c \<Rightarrow>
          (case rGetVolume c volumeID (st_rds st) of
             (Inl err, r) \<Rightarrow>
               if is_unavailable err then fail Unavailable (st\<lparr>st_rds := r\<rparr>)
               else if volume_missing err then (Inr (), st\<lparr>st_rds := r\<rparr>)
               else fail Internal (st\<lparr>st_rds := r\<rparr>)
           | (Inr volume, r) \<Rightarrow>
               (case rDeleteVolume c volumeID r of
                  (Some err, r) \<Rightarrow> fail (if is_unavailable err then Unavailable else Internal) (st\<lparr>st_rds := r\<rparr>)
                | (None, r) \<Rightarrow> (Inr (), st\<lparr>st_rds := r\<rparr>))))"

text \<open>The response is the list of confirmed capabilities or the message why there is none.\<close>

definition ValidateVolumeCapabilities ::
    "('r, 'k) Driver \<Rightarrow> string \<Rightarrow> VolumeCapability list \<Rightarrow> ('r, 'k) CtrlState
     \<Rightarrow> (fault + (string + VolumeCapability list)) \<times> ('r, 'k) CtrlState" where
  "ValidateVolumeCapabilities d volumeID caps st =
     (if volumeID = [] then fail InvalidArgument st
      else if caps = [] then fail InvalidArgument st
      else case drv_rdsClient d of
        None \<Rightarrow> (Inl NilPanic, st)
      | Some c \<Rightarrow>
          (case rGetVolume c volumeID (st_rds st) of
             (Inl err, r) \<Rightarrow> fail NotFound (st\<lparr>st_rds := r\<rparr>)
           | (Inr _, r) \<Rightarrow>
               (case validateVolumeCapabilities (drv_vcaps d) caps of
                  Some err \<Rightarrow> (Inr (Inl (err_msg err)), st\<lparr>st_rds := r\<rparr>)
                | None \<Rightarrow> (Inr (Inr caps), st\<lparr>st_rds := r\<rparr>))))"

definition GetCapacity ::
    "('r, 'k) Driver \<Rightarrow> (string \<rightharpoonup> string) \<Rightarrow> ('r, 'k) CtrlState \<Rightarrow> (fault + int) \<times> ('r, 'k) CtrlState" where
  "GetCapacity d params st =
     (case drv_rdsClient d of
        None \<Rightarrow> (Inl NilPanic, st)
      | Some c \<Rightarrow>
          (case rGetCapacity c (volume_base_path params) (st_rds st) of
             (Inl err, r) \<Rightarrow> fail Internal (st\<lparr>st_rds := r\<rparr>)
           | (Inr capacity, r) \<Rightarrow> (Inr (ci_FreeBytes capacity), st\<lparr>st_rds := r\<rparr>)))"

definition ControllerGetCapabilities :: "('r, 'k) Driver \<Rightarrow> cs_rpc list" where
  "ControllerGetCapabilities d = drv_cscaps d"

text \<open>The response is the capacity and whether the node has to grow a file system; a request may carry
  a capability.\<close>

definition ControllerExpandVolume ::
    "('r, 'k) Driver \<Rightarrow> string \<Rightarrow> int \<Rightarrow> int \<Rightarrow> VolumeCapability option \<Rightarrow> ('r, 'k) CtrlState
     \<Rightarrow> (fault + int \<times> bool) \<times> ('r, 'k) CtrlState" where
  "ControllerExpandVolume d volumeID requiredBytes limitBytes cap st =
     (if volumeID = [] then fail InvalidArgument st
      else if ValidateVolumeID volumeID \<noteq> None then fail InvalidArgument st
      else if requiredBytes = 0 then fail InvalidArgument st
      else if requiredBytes < minVolumeSizeBytes then fail OutOfRange st
      else if limitBytes > 0 \<and> requiredBytes > limitBytes then fail OutOfRange st
      else if requiredBytes > maxVolumeSizeBytes then fail OutOfRange st
      else case drv_rdsClient d of
        None \<Rightarrow> (Inl NilPanic, st)
      | Some c \<Rightarrow>
          (case rGetVolume c volumeID (st_rds st) of
             (Inl err, r) \<Rightarrow> fail NotFound (st\<lparr>st_rds := r\<rparr>)
           | (Inr existingVolume, r) \<Rightarrow>
               if vi_FileSizeBytes existingVolume \<ge> requiredBytes
               then (Inr (vi_FileSizeBytes existingVolume, False), st\<lparr>st_rds := r\<rparr>)
               else (case rResizeVolume c volumeID requiredBytes r of
                       (Some err, r) \<Rightarrow>
                         fail (if errors_is err ErrResourceExhausted then ResourceExhausted else Internal)
                           (st\<lparr>st_rds := r\<rparr>)
                     | (None, r) \<Rightarrow>
                         (let nodeExpansionRequired =
                                (case cap of Some cp \<Rightarrow> cap_Type cp \<noteq> Block | None \<Rightarrow> True)
                          in (Inr (requiredBytes, nodeExpansionRequired), st\<lparr>st_rds := r\<rparr>)))))"

definition ListVolumes ::
    "('r, 'k) Driver \<Rightarrow> ('r, 'k) CtrlState \<Rightarrow> (fault + (string \<times> int) list) \<times> ('r, 'k) CtrlState" where
  "ListVolumes d st =
     (case drv_rdsClient d of
        None \<Rightarrow> (Inl NilPanic, st)
      | Some c \<Rightarrow>
          (case rListVolumes c (st_rds st) of
             (Inl err, r) \<Rightarrow> fail Internal (st\<lparr>st_rds := r\<rparr>)
           | (Inr volumes, r) \<Rightarrow>
               (Inr (map (\<lambda>vol. (vi_Slot vol, vi_FileSizeBytes vol)) volumes), st\<lparr>st_rds := r\<rparr>)))"

subsection \<open>Snapshots\<close>

definition csi_snapshot :: "SnapshotInfo \<Rightarrow> Snapshot" where
  "csi_snapshot s =
     \<lparr>sn_SnapshotId = si_Name s, sn_SourceVolumeId = si_SourceVolume s, sn_CreationTime = si_CreatedAt s,
      sn_SizeBytes = si_FileSizeBytes s, sn_ReadyToUse = True\<rparr>"

text \<open>\<open>uuid5\<close> is the hash of package uuid that \<open>GenerateSnapshotID\<close> applies to the name.\<close>

definition CreateSnapshot ::
    "(string \<Rightarrow> string) \<Rightarrow> ('r, 'k) Driver \<Rightarrow> string \<Rightarrow> string \<Rightarrow> (string \<rightharpoonup> string) \<Rightarrow> ('r, 'k) CtrlState
     \<Rightarrow> (fault + Snapshot) \<times> ('r, 'k) CtrlState" where
  "CreateSnapshot uuid5 d name sourceVolumeID params st =
     (if name = [] then fail InvalidArgument st
      else if sourceVolumeID = [] then fail InvalidArgument st
      else if ValidateVolumeID sourceVolumeID \<noteq> None then fail InvalidArgument st
      else case drv_rdsClient d of
        None \<Rightarrow> fail Internal st
      | Some c \<Rightarrow>
          (let snapshotID = GenerateSnapshotID uuid5 name sourceVolumeID
           in case rGetSnapshot c snapshotID (st_rds st) of
                (Inr existingSnapshot, r) \<Rightarrow>
                  if si_SourceVolume existingSnapshot = sourceVolumeID
                  then (Inr \<lparr>sn_SnapshotId = snapshotID, sn_SourceVolumeId = si_SourceVolume existingSnapshot,
                             sn_CreationTime = si_CreatedAt existingSnapshot,
                             sn_SizeBytes = si_FileSizeBytes existingSnapshot, sn_ReadyToUse = True\<rparr>,
                        st\<lparr>st_rds := r\<rparr>)
                  else fail AlreadyExists (st\<lparr>st_rds := r\<rparr>)
              | (Inl _, r) \<Rightarrow>
                  (case rGetVolume c sourceVolumeID r of
                     (Inl err, r) \<Rightarrow>
                       fail (if as_volume_not_found err then NotFound else Internal) (st\<lparr>st_rds := r\<rparr>)
                   | (Inr sourceVolume, r) \<Rightarrow>
                       (let volumeBasePath = (case params ''volumePath'' of
                               Some path \<Rightarrow> if path \<noteq> [] then path else defaultVolumeBasePath
                             | None \<Rightarrow> defaultVolumeBasePath)
                        in case rCreateSnapshot c \<lparr>so_Name = snapshotID, so_SourceVolume = sourceVolumeID,
                                                    so_BasePath = volumeBasePath\<rparr> r of
                             (Inl err, r) \<Rightarrow>
                               fail (if is_unavailable err then Unavailable else Internal) (st\<lparr>st_rds := r\<rparr>)
                           | (Inr snapshotInfo, r) \<Rightarrow>
                               (Inr \<lparr>sn_SnapshotId = snapshotID, sn_SourceVolumeId = sourceVolumeID,
                                     sn_CreationTime = si_CreatedAt snapshotInfo,
                                     sn_SizeBytes = vi_FileSizeBytes sourceVolume, sn_ReadyToUse = True\<rparr>,
                                st\<lparr>st_rds := r\<rparr>)))))"

definition DeleteSnapshot ::
    "('r, 'k) Driver \<Rightarrow> string \<Rightarrow> ('r, 'k) CtrlState \<Rightarrow> (fault + unit) \<times> ('r, 'k) CtrlState" where
  "DeleteSnapshot d snapshotID st =
     (if snapshotID = [] then fail InvalidArgument st
      else if ValidateSnapshotID snapshotID \<noteq> None then fail InvalidArgument st
      else case drv_rdsClient d of
        None \<Rightarrow> fail Internal st
      | Some c \<Rightarrow>
          (case rDeleteSnapshot c snapshotID (st_rds st) of
             (Some err, r) \<Rightarrow> fail (if is_unavailable err then Unavailable else Internal) (st\<lparr>st_rds := r\<rparr>)
           | (None, r) \<Rightarrow> (Inr (), st\<lparr>st_rds := r\<rparr>)))"

text \<open>
  One page of a sorted list. \<^verbatim>\<open>sort.Slice\<close> is not stable, but names are unique on the server, so
  \<open>sort_key\<close> gives the order it gives.
\<close>

definition paginate :: "SnapshotInfo list \<Rightarrow> string \<Rightarrow> int \<Rightarrow> grpc_code + ListSnapshotsResponse" where
  "paginate allSnapshots startingToken reqMax =
     (let total = int (length allSnapshots);
          start = (if startingToken \<noteq> []
                   then (case Atoi startingToken of
                           None \<Rightarrow> Inl Aborted
                         | Some idx \<Rightarrow> if idx < 0 \<or> idx > total then Inl Aborted else Inr idx)
                   else Inr 0)
      in case start of
           Inl code \<Rightarrow> Inl code
         | Inr startIndex \<Rightarrow>
             (let maxEntries = total - startIndex;
                  maxEntries = (if reqMax > 0 \<and> reqMax < maxEntries then reqMax else maxEntries);
                  entries = map csi_snapshot (take (nat maxEntries) (drop (nat startIndex) allSnapshots));
                  nextToken = (if startIndex + maxEntries < total then Itoa (startIndex + maxEntries) else [])
              in Inr \<lparr>lr_Entries = entries, lr_NextToken = nextToken\<rparr>))"

definition ListSnapshots ::
    "('r, 'k) Driver \<Rightarrow> ListSnapshotsRequest \<Rightarrow> ('r, 'k) CtrlState
     \<Rightarrow> (fault + ListSnapshotsResponse) \<times> ('r, 'k) CtrlState" where
  "ListSnapshots d req st =
     (case drv_rdsClient d of
        None \<Rightarrow> fail Internal st
      | Some c \<Rightarrow>
          if ls_SnapshotId req \<noteq> [] then
            (if ValidateSnapshotID (ls_SnapshotId req) \<noteq> None
             then (Inr \<lparr>lr_Entries = [], lr_NextToken = []\<rparr>, st)
             else case rGetSnapshot c (ls_SnapshotId req) (st_rds st) of
               (Inl err, r) \<Rightarrow> (Inr \<lparr>lr_Entries = [], lr_NextToken = []\<rparr>, st\<lparr>st_rds := r\<rparr>)
             | (Inr snap, r) \<Rightarrow> (Inr \<lparr>lr_Entries = [csi_snapshot snap], lr_NextToken = []\<rparr>, st\<lparr>st_rds := r\<rparr>))
          else
            (case rListSnapshots c (st_rds st) of
               (Inl err, r) \<Rightarrow> fail (if is_unavailable err then Unavailable else Internal) (st\<lparr>st_rds := r\<rparr>)
             | (Inr allSnapshots, r) \<Rightarrow>
                 (let allSnapshots = (if ls_SourceVolumeId req \<noteq> []
                        then filter (\<lambda>s. si_SourceVolume s = ls_SourceVolumeId req) allSnapshots else allSnapshots);
                      allSnapshots = sort_key si_Name allSnapshots
                  in case paginate allSnapshots (ls_StartingToken req) (ls_MaxEntries req) of
                       Inl code \<Rightarrow> fail code (st\<lparr>st_rds := r\<rparr>)
                     | Inr resp \<Rightarrow> (Inr resp, st\<lparr>st_rds := r\<rparr>))))"

subsection \<open>Sizes\<close>

lemma create_size_Inr:
  assumes "create_size req = Inr n"
  shows "minVolumeSizeBytes \<le> n \<and> n \<le> maxVolumeSizeBytes \<and> cv_RequiredBytes req \<le> n \<and>
    (cv_LimitBytes req > 0 \<longrightarrow> n \<le> cv_LimitBytes req) \<and>
    (minVolumeSizeBytes \<le> cv_RequiredBytes req \<longrightarrow> n = cv_RequiredBytes req)"
  using assms
  by (auto simp: create_size_def Let_def minVolumeSizeBytes_def maxVolumeSizeBytes_def split: if_splits)

lemma create_size_Inl: "create_size req = Inl code \<Longrightarrow> code = OutOfRange"
  by (auto simp: create_size_def Let_def split: if_splits)

text \<open>A request for an empty volume.\<close>

definition plain_request :: "CreateVolumeRequest \<Rightarrow> bool" where
  "plain_request req \<longleftrightarrow> cv_ContentSource req = None \<or> cv_ContentSource req = Some FromNothing"

lemma create_existing_Inr:
  "create_existing c req n v st = (Inr resp, st') \<Longrightarrow>
     st' = st \<and> vi_FileSizeBytes v = n \<and> cr_VolumeId resp = cv_Name req \<and> cr_CapacityBytes resp = n"
  by (auto simp: create_existing_def Let_def split: if_splits sum.splits)

lemma create_empty_Inr:
  assumes "create_empty c req n st = (Inr resp, st')"
  obtains p nqn path r where "ParseNVMEConnectionParams (cv_Parameters req) = Inr p"
    "VolumeIDToNQN (cv_Name req) = Inr nqn"
    "VolumeIDToFilePath (cv_Name req) (volume_base_path (cv_Parameters req)) = Inr path"
    "rCreateVolume c \<lparr>co_Slot = cv_Name req, co_FilePath = path, co_FileSizeBytes = n,
       co_NVMETCPPort = nvme_port_param (cv_Parameters req), co_NVMETCPNQN = nqn\<rparr> (st_rds st) = (None, r)"
    "resp = \<lparr>cr_VolumeId = cv_Name req, cr_CapacityBytes = n,
       cr_VolumeContext = volume_context c (cv_Parameters req) r (nvme_port_param (cv_Parameters req)) nqn path p
         (ParseMigrationTimeout (cv_Parameters req)), cr_ContentSource = None\<rparr>"
    "st' = st\<lparr>st_rds := r\<rparr>"
  using assms by (auto simp: create_empty_def Let_def split: sum.splits prod.splits option.splits)

text \<open>Once the checks of a request have passed they pass in every state, and the server decides.\<close>

lemma CreateVolume_Inr:
  assumes "CreateVolume d req st = (Inr resp, st')" "plain_request req"
  obtains c n where "create_size req = Inr n" "drv_rdsClient d = Some c" "ValidateVolumeID (cv_Name req) = None"
    "\<And>st2 :: ('a, 'b) CtrlState. CreateVolume d req st2 =
       (case rGetVolume c (cv_Name req) (st_rds st2) of
          (Inr v, r) \<Rightarrow> create_existing c req n v (st2\<lparr>st_rds := r\<rparr>)
        | (Inl err, r) \<Rightarrow> create_empty c req n (st2\<lparr>st_rds := r\<rparr>))"
proof -
  have pre: "cv_Name req \<noteq> []" "cv_Capabilities req \<noteq> []"
    "validateVolumeCapabilities (drv_vcaps d) (cv_Capabilities req) = None"
    using assms(1) by (auto simp: CreateVolume_def split: if_splits)
  obtain n where n: "create_size req = Inr n"
    using assms(1) pre by (cases "create_size req") (auto simp: CreateVolume_def)
  have v: "ValidateVolumeID (cv_Name req) = None"
    using assms(1) pre n by (auto simp: CreateVolume_def Let_def split: if_splits)
  obtain c where c: "drv_rdsClient d = Some c"
    using assms(1) pre n v by (cases "drv_rdsClient d") (auto simp: CreateVolume_def)
  have "CreateVolume d req st2 =
       (case rGetVolume c (cv_Name req) (st_rds st2) of
          (Inr v, r) \<Rightarrow> create_existing c req n v (st2\<lparr>st_rds := r\<rparr>)
        | (Inl err, r) \<Rightarrow> create_empty c req n (st2\<lparr>st_rds := r\<rparr>))" for st2 :: "('a, 'b) CtrlState"
    using assms(2) pre n v c
    by (auto simp: CreateVolume_def Let_def plain_request_def split: prod.split sum.split)
  with n c v that show ?thesis by blast
qed

text \<open>The options with which an empty volume of size \<open>n\<close> is created for a request, for a path and an NQN.\<close>

definition options_for :: "CreateVolumeRequest \<Rightarrow> int \<Rightarrow> string \<Rightarrow> string \<Rightarrow> CreateVolumeOptions" where
  "options_for req n path nqn =
     \<lparr>co_Slot = cv_Name req, co_FilePath = path, co_FileSizeBytes = n,
      co_NVMETCPPort = nvme_port_param (cv_Parameters req), co_NVMETCPNQN = nqn\<rparr>"

text \<open>A request whose name and creation options the server can take.\<close>

definition carries :: "(string \<Rightarrow> bool) \<Rightarrow> (CreateVolumeOptions \<Rightarrow> bool) \<Rightarrow> CreateVolumeRequest \<Rightarrow> bool" where
  "carries named fits req \<longleftrightarrow> named (cv_Name req) \<and>
     (\<forall>n path nqn. create_size req = Inr n \<longrightarrow> VolumeIDToNQN (cv_Name req) = Inr nqn \<longrightarrow>
        VolumeIDToFilePath (cv_Name req) (volume_base_path (cv_Parameters req)) = Inr path \<longrightarrow> fits (options_for req n path nqn))"

lemma carries_all [simp]: "carries (\<lambda>_. True) (\<lambda>_. True) req"
  by (simp add: carries_def)

context volume_service
begin

lemma create_empty_new:
  assumes "ok (st_rds st)" "vols (st_rds st) (cv_Name req) = None" "create_empty c req n st = (Inr resp, st')"
    "carries named fits req" "create_size req = Inr n"
  shows "ok (st_rds st') \<and> cr_VolumeId resp = cv_Name req \<and> cr_CapacityBytes resp = n \<and>
    (\<exists>v. vols (st_rds st') = (vols (st_rds st))(cv_Name req \<mapsto> v) \<and> vi_FileSizeBytes v = n \<and>
       create_existing c req n v st' = (Inr resp, st'))"
  using assms(3)
proof (rule create_empty_Inr)
  fix p nqn path r
  assume np: "VolumeIDToNQN (cv_Name req) = Inr nqn"
      "VolumeIDToFilePath (cv_Name req) (volume_base_path (cv_Parameters req)) = Inr path"
    and p: "ParseNVMEConnectionParams (cv_Parameters req) = Inr p"
    and cr: "rCreateVolume c \<lparr>co_Slot = cv_Name req, co_FilePath = path, co_FileSizeBytes = n,
       co_NVMETCPPort = nvme_port_param (cv_Parameters req), co_NVMETCPNQN = nqn\<rparr> (st_rds st) = (None, r)"
      (is "rCreateVolume c ?opts _ = _")
    and resp: "resp = \<lparr>cr_VolumeId = cv_Name req, cr_CapacityBytes = n,
       cr_VolumeContext = volume_context c (cv_Parameters req) r (nvme_port_param (cv_Parameters req)) nqn path p
         (ParseMigrationTimeout (cv_Parameters req)), cr_ContentSource = None\<rparr>"
    and st': "st' = st\<lparr>st_rds := r\<rparr>"
  have "ok r" "vols r = (vols (st_rds st))(cv_Name req \<mapsto> volume_of ?opts)"
    using create_new [OF assms(1), of ?opts] assms(2,4,5) np cr by (auto simp: carries_def options_for_def)
  moreover have "create_existing c req n (volume_of ?opts) st' = (Inr resp, st')"
    by (simp add: create_existing_def Let_def volume_of_def p resp st')
  ultimately show ?thesis by (auto simp: resp st' volume_of_def)
qed

text \<open>What a successful request for an empty volume leaves, and that repeating it changes nothing.\<close>

lemma CreateVolume_ok:
  fixes st :: "('r, 'k) CtrlState"
  assumes "drv_rdsClient d = Some c" "ok (st_rds st)" "plain_request req" "CreateVolume d req st = (Inr resp, st')"
    "carries named fits req"
  shows "ok (st_rds st') \<and>
    (\<exists>v. vols (st_rds st') = (vols (st_rds st))(cv_Name req \<mapsto> v) \<and> vi_FileSizeBytes v = cr_CapacityBytes resp \<and>
      (vols (st_rds st) (cv_Name req) = None \<or> vols (st_rds st) (cv_Name req) = Some v)) \<and>
    CreateVolume d req st' = (Inr resp, st')"
  using assms(4,3)
proof (rule CreateVolume_Inr)
  fix c' n
  assume n: "create_size req = Inr n" and c': "drv_rdsClient d = Some c'" and C: "\<And>st2 :: ('r, 'k) CtrlState. CreateVolume d req st2 =
       (case rGetVolume c' (cv_Name req) (st_rds st2) of
          (Inr v, r) \<Rightarrow> create_existing c' req n v (st2\<lparr>st_rds := r\<rparr>)
        | (Inl err, r) \<Rightarrow> create_empty c' req n (st2\<lparr>st_rds := r\<rparr>))"
  have [simp]: "c' = c" using c' assms(1) by simp
  have named: "named (cv_Name req)" using assms(5) by (simp add: carries_def)
  show ?thesis
  proof (cases "vols (st_rds st) (cv_Name req)")
    case None
    obtain e where "rGetVolume c (cv_Name req) (st_rds st) = (Inl e, st_rds st)"
      using get_missing [OF assms(2) named None] by blast
    with C [of st] assms(4) have "create_empty c req n st = (Inr resp, st')" by simp
    from create_empty_new [OF assms(2) None this assms(5) n]
    obtain v where v: "ok (st_rds st')" "vols (st_rds st') = (vols (st_rds st))(cv_Name req \<mapsto> v)"
      "vi_FileSizeBytes v = n" "create_existing c req n v st' = (Inr resp, st')" "cr_CapacityBytes resp = n" by blast
    then have "rGetVolume c (cv_Name req) (st_rds st') = (Inr v, st_rds st')" using named by (intro get_found) simp_all
    with C [of st'] v show ?thesis using None by auto
  next
    case (Some v)
    note g = get_found [OF assms(2) named Some]
    with C [of st] assms(4) have e: "create_existing c req n v st = (Inr resp, st')" by simp
    from create_existing_Inr [OF this] g C [of st'] e Some show ?thesis
      using assms(2) by (auto simp: fun_upd_idem)
  qed
qed

lemma DeleteVolume_ok:
  assumes "drv_rdsClient d = Some c" "ok (st_rds st)" "ValidateVolumeID v = None" "named v"
  shows "\<exists>st'. DeleteVolume d v st = (Inr (), st') \<and> ok (st_rds st') \<and>
    vols (st_rds st') = (vols (st_rds st))(v := None)"
proof (cases "vols (st_rds st) v")
  case None
  obtain e where e: "rGetVolume c v (st_rds st) = (Inl e, st_rds st)" "volume_missing e" "\<not> is_unavailable e"
    using get_missing [OF assms(2,4) None] by blast
  have "v \<noteq> []" using assms(3) by (auto simp: ValidateVolumeID_def)
  with e assms None show ?thesis by (auto simp: DeleteVolume_def fun_upd_idem)
next
  case (Some vi)
  obtain r where r: "rDeleteVolume c v (st_rds st) = (None, r)" "ok r" "vols r = (vols (st_rds st))(v := None)"
    using delete [OF assms(2,4)] by blast
  have "v \<noteq> []" using assms(3) by (auto simp: ValidateVolumeID_def)
  with r get_found [OF assms(2,4) Some] assms show ?thesis by (auto simp: DeleteVolume_def)
qed

lemma create_delete:
  assumes "drv_rdsClient d = Some c" "ok (st_rds st)" "plain_request req"
    "vols (st_rds st) (cv_Name req) = None" "ValidateVolumeID (cv_Name req) = None"
    "length (cv_Name req) \<le> 198" "cv_Capabilities req \<noteq> []"
    "validateVolumeCapabilities (drv_vcaps d) (cv_Capabilities req) = None"
    "create_size req = Inr n" "ParseNVMEConnectionParams (cv_Parameters req) = Inr p" "carries named fits req"
  shows "\<exists>resp st1 st2 st3. CreateVolume d req st = (Inr resp, st1) \<and> vols (st_rds st1) (cv_Name req) \<noteq> None \<and>
    DeleteVolume d (cv_Name req) st1 = (Inr (), st2) \<and> vols (st_rds st2) = vols (st_rds st) \<and>
    DeleteVolume d (cv_Name req) st2 = (Inr (), st3) \<and> vols (st_rds st3) = vols (st_rds st)"
proof -
  let ?v = "cv_Name req"
  have v: "?v \<noteq> []" using assms(5) by (auto simp: ValidateVolumeID_def)
  have named: "named ?v" using assms(11) by (simp add: carries_def)
  obtain e where e: "rGetVolume c ?v (st_rds st) = (Inl e, st_rds st)" using get_missing [OF assms(2) named assms(4)] by blast
  obtain nqn path where np: "VolumeIDToNQN ?v = Inr nqn" "VolumeIDToFilePath ?v (volume_base_path (cv_Parameters req)) = Inr path"
    using assms(5,6) by (auto simp: VolumeIDToNQN_Inr_iff VolumeIDToFilePath_def Let_def)
  let ?opts = "\<lparr>co_Slot = ?v, co_FilePath = path, co_FileSizeBytes = n,
    co_NVMETCPPort = nvme_port_param (cv_Parameters req), co_NVMETCPNQN = nqn\<rparr>"
  obtain r where r: "rCreateVolume c ?opts (st_rds st) = (None, r)"
    using create_new [OF assms(2), of ?opts] assms(4,9,11) np by (auto simp: carries_def options_for_def)
  have "\<exists>resp st1. CreateVolume d req st = (Inr resp, st1)"
    using v e np r assms by (auto simp: CreateVolume_def create_empty_def Let_def plain_request_def)
  then obtain resp st1 where c: "CreateVolume d req st = (Inr resp, st1)" by blast
  from CreateVolume_ok [OF assms(1-3) c assms(11)] obtain vi where
    st1: "ok (st_rds st1)" "vols (st_rds st1) = (vols (st_rds st))(?v \<mapsto> vi)" by blast
  obtain st2 where st2: "DeleteVolume d ?v st1 = (Inr (), st2)" "ok (st_rds st2)"
    "vols (st_rds st2) = (vols (st_rds st1))(?v := None)"
    using DeleteVolume_ok [OF assms(1) st1(1) assms(5) named] by blast
  obtain st3 where st3: "DeleteVolume d ?v st2 = (Inr (), st3)" "vols (st_rds st3) = (vols (st_rds st2))(?v := None)"
    using DeleteVolume_ok [OF assms(1) st2(2) assms(5) named] by blast
  have "vols (st_rds st2) = vols (st_rds st)" "vols (st_rds st3) = vols (st_rds st)"
    using st1(2) st2(3) st3(2) assms(4) by (simp_all add: fun_upd_idem)
  with c st1 st2 st3 show ?thesis by auto
qed

lemma ExpandVolume_ok:
  assumes "drv_rdsClient d = Some c" "ok (st_rds st)" "ValidateVolumeID v = None" "vols (st_rds st) v = Some vi"
    "minVolumeSizeBytes \<le> n" "n \<le> maxVolumeSizeBytes" "0 < l \<longrightarrow> n \<le> l" "named v" "whole n"
  shows "\<exists>st'. ControllerExpandVolume d v n l cap st =
      (Inr (max n (vi_FileSizeBytes vi), vi_FileSizeBytes vi < n \<and> (\<forall>cp. cap = Some cp \<longrightarrow> cap_Type cp \<noteq> Block)), st') \<and>
    ok (st_rds st') \<and>
    vols (st_rds st') = (vols (st_rds st))(v \<mapsto> vi\<lparr>vi_FileSizeBytes := max n (vi_FileSizeBytes vi)\<rparr>)"
proof -
  have v: "v \<noteq> []" using assms(3) by (auto simp: ValidateVolumeID_def)
  have n: "n \<noteq> 0" using assms(5) by (simp add: minVolumeSizeBytes_def)
  note g = get_found [OF assms(2,8,4)]
  show ?thesis
  proof (cases "vi_FileSizeBytes vi \<ge> n")
    case True
    moreover have "vi\<lparr>vi_FileSizeBytes := vi_FileSizeBytes vi\<rparr> = vi" by simp
    ultimately show ?thesis using v n g assms
      by (auto simp: ControllerExpandVolume_def not_less max_def fun_upd_idem)
  next
    case False
    obtain r where r: "rResizeVolume c v n (st_rds st) = (None, r)" "ok r"
      "vols r = (vols (st_rds st))(v \<mapsto> vi\<lparr>vi_FileSizeBytes := n\<rparr>)"
      using resize [OF assms(2,8,9,4)] False by auto
    then show ?thesis using False v n g assms
      by (auto simp: ControllerExpandVolume_def not_less max_def split: option.split)
  qed
qed

end

subsection \<open>Snapshot listings\<close>

lemma paginate_start:
  "paginate l [] m =
     (let k = (if 0 < m \<and> m < int (length l) then nat m else length l)
      in Inr \<lparr>lr_Entries = map csi_snapshot (take k l), lr_NextToken = (if k < length l then Itoa (int k) else [])\<rparr>)"
  by (auto simp: paginate_def Let_def)

lemma paginate_token:
  assumes "i \<le> length l" "int (length l) \<le> max_int64"
  shows "paginate l (Itoa (int i)) m =
     (let k = (if 0 < m \<and> m < int (length l - i) then nat m else length l - i)
      in Inr \<lparr>lr_Entries = map csi_snapshot (take k (drop i l)),
              lr_NextToken = (if i + k < length l then Itoa (int (i + k)) else [])\<rparr>)"
proof -
  have "in_int64 (int i)" using assms by (simp add: in_int64_def min_int64_def max_int64_def)
  moreover have "Itoa (int i) \<noteq> []" by (simp add: Itoa_def)
  ultimately show ?thesis using assms(1) by (auto simp: paginate_def Let_def of_nat_diff)
qed

lemma Itoa_not_Nil [simp]: "Itoa i \<noteq> []"
  by (simp add: Itoa_def)

text \<open>A client that follows the tokens, for at most \<open>fuel\<close> pages.\<close>

fun follow_pages ::
    "nat \<Rightarrow> ('r, 'k) Driver \<Rightarrow> ListSnapshotsRequest \<Rightarrow> ('r, 'k) CtrlState \<Rightarrow> Snapshot list option" where
  "follow_pages 0 d req st = None"
| "follow_pages (Suc fuel) d req st =
     (case ListSnapshots d req st of
        (Inl _, _) \<Rightarrow> None
      | (Inr resp, st') \<Rightarrow>
          if lr_NextToken resp = [] then Some (lr_Entries resp)
          else map_option (\<lambda>es. lr_Entries resp @ es)
                 (follow_pages fuel d (req\<lparr>ls_StartingToken := lr_NextToken resp\<rparr>) st'))"

text \<open>The sorted list a request without a snapshot ID is answered from.\<close>

definition listing :: "ListSnapshotsRequest \<Rightarrow> SnapshotInfo list \<Rightarrow> SnapshotInfo list" where
  "listing req l = sort_key si_Name
     (if ls_SourceVolumeId req \<noteq> [] then filter (\<lambda>s. si_SourceVolume s = ls_SourceVolumeId req) l else l)"

lemma listing_token [simp]: "listing (req\<lparr>ls_StartingToken := t\<rparr>) l = listing req l"
  by (simp add: listing_def)

lemma ListSnapshots_listing:
  assumes "drv_rdsClient d = Some c" "rListSnapshots c (st_rds st) = (Inr l, st_rds st)" "ls_SnapshotId req = []"
    "paginate (listing req l) (ls_StartingToken req) (ls_MaxEntries req) = Inr resp"
  shows "ListSnapshots d req st = (Inr resp, st)"
  using assms by (simp add: ListSnapshots_def Let_def listing_def)

lemma follow_pages_from:
  assumes d: "drv_rdsClient d = Some c" and l: "rListSnapshots c (st_rds st) = (Inr l, st_rds st)"
    and s: "ls_SnapshotId req = []" and m: "ls_MaxEntries req > 0"
    and len: "int (length (listing req l)) \<le> max_int64"
    and i: "i \<le> length (listing req l)" "length (listing req l) - i < fuel"
  shows "follow_pages fuel d (req\<lparr>ls_StartingToken := Itoa (int i)\<rparr>) st =
    Some (map csi_snapshot (drop i (listing req l)))"
  using i
proof (induction fuel arbitrary: i)
  case 0
  then show ?case by simp
next
  case (Suc fuel)
  let ?L = "listing req l" and ?m = "ls_MaxEntries req"
  define k where "k = (if 0 < ?m \<and> ?m < int (length ?L - i) then nat ?m else length ?L - i)"
  have P: "ListSnapshots d (req\<lparr>ls_StartingToken := Itoa (int i)\<rparr>) st =
      (Inr \<lparr>lr_Entries = map csi_snapshot (take k (drop i ?L)),
            lr_NextToken = (if i + k < length ?L then Itoa (int (i + k)) else [])\<rparr>, st)"
    using paginate_token [OF Suc.prems(1) len, of ?m, unfolded Let_def, folded k_def] d l s
    by (intro ListSnapshots_listing) simp_all
  have k0: "i + k < length ?L \<Longrightarrow> k > 0" using m by (auto simp: k_def)
  have ik: "i + k \<le> length ?L" using Suc.prems(1) by (auto simp: k_def)
  have app: "take k (drop i ?L) @ drop (i + k) ?L = drop i ?L"
    by (metis add.commute append_take_drop_id drop_drop)
  show ?case
  proof (cases "i + k < length ?L")
    case True
    then have "follow_pages fuel d (req\<lparr>ls_StartingToken := Itoa (int (i + k))\<rparr>) st =
        Some (map csi_snapshot (drop (i + k) ?L))"
      using k0 ik Suc.prems(2) by (intro Suc.IH) auto
    with True P app show ?thesis by (simp flip: map_append)
  next
    case False
    then have "take k (drop i ?L) = drop i ?L" using ik by simp
    with False P show ?thesis by simp
  qed
qed

lemma follow_pages_all:
  assumes d: "drv_rdsClient d = Some c" and l: "rListSnapshots c (st_rds st) = (Inr l, st_rds st)"
    and s: "ls_SnapshotId req = []" "ls_StartingToken req = []" and m: "ls_MaxEntries req > 0"
    and len: "int (length l) \<le> max_int64" "length l < fuel"
  shows "follow_pages fuel d req st = Some (map csi_snapshot (listing req l))"
proof -
  let ?L = "listing req l" and ?m = "ls_MaxEntries req"
  have L: "length ?L \<le> length l" by (simp add: listing_def)
  obtain f where f: "fuel = Suc f" using len(2) by (cases fuel) auto
  define k where "k = (if 0 < ?m \<and> ?m < int (length ?L) then nat ?m else length ?L)"
  have P: "ListSnapshots d req st = (Inr \<lparr>lr_Entries = map csi_snapshot (take k ?L),
      lr_NextToken = (if k < length ?L then Itoa (int k) else [])\<rparr>, st)"
    using paginate_start [of ?L ?m, unfolded Let_def, folded k_def] d l s
    by (intro ListSnapshots_listing) simp_all
  show ?thesis
  proof (cases "k < length ?L")
    case True
    then have "k > 0" using m by (auto simp: k_def)
    then have "follow_pages f d (req\<lparr>ls_StartingToken := Itoa (int k)\<rparr>) st = Some (map csi_snapshot (drop k ?L))"
      using True L len f by (intro follow_pages_from [OF d l s(1) m]) auto
    with True P show ?thesis by (simp add: f flip: map_append)
  next
    case False
    with P show ?thesis by (simp add: f)
  qed
qed

subsection \<open>Snapshots under the contract\<close>

definition snapshot_base_path :: "(string \<rightharpoonup> string) \<Rightarrow> string" where
  "snapshot_base_path params = (case params ''volumePath'' of
     Some path \<Rightarrow> if path \<noteq> [] then path else defaultVolumeBasePath | None \<Rightarrow> defaultVolumeBasePath)"

context rds_store
begin

lemma CreateSnapshot_new:
  assumes "drv_rdsClient d = Some c" "ok (st_rds st)" "name \<noteq> []" "ValidateVolumeID src = None"
    "vols (st_rds st) src = Some v" "snaps (st_rds st) (GenerateSnapshotID uuid5 name src) = None"
  shows "\<exists>snap i st'. CreateSnapshot uuid5 d name src params st = (Inr snap, st') \<and> ok (st_rds st') \<and>
    vols (st_rds st') = vols (st_rds st) \<and>
    snaps (st_rds st') = (snaps (st_rds st))(sn_SnapshotId snap \<mapsto> i) \<and>
    sn_SnapshotId snap = GenerateSnapshotID uuid5 name src \<and> si_SourceVolume i = src \<and>
    snap = csi_snapshot i \<and> si_FileSizeBytes i = vi_FileSizeBytes v"
proof -
  let ?id = "GenerateSnapshotID uuid5 name src"
  let ?opts = "\<lparr>so_Name = ?id, so_SourceVolume = src, so_BasePath = snapshot_base_path params\<rparr>"
  have src: "src \<noteq> []" using assms(4) by (auto simp: ValidateVolumeID_def)
  obtain e where "rGetSnapshot c ?id (st_rds st) = (Inl e, st_rds st)"
    using snap_missing [OF assms(2,6)] by blast
  moreover have "rGetVolume c src (st_rds st) = (Inr v, st_rds st)" using get_found [OF assms(2,5)] .
  moreover obtain i r where i: "rCreateSnapshot c ?opts (st_rds st) = (Inr i, r)" "ok r" "vols r = vols (st_rds st)"
    "snaps r = (snaps (st_rds st))(?id \<mapsto> i)" "si_Name i = ?id" "si_SourceVolume i = src"
    "si_FileSizeBytes i = vi_FileSizeBytes v"
    using snap_create [OF assms(2), of ?opts v] assms(5,6) by auto
  ultimately have "CreateSnapshot uuid5 d name src params st = (Inr (csi_snapshot i), st\<lparr>st_rds := r\<rparr>)"
    using assms(1,3,4) src
    by (simp add: CreateSnapshot_def Let_def csi_snapshot_def snapshot_base_path_def split: option.split)
  with i show ?thesis
    by (intro exI [of _ "csi_snapshot i"] exI [of _ i] exI [of _ "st\<lparr>st_rds := r\<rparr>"]) (simp add: csi_snapshot_def)
qed

lemma CreateSnapshot_again:
  assumes "drv_rdsClient d = Some c" "ok (st_rds st)" "name \<noteq> []" "ValidateVolumeID src = None"
    "snaps (st_rds st) (GenerateSnapshotID uuid5 name src) = Some i"
  shows "CreateSnapshot uuid5 d name src params st =
    (if si_SourceVolume i = src then Inr (csi_snapshot i\<lparr>sn_SnapshotId := GenerateSnapshotID uuid5 name src\<rparr>)
     else Inl (Status AlreadyExists), st)"
proof -
  have "src \<noteq> []" using assms(4) by (auto simp: ValidateVolumeID_def)
  with assms snap_found [OF assms(2,5)] show ?thesis
    by (simp add: CreateSnapshot_def Let_def csi_snapshot_def)
qed

lemma follow_pages_complete:
  assumes "drv_rdsClient d = Some c" "ok (st_rds st)" "ls_SnapshotId req = []" "ls_StartingToken req = []"
    "ls_MaxEntries req > 0" "int (card (ran (snaps (st_rds st)))) \<le> max_int64" "card (ran (snaps (st_rds st))) < fuel"
  shows "\<exists>es. follow_pages fuel d req st = Some es \<and> sorted (map sn_SnapshotId es) \<and> distinct (map sn_SnapshotId es) \<and>
    set es = csi_snapshot ` {s \<in> ran (snaps (st_rds st)).
      ls_SourceVolumeId req = [] \<or> si_SourceVolume s = ls_SourceVolumeId req}"
proof -
  obtain l where l: "rListSnapshots c (st_rds st) = (Inr l, st_rds st)" "set l = ran (snaps (st_rds st))"
    "distinct (map si_Name l)" using snap_list [OF assms(2)] by blast
  have "length l = card (ran (snaps (st_rds st)))"
    using l(2,3) distinct_card [of l] by (simp add: distinct_map)
  then have f: "follow_pages fuel d req st = Some (map csi_snapshot (listing req l))"
    using assms l(1) by (intro follow_pages_all) simp_all
  have id: "map sn_SnapshotId (map csi_snapshot xs) = map si_Name xs" for xs
    by (simp add: csi_snapshot_def)
  have "sorted (map si_Name (listing req l))" by (simp add: listing_def)
  moreover have "distinct (map si_Name (listing req l))"
    using l(3) by (auto simp: listing_def distinct_map intro: inj_on_subset)
  moreover have "set (listing req l) = {s \<in> ran (snaps (st_rds st)).
      ls_SourceVolumeId req = [] \<or> si_SourceVolume s = ls_SourceVolumeId req}"
    using l(2) by (auto simp: listing_def)
  ultimately show ?thesis using f by (intro exI [of _ "map csi_snapshot (listing req l)"]) (simp only: id set_map)
qed

end

lemma mock_store: "rds_store mock_client mc_volumes mock_ok mc_snapshots" ..

subsection \<open>A driver to try things on\<close>

text \<open>A driver without a cluster, an in-memory server with one volume, an empty table.\<close>

definition example_driver :: "(MockClient, unit) Driver" where
  "example_driver = addVolumeCapabilities
     \<lparr>drv_rdsClient = Some mock_client, drv_k8sClient = None, drv_nodeID = [], drv_attachmentManager = True,
      drv_attachmentGracePeriod = 30 * second, drv_vcaps = [], drv_cscaps = []\<rparr>"

definition example_volume :: VolumeInfo where
  "example_volume = \<lparr>vi_Slot = ''vol-1'', vi_Type = ''file'', vi_FilePath = ''/pool/vol-1.img'',
     vi_FileSizeBytes = 1073741824, vi_NVMETCPExport = True, vi_NVMETCPPort = 4420,
     vi_NVMETCPNQN = ''nqn.2000-02.com.mikrotik:vol-1'', vi_Status = ''ready''\<rparr>"

definition example_state :: "(MockClient, unit) CtrlState" where
  "example_state = \<lparr>st_rds = mock_AddVolume example_volume (NewMockClient sorted_list_of_set 0),
     st_am = NewAttachmentManager, st_k = ()\<rparr>"

lemma example_valid [simp]: "ValidateVolumeID ''vol-1'' = None"
  by (simp add: ValidateVolumeID_None_iff slot_char_def is_lower_def is_upper_def is_digit_def HasPrefix_def
      uuid_text_def)

lemma example_driver_simps [simp]:
  "drv_rdsClient example_driver = Some mock_client" "drv_k8sClient example_driver = None"
  "drv_nodeID example_driver = []" "drv_attachmentManager example_driver"
  "drv_attachmentGracePeriod example_driver = 30 * second"
  by (simp_all add: example_driver_def addVolumeCapabilities_def)

lemma example_state_simps [simp]:
  "st_am example_state = NewAttachmentManager" "st_k example_state = ()"
  "mock_GetVolume ''vol-1'' (st_rds example_state) = (Inr example_volume, st_rds example_state)"
  by (simp_all add: example_state_def mock_GetVolume_def mock_checkError_def NewMockClient_def mock_AddVolume_def
      example_volume_def)

lemma example_get [simp]: "rGetVolume mock_client = mock_GetVolume"
  by (simp add: mock_client_def)

lemma example_state_ok [simp]: "mock_ok (st_rds example_state)"
proof -
  have "filed vi_Slot [''vol-1'' \<mapsto> example_volume]" by (simp add: filed_def example_volume_def)
  then show ?thesis
    by (simp add: mock_ok_def example_state_def mock_AddVolume_def NewMockClient_def filed_def example_volume_def)
qed

lemma example_state_vols [simp]:
  "mc_volumes (st_rds example_state) = [''vol-1'' \<mapsto> example_volume]"
  "mc_snapshots (st_rds example_state) = Map.empty"
  by (simp_all add: example_state_def mock_AddVolume_def NewMockClient_def example_volume_def)

definition example_create :: CreateVolumeRequest where
  "example_create = \<lparr>cv_Name = ''vol-2'', cv_RequiredBytes = 0, cv_LimitBytes = 0,
     cv_Capabilities = [\<lparr>cap_Mode = SINGLE_NODE_WRITER, cap_Type = Mount\<rparr>], cv_Parameters = Map.empty,
     cv_ContentSource = None\<rparr>"

lemma example_create_simps [simp]:
  "cv_Name example_create = ''vol-2''" "plain_request example_create" "cv_Parameters example_create = Map.empty"
  "create_size example_create = Inr 1073741824" "ParseNVMEConnectionParams Map.empty = Inr DefaultNVMEConnectionParams"
  "validateVolumeCapabilities (drv_vcaps example_driver) (cv_Capabilities example_create) = None"
  "ValidateVolumeID ''vol-2'' = None" "cv_Capabilities example_create \<noteq> []"
  by (simp_all add: example_create_def plain_request_def create_size_def minVolumeSizeBytes_def maxVolumeSizeBytes_def
      ParseNVMEConnectionParams_def parse_param_def example_driver_def addVolumeCapabilities_def
      ValidateVolumeID_None_iff slot_char_def is_lower_def is_upper_def is_digit_def HasPrefix_def uuid_text_def)

subsection \<open>Properties\<close>

text \<open>The size of a created volume: a successful request without a content source is answered with the
  requested name and a capacity between 1 GiB and 16 TiB that is at least the required size and, when the
  request has a limit, at most the limit.\<close>

theorem CreateVolume_capacity:
  assumes "CreateVolume d req st = (Inr resp, st')" and "plain_request req"
  shows "cr_VolumeId resp = cv_Name req \<and> 1024 ^ 3 \<le> cr_CapacityBytes resp \<and> cr_CapacityBytes resp \<le> 16 * 1024 ^ 4 \<and>
    cv_RequiredBytes req \<le> cr_CapacityBytes resp \<and>
    (cv_LimitBytes req > 0 \<longrightarrow> cr_CapacityBytes resp \<le> cv_LimitBytes req)"
  using assms
proof (rule CreateVolume_Inr)
  fix c n
  assume n: "create_size req = Inr n" and C: "\<And>st2. CreateVolume d req st2 =
       (case rGetVolume c (cv_Name req) (st_rds st2) of
          (Inr v, r) \<Rightarrow> create_existing c req n v (st2\<lparr>st_rds := r\<rparr>)
        | (Inl err, r) \<Rightarrow> create_empty c req n (st2\<lparr>st_rds := r\<rparr>))"
  obtain g r where g: "rGetVolume c (cv_Name req) (st_rds st) = (g, r)" by fastforce
  have "cr_VolumeId resp = cv_Name req \<and> cr_CapacityBytes resp = n"
  proof (cases g)
    case (Inl e)
    with C [of st] g assms(1) have "create_empty c req n (st\<lparr>st_rds := r\<rparr>) = (Inr resp, st')" by simp
    then show ?thesis by (rule create_empty_Inr) simp
  next
    case (Inr v)
    with C [of st] g assms(1) have "create_existing c req n v (st\<lparr>st_rds := r\<rparr>) = (Inr resp, st')" by simp
    from create_existing_Inr [OF this] show ?thesis by simp
  qed
  with create_size_Inr [OF n] show ?thesis by (simp add: minVolumeSizeBytes_def maxVolumeSizeBytes_def)
qed

lemma example_create_ok: "\<exists>resp st'. CreateVolume example_driver example_create example_state = (Inr resp, st')"
  using volume_service.create_delete [OF mock.svc.volume_service_axioms, of example_driver example_state example_create]
  by simp blast

theorem CreateVolume_capacity_witness:
  "\<exists>resp st'. CreateVolume example_driver example_create example_state = (Inr resp, st') \<and>
     1024 ^ 3 \<le> cr_CapacityBytes resp \<and> cr_CapacityBytes resp \<le> 16 * 1024 ^ 4"
  using example_create_ok CreateVolume_capacity [of example_driver example_create example_state] by fastforce

text \<open>A snapshot is taken once: on a storage server that keeps its contract, the first request for a
  name and an existing source volume creates a snapshot of the size of the volume, without touching a
  volume, and repeating the request gives the same answer and changes nothing; the same name with another
  source volume is refused with \<^verbatim>\<open>AlreadyExists\<close>.\<close>

theorem CreateSnapshot_idempotent:
  assumes "rds_store c vols ok snaps" and "drv_rdsClient d = Some c" and "ok (st_rds st)" and "name \<noteq> []"
    and "ValidateVolumeID src = None" and "vols (st_rds st) src = Some v"
    and "snaps (st_rds st) (GenerateSnapshotID uuid5 name src) = None"
    and "ValidateVolumeID src' = None" and "src' \<noteq> src"
  shows "\<exists>snap st'. CreateSnapshot uuid5 d name src params st = (Inr snap, st') \<and>
    sn_SizeBytes snap = vi_FileSizeBytes v \<and> sn_SourceVolumeId snap = src \<and>
    vols (st_rds st') = vols (st_rds st) \<and> CreateSnapshot uuid5 d name src params st' = (Inr snap, st') \<and>
    CreateSnapshot uuid5 d name src' params st' = (Inl (Status AlreadyExists), st')"
proof -
  note new = rds_store.CreateSnapshot_new [OF assms(1-7), of params]
  note again = rds_store.CreateSnapshot_again [OF assms(1,2)]
  obtain snap i st' where s: "CreateSnapshot uuid5 d name src params st = (Inr snap, st')" "ok (st_rds st')"
    "vols (st_rds st') = vols (st_rds st)" "snaps (st_rds st') = (snaps (st_rds st))(sn_SnapshotId snap \<mapsto> i)"
    "sn_SnapshotId snap = GenerateSnapshotID uuid5 name src" "si_SourceVolume i = src" "snap = csi_snapshot i"
    "si_FileSizeBytes i = vi_FileSizeBytes v"
    using new by blast
  have eq: "GenerateSnapshotID uuid5 name src' = GenerateSnapshotID uuid5 name src"
    by (simp add: GenerateSnapshotID_def)
  have i: "snaps (st_rds st') (GenerateSnapshotID uuid5 name src) = Some i" using s(4,5) by simp
  have "snap\<lparr>sn_SnapshotId := GenerateSnapshotID uuid5 name src\<rparr> = snap" using s(5) by simp
  with again [OF s(2) assms(4,5) i] again [OF s(2) assms(4,8) i [folded eq]] s assms(9)
  show ?thesis by (auto simp: csi_snapshot_def)
qed

theorem CreateSnapshot_idempotent_witness:
  "\<exists>snap st'. CreateSnapshot (\<lambda>n. n) example_driver ''s'' ''vol-1'' Map.empty example_state = (Inr snap, st') \<and>
     CreateSnapshot (\<lambda>n. n) example_driver ''s'' ''vol-2'' Map.empty st' = (Inl (Status AlreadyExists), st')"
  using CreateSnapshot_idempotent [OF mock_store, of example_driver example_state "''s''" "''vol-1''"
      example_volume "\<lambda>n. n" "''vol-2''" Map.empty]
  by auto

text \<open>C11. Listing snapshots page by page terminates and misses nothing: a client that asks for pages of any
  positive size and follows the tokens gets, after at most one page more than there are snapshots, every
  snapshot of the requested source volume (or every snapshot, if none is given) once, in order.\<close>

theorem ListSnapshots_complete:
  assumes "rds_store c vols ok snaps" and "drv_rdsClient d = Some c" and "ok (st_rds st)"
    and "ls_SnapshotId req = []" and "ls_StartingToken req = []" and "ls_MaxEntries req > 0"
    and "int (card (ran (snaps (st_rds st)))) \<le> max_int64"
  shows "\<exists>es. follow_pages (card (ran (snaps (st_rds st))) + 1) d req st = Some es \<and>
    sorted (map sn_SnapshotId es) \<and> distinct (map sn_SnapshotId es) \<and>
    set es = csi_snapshot ` {s \<in> ran (snaps (st_rds st)).
      ls_SourceVolumeId req = [] \<or> si_SourceVolume s = ls_SourceVolumeId req}"
  by (rule rds_store.follow_pages_complete [OF assms]) simp

theorem ListSnapshots_complete_witness:
  "follow_pages 1 example_driver \<lparr>ls_SnapshotId = [], ls_SourceVolumeId = [], ls_MaxEntries = 2, ls_StartingToken = []\<rparr>
     example_state = Some []"
  using ListSnapshots_complete [OF mock_store, of example_driver example_state
      "\<lparr>ls_SnapshotId = [], ls_SourceVolumeId = [], ls_MaxEntries = 2, ls_StartingToken = []\<rparr>"]
  by (simp add: max_int64_def del: follow_pages.simps)

text \<open>The capabilities the controller accepts: with the access modes of \<^verbatim>\<open>addVolumeCapabilities\<close>, a list is
  accepted exactly when every entry asks for a block device or a mounted file system in one of the three
  supported modes, and for a block device if the mode is the shared one.\<close>

theorem validateVolumeCapabilities_accepts:
  "validateVolumeCapabilities (drv_vcaps (addVolumeCapabilities d)) caps = None \<longleftrightarrow>
     list_all (\<lambda>cap. cap_Mode cap \<in> {SINGLE_NODE_WRITER, SINGLE_NODE_READER_ONLY} \<and> cap_Type cap \<in> {Block, Mount} \<or>
       cap_Mode cap = MULTI_NODE_MULTI_WRITER \<and> cap_Type cap = Block) caps"
  by (induction caps) (auto simp: addVolumeCapabilities_def intro: access_type.exhaust)

subsection \<open>Observations on the source\<close>

text \<open>Restoring a snapshot raises the size to that of the snapshot after the limits have been checked.\<close>

lemma restore_ignores_limit:
  assumes "createVolumeFromSnapshot c req v s n st = (Inr resp, st')"
    "rGetSnapshot c s (st_rds st) = (Inr i, r)"
  shows "cr_CapacityBytes resp = max n (si_FileSizeBytes i)"
  using assms by (auto simp: createVolumeFromSnapshot_def Let_def max_def split: if_splits sum.splits prod.splits option.splits)

text \<open>Names of 199 to 250 bytes pass the validation and then fail with \<^verbatim>\<open>Internal\<close>, since the NQN is too long.\<close>

lemma long_name_internal:
  assumes "ValidateVolumeID (cv_Name req) = None" "length (cv_Name req) > 198"
    "ParseNVMEConnectionParams (cv_Parameters req) = Inr p"
  shows "create_empty c req n st = (Inl (Status Internal), st)"
proof -
  obtain e where "VolumeIDToNQN (cv_Name req) = Inl e"
    using assms(2) VolumeIDToNQN_Inr_iff [of "cv_Name req"] by (cases "VolumeIDToNQN (cv_Name req)") auto
  with assms(3) show ?thesis by (simp add: create_empty_def)
qed

text \<open>A source volume that the client reports missing by the sentinel instead of the typed error gives
  \<^verbatim>\<open>Internal\<close> where the typed error gives \<^verbatim>\<open>NotFound\<close>.\<close>

lemma snapshot_of_missing_volume:
  assumes "name \<noteq> []" "ValidateVolumeID src = None" "drv_rdsClient d = Some c"
    "rGetSnapshot c (GenerateSnapshotID uuid5 name src) (st_rds st) = (Inl e, r)"
    "rGetVolume c src r = (Inl (WrapVolumeError ErrVolumeNotFound src []), r')"
  shows "CreateSnapshot uuid5 d name src params st = (Inl (Status Internal), st\<lparr>st_rds := r'\<rparr>)"
proof -
  have "src \<noteq> []" using assms(2) by (auto simp: ValidateVolumeID_def)
  with assms show ?thesis by (simp add: CreateSnapshot_def Let_def WrapVolumeError_def)
qed

end
