(* ===== verification/Events.thy ===== *)
theory Events
  imports Kube
begin

text \<open>
  Kubernetes events: \<^verbatim>\<open>pkg/driver/events.go\<close>. Posting reads the claim the event is attached to and hands
  the event to the recorder; every function reports success whatever happens. Metrics and logging are
  left out, the broadcaster behind the recorder is client-go's. The texts are modelled in full, with
  the rounding and the printing of a \<^verbatim>\<open>time.Duration\<close>.
\<close>

subsection \<open>Durations as text\<close>

definition millisecond :: duration where
  "millisecond = 1000000"

text \<open>\<^verbatim>\<open>Duration.Round\<close>: half away from zero, at most the largest \<open>int64\<close>.\<close>

definition Round :: "duration \<Rightarrow> duration \<Rightarrow> duration" where
  "Round d m =
     (if m \<le> 0 then d
      else let r = \<bar>d\<bar> mod m;
               d1 = (if 2 * r < m then \<bar>d\<bar> - r else \<bar>d\<bar> + m - r)
           in if d < 0 then sat64 (- d1) else sat64 d1)"

text \<open>The last \<open>prec\<close> decimal digits of \<open>v\<close> as a fraction, without trailing zeros.\<close>

fun frac_digits :: "nat \<Rightarrow> nat \<Rightarrow> string" where
  "frac_digits 0 v = []"
| "frac_digits (Suc prec) v = frac_digits prec (v div 10) @ [digit_char (v mod 10)]"

definition fmtFrac :: "nat \<Rightarrow> nat \<Rightarrow> string" where
  "fmtFrac v prec =
     (let ds = rev (dropWhile (\<lambda>c. c = CHR ''0'') (rev (frac_digits prec v)))
      in if ds = [] then [] else CHR ''.'' # ds)"

text \<open>\<^verbatim>\<open>Duration.String\<close>; the micro sign is two bytes.\<close>

definition duration_String :: "duration \<Rightarrow> string" where
  "duration_String d =
     (let u = nat \<bar>d\<bar>;
          body = (if u = 0 then ''0s''
                  else if u < 1000 then dec_nat u @ ''ns''
                  else if u < 1000000 then dec_nat (u div 1000) @ fmtFrac u 3 @ [CHR 0xC2, CHR 0xB5, CHR ''s'']
                  else if u < 1000000000 then dec_nat (u div 1000000) @ fmtFrac u 6 @ ''ms''
                  else let s = u div 1000000000; m = s div 60; h = m div 60
                       in (if h > 0 then dec_nat h @ ''h'' else [])
                          @ (if m > 0 then dec_nat (m mod 60) @ ''m'' else [])
                          @ dec_nat (s mod 60) @ fmtFrac u 9 @ ''s'')
      in if d < 0 then CHR ''-'' # body else body)"

subsection \<open>Posting\<close>

text \<open>The common shape: read the claim, give up quietly if that fails, else record the event.\<close>

definition post_event ::
    "'k kube \<Rightarrow> string \<Rightarrow> string \<Rightarrow> string \<Rightarrow> string \<Rightarrow> string \<Rightarrow> 'k \<Rightarrow> goerr option \<times> 'k" where
  "post_event k pvcNamespace pvcName eventtype reason eventMessage w =
     (case kPVCGet k pvcNamespace pvcName w of
        (Some err, w) \<Rightarrow> (None, w)
      | (None, w) \<Rightarrow> (None, kEvent k (pvcNamespace, pvcName) eventtype reason eventMessage w))"

definition PostMountFailure ::
    "'k kube \<Rightarrow> string \<Rightarrow> string \<Rightarrow> string \<Rightarrow> string \<Rightarrow> string \<Rightarrow> 'k \<Rightarrow> goerr option \<times> 'k" where
  "PostMountFailure k pvcNamespace pvcName volumeID nodeName message =
     post_event k pvcNamespace pvcName ''Warning'' ''MountFailure''
       (''['' @ volumeID @ ''] on ['' @ nodeName @ '']: '' @ message)"

definition PostRecoveryFailed ::
    "'k kube \<Rightarrow> string \<Rightarrow> string \<Rightarrow> string \<Rightarrow> string \<Rightarrow> int \<Rightarrow> goerr \<Rightarrow> 'k \<Rightarrow> goerr option \<times> 'k" where
  "PostRecoveryFailed k pvcNamespace pvcName volumeID nodeName attemptCount finalErr =
     post_event k pvcNamespace pvcName ''Warning'' ''RecoveryFailed''
       (''['' @ volumeID @ ''] on ['' @ nodeName @ '']: Recovery failed after '' @ Itoa attemptCount
        @ '' attempts: '' @ err_msg finalErr)"

definition PostStaleMountDetected ::
    "'k kube \<Rightarrow> string \<Rightarrow> string \<Rightarrow> string \<Rightarrow> string \<Rightarrow> string \<Rightarrow> string \<Rightarrow> 'k \<Rightarrow> goerr option \<times> 'k" where
  "PostStaleMountDetected k pvcNamespace pvcName volumeID nodeName oldDevicePath newDevicePath =
     post_event k pvcNamespace pvcName ''Normal'' ''StaleMountDetected''
       (''['' @ volumeID @ ''] on ['' @ nodeName @ '']: Stale mount detected - old device: '' @ oldDevicePath
        @ '', new device: '' @ newDevicePath)"

definition PostConnectionFailure ::
    "'k kube \<Rightarrow> string \<Rightarrow> string \<Rightarrow> string \<Rightarrow> string \<Rightarrow> string \<Rightarrow> goerr \<Rightarrow> 'k \<Rightarrow> goerr option \<times> 'k" where
  "PostConnectionFailure k pvcNamespace pvcName volumeID nodeName targetAddress err =
     post_event k pvcNamespace pvcName ''Warning'' ''ConnectionFailure''
       (''['' @ volumeID @ ''] on ['' @ nodeName @ '']: Connection to '' @ targetAddress @ '' failed: '' @ err_msg err)"

definition PostConnectionRecovery ::
    "'k kube \<Rightarrow> string \<Rightarrow> string \<Rightarrow> string \<Rightarrow> string \<Rightarrow> string \<Rightarrow> int \<Rightarrow> 'k \<Rightarrow> goerr option \<times> 'k" where
  "PostConnectionRecovery k pvcNamespace pvcName volumeID nodeName targetAddress attempts =
     post_event k pvcNamespace pvcName ''Normal'' ''ConnectionRecovery''
       (''['' @ volumeID @ ''] on ['' @ nodeName @ '']: Connection to '' @ targetAddress @ '' recovered after ''
        @ Itoa attempts @ '' attempts'')"

definition PostAttachmentConflict ::
    "'k kube \<Rightarrow> string \<Rightarrow> string \<Rightarrow> string \<Rightarrow> string \<Rightarrow> string \<Rightarrow> 'k \<Rightarrow> goerr option \<times> 'k" where
  "PostAttachmentConflict k pvcNamespace pvcName volumeID requestedNode attachedNode =
     post_event k pvcNamespace pvcName ''Warning'' ''AttachmentConflict''
       (''['' @ volumeID @ '']: Attachment to node '' @ requestedNode
        @ '' rejected - volume already attached to node '' @ attachedNode @ ''. Delete the pod on ''
        @ attachedNode @ '' to release the volume.'')"

definition PostVolumeAttached ::
    "'k kube \<Rightarrow> string \<Rightarrow> string \<Rightarrow> string \<Rightarrow> string \<Rightarrow> duration \<Rightarrow> 'k \<Rightarrow> goerr option \<times> 'k" where
  "PostVolumeAttached k pvcNamespace pvcName volumeID nodeID dur =
     post_event k pvcNamespace pvcName ''Normal'' ''VolumeAttached''
       (''['' @ volumeID @ '']: Attached to node '' @ nodeID @ '' (duration: ''
        @ duration_String (Round dur millisecond) @ '')'')"

definition PostVolumeDetached ::
    "'k kube \<Rightarrow> string \<Rightarrow> string \<Rightarrow> string \<Rightarrow> string \<Rightarrow> 'k \<Rightarrow> goerr option \<times> 'k" where
  "PostVolumeDetached k pvcNamespace pvcName volumeID nodeID =
     post_event k pvcNamespace pvcName ''Normal'' ''VolumeDetached''
       (''['' @ volumeID @ '']: Detached from node '' @ nodeID)"

definition PostStaleAttachmentCleared ::
    "'k kube \<Rightarrow> string \<Rightarrow> string \<Rightarrow> string \<Rightarrow> string \<Rightarrow> 'k \<Rightarrow> goerr option \<times> 'k" where
  "PostStaleAttachmentCleared k pvcNamespace pvcName volumeID staleNodeID =
     post_event k pvcNamespace pvcName ''Normal'' ''StaleAttachmentCleared''
       (''['' @ volumeID @ '']: Cleared stale attachment from deleted node '' @ staleNodeID)"

definition PostMigrationStarted ::
    "'k kube \<Rightarrow> string \<Rightarrow> string \<Rightarrow> string \<Rightarrow> string \<Rightarrow> string \<Rightarrow> duration \<Rightarrow> 'k \<Rightarrow> goerr option \<times> 'k" where
  "PostMigrationStarted k pvcNamespace pvcName volumeID sourceNode targetNode timeout =
     post_event k pvcNamespace pvcName ''Normal'' ''MigrationStarted''
       (''['' @ volumeID @ '']: KubeVirt live migration started - source: '' @ sourceNode @ '', target: ''
        @ targetNode @ '', timeout: '' @ duration_String (Round timeout second))"

definition PostMigrationCompleted ::
    "'k kube \<Rightarrow> string \<Rightarrow> string \<Rightarrow> string \<Rightarrow> string \<Rightarrow> string \<Rightarrow> duration \<Rightarrow> 'k \<Rightarrow> goerr option \<times> 'k" where
  "PostMigrationCompleted k pvcNamespace pvcName volumeID sourceNode targetNode dur =
     post_event k pvcNamespace pvcName ''Normal'' ''MigrationCompleted''
       (''['' @ volumeID @ '']: KubeVirt live migration completed - source: '' @ sourceNode @ '' -> target: ''
        @ targetNode @ '' (duration: '' @ duration_String (Round dur second) @ '')'')"

definition PostMigrationFailed ::
    "'k kube \<Rightarrow> string \<Rightarrow> string \<Rightarrow> string \<Rightarrow> string \<Rightarrow> string \<Rightarrow> string \<Rightarrow> duration \<Rightarrow> 'k \<Rightarrow> goerr option \<times> 'k" where
  "PostMigrationFailed k pvcNamespace pvcName volumeID sourceNode targetNode reason dur =
     post_event k pvcNamespace pvcName ''Warning'' ''MigrationFailed''
       (''['' @ volumeID @ '']: KubeVirt live migration failed - source: '' @ sourceNode @ '', attempted target: ''
        @ targetNode @ '', reason: '' @ reason @ '', elapsed: '' @ duration_String (Round dur second))"

lemma post_event_nil [simp]: "fst (post_event k ns n ty r m w) = None"
  by (simp add: post_event_def split: prod.split option.split)

end
