(* ===== verification/AttachReconciler.thy ===== *)
theory AttachReconciler
  imports Attachment
begin

text \<open>
  State recovery and reconciliation of the attachment table: \<^verbatim>\<open>pkg/attachment/va_lister.go\<close>,
  \<^verbatim>\<open>rebuild.go\<close>, \<^verbatim>\<open>reconciler.go\<close> and \<^verbatim>\<open>node_watcher.go\<close>. A Go \<^verbatim>\<open>range\<close> over a map visits the keys in
  an order of its own: the loops here take the list of keys as it was visited, and the theorems hold
  for every order. The clock is an indexed sequence of readings. Events are returned as a list; a
  failing event poster changes nothing else.
\<close>

subsection \<open>VolumeAttachment objects\<close>

definition driverName :: string where
  "driverName = ''rds.csi.srvlab.io''"

definition ListDriverVolumeAttachments ::
    "'k kube \<Rightarrow> 'k \<Rightarrow> (goerr + VolumeAttachment list) \<times> 'k" where
  "ListDriverVolumeAttachments k w =
     (case kVAList k w of
        (Inl err, w) \<Rightarrow> (Inl err, w)
      | (Inr items, w) \<Rightarrow> (Inr (filter (\<lambda>va. va_Attacher va = driverName) items), w))"

definition FilterAttachedVolumeAttachments :: "VolumeAttachment list \<Rightarrow> VolumeAttachment list" where
  "FilterAttachedVolumeAttachments vas = filter va_Attached vas"

definition group_add ::
    "(string \<rightharpoonup> VolumeAttachment list) \<Rightarrow> VolumeAttachment \<Rightarrow> (string \<rightharpoonup> VolumeAttachment list)" where
  "group_add result va =
     (case va_PVName va of
        None \<Rightarrow> result
      | Some volumeID \<Rightarrow>
          if volumeID = [] then result
          else result(volumeID \<mapsto> (case result volumeID of None \<Rightarrow> [] | Some l \<Rightarrow> l) @ [va]))"

definition GroupVolumeAttachmentsByVolume ::
    "VolumeAttachment list \<Rightarrow> (string \<rightharpoonup> VolumeAttachment list)" where
  "GroupVolumeAttachmentsByVolume vas = foldl group_add Map.empty vas"

text \<open>The keys of that map, in the order in which they were first inserted.\<close>

definition group_keys :: "VolumeAttachment list \<Rightarrow> string list" where
  "group_keys vas = remdups (filter (\<lambda>v. v \<noteq> []) (List.map_filter va_PVName vas))"

subsection \<open>Rebuilding the table\<close>

definition lookupAccessMode :: "'k kube option \<Rightarrow> string \<Rightarrow> 'k \<Rightarrow> string \<times> 'k" where
  "lookupAccessMode k8sClient volumeID w =
     (case k8sClient of
        None \<Rightarrow> (''RWO'', w)
      | Some k \<Rightarrow>
          (case kPVGet k volumeID w of
             (Inl err, w) \<Rightarrow> (''RWO'', w)
           | (Inr pv, w) \<Rightarrow>
               (if list_ex (\<lambda>mode. mode = ''ReadWriteMany'') (pv_AccessModes pv) then ''RWX'' else ''RWO'', w)))"

fun first_attached :: "bool \<Rightarrow> time \<Rightarrow> VolumeAttachment list \<Rightarrow> time" where
  "first_attached isFirst t [] = t"
| "first_attached isFirst t (va # vas) =
     (let attachedAt = va_CreationTimestamp va
      in first_attached False (if isFirst \<or> attachedAt < t then attachedAt else t) vas)"

definition rebuildVolumeState ::
    "'k kube option \<Rightarrow> string \<Rightarrow> VolumeAttachment list \<Rightarrow> 'k \<Rightarrow> (goerr + AttachmentState) \<times> 'k" where
  "rebuildVolumeState k8sClient volumeID vas w =
     (if length vas = 0
      then (Inl (GoErr (''no VolumeAttachments provided for volume '' @ volumeID)), w)
      else
        (let vas = (if length vas > 2 then take 2 vas else vas);
             (accessMode, w) = lookupAccessMode k8sClient volumeID w;
             nodes = map (\<lambda>va. \<lparr>na_NodeID = va_NodeName va, na_AttachedAt = va_CreationTimestamp va\<rparr>) vas;
             state = \<lparr>VolumeID = volumeID, NodeID = na_NodeID (nodes ! 0), Nodes = nodes,
                      AttachedAt = first_attached True zero_time vas, DetachedAt = None,
                      AccessMode = accessMode, MigrationStartedAt = None, MigrationTimeout = 0\<rparr>
         in if length vas > 1
            then (let t0 = va_CreationTimestamp (vas ! 0); t1 = va_CreationTimestamp (vas ! 1);
                      migrationStartedAt = (if t0 < t1 then t0 else t1)
                  in (Inr (state\<lparr>MigrationStartedAt := Some migrationStartedAt\<rparr>), w))
            else (Inr state, w)))"

fun rebuild_loop ::
    "'k kube option \<Rightarrow> (string \<rightharpoonup> VolumeAttachment list) \<Rightarrow> string list
     \<Rightarrow> (string \<rightharpoonup> AttachmentState) \<Rightarrow> 'k \<Rightarrow> (string \<rightharpoonup> AttachmentState) \<times> 'k" where
  "rebuild_loop k8sClient vaByVolume [] atts w = (atts, w)"
| "rebuild_loop k8sClient vaByVolume (volumeID # ks) atts w =
     (case rebuildVolumeState k8sClient volumeID (the (vaByVolume volumeID)) w of
        (Inl err, w) \<Rightarrow> rebuild_loop k8sClient vaByVolume ks atts w
      | (Inr state, w) \<Rightarrow> rebuild_loop k8sClient vaByVolume ks (atts(volumeID \<mapsto> state)) w)"

definition RebuildStateFromVolumeAttachments ::
    "'k kube option \<Rightarrow> (string list \<Rightarrow> string list) \<Rightarrow> AttachmentManager \<Rightarrow> 'k
     \<Rightarrow> goerr option \<times> AttachmentManager \<times> 'k" where
  "RebuildStateFromVolumeAttachments k8sClient range_order am w =
     (case k8sClient of
        None \<Rightarrow> (None, am, w)
      | Some k \<Rightarrow>
          (case ListDriverVolumeAttachments k w of
             (Inl err, w) \<Rightarrow> (Some (wrap_err ''failed to list VolumeAttachments: '' err), am, w)
           | (Inr allVAs, w) \<Rightarrow>
               (let attachedVAs = FilterAttachedVolumeAttachments allVAs;
                    vaByVolume = GroupVolumeAttachmentsByVolume attachedVAs;
                    (atts, w) = rebuild_loop k8sClient vaByVolume (range_order (group_keys attachedVAs)) Map.empty w
                in (None, am\<lparr>attachments := atts\<rparr>, w))))"

definition RebuildState ::
    "'k kube option \<Rightarrow> (string list \<Rightarrow> string list) \<Rightarrow> AttachmentManager \<Rightarrow> 'k
     \<Rightarrow> goerr option \<times> AttachmentManager \<times> 'k" where
  "RebuildState k8sClient range_order am w = RebuildStateFromVolumeAttachments k8sClient range_order am w"

definition Initialize ::
    "'k kube option \<Rightarrow> (string list \<Rightarrow> string list) \<Rightarrow> AttachmentManager \<Rightarrow> 'k
     \<Rightarrow> goerr option \<times> AttachmentManager \<times> 'k" where
  "Initialize k8sClient range_order am w =
     (case RebuildStateFromVolumeAttachments k8sClient range_order am w of
        (Some err, am, w) \<Rightarrow> (Some (wrap_err ''failed to rebuild state from VolumeAttachments: '' err), am, w)
      | (None, am, w) \<Rightarrow> (None, am, w))"

text \<open>
  The superseded rebuild from annotations. \<open>parse_time\<close> stands for \<^verbatim>\<open>time.Parse\<close> with the RFC 3339
  layout of the annotation, \<open>clk i\<close> for the clock reading at the \<open>i\<close>-th volume.
\<close>

fun annotation_loop ::
    "(string \<Rightarrow> time option) \<Rightarrow> (nat \<Rightarrow> time) \<Rightarrow> nat \<Rightarrow> PV list
     \<Rightarrow> (string \<rightharpoonup> AttachmentState) \<Rightarrow> (string \<rightharpoonup> AttachmentState)" where
  "annotation_loop parse_time clk i [] atts = atts"
| "annotation_loop parse_time clk i (pv # pvs) atts =
     annotation_loop parse_time clk (Suc i) pvs
       (case pv_CSI pv of
          None \<Rightarrow> atts
        | Some (driver, volumeID) \<Rightarrow>
            if driver \<noteq> driverName \<or> volumeID = [] then atts
            else case pv_Annotations pv of
              None \<Rightarrow> atts
            | Some ann \<Rightarrow>
                (case ann AnnotationAttachedNode of
                   None \<Rightarrow> atts
                 | Some nodeID \<Rightarrow>
                     if nodeID = [] then atts
                     else (let attachedAt = (case ann AnnotationAttachedAt of
                                 None \<Rightarrow> clk i
                               | Some str \<Rightarrow> (case parse_time str of Some t \<Rightarrow> t | None \<Rightarrow> clk i))
                           in atts(volumeID \<mapsto> new_state attachedAt volumeID nodeID []))))"

definition RebuildStateFromAnnotations ::
    "'k kube option \<Rightarrow> (string \<Rightarrow> time option) \<Rightarrow> (nat \<Rightarrow> time) \<Rightarrow> AttachmentManager \<Rightarrow> 'k
     \<Rightarrow> goerr option \<times> AttachmentManager \<times> 'k" where
  "RebuildStateFromAnnotations k8sClient parse_time clk am w =
     (case k8sClient of
        None \<Rightarrow> (None, am, w)
      | Some k \<Rightarrow>
          (case kPVList k w of
             (Inl err, w) \<Rightarrow> (Some err, am, w)
           | (Inr pvs, w) \<Rightarrow>
               (None, am\<lparr>attachments := annotation_loop parse_time clk 0 pvs Map.empty\<rparr>, w)))"

subsection \<open>The reconciler\<close>

type_synonym stale_event = "string \<times> string \<times> string \<times> string" \<comment> \<open>namespace, claim, volume, node\<close>

definition nodeExists :: "'k kube \<Rightarrow> string \<Rightarrow> 'k \<Rightarrow> (goerr + bool) \<times> 'k" where
  "nodeExists k nodeID w = kNodeExists k nodeID w"

definition postStaleAttachmentClearedEvent ::
    "'k kube \<Rightarrow> bool \<Rightarrow> string \<Rightarrow> string \<Rightarrow> 'k \<Rightarrow> stale_event list \<times> 'k" where
  "postStaleAttachmentClearedEvent k hasPoster volumeID staleNodeID w =
     (if \<not> hasPoster then ([], w)
      else case kPVGet k volumeID w of
        (Inl err, w) \<Rightarrow> ([], w)
      | (Inr pv, w) \<Rightarrow>
          (case pv_ClaimRef pv of
             None \<Rightarrow> ([], w)
           | Some (namespace, name) \<Rightarrow> ([(namespace, name, volumeID, staleNodeID)], w)))"

text \<open>
  One pass over the volumes: \<open>atts\<close> is the copy \<^verbatim>\<open>ListAttachments\<close> made, \<open>ctxErr\<close> tells whether the
  context has been cancelled, \<open>clk (2 * i)\<close> and \<open>clk (2 * i + 1)\<close> are the clock readings in the \<open>i\<close>-th
  round.
\<close>

fun reconcile_loop ::
    "'k kube \<Rightarrow> bool \<Rightarrow> ('k \<Rightarrow> bool) \<Rightarrow> (nat \<Rightarrow> time) \<Rightarrow> duration \<Rightarrow> (string \<rightharpoonup> AttachmentState) \<Rightarrow> nat
     \<Rightarrow> string list \<Rightarrow> AttachmentManager \<Rightarrow> 'k \<Rightarrow> stale_event list \<times> AttachmentManager \<times> 'k" where
  "reconcile_loop k hasPoster ctxErr clk gracePeriod atts i [] am w = ([], am, w)"
| "reconcile_loop k hasPoster ctxErr clk gracePeriod atts i (volumeID # ks) am w =
     (if ctxErr w then ([], am, w)
      else
        (let state = the (atts volumeID);
             (res, w) = nodeExists k (NodeID state) w
         in case res of
              Inl err \<Rightarrow> reconcile_loop k hasPoster ctxErr clk gracePeriod atts (Suc i) ks am w
            | Inr True \<Rightarrow> reconcile_loop k hasPoster ctxErr clk gracePeriod atts (Suc i) ks am w
            | Inr False \<Rightarrow>
                (let detachTime = GetDetachTimestamp volumeID am
                 in if detachTime \<noteq> zero_time \<and> since (clk (2 * i)) detachTime < gracePeriod
                    then reconcile_loop k hasPoster ctxErr clk gracePeriod atts (Suc i) ks am w
                    else
                      (let staleNodeID = NodeID state;
                           (err, am, w) = UntrackAttachment (Some k) (clk (2 * i + 1)) volumeID am w
                       in case err of
                            Some _ \<Rightarrow> reconcile_loop k hasPoster ctxErr clk gracePeriod atts (Suc i) ks am w
                          | None \<Rightarrow>
                              (let (evs, w) = postStaleAttachmentClearedEvent k hasPoster volumeID staleNodeID w;
                                   (evs', am, w) = reconcile_loop k hasPoster ctxErr clk gracePeriod atts (Suc i) ks am w
                               in (evs @ evs', am, w))))))"

definition reconcile ::
    "'k kube \<Rightarrow> bool \<Rightarrow> ('k \<Rightarrow> bool) \<Rightarrow> (nat \<Rightarrow> time) \<Rightarrow> duration \<Rightarrow> string list
     \<Rightarrow> AttachmentManager \<Rightarrow> 'k \<Rightarrow> stale_event list \<times> AttachmentManager \<times> 'k" where
  "reconcile k hasPoster ctxErr clk gracePeriod visited am w =
     reconcile_loop k hasPoster ctxErr clk gracePeriod (ListAttachments am) 0 visited am w"

text \<open>
  Configuration and life cycle. Of the channels only their presence matters, and for the trigger
  channel (capacity 1) the number of pending triggers; a \<^verbatim>\<open>nil\<close> channel is \<open>None\<close>.
\<close>

record ReconcilerConfig =
  rc_Manager :: bool \<comment> \<open>the pointer is not \<^verbatim>\<open>nil\<close>\<close>
  rc_K8sClient :: bool
  rc_NodeLister :: bool
  rc_PVLister :: bool
  rc_Interval :: duration
  rc_GracePeriod :: duration

record AttachmentReconciler =
  ar_interval :: duration
  ar_gracePeriod :: duration
  ar_running :: bool \<comment> \<open>\<^verbatim>\<open>stopCh\<close> and \<^verbatim>\<open>doneCh\<close> exist\<close>
  ar_triggerCh :: "nat option"

definition NewAttachmentReconciler :: "ReconcilerConfig \<Rightarrow> goerr + AttachmentReconciler" where
  "NewAttachmentReconciler config =
     (if \<not> rc_Manager config then Inl (GoErr ''manager is required'')
      else if \<not> rc_K8sClient config then Inl (GoErr ''k8sClient is required'')
      else if \<not> rc_NodeLister config
      then Inl (GoErr ''nodeLister is required (use informer to avoid API throttling)'')
      else if \<not> rc_PVLister config
      then Inl (GoErr ''pvLister is required (use informer to avoid API throttling)'')
      else Inr \<lparr>ar_interval = (if rc_Interval config \<le> 0 then 5 * minute else rc_Interval config),
                ar_gracePeriod = (if rc_GracePeriod config \<le> 0 then 30 * second else rc_GracePeriod config),
                ar_running = False, ar_triggerCh = Some 0\<rparr>)"

definition ar_Start :: "AttachmentReconciler \<Rightarrow> goerr option \<times> AttachmentReconciler" where
  "ar_Start r =
     (if ar_running r then (Some (GoErr ''reconciler already running''), r)
      else (None, r\<lparr>ar_running := True\<rparr>))"

definition ar_Stop :: "AttachmentReconciler \<Rightarrow> AttachmentReconciler" where
  "ar_Stop r = (if \<not> ar_running r then r else r\<lparr>ar_running := False, ar_triggerCh := None\<rparr>)"

definition TriggerReconcile :: "AttachmentReconciler \<Rightarrow> AttachmentReconciler" where
  "TriggerReconcile r =
     (case ar_triggerCh r of
        None \<Rightarrow> r
      | Some pending \<Rightarrow> if pending < 1 then r\<lparr>ar_triggerCh := Some (Suc pending)\<rparr> else r)"

definition GetGracePeriod :: "AttachmentReconciler \<Rightarrow> duration" where
  "GetGracePeriod r = ar_gracePeriod r"

text \<open>What the select statement of \<^verbatim>\<open>run\<close> can receive, and what it does with it.\<close>

datatype wakeup = Tick | Trigger | StopSignal | CtxDone

definition run_enabled :: "AttachmentReconciler \<Rightarrow> wakeup \<Rightarrow> bool" where
  "run_enabled r e \<longleftrightarrow> (e = Trigger \<longrightarrow> (\<exists>n. ar_triggerCh r = Some (Suc n)))"

definition run_receive :: "wakeup \<Rightarrow> AttachmentReconciler \<Rightarrow> bool \<times> AttachmentReconciler" where
  "run_receive e r =
     (case e of
        Tick \<Rightarrow> (True, r)
      | Trigger \<Rightarrow> (True, r\<lparr>ar_triggerCh := map_option (\<lambda>n. n - 1) (ar_triggerCh r)\<rparr>)
      | StopSignal \<Rightarrow> (False, r)
      | CtxDone \<Rightarrow> (False, r))"

subsection \<open>Node events\<close>

record Node =
  nd_Name :: string
  nd_Conditions :: "(string \<times> string) list" \<comment> \<open>type and status\<close>

datatype watch_obj = NodeObj Node | Tombstone "Node option" | OtherObj

fun isNodeReady_conds :: "(string \<times> string) list \<Rightarrow> bool" where
  "isNodeReady_conds [] = False"
| "isNodeReady_conds ((ty, status) # cs) =
     (if ty = ''Ready'' then status = ''True'' else isNodeReady_conds cs)"

definition isNodeReady :: "Node \<Rightarrow> bool" where
  "isNodeReady node = isNodeReady_conds (nd_Conditions node)"

definition AddFunc :: "watch_obj \<Rightarrow> AttachmentReconciler \<Rightarrow> AttachmentReconciler" where
  "AddFunc obj r = r"

definition UpdateFunc :: "watch_obj \<Rightarrow> watch_obj \<Rightarrow> AttachmentReconciler \<Rightarrow> AttachmentReconciler" where
  "UpdateFunc oldObj newObj r =
     (case oldObj of
        NodeObj oldNode \<Rightarrow>
          (case newObj of
             NodeObj newNode \<Rightarrow> if isNodeReady oldNode \<and> \<not> isNodeReady newNode then TriggerReconcile r else r
           | _ \<Rightarrow> r)
      | _ \<Rightarrow> r)"

definition DeleteFunc :: "watch_obj \<Rightarrow> AttachmentReconciler \<Rightarrow> AttachmentReconciler" where
  "DeleteFunc obj r =
     (case obj of
        NodeObj node \<Rightarrow> TriggerReconcile r
      | Tombstone (Some node) \<Rightarrow> TriggerReconcile r
      | Tombstone None \<Rightarrow> r
      | OtherObj \<Rightarrow> r)"

subsection \<open>What the rebuild produces\<close>

text \<open>The attached objects of the driver that name a volume, in the order of the list.\<close>

definition va_for :: "string \<Rightarrow> VolumeAttachment \<Rightarrow> bool" where
  "va_for v va \<longleftrightarrow> va_Attacher va = driverName \<and> va_Attached va \<and> va_PVName va = Some v"

lemma foldl_group_add:
  "foldl group_add m vas v =
     (if v = [] \<or> filter (\<lambda>va. va_PVName va = Some v) vas = [] then m v
      else Some ((case m v of None \<Rightarrow> [] | Some l \<Rightarrow> l) @ filter (\<lambda>va. va_PVName va = Some v) vas))"
  by (induction vas arbitrary: m) (auto simp: group_add_def split: option.splits)

lemma GroupVolumeAttachmentsByVolume_lookup:
  "GroupVolumeAttachmentsByVolume vas v =
     (if v = [] \<or> filter (\<lambda>va. va_PVName va = Some v) vas = [] then None
      else Some (filter (\<lambda>va. va_PVName va = Some v) vas))"
  by (simp add: GroupVolumeAttachmentsByVolume_def foldl_group_add)

lemma set_group_keys: "v \<in> set (group_keys vas) \<longleftrightarrow> GroupVolumeAttachmentsByVolume vas v \<noteq> None"
  by (force simp: group_keys_def GroupVolumeAttachmentsByVolume_lookup List.map_filter_def filter_empty_conv)

lemma rebuildVolumeState_Inr:
  assumes "vas \<noteq> []"
  obtains s w' where "rebuildVolumeState k v vas w = (Inr s, w')" "VolumeID s = v"
    "map na_NodeID (Nodes s) = map va_NodeName (take 2 vas)"
    "NodeID s = va_NodeName (hd vas)" "DetachedAt s = None"
    "MigrationStartedAt s \<noteq> None \<longleftrightarrow> length vas > 1" "MigrationTimeout s = 0"
proof -
  obtain m w' where m: "lookupAccessMode k v w = (m, w')" by fastforce
  show ?thesis
  proof (cases vas rule: remdups_adj.cases)
    case 1
    with assms show ?thesis by simp
  next
    case (2 x)
    let ?s = "\<lparr>VolumeID = v, NodeID = va_NodeName x,
      Nodes = [\<lparr>na_NodeID = va_NodeName x, na_AttachedAt = va_CreationTimestamp x\<rparr>],
      AttachedAt = va_CreationTimestamp x, DetachedAt = None, AccessMode = m,
      MigrationStartedAt = None, MigrationTimeout = 0\<rparr>"
    have "rebuildVolumeState k v vas w = (Inr ?s, w')"
      by (simp add: 2 rebuildVolumeState_def m)
    then show ?thesis by (rule that) (simp_all add: 2)
  next
    case (3 x y xs)
    have t: "(if length (x # y # xs) > 2 then take 2 (x # y # xs) else x # y # xs) = [x, y]"
      by (cases xs) auto
    let ?t = "va_CreationTimestamp x" and ?u = "va_CreationTimestamp y"
    let ?s = "\<lparr>VolumeID = v, NodeID = va_NodeName x,
      Nodes = [\<lparr>na_NodeID = va_NodeName x, na_AttachedAt = ?t\<rparr>, \<lparr>na_NodeID = va_NodeName y, na_AttachedAt = ?u\<rparr>],
      AttachedAt = (if ?u < ?t then ?u else ?t), DetachedAt = None, AccessMode = m,
      MigrationStartedAt = Some (if ?t < ?u then ?t else ?u), MigrationTimeout = 0\<rparr>"
    have "rebuildVolumeState k v vas w = (Inr ?s, w')"
      unfolding 3 rebuildVolumeState_def t by (simp add: m Let_def)
    then show ?thesis by (rule that) (simp_all add: 3)
  qed
qed

lemma rebuild_loop_lookup:
  assumes "\<And>v. v \<in> set ks \<Longrightarrow> \<exists>l. m v = Some l \<and> l \<noteq> []"
  shows "(v \<notin> set ks \<longrightarrow> fst (rebuild_loop k m ks atts w) v = atts v) \<and>
    (v \<in> set ks \<longrightarrow> (\<exists>s. fst (rebuild_loop k m ks atts w) v = Some s \<and> VolumeID s = v \<and>
      map na_NodeID (Nodes s) = map va_NodeName (take 2 (the (m v))) \<and>
      NodeID s = va_NodeName (hd (the (m v))) \<and> DetachedAt s = None \<and>
      (MigrationStartedAt s \<noteq> None \<longleftrightarrow> length (the (m v)) > 1) \<and> MigrationTimeout s = 0))"
  using assms
proof (induction ks arbitrary: atts w)
  case Nil
  then show ?case by simp
next
  case (Cons u ks)
  obtain l where l: "m u = Some l" "l \<noteq> []" using Cons.prems [of u] by auto
  obtain s w' where s: "rebuildVolumeState k u l w = (Inr s, w')" "VolumeID s = u"
    "map na_NodeID (Nodes s) = map va_NodeName (take 2 l)"
    "NodeID s = va_NodeName (hd l)" "DetachedAt s = None"
    "MigrationStartedAt s \<noteq> None \<longleftrightarrow> length l > 1" "MigrationTimeout s = 0"
    using l(2) by (rule rebuildVolumeState_Inr)
  from Cons.prems have "\<And>v. v \<in> set ks \<Longrightarrow> \<exists>l. m v = Some l \<and> l \<noteq> []" by simp
  note IH = Cons.IH [OF this, of "atts(u \<mapsto> s)" w']
  have step: "rebuild_loop k m (u # ks) atts w = rebuild_loop k m ks (atts(u \<mapsto> s)) w'"
    by (simp add: l s(1))
  show ?case
  proof (cases "v \<in> set ks")
    case True
    then have "v \<in> set (u # ks)" by simp
    with True IH show ?thesis unfolding step by blast
  next
    case False
    with IH have e: "fst (rebuild_loop k m ks (atts(u \<mapsto> s)) w') v = (atts(u \<mapsto> s)) v" by blast
    show ?thesis
    proof (cases "v = u")
      case True
      then have "fst (rebuild_loop k m (u # ks) atts w) v = Some s" "the (m v) = l" "VolumeID s = v"
        unfolding step e using l(1) s(2) by simp_all
      with True s(3-) show ?thesis by (intro conjI impI exI [of _ s]) simp_all
    next
      case neq: False
      with False show ?thesis unfolding step e by simp
    qed
  qed
qed

lemma Rebuild_entries:
  assumes r: "RebuildStateFromVolumeAttachments (Some k) ord am w = (None, am', w')"
    and l: "kVAList k w = (Inr items, w1)"
    and ord: "\<And>ks. set (ord ks) = set ks"
    and v: "v \<noteq> []"
  shows "(filter (va_for v) items = [] \<and> attachments am' v = None) \<or>
    (\<exists>s. attachments am' v = Some s \<and> filter (va_for v) items \<noteq> [] \<and> VolumeID s = v \<and>
      map na_NodeID (Nodes s) = map va_NodeName (take 2 (filter (va_for v) items)) \<and>
      NodeID s = va_NodeName (hd (filter (va_for v) items)) \<and> DetachedAt s = None \<and>
      (MigrationStartedAt s \<noteq> None \<longleftrightarrow> length (filter (va_for v) items) > 1) \<and> MigrationTimeout s = 0)"
    and "attachments am' [] = None" and "detachTimestamps am' = detachTimestamps am"
proof -
  let ?vas = "FilterAttachedVolumeAttachments (filter (\<lambda>va. va_Attacher va = driverName) items)"
  let ?m = "GroupVolumeAttachmentsByVolume ?vas"
  let ?ks = "ord (group_keys ?vas)"
  have am': "am' = am\<lparr>attachments := fst (rebuild_loop (Some k) ?m ?ks Map.empty w1)\<rparr>"
    using r l by (auto simp: RebuildStateFromVolumeAttachments_def ListDriverVolumeAttachments_def Let_def
        split: prod.splits)
  have f: "filter (\<lambda>va. va_PVName va = Some u) ?vas = filter (va_for u) items" for u
    by (auto simp: FilterAttachedVolumeAttachments_def va_for_def intro!: filter_cong)
  have m: "?m u = (if u = [] \<or> filter (va_for u) items = [] then None else Some (filter (va_for u) items))" for u
    by (simp only: GroupVolumeAttachmentsByVolume_lookup f)
  have ks: "u \<in> set ?ks \<longleftrightarrow> ?m u \<noteq> None" for u
    using ord by (simp add: set_group_keys)
  have d: "\<exists>l. ?m u = Some l \<and> l \<noteq> []" if "u \<in> set ?ks" for u
    using that unfolding ks m by (auto split: if_splits)
  note L = rebuild_loop_lookup [of ?ks ?m _ "Some k" Map.empty w1, OF d]
  show "attachments am' [] = None" using L [of "[]"] ks [of "[]"] by (simp add: am' m)
  show "detachTimestamps am' = detachTimestamps am" by (simp add: am')
  show "(filter (va_for v) items = [] \<and> attachments am' v = None) \<or>
    (\<exists>s. attachments am' v = Some s \<and> filter (va_for v) items \<noteq> [] \<and> VolumeID s = v \<and>
      map na_NodeID (Nodes s) = map va_NodeName (take 2 (filter (va_for v) items)) \<and>
      NodeID s = va_NodeName (hd (filter (va_for v) items)) \<and> DetachedAt s = None \<and>
      (MigrationStartedAt s \<noteq> None \<longleftrightarrow> length (filter (va_for v) items) > 1) \<and> MigrationTimeout s = 0)"
  proof (cases "filter (va_for v) items = []")
    case True
    with L [of v] ks [of v] show ?thesis by (simp add: am' m)
  next
    case False
    then have mv: "?m v = Some (filter (va_for v) items)" using v by (simp add: m)
    then have "v \<in> set ?ks" unfolding ks by simp
    with L [of v] mv False show ?thesis by (auto simp: am')
  qed
qed

lemma Rebuild_am_ok:
  assumes r: "RebuildStateFromVolumeAttachments (Some k) ord am w = (None, am', w')"
    and l: "kVAList k w = (Inr items, w1)"
    and ord: "\<And>ks. set (ord ks) = set ks"
    and d: "\<And>v. distinct (map va_NodeName (filter (va_for v) items))"
  shows "am_ok am' \<and> am_migrations am'"
proof -
  have "entry_ok v s \<and> entry_migration s" if s: "attachments am' v = Some s" for v s
  proof -
    from s Rebuild_entries(2) [OF r l ord] have v: "v \<noteq> []" by fastforce
    let ?f = "filter (va_for v) items"
    from Rebuild_entries(1) [OF r l ord v] s
    have f: "?f \<noteq> []" "VolumeID s = v" "map na_NodeID (Nodes s) = map va_NodeName (take 2 ?f)"
      "NodeID s = va_NodeName (hd ?f)" "DetachedAt s = None"
      "MigrationStartedAt s \<noteq> None \<longleftrightarrow> length ?f > 1" "MigrationTimeout s = 0" by auto
    have len: "length (Nodes s) = min 2 (length ?f)"
      using arg_cong [OF f(3), of length] by simp
    moreover have "distinct (map na_NodeID (Nodes s))"
      unfolding f(3) take_map [symmetric] by (rule distinct_take) (rule d)
    moreover have "NodeID s = na_NodeID (hd (Nodes s))"
    proof -
      have "hd (map na_NodeID (Nodes s)) = hd (map va_NodeName (take 2 ?f))" using f(3) by simp
      moreover have "Nodes s \<noteq> []" "take 2 ?f \<noteq> []" using f(1,3) by auto
      ultimately show ?thesis using f(1,4) by (simp add: hd_map hd_take)
    qed
    moreover have "Nodes s \<noteq> []" using f(1,3) by auto
    ultimately show ?thesis using f by (auto simp: entry_ok_def entry_migration_def min_def split: if_splits)
  qed
  then show ?thesis by (simp add: am_ok_def am_migrations_def)
qed

subsection \<open>What a reconciliation pass does\<close>

text \<open>The effect of one round on the table and the cluster.\<close>

definition reconcile_one ::
    "'k kube \<Rightarrow> bool \<Rightarrow> (nat \<Rightarrow> time) \<Rightarrow> duration \<Rightarrow> (string \<rightharpoonup> AttachmentState) \<Rightarrow> nat
     \<Rightarrow> string \<Rightarrow> AttachmentManager \<Rightarrow> 'k \<Rightarrow> AttachmentManager \<times> 'k" where
  "reconcile_one k p clk g atts i u am w =
     (case nodeExists k (NodeID (the (atts u))) w of
        (Inr False, w1) \<Rightarrow>
          if GetDetachTimestamp u am \<noteq> zero_time \<and> since (clk (2 * i)) (GetDetachTimestamp u am) < g then (am, w1)
          else (case UntrackAttachment (Some k) (clk (2 * i + 1)) u am w1 of (_, am2, w2) \<Rightarrow>
                  (am2, snd (postStaleAttachmentClearedEvent k p u (NodeID (the (atts u))) w2)))
      | (_, w1) \<Rightarrow> (am, w1))"

lemma reconcile_loop_step:
  "snd (reconcile_loop k p c clk g atts i (u # ks) am w) =
     (if c w then (am, w)
      else (case reconcile_one k p clk g atts i u am w of (am1, w1) \<Rightarrow>
              snd (reconcile_loop k p c clk g atts (Suc i) ks am1 w1)))"
proof (cases "c w")
  case True
  then show ?thesis by simp
next
  case False
  obtain res w1 where r: "nodeExists k (NodeID (the (atts u))) w = (res, w1)" by fastforce
  obtain err am2 w2 where u: "UntrackAttachment (Some k) (clk (2 * i + 1)) u am w1 = (err, am2, w2)"
    by (cases "UntrackAttachment (Some k) (clk (2 * i + 1)) u am w1")
  have "err = None" using Untrack_err [of "Some k" "clk (2 * i + 1)" u am w1] unfolding u by simp
  with False r u show ?thesis
    by (simp add: reconcile_one_def Let_def split: sum.split bool.split prod.split)
qed

declare reconcile_loop.simps(2) [simp del]

lemma reconcile_one_am:
  "fst (reconcile_one k p clk g atts i u am w) \<in> {am, fst (snd (UntrackAttachment (Some k) (clk (2 * i + 1)) u am (snd (nodeExists k (NodeID (the (atts u))) w))))}"
  by (auto simp: reconcile_one_def split: sum.splits bool.splits prod.splits)

lemma reconcile_one_kept:
  assumes "v \<noteq> u \<or> fst (kNodeExists k (NodeID (the (atts v))) w) \<noteq> Inr False"
  shows "attachments (fst (reconcile_one k p clk g atts i u am w)) v = attachments am v"
proof (cases "v = u")
  case True
  with assms show ?thesis
    by (auto simp: reconcile_one_def nodeExists_def split: sum.splits bool.splits prod.splits)
next
  case False
  then show ?thesis using reconcile_one_am [of k p clk g atts i u am w]
    by (auto simp: Untrack_am)
qed

lemma reconcile_loop_kept:
  assumes "\<And>w. fst (kNodeExists k (NodeID (the (atts v))) w) \<noteq> Inr False"
  shows "attachments (fst (snd (reconcile_loop k p c clk g atts i ks am w))) v = attachments am v"
proof (induction ks arbitrary: i am w)
  case Nil
  then show ?case by simp
next
  case (Cons u ks)
  show ?case
    using Cons.IH reconcile_one_kept [of v u k atts w p clk g i am] assms
    by (auto simp: reconcile_loop_step split: prod.splits)
qed

lemma reconcile_one_recent:
  assumes "detachTimestamps am v = Some t" "t \<noteq> zero_time" "\<And>j. since (clk j) t < g"
  shows "attachments (fst (reconcile_one k p clk g atts i u am w)) v = attachments am v \<and>
    detachTimestamps (fst (reconcile_one k p clk g atts i u am w)) v = Some t"
proof (cases "v = u")
  case True
  with assms show ?thesis
    by (auto simp: reconcile_one_def GetDetachTimestamp_def split: sum.splits bool.splits prod.splits)
next
  case False
  with assms(1) show ?thesis using reconcile_one_am [of k p clk g atts i u am w]
    by (auto simp: Untrack_am)
qed

lemma reconcile_loop_recent:
  assumes "detachTimestamps am v = Some t" "t \<noteq> zero_time" "\<And>j. since (clk j) t < g"
  shows "attachments (fst (snd (reconcile_loop k p c clk g atts i ks am w))) v = attachments am v"
  using assms(1)
proof (induction ks arbitrary: i am w)
  case Nil
  then show ?case by simp
next
  case (Cons u ks)
  show ?case
    using Cons.IH reconcile_one_recent [OF Cons.prems assms(2), of clk g k p atts i u w] assms(3) Cons.prems
    by (auto simp: reconcile_loop_step split: prod.splits)
qed

lemma reconcile_loop_other:
  assumes "v \<notin> set ks"
  shows "attachments (fst (snd (reconcile_loop k p c clk g atts i ks am w))) v = attachments am v \<and>
    detachTimestamps (fst (snd (reconcile_loop k p c clk g atts i ks am w))) v = detachTimestamps am v"
  using assms
proof (induction ks arbitrary: i am w)
  case Nil
  then show ?case by simp
next
  case (Cons u ks)
  obtain am1 w1 where o: "reconcile_one k p clk g atts i u am w = (am1, w1)" by fastforce
  have "attachments am1 v = attachments am v \<and> detachTimestamps am1 v = detachTimestamps am v"
    using reconcile_one_am [of k p clk g atts i u am w] Cons.prems by (auto simp: o Untrack_am)
  with Cons.IH [of "Suc i" am1 w1] Cons.prems show ?case by (simp add: reconcile_loop_step o)
qed

lemma reconcile_loop_cleared:
  assumes "v \<in> set ks" "distinct ks" "\<And>w. \<not> c w" "\<And>t j. detachTimestamps am v = Some t \<Longrightarrow> g \<le> since (clk j) t"
    and gone: "\<And>w. fst (kNodeExists k (NodeID (the (atts v))) w) = Inr False"
  shows "attachments (fst (snd (reconcile_loop k p c clk g atts i ks am w))) v = None"
  using assms(1,2,4)
proof (induction ks arbitrary: i am w)
  case Nil
  then show ?case by simp
next
  case (Cons u ks)
  obtain am1 w1 where o: "reconcile_one k p clk g atts i u am w = (am1, w1)" by fastforce
  have step: "snd (reconcile_loop k p c clk g atts i (u # ks) am w) =
      snd (reconcile_loop k p c clk g atts (Suc i) ks am1 w1)"
    using assms(3) by (simp add: reconcile_loop_step o)
  show ?case
  proof (cases "u = v")
    case True
    have "attachments am1 v = None"
    proof -
      obtain w2 where "kNodeExists k (NodeID (the (atts v))) w = (Inr False, w2)"
        using gone [of w] by (metis fst_conv surj_pair)
      moreover have "\<not> (GetDetachTimestamp v am \<noteq> zero_time \<and> since (clk (2 * i)) (GetDetachTimestamp v am) < g)"
        using Cons.prems(3) [of _ "2 * i"] by (auto simp: GetDetachTimestamp_def not_less split: option.splits)
      ultimately have "am1 = fst (snd (UntrackAttachment (Some k) (clk (2 * i + 1)) v am w2))"
        using o True by (auto simp: reconcile_one_def nodeExists_def split: prod.splits)
      then show ?thesis by (simp add: Untrack_am)
    qed
    moreover have "v \<notin> set ks" using Cons.prems(2) True by simp
    ultimately show ?thesis unfolding step by (simp add: reconcile_loop_other)
  next
    case False
    have "detachTimestamps am1 v = detachTimestamps am v"
      using reconcile_one_am [of k p clk g atts i u am w] False by (auto simp: o Untrack_am)
    with Cons.prems False show ?thesis unfolding step by (intro Cons.IH) auto
  qed
qed

lemma reconcile_one_ok:
  assumes "am_ok am" "am_migrations am"
  shows "am_ok (fst (reconcile_one k p clk g atts i u am w)) \<and>
    am_migrations (fst (reconcile_one k p clk g atts i u am w))"
  using reconcile_one_am [of k p clk g atts i u am w] assms by (auto intro: inv_intros)

lemma reconcile_loop_ok:
  assumes "am_ok am" "am_migrations am"
  shows "am_ok (fst (snd (reconcile_loop k p c clk g atts i ks am w))) \<and>
    am_migrations (fst (snd (reconcile_loop k p c clk g atts i ks am w)))"
  using assms
proof (induction ks arbitrary: i am w)
  case Nil
  then show ?case by simp
next
  case (Cons u ks)
  obtain am1 w1 where o: "reconcile_one k p clk g atts i u am w = (am1, w1)" by fastforce
  with reconcile_one_ok [OF Cons.prems, of k p clk g atts i u w] Cons.IH [of am1 "Suc i" w1] Cons.prems
  show ?case by (auto simp: reconcile_loop_step o)
qed

lemma reconcile_ok [inv_intros]:
  assumes "am_ok am" "am_migrations am"
  shows "am_ok (fst (snd (reconcile k p c clk g ks am w)))"
    "am_migrations (fst (snd (reconcile k p c clk g ks am w)))"
  by (simp_all add: reconcile_def reconcile_loop_ok assms)

subsection \<open>Triggers\<close>

definition trigger_ok :: "AttachmentReconciler \<Rightarrow> bool" where
  "trigger_ok r \<longleftrightarrow> (\<forall>n. ar_triggerCh r = Some n \<longrightarrow> n \<le> 1)"

lemma trigger_ok_intros [inv_intros]:
  "NewAttachmentReconciler cfg = Inr r \<Longrightarrow> trigger_ok r"
  "trigger_ok r \<Longrightarrow> trigger_ok (snd (ar_Start r))"
  "trigger_ok r \<Longrightarrow> trigger_ok (ar_Stop r)"
  "trigger_ok r \<Longrightarrow> trigger_ok (TriggerReconcile r)"
  "trigger_ok r \<Longrightarrow> trigger_ok (UpdateFunc a b r)"
  "trigger_ok r \<Longrightarrow> trigger_ok (DeleteFunc a r)"
  "trigger_ok r \<Longrightarrow> trigger_ok (snd (run_receive e r))"
  by (auto simp: trigger_ok_def NewAttachmentReconciler_def ar_Start_def ar_Stop_def TriggerReconcile_def
      UpdateFunc_def DeleteFunc_def run_receive_def split: if_splits option.splits watch_obj.splits wakeup.splits)

text \<open>After \<^verbatim>\<open>Stop\<close> the reconciler can be started again, but it never sees a trigger any more.\<close>

lemma restart_loses_triggers:
  assumes "ar_running r"
  shows "fst (ar_Start (ar_Stop r)) = None \<and>
    \<not> run_enabled (TriggerReconcile (snd (ar_Start (ar_Stop r)))) Trigger"
  using assms by (simp add: ar_Start_def ar_Stop_def TriggerReconcile_def run_enabled_def)

subsection \<open>Properties\<close>

text \<open>C15. A successful rebuild makes the table agree with the cluster: whatever the order in which the
  volumes are visited, the nodes of a volume are those of the first two attached VolumeAttachment
  objects of this driver that name it, in list order, and a volume named by none is untracked. If no
  two of these objects bind the same volume to the same node, the rebuilt table is well-formed. Detach
  times survive.\<close>

theorem rebuild_agrees_with_cluster:
  assumes "RebuildStateFromVolumeAttachments (Some k) range_order am w = (None, am', w')"
    and "kVAList k w = (Inr items, w1)"
    and "\<And>ks. set (range_order ks) = set ks"
    and "v \<noteq> []"
  shows "nodes_of am' v = map va_NodeName (take 2 (filter (va_for v) items)) \<and>
    (attachments am' v = None \<longleftrightarrow> \<not> list_ex (va_for v) items) \<and>
    detachTimestamps am' = detachTimestamps am \<and>
    ((\<forall>u. distinct (map va_NodeName (filter (va_for u) items))) \<longrightarrow> am_ok am' \<and> am_migrations am')"
proof -
  have e: "\<not> list_ex (va_for v) items \<longleftrightarrow> filter (va_for v) items = []"
    by (auto simp: list_ex_iff filter_empty_conv)
  show ?thesis
    using Rebuild_entries [OF assms] Rebuild_am_ok [OF assms(1-3)] unfolding e
    by (auto simp: nodes_of_def)
qed

theorem rebuild_agrees_with_cluster_witness:
  "\<exists>am'. RebuildStateFromVolumeAttachments
       (Some \<lparr>kPVGet = \<lambda>_ w. (Inl (GoErr ''x''), w), kPVUpdate = \<lambda>_ w. (None, w), kPVList = \<lambda>w. (Inr [], w),
          kVAList = \<lambda>w. (Inr [\<lparr>va_Name = ''va'', va_Attacher = driverName, va_PVName = Some ''v'', va_NodeName = ''a'',
             va_Attached = True, va_CreationTimestamp = 7\<rparr>], w), kNodeExists = \<lambda>_ w. (Inr True, w),
          kRetryOnConflict = \<lambda>f w. f w, kNowStamp = \<lambda>_. [], kPVCGet = \<lambda>_ _ w. (None, w), kEvent = \<lambda>_ _ _ _ w. w\<rparr>) (\<lambda>ks. ks) NewAttachmentManager () = (None, am', ()) \<and>
     nodes_of am' ''v'' = [''a'']"
    (is "\<exists>am'. RebuildStateFromVolumeAttachments (Some ?k) _ _ _ = _ \<and> _")
proof -
  obtain am' where r: "RebuildStateFromVolumeAttachments (Some ?k) (\<lambda>ks. ks) NewAttachmentManager () = (None, am', ())"
    by (auto simp: RebuildStateFromVolumeAttachments_def ListDriverVolumeAttachments_def case_prod_beta Let_def)
  have "nodes_of am' ''v'' = [''a'']"
    using rebuild_agrees_with_cluster [OF r, of _ _ "''v''"] by (simp add: va_for_def)
  with r show ?thesis by blast
qed

text \<open>C16. A reconciliation pass fails open. A volume whose primary node the cluster finds, or cannot look up, keeps its
  entry, and so does a volume whose recorded detach is within the grace period throughout the pass, whatever the clock, the
  order of the visit and the moment the context is cancelled. A volume attached to one node only is untracked when every
  lookup of that node says that it does not exist, no recorded detach is within the grace period at any reading of
  the clock, the context stays alive and the pass visits every tracked volume once.\<close>

theorem reconcile_fails_open:
  assumes "attachments am v = Some s"
  shows "((\<forall>w. fst (kNodeExists k (NodeID s) w) \<noteq> Inr False) \<or>
        (\<exists>t. detachTimestamps am v = Some t \<and> t \<noteq> zero_time \<and> (\<forall>j. since (clk j) t < g)) \<longrightarrow>
       attachments (fst (snd (reconcile k p c clk g visited am w0))) v = Some s) \<and>
    (nodes_of am v = [NodeID s] \<and> (\<forall>w. fst (kNodeExists k (NodeID s) w) = Inr False) \<and> (\<forall>w. \<not> c w) \<and>
        (\<forall>t j. detachTimestamps am v = Some t \<longrightarrow> g \<le> since (clk j) t) \<and>
        set visited = dom (attachments am) \<and> distinct visited \<longrightarrow>
       attachments (fst (snd (reconcile k p c clk g visited am w0))) v = None)"
proof (intro conjI impI; (elim disjE conjE exE)?)
  show "attachments (fst (snd (reconcile k p c clk g visited am w0))) v = Some s"
    if "\<forall>w. fst (kNodeExists k (NodeID s) w) \<noteq> Inr False"
    using that assms reconcile_loop_kept [of k "attachments am" v p c clk g 0 visited am w0]
    by (simp add: reconcile_def ListAttachments_def)
  show "attachments (fst (snd (reconcile k p c clk g visited am w0))) v = Some s"
    if "detachTimestamps am v = Some t" "t \<noteq> zero_time" "\<forall>j. since (clk j) t < g" for t
    using reconcile_loop_recent [OF that(1,2), of clk g k p c "attachments am" 0 visited w0] that(3) assms
    by (simp add: reconcile_def ListAttachments_def)
  show "attachments (fst (snd (reconcile k p c clk g visited am w0))) v = None"
    if "\<forall>w. fst (kNodeExists k (NodeID s) w) = Inr False" "\<forall>w. \<not> c w"
      "\<forall>t j. detachTimestamps am v = Some t \<longrightarrow> g \<le> since (clk j) t" "set visited = dom (attachments am)" "distinct visited"
    unfolding reconcile_def ListAttachments_def using that assms by (intro reconcile_loop_cleared) auto
qed

theorem reconcile_fails_open_witness:
  "attachments (fst (snd (reconcile
      \<lparr>kPVGet = \<lambda>_ w. (Inl (GoErr ''x''), w), kPVUpdate = \<lambda>_ w. (None, w), kPVList = \<lambda>w. (Inr [], w),
       kVAList = \<lambda>w. (Inr [], w), kNodeExists = \<lambda>_ w. (Inr False, w), kRetryOnConflict = \<lambda>f w. f w, kNowStamp = \<lambda>_. [], kPVCGet = \<lambda>_ _ w. (None, w), kEvent = \<lambda>_ _ _ _ w. w\<rparr>
      False (\<lambda>_. False) (\<lambda>_. 0) 30 [''v'']
      (fst (am_run (None :: unit kube option) [CTrack 0 ''v'' ''a'' ''RWO''] (NewAttachmentManager, ()))) ()))) ''v'' = None"
    (is "attachments (fst (snd (reconcile ?k _ _ _ _ _ ?am _))) _ = _")
proof -
  have s: "attachments ?am ''v'' = Some (new_state 0 ''v'' ''a'' ''RWO'')"
    "dom (attachments ?am) = {''v''}" "detachTimestamps ?am ''v'' = None" "nodes_of ?am ''v'' = [''a'']"
    by (auto simp: am_defs persistAttachment_def nodes_of_def)
  then show ?thesis
    using reconcile_fails_open [OF s(1), of ?k "\<lambda>_. 0" 30 False "\<lambda>_. False" "[''v'']" "()"] by (simp add: new_state_def)
qed

text \<open>At most one trigger is ever pending, a deleted node (also one reported through a tombstone)
  and a node that turns not ready leave a trigger pending on a live channel, and every other update
  leaves the reconciler as it was.\<close>

theorem node_events_trigger:
  assumes "ar_triggerCh r = Some n" and "n \<le> 1"
  shows "ar_triggerCh (DeleteFunc (NodeObj nd) r) = Some 1 \<and> ar_triggerCh (DeleteFunc (Tombstone (Some nd)) r) = Some 1 \<and>
    UpdateFunc (NodeObj a) (NodeObj b) r =
      (if isNodeReady a \<and> \<not> isNodeReady b then r\<lparr>ar_triggerCh := Some 1\<rparr> else r) \<and>
    TriggerReconcile (TriggerReconcile r) = TriggerReconcile r"
proof -
  have "TriggerReconcile r = r\<lparr>ar_triggerCh := Some 1\<rparr>"
    using assms by (cases n) (auto simp: TriggerReconcile_def)
  then show ?thesis
    by (auto simp: DeleteFunc_def UpdateFunc_def TriggerReconcile_def)
qed

theorem node_events_trigger_witness:
  "ar_triggerCh (DeleteFunc (NodeObj \<lparr>nd_Name = ''n'', nd_Conditions = []\<rparr>)
     \<lparr>ar_interval = 1, ar_gracePeriod = 1, ar_running = True, ar_triggerCh = Some 0\<rparr>) = Some 1"
  using node_events_trigger [of "\<lparr>ar_interval = 1, ar_gracePeriod = 1, ar_running = True, ar_triggerCh = Some 0\<rparr>" 0]
  by simp

text \<open>Only the primary node is looked at: a volume whose migration target is alive is untracked when
  the source node is deleted.\<close>

lemma reconcile_drops_live_secondary:
  "nodes_of (fst (snd (reconcile
      \<lparr>kPVGet = \<lambda>_ w. (Inl (GoErr ''x''), w), kPVUpdate = \<lambda>_ w. (None, w), kPVList = \<lambda>w. (Inr [], w),
       kVAList = \<lambda>w. (Inr [], w), kNodeExists = \<lambda>n w. (Inr (n = ''b''), w), kRetryOnConflict = \<lambda>f w. f w, kNowStamp = \<lambda>_. [], kPVCGet = \<lambda>_ _ w. (None, w), kEvent = \<lambda>_ _ _ _ w. w\<rparr>
      False (\<lambda>_. False) (\<lambda>_. 0) 30 [''v'']
      (fst (am_run (None :: unit kube option)
         [CTrack 0 ''v'' ''a'' ''RWX'', CAddSecondary 1 1 ''v'' ''b'' 60] (NewAttachmentManager, ()))) ()))) ''v'' = []"
    (is "nodes_of (fst (snd (reconcile ?k _ _ _ _ _ ?am _))) _ = _")
proof -
  have "detachTimestamps ?am ''v'' = None" "NodeID (the (attachments ?am ''v'')) = ''a''"
    by (simp_all add: am_defs persistAttachment_def state_IsAttachedToNode_def)
  then have "attachments (fst (snd (reconcile ?k False (\<lambda>_. False) (\<lambda>_. 0) 30 [''v''] ?am ()))) ''v'' = None"
    unfolding reconcile_def ListAttachments_def by (intro reconcile_loop_cleared) simp_all
  then show ?thesis by (rule nodes_of_None)
qed

end
