(* ===== verification/Publish.thy ===== *)
theory Publish
  imports Controller Events AttachReconciler
begin

text \<open>
  The CSI controller service, attaching volumes to nodes: \<^verbatim>\<open>ControllerPublishVolume\<close>,
  \<^verbatim>\<open>ControllerUnpublishVolume\<close> and their helpers in \<^verbatim>\<open>pkg/driver/controller.go\<close>. The handlers work on the
  attachment manager of theory \<open>Attachment\<close>; \<open>clk i\<close> is the \<open>i\<close>-th clock reading of a call. The
  per-machine lock of theory \<open>VmiGrouper\<close> only delays a call and is left out here.

  The refinement lemmas show that each handler is a sequence of operations of the manager, so that the
  facts of \<open>Attachment\<close> hold for every run of the service, with the reconciler at work in between.
\<close>

record PublishRequest =
  pr_VolumeId :: string
  pr_NodeId :: string
  pr_Capability :: "VolumeCapability option"
  pr_VolumeContext :: "string \<rightharpoonup> string"

subsection \<open>Helpers\<close>

definition validateBlockingNodeExists :: "'k kube option \<Rightarrow> string \<Rightarrow> 'k \<Rightarrow> (goerr + bool) \<times> 'k" where
  "validateBlockingNodeExists k8sClient nodeID w =
     (case k8sClient of None \<Rightarrow> (Inr True, w) | Some k \<Rightarrow> kNodeExists k nodeID w)"

definition buildPublishContext ::
    "'r RDSClient \<Rightarrow> VolumeInfo \<Rightarrow> (string \<rightharpoonup> string) \<Rightarrow> 'r \<Rightarrow> (string \<rightharpoonup> string)" where
  "buildPublishContext c volume params r =
     (let fsType = (case params ''fsType'' of Some fs \<Rightarrow> if fs \<noteq> [] then fs else ''ext4'' | None \<Rightarrow> ''ext4'')
      in [''nvme_address'' \<mapsto> getNVMEAddress c params r, ''nvme_port'' \<mapsto> Itoa (vi_NVMETCPPort volume),
          ''nvme_nqn'' \<mapsto> vi_NVMETCPNQN volume, ''fs_type'' \<mapsto> fsType])"

text \<open>The namespace and name of the claim that the volume context carries; \<open>None\<close> when one is missing.\<close>

definition pvc_of :: "(string \<rightharpoonup> string) \<Rightarrow> (string \<times> string) option" where
  "pvc_of volCtx =
     (let pvcNamespace = map_str volCtx ''csi.storage.k8s.io/pvc/namespace'';
          pvcName = map_str volCtx ''csi.storage.k8s.io/pvc/name''
      in if pvcNamespace = [] \<or> pvcName = [] then None else Some (pvcNamespace, pvcName))"

definition with_pvc ::
    "'k kube option \<Rightarrow> (string \<rightharpoonup> string) \<Rightarrow> ('k kube \<Rightarrow> string \<Rightarrow> string \<Rightarrow> 'k \<Rightarrow> goerr option \<times> 'k) \<Rightarrow> 'k \<Rightarrow> 'k" where
  "with_pvc k8sClient volCtx post w =
     (case (pvc_of volCtx, k8sClient) of
        (Some (ns, name), Some k) \<Rightarrow> snd (post k ns name w)
      | _ \<Rightarrow> w)"

definition postAttachmentConflictEvent :: "'k kube option \<Rightarrow> PublishRequest \<Rightarrow> string \<Rightarrow> 'k \<Rightarrow> 'k" where
  "postAttachmentConflictEvent k8sClient req attachedNode =
     with_pvc k8sClient (pr_VolumeContext req)
       (\<lambda>k ns name. PostAttachmentConflict k ns name (pr_VolumeId req) (pr_NodeId req) attachedNode)"

definition postVolumeAttachedEvent :: "'k kube option \<Rightarrow> PublishRequest \<Rightarrow> duration \<Rightarrow> 'k \<Rightarrow> 'k" where
  "postVolumeAttachedEvent k8sClient req dur =
     with_pvc k8sClient (pr_VolumeContext req)
       (\<lambda>k ns name. PostVolumeAttached k ns name (pr_VolumeId req) (pr_NodeId req) dur)"

definition postVolumeDetachedEvent :: "'k kube option \<Rightarrow> string \<Rightarrow> string \<Rightarrow> 'k \<Rightarrow> 'k" where
  "postVolumeDetachedEvent k8sClient volumeID nodeID w =
     (case k8sClient of
        None \<Rightarrow> w
      | Some k \<Rightarrow>
          (case kPVGet k volumeID w of
             (Inl err, w) \<Rightarrow> w
           | (Inr pv, w) \<Rightarrow>
               (case pv_ClaimRef pv of
                  None \<Rightarrow> w
                | Some (ns, name) \<Rightarrow> snd (PostVolumeDetached k ns name volumeID nodeID w))))"

subsection \<open>ControllerPublishVolume\<close>

definition is_rwx :: "PublishRequest \<Rightarrow> bool" where
  "is_rwx req \<longleftrightarrow> map_option cap_Mode (pr_Capability req) = Some MULTI_NODE_MULTI_WRITER"

text \<open>The checks before the server is asked: a status, or none.\<close>

definition publish_checks :: "('r, 'k) Driver \<Rightarrow> PublishRequest \<Rightarrow> 'k \<Rightarrow> grpc_code option \<times> 'k" where
  "publish_checks d req w =
     (if pr_VolumeId req = [] then (Some InvalidArgument, w)
      else if pr_NodeId req = [] then (Some InvalidArgument, w)
      else if ValidateVolumeID (pr_VolumeId req) \<noteq> None then (Some InvalidArgument, w)
      else if pr_Capability req = None then (Some InvalidArgument, w)
      else case drv_k8sClient d of
        Some k \<Rightarrow>
          (case kNodeExists k (pr_NodeId req) w of
             (Inr True, w) \<Rightarrow> (None, w)
           | (_, w) \<Rightarrow> (Some NotFound, w))
      | None \<Rightarrow>
          if drv_nodeID d \<noteq> [] \<and> pr_NodeId req \<noteq> drv_nodeID d then (Some NotFound, w) else (None, w))"

text \<open>A second node for a volume that may be shared. \<open>existing\<close> is the entry read before.\<close>

definition publish_secondary ::
    "('r, 'k) Driver \<Rightarrow> (nat \<Rightarrow> time) \<Rightarrow> PublishRequest \<Rightarrow> AttachmentState \<Rightarrow> ('r, 'k) CtrlState
     \<Rightarrow> grpc_code option \<times> ('r, 'k) CtrlState" where
  "publish_secondary d clk req existing st =
     (let volumeID = pr_VolumeId req; nodeID = pr_NodeId req; volCtx = pr_VolumeContext req
      in if GetNodeCount volumeID (st_am st) \<ge> 2 then (Some FailedPrecondition, st)
         else if IsMigrationTimedOut (clk 1) existing then
           (let elapsed = since (clk 2) (the (MigrationStartedAt existing))
            in (Some FailedPrecondition,
                if length (Nodes existing) \<ge> 2
                then st\<lparr>st_k := with_pvc (drv_k8sClient d) volCtx
                       (\<lambda>k ns name. PostMigrationFailed k ns name volumeID (na_NodeID (Nodes existing ! 0))
                          (na_NodeID (Nodes existing ! 1)) ''timeout'' elapsed) (st_k st)\<rparr>
                else st))
         else
           (let migrationTimeout = ParseMigrationTimeout
                  [''migrationTimeoutSeconds'' \<mapsto> map_str volCtx ''migrationTimeoutSeconds'']
            in if Nodes existing = [] then (Some Internal, st)
               else
                 (let sourceNode = na_NodeID (Nodes existing ! 0)
                  in case AddSecondaryAttachment (clk 3) (clk 4) volumeID nodeID migrationTimeout (st_am st) of
                       (Some err, am) \<Rightarrow> (Some Internal, st\<lparr>st_am := am\<rparr>)
                     | (None, am) \<Rightarrow>
                         (None, st\<lparr>st_am := am, st_k := with_pvc (drv_k8sClient d) volCtx
                             (\<lambda>k ns name. PostMigrationStarted k ns name volumeID sourceNode nodeID migrationTimeout)
                             (st_k st)\<rparr>))))"

text \<open>
  Another node for a volume that may not be shared: \<open>None\<close> means the old attachment has been cleared and
  the call goes on as for a free volume.
\<close>

definition publish_takeover ::
    "('r, 'k) Driver \<Rightarrow> (nat \<Rightarrow> time) \<Rightarrow> PublishRequest \<Rightarrow> AttachmentState \<Rightarrow> ('r, 'k) CtrlState
     \<Rightarrow> grpc_code option \<times> ('r, 'k) CtrlState" where
  "publish_takeover d clk req existing st =
     (let volumeID = pr_VolumeId req; gracePeriod = drv_attachmentGracePeriod d
      in if gracePeriod > 0 \<and> IsWithinGracePeriod (clk 1) volumeID gracePeriod (st_am st) then
           (let (_, am, w) = UntrackAttachment (drv_k8sClient d) (clk 2) volumeID (st_am st) (st_k st)
            in (None, st\<lparr>st_am := ClearDetachTimestamp volumeID am, st_k := w\<rparr>))
         else
           (case validateBlockingNodeExists (drv_k8sClient d) (NodeID existing) (st_k st) of
              (Inl err, w) \<Rightarrow> (Some Internal, st\<lparr>st_k := w\<rparr>)
            | (Inr False, w) \<Rightarrow>
                (let (_, am, w) = UntrackAttachment (drv_k8sClient d) (clk 2) volumeID (st_am st) w
                 in (None, st\<lparr>st_am := am, st_k := w\<rparr>))
            | (Inr True, w) \<Rightarrow>
                (Some FailedPrecondition,
                 st\<lparr>st_k := postAttachmentConflictEvent (drv_k8sClient d) req (NodeID existing) w\<rparr>)))"

definition publish_primary ::
    "('r, 'k) Driver \<Rightarrow> (nat \<Rightarrow> time) \<Rightarrow> PublishRequest \<Rightarrow> ('r, 'k) CtrlState
     \<Rightarrow> grpc_code option \<times> ('r, 'k) CtrlState" where
  "publish_primary d clk req st =
     (let volumeID = pr_VolumeId req; nodeID = pr_NodeId req;
          accessMode = (if is_rwx req then ''RWX'' else ''RWO'')
      in case TrackAttachmentWithMode (drv_k8sClient d) (clk 5) volumeID nodeID accessMode (st_am st) (st_k st) of
           (Some err, am, w) \<Rightarrow>
             (if GetAttachment volumeID am \<noteq> None \<and> \<not> IsAttachedToNode volumeID nodeID am
              then Some FailedPrecondition else Some Internal, st\<lparr>st_am := am, st_k := w\<rparr>)
         | (None, am, w) \<Rightarrow>
             (None, st\<lparr>st_am := am,
                      st_k := postVolumeAttachedEvent (drv_k8sClient d) req (since (clk 6) (clk 0)) w\<rparr>))"

text \<open>What the handler does with the table once the volume has been found on the server.\<close>

definition publish_attach ::
    "('r, 'k) Driver \<Rightarrow> (nat \<Rightarrow> time) \<Rightarrow> PublishRequest \<Rightarrow> ('r, 'k) CtrlState
     \<Rightarrow> grpc_code option \<times> ('r, 'k) CtrlState" where
  "publish_attach d clk req st =
     (case GetAttachment (pr_VolumeId req) (st_am st) of
        None \<Rightarrow> publish_primary d clk req st
      | Some existing \<Rightarrow>
          if IsAttachedToNode (pr_VolumeId req) (pr_NodeId req) (st_am st) then (None, st)
          else if is_rwx req then publish_secondary d clk req existing st
          else case publish_takeover d clk req existing st of
            (Some code, st) \<Rightarrow> (Some code, st)
          | (None, st) \<Rightarrow> publish_primary d clk req st)"

definition ControllerPublishVolume ::
    "('r, 'k) Driver \<Rightarrow> (nat \<Rightarrow> time) \<Rightarrow> PublishRequest \<Rightarrow> ('r, 'k) CtrlState
     \<Rightarrow> (fault + (string \<rightharpoonup> string)) \<times> ('r, 'k) CtrlState" where
  "ControllerPublishVolume d clk req st =
     (case publish_checks d req (st_k st) of
        (Some code, w) \<Rightarrow> fail code (st\<lparr>st_k := w\<rparr>)
      | (None, w) \<Rightarrow>
          (let st = st\<lparr>st_k := w\<rparr>
           in case drv_rdsClient d of
                None \<Rightarrow> (Inl NilPanic, st)
              | Some c \<Rightarrow>
                  (case rGetVolume c (pr_VolumeId req) (st_rds st) of
                     (Inl err, r) \<Rightarrow> fail NotFound (st\<lparr>st_rds := r\<rparr>)
                   | (Inr volume, r) \<Rightarrow>
                       (let st = st\<lparr>st_rds := r\<rparr>;
                            ctx = buildPublishContext c volume (pr_VolumeContext req) r
                        in if \<not> drv_attachmentManager d then (Inr ctx, st)
                           else case publish_attach d clk req st of
                             (Some code, st) \<Rightarrow> fail code st
                           | (None, st) \<Rightarrow> (Inr ctx, st)))))"

subsection \<open>ControllerUnpublishVolume\<close>

text \<open>Source, target and start of the migration that the removal of a node would end.\<close>

definition migration_ends :: "string \<Rightarrow> AttachmentState option \<Rightarrow> bool \<times> string \<times> string \<times> time" where
  "migration_ends nodeID existing =
     (case existing of
        None \<Rightarrow> (False, [], [], zero_time)
      | Some existing \<Rightarrow>
          if \<not> IsMigrating existing then (False, [], [], zero_time)
          else if length (Nodes existing) = 2 then
            (let n0 = na_NodeID (Nodes existing ! 0); n1 = na_NodeID (Nodes existing ! 1);
                 (sourceNode, targetNode) =
                   (if n0 = nodeID then (n0, n1) else if n1 = nodeID then (n1, n0) else ([], []))
             in (True, sourceNode, targetNode,
                 case MigrationStartedAt existing of Some t \<Rightarrow> t | None \<Rightarrow> zero_time))
          else (True, [], [], zero_time))"

definition post_migration_completed ::
    "'k kube \<Rightarrow> string \<Rightarrow> string \<Rightarrow> string \<Rightarrow> duration \<Rightarrow> 'k \<Rightarrow> 'k" where
  "post_migration_completed k volumeID sourceNode targetNode dur w =
     (case kPVGet k volumeID w of
        (Inl err, w) \<Rightarrow> w
      | (Inr pv, w) \<Rightarrow>
          (case pv_ClaimRef pv of
             None \<Rightarrow> w
           | Some (ns, name) \<Rightarrow>
               if ns \<noteq> [] \<and> name \<noteq> []
               then snd (PostMigrationCompleted k ns name volumeID sourceNode targetNode dur w) else w))"

definition ControllerUnpublishVolume ::
    "('r, 'k) Driver \<Rightarrow> (nat \<Rightarrow> time) \<Rightarrow> string \<Rightarrow> string \<Rightarrow> ('r, 'k) CtrlState
     \<Rightarrow> (fault + unit) \<times> ('r, 'k) CtrlState" where
  "ControllerUnpublishVolume d clk volumeID nodeID st =
     (if volumeID = [] then fail InvalidArgument st
      else if ValidateVolumeID volumeID \<noteq> None then fail InvalidArgument st
      else if \<not> drv_attachmentManager d then (Inr (), st)
      else
        (let (wasMigrating, sourceNode, targetNode, migrationStartedAt) =
               migration_ends nodeID (GetAttachment volumeID (st_am st));
             (res, am, w) = RemoveNodeAttachment (drv_k8sClient d) (clk 1) volumeID nodeID (st_am st) (st_k st);
             st = st\<lparr>st_am := am, st_k := w\<rparr>
         in if res = Inr True
            then (Inr (), st\<lparr>st_k := postVolumeDetachedEvent (drv_k8sClient d) volumeID nodeID (st_k st)\<rparr>)
            else case drv_k8sClient d of
              Some k \<Rightarrow>
                if wasMigrating \<and> sourceNode \<noteq> [] \<and> targetNode \<noteq> []
                then (Inr (), st\<lparr>st_k := post_migration_completed k volumeID sourceNode targetNode
                                   (since (clk 2) migrationStartedAt) (st_k st)\<rparr>)
                else (Inr (), st)
            | None \<Rightarrow> (Inr (), st)))"

subsection \<open>The handlers as sequences of manager operations\<close>

text \<open>
  Manager operations that satisfy \<open>P\<close>, performed one after the other; between two of them the cluster may
  change in any way.
\<close>

inductive am_path :: "'k kube option \<Rightarrow> (am_cmd \<Rightarrow> bool) \<Rightarrow> AttachmentManager \<Rightarrow> AttachmentManager \<Rightarrow> bool"
  for k P am where
  am_path_refl [intro, simp]: "am_path k P am am"
| am_path_step: "am_path k P am am' \<Longrightarrow> P c \<Longrightarrow> am_path k P am (fst (am_exec k c (am', w)))"

lemma am_path_trans: "am_path k P am am' \<Longrightarrow> am_path k P am' am'' \<Longrightarrow> am_path k P am am''"
  by (rotate_tac, induction rule: am_path.induct) (auto intro: am_path_step)

lemma am_path_one: "P c \<Longrightarrow> am_path k P am (fst (am_exec k c (am, w)))"
  by (rule am_path_step) simp_all

lemma am_path_mono: "am_path k P am am' \<Longrightarrow> (\<And>c. P c \<Longrightarrow> Q c) \<Longrightarrow> am_path k Q am am'"
  by (induction rule: am_path.induct) (auto intro: am_path_step)

lemma am_path_ok:
  assumes "am_path k P am am'" "am_ok am" "am_migrations am"
  shows "am_ok am' \<and> am_migrations am'"
  using assms(1)
proof (induction rule: am_path.induct)
  case (am_path_step am' c w)
  then show ?case using am_exec_ok [of "(am', w)" k c] by simp
qed (use assms in simp)

lemma am_path_single:
  assumes "am_path k P am am'" "am_ok am" "am_migrations am" "\<And>c. P c \<Longrightarrow> \<not> adds_secondary v c"
    "length (nodes_of am v) \<le> 1"
  shows "length (nodes_of am' v) \<le> 1"
  using assms(1)
proof (induction rule: am_path.induct)
  case (am_path_step am' c w)
  then have "am_ok am'" using am_path_ok assms by blast
  then show ?case using am_path_step assms(4) am_exec_single [of "(am', w)" v c k] by simp
qed (use assms in simp)

text \<open>The operations on one volume, with or without the addition of a second node.\<close>

fun cmd_volume :: "am_cmd \<Rightarrow> string" where
  "cmd_volume (CTrack now v n m) = v"
| "cmd_volume (CAddSecondary now1 now2 v n tmo) = v"
| "cmd_volume (CUntrack now v) = v"
| "cmd_volume (CRemoveNode now v n) = v"
| "cmd_volume (CClearDetach v) = v"

definition on_volume :: "string \<Rightarrow> bool \<Rightarrow> am_cmd \<Rightarrow> bool" where
  "on_volume v shared c \<longleftrightarrow> cmd_volume c = v \<and> (adds_secondary v c \<longrightarrow> shared)"

lemma on_volume_simps [simp]:
  "on_volume v s (CTrack now u n m) \<longleftrightarrow> u = v"
  "on_volume v s (CUntrack now u) \<longleftrightarrow> u = v"
  "on_volume v s (CRemoveNode now u n) \<longleftrightarrow> u = v"
  "on_volume v s (CClearDetach u) \<longleftrightarrow> u = v"
  "on_volume v s (CAddSecondary now1 now2 u n tmo) \<longleftrightarrow> u = v \<and> s"
  by (auto simp: on_volume_def)

lemma am_path_other:
  assumes "am_path k (on_volume u s) am am'" "v \<noteq> u"
  shows "attachments am' v = attachments am v \<and> detachTimestamps am' v = detachTimestamps am v"
  using assms(1)
proof (induction rule: am_path.induct)
  case (am_path_step am' c w)
  then show ?case using assms(2)
    by (cases c) (auto simp: am_defs split: option.split prod.split if_split)
qed simp

lemma publish_primary_path:
  "am_path (drv_k8sClient d) (on_volume (pr_VolumeId req) s) (st_am st) (st_am (snd (publish_primary d clk req st)))"
proof -
  obtain e am w where t: "TrackAttachmentWithMode (drv_k8sClient d) (clk 5) (pr_VolumeId req) (pr_NodeId req)
      (if is_rwx req then ''RWX'' else ''RWO'') (st_am st) (st_k st) = (e, am, w)"
    by (metis surj_pair)
  have "am_path (drv_k8sClient d) (on_volume (pr_VolumeId req) s) (st_am st) am"
    using am_path_one [of "on_volume (pr_VolumeId req) s" "CTrack (clk 5) (pr_VolumeId req) (pr_NodeId req)
        (if is_rwx req then ''RWX'' else ''RWO'')" "drv_k8sClient d" "st_am st" "st_k st"] by (simp add: t)
  then show ?thesis by (simp add: publish_primary_def Let_def t split: option.split)
qed

lemma publish_secondary_path:
  "am_path (drv_k8sClient d) (on_volume (pr_VolumeId req) True) (st_am st)
     (st_am (snd (publish_secondary d clk req existing st)))"
proof -
  let ?tmo = "ParseMigrationTimeout [''migrationTimeoutSeconds'' \<mapsto> map_str (pr_VolumeContext req) ''migrationTimeoutSeconds'']"
  obtain e am where t: "AddSecondaryAttachment (clk 3) (clk 4) (pr_VolumeId req) (pr_NodeId req) ?tmo (st_am st) = (e, am)"
    by fastforce
  have "am_path (drv_k8sClient d) (on_volume (pr_VolumeId req) True) (st_am st) am"
    using am_path_one [of "on_volume (pr_VolumeId req) True" "CAddSecondary (clk 3) (clk 4) (pr_VolumeId req)
        (pr_NodeId req) ?tmo" "drv_k8sClient d" "st_am st" "st_k st"] by (simp add: t)
  then show ?thesis by (simp add: publish_secondary_def Let_def t split: option.split)
qed

lemma publish_takeover_path:
  "am_path (drv_k8sClient d) (on_volume (pr_VolumeId req) s) (st_am st)
     (st_am (snd (publish_takeover d clk req existing st)))"
proof -
  have u: "am_path (drv_k8sClient d) (on_volume (pr_VolumeId req) s) (st_am st)
      (fst (snd (UntrackAttachment (drv_k8sClient d) (clk 2) (pr_VolumeId req) (st_am st) w)))" for w
    using am_path_one [of "on_volume (pr_VolumeId req) s" "CUntrack (clk 2) (pr_VolumeId req)" "drv_k8sClient d" "st_am st" w]
    by simp
  have c: "am_path (drv_k8sClient d) (on_volume (pr_VolumeId req) s) (st_am st)
      (ClearDetachTimestamp (pr_VolumeId req)
        (fst (snd (UntrackAttachment (drv_k8sClient d) (clk 2) (pr_VolumeId req) (st_am st) w))))" for w
    using am_path_step [OF u [of w], of "CClearDetach (pr_VolumeId req)"] by simp
  show ?thesis
    using u c by (simp add: publish_takeover_def Let_def split_beta split: prod.split sum.split bool.split)
qed

lemma publish_attach_path:
  "am_path (drv_k8sClient d) (on_volume (pr_VolumeId req) (is_rwx req)) (st_am st)
     (st_am (snd (publish_attach d clk req st)))"
proof (cases "GetAttachment (pr_VolumeId req) (st_am st)")
  case None
  then show ?thesis by (simp add: publish_attach_def publish_primary_path)
next
  case (Some existing)
  obtain e st' where t: "publish_takeover d clk req existing st = (e, st')" by fastforce
  have "am_path (drv_k8sClient d) (on_volume (pr_VolumeId req) (is_rwx req)) (st_am st) (st_am st')"
    using publish_takeover_path [of d req "is_rwx req" st clk existing] by (simp add: t)
  moreover from am_path_trans [OF this publish_primary_path]
  have "am_path (drv_k8sClient d) (on_volume (pr_VolumeId req) (is_rwx req)) (st_am st)
      (st_am (snd (publish_primary d clk req st')))" .
  moreover have "is_rwx req \<Longrightarrow> am_path (drv_k8sClient d) (on_volume (pr_VolumeId req) (is_rwx req)) (st_am st)
      (st_am (snd (publish_secondary d clk req existing st)))"
    using publish_secondary_path [of d req st clk existing] by simp
  ultimately show ?thesis
    using Some by (cases "is_rwx req") (simp_all add: publish_attach_def t split: option.split)
qed

lemma publish_am:
  "st_am (snd (ControllerPublishVolume d clk req st)) = st_am st \<or>
   (\<exists>w r. st_am (snd (ControllerPublishVolume d clk req st)) =
      st_am (snd (publish_attach d clk req (st\<lparr>st_k := w, st_rds := r\<rparr>))))"
proof -
  obtain code w where ch: "publish_checks d req (st_k st) = (code, w)" by fastforce
  show ?thesis
  proof (cases "code = None \<and> drv_attachmentManager d")
    case False
    then have "st_am (snd (ControllerPublishVolume d clk req st)) = st_am st"
      by (cases code) (simp_all add: ControllerPublishVolume_def Let_def ch split: prod.split option.split sum.split)
    then show ?thesis ..
  next
    case True
    show ?thesis
    proof (cases "drv_rdsClient d")
      case None
      with True show ?thesis by (simp add: ControllerPublishVolume_def ch)
    next
      case (Some c)
      obtain vr r where g: "rGetVolume c (pr_VolumeId req) (st_rds st) = (vr, r)" by fastforce
      obtain e st' where a: "publish_attach d clk req (st\<lparr>st_k := w, st_rds := r\<rparr>) = (e, st')" by fastforce
      have "vr = Inr volume \<Longrightarrow> st_am (snd (ControllerPublishVolume d clk req st)) =
          st_am (snd (publish_attach d clk req (st\<lparr>st_k := w, st_rds := r\<rparr>)))" for volume
        using True Some by (simp add: ControllerPublishVolume_def ch g a split: option.split)
      moreover have "vr = Inl err \<Longrightarrow> st_am (snd (ControllerPublishVolume d clk req st)) = st_am st" for err
        using True Some by (simp add: ControllerPublishVolume_def ch g)
      ultimately show ?thesis by (cases vr) auto
    qed
  qed
qed

lemma publish_path:
  "am_path (drv_k8sClient d) (on_volume (pr_VolumeId req) (is_rwx req)) (st_am st)
     (st_am (snd (ControllerPublishVolume d clk req st)))"
  using publish_am [of d clk req st]
proof (elim disjE exE)
  fix w r
  assume "st_am (snd (ControllerPublishVolume d clk req st)) =
      st_am (snd (publish_attach d clk req (st\<lparr>st_k := w, st_rds := r\<rparr>)))"
  then show ?thesis using publish_attach_path [of d req "st\<lparr>st_k := w, st_rds := r\<rparr>" clk] by simp
qed simp

lemma unpublish_am:
  "st_am (snd (ControllerUnpublishVolume d clk v n st)) =
     (if v = [] \<or> ValidateVolumeID v \<noteq> None \<or> \<not> drv_attachmentManager d then st_am st
      else fst (snd (RemoveNodeAttachment (drv_k8sClient d) (clk 1) v n (st_am st) (st_k st))))"
proof -
  obtain e am w where t: "RemoveNodeAttachment (drv_k8sClient d) (clk 1) v n (st_am st) (st_k st) = (e, am, w)"
    by (metis surj_pair)
  show ?thesis
    by (simp add: ControllerUnpublishVolume_def Let_def t split: prod.split option.split del: One_nat_def)
qed

lemma unpublish_path:
  "am_path (drv_k8sClient d) (on_volume v s) (st_am st) (st_am (snd (ControllerUnpublishVolume d clk v n st)))"
  using am_path_one [of "on_volume v s" "CRemoveNode (clk 1) v n" "drv_k8sClient d" "st_am st" "st_k st"]
  by (simp add: unpublish_am del: One_nat_def)

fun is_untrack :: "am_cmd \<Rightarrow> bool" where
  "is_untrack (CUntrack now v) = True"
| "is_untrack _ = False"

lemma reconcile_path:
  "am_path (Some k) is_untrack am (fst (snd (reconcile k p c clk g ks am w)))"
proof -
  have "am_path (Some k) is_untrack am (fst (snd (reconcile_loop k p c clk g atts i ks am w)))" for atts i
  proof (induction ks arbitrary: i am w)
    case Nil
    then show ?case by simp
  next
    case (Cons u ks)
    obtain am1 w1 where o: "reconcile_one k p clk g atts i u am w = (am1, w1)" by fastforce
    have "am_path (Some k) is_untrack am am1"
      using reconcile_one_am [of k p clk g atts i u am w]
        am_path_one [of is_untrack "CUntrack (clk (2 * i + 1)) u" "Some k" am] by (auto simp: o)
    from am_path_trans [OF this Cons.IH] show ?case by (simp add: reconcile_loop_step o)
  qed
  then show ?thesis by (simp add: reconcile_def)
qed

subsection \<open>What a publication does to the table\<close>

lemma IsAttachedToNode_iff: "IsAttachedToNode v n am \<longleftrightarrow> n \<in> set (nodes_of am v)"
  by (auto simp: IsAttachedToNode_def nodes_of_def state_IsAttachedToNode_def list_ex_iff split: option.split)

lemma GetNodeCount_eq: "GetNodeCount v am = length (nodes_of am v)"
  by (simp add: GetNodeCount_def NodeCount_def nodes_of_def split: option.split)

text \<open>A well-formed entry with one node has no migration that could have timed out.\<close>

lemma no_timeout_before_limit:
  assumes "am_ok am" "attachments am v = Some s" "GetNodeCount v am < 2"
  shows "\<not> IsMigrationTimedOut now s"
proof -
  have e: "entry_ok v s" using assms(1,2) by (rule am_okD)
  then have "length (Nodes s) = 1"
    using assms(2,3) by (cases "Nodes s") (auto simp: GetNodeCount_def NodeCount_def entry_ok_def)
  with e show ?thesis by (simp add: entry_ok_def IsMigrationTimedOut_def)
qed

lemma publish_primary_spec:
  assumes "attachments (st_am st) (pr_VolumeId req) = None" "publish_primary d clk req st = (e, st')"
  shows "nodes_of (st_am st') (pr_VolumeId req) = (if e = None then [pr_NodeId req] else [])"
proof -
  obtain pe w where p: "persistAttachment (drv_k8sClient d) (pr_VolumeId req) (pr_NodeId req) (st_k st) = (pe, w)"
    by fastforce
  show ?thesis using assms
    by (cases pe) (auto simp: publish_primary_def Let_def Track_new p new_state_def nodes_of_def split: if_splits)
qed

lemma publish_takeover_spec:
  assumes "attachments (st_am st) (pr_VolumeId req) = Some existing" "publish_takeover d clk req existing st = (e, st')"
  shows "if e = None
    then attachments (st_am st') (pr_VolumeId req) = None \<and>
      (drv_attachmentGracePeriod d > 0 \<and>
         IsWithinGracePeriod (clk 1) (pr_VolumeId req) (drv_attachmentGracePeriod d) (st_am st) \<or>
       fst (validateBlockingNodeExists (drv_k8sClient d) (NodeID existing) (st_k st)) = Inr False)
    else st_am st' = st_am st"
proof -
  let ?v = "pr_VolumeId req"
  have u: "attachments (fst (snd (UntrackAttachment (drv_k8sClient d) (clk 2) ?v (st_am st) w))) ?v = None" for w
    by (simp add: Untrack_am)
  obtain b w where b: "validateBlockingNodeExists (drv_k8sClient d) (NodeID existing) (st_k st) = (b, w)" by fastforce
  show ?thesis
  proof (cases "drv_attachmentGracePeriod d > 0 \<and> IsWithinGracePeriod (clk 1) ?v (drv_attachmentGracePeriod d) (st_am st)")
    case True
    with assms(2) have "e = None" "attachments (st_am st') ?v = None"
      using u [of "st_k st"] by (auto simp: publish_takeover_def Let_def split_beta ClearDetachTimestamp_def)
    with True show ?thesis by simp
  next
    case False
    with assms(2) show ?thesis
      using u [of w] by (auto simp: publish_takeover_def Let_def b split_beta split: sum.splits bool.splits)
  qed
qed

lemma publish_secondary_spec:
  assumes ok: "am_ok (st_am st)" and s: "attachments (st_am st) (pr_VolumeId req) = Some existing"
    and n: "pr_NodeId req \<notin> set (nodes_of (st_am st) (pr_VolumeId req))"
    and r: "publish_secondary d clk req existing st = (e, st')"
  shows "if e = None
    then nodes_of (st_am st') (pr_VolumeId req) = nodes_of (st_am st) (pr_VolumeId req) @ [pr_NodeId req]
    else st_am st' = st_am st \<and> e = Some FailedPrecondition \<and> length (nodes_of (st_am st) (pr_VolumeId req)) = 2"
proof (cases "GetNodeCount (pr_VolumeId req) (st_am st) \<ge> 2")
  case True
  with r nodes_of_bound [OF ok, of "pr_VolumeId req"] show ?thesis
    by (auto simp: publish_secondary_def GetNodeCount_eq)
next
  case False
  then have to: "\<not> IsMigrationTimedOut (clk 1) existing" using no_timeout_before_limit [OF ok s] by simp
  have ne: "Nodes existing \<noteq> []" using am_okD [OF ok s] by (simp add: entry_ok_def)
  let ?tmo = "ParseMigrationTimeout [''migrationTimeoutSeconds'' \<mapsto> map_str (pr_VolumeContext req) ''migrationTimeoutSeconds'']"
  obtain e2 am2 where a: "AddSecondaryAttachment (clk 3) (clk 4) (pr_VolumeId req) (pr_NodeId req) ?tmo (st_am st) = (e2, am2)"
    by fastforce
  have "e2 = None \<and> nodes_of am2 (pr_VolumeId req) = nodes_of (st_am st) (pr_VolumeId req) @ [pr_NodeId req]"
    using a s n False
    by (auto simp: AddSecondaryAttachment_def nodes_of_def GetNodeCount_def NodeCount_def
        state_IsAttachedToNode_def list_ex_iff image_iff Let_def split: if_splits)
  moreover have "(e, st') = (case e2 of Some _ \<Rightarrow> (Some Internal, st\<lparr>st_am := am2\<rparr>) | None \<Rightarrow> (None, st\<lparr>st_am := am2, st_k := with_pvc (drv_k8sClient d) (pr_VolumeContext req)
        (\<lambda>k ns name. PostMigrationStarted k ns name (pr_VolumeId req) (na_NodeID (Nodes existing ! 0)) (pr_NodeId req) ?tmo) (st_k st)\<rparr>))"
    using r False to ne a by (simp add: publish_secondary_def Let_def)
  ultimately show ?thesis by simp
qed

text \<open>The list of nodes a successful publication leaves.\<close>

definition published :: "bool \<Rightarrow> string \<Rightarrow> string list \<Rightarrow> string list" where
  "published shared n ns = (if n \<in> set ns then ns else if shared then ns @ [n] else [n])"

lemma publish_attach_spec:
  assumes ok: "am_ok (st_am st)" and r: "publish_attach d clk req st = (e, st')"
  shows "nodes_of (st_am st') (pr_VolumeId req) \<in>
    (if e = None then {published (is_rwx req) (pr_NodeId req) (nodes_of (st_am st) (pr_VolumeId req))}
     else {nodes_of (st_am st) (pr_VolumeId req), []})"
proof (cases "attachments (st_am st) (pr_VolumeId req)")
  case None
  with r have "publish_primary d clk req st = (e, st')" by (simp add: publish_attach_def GetAttachment_def)
  with publish_primary_spec [OF None this] None show ?thesis by (simp add: published_def nodes_of_None)
next
  case s: (Some existing)
  let ?v = "pr_VolumeId req"
  show ?thesis
  proof (cases "pr_NodeId req \<in> set (nodes_of (st_am st) ?v)")
    case True
    with r s have "e = None" "st' = st" by (simp_all add: publish_attach_def GetAttachment_def IsAttachedToNode_iff)
    with True show ?thesis by (simp add: published_def)
  next
    case n: False
    show ?thesis
    proof (cases "is_rwx req")
      case True
      with r s n have "publish_secondary d clk req existing st = (e, st')"
        by (simp add: publish_attach_def GetAttachment_def IsAttachedToNode_iff)
      from publish_secondary_spec [OF ok s n this] True n show ?thesis by (auto simp: published_def split: if_splits)
    next
      case False
      obtain e1 st1 where t: "publish_takeover d clk req existing st = (e1, st1)" by fastforce
      note T = publish_takeover_spec [OF s t]
      have R: "(e, st') = (case e1 of Some code \<Rightarrow> (Some code, st1) | None \<Rightarrow> publish_primary d clk req st1)"
        using r s n False t by (simp add: publish_attach_def GetAttachment_def IsAttachedToNode_iff split: option.splits)
      show ?thesis
      proof (cases e1)
        case None
        with T R publish_primary_spec [of st1 req d clk e st'] n False show ?thesis by (simp add: published_def)
      qed (use T R in simp)
    qed
  qed
qed

lemma ControllerPublishVolume_Inr:
  assumes "ControllerPublishVolume d clk req st = (Inr ctx, st')"
  obtains c volume w r where "publish_checks d req (st_k st) = (None, w)" "drv_rdsClient d = Some c"
    "rGetVolume c (pr_VolumeId req) (st_rds st) = (Inr volume, r)"
    "ctx = buildPublishContext c volume (pr_VolumeContext req) r"
    "drv_attachmentManager d \<Longrightarrow> publish_attach d clk req (st\<lparr>st_k := w, st_rds := r\<rparr>) = (None, st')"
proof -
  obtain code w where ch: "publish_checks d req (st_k st) = (code, w)" by fastforce
  with assms have [simp]: "code = None" by (cases code) (simp_all add: ControllerPublishVolume_def)
  obtain c where c: "drv_rdsClient d = Some c"
    using assms by (cases "drv_rdsClient d") (simp_all add: ControllerPublishVolume_def ch)
  obtain vr r where g: "rGetVolume c (pr_VolumeId req) (st_rds st) = (vr, r)" by fastforce
  obtain volume where [simp]: "vr = Inr volume"
    using assms by (cases vr) (simp_all add: ControllerPublishVolume_def ch c g)
  obtain e st1 where a: "publish_attach d clk req (st\<lparr>st_k := w, st_rds := r\<rparr>) = (e, st1)" by fastforce
  show ?thesis
  proof (rule that [of w c volume r])
    show "ctx = buildPublishContext c volume (pr_VolumeContext req) r"
      using assms by (auto simp: ControllerPublishVolume_def Let_def ch c g a split: if_splits option.splits)
    show "publish_attach d clk req (st\<lparr>st_k := w, st_rds := r\<rparr>) = (None, st')" if "drv_attachmentManager d"
      using assms that by (simp add: ControllerPublishVolume_def Let_def ch c g a split: option.splits)
  qed (use ch c g in simp_all)
qed

lemma publish_failure:
  assumes ok: "am_ok (st_am st)" and r: "ControllerPublishVolume d clk req st = (Inl f, st')"
  shows "nodes_of (st_am st') (pr_VolumeId req) \<in> {nodes_of (st_am st) (pr_VolumeId req), []}"
proof -
  obtain code w where ch: "publish_checks d req (st_k st) = (code, w)" by fastforce
  have "st_am st' = st_am st \<or>
      (\<exists>r e. e \<noteq> None \<and> publish_attach d clk req (st\<lparr>st_k := w, st_rds := r\<rparr>) = (e, st'))"
  proof (cases "code = None \<and> drv_attachmentManager d")
    case False
    with r show ?thesis
      by (cases code) (auto simp: ControllerPublishVolume_def Let_def ch split: prod.splits option.splits sum.splits if_splits)
  next
    case True
    with r show ?thesis
      by (auto simp: ControllerPublishVolume_def Let_def ch split: prod.splits option.splits sum.splits)
  qed
  then show ?thesis
  proof (elim disjE exE conjE)
    fix ra e assume e: "e \<noteq> None" and a: "publish_attach d clk req (st\<lparr>st_k := w, st_rds := ra\<rparr>) = (e, st')"
    from publish_attach_spec [OF _ a] ok e show ?thesis by simp
  qed simp
qed

lemma publish_checks_world:
  assumes "publish_checks d req w = (None, w')" "drv_k8sClient d = Some k"
  shows "w' = snd (kNodeExists k (pr_NodeId req) w)"
  using assms by (auto simp: publish_checks_def split: if_splits prod.splits sum.splits bool.splits)

text \<open>Outside the grace period, what a takeover needs.\<close>

lemma publish_attach_taken:
  assumes "am_ok (st_am st)" "\<not> is_rwx req"
    and "nodes_of (st_am st) (pr_VolumeId req) = m # ms" "pr_NodeId req \<notin> set (m # ms)"
    and "\<And>t. detachTimestamps (st_am st) (pr_VolumeId req) = Some t \<Longrightarrow> drv_attachmentGracePeriod d \<le> since (clk 1) t"
    and "fst (validateBlockingNodeExists (drv_k8sClient d) m (st_k st)) \<noteq> Inr False"
    and "publish_attach d clk req st = (e, st')"
  shows "e \<noteq> None \<and> st_am st' = st_am st"
proof -
  obtain existing where s: "attachments (st_am st) (pr_VolumeId req) = Some existing"
    using assms(3) by (auto simp: nodes_of_def split: option.splits)
  have m: "NodeID existing = m"
    using am_okD [OF assms(1) s] assms(3) s by (cases "Nodes existing") (auto simp: nodes_of_def entry_ok_def)
  obtain e1 st1 where t: "publish_takeover d clk req existing st = (e1, st1)" by fastforce
  have "\<not> IsWithinGracePeriod (clk 1) (pr_VolumeId req) (drv_attachmentGracePeriod d) (st_am st)"
    using assms(5) by (auto simp: IsWithinGracePeriod_def not_less split: option.splits)
  with publish_takeover_spec [OF s t] assms(6) have e1: "e1 \<noteq> None" "st_am st1 = st_am st"
    by (auto simp: m split: if_splits)
  with assms(2-4,7) s t show ?thesis
    by (auto simp: publish_attach_def GetAttachment_def IsAttachedToNode_iff)
qed

subsection \<open>Runs of the service\<close>

text \<open>
  One step: a publication the orchestrator asks for (\<open>A\<close> says which ones it does), an unpublication, a pass
  of the reconciler, or anything that leaves the attachment table alone, such as the handlers for
  volumes and snapshots or a change on the server or in the cluster.
\<close>

inductive service_step ::
    "('r, 'k) Driver \<Rightarrow> (PublishRequest \<Rightarrow> bool) \<Rightarrow> ('r, 'k) CtrlState \<Rightarrow> ('r, 'k) CtrlState \<Rightarrow> bool"
  for d A where
  step_publish: "A req \<Longrightarrow> service_step d A st (snd (ControllerPublishVolume d clk req st))"
| step_unpublish: "service_step d A st (snd (ControllerUnpublishVolume d clk v n st))"
| step_reconcile: "drv_k8sClient d = Some k \<Longrightarrow> reconcile k p c clk g ks (st_am st) (st_k st) = (evs, am, w) \<Longrightarrow>
    service_step d A st (st\<lparr>st_am := am, st_k := w\<rparr>)"
| step_other: "st_am st' = st_am st \<Longrightarrow> service_step d A st st'"

definition asked_for :: "(PublishRequest \<Rightarrow> bool) \<Rightarrow> am_cmd \<Rightarrow> bool" where
  "asked_for A c \<longleftrightarrow> (\<forall>v. adds_secondary v c \<longrightarrow> (\<exists>req. A req \<and> pr_VolumeId req = v \<and> is_rwx req))"

lemma service_step_path:
  assumes "service_step d A st st'"
  shows "am_path (drv_k8sClient d) (asked_for A) (st_am st) (st_am st')"
  using assms
proof cases
  case (step_publish req clk)
  show ?thesis unfolding step_publish(1)
  proof (rule am_path_mono [OF publish_path])
    fix c assume "on_volume (pr_VolumeId req) (is_rwx req) c"
    with \<open>A req\<close> show "asked_for A c" by (cases c) (auto simp: asked_for_def)
  qed
next
  case (step_unpublish clk v n)
  show ?thesis unfolding step_unpublish
  proof (rule am_path_mono [OF unpublish_path])
    fix c assume "on_volume v False c"
    then show "asked_for A c" by (cases c) (auto simp: asked_for_def)
  qed
next
  case (step_reconcile k p c clk g ks evs am w)
  have "am_path (Some k) (asked_for A) (st_am st) (fst (snd (reconcile k p c clk g ks (st_am st) (st_k st))))"
  proof (rule am_path_mono [OF reconcile_path])
    fix c assume "is_untrack c"
    then show "asked_for A c" by (cases c) (auto simp: asked_for_def)
  qed
  with step_reconcile show ?thesis by simp
next
  case step_other
  then show ?thesis by simp
qed

lemma service_path:
  assumes "(service_step d A)\<^sup>*\<^sup>* st st'"
  shows "am_path (drv_k8sClient d) (asked_for A) (st_am st) (st_am st')"
  using assms
proof (induction rule: rtranclp_induct)
  case (step st1 st2)
  show ?case using am_path_trans [OF step.IH service_step_path [OF step.hyps(2)]] .
qed simp

text \<open>The handlers of theory \<open>Controller\<close> are steps of the last kind.\<close>

lemma volume_handlers_keep_am:
  "st_am (snd (CreateVolume d creq st)) = st_am st"
  "st_am (snd (DeleteVolume d v st)) = st_am st"
  "st_am (snd (ControllerExpandVolume d v n l cap st)) = st_am st"
  "st_am (snd (CreateSnapshot uuid5 d name v params st)) = st_am st"
  "st_am (snd (DeleteSnapshot d s st)) = st_am st"
  "st_am (snd (ListSnapshots d lreq st)) = st_am st"
  by (simp_all add: CreateVolume_def create_existing_def create_empty_def createVolumeFromSnapshot_def
      DeleteVolume_def ControllerExpandVolume_def CreateSnapshot_def DeleteSnapshot_def ListSnapshots_def Let_def
      split: option.split sum.split prod.split content_source.split)

subsection \<open>Properties\<close>

text \<open>Requests for the driver and the state of theory \<open>Controller\<close>.\<close>

definition example_request :: "string \<Rightarrow> access_mode \<Rightarrow> PublishRequest" where
  "example_request n m = \<lparr>pr_VolumeId = ''vol-1'', pr_NodeId = n,
     pr_Capability = Some \<lparr>cap_Mode = m, cap_Type = Block\<rparr>, pr_VolumeContext = Map.empty\<rparr>"

lemma example_request_simps [simp]:
  "pr_VolumeId (example_request n m) = ''vol-1''" "pr_NodeId (example_request n m) = n"
  "is_rwx (example_request n m) \<longleftrightarrow> m = MULTI_NODE_MULTI_WRITER"
  "pr_VolumeContext (example_request n m) = Map.empty"
  "pr_Capability (example_request n m) = Some \<lparr>cap_Mode = m, cap_Type = Block\<rparr>"
  by (simp_all add: example_request_def is_rwx_def)

lemma unit_state [simp]: "st\<lparr>st_k := (), st_rds := st_rds st\<rparr> = st"
  by (cases st) simp

lemma example_checks [simp]:
  "n \<noteq> [] \<Longrightarrow> publish_checks example_driver (example_request n m) w = (None, w)"
  by (simp add: publish_checks_def)

lemma nodes_of_New [simp]: "nodes_of NewAttachmentManager v = []"
  by (simp add: nodes_of_def NewAttachmentManager_def)

text \<open>With this driver a publication is decided by the table alone.\<close>

lemma example_publish:
  assumes "n \<noteq> []" "mock_GetVolume ''vol-1'' (st_rds st) = (Inr example_volume, st_rds st)"
  shows "snd (ControllerPublishVolume example_driver clk (example_request n m) st) =
      snd (publish_attach example_driver clk (example_request n m) st)"
    "isl (fst (ControllerPublishVolume example_driver clk (example_request n m) st)) \<longleftrightarrow>
      fst (publish_attach example_driver clk (example_request n m) st) \<noteq> None"
  using assms by (simp_all add: ControllerPublishVolume_def Let_def split: prod.split option.split)

text \<open>C1. Exclusive attachment. However publications, unpublications, reconciler passes and other calls
  follow each other, and whatever the cluster and the storage server answer, the attachment table stays
  well-formed, and a volume that is never published in the shared access mode is never attached to two
  nodes. The run may start from any well-formed table in which the volume has at most one node, such as
  the empty one.\<close>

theorem service_exclusive:
  assumes "(service_step d A)\<^sup>*\<^sup>* st0 st" and "am_ok (st_am st0)" and "am_migrations (st_am st0)"
    and "length (nodes_of (st_am st0) v) \<le> 1"
    and "\<And>req. A req \<Longrightarrow> pr_VolumeId req = v \<Longrightarrow> \<not> is_rwx req"
  shows "am_ok (st_am st) \<and> am_migrations (st_am st) \<and> length (nodes_of (st_am st) v) \<le> 1"
proof -
  note p = service_path [OF assms(1)]
  have "\<not> adds_secondary v c" if "asked_for A c" for c
    using that assms(5) unfolding asked_for_def by blast
  with am_path_single [OF p assms(2,3) _ assms(4)] am_path_ok [OF p assms(2,3)] show ?thesis by blast
qed

theorem service_exclusive_witness:
  "length (nodes_of (st_am (snd (ControllerPublishVolume example_driver (\<lambda>_. 0)
      (example_request ''a'' SINGLE_NODE_WRITER) example_state))) ''vol-1'') \<le> 1"
proof -
  let ?A = "\<lambda>req. \<not> is_rwx req"
  have "(service_step example_driver ?A)\<^sup>*\<^sup>* example_state (snd (ControllerPublishVolume example_driver (\<lambda>_. 0)
      (example_request ''a'' SINGLE_NODE_WRITER) example_state))"
    by (rule r_into_rtranclp, rule step_publish) simp
  from service_exclusive [OF this, of "''vol-1''"] show ?thesis
    by (simp add: am_ok_New)
qed

text \<open>C2. A successful publication: the volume exists on the storage server, the response carries its NQN
  and port, and the volume's node list is the old one when the node was in it, has the node appended when
  the volume is published in the shared mode, and is the node alone otherwise. A failing publication adds
  no node. Other volumes are untouched either way.\<close>

theorem publish_effect:
  assumes "am_ok (st_am st)" and "drv_attachmentManager d"
    and "ControllerPublishVolume d clk req st = (res, st')"
  shows "(\<forall>u. u \<noteq> pr_VolumeId req \<longrightarrow> nodes_of (st_am st') u = nodes_of (st_am st) u) \<and>
    (case res of
       Inl _ \<Rightarrow> nodes_of (st_am st') (pr_VolumeId req) \<in> {nodes_of (st_am st) (pr_VolumeId req), []}
     | Inr ctx \<Rightarrow>
         nodes_of (st_am st') (pr_VolumeId req) =
           published (is_rwx req) (pr_NodeId req) (nodes_of (st_am st) (pr_VolumeId req)) \<and>
         (\<exists>c volume r. drv_rdsClient d = Some c \<and> rGetVolume c (pr_VolumeId req) (st_rds st) = (Inr volume, r) \<and>
            ctx ''nvme_nqn'' = Some (vi_NVMETCPNQN volume) \<and> ctx ''nvme_port'' = Some (Itoa (vi_NVMETCPPort volume))))"
proof -
  have st': "st' = snd (ControllerPublishVolume d clk req st)" using assms(3) by simp
  have other: "nodes_of (st_am st') u = nodes_of (st_am st) u" if "u \<noteq> pr_VolumeId req" for u
    using am_path_other [OF publish_path [of d req st clk] that] by (simp add: st' nodes_of_def)
  show ?thesis
  proof (cases res)
    case (Inl f)
    have "nodes_of (st_am st') (pr_VolumeId req) \<in> {nodes_of (st_am st) (pr_VolumeId req), []}"
      by (rule publish_failure [OF assms(1)]) (use assms(3) Inl in simp)
    with other Inl show ?thesis by simp
  next
    case (Inr ctx)
    with assms(3) have "ControllerPublishVolume d clk req st = (Inr ctx, st')" by simp
    then obtain c volume w r where o: "drv_rdsClient d = Some c"
      "rGetVolume c (pr_VolumeId req) (st_rds st) = (Inr volume, r)"
      "ctx = buildPublishContext c volume (pr_VolumeContext req) r"
      "publish_attach d clk req (st\<lparr>st_k := w, st_rds := r\<rparr>) = (None, st')"
      by (rule ControllerPublishVolume_Inr) (use assms(2) in blast)
    have "nodes_of (st_am st') (pr_VolumeId req) =
        published (is_rwx req) (pr_NodeId req) (nodes_of (st_am st) (pr_VolumeId req))"
      using publish_attach_spec [OF _ o(4)] assms(1) by simp
    with other Inr o(1-3) show ?thesis by (simp add: buildPublishContext_def Let_def)
  qed
qed

theorem publish_effect_witness:
  "\<exists>ctx st'. ControllerPublishVolume example_driver (\<lambda>_. 0) (example_request ''a'' SINGLE_NODE_WRITER) example_state
      = (Inr ctx, st') \<and> nodes_of (st_am st') ''vol-1'' = [''a''] \<and>
     ctx ''nvme_nqn'' = Some ''nqn.2000-02.com.mikrotik:vol-1''"
proof -
  let ?p = "ControllerPublishVolume example_driver (\<lambda>_. 0) (example_request ''a'' SINGLE_NODE_WRITER) example_state"
  have "\<not> isl (fst ?p)"
    by (simp add: example_publish publish_attach_def GetAttachment_def NewAttachmentManager_def publish_primary_def
        Track_new persistAttachment_def Let_def)
  then obtain ctx st' where p: "?p = (Inr ctx, st')" by (cases ?p; cases "fst ?p") auto
  from publish_effect [OF _ _ p] show ?thesis
    by (simp add: p am_ok_New published_def example_volume_def)
qed

text \<open>C6. No takeover of a live exclusive volume. A request in a mode that is not shared for a volume that other nodes hold and
  whose recorded detach, if there is one, is not within the grace period: unless the cluster, asked about the primary
  node in this very call (after the lookup of the requesting node), answers that this node does not exist, the call fails and
  the table stays as it was; and if the call succeeds, the requesting node is the only one left.\<close>

theorem takeover_guard:
  assumes "am_ok (st_am st)" and "drv_attachmentManager d" and "\<not> is_rwx req"
    and "nodes_of (st_am st) (pr_VolumeId req) = m # ms" and "pr_NodeId req \<notin> set (m # ms)"
    and "\<And>t. detachTimestamps (st_am st) (pr_VolumeId req) = Some t \<Longrightarrow> drv_attachmentGracePeriod d \<le> since (clk 1) t"
    and "ControllerPublishVolume d clk req st = (res, st')"
  shows "((\<exists>k. drv_k8sClient d = Some k \<and>
            fst (kNodeExists k m (snd (kNodeExists k (pr_NodeId req) (st_k st)))) = Inr False) \<or>
          isl res \<and> st_am st' = st_am st) \<and>
    (\<not> isl res \<longrightarrow> nodes_of (st_am st') (pr_VolumeId req) = [pr_NodeId req])"
proof (cases res)
  case (Inr ctx)
  from assms(7) obtain w r where o: "publish_checks d req (st_k st) = (None, w)"
      "publish_attach d clk req (st\<lparr>st_k := w, st_rds := r\<rparr>) = (None, st')"
    unfolding Inr by (rule ControllerPublishVolume_Inr) (use assms(2) in blast)
  let ?st = "st\<lparr>st_k := w, st_rds := r\<rparr>"
  have "fst (validateBlockingNodeExists (drv_k8sClient d) m w) = Inr False"
    using publish_attach_taken [of ?st, OF _ assms(3) _ assms(5), of d clk] assms(1,4,6) o(2) by auto
  moreover have "nodes_of (st_am st') (pr_VolumeId req) = [pr_NodeId req]"
    using publish_attach_spec [OF _ o(2)] assms(1,3-5) by (simp add: published_def)
  ultimately show ?thesis using publish_checks_world [OF o(1)]
    by (auto simp: validateBlockingNodeExists_def Inr split: option.splits)
next
  case (Inl e)
  have "st_am st' = st_am st" if alive: "\<nexists>k. drv_k8sClient d = Some k \<and>
      fst (kNodeExists k m (snd (kNodeExists k (pr_NodeId req) (st_k st)))) = Inr False"
  proof (cases "\<exists>w c volume r. publish_checks d req (st_k st) = (None, w) \<and> drv_rdsClient d = Some c \<and>
      rGetVolume c (pr_VolumeId req) (st_rds st) = (Inr volume, r)")
    case False
    with assms(7) show ?thesis
      by (auto simp: ControllerPublishVolume_def Let_def split: prod.splits option.splits sum.splits)
  next
    case True
    then obtain w c volume r where o: "publish_checks d req (st_k st) = (None, w)" "drv_rdsClient d = Some c"
      "rGetVolume c (pr_VolumeId req) (st_rds st) = (Inr volume, r)" by blast
    let ?st = "st\<lparr>st_k := w, st_rds := r\<rparr>"
    obtain e st1 where a: "publish_attach d clk req ?st = (e, st1)" by fastforce
    have "fst (validateBlockingNodeExists (drv_k8sClient d) m w) \<noteq> Inr False"
      using alive publish_checks_world [OF o(1)] by (auto simp: validateBlockingNodeExists_def split: option.splits)
    then have "st_am st1 = st_am st"
      using publish_attach_taken [of ?st, OF _ assms(3) _ assms(5), of d clk] assms(1,4,6) a by auto
    with assms(2,7) o a show ?thesis by (auto simp: ControllerPublishVolume_def split: option.splits)
  qed
  with Inl show ?thesis by auto
qed

text \<open>A table in which the volume is on node \<open>b\<close> and was last detached at time 0.\<close>

definition example_busy :: "(MockClient, unit) CtrlState" where
  "example_busy = example_state\<lparr>st_am := \<lparr>attachments = [''vol-1'' \<mapsto> new_state 0 ''vol-1'' ''b'' ''RWO''],
     detachTimestamps = [''vol-1'' \<mapsto> 0]\<rparr>\<rparr>"

lemma example_busy_simps [simp]:
  "am_ok (st_am example_busy)" "nodes_of (st_am example_busy) ''vol-1'' = [''b'']" "st_k example_busy = ()"
  "st_rds example_busy = st_rds example_state" "detachTimestamps (st_am example_busy) ''vol-1'' = Some 0"
  "attachments (st_am example_busy) ''vol-1'' = Some (new_state 0 ''vol-1'' ''b'' ''RWO'')"
  by (simp_all add: example_busy_def am_ok_def entry_ok_new nodes_of_def) (simp add: new_state_def)

text \<open>A cluster that knows every node but one.\<close>

definition example_cluster :: "string \<Rightarrow> unit kube" where
  "example_cluster gone =
     \<lparr>kPVGet = \<lambda>_ w. (Inl (GoErr ''x''), w), kPVUpdate = \<lambda>_ w. (None, w), kPVList = \<lambda>w. (Inr [], w), kVAList = \<lambda>w. (Inr [], w),
      kNodeExists = \<lambda>n w. (Inr (n \<noteq> gone), w), kRetryOnConflict = \<lambda>f w. f w, kNowStamp = \<lambda>_. [],
      kPVCGet = \<lambda>_ _ w. (None, w), kEvent = \<lambda>_ _ _ _ w. w\<rparr>"

text \<open>A minute after the detach, node \<open>a\<close> asks for the volume that node \<open>b\<close> holds: refused while the cluster knows \<open>b\<close>.\<close>

theorem takeover_guard_witness:
  "\<exists>st'. ControllerPublishVolume (example_driver\<lparr>drv_k8sClient := Some (example_cluster ''c'')\<rparr>) (\<lambda>_. 60 * second)
       (example_request ''a'' SINGLE_NODE_WRITER) example_busy = (Inl (Status FailedPrecondition), st') \<and>
     st_am st' = st_am example_busy"
proof -
  let ?d = "example_driver\<lparr>drv_k8sClient := Some (example_cluster ''c'')\<rparr>"
  let ?p = "ControllerPublishVolume ?d (\<lambda>_. 60 * second) (example_request ''a'' SINGLE_NODE_WRITER) example_busy"
  have p: "fst ?p = Inl (Status FailedPrecondition)"
    by (simp add: ControllerPublishVolume_def publish_checks_def example_cluster_def publish_attach_def GetAttachment_def IsAttachedToNode_iff publish_takeover_def Let_def
        IsWithinGracePeriod_def sub_time_def sat64_def max_int64_def min_int64_def second_def split_beta
        validateBlockingNodeExists_def new_state_def)
  then obtain st' where p: "?p = (Inl (Status FailedPrecondition), st')" by (cases ?p) auto
  from takeover_guard [OF _ _ _ _ _ _ p, of "''b''" "[]"] p show ?thesis
    by (simp add: example_cluster_def sub_time_def sat64_def max_int64_def min_int64_def second_def)
qed

text \<open>The migration limit: a third node for a shared volume with two nodes is refused with
  \<^verbatim>\<open>FailedPrecondition\<close>, and the attachment table does not change.\<close>

theorem migration_limit:
  assumes "am_ok (st_am st)" and "drv_attachmentManager d" and "is_rwx req"
    and "length (nodes_of (st_am st) (pr_VolumeId req)) = 2"
    and "pr_NodeId req \<notin> set (nodes_of (st_am st) (pr_VolumeId req))"
    and "publish_checks d req (st_k st) = (None, w)" and "drv_rdsClient d = Some c"
    and "rGetVolume c (pr_VolumeId req) (st_rds st) = (Inr volume, r)"
  shows "ControllerPublishVolume d clk req st = (Inl (Status FailedPrecondition), st\<lparr>st_k := w, st_rds := r\<rparr>)"
proof -
  obtain existing where s: "attachments (st_am st) (pr_VolumeId req) = Some existing"
    using assms(4) by (auto simp: nodes_of_def split: option.splits)
  have "publish_attach d clk req (st\<lparr>st_k := w, st_rds := r\<rparr>) = (Some FailedPrecondition, st\<lparr>st_k := w, st_rds := r\<rparr>)"
    using s assms(3-5) by (simp add: publish_attach_def GetAttachment_def IsAttachedToNode_iff publish_secondary_def
        GetNodeCount_eq)
  with assms(2,6-8) show ?thesis by (simp add: ControllerPublishVolume_def)
qed

theorem migration_limit_witness:
  "\<exists>st. length (nodes_of (st_am st) ''vol-1'') = 2 \<and>
     ControllerPublishVolume example_driver (\<lambda>_. 0) (example_request ''c'' MULTI_NODE_MULTI_WRITER) st =
       (Inl (Status FailedPrecondition), st)"
proof -
  let ?am = "snd (AddSecondaryAttachment 1 1 ''vol-1'' ''a'' 60 (st_am example_busy))"
  let ?st = "example_busy\<lparr>st_am := ?am\<rparr>"
  have n: "nodes_of ?am ''vol-1'' = [''b'', ''a'']"
    by (simp add: AddSecondaryAttachment_def Let_def nodes_of_def new_state_def state_IsAttachedToNode_def)
  have "am_ok ?am" by (rule am_ok_AddSecondary) simp
  then have "ControllerPublishVolume example_driver (\<lambda>_. 0) (example_request ''c'' MULTI_NODE_MULTI_WRITER) ?st =
      (Inl (Status FailedPrecondition), ?st\<lparr>st_k := (), st_rds := st_rds ?st\<rparr>)"
    using n by (intro migration_limit [of _ _ _ _ mock_client example_volume]) simp_all
  with n show ?thesis by (intro exI [of _ ?st]) simp
qed

text \<open>C31. Unpublishing a valid volume from a named node always succeeds and removes exactly that node from the nodes
  of that volume; a repetition changes nothing. The request must name a node: the empty node ID is excluded.\<close>

theorem unpublish_effect:
  assumes "am_ok (st_am st)" and "drv_attachmentManager d" and "ValidateVolumeID v = None" and "n \<noteq> []"
    and "ControllerUnpublishVolume d clk v n st = (res, st')"
    and "ControllerUnpublishVolume d clk' v n st' = (res', st'')"
  shows "res = Inr () \<and> (\<forall>u. nodes_of (st_am st') u =
      (if u = v then removeAll n (nodes_of (st_am st) v) else nodes_of (st_am st) u)) \<and>
    res' = Inr () \<and> st_am st'' = st_am st'"
proof -
  have v: "v \<noteq> []" using assms(3) by (auto simp: ValidateVolumeID_def)
  have res: "fst (ControllerUnpublishVolume d clk v n st) = Inr ()" for clk st
    using v assms(2,3) by (simp add: ControllerUnpublishVolume_def Let_def split: prod.split option.split)
  have am: "st_am st' = fst (snd (RemoveNodeAttachment (drv_k8sClient d) (clk 1) v n (st_am st) (st_k st)))"
    using unpublish_am [of d clk v n st] v assms(2,3,5) by simp
  have nodes: "nodes_of (st_am st') u =
      (if u = v then removeAll n (nodes_of (st_am st) v) else nodes_of (st_am st) u)" for u
    using tracker.nodes_remove [OF assms(1), of "(drv_k8sClient d, clk 1, clk 1, [], 0, st_k st)" v n]
    by (simp add: am am_remove_def split_beta)
  have "am_ok (st_am st')" using assms(1) by (simp add: am inv_intros)
  then have "st_am st'' = st_am st'"
    using unpublish_am [of d clk' v n st'] v assms(2,3,6) nodes [of v] by (simp add: Remove_ok)
  with nodes res [of clk st] res [of clk' st'] assms(5,6) show ?thesis by simp
qed

theorem unpublish_effect_witness:
  "fst (ControllerUnpublishVolume example_driver (\<lambda>_. 5) ''vol-1'' ''b'' example_busy) = Inr () \<and>
   nodes_of (st_am (snd (ControllerUnpublishVolume example_driver (\<lambda>_. 5) ''vol-1'' ''b'' example_busy))) ''vol-1'' = []"
proof -
  obtain res st' where p: "ControllerUnpublishVolume example_driver (\<lambda>_. 5) ''vol-1'' ''b'' example_busy = (res, st')"
    by fastforce
  obtain res' st'' where q: "ControllerUnpublishVolume example_driver (\<lambda>_. 6) ''vol-1'' ''b'' st' = (res', st'')"
    by fastforce
  from unpublish_effect [OF _ _ _ _ p q] show ?thesis by (simp add: p)
qed

subsection \<open>Observations on the source\<close>

text \<open>
  The time of a detach is kept when the volume is attached again, so within the grace period a volume
  that is in use can be taken from its node: here \<open>a\<close> is detached at time 0, \<open>b\<close> attaches one second later
  and is still attached when \<open>c\<close> succeeds after another second.
\<close>

lemma grace_period_hole:
  defines "P \<equiv> \<lambda>t n st. ControllerPublishVolume example_driver (\<lambda>_. t) (example_request n SINGLE_NODE_WRITER) st"
    and "st1 \<equiv> snd (ControllerUnpublishVolume example_driver (\<lambda>_. 0) ''vol-1'' ''b'' example_busy)"
  defines "st2 \<equiv> snd (P second ''a'' st1)"
  shows "nodes_of (st_am st2) ''vol-1'' = [''a'']"
    "nodes_of (st_am (snd (P (2 * second) ''c'' st2))) ''vol-1'' = [''c'']"
proof -
  have am1: "st_am st1 = \<lparr>attachments = Map.empty, detachTimestamps = [''vol-1'' \<mapsto> 0]\<rparr>"
    by (simp add: st1_def unpublish_am Remove_ok) (simp add: example_busy_def fun_eq_iff)
  have st1: "mock_GetVolume ''vol-1'' (st_rds st1) = (Inr example_volume, st_rds st1)"
    by (simp add: st1_def ControllerUnpublishVolume_def Let_def split: prod.split)
  have st2: "st2 = st1\<lparr>st_am := \<lparr>attachments = [''vol-1'' \<mapsto> new_state second ''vol-1'' ''a'' ''RWO''],
      detachTimestamps = [''vol-1'' \<mapsto> 0]\<rparr>, st_k := ()\<rparr>"
    using st1 by (simp add: st2_def P_def example_publish publish_attach_def GetAttachment_def publish_primary_def Let_def
        Track_new persistAttachment_def am1)
  show n2: "nodes_of (st_am st2) ''vol-1'' = [''a'']" by (simp add: st2 nodes_of_def new_state_def)
  have "mock_GetVolume ''vol-1'' (st_rds st2) = (Inr example_volume, st_rds st2)" using st1 by (simp add: st2)
  then show "nodes_of (st_am (snd (P (2 * second) ''c'' st2))) ''vol-1'' = [''c'']"
    using n2 by (simp add: P_def example_publish publish_attach_def GetAttachment_def IsAttachedToNode_iff
        publish_takeover_def Let_def IsWithinGracePeriod_def sub_time_def sat64_def max_int64_def min_int64_def second_def
        split_beta publish_primary_def Track_new Untrack_am persistAttachment_def ClearDetachTimestamp_def st2)
      (simp add: nodes_of_def new_state_def)
qed

text \<open>An empty node ID, which the source's comment calls a forced detach, detaches nothing.\<close>

lemma unpublish_without_node:
  assumes "am_ok (st_am st)" "[] \<notin> set (nodes_of (st_am st) v)"
  shows "st_am (snd (ControllerUnpublishVolume d clk v [] st)) = st_am st"
  using assms by (simp add: unpublish_am Remove_ok)

end
