(* ===== verification/RouterOS.thy ===== *)
theory RouterOS
  imports GoRegex PathValidation RdsClient
begin

text \<open>
  The text layer of the SSH client: what \<^verbatim>\<open>pkg/rds/commands.go\<close> prints into RouterOS commands and what it
  reads from their output. The regular expressions are transcribed with the constructors of \<open>GoRegex\<close>; a
  quoted field is \<^verbatim>\<open>key="value"\<close>, a bare one \<^verbatim>\<open>key=value\<close>. \<^verbatim>\<open>strconv.ParseFloat\<close> on decimal text, the binary64
  product with a power of two and the conversion to \<open>int64\<close> are written out on integers, \<^verbatim>\<open>time.Parse\<close> for the
  two layouts of the source.
\<close>

subsection \<open>Lines\<close>

abbreviation nl :: char where
  "nl \<equiv> CHR 0x0A"

abbreviation dq :: char where
  "dq \<equiv> CHR 0x22"

definition TrimRight_cr :: "string \<Rightarrow> string" where
  "TrimRight_cr s = rev (dropWhile (\<lambda>c. c = CHR 0x0D) (rev s))"

definition normalize_line :: "string \<Rightarrow> string \<Rightarrow> string" where
  "normalize_line normalized line =
     (let line = TrimRight_cr line
      in if HasPrefix line ''Flags:'' \<or> Contains line ''disabled'' then normalized
         else if line \<noteq> [] \<and> (hd line = CHR '' '' \<or> hd line = CHR 0x09)
         then normalized @ '' '' @ TrimSpace line
         else (if normalized \<noteq> [] then normalized @ [nl] else normalized) @ line)"

definition normalizeRouterOSOutput :: "string \<Rightarrow> string" where
  "normalizeRouterOSOutput output = foldl normalize_line [] (Split nl output)"

subsection \<open>Sizes\<close>

definition KB :: int where "KB = 1024"
definition MB :: int where "MB = 1024 * KB"
definition GB :: int where "GB = 1024 * MB"
definition TB :: int where "TB = 1024 * GB"

text \<open>The quotients are of non-negative numbers, where Go's division agrees with \<open>div\<close>.\<close>

definition formatBytes :: "int \<Rightarrow> string" where
  "formatBytes bytes =
     (if bytes \<ge> TB then Itoa (bytes div TB) @ ''T''
      else if bytes \<ge> GB then Itoa (bytes div GB) @ ''G''
      else if bytes \<ge> MB then Itoa (bytes div MB) @ ''M''
      else if bytes \<ge> KB then Itoa (bytes div KB) @ ''K''
      else Itoa bytes)"

text \<open>Decimal text without exponent: the digits without the point, and how many follow the point.\<close>

definition parse_decimal :: "string \<Rightarrow> (nat \<times> nat) option" where
  "parse_decimal s =
     (case Split (CHR ''.'') s of
        [a] \<Rightarrow> if a \<noteq> [] \<and> list_all is_digit a then Some (digits_val a, 0) else None
      | [a, b] \<Rightarrow> if a @ b \<noteq> [] \<and> list_all is_digit (a @ b) then Some (digits_val (a @ b), length b) else None
      | _ \<Rightarrow> None)"

fun bits :: "nat \<Rightarrow> nat" where
  "bits n = (if n = 0 then 0 else Suc (bits (n div 2)))"

declare bits.simps [simp del]

text \<open>
  The binary64 number nearest to \<open>p / q\<close>, ties to even, as a significand and an exponent. Subnormal
  numbers are not told apart: they end up as 0 in every use below.
\<close>

definition round_quot :: "nat \<Rightarrow> nat \<Rightarrow> nat" where
  "round_quot a b = (let m = a div b; r = a mod b in if 2 * r > b \<or> 2 * r = b \<and> odd m then m + 1 else m)"

definition scaled :: "nat \<Rightarrow> nat \<Rightarrow> int \<Rightarrow> nat \<times> nat" where
  "scaled p q e = (if e \<ge> 0 then (p, q * 2 ^ nat e) else (p * 2 ^ nat (- e), q))"

definition float64 :: "nat \<Rightarrow> nat \<Rightarrow> nat \<times> int" where
  "float64 p q =
     (if p = 0 then (0, 0)
      else let e0 = int (bits p) - int (bits q) - 53;
               e = (case scaled p q e0 of (a, b) \<Rightarrow> if a \<ge> b * 2 ^ 53 then e0 + 1 else e0)
           in (case scaled p q e of (a, b) \<Rightarrow> (round_quot a b, e)))"

type_synonym f64 = "nat \<times> int"

definition ParseFloat :: "string \<Rightarrow> f64 option" where
  "ParseFloat s =
     (case parse_decimal s of
        None \<Rightarrow> None
      | Some (d, k) \<Rightarrow> if d \<ge> (2 ^ 1024 - 2 ^ 970) * 10 ^ k then None else Some (float64 d (10 ^ k)))"

text \<open>\<^verbatim>\<open>int64(num * float64(1 << k))\<close>: the product is exact, the conversion drops the fraction and gives the
  least \<open>int64\<close> when the value does not fit, as on amd64.\<close>

definition float_shift_int :: "nat \<times> int \<Rightarrow> nat \<Rightarrow> int" where
  "float_shift_int f k =
     (case f of (m, e) \<Rightarrow>
        let x = e + int k; v = (if x \<ge> 0 then int m * 2 ^ nat x else int m div 2 ^ nat (- x))
        in if v \<le> max_int64 then v else min_int64)"

definition unit_shift :: "string \<Rightarrow> nat" where
  "unit_shift unit =
     (let u = ToUpper unit
      in if u \<in> {''KIB'', ''KB'', ''K''} then 10 else if u \<in> {''MIB'', ''MB'', ''M''} then 20
         else if u \<in> {''GIB'', ''GB'', ''G''} then 30 else if u \<in> {''TIB'', ''TB'', ''T''} then 40 else 0)"

definition parseSize :: "string \<Rightarrow> string \<Rightarrow> int option" where
  "parseSize value unit =
     map_option (\<lambda>num. float_shift_int num (unit_shift unit)) (ParseFloat value)"

subsection \<open>Times\<close>

text \<open>\<^verbatim>\<open>getnum\<close> of package time: one or two digits, or exactly two.\<close>

definition getnum :: "string \<Rightarrow> bool \<Rightarrow> (nat \<times> string) option" where
  "getnum s fixed =
     (case s of
        c # d # r \<Rightarrow> if \<not> is_digit c then None
                    else if is_digit d then Some (10 * digit_val c + digit_val d, r)
                    else if fixed then None else Some (digit_val c, d # r)
      | [c] \<Rightarrow> if is_digit c \<and> \<not> fixed then Some (digit_val c, []) else None
      | [] \<Rightarrow> None)"

definition get_year :: "string \<Rightarrow> (nat \<times> string) option" where
  "get_year s = (if length s \<ge> 4 \<and> list_all is_digit (take 4 s) then Some (digits_val (take 4 s), drop 4 s) else None)"

definition skip_char :: "char \<Rightarrow> string \<Rightarrow> string option" where
  "skip_char c s = (case s of d # r \<Rightarrow> if c = d then Some r else None | [] \<Rightarrow> None)"

definition skip_blanks :: "string \<Rightarrow> string option" where
  "skip_blanks s = (if s \<noteq> [] \<and> hd s \<noteq> CHR '' '' then None else Some (dropWhile (\<lambda>c. c = CHR '' '') s))"

definition is_leap :: "nat \<Rightarrow> bool" where
  "is_leap y \<longleftrightarrow> y mod 4 = 0 \<and> (y mod 100 \<noteq> 0 \<or> y mod 400 = 0)"

definition days_in :: "nat \<Rightarrow> nat \<Rightarrow> nat" where
  "days_in m y = (if m = 2 then (if is_leap y then 29 else 28) else if m \<in> {4, 6, 9, 11} then 30 else 31)"

text \<open>Days from January 1, 1970, in the proleptic Gregorian calendar.\<close>

definition days_before_year :: "nat \<Rightarrow> int" where
  "days_before_year y = (let z = int y - 1 in 365 * z + z div 4 - z div 100 + z div 400 - 719162)"

definition days_from_civil :: "nat \<Rightarrow> nat \<Rightarrow> nat \<Rightarrow> int" where
  "days_from_civil y m d = days_before_year y + int (sum_list (map (\<lambda>i. days_in i y) [1..<m])) + int d - 1"

definition Date :: "nat \<Rightarrow> nat \<Rightarrow> nat \<Rightarrow> nat \<Rightarrow> nat \<Rightarrow> nat \<Rightarrow> time" where
  "Date y mo d h mi s =
     (((days_from_civil y mo d * 24 + int h) * 60 + int mi) * 60 + int s) * 1000000000"

text \<open>The time of day, \<^verbatim>\<open>15:04:05\<close>, up to the end of the text.\<close>

definition parse_clock :: "string \<Rightarrow> (nat \<times> nat \<times> nat) option" where
  "parse_clock s = Option.bind (getnum s False) (\<lambda>(h, s). if h \<ge> 24 then None else
     Option.bind (skip_char (CHR '':'') s) (\<lambda>s. Option.bind (getnum s True) (\<lambda>(mi, s). if mi \<ge> 60 then None else
     Option.bind (skip_char (CHR '':'') s) (\<lambda>s. Option.bind (getnum s True) (\<lambda>(sec, s). if sec \<ge> 60 then None else
     if s \<noteq> [] then None else Some (h, mi, sec))))))"

definition finish_date :: "nat \<Rightarrow> nat \<Rightarrow> nat \<Rightarrow> nat \<times> nat \<times> nat \<Rightarrow> time option" where
  "finish_date y mo d = (\<lambda>(h, mi, s). if d < 1 \<or> d > days_in mo y then None else Some (Date y mo d h mi s))"

text \<open>\<^verbatim>\<open>time.Parse("2006-01-02 15:04:05", s)\<close>.\<close>

definition parse_iso_time :: "string \<Rightarrow> time option" where
  "parse_iso_time s = Option.bind (get_year s) (\<lambda>(y, s). Option.bind (skip_char (CHR ''-'') s) (\<lambda>s.
     Option.bind (getnum s True) (\<lambda>(mo, s). if mo = 0 \<or> mo > 12 then None else
     Option.bind (skip_char (CHR ''-'') s) (\<lambda>s. Option.bind (getnum s True) (\<lambda>(d, s).
     Option.bind (skip_blanks s) (\<lambda>s. Option.bind (parse_clock s) (finish_date y mo d)))))))"

definition month_names :: "string list" where
  "month_names = [''jan'', ''feb'', ''mar'', ''apr'', ''may'', ''jun'', ''jul'', ''aug'', ''sep'', ''oct'', ''nov'', ''dec'']"

definition lookup_month :: "string \<Rightarrow> (nat \<times> string) option" where
  "lookup_month s =
     (case filter (\<lambda>i. ToLower (take 3 s) = month_names ! i) [0..<12] of
        i # _ \<Rightarrow> Some (Suc i, drop 3 s) | [] \<Rightarrow> None)"

text \<open>\<^verbatim>\<open>time.Parse("Jan/02/2006 15:04:05", s)\<close>.\<close>

definition parse_month_time :: "string \<Rightarrow> time option" where
  "parse_month_time s = Option.bind (lookup_month s) (\<lambda>(mo, s). Option.bind (skip_char (CHR ''/'') s) (\<lambda>s.
     Option.bind (getnum s True) (\<lambda>(d, s). Option.bind (skip_char (CHR ''/'') s) (\<lambda>s.
     Option.bind (get_year s) (\<lambda>(y, s). Option.bind (skip_blanks s) (\<lambda>s.
     Option.bind (parse_clock s) (finish_date y mo d)))))))"

definition is_letter :: "char \<Rightarrow> bool" where
  "is_letter c \<longleftrightarrow> is_lower c \<or> is_upper c"

definition iso_pattern :: "string \<Rightarrow> rx" where
  "iso_pattern fieldPrefix = RSeq (rx_lit fieldPrefix) (RGrp (rx_seq
     [rx_rep 4 (RCls is_digit), rx_lit ''-'', rx_rep 2 (RCls is_digit), rx_lit ''-'', rx_rep 2 (RCls is_digit),
      rx_plus (RCls rx_space), rx_plus (RCls is_digit), rx_lit '':'', rx_plus (RCls is_digit), rx_lit '':'',
      rx_plus (RCls is_digit)]))"

definition month_pattern :: "string \<Rightarrow> rx" where
  "month_pattern fieldPrefix = RSeq (rx_lit fieldPrefix) (RGrp (rx_seq
     [rx_plus (RCls is_letter), rx_lit ''/'', rx_plus (RCls is_digit), rx_lit ''/'', rx_plus (RCls is_digit),
      rx_plus (RCls rx_space), rx_plus (RCls is_digit), rx_lit '':'', rx_plus (RCls is_digit), rx_lit '':'',
      rx_plus (RCls is_digit)]))"

definition title_month :: "string \<Rightarrow> string" where
  "title_month t = (if length t \<ge> 3 then ToUpper (take 1 t) @ ToLower (take 2 (drop 1 t)) @ drop 3 t else t)"

definition parse_time_field :: "string \<Rightarrow> string \<Rightarrow> time option" where
  "parse_time_field normalized fieldPrefix =
     (case Option.bind (FindGroup1 (iso_pattern fieldPrefix) normalized) parse_iso_time of
        Some t \<Rightarrow> Some t
      | None \<Rightarrow> Option.bind (FindGroup1 (month_pattern fieldPrefix) normalized) (\<lambda>g. parse_month_time (title_month g)))"

definition parseRouterOSTime :: "string \<Rightarrow> time" where
  "parseRouterOSTime normalized =
     (case parse_time_field normalized ''creation-time='' of
        Some t \<Rightarrow> t
      | None \<Rightarrow> (case parse_time_field normalized ''last-modified='' of Some t \<Rightarrow> t | None \<Rightarrow> zero_time))"

subsection \<open>Fields\<close>

definition not_dq :: "char \<Rightarrow> bool" where
  "not_dq c \<longleftrightarrow> c \<noteq> dq"

definition not_space :: "char \<Rightarrow> bool" where
  "not_space c \<longleftrightarrow> \<not> rx_space c"

definition not_dq_space :: "char \<Rightarrow> bool" where
  "not_dq_space c \<longleftrightarrow> c \<noteq> dq \<and> \<not> rx_space c"

definition digit_or_space :: "char \<Rightarrow> bool" where
  "digit_or_space c \<longleftrightarrow> is_digit c \<or> rx_space c"

definition digit_or_dot :: "char \<Rightarrow> bool" where
  "digit_or_dot c \<longleftrightarrow> is_digit c \<or> c = CHR ''.''"

definition quoted_field :: "string \<Rightarrow> rx" where \<comment> \<open>\<^verbatim>\<open>key="([^"]+)"\<close>\<close>
  "quoted_field key = RSeq (rx_lit (key @ ''='' @ [dq])) (RSeq (RGrp (rx_plus (RCls not_dq))) (rx_lit [dq]))"

definition class_field :: "string \<Rightarrow> (char \<Rightarrow> bool) \<Rightarrow> rx" where \<comment> \<open>\<^verbatim>\<open>key=([class]+)\<close>\<close>
  "class_field key P = RSeq (rx_lit (key @ ''='')) (RGrp (rx_plus (RCls P)))"

definition optquoted_field :: "string \<Rightarrow> rx" where \<comment> \<open>\<^verbatim>\<open>key="?([^"\s]+)"?\<close>\<close>
  "optquoted_field key = RSeq (rx_lit (key @ ''='')) (RSeq (rx_opt (RCls (\<lambda>c. c = dq)))
     (RSeq (RGrp (rx_plus (RCls not_dq_space))) (rx_opt (RCls (\<lambda>c. c = dq)))))"

definition img_field :: rx where \<comment> \<open>\<^verbatim>\<open>file-path=(\S+\.img)\<close>\<close>
  "img_field = RSeq (rx_lit ''file-path='') (RGrp (RSeq (rx_plus (RCls not_space)) (rx_lit ''.img'')))"

definition split_img_field :: rx where \<comment> \<open>\<^verbatim>\<open>file-path=(\S+\s+\S+\.img)\<close>\<close>
  "split_img_field = RSeq (rx_lit ''file-path='') (RGrp (rx_seq [rx_plus (RCls not_space), rx_plus (RCls rx_space),
     rx_plus (RCls not_space), rx_lit ''.img'']))"

definition unit_letter :: "char \<Rightarrow> bool" where
  "unit_letter c \<longleftrightarrow> c \<in> set ''KMGT''"

definition human_size_field :: "string \<Rightarrow> rx" where \<comment> \<open>\<^verbatim>\<open>key=([\d.]+)\s*([KMGT]i?B)\<close>\<close>
  "human_size_field key = RSeq (rx_lit (key @ ''='')) (RSeq (RGrp (rx_plus (RCls digit_or_dot)))
     (RSeq (RStar (RCls rx_space)) (RGrp (rx_seq [RCls unit_letter, rx_opt (rx_lit ''i''), rx_lit ''B'']))))"

definition export_field :: rx where \<comment> \<open>\<^verbatim>\<open>nvme-tcp-export=(yes|no)\<close>\<close>
  "export_field = RSeq (rx_lit ''nvme-tcp-export='') (RGrp (RAlt (rx_lit ''yes'') (rx_lit ''no'')))"

definition entry_number :: rx where \<comment> \<open>\<^verbatim>\<open>(?m)^\s*\d+\s+\<close>\<close>
  "entry_number = RSeq RBegLine (RSeq (RStar (RCls rx_space)) (RSeq (rx_plus (RCls is_digit)) (rx_plus (RCls rx_space))))"

definition slot_of :: "string \<Rightarrow> string" where
  "slot_of normalized =
     (case FindGroup1 (quoted_field ''slot'') normalized of
        Some g \<Rightarrow> g
      | None \<Rightarrow> (case FindGroup1 (class_field ''slot'' not_space) normalized of Some g \<Rightarrow> g | None \<Rightarrow> []))"

definition make_abs :: "string \<Rightarrow> string" where
  "make_abs path = (if path \<noteq> [] \<and> \<not> HasPrefix path ''/'' then ''/'' @ path else path)"

definition file_path_of :: "string \<Rightarrow> string" where
  "file_path_of normalized = make_abs
     (case FindGroup1 (quoted_field ''file-path'') normalized of
        Some g \<Rightarrow> g
      | None \<Rightarrow> (case FindGroup1 img_field normalized of
          Some g \<Rightarrow> g
        | None \<Rightarrow> (case FindGroup1 split_img_field normalized of
            Some g \<Rightarrow> remove_char (CHR '' '') g
          | None \<Rightarrow> [])))"

text \<open>A number with blanks between its digits; 0 when it is missing or does not fit.\<close>

definition spaced_int :: "string \<Rightarrow> string \<Rightarrow> int" where
  "spaced_int key normalized =
     (case FindGroup1 (class_field key digit_or_space) normalized of
        None \<Rightarrow> 0
      | Some g \<Rightarrow> (case Atoi (remove_char (CHR '' '') g) of Some n \<Rightarrow> n | None \<Rightarrow> 0))"

definition human_size :: "string \<Rightarrow> string \<Rightarrow> int option" where
  "human_size key normalized =
     (case FindGroups (human_size_field key) normalized of
        Some [value, unit] \<Rightarrow> Some (case parseSize value unit of Some n \<Rightarrow> n | None \<Rightarrow> 0)
      | _ \<Rightarrow> None)"

definition status_of :: "string \<Rightarrow> string \<Rightarrow> bool \<Rightarrow> string" where
  "status_of normalized ty export =
     (case FindGroup1 (optquoted_field ''status'') normalized of
        Some g \<Rightarrow> g
      | None \<Rightarrow> if ty = ''file'' \<and> export then ''ready'' else ''unknown'')"

definition type_of :: "string \<Rightarrow> string" where
  "type_of normalized = (case FindGroup1 (optquoted_field ''type'') normalized of Some g \<Rightarrow> g | None \<Rightarrow> [])"

subsection \<open>Entries\<close>

text \<open>The parsers of entries never fail, their error result is nil in every case.\<close>

definition parse_port :: "string \<Rightarrow> int" where
  "parse_port normalized =
     (case FindGroup1 (class_field ''nvme-tcp-server-port'' is_digit) normalized of
        None \<Rightarrow> 0
      | Some g \<Rightarrow> (case Atoi g of Some n \<Rightarrow> n | None \<Rightarrow> 0))"

definition parseVolumeInfo :: "string \<Rightarrow> VolumeInfo" where
  "parseVolumeInfo output =
     (let normalized = normalizeRouterOSOutput output;
          ty = type_of normalized;
          export = (FindGroup1 export_field normalized = Some ''yes'')
      in \<lparr> vi_Slot = slot_of normalized, vi_Type = ty, vi_FilePath = file_path_of normalized,
           vi_FileSizeBytes = (case human_size ''file-size'' normalized of
              Some n \<Rightarrow> n | None \<Rightarrow> spaced_int ''size'' normalized),
           vi_NVMETCPExport = export, vi_NVMETCPPort = parse_port normalized,
           vi_NVMETCPNQN = (case FindGroup1 (quoted_field ''nvme-tcp-server-nqn'') normalized of Some g \<Rightarrow> g | None \<Rightarrow> []),
           vi_Status = status_of normalized ty export \<rparr>)"

definition parseVolumeList :: "string \<Rightarrow> VolumeInfo list" where
  "parseVolumeList output =
     map parseVolumeInfo (filter (\<lambda>entry. TrimSpace entry \<noteq> []) (RegexSplit entry_number output))"

definition parseCapacityInfo :: "string \<Rightarrow> goerr + CapacityInfo" where
  "parseCapacityInfo output =
     (let normalized = normalizeRouterOSOutput output;
          total = spaced_int ''size'' normalized;
          free = spaced_int ''free'' normalized
      in if total = 0 then Inl (GoErr ''could not parse capacity from output'')
         else Inr \<lparr> ci_TotalBytes = total, ci_FreeBytes = free,
                    ci_UsedBytes = (if total > 0 \<and> free > 0 then wrap64 (total - free) else 0) \<rparr>)"

definition parseFileInfo :: "string \<Rightarrow> FileInfo" where
  "parseFileInfo output =
     (let normalized = normalizeRouterOSOutput output;
          path = make_abs
            (case FindGroup1 (quoted_field ''name'') normalized of
               Some g \<Rightarrow> g
             | None \<Rightarrow> (case FindGroup1 (class_field ''name'' not_space) normalized of Some g \<Rightarrow> g | None \<Rightarrow> []))
      in \<lparr> fi_Name = (if path \<noteq> [] then last (Split (CHR ''/'') path) else []), fi_Path = path,
           fi_SizeBytes = (case human_size ''file size'' normalized of
              Some n \<Rightarrow> n | None \<Rightarrow> spaced_int ''size'' normalized),
           fi_Type = type_of normalized, fi_CreatedAt = parseRouterOSTime normalized \<rparr>)"

definition parseFileList :: "string \<Rightarrow> FileInfo list" where
  "parseFileList output =
     map parseFileInfo (filter (\<lambda>entry. TrimSpace entry \<noteq> [])
       (RegexSplit entry_number (normalizeRouterOSOutput output)))"

definition parseSnapshotInfo :: "string \<Rightarrow> SnapshotInfo" where
  "parseSnapshotInfo output =
     (let normalized = normalizeRouterOSOutput output
      in \<lparr> si_Name = slot_of normalized,
           si_SourceVolume = (case FindGroup1 (quoted_field ''source-volume'') normalized of
              Some g \<Rightarrow> g
            | None \<Rightarrow> (case FindGroup1 (class_field ''source-volume'' not_space) normalized of Some g \<Rightarrow> g | None \<Rightarrow> [])),
           si_FileSizeBytes = (case human_size ''file-size'' normalized of
              Some n \<Rightarrow> n
            | None \<Rightarrow> (case FindGroup1 (class_field ''file-size'' is_digit) normalized of
                None \<Rightarrow> 0 | Some g \<Rightarrow> (case Atoi g of Some n \<Rightarrow> n | None \<Rightarrow> 0))),
           si_CreatedAt = parseRouterOSTime normalized, si_FilePath = file_path_of normalized \<rparr>)"

definition parseSnapshotList :: "string \<Rightarrow> SnapshotInfo list" where
  "parseSnapshotList output =
     filter (\<lambda>snapshot. HasPrefix (si_Name snapshot) SnapshotIDPrefix)
       (map parseSnapshotInfo (filter (\<lambda>entry. TrimSpace entry \<noteq> []) (RegexSplit entry_number output)))"

subsection \<open>Disk metrics\<close>

record DiskMetrics =
  dm_Slot :: string
  dm_ReadOpsPerSecond :: f64
  dm_WriteOpsPerSecond :: f64
  dm_ReadBytesPerSec :: f64
  dm_WriteBytesPerSec :: f64
  dm_ReadTimeMs :: f64
  dm_WriteTimeMs :: f64
  dm_WaitTimeMs :: f64
  dm_InFlightOps :: f64
  dm_ActiveTimeMs :: f64

text \<open>Product with a whole number, rounded; the quotient by 8 is exact. Results beyond the largest binary64 number do
  not occur for rates that a disk can have and are not told apart.\<close>

definition f64_times :: "f64 \<Rightarrow> nat \<Rightarrow> f64" where
  "f64_times f n = (case f of (m, e) \<Rightarrow> case float64 (m * n) 1 of (m', e') \<Rightarrow> (m', e + e'))"

definition f64_div8 :: "f64 \<Rightarrow> f64" where
  "f64_div8 f = (case f of (m, e) \<Rightarrow> if m = 0 then (0, 0) else (m, e - 3))"

definition convertRateToBytesPerSec :: "f64 \<Rightarrow> string \<Rightarrow> f64" where
  "convertRateToBytesPerSec value unit =
     (if unit = ''bps'' then f64_div8 value
      else if unit = ''kbps'' \<or> unit = ''Kbps'' then f64_div8 (f64_times value 1000)
      else if unit = ''Mbps'' then f64_div8 (f64_times value 1000000)
      else if unit = ''Gbps'' then f64_div8 (f64_times value 1000000000)
      else value)"

definition metric_value :: "string \<Rightarrow> (char \<Rightarrow> bool) \<Rightarrow> rx \<Rightarrow> rx" where \<comment> \<open>\<^verbatim>\<open>key:\s+([class]+)...\<close>\<close>
  "metric_value key P rest = rx_seq [rx_lit (key @ '':''), rx_plus (RCls rx_space), RGrp (rx_plus (RCls P)), rest]"

definition float_field :: "rx \<Rightarrow> string \<Rightarrow> f64" where
  "float_field r output = (case Option.bind (FindGroup1 r output) ParseFloat of Some f \<Rightarrow> f | None \<Rightarrow> (0, 0))"

definition rate_field :: "string \<Rightarrow> string \<Rightarrow> f64" where
  "rate_field key output =
     (case FindGroups (metric_value key digit_or_dot (RSeq (RStar (RCls rx_space)) (RGrp (rx_plus (RCls is_word))))) output of
        Some [value, unit] \<Rightarrow> (case ParseFloat value of Some f \<Rightarrow> convertRateToBytesPerSec f unit | None \<Rightarrow> (0, 0))
      | _ \<Rightarrow> (0, 0))"

definition parseDiskMetrics :: "string \<Rightarrow> DiskMetrics" where
  "parseDiskMetrics output =
     (let whole = (\<lambda>key. float_field (metric_value key is_digit REps) output);
          millis = (\<lambda>key. float_field (metric_value key digit_or_dot (RSeq (RStar (RCls rx_space)) (rx_lit ''ms''))) output)
      in \<lparr> dm_Slot = [], dm_ReadOpsPerSecond = whole ''read-ops-per-second'', dm_WriteOpsPerSecond = whole ''write-ops-per-second'',
           dm_ReadBytesPerSec = rate_field ''read-rate'' output, dm_WriteBytesPerSec = rate_field ''write-rate'' output,
           dm_ReadTimeMs = millis ''read-time'', dm_WriteTimeMs = millis ''write-time'', dm_WaitTimeMs = millis ''wait-time'',
           dm_InFlightOps = whole ''in-flight-ops'', dm_ActiveTimeMs = millis ''active-time'' \<rparr>)"

subsection \<open>Arguments of commands\<close>

definition slotNamePattern :: rx where \<comment> \<open>\<^verbatim>\<open>^[a-zA-Z0-9-]+$\<close>\<close>
  "slotNamePattern = rx_seq [RBeg, rx_plus (RCls slot_char), REnd]"

definition validateSlotName :: "string \<Rightarrow> goerr option" where
  "validateSlotName slot =
     (if slot = [] then Some (GoErr ''slot name cannot be empty'')
      else if \<not> MatchString slotNamePattern slot
      then Some (GoErr (''invalid slot name format: '' @ slot @ '' (only alphanumeric and hyphen allowed)''))
      else None)"

text \<open>The default port is stored in the callee's copy of the options and has no effect.\<close>

definition validateCreateVolumeOptions :: "string list \<Rightarrow> CreateVolumeOptions \<Rightarrow> goerr option" where
  "validateCreateVolumeOptions allowed opts =
     (if co_Slot opts = [] then Some (GoErr ''slot is required'')
      else (case validateSlotName (co_Slot opts) of
        Some err \<Rightarrow> Some err
      | None \<Rightarrow>
          if co_FilePath opts = [] then Some (GoErr ''file path is required'')
          else (case ValidateFilePath allowed (co_FilePath opts) of
            Some err \<Rightarrow> Some (wrap_err ''security validation failed for file path: '' err)
          | None \<Rightarrow>
              if co_FileSizeBytes opts \<le> 0 then Some (GoErr ''file size must be positive'')
              else if co_NVMETCPNQN opts = [] then Some (GoErr ''NVMe/TCP NQN is required'')
              else None)))"

definition extractMountPoint :: "string \<Rightarrow> string" where
  "extractMountPoint path = hd (Split (CHR ''/'') (TrimPrefix path ''/''))"

text \<open>\<^verbatim>\<open>regexp.QuoteMeta\<close>.\<close>

definition QuoteMeta :: "string \<Rightarrow> string" where
  "QuoteMeta s = concat (map (\<lambda>c. if c \<in> set [CHR 0x5C, CHR ''.'', CHR ''+'', CHR ''*'', CHR ''?'', CHR ''('', CHR '')'',
     CHR ''|'', CHR ''['', CHR '']'', CHR ''{'', CHR ''}'', CHR ''^'', CHR ''$''] then [CHR 0x5C, c] else [c]) s)"

end
