(* ===== verification/RouterText.thy ===== *)
theory RouterText
  imports RouterOS
begin

text \<open>
  How the field patterns of \<^verbatim>\<open>pkg/rds/commands.go\<close> read a text. A pattern \<^verbatim>\<open>key=...\<close> whose key has no \<^verbatim>\<open>=\<close> can only
  match where the part of the text before some \<^verbatim>\<open>=\<close> ends in the key; so the leftmost-first search of the regular
  expression is a scan of the parts between the \<^verbatim>\<open>=\<close> signs (\<open>FindGroups_field\<close>), with one reader for each kind of
  value (\<open>class_at\<close>, \<open>quoted_at\<close>, \<open>optquoted_at\<close>, \<open>export_at\<close>, \<open>human_at\<close>). The lemmas \<open>field_scans\<close> replace the
  search by the scan.
\<close>

subsection \<open>Fields in a text\<close>

definition first_run :: "rx \<Rightarrow> char option \<Rightarrow> string \<Rightarrow> (char option \<times> string \<times> string list) option" where
  "first_run r p s = (case rx_run r p s of [] \<Rightarrow> None | x # _ \<Rightarrow> Some x)"

fun scan :: "string \<Rightarrow> (string \<Rightarrow> 'a option) \<Rightarrow> string \<Rightarrow> 'a option" where
  "scan k f [] = None"
| "scan k f (c # s) =
     (if HasPrefix (c # s) k
      then (case f (drop (length k) (c # s)) of Some x \<Rightarrow> Some x | None \<Rightarrow> scan k f s)
      else scan k f s)"

fun field_scan :: "string \<Rightarrow> (string \<Rightarrow> 'a option) \<Rightarrow> string list \<Rightarrow> 'a option" where
  "field_scan k f (p # q # ps) =
     (if HasSuffix p k
      then (case f (Join (CHR ''='') (q # ps)) of Some x \<Rightarrow> Some x | None \<Rightarrow> field_scan k f (q # ps))
      else field_scan k f (q # ps))"
| "field_scan k f _ = None"

lemma rx_run_lit:
  "rx_run (rx_lit k) p s = (if HasPrefix s k then [(after p k, drop (length k) s, [])] else [])"
proof (induction k arbitrary: p s)
  case (Cons c k)
  then show ?case
    by (cases s) (auto simp: HasPrefix_def)
qed simp

lemma rx_run_lit_Seq:
  "rx_run (RSeq (rx_lit k) r) p s = (if HasPrefix s k then rx_run r (after p k) (drop (length k) s) else [])"
  by (simp add: rx_run_lit case_prod_beta)

lemma rx_find_lit:
  assumes "k \<noteq> []"
  shows "map_option (\<lambda>(pre, p1, s1, cs). cs) (rx_find (RSeq (rx_lit k) r) p s) =
    map_option (snd \<circ> snd) (scan k (first_run r (Some (last k))) s)"
proof (induction s arbitrary: p)
  case Nil
  then show ?case using assms by (simp add: rx_run_lit_Seq HasPrefix_def del: rx_run.simps)
next
  case (Cons c s)
  let ?R = "rx_run (RSeq (rx_lit k) r) p (c # s)"
  have run: "?R = (if HasPrefix (c # s) k then rx_run r (Some (last k)) (drop (length k) (c # s)) else [])"
    using assms by (simp only: rx_run_lit_Seq after_def if_False)
  show ?case
  proof (cases ?R)
    case Nil
    have "scan k (first_run r (Some (last k))) (c # s) = scan k (first_run r (Some (last k))) s"
      using Nil unfolding run by (auto simp: first_run_def split: if_splits)
    moreover have "map_option (\<lambda>(pre, p1, s1, cs). cs) (rx_find (RSeq (rx_lit k) r) p (c # s)) =
        map_option (\<lambda>(pre, p1, s1, cs). cs) (rx_find (RSeq (rx_lit k) r) (Some c) s)"
      using Nil by (simp del: rx_run.simps split: option.splits prod.splits)
    ultimately show ?thesis using Cons.IH by simp
  next
    case (Cons x xs)
    obtain p1 s1 cs where x: "x = (p1, s1, cs)" by (cases x)
    have "HasPrefix (c # s) k" "rx_run r (Some (last k)) (drop (length k) (c # s)) = (p1, s1, cs) # xs"
      using Cons x unfolding run by (auto split: if_splits)
    moreover have "rx_find (RSeq (rx_lit k) r) p (c # s) = Some ([], p1, s1, cs)"
      using Cons x by (simp del: rx_run.simps)
    ultimately show ?thesis by (simp add: first_run_def)
  qed
qed

lemma scan_map: "map_option g (scan k f s) = scan k (\<lambda>t. map_option g (f t)) s"
  by (induction s) (auto split: option.splits)

lemma HasSuffix_Cons: "HasSuffix (c # w) k \<longleftrightarrow> k = c # w \<or> HasSuffix w k"
  by (auto simp: HasSuffix_iff Cons_eq_append_conv)

lemma HasPrefix_upto_eq:
  assumes "CHR ''='' \<notin> set w" "CHR ''='' \<notin> set k"
  shows "HasPrefix (w @ CHR ''='' # t) (k @ ''='') \<longleftrightarrow> w = k"
proof -
  have "takeWhile (\<lambda>c. c \<noteq> CHR ''='') (v @ CHR ''='' # t) = v" if "CHR ''='' \<notin> set v" for v t
    using that by (induction v) auto
  then have "w = k" if "w @ CHR ''='' # t = k @ CHR ''='' # r" for r
    using that assms by metis
  then show ?thesis by (auto simp: HasPrefix_iff)
qed

lemma scan_part:
  assumes "CHR ''='' \<notin> set w" "CHR ''='' \<notin> set k"
  shows "scan (k @ ''='') f (w @ CHR ''='' # t) =
    (if HasSuffix w k then (case f t of Some x \<Rightarrow> Some x | None \<Rightarrow> scan (k @ ''='') f t) else scan (k @ ''='') f t)"
  using assms(1)
proof (induction w)
  case Nil
  have "HasPrefix (CHR ''='' # t) (k @ ''='') \<longleftrightarrow> k = []" using HasPrefix_upto_eq [of "[]" k t] assms by auto
  then show ?case by (auto simp: HasSuffix_def)
next
  case (Cons c w)
  have pre: "HasPrefix (c # w @ CHR ''='' # t) (k @ ''='') \<longleftrightarrow> k = c # w"
    using HasPrefix_upto_eq [of "c # w" k t] assms Cons.prems by auto
  have "\<not> HasSuffix w (c # w)" by (auto simp: HasSuffix_iff dest: arg_cong [of _ _ length])
  with pre Cons show ?case by (auto simp: HasSuffix_Cons split: option.splits)
qed

lemma scan_nothing:
  assumes "CHR ''='' \<notin> set w"
  shows "scan (k @ ''='') f w = None"
  using assms by (induction w) (auto simp: HasPrefix_iff Cons_eq_append_conv)

lemma scan_Join:
  assumes "CHR ''='' \<notin> set k"
  shows "list_all (\<lambda>w. CHR ''='' \<notin> set w) ps \<Longrightarrow> scan (k @ ''='') f (Join (CHR ''='') ps) = field_scan k f ps"
proof (induction ps)
  case (Cons p ps)
  show ?case
  proof (cases ps)
    case Nil
    with Cons.prems show ?thesis by (simp add: scan_nothing)
  next
    case (Cons q qs)
    with Cons.IH Cons.prems show ?thesis by (simp add: scan_part assms split: option.splits)
  qed
qed simp

lemma FindGroups_field:
  assumes "CHR ''='' \<notin> set k"
  shows "FindGroups (RSeq (rx_lit (k @ ''='')) r) s =
    field_scan k (\<lambda>t. map_option (snd \<circ> snd) (first_run r (Some (CHR ''='')) t)) (Split (CHR ''='') s)"
proof -
  have parts: "list_all (\<lambda>w. CHR ''='' \<notin> set w) (Split (CHR ''='') s)"
    using Split_parts_nosep by (auto simp: list_all_iff)
  have "scan (k @ ''='') f s = field_scan k f (Split (CHR ''='') s)" for f :: "string \<Rightarrow> string list option"
    using scan_Join [OF assms parts, of f] by simp
  then show ?thesis
    by (simp add: FindGroups_def rx_find_lit scan_map del: rx_find.simps)
qed


lemma first_run_None_iff: "first_run r p s = None \<longleftrightarrow> rx_ends r p s = {}"
  by (auto simp: first_run_def rx_ends_def split: list.splits)

lemma first_run_Cls: "first_run (RCls P) p (c # s) = (if P c then Some (Some c, s, []) else None)"
  by (simp add: first_run_def)

lemma first_run_Cls_Nil: "first_run (RCls P) p [] = None"
  by (simp add: first_run_def)

lemma first_run_Eps: "first_run REps p s = Some (p, s, [])"
  by (simp add: first_run_def)

lemma first_run_lit: "first_run (rx_lit k) p s = (if HasPrefix s k then Some (after p k, drop (length k) s, []) else None)"
  by (simp add: first_run_def rx_run_lit)

lemma first_run_Grp:
  "first_run (RGrp r) p s = map_option (\<lambda>(p1, s1, c1). (p1, s1, take (length s - length s1) s # c1)) (first_run r p s)"
  by (simp add: first_run_def split: list.splits)

lemma first_run_Alt:
  "first_run (RAlt a b) p s = (case first_run a p s of Some x \<Rightarrow> Some x | None \<Rightarrow> first_run b p s)"
  by (simp add: first_run_def split: list.splits)

lemma first_run_Seq:
  assumes "first_run a p s = Some (p1, s1, c1)" "first_run b p1 s1 = Some (p2, s2, c2)"
  shows "first_run (RSeq a b) p s = Some (p2, s2, c1 @ c2)"
  using assms by (simp add: first_run_def split: list.splits)

lemma first_run_Seq_groups:
  assumes "first_run a p s = Some (p1, s1, c1)" "first_run b p1 s1 = Some x"
  shows "map_option (snd \<circ> snd) (first_run (RSeq a b) p s) = Some (c1 @ snd (snd x))"
  using assms first_run_Seq [of a p s p1 s1 c1 b] by (cases x) simp

lemma first_run_Seq_fail:
  assumes "first_run a p s = None"
  shows "first_run (RSeq a b) p s = None"
  using assms by (simp add: first_run_def split: list.splits)

lemma first_run_Seq_None:
  assumes "\<And>p1 s1. (p1, s1) \<in> rx_ends a p s \<Longrightarrow> first_run b p1 s1 = None"
  shows "first_run (RSeq a b) p s = None"
  using assms by (fastforce simp: first_run_None_iff rx_ends_Seq)

lemma first_run_Seq_lit:
  "first_run (RSeq (rx_lit k) r) p s = (if HasPrefix s k then first_run r (after p k) (drop (length k) s) else None)"
  by (simp only: first_run_def rx_run_lit_Seq) simp

lemma first_run_Star_Cls:
  "first_run (RStar (RCls P)) p s = Some (after p (takeWhile P s), dropWhile P s, [])"
proof (induction s arbitrary: p)
  case Nil
  then show ?case by (simp add: first_run_def rx_run.simps(9))
next
  case (Cons c s)
  show ?case
    using Cons [of "Some c"]
    by (auto simp: first_run_def rx_run.simps(9) [of "RCls P" p] split: list.splits)
qed

lemma first_run_plus_Cls:
  "first_run (rx_plus (RCls P)) p s =
     (if takeWhile P s = [] then None else Some (after p (takeWhile P s), dropWhile P s, []))"
proof (cases s)
  case Nil
  then show ?thesis by (simp add: rx_plus_def first_run_Seq_fail first_run_Cls_Nil)
next
  case (Cons c t)
  then show ?thesis
    using first_run_Seq [of "RCls P" p s "Some c" t "[]" "RStar (RCls P)"]
    by (auto simp: rx_plus_def first_run_Seq_fail first_run_Cls first_run_Star_Cls)
qed

lemma take_minus_dropWhile [simp]: "take (length s - length (dropWhile P s)) s = takeWhile P s"
proof -
  have "length (takeWhile P s) + length (dropWhile P s) = length s"
    by (metis length_append takeWhile_dropWhile_id)
  then have "length s - length (dropWhile P s) = length (takeWhile P s)" by linarith
  then show ?thesis by (metis takeWhile_eq_take)
qed

lemma first_run_group_plus:
  "first_run (RGrp (rx_plus (RCls P))) p s =
     (if takeWhile P s = [] then None
      else Some (after p (takeWhile P s), dropWhile P s, [takeWhile P s]))"
  by (simp add: first_run_Grp first_run_plus_Cls)


lemma field_scan_map: "map_option g (field_scan k f ps) = field_scan k (\<lambda>t. map_option g (f t)) ps"
  by (induction k f ps rule: field_scan.induct) (auto split: option.splits)

lemma field_scan_cong:
  assumes "\<And>t. f t = g t"
  shows "field_scan k f ps = field_scan k g ps"
proof -
  have "f = g" using assms by auto
  then show ?thesis by simp
qed

lemma FindGroup1_field:
  assumes "CHR ''='' \<notin> set k"
    and "\<And>t. map_option (snd \<circ> snd) (first_run r (Some (CHR ''='')) t) = map_option (\<lambda>w. [w]) (g t)"
  shows "FindGroup1 (RSeq (rx_lit (k @ ''='')) r) s = field_scan k g (Split (CHR ''='') s)"
proof -
  have "FindGroups (RSeq (rx_lit (k @ ''='')) r) s = map_option (\<lambda>w. [w]) (field_scan k g (Split (CHR ''='') s))"
    unfolding FindGroups_field [OF assms(1)] field_scan_map by (rule field_scan_cong) (rule assms(2))
  then show ?thesis by (simp add: FindGroup1_def split: option.splits)
qed

lemma rx_find_cong:
  assumes "\<And>p s. rx_run r p s = rx_run r' p s"
  shows "rx_find r p s = rx_find r' p s"
  by (induction s arbitrary: p) (simp_all add: assms split: list.splits)

lemma FindGroups_cong: "(\<And>p s. rx_run r p s = rx_run r' p s) \<Longrightarrow> FindGroups r s = FindGroups r' s"
  unfolding FindGroups_def using rx_find_cong by metis

lemma HasPrefix_append_iff: "HasPrefix s (a @ b) \<longleftrightarrow> HasPrefix s a \<and> HasPrefix (drop (length a) s) b"
  by (auto simp: HasPrefix_iff)

lemma rx_run_lit_append:
  "rx_run (RSeq (rx_lit (a @ b)) r) p s = rx_run (RSeq (rx_lit a) (RSeq (rx_lit b) r)) p s"
  by (simp only: rx_run_lit_Seq HasPrefix_append_iff after_append length_append drop_drop add.commute) simp

subsection \<open>What a field reads\<close>

definition class_at :: "(char \<Rightarrow> bool) \<Rightarrow> string \<Rightarrow> string option" where
  "class_at P t = (let w = takeWhile P t in if w = [] then None else Some w)"

definition quoted_at :: "string \<Rightarrow> string option" where
  "quoted_at t =
     (case t of
        [] \<Rightarrow> None
      | c # u \<Rightarrow> (let w = takeWhile not_dq u in if c \<noteq> dq \<or> w = [] \<or> w = u then None else Some w))"

definition optquoted_at :: "string \<Rightarrow> string option" where
  "optquoted_at t = class_at not_dq_space (case t of [] \<Rightarrow> [] | c # u \<Rightarrow> if c = dq then u else t)"

lemma class_field_scan:
  assumes "CHR ''='' \<notin> set k"
  shows "FindGroup1 (class_field k P) s = field_scan k (class_at P) (Split (CHR ''='') s)"
  unfolding class_field_def using assms
  by (rule FindGroup1_field) (simp add: first_run_group_plus class_at_def Let_def)

lemma takeWhile_all_iff: "takeWhile P u = u \<longleftrightarrow> dropWhile P u = []"
  by (metis append_Nil2 append_self_conv takeWhile_dropWhile_id)

lemma first_run_quoted:
  "first_run (RSeq (RGrp (rx_plus (RCls not_dq))) (rx_lit [dq])) p u =
     (let w = takeWhile not_dq u
      in if w = [] \<or> w = u then None else Some (Some dq, drop (Suc (length w)) u, [w]))"
proof -
  let ?w = "takeWhile not_dq u" and ?d = "dropWhile not_dq u"
  have u: "u = ?w @ ?d" by simp
  show ?thesis
  proof (cases "?w = [] \<or> ?w = u")
    case True
    then have "rx_ends (RSeq (RGrp (rx_plus (RCls not_dq))) (rx_lit [dq])) p u = {}"
    proof
      assume "?w = []"
      then have "\<not> (\<exists>c v. u = c # v \<and> not_dq c)" by (cases u) auto
      then show ?thesis by (auto simp: rx_simps neq_Nil_conv)
    next
      assume "?w = u"
      then have "dq \<notin> set u" by (metis not_dq_def set_takeWhileD)
      then show ?thesis by (auto simp: rx_simps simp del: rx_lit.simps)
    qed
    with True show ?thesis by (auto simp: first_run_None_iff [symmetric])
  next
    case False
    then have "?d \<noteq> []" by (simp add: takeWhile_all_iff)
    then obtain v where d: "?d = dq # v" by (metis hd_Cons_tl hd_dropWhile not_dq_def)
    have "drop (Suc (length ?w)) u = v" using arg_cong [OF u, of "drop (Suc (length ?w))"] d by simp
    then show ?thesis
      using False d first_run_Seq [of "RGrp (rx_plus (RCls not_dq))" p u "after p ?w" ?d "[?w]" "rx_lit [dq]" "Some dq" v "[]"]
      by (simp add: first_run_group_plus first_run_lit HasPrefix_def Let_def del: rx_lit.simps)
  qed
qed

lemma quoted_field_scan:
  assumes "CHR ''='' \<notin> set k"
  shows "FindGroup1 (quoted_field k) s = field_scan k quoted_at (Split (CHR ''='') s)"
proof -
  let ?r = "RSeq (RGrp (rx_plus (RCls not_dq))) (rx_lit [dq])"
  have "FindGroups (quoted_field k) s = FindGroups (RSeq (rx_lit (k @ ''='')) (RSeq (rx_lit [dq]) ?r)) s"
    unfolding quoted_field_def using rx_run_lit_append [of "k @ ''=''" "[dq]"]
    by (intro FindGroups_cong) (simp del: rx_run.simps rx_lit.simps)
  then have "FindGroup1 (quoted_field k) s = FindGroup1 (RSeq (rx_lit (k @ ''='')) (RSeq (rx_lit [dq]) ?r)) s"
    by (simp only: FindGroup1_def)
  also have "\<dots> = field_scan k quoted_at (Split (CHR ''='') s)"
    using assms
  proof (rule FindGroup1_field)
    fix t
    show "map_option (snd \<circ> snd) (first_run (RSeq (rx_lit [dq]) ?r) (Some (CHR ''='')) t) = map_option (\<lambda>w. [w]) (quoted_at t)"
      by (cases t) (auto simp: first_run_Seq_lit first_run_quoted quoted_at_def HasPrefix_def Let_def simp del: rx_lit.simps)
  qed
  finally show ?thesis .
qed

lemma optquoted_field_scan:
  assumes "CHR ''='' \<notin> set k"
  shows "FindGroup1 (optquoted_field k) s = field_scan k optquoted_at (Split (CHR ''='') s)"
  unfolding optquoted_field_def using assms
proof (rule FindGroup1_field)
  fix t
  let ?opt = "rx_opt (RCls (\<lambda>c. c = dq))" and ?g = "RGrp (rx_plus (RCls not_dq_space))"
  have opt: "\<exists>p' u'. first_run ?opt p u = Some (p', u', [])" for p u
    by (cases u) (auto simp: rx_opt_def first_run_Alt first_run_Cls first_run_Cls_Nil first_run_Eps)
  have g: "first_run (RSeq ?g ?opt) p u = (case class_at not_dq_space u of None \<Rightarrow> None | Some w \<Rightarrow>
      (case first_run ?opt (after p w) (dropWhile not_dq_space u) of Some (p', u', _) \<Rightarrow> Some (p', u', [w])))" for p u
    using opt [of "after p (takeWhile not_dq_space u)" "dropWhile not_dq_space u"]
    by (auto simp: class_at_def Let_def first_run_group_plus first_run_Seq_fail first_run_Seq)
  then have g': "map_option (snd \<circ> snd) (first_run (RSeq ?g ?opt) p u) = map_option (\<lambda>w. [w]) (class_at not_dq_space u)" for p u
    using opt [of "after p (takeWhile not_dq_space u)" "dropWhile not_dq_space u"]
    by (auto simp: class_at_def Let_def)
  let ?G = "RSeq ?g ?opt" and ?p = "Some (CHR ''='')"
  have G_None: "first_run ?G p u = None \<longleftrightarrow> class_at not_dq_space u = None" for p u
    using g' [of p u] by (metis map_option_is_None)
  have ends: "(p', u') \<in> rx_ends ?opt ?p t \<longleftrightarrow> (\<exists>u. t = dq # u \<and> u' = u \<and> p' = Some dq) \<or> u' = t \<and> p' = ?p" for p' u'
    by (auto simp: rx_opt_def rx_simps)
  show "map_option (snd \<circ> snd) (first_run (RSeq ?opt ?G) ?p t) = map_option (\<lambda>w. [w]) (optquoted_at t)"
  proof (cases "\<exists>u. t = dq # u")
    case True
    then obtain u where t: "t = dq # u" by blast
    have o: "first_run ?opt ?p t = Some (Some dq, u, [])"
      by (simp add: t rx_opt_def first_run_Alt first_run_Cls)
    show ?thesis
    proof (cases "class_at not_dq_space u")
      case None
      have "class_at not_dq_space t = None" by (simp add: t class_at_def not_dq_space_def)
      with None have "first_run (RSeq ?opt ?G) ?p t = None"
        using G_None ends t by - (rule first_run_Seq_None, auto)
      with None show ?thesis by (simp add: t optquoted_at_def)
    next
      case (Some w)
      with G_None obtain x where x: "first_run ?G (Some dq) u = Some x" by (metis not_Some_eq)
      with g' [of "Some dq" u] Some have "snd (snd x) = [w]" by simp
      with o x Some show ?thesis
        using first_run_Seq_groups [OF o x] by (simp add: optquoted_at_def t)
    qed
  next
    case False
    have o: "first_run ?opt ?p t = Some (?p, t, [])"
      using False by (cases t) (auto simp: rx_opt_def first_run_Alt first_run_Cls first_run_Cls_Nil first_run_Eps)
    have at: "optquoted_at t = class_at not_dq_space t"
      using False by (cases t) (auto simp: optquoted_at_def)
    show ?thesis
    proof (cases "class_at not_dq_space t")
      case None
      then have "first_run (RSeq ?opt ?G) ?p t = None"
        using G_None ends False by - (rule first_run_Seq_None, auto)
      with None show ?thesis by (simp add: at)
    next
      case (Some w)
      with G_None obtain x where x: "first_run ?G ?p t = Some x" by (metis not_Some_eq)
      with g' [of ?p t] Some have "snd (snd x) = [w]" by simp
      with o x Some show ?thesis
        using first_run_Seq_groups [OF o x] by (simp add: at)
    qed
  qed
qed


definition export_at :: "string \<Rightarrow> string option" where
  "export_at t = (if HasPrefix t ''yes'' then Some ''yes'' else if HasPrefix t ''no'' then Some ''no'' else None)"

lemma export_field_scan: "FindGroup1 export_field s = field_scan ''nvme-tcp-export'' export_at (Split (CHR ''='') s)"
proof -
  have eq: "export_field = RSeq (rx_lit (''nvme-tcp-export'' @ ''='')) (RGrp (RAlt (rx_lit ''yes'') (rx_lit ''no'')))"
    by (simp add: export_field_def)
  have "FindGroup1 (RSeq (rx_lit (''nvme-tcp-export'' @ ''='')) (RGrp (RAlt (rx_lit ''yes'') (rx_lit ''no'')))) s =
      field_scan ''nvme-tcp-export'' export_at (Split (CHR ''='') s)"
  proof (rule FindGroup1_field)
    fix t :: string
    have "take (length t - length (drop n t)) t = take n t" for n
      by (cases "n \<le> length t") auto
    then show "map_option (snd \<circ> snd) (first_run (RGrp (RAlt (rx_lit ''yes'') (rx_lit ''no''))) (Some (CHR ''='')) t) =
        map_option (\<lambda>w. [w]) (export_at t)"
      by (auto simp: first_run_Grp first_run_Alt first_run_lit export_at_def HasPrefix_def simp del: rx_lit.simps)
  qed simp
  then show ?thesis by (simp only: eq)
qed

text \<open>A number and its unit; nothing is read where the unit is missing.\<close>

definition unit_at :: "string \<Rightarrow> string option" where
  "unit_at u =
     (case u of
        c # v \<Rightarrow> if \<not> unit_letter c then None
                else if HasPrefix v ''iB'' then Some (c # ''iB'') else if HasPrefix v ''B'' then Some (c # ''B'') else None
      | [] \<Rightarrow> None)"

definition human_at :: "string \<Rightarrow> string list option" where
  "human_at t =
     (let w = takeWhile digit_or_dot t
      in if w = [] then None
         else map_option (\<lambda>unit. [w, unit]) (unit_at (dropWhile rx_space (dropWhile digit_or_dot t))))"

abbreviation unit_rx :: rx where
  "unit_rx \<equiv> rx_seq [RCls unit_letter, rx_opt (rx_lit ''i''), rx_lit ''B'']"

lemma first_run_unit: "map_option (snd \<circ> snd) (first_run (RGrp unit_rx) p u) = map_option (\<lambda>w. [w]) (unit_at u)"
proof (cases u)
  case Nil
  then show ?thesis by (simp add: first_run_Grp first_run_def unit_at_def)
next
  case (Cons c v)
  show ?thesis
    by (cases v; cases "tl v") (auto simp: Cons first_run_Grp first_run_def unit_at_def rx_opt_def HasPrefix_def)
qed


lemma first_run_human:
  "map_option (snd \<circ> snd) (first_run (RSeq (RGrp (rx_plus (RCls digit_or_dot))) (RSeq (RStar (RCls rx_space)) (RGrp unit_rx))) p t) =
   human_at t"
proof -
  let ?g = "RGrp (rx_plus (RCls digit_or_dot))" and ?sp = "RStar (RCls rx_space)"
  let ?w = "takeWhile digit_or_dot t" and ?d = "dropWhile digit_or_dot t"
  let ?u = "dropWhile rx_space ?d"
  have U_None: "first_run (RGrp unit_rx) p u = None \<longleftrightarrow> unit_at u = None" for p u
    using first_run_unit [of p u] by (metis map_option_is_None)
  have no_unit: "unit_at u = None" if "u \<noteq> [] \<Longrightarrow> digit_or_dot (hd u) \<or> rx_space (hd u)" for u
    using that by (cases u) (auto simp: unit_at_def unit_letter_def digit_or_dot_def is_digit_def rx_space_def)
  have S_None: "first_run (RSeq ?sp (RGrp unit_rx)) p v = None" if "unit_at (dropWhile rx_space v) = None" for p v
  proof (rule first_run_Seq_None)
    fix p1 s1
    assume "(p1, s1) \<in> rx_ends ?sp p v"
    then obtain w where w: "v = w @ s1" "list_all rx_space w" by (auto simp: rx_simps)
    have "unit_at s1 = None"
    proof (cases "s1 = [] \<or> rx_space (hd s1)")
      case False
      then have "dropWhile rx_space v = s1" using w by (cases s1) (auto simp: dropWhile_append list_all_iff)
      with that show ?thesis by simp
    qed (auto intro: no_unit)
    then show "first_run (RGrp unit_rx) p1 s1 = None" by (simp only: U_None)
  qed
  show ?thesis
  proof (cases "?w = [] \<or> unit_at ?u = None")
    case True
    have "first_run (RSeq ?g (RSeq ?sp (RGrp unit_rx))) p t = None"
    proof (rule first_run_Seq_None)
      fix p1 s1
      assume "(p1, s1) \<in> rx_ends ?g p t"
      then obtain w where w: "w \<noteq> []" "t = w @ s1" "list_all digit_or_dot w" by (auto simp: rx_simps)
      show "first_run (RSeq ?sp (RGrp unit_rx)) p1 s1 = None"
      proof (rule S_None, cases "s1 \<noteq> [] \<and> digit_or_dot (hd s1)")
        case True
        then have "dropWhile rx_space s1 = s1" by (cases s1) (auto simp: digit_or_dot_def is_digit_def rx_space_def)
        with True show "unit_at (dropWhile rx_space s1) = None" by (simp add: no_unit)
      next
        case False
        then have "?d = s1" using w by (cases s1) (auto simp: dropWhile_append list_all_iff)
        moreover have "?w \<noteq> []" using w by (cases w) auto
        ultimately show "unit_at (dropWhile rx_space s1) = None" using True by auto
      qed
    qed
    with True show ?thesis by (auto simp: human_at_def Let_def)
  next
    case False
    then obtain unit where unit: "unit_at ?u = Some unit" by auto
    let ?p = "after (after p ?w) (takeWhile rx_space ?d)"
    obtain x where x: "first_run (RGrp unit_rx) ?p ?u = Some x" using U_None unit by (metis not_Some_eq)
    have unit': "snd (snd x) = [unit]" using first_run_unit [of ?p ?u] unit x by (cases x) simp
    have g: "first_run ?g p t = Some (after p ?w, ?d, [?w])" using False by (simp add: first_run_group_plus)
    have "map_option (snd \<circ> snd) (first_run (RSeq ?sp (RGrp unit_rx)) (after p ?w) ?d) = Some [unit]"
      using first_run_Seq_groups [OF first_run_Star_Cls x] unit' by (simp only: append_Nil)
    then obtain y where y: "first_run (RSeq ?sp (RGrp unit_rx)) (after p ?w) ?d = Some y" "snd (snd y) = [unit]"
      unfolding map_option_eq_Some comp_apply by blast
    with False unit show ?thesis
      using first_run_Seq_groups [OF g y(1)] by (simp add: human_at_def Let_def y(2) del: rx_seq.simps map_option_eq_Some)
  qed
qed

lemma human_size_field_scan:
  assumes "CHR ''='' \<notin> set k"
  shows "FindGroups (human_size_field k) s = field_scan k human_at (Split (CHR ''='') s)"
  unfolding human_size_field_def FindGroups_field [OF assms] by (rule field_scan_cong) (rule first_run_human)

lemmas field_scans = class_field_scan quoted_field_scan optquoted_field_scan export_field_scan human_size_field_scan

subsection \<open>Tokens\<close>

text \<open>A value that can stand unquoted in a command, and the piece of a text from a value to the next key.\<close>

definition token :: "string \<Rightarrow> bool" where
  "token w \<longleftrightarrow> w \<noteq> [] \<and> list_all (\<lambda>c. c \<noteq> dq \<and> c \<noteq> CHR ''='' \<and> \<not> is_space c) w"

definition part :: "string \<Rightarrow> string \<Rightarrow> string" where
  "part v key = v @ CHR '' '' # key"

lemma HasSuffix_part: "CHR '' '' \<notin> set k \<Longrightarrow> HasSuffix (part v key) k \<longleftrightarrow> HasSuffix key k"
  by (induction v) (auto simp: part_def HasSuffix_Cons)

lemma Join_part:
  "Join (CHR ''='') (part v key # ps) = v @ CHR '' '' # key @ (case ps of [] \<Rightarrow> [] | _ \<Rightarrow> CHR ''='' # Join (CHR ''='') ps)"
  by (cases ps) (simp_all add: part_def)

lemma rx_space_blank [simp]: "rx_space (CHR '' '')"
  by (simp add: rx_space_def)

lemma not_space_blank [simp]: "\<not> not_space (CHR '' '')" "\<not> not_dq_space (CHR '' '')" "\<not> not_dq dq"
    "\<not> not_dq_space dq"
  by (simp_all add: not_space_def not_dq_space_def not_dq_def)

lemma rx_space_is_space: "rx_space c \<Longrightarrow> is_space c"
  by (auto simp: rx_space_def is_space_def)

lemma token_chars:
  assumes "token w"
  shows "list_all not_dq w" "list_all not_space w" "list_all not_dq_space w" "CHR ''='' \<notin> set w" "dq \<notin> set w"
    "w \<noteq> []"
  using assms by (auto simp: token_def list_all_iff not_dq_def not_space_def not_dq_space_def dest: rx_space_is_space)

lemma takeWhile_upto: "list_all P w \<Longrightarrow> \<not> P c \<Longrightarrow> takeWhile P (w @ c # r) = w"
  by (induction w) auto

lemma takeWhile_whole: "list_all P w \<Longrightarrow> takeWhile P w = w"
  by (induction w) auto

lemma class_at_token:
  assumes "token w"
  shows "class_at not_space (w @ CHR '' '' # r) = Some w" "class_at not_space w = Some w"
  using token_chars [OF assms] by (simp_all add: class_at_def takeWhile_upto takeWhile_whole)

lemma quoted_at_token:
  assumes "token w"
  shows "quoted_at (dq # w @ dq # r) = Some w"
  using token_chars [OF assms] by (simp add: quoted_at_def takeWhile_upto)

lemma optquoted_at_token:
  assumes "token w"
  shows "optquoted_at (dq # w @ dq # r) = Some w"
  using token_chars [OF assms] by (simp add: optquoted_at_def class_at_def takeWhile_upto)

lemma digits_token: "list_all is_digit w \<Longrightarrow> w \<noteq> [] \<Longrightarrow> token w"
  by (auto simp: token_def list_all_iff is_digit_def is_space_def)

lemma Itoa_nonneg: "0 \<le> n \<Longrightarrow> Itoa n = dec_nat (nat n)"
  by (simp add: Itoa_def)

lemma Itoa_digits: "0 \<le> n \<Longrightarrow> list_all is_digit (Itoa n) \<and> Itoa n \<noteq> []"
  by (simp add: Itoa_nonneg dec_nat_digits)

lemma Itoa_token: "0 \<le> n \<Longrightarrow> token (Itoa n)"
  using Itoa_digits digits_token by blast

lemma is_digit_blank: "\<not> is_digit (CHR '' '')"
  by (simp add: is_digit_def)

lemma class_at_digits:
  assumes "list_all is_digit w" "w \<noteq> []"
  shows "class_at is_digit (w @ CHR '' '' # r) = Some w"
  using assms by (simp add: class_at_def takeWhile_upto is_digit_blank)

lemma class_at_spaced:
  assumes "list_all is_digit w" "w \<noteq> []" "\<not> digit_or_space c"
  shows "class_at digit_or_space (w @ CHR '' '' # c # r) = Some (w @ '' '')"
proof -
  have "list_all digit_or_space (w @ '' '')" using assms by (auto simp: list_all_iff digit_or_space_def)
  then have "takeWhile digit_or_space ((w @ '' '') @ c # r) = w @ '' ''" using assms(3) by (rule takeWhile_upto)
  then show ?thesis by (simp add: class_at_def)
qed

lemma remove_blank_digits: "list_all is_digit w \<Longrightarrow> remove_char (CHR '' '') (w @ '' '') = w"
  by (induction w) (auto simp: remove_char_def is_digit_def)

lemma human_at_plain:
  assumes "list_all is_digit w" "\<not> unit_letter c" "\<not> rx_space c"
  shows "human_at (w @ CHR '' '' # c # r) = None"
proof -
  have "list_all digit_or_dot w" using assms by (auto simp: list_all_iff digit_or_dot_def)
  moreover have "\<not> digit_or_dot (CHR '' '')" by (simp add: digit_or_dot_def is_digit_def)
  ultimately have "dropWhile digit_or_dot (w @ CHR '' '' # c # r) = CHR '' '' # c # r"
    by (simp add: dropWhile_append list_all_iff)
  then show ?thesis using assms by (simp add: human_at_def unit_at_def Let_def)
qed

lemma HasPrefix_delim: "c \<notin> set k \<Longrightarrow> HasPrefix (w @ c # b) k \<longleftrightarrow> HasPrefix w k"
proof (induction w arbitrary: k)
  case Nil
  then show ?case by (cases k) (auto simp: HasPrefix_def)
next
  case (Cons d w)
  then show ?case by (cases k) (auto simp: HasPrefix_def)
qed

lemma Contains_delim:
  assumes "c \<notin> set k" "k \<noteq> []"
  shows "Contains (a @ c # b) k \<longleftrightarrow> Contains a k \<or> Contains b k"
proof (induction a)
  case Nil
  have "\<not> HasPrefix (c # b) k" using HasPrefix_delim [of c k "[]" b] assms by (simp add: HasPrefix_def)
  then show ?case using assms by simp
next
  case (Cons d a)
  have "HasPrefix (d # a @ c # b) k \<longleftrightarrow> HasPrefix (d # a) k"
    using HasPrefix_delim [of c k "d # a" b] assms by simp
  with Cons show ?case by auto
qed

lemma HasSuffix_Nil: "HasSuffix [] k \<longleftrightarrow> k = []"
  by (auto simp: HasSuffix_def)

lemma normalize_single:
  assumes "nl \<notin> set s" "s \<noteq> []" "last s \<noteq> CHR 0x0D" "hd s \<noteq> CHR '' ''" "hd s \<noteq> CHR 0x09"
    "\<not> HasPrefix s ''Flags:''" "\<not> Contains s ''disabled''"
  shows "normalizeRouterOSOutput s = s"
proof -
  obtain b l where s: "s = b @ [l]" using assms(2) by (cases s rule: rev_exhaust) simp_all
  then have "TrimRight_cr s = s" using assms(3) by (simp add: TrimRight_cr_def)
  then show ?thesis using assms by (simp add: normalizeRouterOSOutput_def Split_nosep normalize_line_def)
qed

lemma set_part: "set (part v key) = set v \<union> {CHR '' ''} \<union> set key"
  by (auto simp: part_def)

named_theorems scan_eval \<open>evaluation of a scan over the parts of a disk entry\<close>

lemmas [scan_eval] = HasSuffix_part HasSuffix_Cons HasSuffix_Nil Join_part

end
