(* ===== verification/SshClient.thy ===== *)
theory SshClient
  imports RouterOS
begin

text \<open>
  The SSH client of \<^verbatim>\<open>pkg/rds/ssh_client.go\<close> and the operations of \<^verbatim>\<open>pkg/rds/commands.go\<close> on it. Package
  \<^verbatim>\<open>golang.org/x/crypto/ssh\<close> is a parameter: a \<open>transport\<close> dials, opens sessions and runs commands on a state \<open>'r\<close>
  of the network and the server, and reads keys. The result of a command is its output, an exit status with
  both output streams, or an error of the connection.
\<close>

subsection \<open>The transport\<close>

datatype run_result = RunOK string | RunExit int string string | RunFail goerr

record hostkey =
  hk_Type :: string
  hk_Fingerprint :: string

type_synonym hostkey_callback = "hostkey \<Rightarrow> goerr option"

record 'r transport =
  tDial :: "string \<Rightarrow> hostkey_callback \<Rightarrow> 'r \<Rightarrow> goerr option \<times> 'r"
  tSession :: "'r \<Rightarrow> goerr option \<times> 'r"
  tRun :: "string \<Rightarrow> 'r \<Rightarrow> run_result \<times> 'r"
  tClose :: "'r \<Rightarrow> goerr option \<times> 'r"
  tSleep :: "duration \<Rightarrow> 'r \<Rightarrow> 'r"
  tTimeout :: "goerr \<Rightarrow> bool" \<comment> \<open>\<^verbatim>\<open>errors.As\<close> a \<^verbatim>\<open>net.Error\<close> whose \<^verbatim>\<open>Timeout()\<close> holds\<close>
  tEOF :: "goerr \<Rightarrow> bool" \<comment> \<open>\<^verbatim>\<open>errors.Is(err, io.EOF)\<close>\<close>
  tParseAuthorizedKey :: "string \<Rightarrow> hostkey option"
  tParsePublicKey :: "string \<Rightarrow> hostkey option"
  tParsePrivateKey :: "string \<Rightarrow> goerr option"

subsection \<open>Configuration\<close>

record ClientConfig =
  cc_Protocol :: string
  cc_Address :: string
  cc_Port :: int
  cc_User :: string
  cc_PrivateKey :: string
  cc_Timeout :: duration
  cc_HostKey :: string
  cc_HostKeyCallback :: "(unit + hostkey_callback) option" \<comment> \<open>\<open>Inl\<close>: a value of another type\<close>
  cc_InsecureSkipVerify :: bool

record 'r sshClient =
  sc_address :: string
  sc_port :: int
  sc_user :: string
  sc_privateKey :: string
  sc_timeout :: duration
  sc_hostKeyCallback :: "hostkey_callback option"
  sc_insecureSkipVerify :: bool
  sc_connected :: bool \<comment> \<open>the field \<^verbatim>\<open>sshClient\<close> is not nil\<close>
  sc_rds :: 'r

definition parseHostKey :: "'r transport \<Rightarrow> string \<Rightarrow> goerr + hostkey" where
  "parseHostKey t keyData =
     (case tParseAuthorizedKey t keyData of
        Some k \<Rightarrow> Inr k
      | None \<Rightarrow> (case tParsePublicKey t keyData of
          Some k \<Rightarrow> Inr k
        | None \<Rightarrow> Inl (GoErr ''failed to parse host key in any supported format'')))"

definition createHostKeyCallback :: "hostkey \<Rightarrow> string \<Rightarrow> hostkey_callback" where
  "createHostKeyCallback expectedKey hostname = (\<lambda>key.
     if hk_Type key \<noteq> hk_Type expectedKey
     then Some (GoErr (''SSH host key type mismatch for '' @ hostname @ '': expected '' @ hk_Type expectedKey @
            '', got '' @ hk_Type key))
     else if hk_Fingerprint expectedKey \<noteq> hk_Fingerprint key
     then Some (GoErr (''SSH host key verification failed for '' @ hostname @ '': fingerprint mismatch (expected '' @
            hk_Fingerprint expectedKey @ '', got '' @ hk_Fingerprint key @ '')''))
     else None)"

definition hostKeyCallback_of :: "'r transport \<Rightarrow> ClientConfig \<Rightarrow> goerr + hostkey_callback option" where
  "hostKeyCallback_of t config =
     (case cc_HostKeyCallback config of
        Some (Inr cb) \<Rightarrow> Inr (Some cb)
      | Some (Inl _) \<Rightarrow> Inl (GoErr ''HostKeyCallback must be of type ssh.HostKeyCallback'')
      | None \<Rightarrow>
          if cc_HostKey config \<noteq> []
          then (case parseHostKey t (cc_HostKey config) of
                  Inl err \<Rightarrow> Inl (wrap_err ''failed to parse host key: '' err)
                | Inr key \<Rightarrow> Inr (Some (createHostKeyCallback key (cc_Address config))))
          else Inr None)"

definition newSSHClient :: "'r transport \<Rightarrow> ClientConfig \<Rightarrow> 'r \<Rightarrow> goerr + 'r sshClient" where
  "newSSHClient t config r =
     (if cc_Address config = [] then Inl (GoErr ''address is required'')
      else if cc_User config = [] then Inl (GoErr ''user is required'')
      else (case hostKeyCallback_of t config of
        Inl err \<Rightarrow> Inl err
      | Inr cb \<Rightarrow> Inr
          \<lparr> sc_address = cc_Address config, sc_port = (if cc_Port config = 0 then 22 else cc_Port config),
            sc_user = cc_User config, sc_privateKey = cc_PrivateKey config,
            sc_timeout = (if cc_Timeout config = 0 then 10 * second else cc_Timeout config),
            sc_hostKeyCallback = cb, sc_insecureSkipVerify = cc_InsecureSkipVerify config,
            sc_connected = False, sc_rds = r \<rparr>))"

definition NewClient :: "'r transport \<Rightarrow> ClientConfig \<Rightarrow> 'r \<Rightarrow> goerr + 'r sshClient" where
  "NewClient t config r =
     (let protocol = (if cc_Protocol config = [] then ''ssh'' else cc_Protocol config)
      in if protocol = ''ssh'' then newSSHClient t config r
         else if protocol = ''api'' then Inl (GoErr (''API protocol not yet implemented - use '' @ [CHR 0x27] @ ''ssh'' @
           [CHR 0x27] @ '' protocol''))
         else Inl (GoErr (''unsupported protocol: '' @ protocol @ '' (supported: ssh)'')))"

subsection \<open>Connection\<close>

definition ssh_Connect :: "'r transport \<Rightarrow> 'r sshClient \<Rightarrow> goerr option \<times> 'r sshClient" where
  "ssh_Connect t c =
     (case (case sc_hostKeyCallback c of
              Some cb \<Rightarrow> Some cb
            | None \<Rightarrow> if sc_insecureSkipVerify c then Some (\<lambda>_. None) else None) of
        None \<Rightarrow> (Some (GoErr (''SSH host key verification not configured: must provide HostKey or enable '' @
                  ''InsecureSkipVerify (not recommended)'')), c)
      | Some cb \<Rightarrow>
          (case (if sc_privateKey c \<noteq> [] then tParsePrivateKey t (sc_privateKey c) else None) of
             Some err \<Rightarrow> (Some (wrap_err ''failed to parse private key: '' err), c)
           | None \<Rightarrow>
               (let addr = sc_address c @ '':'' @ Itoa (sc_port c)
                in case tDial t addr cb (sc_rds c) of
                     (Some err, r) \<Rightarrow> (Some (wrap_err (''failed to connect to '' @ addr @ '': '') err), c\<lparr>sc_rds := r\<rparr>)
                   | (None, r) \<Rightarrow> (None, c\<lparr>sc_rds := r, sc_connected := True\<rparr>))))"

text \<open>The field keeps pointing to the closed connection.\<close>

definition ssh_Close :: "'r transport \<Rightarrow> 'r sshClient \<Rightarrow> goerr option \<times> 'r sshClient" where
  "ssh_Close t c =
     (if sc_connected c then (case tClose t (sc_rds c) of (err, r) \<Rightarrow> (err, c\<lparr>sc_rds := r\<rparr>)) else (None, c))"

definition ssh_IsConnected :: "'r transport \<Rightarrow> 'r sshClient \<Rightarrow> bool \<times> 'r sshClient" where
  "ssh_IsConnected t c =
     (if \<not> sc_connected c then (False, c)
      else (case tSession t (sc_rds c) of (err, r) \<Rightarrow> (err = None, c\<lparr>sc_rds := r\<rparr>)))"

definition runCommand :: "'r transport \<Rightarrow> string \<Rightarrow> 'r sshClient \<Rightarrow> (goerr + string) \<times> 'r sshClient" where
  "runCommand t command c =
     (if \<not> sc_connected c then (Inl (GoErr ''not connected to RDS''), c)
      else (case tSession t (sc_rds c) of
        (Some err, r) \<Rightarrow> (Inl (wrap_err ''failed to create SSH session: '' err), c\<lparr>sc_rds := r\<rparr>)
      | (None, r) \<Rightarrow>
          (case tRun t command r of
             (RunOK out, r) \<Rightarrow> (Inr out, c\<lparr>sc_rds := r\<rparr>)
           | (RunExit n out errout, r) \<Rightarrow>
               (Inl (GoErr (''command failed (exit '' @ Itoa n @ ''): '' @ errout)), c\<lparr>sc_rds := r\<rparr>)
           | (RunFail err, r) \<Rightarrow> (Inl (wrap_err ''failed to run command: '' err), c\<lparr>sc_rds := r\<rparr>))))"

subsection \<open>Retries\<close>

text \<open>\<^verbatim>\<open>indexString\<close> scans the offsets \<open>i \<le> len(s) - len(substr)\<close>.\<close>

fun index_from :: "nat \<Rightarrow> nat \<Rightarrow> string \<Rightarrow> string \<Rightarrow> int" where
  "index_from 0 i s substr = -1"
| "index_from (Suc n) i s substr =
     (if take (length substr) (drop i s) = substr then int i else index_from n (Suc i) s substr)"

definition indexString :: "string \<Rightarrow> string \<Rightarrow> int" where
  "indexString s substr = index_from (length s + 1 - length substr) 0 s substr"

definition containsString :: "string \<Rightarrow> string \<Rightarrow> bool" where
  "containsString s substr \<longleftrightarrow>
     length s \<ge> length substr \<and> (s = substr \<or> length s > length substr \<and> indexString s substr \<ge> 0)"

definition nonRetryablePatterns :: "string list" where
  "nonRetryablePatterns = [''not enough space'', ''invalid parameter'', ''no such item'', ''authentication failed'']"

definition isRetryableError :: "'r transport \<Rightarrow> goerr \<Rightarrow> bool" where
  "isRetryableError t err \<longleftrightarrow>
     tTimeout t err \<or> tEOF t err \<or> \<not> list_ex (containsString (err_msg err)) nonRetryablePatterns"

text \<open>The wait before an attempt; shift and product are 64 bits wide.\<close>

definition retry_backoff :: "nat \<Rightarrow> duration" where
  "retry_backoff attempt = wrap64 (wrap64 (2 ^ (attempt - 1)) * second)"

text \<open>The loop with \<open>n\<close> attempts to go: the number of the attempt and the last error are carried along.\<close>

fun retry_loop :: "'r transport \<Rightarrow> string \<Rightarrow> nat \<Rightarrow> nat \<Rightarrow> goerr option \<Rightarrow> 'r sshClient
    \<Rightarrow> (goerr option + goerr + string) \<times> 'r sshClient" where
  "retry_loop t command 0 attempt lastErr c = (Inl lastErr, c)"
| "retry_loop t command (Suc n) attempt lastErr c =
     (let c = (if attempt > 0 then c\<lparr>sc_rds := tSleep t (retry_backoff attempt) (sc_rds c)\<rparr> else c);
          (conn, c) = ssh_IsConnected t c;
          (cerr, c) = (if conn then (None, c) else ssh_Connect t c)
      in case cerr of
           Some err \<Rightarrow> retry_loop t command n (Suc attempt) (Some err) c
         | None \<Rightarrow>
             (case runCommand t command c of
                (Inr output, c) \<Rightarrow> (Inr (Inr output), c)
              | (Inl err, c) \<Rightarrow>
                  if \<not> isRetryableError t err
                  then (Inr (Inl (if Contains (err_msg err) ''not enough space''
                                  then GoWrap [] (Sentinel ErrResourceExhausted) ('': '' @ err_msg err) else err)), c)
                  else retry_loop t command n (Suc attempt) (Some err) c))"

definition runCommandWithRetry :: "'r transport \<Rightarrow> string \<Rightarrow> nat \<Rightarrow> 'r sshClient \<Rightarrow> (goerr + string) \<times> 'r sshClient" where
  "runCommandWithRetry t command maxRetries c =
     (case retry_loop t command maxRetries 0 None c of
        (Inr res, c) \<Rightarrow> (res, c)
      | (Inl lastErr, c) \<Rightarrow>
          (let pre = ''max retries ('' @ Itoa (int maxRetries) @ '') exceeded: ''
           in (Inl (case lastErr of Some err \<Rightarrow> wrap_err pre err | None \<Rightarrow> GoErr (pre @ ''%!w(<nil>)'')), c)))"

subsection \<open>Commands\<close>

definition disk_add_command :: "CreateVolumeOptions \<Rightarrow> string" where
  "disk_add_command opts =
     ''/disk add type=file file-path='' @ co_FilePath opts @ '' file-size='' @ formatBytes (co_FileSizeBytes opts) @
     '' slot='' @ co_Slot opts @ '' nvme-tcp-export=yes nvme-tcp-server-port='' @ Itoa (co_NVMETCPPort opts) @
     '' nvme-tcp-server-nqn='' @ co_NVMETCPNQN opts"

definition disk_print_command :: "string \<Rightarrow> string" where
  "disk_print_command slot = ''/disk print detail where slot='' @ slot"

definition disk_set_command :: "string \<Rightarrow> int \<Rightarrow> string" where
  "disk_set_command slot sz = ''/disk set [find slot='' @ slot @ ''] file-size='' @ formatBytes sz"

definition disk_remove_command :: "string \<Rightarrow> string" where
  "disk_remove_command slot = ''/disk remove [find slot='' @ slot @ '']''"

definition file_remove_command :: "string \<Rightarrow> string" where
  "file_remove_command path = ''/file remove [find name='' @ [dq] @ TrimPrefix path ''/'' @ [dq] @ '']''"

definition ssh_GetVolume :: "'r transport \<Rightarrow> string \<Rightarrow> 'r sshClient \<Rightarrow> (goerr + VolumeInfo) \<times> 'r sshClient" where
  "ssh_GetVolume t slot c =
     (case validateSlotName slot of
        Some err \<Rightarrow> (Inl err, c)
      | None \<Rightarrow>
          (case runCommand t (disk_print_command slot) c of
             (Inl err, c) \<Rightarrow> (Inl (wrap_err ''failed to get volume info: '' err), c)
           | (Inr output, c) \<Rightarrow>
               if TrimSpace (normalizeRouterOSOutput output) = []
               then (Inl (WrapVolumeError ErrVolumeNotFound slot []), c)
               else (let volume = parseVolumeInfo output
                     in if vi_Slot volume = [] then (Inl (WrapVolumeError ErrVolumeNotFound slot []), c)
                        else (Inr volume, c))))"

definition ssh_VerifyVolumeExists :: "'r transport \<Rightarrow> string \<Rightarrow> 'r sshClient \<Rightarrow> goerr option \<times> 'r sshClient" where
  "ssh_VerifyVolumeExists t slot c =
     (case ssh_GetVolume t slot c of
        (Inl err, c) \<Rightarrow> (Some err, c)
      | (Inr volume, c) \<Rightarrow>
          (if vi_Status volume \<noteq> ''ready''
           then Some (GoErr (''volume '' @ slot @ '' is not ready (status: '' @ vi_Status volume @ '')'')) else None, c))"

definition ssh_CreateVolume :: "'r transport \<Rightarrow> string list \<Rightarrow> CreateVolumeOptions \<Rightarrow> 'r sshClient
    \<Rightarrow> goerr option \<times> 'r sshClient" where
  "ssh_CreateVolume t allowed opts c =
     (case validateCreateVolumeOptions allowed opts of
        Some err \<Rightarrow> (Some (wrap_err ''invalid volume options: '' err), c)
      | None \<Rightarrow>
          (case runCommandWithRetry t (disk_add_command opts) 3 c of
             (Inl err, c) \<Rightarrow> (Some (wrap_err ''failed to create volume: '' err), c)
           | (Inr _, c) \<Rightarrow>
               (case ssh_VerifyVolumeExists t (co_Slot opts) c of
                  (Some err, c) \<Rightarrow> (Some (wrap_err ''volume creation verification failed: '' err), c)
                | (None, c) \<Rightarrow> (None, c))))"

definition ssh_ResizeVolume :: "'r transport \<Rightarrow> string \<Rightarrow> int \<Rightarrow> 'r sshClient \<Rightarrow> goerr option \<times> 'r sshClient" where
  "ssh_ResizeVolume t slot newSizeBytes c =
     (case validateSlotName slot of
        Some err \<Rightarrow> (Some err, c)
      | None \<Rightarrow>
          if newSizeBytes \<le> 0 then (Some (GoErr ''new size must be positive''), c)
          else (case ssh_GetVolume t slot c of
            (Inl err, c) \<Rightarrow> (Some (wrap_err ''failed to get current volume info: '' err), c)
          | (Inr current, c) \<Rightarrow>
              if newSizeBytes < vi_FileSizeBytes current
              then (Some (GoErr (''shrinking volumes is not supported (current: '' @ Itoa (vi_FileSizeBytes current) @
                     '' bytes, requested: '' @ Itoa newSizeBytes @ '' bytes)'')), c)
              else if newSizeBytes = vi_FileSizeBytes current then (None, c)
              else (case runCommandWithRetry t (disk_set_command slot newSizeBytes) 3 c of
                (Inl err, c) \<Rightarrow> (Some (wrap_err ''failed to resize volume: '' err), c)
              | (Inr _, c) \<Rightarrow>
                  (case ssh_GetVolume t slot c of
                     (Inl err, c) \<Rightarrow> (Some (wrap_err ''failed to verify resize: '' err), c)
                   | (Inr _, c) \<Rightarrow> (None, c)))))"

definition ssh_DeleteFile :: "'r transport \<Rightarrow> string list \<Rightarrow> string \<Rightarrow> 'r sshClient \<Rightarrow> goerr option \<times> 'r sshClient" where
  "ssh_DeleteFile t allowed path c =
     (case ValidateFilePath allowed path of
        Some err \<Rightarrow> (Some (wrap_err ''invalid path: '' err), c)
      | None \<Rightarrow>
          (case runCommand t (file_remove_command path) c of
             (Inl err, c) \<Rightarrow> (Some (wrap_err ''failed to delete file: '' err), c)
           | (Inr output, c) \<Rightarrow>
               (if Contains (ToLower output) ''error'' \<or> Contains (ToLower output) ''failure''
                then Some (GoErr (''error deleting file: '' @ output)) else None, c)))"

text \<open>The two removals that \<^verbatim>\<open>DeleteVolume\<close> and \<^verbatim>\<open>DeleteSnapshot\<close> share: the disk entry, then the backing file.\<close>

definition remove_disk_and_file :: "'r transport \<Rightarrow> string list \<Rightarrow> string \<Rightarrow> string \<Rightarrow> string \<Rightarrow> 'r sshClient
    \<Rightarrow> goerr option \<times> 'r sshClient" where
  "remove_disk_and_file t allowed what slot filePath c =
     (case runCommandWithRetry t (disk_remove_command slot) 3 c of (res, c) \<Rightarrow>
        (case (case res of Inl err \<Rightarrow> if Contains (err_msg err) ''no such item'' then None else Some err | Inr _ \<Rightarrow> None) of
           Some err \<Rightarrow> (Some (wrap_err what err), c)
         | None \<Rightarrow> (None, if filePath \<noteq> [] then snd (ssh_DeleteFile t allowed filePath c) else c)))"

definition ssh_DeleteVolume :: "'r transport \<Rightarrow> string list \<Rightarrow> string \<Rightarrow> 'r sshClient \<Rightarrow> goerr option \<times> 'r sshClient" where
  "ssh_DeleteVolume t allowed slot c =
     (case validateSlotName slot of
        Some err \<Rightarrow> (Some err, c)
      | None \<Rightarrow>
          (case ssh_GetVolume t slot c of
             (Inl err, c) \<Rightarrow>
               (if errors_is err ErrVolumeNotFound then None
                else Some (wrap_err ''failed to get volume info before deletion: '' err), c)
           | (Inr volume, c) \<Rightarrow>
               remove_disk_and_file t allowed ''failed to remove disk slot: '' slot (vi_FilePath volume) c))"

definition ssh_GetCapacity :: "'r transport \<Rightarrow> string \<Rightarrow> 'r sshClient \<Rightarrow> (goerr + CapacityInfo) \<times> 'r sshClient" where
  "ssh_GetCapacity t basePath c =
     (case (if basePath \<noteq> [] then SanitizeBasePath basePath else Inr basePath) of
        Inl err \<Rightarrow> (Inl (wrap_err ''invalid base path: '' err), c)
      | Inr basePath \<Rightarrow>
          (case runCommand t (''/disk print detail where mount-point='' @ [dq] @ extractMountPoint basePath @ [dq]) c of
             (Inl err, c) \<Rightarrow> (Inl (wrap_err ''failed to get capacity: '' err), c)
           | (Inr output, c) \<Rightarrow>
               (case parseCapacityInfo output of
                  Inl err \<Rightarrow> (Inl (wrap_err ''failed to parse capacity info: '' err), c)
                | Inr capacity \<Rightarrow> (Inr capacity, c))))"

definition ssh_ListVolumes :: "'r transport \<Rightarrow> 'r sshClient \<Rightarrow> (goerr + VolumeInfo list) \<times> 'r sshClient" where
  "ssh_ListVolumes t c =
     (case runCommand t (''/disk print detail where slot~'' @ [dq] @ ''pvc'' @ [dq]) c of
        (Inl err, c) \<Rightarrow> (Inl (wrap_err ''failed to list volumes: '' err), c)
      | (Inr output, c) \<Rightarrow> (Inr (parseVolumeList output), c))"

definition ssh_ListFiles :: "'r transport \<Rightarrow> string list \<Rightarrow> string \<Rightarrow> 'r sshClient
    \<Rightarrow> (goerr + FileInfo list) \<times> 'r sshClient" where
  "ssh_ListFiles t allowed path c =
     (case ValidateFilePath allowed path of
        Some err \<Rightarrow> (Inl (wrap_err ''invalid path: '' err), c)
      | None \<Rightarrow>
          (case runCommand t (''/file print detail where name~'' @ [dq] @ QuoteMeta (TrimPrefix path ''/'') @ [dq]) c of
             (Inl err, c) \<Rightarrow> (Inl (wrap_err ''failed to list files: '' err), c)
           | (Inr output, c) \<Rightarrow> (Inr (parseFileList output), c)))"

definition ssh_GetSnapshot :: "'r transport \<Rightarrow> string \<Rightarrow> 'r sshClient \<Rightarrow> (goerr + SnapshotInfo) \<times> 'r sshClient" where
  "ssh_GetSnapshot t snapshotID c =
     (case ValidateSnapshotID snapshotID of
        Some err \<Rightarrow> (Inl err, c)
      | None \<Rightarrow>
          (case runCommand t (disk_print_command snapshotID) c of
             (Inl err, c) \<Rightarrow> (Inl (wrap_err ''failed to get snapshot info: '' err), c)
           | (Inr output, c) \<Rightarrow>
               if TrimSpace (normalizeRouterOSOutput output) = [] then (Inl (SnapshotNotFoundError snapshotID), c)
               else (let snapshot = parseSnapshotInfo output
                     in if si_Name snapshot = [] then (Inl (SnapshotNotFoundError snapshotID), c)
                        else (Inr snapshot, c))))"

definition ssh_CreateSnapshot :: "'r transport \<Rightarrow> CreateSnapshotOptions \<Rightarrow> 'r sshClient
    \<Rightarrow> (goerr + SnapshotInfo) \<times> 'r sshClient" where
  "ssh_CreateSnapshot t opts c =
     (case ValidateSnapshotID (so_Name opts) of
        Some err \<Rightarrow> (Inl (wrap_err ''invalid snapshot name: '' err), c)
      | None \<Rightarrow>
     (case validateSlotName (so_SourceVolume opts) of
        Some err \<Rightarrow> (Inl (wrap_err ''invalid source volume: '' err), c)
      | None \<Rightarrow>
          if so_BasePath opts = [] then (Inl (GoErr ''base path is required for snapshot file placement''), c)
          else (case ssh_GetVolume t (so_SourceVolume opts) c of
            (Inl err, c) \<Rightarrow> (Inl (wrap_err (''failed to get source volume '' @ so_SourceVolume opts @ '': '') err), c)
          | (Inr sourceVol, c) \<Rightarrow>
              (let cmd = ''/disk add type=file copy-from=[find slot='' @ so_SourceVolume opts @ ''] file-path='' @
                     so_BasePath opts @ ''/'' @ so_Name opts @ ''.img slot='' @ so_Name opts
               in case runCommandWithRetry t cmd 3 c of
                    (Inl err, c) \<Rightarrow> (Inl (wrap_err ''failed to create snapshot: '' err), c)
                  | (Inr _, c) \<Rightarrow>
                      (case ssh_GetSnapshot t (so_Name opts) c of
                         (Inl err, c) \<Rightarrow> (Inl (wrap_err ''snapshot creation verification failed: '' err), c)
                       | (Inr snapshot, c) \<Rightarrow>
                           (Inr (snapshot\<lparr>
                              si_SourceVolume := (if si_SourceVolume snapshot = [] then so_SourceVolume opts
                                                  else si_SourceVolume snapshot),
                              si_FileSizeBytes := (if si_FileSizeBytes snapshot = 0 then vi_FileSizeBytes sourceVol
                                                   else si_FileSizeBytes snapshot)\<rparr>), c))))))"

definition ssh_DeleteSnapshot :: "'r transport \<Rightarrow> string list \<Rightarrow> string \<Rightarrow> 'r sshClient
    \<Rightarrow> goerr option \<times> 'r sshClient" where
  "ssh_DeleteSnapshot t allowed snapshotID c =
     (case ValidateSnapshotID snapshotID of
        Some err \<Rightarrow> (Some err, c)
      | None \<Rightarrow>
          (case ssh_GetSnapshot t snapshotID c of
             (Inl err, c) \<Rightarrow>
               (if as_snapshot_not_found err then None
                else Some (wrap_err ''failed to check snapshot existence: '' err), c)
           | (Inr snapshot, c) \<Rightarrow>
               remove_disk_and_file t allowed ''failed to remove snapshot disk entry: '' snapshotID
                 (si_FilePath snapshot) c))"

definition ssh_ListSnapshots :: "'r transport \<Rightarrow> 'r sshClient \<Rightarrow> (goerr + SnapshotInfo list) \<times> 'r sshClient" where
  "ssh_ListSnapshots t c =
     (case runCommand t (''/disk print detail where slot~'' @ [dq] @ ''snap-'' @ [dq]) c of
        (Inl err, c) \<Rightarrow> (Inl (wrap_err ''failed to list snapshots: '' err), c)
      | (Inr output, c) \<Rightarrow> (Inr (parseSnapshotList output), c))"

definition disk_restore_command :: "string \<Rightarrow> CreateVolumeOptions \<Rightarrow> string" where
  "disk_restore_command snapshotID opts =
     ''/disk add type=file copy-from=[find slot='' @ snapshotID @ ''] file-path='' @ co_FilePath opts @
     '' file-size='' @ formatBytes (co_FileSizeBytes opts) @ '' slot='' @ co_Slot opts @
     '' nvme-tcp-export=yes nvme-tcp-server-port='' @ Itoa (co_NVMETCPPort opts) @
     '' nvme-tcp-server-nqn='' @ co_NVMETCPNQN opts"

definition ssh_RestoreSnapshot :: "'r transport \<Rightarrow> string list \<Rightarrow> string \<Rightarrow> CreateVolumeOptions \<Rightarrow> 'r sshClient
    \<Rightarrow> goerr option \<times> 'r sshClient" where
  "ssh_RestoreSnapshot t allowed snapshotID opts c =
     (case ValidateSnapshotID snapshotID of
        Some err \<Rightarrow> (Some err, c)
      | None \<Rightarrow>
     (case validateCreateVolumeOptions allowed opts of
        Some err \<Rightarrow> (Some (wrap_err ''invalid volume options: '' err), c)
      | None \<Rightarrow>
     (case ssh_GetSnapshot t snapshotID c of
        (Inl err, c) \<Rightarrow> (Some (wrap_err ''snapshot not found: '' err), c)
      | (Inr _, c) \<Rightarrow>
     (case runCommandWithRetry t (disk_restore_command snapshotID opts) 3 c of
        (Inl err, c) \<Rightarrow> (Some (wrap_err ''failed to restore snapshot to new volume: '' err), c)
      | (Inr _, c) \<Rightarrow>
     (case ssh_VerifyVolumeExists t (co_Slot opts) c of
        (Some err, c) \<Rightarrow> (Some (wrap_err ''restore verification failed: '' err), c)
      | (None, c) \<Rightarrow> (None, c))))))"

definition ssh_GetDiskMetrics :: "'r transport \<Rightarrow> string \<Rightarrow> 'r sshClient \<Rightarrow> (goerr + DiskMetrics) \<times> 'r sshClient" where
  "ssh_GetDiskMetrics t slot c =
     (case validateSlotName slot of
        Some err \<Rightarrow> (Inl err, c)
      | None \<Rightarrow>
          (case runCommand t (''/disk monitor-traffic '' @ slot @ '' once'') c of
             (Inl err, c) \<Rightarrow> (Inl (wrap_err ''failed to get disk metrics: '' err), c)
           | (Inr output, c) \<Rightarrow> (Inr ((parseDiskMetrics output)\<lparr>dm_Slot := slot\<rparr>), c)))"

text \<open>The client as an implementation of the interface the controller calls.\<close>

definition ssh_client :: "'r transport \<Rightarrow> string list \<Rightarrow> 'r sshClient RDSClient" where
  "ssh_client t allowed =
     \<lparr> rCreateVolume = ssh_CreateVolume t allowed, rDeleteVolume = ssh_DeleteVolume t allowed,
       rResizeVolume = ssh_ResizeVolume t, rGetVolume = ssh_GetVolume t, rListVolumes = ssh_ListVolumes t,
       rListFiles = ssh_ListFiles t allowed, rDeleteFile = ssh_DeleteFile t allowed,
       rGetCapacity = ssh_GetCapacity t, rGetAddress = sc_address,
       rCreateSnapshot = ssh_CreateSnapshot t, rDeleteSnapshot = ssh_DeleteSnapshot t allowed,
       rGetSnapshot = ssh_GetSnapshot t, rListSnapshots = ssh_ListSnapshots t,
       rRestoreSnapshot = ssh_RestoreSnapshot t allowed \<rparr>"

text \<open>A client without a callback of its own that does not skip verification and connects has checked the key it was given.\<close>

lemma connect_needs_key:
  assumes dial: "\<And>addr cb r r'. tDial t addr cb r = (None, r') \<Longrightarrow> cb (server_key r) = None"
    and "NewClient t config r = Inr c" "cc_HostKeyCallback config = None" "\<not> cc_InsecureSkipVerify config"
    and "ssh_Connect t c = (None, c')"
  shows "\<exists>k. parseHostKey t (cc_HostKey config) = Inr k \<and> hk_Type k = hk_Type (server_key r) \<and>
    hk_Fingerprint k = hk_Fingerprint (server_key r)"
proof -
  have nc: "newSSHClient t config r = Inr c" using assms(2) by (auto simp: NewClient_def Let_def split: if_splits)
  then obtain cb where cb: "hostKeyCallback_of t config = Inr cb" "sc_hostKeyCallback c = cb" "sc_rds c = r"
      "\<not> sc_insecureSkipVerify c"
    using assms(4) by (auto simp: newSSHClient_def split: if_splits sum.splits)
  obtain f where f: "cb = Some f" using assms(5) cb by (cases cb) (auto simp: ssh_Connect_def)
  then obtain k where k: "parseHostKey t (cc_HostKey config) = Inr k" "f = createHostKeyCallback k (cc_Address config)"
    using cb(1) assms(3) by (auto simp: hostKeyCallback_of_def split: if_splits sum.splits)
  have "\<exists>addr r'. tDial t addr f r = (None, r')"
    using assms(5) cb f by (auto simp: ssh_Connect_def Let_def split: if_splits option.splits prod.splits)
  then have "f (server_key r) = None" using dial by blast
  with k show ?thesis by (auto simp: createHostKeyCallback_def split: if_splits)
qed

end
