(* ===== verification/MockServer.thy ===== *)
theory MockServer
  imports RouterText SshClient
begin

text \<open>
  The RouterOS server of \<^verbatim>\<open>test/mock/rds_server.go\<close>, which the integration tests run the client against: disk
  entries, snapshots and files, and the commands it answers. Its replies, failures included, go to the
  standard output of the session. Delays and the command history are left out; the order in which Go ranges
  over a map is the field \<open>ms_order\<close>, the clock is \<open>ms_now\<close>. On top of it stand the round trip of disk entries
  and what the client's operations do to such a server.
\<close>

subsection \<open>State\<close>

datatype ErrorMode = ErrorModeNone | ErrorModeDiskFull | ErrorModeSSHTimeout | ErrorModeCommandFail

record MockVolume =
  mv_Slot :: string
  mv_FilePath :: string
  mv_FileSizeBytes :: int
  mv_NVMETCPPort :: int
  mv_NVMETCPNQN :: string
  mv_Exported :: bool

record MockFile =
  mf_Path :: string
  mf_SizeBytes :: int
  mf_Type :: string
  mf_CreatedAt :: string

record MockSnapshot =
  mn_Slot :: string
  mn_SourceVolume :: string
  mn_FilePath :: string
  mn_FileSizeBytes :: int
  mn_CreatedAt :: time

record MockRDSServer =
  ms_volumes :: "string \<rightharpoonup> MockVolume"
  ms_snapshots :: "string \<rightharpoonup> MockSnapshot"
  ms_files :: "string \<rightharpoonup> MockFile"
  ms_mode :: ErrorMode
  ms_operationNum :: int
  ms_triggerAfter :: int
  ms_order :: "string set \<Rightarrow> string list"
  ms_now :: time

subsection \<open>Error injection\<close>

definition ShouldFailDiskAdd :: "MockRDSServer \<Rightarrow> string option \<times> MockRDSServer" where
  "ShouldFailDiskAdd s =
     (if ms_mode s \<noteq> ErrorModeDiskFull \<and> ms_mode s \<noteq> ErrorModeCommandFail then (None, s)
      else let s = s\<lparr>ms_operationNum := ms_operationNum s + 1\<rparr>
           in if ms_operationNum s \<le> ms_triggerAfter s then (None, s)
              else (Some (if ms_mode s = ErrorModeDiskFull then ''failure: not enough space'' @ [nl]
                          else ''failure: execution error'' @ [nl]), s))"

definition ShouldFailDiskRemove :: "MockRDSServer \<Rightarrow> string option \<times> MockRDSServer" where
  "ShouldFailDiskRemove s =
     (if ms_mode s \<noteq> ErrorModeCommandFail then (None, s)
      else let s = s\<lparr>ms_operationNum := ms_operationNum s + 1\<rparr>
           in if ms_operationNum s \<le> ms_triggerAfter s then (None, s)
              else (Some (''failure: execution error'' @ [nl]), s))"

subsection \<open>Reading commands\<close>

definition extractParam :: "string \<Rightarrow> string \<Rightarrow> string" where
  "extractParam command param = (case FindGroup1 (class_field param not_space) command of Some g \<Rightarrow> g | None \<Rightarrow> [])"

definition suffix_shift :: "char \<Rightarrow> nat" where
  "suffix_shift c = (if c = CHR ''K'' then 10 else if c = CHR ''M'' then 20 else if c = CHR ''G'' then 30 else 40)"

text \<open>The server's own \<^verbatim>\<open>parseSize\<close>: the pattern \<^verbatim>\<open>^(\d+)([KMGT])$\<close>, else \<^verbatim>\<open>Sscanf\<close> of a number.\<close>

definition parseSize_server :: "string \<Rightarrow> goerr + int" where
  "parseSize_server sizeStr =
     (if sizeStr \<noteq> [] \<and> unit_letter (last sizeStr) \<and> butlast sizeStr \<noteq> [] \<and> list_all is_digit (butlast sizeStr)
      then (case Sscanf_d (butlast sizeStr) of
              None \<Rightarrow> Inl (GoErr (''invalid number: '' @ butlast sizeStr))
            | Some num \<Rightarrow> Inr (wrap64 (num * 2 ^ suffix_shift (last sizeStr))))
      else (case Sscanf_d sizeStr of
              Some n \<Rightarrow> Inr n
            | None \<Rightarrow> Inl (GoErr (''invalid size format: '' @ sizeStr))))"

definition not_space_bracket :: "char \<Rightarrow> bool" where
  "not_space_bracket c \<longleftrightarrow> \<not> rx_space c \<and> c \<noteq> CHR '']''"

definition not_bracket :: "char \<Rightarrow> bool" where
  "not_bracket c \<longleftrightarrow> c \<noteq> CHR '']''"

text \<open>\<^verbatim>\<open>FindAllStringSubmatch\<close> for a pattern that matches no empty text, first group of each match.\<close>

fun rx_all :: "nat \<Rightarrow> rx \<Rightarrow> char option \<Rightarrow> string \<Rightarrow> string list" where
  "rx_all 0 r p s = []"
| "rx_all (Suc n) r p s =
     (case rx_find r p s of
        None \<Rightarrow> []
      | Some (pre, p1, s1, cs) \<Rightarrow> (case cs of g # _ \<Rightarrow> [g] | [] \<Rightarrow> []) @ rx_all n r p1 s1)"

definition dest_slot_rx :: rx where \<comment> \<open>\<^verbatim>\<open>(?:^|\s)slot=([^\s\]]+)\<close>\<close>
  "dest_slot_rx = RSeq (RAlt RBeg (RCls rx_space)) (class_field ''slot'' not_space_bracket)"

definition server_port :: "string \<Rightarrow> int" where
  "server_port s = (if s \<noteq> [] then (case Sscanf_d s of Some n \<Rightarrow> n | None \<Rightarrow> 0) else 4420)"

definition backing_file :: "string \<Rightarrow> int \<Rightarrow> MockFile" where
  "backing_file path n = \<lparr> mf_Path = path, mf_SizeBytes = n, mf_Type = ''.img'', mf_CreatedAt = ''2025-11-11 12:00:00'' \<rparr>"

type_synonym reply = "string \<times> int"

definition failure :: "string \<Rightarrow> reply" where
  "failure m = (''failure: '' @ m @ [nl], 1)"

subsection \<open>Commands that change the state\<close>

definition handleDiskAddCopyFrom :: "string \<Rightarrow> MockRDSServer \<Rightarrow> reply \<times> MockRDSServer" where
  "handleDiskAddCopyFrom command s =
     (case FindGroup1 (RSeq (rx_lit ''copy-from=[find slot='') (RSeq (RGrp (rx_plus (RCls not_bracket))) (rx_lit '']''))) command of
        None \<Rightarrow> (failure ''invalid copy-from format'', s)
      | Some sourceSlot \<Rightarrow>
          (let slot = (case filter (\<lambda>m. m \<noteq> sourceSlot) (rx_all (length command) dest_slot_rx None command) of
                         [] \<Rightarrow> [] | ms \<Rightarrow> last ms);
               filePath = extractParam command ''file-path''
           in if slot = [] \<or> filePath = [] then (failure ''missing required parameters'', s)
              else (case (case ms_volumes s sourceSlot of
                            Some v \<Rightarrow> Some (mv_FileSizeBytes v)
                          | None \<Rightarrow> map_option mn_FileSizeBytes (ms_snapshots s sourceSlot)) of
                None \<Rightarrow> (failure ''no such item'', s)
              | Some sourceSize \<Rightarrow>
                  if Contains command ''nvme-tcp-export=yes''
                  then (let fileSizeStr = extractParam command ''file-size'';
                            fileSize = (if fileSizeStr \<noteq> []
                                        then (case parseSize_server fileSizeStr of Inr n \<Rightarrow> n | Inl _ \<Rightarrow> sourceSize)
                                        else sourceSize)
                        in if ms_volumes s slot \<noteq> None then (failure ''volume already exists'', s)
                           else (([], 0), s\<lparr> ms_volumes := (ms_volumes s)(slot \<mapsto>
                               \<lparr> mv_Slot = slot, mv_FilePath = filePath, mv_FileSizeBytes = fileSize,
                                 mv_NVMETCPPort = server_port (extractParam command ''nvme-tcp-server-port''),
                                 mv_NVMETCPNQN = extractParam command ''nvme-tcp-server-nqn'', mv_Exported = True \<rparr>),
                               ms_files := (ms_files s)(filePath \<mapsto> backing_file filePath fileSize) \<rparr>))
                  else if ms_snapshots s slot \<noteq> None then (failure ''snapshot already exists'', s)
                  else (([], 0), s\<lparr> ms_snapshots := (ms_snapshots s)(slot \<mapsto>
                      \<lparr> mn_Slot = slot, mn_SourceVolume = sourceSlot, mn_FilePath = filePath,
                        mn_FileSizeBytes = sourceSize, mn_CreatedAt = ms_now s \<rparr>),
                      ms_files := (ms_files s)(filePath \<mapsto> backing_file filePath sourceSize) \<rparr>))))"

definition handleDiskAdd :: "string \<Rightarrow> MockRDSServer \<Rightarrow> reply \<times> MockRDSServer" where
  "handleDiskAdd command s =
     (case ShouldFailDiskAdd s of
        (Some m, s) \<Rightarrow> ((m, 1), s)
      | (None, s) \<Rightarrow>
          if Contains command ''copy-from='' then handleDiskAddCopyFrom command s
          else (let slot = extractParam command ''slot''; filePath = extractParam command ''file-path'';
                    fileSizeStr = extractParam command ''file-size''
                in if slot = [] \<or> filePath = [] \<or> fileSizeStr = [] then (failure ''missing required parameters'', s)
                   else (case parseSize_server fileSizeStr of
                     Inl err \<Rightarrow> (failure (''invalid file size '' @ fileSizeStr @ '': '' @ err_msg err), s)
                   | Inr fileSize \<Rightarrow>
                       if ms_volumes s slot \<noteq> None then (failure ''volume already exists'', s)
                       else (([], 0), s\<lparr> ms_volumes := (ms_volumes s)(slot \<mapsto>
                           \<lparr> mv_Slot = slot, mv_FilePath = filePath, mv_FileSizeBytes = fileSize,
                             mv_NVMETCPPort = server_port (extractParam command ''nvme-tcp-server-port''),
                             mv_NVMETCPNQN = extractParam command ''nvme-tcp-server-nqn'', mv_Exported = True \<rparr>),
                           ms_files := (ms_files s)(filePath \<mapsto> backing_file filePath fileSize) \<rparr>))))"

definition handleDiskSet :: "string \<Rightarrow> MockRDSServer \<Rightarrow> reply \<times> MockRDSServer" where
  "handleDiskSet command s =
     (case FindGroup1 (class_field ''slot'' not_space_bracket) command of
        None \<Rightarrow> (failure ''invalid command format'', s)
      | Some slot \<Rightarrow>
          (let fileSizeStr = extractParam command ''file-size''
           in if fileSizeStr = [] then (failure ''file-size parameter required'', s)
              else (case parseSize_server fileSizeStr of
                Inl err \<Rightarrow> (failure (''invalid file size '' @ fileSizeStr @ '': '' @ err_msg err), s)
              | Inr newSize \<Rightarrow>
                  (case ms_volumes s slot of
                     None \<Rightarrow> (failure ''no such item'', s)
                   | Some vol \<Rightarrow> (([], 0), s\<lparr>
                       ms_volumes := (ms_volumes s)(slot \<mapsto> vol\<lparr>mv_FileSizeBytes := newSize\<rparr>),
                       ms_files := (case ms_files s (mv_FilePath vol) of
                          Some f \<Rightarrow> if mv_FilePath vol \<noteq> []
                                    then (ms_files s)(mv_FilePath vol \<mapsto> f\<lparr>mf_SizeBytes := newSize\<rparr>) else ms_files s
                        | None \<Rightarrow> ms_files s) \<rparr>)))))"

definition handleDiskRemove :: "string \<Rightarrow> MockRDSServer \<Rightarrow> reply \<times> MockRDSServer" where
  "handleDiskRemove command s =
     (case ShouldFailDiskRemove s of
        (Some m, s) \<Rightarrow> ((m, 1), s)
      | (None, s) \<Rightarrow>
          (case FindGroup1 (class_field ''slot'' not_space_bracket) command of
             None \<Rightarrow> (failure ''invalid command format'', s)
           | Some slot \<Rightarrow>
               (case ms_volumes s slot of
                  Some vol \<Rightarrow> (([], 0), s\<lparr> ms_volumes := (ms_volumes s)(slot := None),
                      ms_files := (if mv_FilePath vol \<noteq> [] then (ms_files s)(mv_FilePath vol := None) else ms_files s) \<rparr>)
                | None \<Rightarrow>
                    (case ms_snapshots s slot of
                       Some snap \<Rightarrow> (([], 0), s\<lparr> ms_snapshots := (ms_snapshots s)(slot := None),
                           ms_files := (if mn_FilePath snap \<noteq> [] then (ms_files s)(mn_FilePath snap := None)
                                        else ms_files s) \<rparr>)
                     | None \<Rightarrow> (([], 0), s)))))"

definition handleFileRemove :: "string \<Rightarrow> MockRDSServer \<Rightarrow> reply \<times> MockRDSServer" where
  "handleFileRemove command s =
     (case FindGroup1 (quoted_field ''name'') command of
        None \<Rightarrow> (failure ''invalid command format'', s)
      | Some filePath \<Rightarrow>
          (([], 0), s\<lparr> ms_files := (ms_files s)((if HasPrefix filePath ''/'' then filePath else ''/'' @ filePath) := None) \<rparr>))"

subsection \<open>Printing\<close>

definition formatDiskDetail :: "MockVolume \<Rightarrow> string" where
  "formatDiskDetail vol =
     ''slot='' @ [dq] @ mv_Slot vol @ [dq] @ '' type='' @ [dq] @ ''file'' @ [dq] @
     '' file-path='' @ [dq] @ mv_FilePath vol @ [dq] @ '' file-size='' @ Itoa (mv_FileSizeBytes vol) @
     '' nvme-tcp-export='' @ (if mv_Exported vol then ''yes'' else ''no'') @
     '' nvme-tcp-server-port='' @ Itoa (mv_NVMETCPPort vol) @
     '' nvme-tcp-server-nqn='' @ [dq] @ mv_NVMETCPNQN vol @ [dq] @ '' status='' @ [dq] @ ''ready'' @ [dq]"

text \<open>\<^verbatim>\<open>CreatedAt.Format("Jan/02/2006 15:04:05")\<close> in lower case, for a time in UTC.\<close>

definition pad2 :: "nat \<Rightarrow> string" where
  "pad2 n = (if n < 10 then ''0'' @ dec_nat n else dec_nat n)"

definition pad4 :: "nat \<Rightarrow> string" where
  "pad4 n = replicate (4 - length (dec_nat n)) (CHR ''0'') @ dec_nat n"

definition civil :: "int \<Rightarrow> nat \<times> nat \<times> nat" where
  "civil days =
     (let z = days + 719468; era = z div 146097; doe = z mod 146097;
          yoe = (doe - doe div 1460 + doe div 36524 - doe div 146096) div 365;
          doy = doe - (365 * yoe + yoe div 4 - yoe div 100);
          mp = (5 * doy + 2) div 153;
          d = doy - (153 * mp + 2) div 5 + 1;
          m = (if mp < 10 then mp + 3 else mp - 9)
      in (nat (yoe + era * 400 + (if m \<le> 2 then 1 else 0)), nat m, nat d))"

definition format_time :: "time \<Rightarrow> string" where
  "format_time t =
     (let secs = t div 1000000000; sod = nat (secs mod 86400)
      in case civil (secs div 86400) of (y, m, d) \<Rightarrow>
           month_names ! (m - 1) @ ''/'' @ pad2 d @ ''/'' @ pad4 y @ '' '' @
           pad2 (sod div 3600) @ '':'' @ pad2 (sod div 60 mod 60) @ '':'' @ pad2 (sod mod 60))"

definition formatSnapshotDetail :: "MockSnapshot \<Rightarrow> string" where
  "formatSnapshotDetail snap =
     ''slot='' @ [dq] @ mn_Slot snap @ [dq] @ '' type='' @ [dq] @ ''file'' @ [dq] @
     '' file-path='' @ [dq] @ mn_FilePath snap @ [dq] @ '' file-size='' @ Itoa (mn_FileSizeBytes snap) @
     '' source-volume='' @ [dq] @ mn_SourceVolume snap @ [dq] @ '' creation-time='' @ format_time (mn_CreatedAt snap) @
     '' status='' @ [dq] @ ''ready'' @ [dq]"

text \<open>\<^verbatim>\<open>%2d\<close>, and the numbered lines of a listing.\<close>

definition numbered :: "string list \<Rightarrow> string" where
  "numbered entries =
     concat (map (\<lambda>(i, e). (if i < 10 then '' '' else []) @ dec_nat i @ '' '' @ e @ [nl])
       (zip [0..<length entries] entries))"

definition all_entries :: "(string \<Rightarrow> bool) \<Rightarrow> MockRDSServer \<Rightarrow> string list" where
  "all_entries sel s =
     map formatDiskDetail (filter (\<lambda>v. sel (mv_Slot v)) (map (\<lambda>k. the (ms_volumes s k)) (ms_order s (dom (ms_volumes s))))) @
     map formatSnapshotDetail (filter (\<lambda>v. sel (mn_Slot v)) (map (\<lambda>k. the (ms_snapshots s k)) (ms_order s (dom (ms_snapshots s)))))"

definition formatMountPointCapacity :: string where
  "formatMountPointCapacity =
     ''slot=storage-pool type=partition mount-point=storage-pool file-system=btrfs '' @
     ''size=7 949 127 950 336 free=5 963 595 964 416 use=25%'' @ [nl]"

definition slot_pattern_rx :: rx where \<comment> \<open>\<^verbatim>\<open>slot~"([^"]+)"\<close>\<close>
  "slot_pattern_rx = RSeq (rx_lit (''slot~'' @ [dq])) (RSeq (RGrp (rx_plus (RCls not_dq))) (rx_lit [dq]))"

definition handleDiskPrintDetail :: "string \<Rightarrow> MockRDSServer \<Rightarrow> reply" where
  "handleDiskPrintDetail command s =
     (if Contains command ''mount-point='' then (formatMountPointCapacity, 0)
      else (case (if Contains command ''slot~'' then FindGroup1 slot_pattern_rx command else None) of
        Some pat \<Rightarrow> (numbered (all_entries (\<lambda>sl. Contains sl pat) s), 0)
      | None \<Rightarrow>
          (let slot = (case FindGroup1 (class_field ''slot'' not_space) command of Some g \<Rightarrow> g | None \<Rightarrow> [])
           in if slot \<noteq> []
              then (case ms_volumes s slot of
                      Some vol \<Rightarrow> (formatDiskDetail vol, 0)
                    | None \<Rightarrow> (case ms_snapshots s slot of
                        Some snap \<Rightarrow> (formatSnapshotDetail snap, 0) | None \<Rightarrow> ([], 0)))
              else (numbered (all_entries (\<lambda>_. True) s), 0))))"

text \<open>\<^verbatim>\<open>fmt.Sprintf("%.1f")\<close> of \<^verbatim>\<open>float64(bytes) / float64(1 << k)\<close>.\<close>

definition one_decimal :: "int \<Rightarrow> nat \<Rightarrow> string" where
  "one_decimal bytes k =
     (case float64 (nat bytes) 1 of (m, e) \<Rightarrow>
        case scaled (m * 10) 1 (int k - e) of (a, b) \<Rightarrow>
          let tenths = round_quot a b in dec_nat (tenths div 10) @ ''.'' @ dec_nat (tenths mod 10))"

definition formatSizeWithUnits :: "int \<Rightarrow> string" where
  "formatSizeWithUnits bytes =
     (if bytes \<ge> TB then one_decimal bytes 40 @ ''TiB'' else if bytes \<ge> GB then one_decimal bytes 30 @ ''GiB''
      else if bytes \<ge> MB then one_decimal bytes 20 @ ''MiB'' else if bytes \<ge> KB then one_decimal bytes 10 @ ''KiB''
      else Itoa bytes)"

definition name_pattern_rx :: rx where \<comment> \<open>\<^verbatim>\<open>name~"([^"]+)"\<close>\<close>
  "name_pattern_rx = RSeq (rx_lit (''name~'' @ [dq])) (RSeq (RGrp (rx_plus (RCls not_dq))) (rx_lit [dq]))"

definition file_entry :: "nat \<Rightarrow> string \<Rightarrow> MockFile \<Rightarrow> string" where
  "file_entry i path f =
     '' '' @ dec_nat i @ ''   name='' @ TrimPrefix path ''/'' @ [nl] @
     ''     type='' @ mf_Type f @ '' file size='' @ formatSizeWithUnits (mf_SizeBytes f) @
     '' last-modified='' @ mf_CreatedAt f @ [nl, nl]"

definition handleFilePrintDetail :: "string \<Rightarrow> MockRDSServer \<Rightarrow> reply" where
  "handleFilePrintDetail command s =
     (case FindGroup1 name_pattern_rx command of
        None \<Rightarrow> ([], 0)
      | Some pat \<Rightarrow>
          (let dir = (if CHR ''/'' \<in> set pat
                      then '' 0   name=/'' @ pat @ '' type=directory'' @ [nl] @ ''     last-modified=2025-11-11 16:47:07'' @ [nl, nl]
                      else []);
               start = (if CHR ''/'' \<in> set pat then 1 else 0);
               paths = filter (\<lambda>p. Contains p pat) (ms_order s (dom (ms_files s)))
           in (dir @ concat (map (\<lambda>(i, p). file_entry (start + i) p (the (ms_files s p))) (zip [0..<length paths] paths)), 0)))"

subsection \<open>Dispatch and transport\<close>

definition executeCommand :: "string \<Rightarrow> MockRDSServer \<Rightarrow> reply \<times> MockRDSServer" where
  "executeCommand command s =
     (let command = TrimSpace command
      in if HasPrefix command ''/disk add'' then handleDiskAdd command s
         else if HasPrefix command ''/disk set'' then handleDiskSet command s
         else if HasPrefix command ''/disk remove'' then handleDiskRemove command s
         else if HasPrefix command ''/disk print detail'' then (handleDiskPrintDetail command s, s)
         else if HasPrefix command ''/file print detail'' then (handleFilePrintDetail command s, s)
         else if HasPrefix command ''/file remove'' then handleFileRemove command s
         else ((''bad command name '' @ command @ [nl], 1), s))"

text \<open>What a session of \<^verbatim>\<open>handleSession\<close> gives the client: nothing is ever written to the error stream.\<close>

definition session_result :: "reply \<times> MockRDSServer \<Rightarrow> run_result \<times> MockRDSServer" where
  "session_result = (\<lambda>((out, code), s). (if code = 0 then RunOK out else RunExit code out [], s))"

definition mock_transport :: "hostkey \<Rightarrow> MockRDSServer transport" where
  "mock_transport key =
     \<lparr> tDial = (\<lambda>addr cb s. (cb key, s)), tSession = (\<lambda>s. (None, s)),
       tRun = (\<lambda>command s. session_result (executeCommand command s)), tClose = (\<lambda>s. (None, s)), tSleep = (\<lambda>d s. s\<lparr>ms_now := ms_now s + d\<rparr>),
       tTimeout = (\<lambda>_. False), tEOF = (\<lambda>_. False), tParseAuthorizedKey = (\<lambda>_. None), tParsePublicKey = (\<lambda>_. None),
       tParsePrivateKey = (\<lambda>_. None) \<rparr>"

subsection \<open>Disk entries read back\<close>

text \<open>Entries whose printed line the client can read, and what it reads.\<close>

definition disk_ok :: "MockVolume \<Rightarrow> bool" where
  "disk_ok v \<longleftrightarrow>
     token (mv_Slot v) \<and> token (mv_FilePath v) \<and> HasPrefix (mv_FilePath v) ''/'' \<and> token (mv_NVMETCPNQN v) \<and>
     0 \<le> mv_FileSizeBytes v \<and> mv_FileSizeBytes v \<le> max_int64 \<and>
     0 \<le> mv_NVMETCPPort v \<and> mv_NVMETCPPort v \<le> max_int64 \<and>
     list_all (\<lambda>w. \<not> Contains w ''disabled'') [mv_Slot v, mv_FilePath v, mv_NVMETCPNQN v]"

definition info_of :: "MockVolume \<Rightarrow> VolumeInfo" where
  "info_of v =
     \<lparr> vi_Slot = mv_Slot v, vi_Type = ''file'', vi_FilePath = mv_FilePath v, vi_FileSizeBytes = mv_FileSizeBytes v,
       vi_NVMETCPExport = mv_Exported v, vi_NVMETCPPort = mv_NVMETCPPort v, vi_NVMETCPNQN = mv_NVMETCPNQN v,
       vi_Status = ''ready'' \<rparr>"

definition yes_no :: "bool \<Rightarrow> string" where
  "yes_no b = (if b then ''yes'' else ''no'')"

definition detail_parts :: "MockVolume \<Rightarrow> string list" where
  "detail_parts v =
     [''slot'', part (dq # mv_Slot v @ [dq]) ''type'', part (dq # ''file'' @ [dq]) ''file-path'',
      part (dq # mv_FilePath v @ [dq]) ''file-size'', part (Itoa (mv_FileSizeBytes v)) ''nvme-tcp-export'',
      part (yes_no (mv_Exported v)) ''nvme-tcp-server-port'', part (Itoa (mv_NVMETCPPort v)) ''nvme-tcp-server-nqn'',
      part (dq # mv_NVMETCPNQN v @ [dq]) ''status'', dq # ''ready'' @ [dq]]"

lemma formatDiskDetail_parts: "formatDiskDetail v = Join (CHR ''='') (detail_parts v)"
  by (simp add: formatDiskDetail_def detail_parts_def part_def yes_no_def)

lemma Split_formatDiskDetail:
  assumes "disk_ok v"
  shows "Split (CHR ''='') (formatDiskDetail v) = detail_parts v"
  unfolding formatDiskDetail_parts
proof (rule Split_Join)
  have "CHR ''='' \<notin> set (Itoa (mv_FileSizeBytes v))" "CHR ''='' \<notin> set (Itoa (mv_NVMETCPPort v))"
    using assms token_chars(4) [OF Itoa_token] by (auto simp: disk_ok_def)
  then show "\<forall>w \<in> set (detail_parts v). CHR ''='' \<notin> set w"
    using assms token_chars(4) by (auto simp: detail_parts_def set_part disk_ok_def yes_no_def)
qed (simp add: detail_parts_def)

lemma detail_not_disabled:
  assumes "disk_ok v"
  shows "\<not> Contains (formatDiskDetail v) ''disabled''"
proof -
  have d: "\<not> Contains w ''disabled''" if "list_all is_digit w" for w
    using that by (induction w) (auto simp: HasPrefix_def is_digit_def)
  have j: "Contains (Join (CHR ''='') ws) ''disabled'' \<longleftrightarrow> list_ex (\<lambda>w. Contains w ''disabled'') ws" for ws
    by (induction "CHR ''=''" ws rule: Join.induct) (auto simp: Contains_delim)
  have p: "Contains (part w k) ''disabled'' \<longleftrightarrow> Contains w ''disabled'' \<or> Contains k ''disabled''" for w k
    by (simp add: part_def Contains_delim)
  have q2: "Contains (w @ [dq]) ''disabled'' \<longleftrightarrow> Contains w ''disabled''" for w
    using Contains_delim [of dq "''disabled''" w "[]"] by simp
  have q: "Contains (dq # w @ [dq]) ''disabled'' \<longleftrightarrow> Contains w ''disabled''" for w
    using Contains_delim [of dq "''disabled''" "[]" "w @ [dq]"] Contains_delim [of dq "''disabled''" w "[]"] by simp
  show ?thesis
    unfolding formatDiskDetail_parts j
    using assms d Itoa_digits [of "mv_FileSizeBytes v"] Itoa_digits [of "mv_NVMETCPPort v"]
    by (auto simp: detail_parts_def p q q2 disk_ok_def HasPrefix_def yes_no_def)
qed


lemma normalize_detail:
  assumes "disk_ok v"
  shows "normalizeRouterOSOutput (formatDiskDetail v) = formatDiskDetail v"
proof (rule normalize_single)
  have t: "nl \<notin> set w" if "token w" for w
    using that by (auto simp: token_def list_all_iff is_space_def)
  then show "nl \<notin> set (formatDiskDetail v)"
    using assms t [OF Itoa_token, of "mv_FileSizeBytes v"] t [OF Itoa_token, of "mv_NVMETCPPort v"]
    by (auto simp: formatDiskDetail_def disk_ok_def)
qed (use detail_not_disabled [OF assms] in \<open>simp_all add: formatDiskDetail_def HasPrefix_def\<close>)

lemma detail_fields:
  assumes "disk_ok v"
  defines "ps \<equiv> detail_parts v"
  shows "field_scan ''slot'' quoted_at ps = Some (mv_Slot v)"
    and "field_scan ''type'' optquoted_at ps = Some ''file''"
    and "field_scan ''file-path'' quoted_at ps = Some (mv_FilePath v)"
    and "field_scan ''file-size'' human_at ps = None"
    and "field_scan ''size'' (class_at digit_or_space) ps = Some (Itoa (mv_FileSizeBytes v) @ '' '')"
    and "field_scan ''nvme-tcp-export'' export_at ps = Some (yes_no (mv_Exported v))"
    and "field_scan ''nvme-tcp-server-port'' (class_at is_digit) ps = Some (Itoa (mv_NVMETCPPort v))"
    and "field_scan ''nvme-tcp-server-nqn'' quoted_at ps = Some (mv_NVMETCPNQN v)"
    and "field_scan ''status'' optquoted_at ps = Some ''ready''"
proof -
  note ok = assms(1) [unfolded disk_ok_def]
  have tf: "token ''file''" "token ''ready''" by (simp_all add: token_def is_space_def)
  note vals = quoted_at_token optquoted_at_token [OF tf(1), simplified] optquoted_at_token [OF tf(2), simplified]
    class_at_digits class_at_spaced human_at_plain Itoa_digits
  show "field_scan ''slot'' quoted_at ps = Some (mv_Slot v)"
    using ok by (simp add: ps_def detail_parts_def scan_eval vals del: Join.simps)
  show "field_scan ''type'' optquoted_at ps = Some ''file''"
    using ok by (simp add: ps_def detail_parts_def scan_eval vals del: Join.simps)
  show "field_scan ''file-path'' quoted_at ps = Some (mv_FilePath v)"
    using ok by (simp add: ps_def detail_parts_def scan_eval vals del: Join.simps)
  show "field_scan ''file-size'' human_at ps = None"
    using ok by (simp add: ps_def detail_parts_def scan_eval vals unit_letter_def rx_space_def del: Join.simps)
  show "field_scan ''size'' (class_at digit_or_space) ps = Some (Itoa (mv_FileSizeBytes v) @ '' '')"
    using ok by (simp add: ps_def detail_parts_def scan_eval vals digit_or_space_def is_digit_def rx_space_def del: Join.simps)
  show "field_scan ''nvme-tcp-export'' export_at ps = Some (yes_no (mv_Exported v))"
    using ok by (simp add: ps_def detail_parts_def scan_eval export_at_def HasPrefix_def yes_no_def del: Join.simps)
  show "field_scan ''nvme-tcp-server-port'' (class_at is_digit) ps = Some (Itoa (mv_NVMETCPPort v))"
    using ok by (simp add: ps_def detail_parts_def scan_eval vals del: Join.simps)
  show "field_scan ''nvme-tcp-server-nqn'' quoted_at ps = Some (mv_NVMETCPNQN v)"
    using ok by (simp add: ps_def detail_parts_def scan_eval vals del: Join.simps)
  show "field_scan ''status'' optquoted_at ps = Some ''ready''"
    using ok by (simp add: ps_def detail_parts_def scan_eval vals del: Join.simps(3))
qed


lemma parse_disk_detail:
  assumes "disk_ok v"
  shows "parseVolumeInfo (formatDiskDetail v) = info_of v"
proof -
  note f = detail_fields [OF assms]
  have ok: "0 \<le> mv_FileSizeBytes v" "mv_FileSizeBytes v \<le> max_int64" "0 \<le> mv_NVMETCPPort v"
      "mv_NVMETCPPort v \<le> max_int64" "mv_FilePath v \<noteq> []" "HasPrefix (mv_FilePath v) ''/''"
    using assms token_chars(6) by (auto simp: disk_ok_def)
  have i64: "in_int64 (mv_FileSizeBytes v)" "in_int64 (mv_NVMETCPPort v)"
    using ok by (simp_all add: in_int64_def min_int64_def)
  have "remove_char (CHR '' '') (Itoa (mv_FileSizeBytes v) @ '' '') = Itoa (mv_FileSizeBytes v)"
    using ok Itoa_digits remove_blank_digits by blast
  then have sz: "spaced_int ''size'' (formatDiskDetail v) = mv_FileSizeBytes v"
    by (simp add: spaced_int_def class_field_scan Split_formatDiskDetail [OF assms] f i64)
  have hs: "human_size ''file-size'' (formatDiskDetail v) = None"
    by (simp add: human_size_def human_size_field_scan Split_formatDiskDetail [OF assms] f)
  have rest: "slot_of (formatDiskDetail v) = mv_Slot v" "type_of (formatDiskDetail v) = ''file''"
      "file_path_of (formatDiskDetail v) = mv_FilePath v" "parse_port (formatDiskDetail v) = mv_NVMETCPPort v"
      "FindGroup1 export_field (formatDiskDetail v) = Some (yes_no (mv_Exported v))"
      "FindGroup1 (quoted_field ''nvme-tcp-server-nqn'') (formatDiskDetail v) = Some (mv_NVMETCPNQN v)"
      "status_of (formatDiskDetail v) ty ex = ''ready''" for ty ex
    using ok by (simp_all add: slot_of_def type_of_def file_path_of_def parse_port_def status_of_def make_abs_def
        field_scans Split_formatDiskDetail [OF assms] f i64)
  show ?thesis
    unfolding parseVolumeInfo_def normalize_detail [OF assms] Let_def info_of_def
    by (simp add: rest sz hs yes_no_def)
qed

end
