(* ===== verification/SshStore.thy ===== *)
theory SshStore
  imports MockServer
begin

text \<open>
  The SSH client against a RouterOS server. The locale \<open>disk_server\<close> is what the client relies on of the other end:
  which replies the disk commands of \<^verbatim>\<open>pkg/rds/commands.go\<close> get and what they do to the table of disk entries.
  Inside it, the client's operations are shown to act on that table the way the interface \<^verbatim>\<open>RDSClient\<close> promises. The
  interpretation discharges the contract for the server of \<^verbatim>\<open>test/mock/rds_server.go\<close>.
\<close>

lemma TrimSpace_keeps: "x \<in> set s \<Longrightarrow> \<not> is_space x \<Longrightarrow> TrimSpace s \<noteq> []"
  by (induction s) (auto simp: TrimSpace_def)

lemma TrimSpace_id:
  assumes "s \<noteq> []" "\<not> is_space (hd s)" "\<not> is_space (last s)"
  shows "TrimSpace s = s"
proof -
  have "dropWhile is_space s = s" using assms by (cases s) auto
  moreover have "dropWhile is_space (rev s) = rev s" using assms by (cases s rule: rev_exhaust) auto
  ultimately show ?thesis by (simp add: TrimSpace_def)
qed

subsection \<open>Sizes\<close>

text \<open>The number of bytes that the text of \<^verbatim>\<open>formatBytes\<close> stands for: whole units of the largest unit that fits.\<close>

definition granted :: "int \<Rightarrow> int" where
  "granted n =
     (if n \<ge> TB then n div TB * TB else if n \<ge> GB then n div GB * GB else if n \<ge> MB then n div MB * MB
      else if n \<ge> KB then n div KB * KB else n)"

lemma unit_values: "KB = 2 ^ 10" "MB = 2 ^ 20" "GB = 2 ^ 30" "TB = 2 ^ 40"
  by (simp_all add: KB_def MB_def GB_def TB_def)

lemma div_floor:
  fixes n u :: int
  assumes "0 < u" "u \<le> n"
  shows "0 < n div u * u \<and> n div u * u \<le> n \<and> n < 2 * (n div u * u)"
proof -
  have "1 \<le> n div u" using assms by (simp add: pos_imp_zdiv_pos_iff int_one_le_iff_zero_less)
  then have "u \<le> n div u * u" using assms(1) by (simp add: mult_le_cancel_right1)
  moreover have "n = n div u * u + n mod u" "0 \<le> n mod u" "n mod u < u" using assms by simp_all
  ultimately show ?thesis using assms by linarith
qed

lemma granted_bounds: "0 < n \<Longrightarrow> 0 < granted n \<and> granted n \<le> n \<and> n < 2 * granted n"
  using div_floor [of TB n] div_floor [of GB n] div_floor [of MB n] div_floor [of KB n]
  by (auto simp: granted_def unit_values)

lemma Sscanf_d_Itoa:
  assumes "0 \<le> n" "in_int64 n"
  shows "Sscanf_d (Itoa n) = Some n"
proof -
  obtain c w where cw: "Itoa n = c # w" "is_digit c" "list_all is_digit w"
    using Itoa_digits [OF assms(1)] by (cases "Itoa n") auto
  then have "\<not> sscanf_blank c" "c \<noteq> CHR ''-''" "c \<noteq> CHR ''+''"
    by (auto simp: sscanf_blank_def is_space_def is_digit_def)
  with cw have "Sscanf_d (Itoa n) = Atoi (Itoa n)"
    by (simp add: Sscanf_d_def takeWhile_whole)
  with assms show ?thesis by simp
qed

lemma server_size_suffix:
  assumes "0 \<le> n" "unit_letter c" "0 \<le> n * 2 ^ suffix_shift c" "n * 2 ^ suffix_shift c \<le> max_int64"
  shows "parseSize_server (Itoa n @ [c]) = Inr (n * 2 ^ suffix_shift c)"
proof -
  have "n * 1 \<le> n * 2 ^ suffix_shift c" using assms(1) by (intro mult_left_mono) auto
  then have "in_int64 n" using assms by (simp add: in_int64_def min_int64_def)
  moreover have "wrap64 (n * 2 ^ suffix_shift c) = n * 2 ^ suffix_shift c"
    by (intro wrap64_id order_trans [OF _ assms(3)] assms(4)) (simp add: min_int64_def)
  ultimately show ?thesis
    using assms Itoa_digits [OF assms(1)] Sscanf_d_Itoa [OF assms(1)] by (simp add: parseSize_server_def)
qed

lemma server_size_plain:
  assumes "0 \<le> n" "n \<le> max_int64"
  shows "parseSize_server (Itoa n) = Inr n"
proof -
  have "is_digit (last (Itoa n))" using Itoa_digits [OF assms(1)] by (simp add: list_all_iff)
  then have "\<not> unit_letter (last (Itoa n))" by (auto simp: unit_letter_def is_digit_def)
  then show ?thesis
    using assms Sscanf_d_Itoa [of n] by (simp add: parseSize_server_def in_int64_def min_int64_def)
qed

lemma server_size_formatBytes:
  assumes "0 < n" "n \<le> max_int64"
  shows "parseSize_server (formatBytes n) = Inr (granted n)"
proof -
  have u: "unit_letter (CHR ''K'')" "unit_letter (CHR ''M'')" "unit_letter (CHR ''G'')" "unit_letter (CHR ''T'')"
    by (simp_all add: unit_letter_def)
  have s: "parseSize_server (Itoa (n div 2 ^ suffix_shift c) @ [c]) = Inr (n div 2 ^ suffix_shift c * 2 ^ suffix_shift c)"
    if "unit_letter c" "2 ^ suffix_shift c \<le> n" for c
    using div_floor [of "2 ^ suffix_shift c" n] that assms by (intro server_size_suffix) (auto simp: pos_imp_zdiv_nonneg_iff)
  show ?thesis
    using assms s [OF u(1)] s [OF u(2)] s [OF u(3)] s [OF u(4)] server_size_plain [of n]
    by (simp add: formatBytes_def granted_def unit_values suffix_shift_def)
qed

lemma formatBytes_token:
  assumes "0 < n"
  shows "token (formatBytes n)"
proof -
  have "token (Itoa m @ [c])" if "0 \<le> m" "unit_letter c" for m c
    using Itoa_token [OF that(1)] that(2) by (auto simp: token_def unit_letter_def is_space_def)
  then show ?thesis
    using assms Itoa_token [of n]
    by (simp add: formatBytes_def unit_values unit_letter_def pos_imp_zdiv_nonneg_iff)
qed

subsection \<open>What the client relies on\<close>

definition vol_name :: "string \<Rightarrow> bool" where
  "vol_name k \<longleftrightarrow> k \<noteq> [] \<and> list_all slot_char k \<and> \<not> HasPrefix k SnapshotIDPrefix"

lemma validate_slot: "vol_name k \<Longrightarrow> validateSlotName k = None"
  by (simp add: validateSlotName_def vol_name_def slotNamePattern_def MatchString_class_plus del: rx_seq.simps)

definition disk_of :: "CreateVolumeOptions \<Rightarrow> MockVolume" where
  "disk_of opts =
     \<lparr> mv_Slot = co_Slot opts, mv_FilePath = co_FilePath opts, mv_FileSizeBytes = granted (co_FileSizeBytes opts),
       mv_NVMETCPPort = co_NVMETCPPort opts, mv_NVMETCPNQN = co_NVMETCPNQN opts, mv_Exported = True \<rparr>"

text \<open>Options that fit into the command without quoting, and whose entry can be read back.\<close>

definition addable :: "CreateVolumeOptions \<Rightarrow> bool" where
  "addable opts \<longleftrightarrow> vol_name (co_Slot opts) \<and> 0 < co_FileSizeBytes opts \<and> co_FileSizeBytes opts \<le> max_int64 \<and> disk_ok (disk_of opts)"

locale disk_server =
  fixes t :: "'r transport"
    and disks :: "'r \<Rightarrow> string \<rightharpoonup> MockVolume"
    and ready :: "'r \<Rightarrow> bool"
  assumes session: "ready r \<Longrightarrow> tSession t r = (None, r)"
    and entry: "ready r \<Longrightarrow> disks r k = Some v \<Longrightarrow> disk_ok v \<and> mv_Slot v = k"
    and print_found: "ready r \<Longrightarrow> vol_name k \<Longrightarrow> disks r k = Some v \<Longrightarrow>
          tRun t (disk_print_command k) r = (RunOK (formatDiskDetail v), r)"
    and print_missing: "ready r \<Longrightarrow> vol_name k \<Longrightarrow> disks r k = None \<Longrightarrow>
          tRun t (disk_print_command k) r = (RunOK [], r)"
    and add: "ready r \<Longrightarrow> addable opts \<Longrightarrow> disks r (co_Slot opts) = None \<Longrightarrow>
          \<exists>r'. tRun t (disk_add_command opts) r = (RunOK [], r') \<and> ready r' \<and>
               disks r' = (disks r)(co_Slot opts \<mapsto> disk_of opts)"
    and set: "ready r \<Longrightarrow> vol_name k \<Longrightarrow> 0 < n \<Longrightarrow> n \<le> max_int64 \<Longrightarrow> disks r k = Some v \<Longrightarrow>
          \<exists>r'. tRun t (disk_set_command k n) r = (RunOK [], r') \<and> ready r' \<and>
               disks r' = (disks r)(k \<mapsto> v\<lparr>mv_FileSizeBytes := granted n\<rparr>)"
    and remove: "ready r \<Longrightarrow> vol_name k \<Longrightarrow>
          \<exists>r'. tRun t (disk_remove_command k) r = (RunOK [], r') \<and> ready r' \<and> disks r' = (disks r)(k := None)"
    and file_remove: "ready r \<Longrightarrow>
          \<exists>res r'. tRun t (file_remove_command path) r = (res, r') \<and> ready r' \<and> disks r' = disks r"
begin

definition up :: "'r sshClient \<Rightarrow> bool" where
  "up c \<longleftrightarrow> sc_connected c \<and> ready (sc_rds c)"

lemma run_ok:
  assumes "up c" "tRun t command (sc_rds c) = (RunOK out, r')"
  shows "runCommand t command c = (Inr out, c\<lparr>sc_rds := r'\<rparr>)"
  using assms session by (simp add: runCommand_def up_def)

lemma retry_ok:
  assumes "up c" "tRun t command (sc_rds c) = (RunOK out, r')" "0 < n"
  shows "runCommandWithRetry t command n c = (Inr out, c\<lparr>sc_rds := r'\<rparr>)"
proof -
  obtain m where n: "n = Suc m" using assms(3) by (cases n) auto
  have "ssh_IsConnected t c = (True, c)" using assms(1) session by (simp add: ssh_IsConnected_def up_def)
  then show ?thesis using run_ok [OF assms(1,2)] by (simp add: runCommandWithRetry_def n Let_def)
qed

lemma get_found:
  assumes "up c" "vol_name k" "disks (sc_rds c) k = Some v"
  shows "ssh_GetVolume t k c = (Inr (info_of v), c)"
proof -
  have v: "disk_ok v" using assms entry by (auto simp: up_def)
  have "runCommand t (disk_print_command k) c = (Inr (formatDiskDetail v), c)"
    using run_ok [OF assms(1) print_found] assms by (simp add: up_def)
  moreover have "TrimSpace (formatDiskDetail v) \<noteq> []" using TrimSpace_keeps [of "CHR ''s''"] by (simp add: formatDiskDetail_def is_space_def)
  moreover have "vi_Slot (info_of v) \<noteq> []" using v token_chars(6) by (simp add: disk_ok_def info_of_def)
  ultimately show ?thesis
    using assms(2) by (simp add: ssh_GetVolume_def validate_slot normalize_detail [OF v] parse_disk_detail [OF v])
qed

lemma get_missing:
  assumes "up c" "vol_name k" "disks (sc_rds c) k = None"
  shows "ssh_GetVolume t k c = (Inl (WrapVolumeError ErrVolumeNotFound k []), c)"
proof -
  have "runCommand t (disk_print_command k) c = (Inr [], c)"
    using run_ok [OF assms(1) print_missing] assms by (simp add: up_def)
  then show ?thesis
    using assms(2) by (simp add: ssh_GetVolume_def validate_slot normalizeRouterOSOutput_def normalize_line_def
        TrimRight_cr_def HasPrefix_def TrimSpace_def)
qed

lemma create_new:
  assumes "up c" "addable opts" "validateCreateVolumeOptions allowed opts = None" "disks (sc_rds c) (co_Slot opts) = None"
  shows "\<exists>c'. ssh_CreateVolume t allowed opts c = (None, c') \<and> up c' \<and>
    disks (sc_rds c') = (disks (sc_rds c))(co_Slot opts \<mapsto> disk_of opts)"
proof -
  obtain r' where r': "tRun t (disk_add_command opts) (sc_rds c) = (RunOK [], r')" "ready r'"
      "disks r' = (disks (sc_rds c))(co_Slot opts \<mapsto> disk_of opts)"
    using add [of "sc_rds c" opts] assms by (auto simp: up_def)
  let ?c' = "c\<lparr>sc_rds := r'\<rparr>"
  have up: "up ?c'" using assms(1) r' by (simp add: up_def)
  have "ssh_GetVolume t (co_Slot opts) ?c' = (Inr (info_of (disk_of opts)), ?c')"
    using get_found [OF up] assms(2) r' by (simp add: addable_def)
  then have "ssh_VerifyVolumeExists t (co_Slot opts) ?c' = (None, ?c')"
    by (simp add: ssh_VerifyVolumeExists_def info_of_def)
  then have "ssh_CreateVolume t allowed opts c = (None, ?c')"
    using retry_ok [OF assms(1) r'(1)] assms(3) by (simp add: ssh_CreateVolume_def)
  with up r' show ?thesis by auto
qed

lemma resize:
  assumes "up c" "vol_name k" "disks (sc_rds c) k = Some v" "n \<le> max_int64"
  shows "\<exists>e c'. ssh_ResizeVolume t k n c = (e, c') \<and> up c' \<and>
    (if mv_FileSizeBytes v \<le> n \<and> 0 < n then e = None \<and>
       disks (sc_rds c') = (disks (sc_rds c))(k \<mapsto> v\<lparr>mv_FileSizeBytes := (if n = mv_FileSizeBytes v then n else granted n)\<rparr>)
     else e \<noteq> None \<and> c' = c)"
proof -
  have get: "ssh_GetVolume t k c = (Inr (info_of v), c)" using get_found assms by blast
  have size: "vi_FileSizeBytes (info_of v) = mv_FileSizeBytes v" by (simp add: info_of_def)
  consider "n \<le> 0 \<or> n < mv_FileSizeBytes v" | "n = mv_FileSizeBytes v" "0 < n" | "mv_FileSizeBytes v < n" "0 < n" by linarith
  then show ?thesis
  proof cases
    case 1
    then show ?thesis using assms by (auto simp: ssh_ResizeVolume_def validate_slot get size)
  next
    case 2
    have "(disks (sc_rds c))(k \<mapsto> v\<lparr>mv_FileSizeBytes := mv_FileSizeBytes v\<rparr>) = disks (sc_rds c)"
      using assms(3) by auto
    with 2 show ?thesis using assms by (simp add: ssh_ResizeVolume_def validate_slot get size)
  next
    case 3
    obtain r' where r': "tRun t (disk_set_command k n) (sc_rds c) = (RunOK [], r')" "ready r'"
        "disks r' = (disks (sc_rds c))(k \<mapsto> v\<lparr>mv_FileSizeBytes := granted n\<rparr>)"
      using set [of "sc_rds c" k n v] 3 assms by (auto simp: up_def)
    let ?c' = "c\<lparr>sc_rds := r'\<rparr>"
    have up: "up ?c'" using assms(1) r' by (simp add: up_def)
    have "ssh_GetVolume t k ?c' = (Inr (info_of (v\<lparr>mv_FileSizeBytes := granted n\<rparr>)), ?c')"
      using get_found [OF up assms(2)] r' by simp
    then have "ssh_ResizeVolume t k n c = (None, ?c')"
      using 3 retry_ok [OF assms(1) r'(1)] assms(2) by (simp add: ssh_ResizeVolume_def validate_slot get size)
    with up r' 3 show ?thesis by simp
  qed
qed

lemma delete_file_keeps:
  assumes "up c"
  shows "up (snd (ssh_DeleteFile t allowed path c)) \<and> disks (sc_rds (snd (ssh_DeleteFile t allowed path c))) = disks (sc_rds c)"
proof -
  obtain res r' where r': "tRun t (file_remove_command path) (sc_rds c) = (res, r')" "ready r'" "disks r' = disks (sc_rds c)"
    using file_remove assms by (meson up_def)
  have "\<exists>x. runCommand t (file_remove_command path) c = (x, c\<lparr>sc_rds := r'\<rparr>)"
    using r' assms session by (cases res) (simp_all add: runCommand_def up_def)
  then obtain x where "runCommand t (file_remove_command path) c = (x, c\<lparr>sc_rds := r'\<rparr>)" ..
  then show ?thesis using r' assms by (cases x) (auto simp: ssh_DeleteFile_def up_def split: option.split)
qed

lemma delete:
  assumes "up c" "vol_name k"
  shows "\<exists>c'. ssh_DeleteVolume t allowed k c = (None, c') \<and> up c' \<and> disks (sc_rds c') = (disks (sc_rds c))(k := None)"
proof (cases "disks (sc_rds c) k")
  case None
  then have "(disks (sc_rds c))(k := None) = disks (sc_rds c)" by auto
  then show ?thesis using get_missing [OF assms None] assms by (simp add: ssh_DeleteVolume_def validate_slot)
next
  case (Some v)
  obtain r' where r': "tRun t (disk_remove_command k) (sc_rds c) = (RunOK [], r')" "ready r'"
      "disks r' = (disks (sc_rds c))(k := None)"
    using remove assms by (meson up_def)
  let ?c' = "c\<lparr>sc_rds := r'\<rparr>"
  have up: "up ?c'" using assms(1) r' by (simp add: up_def)
  show ?thesis
    using get_found [OF assms Some] assms(2) retry_ok [OF assms(1) r'(1), of 3] delete_file_keeps [OF up] up r'
    by (simp add: ssh_DeleteVolume_def validate_slot remove_disk_and_file_def)
qed

end

subsection \<open>The commands at the server\<close>

definition server_ok :: "MockRDSServer \<Rightarrow> bool" where
  "server_ok s \<longleftrightarrow> ms_mode s = ErrorModeNone \<and>
     (\<forall>k v. ms_volumes s k = Some v \<longrightarrow> disk_ok v \<and> mv_Slot v = k) \<and>
     (\<forall>k. ms_snapshots s k \<noteq> None \<longrightarrow> HasPrefix k SnapshotIDPrefix)"

lemma Contains_key:
  assumes "CHR ''='' \<notin> set k"
  shows "Contains s (k @ ''='') \<longleftrightarrow> field_scan k (\<lambda>_. Some ()) (Split (CHR ''='') s) \<noteq> None"
proof -
  have "Contains s (k @ ''='') \<longleftrightarrow> scan (k @ ''='') (\<lambda>_. Some ()) s \<noteq> None"
    by (induction s) auto
  moreover have "list_all (\<lambda>w. CHR ''='' \<notin> set w) (Split (CHR ''='') s)"
    using Split_parts_nosep by (auto simp: list_all_iff)
  ultimately show ?thesis using scan_Join [OF assms, of "Split (CHR ''='') s" "\<lambda>_. Some ()"] by simp
qed

lemma Contains_subset: "Contains s p \<Longrightarrow> set p \<subseteq> set s"
  by (auto simp: Contains_iff)

lemma slot_char_token: "k \<noteq> [] \<Longrightarrow> list_all slot_char k \<Longrightarrow> token k"
  by (auto simp: token_def list_all_iff slot_char_def is_space_def is_digit_def is_upper_def is_lower_def)

lemma slot_char_bracket: "slot_char c \<Longrightarrow> not_space_bracket c"
  by (auto simp: not_space_bracket_def slot_char_def rx_space_def is_digit_def is_upper_def is_lower_def)

lemma class_at_slot:
  assumes "k \<noteq> []" "list_all slot_char k"
  shows "class_at not_space_bracket (k @ CHR '']'' # r) = Some k"
proof -
  have "list_all not_space_bracket k" using assms slot_char_bracket by (auto simp: list_all_iff)
  then show ?thesis using assms by (simp add: class_at_def takeWhile_upto not_space_bracket_def)
qed

definition add_parts :: "CreateVolumeOptions \<Rightarrow> string list" where
  "add_parts opts =
     [''/disk add type'', part ''file'' ''file-path'', part (co_FilePath opts) ''file-size'',
      part (formatBytes (co_FileSizeBytes opts)) ''slot'', part (co_Slot opts) ''nvme-tcp-export'',
      part ''yes'' ''nvme-tcp-server-port'', part (Itoa (co_NVMETCPPort opts)) ''nvme-tcp-server-nqn'', co_NVMETCPNQN opts]"

lemma addable_tokens:
  assumes "addable opts"
  shows "token (co_FilePath opts)" "token (formatBytes (co_FileSizeBytes opts))" "token (co_Slot opts)"
    "0 \<le> co_NVMETCPPort opts" "in_int64 (co_NVMETCPPort opts)" "token (Itoa (co_NVMETCPPort opts))" "token (co_NVMETCPNQN opts)"
  using assms Itoa_token formatBytes_token
  by (auto simp: addable_def disk_ok_def disk_of_def in_int64_def min_int64_def)

lemma Split_add:
  assumes "addable opts"
  shows "Split (CHR ''='') (disk_add_command opts) = add_parts opts"
proof -
  have "disk_add_command opts = Join (CHR ''='') (add_parts opts)"
    by (simp add: disk_add_command_def add_parts_def part_def)
  moreover have "Split (CHR ''='') (Join (CHR ''='') (add_parts opts)) = add_parts opts"
    using addable_tokens(1-3,6,7) [OF assms, THEN token_chars(4)] by (intro Split_Join) (auto simp: add_parts_def set_part)
  ultimately show ?thesis by simp
qed

lemma add_fields:
  assumes "addable opts"
  shows "extractParam (disk_add_command opts) ''slot'' = co_Slot opts"
    and "extractParam (disk_add_command opts) ''file-path'' = co_FilePath opts"
    and "extractParam (disk_add_command opts) ''file-size'' = formatBytes (co_FileSizeBytes opts)"
    and "extractParam (disk_add_command opts) ''nvme-tcp-server-port'' = Itoa (co_NVMETCPPort opts)"
    and "extractParam (disk_add_command opts) ''nvme-tcp-server-nqn'' = co_NVMETCPNQN opts"
    and "\<not> Contains (disk_add_command opts) ''copy-from=''"
proof -
  note tk = addable_tokens [OF assms]
  note ev = extractParam_def class_field_scan Split_add [OF assms] add_parts_def scan_eval class_at_token
  show "extractParam (disk_add_command opts) ''slot'' = co_Slot opts" using tk by (simp add: ev del: Join.simps)
  show "extractParam (disk_add_command opts) ''file-path'' = co_FilePath opts" using tk by (simp add: ev del: Join.simps)
  show "extractParam (disk_add_command opts) ''file-size'' = formatBytes (co_FileSizeBytes opts)"
    using tk by (simp add: ev del: Join.simps)
  show "extractParam (disk_add_command opts) ''nvme-tcp-server-port'' = Itoa (co_NVMETCPPort opts)"
    using tk by (simp add: ev del: Join.simps)
  show "extractParam (disk_add_command opts) ''nvme-tcp-server-nqn'' = co_NVMETCPNQN opts"
    using tk by (simp add: ev del: Join.simps(3))
  show "\<not> Contains (disk_add_command opts) ''copy-from=''"
    using Contains_key [of "''copy-from''" "disk_add_command opts"] by (simp add: ev del: Join.simps)
qed

lemma TrimSpace_add: "addable opts \<Longrightarrow> TrimSpace (disk_add_command opts) = disk_add_command opts"
proof (rule TrimSpace_id)
  assume "addable opts"
  then have "token (co_NVMETCPNQN opts)" by (rule addable_tokens)
  then show "\<not> is_space (last (disk_add_command opts))"
    by (auto simp: disk_add_command_def token_def list_all_iff)
qed (simp_all add: disk_add_command_def is_space_def)

lemma execute_add:
  assumes "server_ok s" "addable opts" "ms_volumes s (co_Slot opts) = None"
  shows "executeCommand (disk_add_command opts) s =
    (([], 0), s\<lparr> ms_volumes := (ms_volumes s)(co_Slot opts \<mapsto> disk_of opts),
       ms_files := (ms_files s)(co_FilePath opts \<mapsto> backing_file (co_FilePath opts) (granted (co_FileSizeBytes opts))) \<rparr>)"
proof -
  have d: "executeCommand (disk_add_command opts) s = handleDiskAdd (disk_add_command opts) s"
    unfolding executeCommand_def TrimSpace_add [OF assms(2)] Let_def by (simp add: disk_add_command_def HasPrefix_def)
  have n: "parseSize_server (formatBytes (co_FileSizeBytes opts)) = Inr (granted (co_FileSizeBytes opts))"
    using assms(2) by (intro server_size_formatBytes) (simp_all add: addable_def)
  have f: "ShouldFailDiskAdd s = (None, s)" using assms(1) by (simp add: ShouldFailDiskAdd_def server_ok_def)
  show ?thesis
    using assms addable_tokens [OF assms(2)] addable_tokens(1-3,6) [OF assms(2), THEN token_chars(6)]
    unfolding d handleDiskAdd_def f
    by (simp add: add_fields [OF assms(2)] n server_port_def Sscanf_d_Itoa disk_of_def Let_def)
qed

lemma execute_print:
  assumes "server_ok s" "vol_name k"
  shows "executeCommand (disk_print_command k) s =
    (((case ms_volumes s k of Some v \<Rightarrow> formatDiskDetail v | None \<Rightarrow> []), 0), s)"
proof -
  have k: "k \<noteq> []" "list_all slot_char k" "token k" using assms(2) slot_char_token by (auto simp: vol_name_def)
  have sp: "Split (CHR ''='') (disk_print_command k) = [''/disk print detail where slot'', k]"
    using Split_Join [of "[''/disk print detail where slot'', k]" "CHR ''=''"] token_chars(4) [OF k(3)]
    by (simp add: disk_print_command_def)
  have tr: "TrimSpace (disk_print_command k) = disk_print_command k"
    using k by (intro TrimSpace_id) (auto simp: disk_print_command_def is_space_def token_def list_all_iff)
  have d: "executeCommand (disk_print_command k) s = (handleDiskPrintDetail (disk_print_command k) s, s)"
    unfolding executeCommand_def tr Let_def by (simp add: disk_print_command_def HasPrefix_def)
  have "\<not> slot_char (CHR ''~'')" by (simp add: slot_char_def is_digit_def is_upper_def is_lower_def)
  then have "CHR ''~'' \<notin> set (disk_print_command k)" using k by (auto simp: disk_print_command_def list_all_iff)
  then have nt: "\<not> Contains (disk_print_command k) ''slot~''" using Contains_subset by fastforce
  have nm: "\<not> Contains (disk_print_command k) ''mount-point=''"
    using Contains_key [of "''mount-point''" "disk_print_command k"] by (simp add: sp scan_eval)
  have sl: "FindGroup1 (class_field ''slot'' not_space) (disk_print_command k) = Some k"
    using k by (simp add: class_field_scan sp scan_eval class_at_token)
  have "ms_snapshots s k = None" using assms by (auto simp: server_ok_def vol_name_def)
  then show ?thesis
    unfolding d handleDiskPrintDetail_def using nt nm sl k by (simp split: option.split)
qed

lemma execute_set:
  assumes "server_ok s" "vol_name k" "0 < n" "n \<le> max_int64" "ms_volumes s k = Some v"
  shows "\<exists>fs. executeCommand (disk_set_command k n) s =
    (([], 0), s\<lparr> ms_volumes := (ms_volumes s)(k \<mapsto> v\<lparr>mv_FileSizeBytes := granted n\<rparr>), ms_files := fs \<rparr>)"
proof -
  have k: "k \<noteq> []" "list_all slot_char k" "token k" using assms(2) slot_char_token by (auto simp: vol_name_def)
  have fb: "token (formatBytes n)" using assms(3) by (rule formatBytes_token)
  let ?ps = "[''/disk set [find slot'', part (k @ '']'') ''file-size'', formatBytes n]"
  have sp: "Split (CHR ''='') (disk_set_command k n) = ?ps"
    using Split_Join [of ?ps "CHR ''=''"] token_chars(4) [OF k(3)] token_chars(4) [OF fb]
    by (simp add: disk_set_command_def set_part) (simp add: part_def)
  have tr: "TrimSpace (disk_set_command k n) = disk_set_command k n"
    using fb by (intro TrimSpace_id) (auto simp: disk_set_command_def is_space_def token_def list_all_iff)
  have d: "executeCommand (disk_set_command k n) s = handleDiskSet (disk_set_command k n) s"
    unfolding executeCommand_def tr Let_def by (simp add: disk_set_command_def HasPrefix_def)
  have sl: "FindGroup1 (class_field ''slot'' not_space_bracket) (disk_set_command k n) = Some k"
    using k by (simp add: class_field_scan sp scan_eval class_at_slot del: Join.simps)
  have fs: "extractParam (disk_set_command k n) ''file-size'' = formatBytes n"
    using fb by (simp add: extractParam_def class_field_scan sp scan_eval class_at_token del: Join.simps(3))
  show ?thesis
    unfolding d handleDiskSet_def sl using assms token_chars(6) [OF fb]
    by (simp add: fs server_size_formatBytes) blast
qed

lemma execute_remove:
  assumes "server_ok s" "vol_name k"
  shows "\<exists>fs. executeCommand (disk_remove_command k) s =
    (([], 0), s\<lparr> ms_volumes := (ms_volumes s)(k := None), ms_files := fs \<rparr>)"
proof -
  have k: "k \<noteq> []" "list_all slot_char k" "token k" using assms(2) slot_char_token by (auto simp: vol_name_def)
  let ?ps = "[''/disk remove [find slot'', k @ '']'']"
  have sp: "Split (CHR ''='') (disk_remove_command k) = ?ps"
    using Split_Join [of ?ps "CHR ''=''"] token_chars(4) [OF k(3)] by (simp add: disk_remove_command_def)
  have tr: "TrimSpace (disk_remove_command k) = disk_remove_command k"
    by (intro TrimSpace_id) (auto simp: disk_remove_command_def is_space_def)
  have d: "executeCommand (disk_remove_command k) s = handleDiskRemove (disk_remove_command k) s"
    unfolding executeCommand_def tr Let_def by (simp add: disk_remove_command_def HasPrefix_def)
  have sl: "FindGroup1 (class_field ''slot'' not_space_bracket) (disk_remove_command k) = Some k"
    using k class_at_slot [of k "[]"] by (simp add: class_field_scan sp scan_eval)
  have f: "ShouldFailDiskRemove s = (None, s)" using assms(1) by (simp add: ShouldFailDiskRemove_def server_ok_def)
  have n: "ms_snapshots s k = None" using assms by (auto simp: server_ok_def vol_name_def)
  show ?thesis
  proof (cases "ms_volumes s k")
    case None
    then have "(ms_volumes s)(k := None) = ms_volumes s" by auto
    then have "s = s\<lparr> ms_volumes := (ms_volumes s)(k := None), ms_files := ms_files s \<rparr>" by simp
    moreover have "executeCommand (disk_remove_command k) s = (([], 0), s)"
      unfolding d handleDiskRemove_def f by (simp add: sl None n)
    ultimately show ?thesis by metis
  next
    case (Some v)
    show ?thesis
      unfolding d handleDiskRemove_def f
      by (rule exI [of _ "if mv_FilePath v \<noteq> [] then (ms_files s)(mv_FilePath v := None) else ms_files s"])
        (simp add: sl Some)
  qed
qed

lemma execute_file_remove:
  "\<exists>out code fs. executeCommand (file_remove_command path) s = ((out, code), s\<lparr> ms_files := fs \<rparr>)"
proof -
  have tr: "TrimSpace (file_remove_command path) = file_remove_command path"
    by (intro TrimSpace_id) (auto simp: file_remove_command_def is_space_def)
  have d: "executeCommand (file_remove_command path) s = handleFileRemove (file_remove_command path) s"
    unfolding executeCommand_def tr Let_def by (simp add: file_remove_command_def HasPrefix_def)
  have "\<exists>fs. s = s\<lparr> ms_files := fs \<rparr>" by (rule exI [of _ "ms_files s"]) simp
  then show ?thesis unfolding d handleFileRemove_def failure_def by (auto split: option.split)
qed

lemma disk_ok_grown:
  assumes "disk_ok v" "0 < n" "n \<le> max_int64"
  shows "disk_ok (v\<lparr>mv_FileSizeBytes := granted n\<rparr>)"
  using assms granted_bounds [of n] by (simp add: disk_ok_def)

lemma server_ok_upd:
  assumes "server_ok s" "\<And>v. x = Some v \<Longrightarrow> disk_ok v \<and> mv_Slot v = k"
  shows "server_ok (s\<lparr> ms_volumes := (ms_volumes s)(k := x), ms_files := fs \<rparr>)"
  using assms by (auto simp: server_ok_def)

interpretation mock_server: disk_server "mock_transport key" ms_volumes server_ok
proof
  fix r :: MockRDSServer and k v opts n path
  show "server_ok r \<Longrightarrow> tSession (mock_transport key) r = (None, r)"
    by (simp add: mock_transport_def)
  show "server_ok r \<Longrightarrow> ms_volumes r k = Some v \<Longrightarrow> disk_ok v \<and> mv_Slot v = k"
    by (simp add: server_ok_def)
  show "server_ok r \<Longrightarrow> vol_name k \<Longrightarrow> ms_volumes r k = Some v \<Longrightarrow>
      tRun (mock_transport key) (disk_print_command k) r = (RunOK (formatDiskDetail v), r)"
    by (simp add: mock_transport_def execute_print session_result_def)
  show "server_ok r \<Longrightarrow> vol_name k \<Longrightarrow> ms_volumes r k = None \<Longrightarrow>
      tRun (mock_transport key) (disk_print_command k) r = (RunOK [], r)"
    by (simp add: mock_transport_def execute_print session_result_def)
  show "server_ok r \<Longrightarrow> addable opts \<Longrightarrow> ms_volumes r (co_Slot opts) = None \<Longrightarrow>
      \<exists>r'. tRun (mock_transport key) (disk_add_command opts) r = (RunOK [], r') \<and> server_ok r' \<and>
        ms_volumes r' = (ms_volumes r)(co_Slot opts \<mapsto> disk_of opts)"
    using server_ok_upd [of r "Some (disk_of opts)" "co_Slot opts"]
    by (simp add: mock_transport_def execute_add session_result_def) (simp add: addable_def disk_of_def)
  show "server_ok r \<Longrightarrow> vol_name k \<Longrightarrow> 0 < n \<Longrightarrow> n \<le> max_int64 \<Longrightarrow> ms_volumes r k = Some v \<Longrightarrow>
      \<exists>r'. tRun (mock_transport key) (disk_set_command k n) r = (RunOK [], r') \<and> server_ok r' \<and>
        ms_volumes r' = (ms_volumes r)(k \<mapsto> v\<lparr>mv_FileSizeBytes := granted n\<rparr>)"
  proof -
    assume a: "server_ok r" "vol_name k" "0 < n" "n \<le> max_int64" "ms_volumes r k = Some v"
    obtain fs where "executeCommand (disk_set_command k n) r =
        (([], 0), r\<lparr> ms_volumes := (ms_volumes r)(k \<mapsto> v\<lparr>mv_FileSizeBytes := granted n\<rparr>), ms_files := fs \<rparr>)"
      using execute_set [OF a] by blast
    moreover have "disk_ok (v\<lparr>mv_FileSizeBytes := granted n\<rparr>)" "mv_Slot v = k"
      using a disk_ok_grown by (auto simp: server_ok_def)
    ultimately show ?thesis
      using server_ok_upd [OF a(1), of "Some (v\<lparr>mv_FileSizeBytes := granted n\<rparr>)" k fs]
      by (simp add: mock_transport_def session_result_def)
  qed
  show "server_ok r \<Longrightarrow> vol_name k \<Longrightarrow>
      \<exists>r'. tRun (mock_transport key) (disk_remove_command k) r = (RunOK [], r') \<and> server_ok r' \<and>
        ms_volumes r' = (ms_volumes r)(k := None)"
  proof -
    assume a: "server_ok r" "vol_name k"
    obtain fs where "executeCommand (disk_remove_command k) r =
        (([], 0), r\<lparr> ms_volumes := (ms_volumes r)(k := None), ms_files := fs \<rparr>)"
      using execute_remove [OF a] by blast
    then show ?thesis
      using server_ok_upd [OF a(1), of None k fs] by (simp add: mock_transport_def session_result_def)
  qed
  show "server_ok r \<Longrightarrow>
      \<exists>res r'. tRun (mock_transport key) (file_remove_command path) r = (res, r') \<and> server_ok r' \<and> ms_volumes r' = ms_volumes r"
    using execute_file_remove [of path r] by (auto simp: mock_transport_def session_result_def server_ok_def)
qed

subsection \<open>Retries\<close>

text \<open>A transport that counts the commands it runs and the time it is made to sleep; a negative wait does not sleep.\<close>

definition counted :: "'r transport \<Rightarrow> (nat \<times> duration \<times> 'r) transport" where
  "counted t =
     \<lparr> tDial = (\<lambda>addr cb (n, d, r). case tDial t addr cb r of (e, r') \<Rightarrow> (e, n, d, r')),
       tSession = (\<lambda>(n, d, r). case tSession t r of (e, r') \<Rightarrow> (e, n, d, r')),
       tRun = (\<lambda>command (n, d, r). case tRun t command r of (x, r') \<Rightarrow> (x, n + 1, d, r')),
       tClose = (\<lambda>(n, d, r). case tClose t r of (e, r') \<Rightarrow> (e, n, d, r')),
       tSleep = (\<lambda>w (n, d, r). (n, d + max 0 w, tSleep t w r)),
       tTimeout = tTimeout t, tEOF = tEOF t, tParseAuthorizedKey = tParseAuthorizedKey t,
       tParsePublicKey = tParsePublicKey t, tParsePrivateKey = tParsePrivateKey t \<rparr>"

abbreviation runs :: "(nat \<times> duration \<times> 'r) sshClient \<Rightarrow> nat" where
  "runs c \<equiv> fst (sc_rds c)"

abbreviation slept :: "(nat \<times> duration \<times> 'r) sshClient \<Rightarrow> duration" where
  "slept c \<equiv> fst (snd (sc_rds c))"

lemma counted_IsConnected:
  "ssh_IsConnected (counted t) c = (b, c') \<Longrightarrow> runs c' = runs c \<and> slept c' = slept c"
  by (cases "sc_rds c") (auto simp: ssh_IsConnected_def counted_def split: if_splits prod.splits)

lemma counted_Connect: "ssh_Connect (counted t) c = (e, c') \<Longrightarrow> runs c' = runs c \<and> slept c' = slept c"
  by (cases "sc_rds c") (auto simp: ssh_Connect_def counted_def Let_def split: if_splits prod.splits option.splits)

lemma counted_runCommand:
  "runCommand (counted t) command c = (x, c') \<Longrightarrow> runs c' \<le> runs c + 1 \<and> slept c' = slept c"
  by (cases "sc_rds c")
    (auto simp: runCommand_def counted_def split: if_splits prod.splits option.splits run_result.splits)

definition backoff_sum :: "nat \<Rightarrow> int" where
  "backoff_sum i = 2 ^ (i - 1) * second"

lemma retry_backoff_le: "max 0 (retry_backoff i) \<le> 2 ^ (i - 1) * second"
proof -
  have "retry_backoff i = wrap64 (2 ^ (i - 1) * second)"
    by (simp add: retry_backoff_def wrap64_mult)
  then show ?thesis using wrap64_le [of "2 ^ (i - 1) * second"] by (simp add: second_def)
qed

lemma backoff_step:
  "backoff_sum (Suc i) = backoff_sum i + (if i > 0 then 2 ^ (i - 1) * second else 0)"
  by (cases i) (simp_all add: backoff_sum_def)

lemma counted_loop:
  "retry_loop (counted t) command n i e c = (x, c') \<Longrightarrow>
    runs c' \<le> runs c + n \<and> slept c' \<le> slept c + backoff_sum (i + n) - backoff_sum i"
proof (induction n arbitrary: i e c)
  case 0
  then show ?case by simp
next
  case (Suc n)
  define c0 where "c0 = (if i > 0 then c\<lparr>sc_rds := tSleep (counted t) (retry_backoff i) (sc_rds c)\<rparr> else c)"
  have c0: "runs c0 = runs c" "slept c0 \<le> slept c + (backoff_sum (Suc i) - backoff_sum i)"
    using retry_backoff_le [of i] by (cases "sc_rds c"; simp add: c0_def counted_def backoff_step)+
  obtain b c1 where c1: "ssh_IsConnected (counted t) c0 = (b, c1)" by fastforce
  obtain ce c2 where c2: "(if b then (None, c1) else ssh_Connect (counted t) c1) = (ce, c2)" by fastforce
  have k2: "runs c2 = runs c0" "slept c2 = slept c0"
    using counted_IsConnected [OF c1] c2 counted_Connect [of t c1 ce c2] by (auto split: if_splits)
  have mono: "backoff_sum (Suc i) \<le> backoff_sum (Suc (i + n))" by (simp add: backoff_sum_def second_def)
  have unf: "retry_loop (counted t) command (Suc n) i e c =
      (case ce of
           Some err \<Rightarrow> retry_loop (counted t) command n (Suc i) (Some err) c2
         | None \<Rightarrow>
             (case runCommand (counted t) command c2 of
                (Inr output, c) \<Rightarrow> (Inr (Inr output), c)
              | (Inl err, c) \<Rightarrow>
                  if \<not> isRetryableError (counted t) err
                  then (Inr (Inl (if Contains (err_msg err) ''not enough space''
                                  then GoWrap [] (Sentinel ErrResourceExhausted) ('': '' @ err_msg err) else err)), c)
                  else retry_loop (counted t) command n (Suc i) (Some err) c))"
    by (simp only: retry_loop.simps c0_def [symmetric] Let_def c1 c2 prod.case)
  show ?case
  proof (cases ce)
    case (Some err)
    then have "retry_loop (counted t) command n (Suc i) (Some err) c2 = (x, c')" using Suc.prems unf by simp
    from Suc.IH [OF this] c0 k2 show ?thesis by auto
  next
    case None
    obtain y c3 where y: "runCommand (counted t) command c2 = (y, c3)" by fastforce
    note k3 = counted_runCommand [OF y]
    show ?thesis
    proof (cases "\<exists>err. y = Inl err \<and> isRetryableError (counted t) err")
      case True
      then obtain err where "y = Inl err" "isRetryableError (counted t) err" by blast
      then have "retry_loop (counted t) command n (Suc i) (Some err) c3 = (x, c')" using Suc.prems unf None y by simp
      from Suc.IH [OF this] c0 k2 k3 show ?thesis by auto
    next
      case False
      then have "c' = c3" using Suc.prems unf None y by (cases y) auto
      with c0 k2 k3 mono show ?thesis by auto
    qed
  qed
qed

subsection \<open>Command text\<close>

abbreviation inert :: "char \<Rightarrow> bool" where
  "inert c \<equiv> [c] \<notin> set dangerousCharacters"

lemma inert_slot: "list_all slot_char w \<Longrightarrow> list_all inert w"
  using slot_char_not_dangerous by (auto simp: list_all_iff)

lemma inert_digits: "list_all is_digit w \<Longrightarrow> list_all inert w"
  by (auto simp: list_all_iff dangerousCharacters_def is_digit_def)

lemma inert_Itoa: "list_all inert (Itoa n)"
  using inert_digits [OF dec_nat_digits] by (auto simp: Itoa_def dangerousCharacters_def)

lemma inert_formatBytes: "list_all inert (formatBytes n)"
  using inert_Itoa by (simp add: formatBytes_def) (simp add: dangerousCharacters_def)

lemma inert_path: "ValidateFilePath allowed p = None \<Longrightarrow> list_all inert p"
  by (auto simp: ValidateFilePath_None_iff list_all_iff)

lemma inert_nqn: "ValidateNQN n = None \<Longrightarrow> list_all inert n"
proof -
  assume "ValidateNQN n = None"
  then have "list_all nqn_char n" using nqnPattern_chars by (auto simp: ValidateNQN_None_iff)
  moreover have "inert c" if "nqn_char c" for c
    using that by (auto simp: nqn_char_def ident_char_def dangerousCharacters_def is_digit_def is_lower_def is_upper_def)
  ultimately show ?thesis by (auto simp: list_all_iff)
qed

lemma validate_slot_chars: "validateSlotName k = None \<Longrightarrow> list_all slot_char k"
  by (auto simp: validateSlotName_def slotNamePattern_def MatchString_class_plus simp del: rx_seq.simps split: if_splits)

subsection \<open>Properties\<close>

text \<open>A disk entry as the server prints it is read back by \<^verbatim>\<open>parseVolumeInfo\<close> field by field: slot, path, size, port,
  export flag and NQN are those of the entry, its type is \<^verbatim>\<open>file\<close> and its status \<^verbatim>\<open>ready\<close>. The values must be
  non-empty, without blanks, quotes or equals signs, the path absolute, the numbers in range, and none of the
  values may contain the word \<^verbatim>\<open>disabled\<close>.\<close>

theorem disk_entry_roundtrip: "disk_ok v \<Longrightarrow> parseVolumeInfo (formatDiskDetail v) = info_of v"
  by (rule parse_disk_detail)

text \<open>C8. End to end over the text protocol, creation is a table update: on a connected client and a server without
  that entry, \<^verbatim>\<open>CreateVolume\<close> with valid options succeeds, the server's table gains exactly the requested entry with
  the size cut down to whole units of the largest fitting unit, and \<^verbatim>\<open>GetVolume\<close> then reads that volume.\<close>

theorem ssh_create_refines:
  assumes "sc_connected c" "server_ok (sc_rds c)" "addable opts" "validateCreateVolumeOptions allowed opts = None"
    and "ms_volumes (sc_rds c) (co_Slot opts) = None"
  shows "\<exists>c'. rCreateVolume (ssh_client (mock_transport key) allowed) opts c = (None, c') \<and>
      sc_connected c' \<and> server_ok (sc_rds c') \<and>
      ms_volumes (sc_rds c') = (ms_volumes (sc_rds c))(co_Slot opts \<mapsto> disk_of opts) \<and>
      rGetVolume (ssh_client (mock_transport key) allowed) (co_Slot opts) c' =
        (Inr ((volume_of opts)\<lparr>vi_FileSizeBytes := granted (co_FileSizeBytes opts)\<rparr>), c')"
proof -
  have "mock_server.up c" using assms by (simp add: mock_server.up_def)
  then obtain c' where c': "ssh_CreateVolume (mock_transport key) allowed opts c = (None, c')" "mock_server.up c'"
      "ms_volumes (sc_rds c') = (ms_volumes (sc_rds c))(co_Slot opts \<mapsto> disk_of opts)"
    using mock_server.create_new assms by blast
  moreover have "info_of (disk_of opts) = (volume_of opts)\<lparr>vi_FileSizeBytes := granted (co_FileSizeBytes opts)\<rparr>"
    by (simp add: info_of_def disk_of_def volume_of_def)
  moreover have "vol_name (co_Slot opts)" using assms(3) by (simp add: addable_def)
  ultimately show ?thesis
    using mock_server.get_found [OF c'(2)] by (auto simp: ssh_client_def mock_server.up_def)
qed

definition example_server :: MockRDSServer where
  "example_server =
     \<lparr> ms_volumes = Map.empty, ms_snapshots = Map.empty, ms_files = Map.empty, ms_mode = ErrorModeNone,
       ms_operationNum = 0, ms_triggerAfter = 0, ms_order = (\<lambda>_. []), ms_now = 0 \<rparr>"

definition example_options :: CreateVolumeOptions where
  "example_options =
     \<lparr> co_Slot = ''pvc-1'', co_FilePath = ''/pool/pvc-1.img'', co_FileSizeBytes = 5000000000, co_NVMETCPPort = 4420,
       co_NVMETCPNQN = ''nqn.2000-02.com.mikrotik:pvc-1'' \<rparr>"

definition example_key :: hostkey where
  "example_key = \<lparr> hk_Type = ''ssh-rsa'', hk_Fingerprint = ''SHA256:x'' \<rparr>"

definition example_ssh :: "MockRDSServer \<Rightarrow> MockRDSServer sshClient" where
  "example_ssh s =
     \<lparr> sc_address = ''10.0.0.1'', sc_port = 22, sc_user = ''admin'', sc_privateKey = [], sc_timeout = 10 * second,
       sc_hostKeyCallback = None, sc_insecureSkipVerify = True, sc_connected = True, sc_rds = s \<rparr>"

lemma example_disk_ok: "disk_ok (disk_of example_options)"
  by (simp add: disk_ok_def disk_of_def example_options_def token_def is_space_def HasPrefix_def granted_def unit_values
      max_int64_def)

lemma example_addable: "addable example_options"
  using example_disk_ok
  by (simp add: addable_def vol_name_def example_options_def slot_char_def is_digit_def is_lower_def is_upper_def
      HasPrefix_def SnapshotIDPrefix_def max_int64_def)

lemma example_options_valid: "validateCreateVolumeOptions [''/pool''] example_options = None"
  unfolding example_options_def by code_simp

theorem disk_entry_roundtrip_witness:
  "disk_ok (disk_of example_options) \<and>
   vi_FileSizeBytes (parseVolumeInfo (formatDiskDetail (disk_of example_options))) = 4294967296"
  using disk_entry_roundtrip [OF example_disk_ok] example_disk_ok
  by (simp add: info_of_def disk_of_def example_options_def granted_def unit_values)

theorem ssh_create_refines_witness:
  "\<exists>c'. rCreateVolume (ssh_client (mock_transport example_key) [''/pool'']) example_options (example_ssh example_server) = (None, c') \<and>
      ms_volumes (sc_rds c') = [''pvc-1'' \<mapsto> disk_of example_options]"
  using ssh_create_refines [of "example_ssh example_server" example_options "[''/pool'']" example_key]
    example_addable example_options_valid
  by (auto simp: example_ssh_def example_server_def server_ok_def) (auto simp: example_options_def)

text \<open>C14. Over the same protocol deletion and resizing are table updates too: \<^verbatim>\<open>DeleteVolume\<close> always succeeds on a
  volume name, removes exactly that entry and leaves a client for which \<^verbatim>\<open>GetVolume\<close> reports the sentinel
  \<^verbatim>\<open>ErrVolumeNotFound\<close>; \<^verbatim>\<open>ResizeVolume\<close> of an existing entry changes only its size, and refuses, without touching
  the server, a size that is not positive or smaller than the current one.\<close>

theorem ssh_update_refines:
  assumes "sc_connected c" "server_ok (sc_rds c)" "vol_name k"
  shows "(\<exists>c'. rDeleteVolume (ssh_client (mock_transport key) allowed) k c = (None, c') \<and>
        sc_connected c' \<and> server_ok (sc_rds c') \<and> ms_volumes (sc_rds c') = (ms_volumes (sc_rds c))(k := None) \<and>
        rGetVolume (ssh_client (mock_transport key) allowed) k c' = (Inl (WrapVolumeError ErrVolumeNotFound k []), c')) \<and>
      (\<forall>v n. ms_volumes (sc_rds c) k = Some v \<longrightarrow> n \<le> max_int64 \<longrightarrow>
        (\<exists>e c'. rResizeVolume (ssh_client (mock_transport key) allowed) k n c = (e, c') \<and>
          (if mv_FileSizeBytes v \<le> n \<and> 0 < n then e = None \<and> server_ok (sc_rds c') \<and>
             ms_volumes (sc_rds c') = (ms_volumes (sc_rds c))
               (k \<mapsto> v\<lparr>mv_FileSizeBytes := (if n = mv_FileSizeBytes v then n else granted n)\<rparr>)
           else e \<noteq> None \<and> c' = c)))"
proof -
  have up: "mock_server.up c" using assms by (simp add: mock_server.up_def)
  obtain c' where c': "ssh_DeleteVolume (mock_transport key) allowed k c = (None, c')" "mock_server.up c'"
      "ms_volumes (sc_rds c') = (ms_volumes (sc_rds c))(k := None)"
    using mock_server.delete [OF up assms(3)] by blast
  then have "ssh_GetVolume (mock_transport key) k c' = (Inl (WrapVolumeError ErrVolumeNotFound k []), c')"
    using mock_server.get_missing [OF c'(2) assms(3)] by simp
  moreover have "\<exists>e c'. ssh_ResizeVolume (mock_transport key) k n c = (e, c') \<and>
      (if mv_FileSizeBytes v \<le> n \<and> 0 < n then e = None \<and> server_ok (sc_rds c') \<and>
         ms_volumes (sc_rds c') = (ms_volumes (sc_rds c))
           (k \<mapsto> v\<lparr>mv_FileSizeBytes := (if n = mv_FileSizeBytes v then n else granted n)\<rparr>)
       else e \<noteq> None \<and> c' = c)" if vn: "ms_volumes (sc_rds c) k = Some v" "n \<le> max_int64" for v n
  proof -
    obtain e c' where "ssh_ResizeVolume (mock_transport key) k n c = (e, c')" "mock_server.up c'"
        "if mv_FileSizeBytes v \<le> n \<and> 0 < n then e = None \<and> ms_volumes (sc_rds c') = (ms_volumes (sc_rds c))
           (k \<mapsto> v\<lparr>mv_FileSizeBytes := (if n = mv_FileSizeBytes v then n else granted n)\<rparr>) else e \<noteq> None \<and> c' = c"
      using mock_server.resize [OF up assms(3) vn, of key] by blast
    then show ?thesis by (intro exI [of _ e] exI [of _ c']) (simp add: mock_server.up_def)
  qed
  ultimately show ?thesis using c' by (auto simp: ssh_client_def mock_server.up_def)
qed

lemma example_occupied_ok: "server_ok (example_server\<lparr>ms_volumes := [''pvc-1'' \<mapsto> disk_of example_options]\<rparr>)"
  using example_disk_ok by (auto simp: server_ok_def example_server_def) (simp add: disk_of_def example_options_def)

theorem ssh_update_refines_witness:
  "\<exists>c'. rDeleteVolume (ssh_client (mock_transport example_key) [''/pool'']) ''pvc-1''
      (example_ssh (example_server\<lparr>ms_volumes := [''pvc-1'' \<mapsto> disk_of example_options]\<rparr>)) = (None, c') \<and>
    ms_volumes (sc_rds c') = Map.empty"
proof -
  let ?s = "example_server\<lparr>ms_volumes := [''pvc-1'' \<mapsto> disk_of example_options]\<rparr>"
  have "vol_name ''pvc-1''" using example_addable by (simp add: addable_def example_options_def)
  moreover have "sc_connected (example_ssh ?s)" "sc_rds (example_ssh ?s) = ?s" by (simp_all add: example_ssh_def)
  moreover have "(ms_volumes ?s)(''pvc-1'' := None) = Map.empty" by simp
  ultimately show ?thesis
    using ssh_update_refines [of "example_ssh ?s" "''pvc-1''" example_key "[''/pool'']"] example_occupied_ok by metis
qed

text \<open>The size text of \<^verbatim>\<open>formatBytes\<close>, read by the server's \<^verbatim>\<open>parseSize\<close>, is a positive size of at most the requested
  one and of more than half of it: the request is cut down to whole units, never rounded up, and the product
  does not overflow.\<close>

theorem formatBytes_granted:
  assumes "0 < n" "n \<le> max_int64"
  shows "\<exists>m. parseSize_server (formatBytes n) = Inr m \<and> 0 < m \<and> m \<le> n \<and> n < 2 * m"
  using server_size_formatBytes [OF assms] granted_bounds [OF assms(1)] by auto

lemma example_format: "formatBytes 1649267441664 = ''1T''"
  by code_simp

theorem formatBytes_granted_witness:
  "formatBytes 1649267441664 = ''1T'' \<and> (\<exists>m. parseSize_server (formatBytes 1649267441664) = Inr m \<and> 0 < m \<and> m \<le> 1649267441664)"
  using formatBytes_granted [of 1649267441664] example_format by (auto simp: max_int64_def)

text \<open>C32. Retrying ends: whatever the transport does, \<^verbatim>\<open>runCommandWithRetry\<close> with \<open>m\<close> attempts runs the command at most
  \<open>m\<close> times and sleeps at most \<open>2\<^sup>m\<^sup>-\<^sup>1 - 1\<close> seconds in all.\<close>

theorem retry_bounded:
  "runs (snd (runCommandWithRetry (counted t) command m c)) \<le> runs c + m \<and>
   slept (snd (runCommandWithRetry (counted t) command m c)) \<le> slept c + (2 ^ (m - 1) - 1) * second"
proof -
  obtain x c' where x: "retry_loop (counted t) command m 0 None c = (x, c')" by fastforce
  then have "snd (runCommandWithRetry (counted t) command m c) = c'"
    by (cases x) (auto simp: runCommandWithRetry_def Let_def)
  with counted_loop [OF x] show ?thesis by (simp add: backoff_sum_def algebra_simps)
qed

text \<open>A client that was configured with a host key and without skipping verification connects only to a server
  whose key has the type and the fingerprint of the configured key. The hypothesis on the transport is the
  documented behaviour of \<^verbatim>\<open>ssh.Dial\<close>: it succeeds only if the host key callback accepts the server's key.\<close>

theorem connect_checks_key:
  assumes dial: "\<And>addr cb r r'. tDial t addr cb r = (None, r') \<Longrightarrow> cb (server_key r) = None"
    and "NewClient t config r = Inr c" "cc_HostKeyCallback config = None" "\<not> cc_InsecureSkipVerify config"
    and "ssh_Connect t c = (None, c')"
  shows "\<exists>k. parseHostKey t (cc_HostKey config) = Inr k \<and> hk_Type k = hk_Type (server_key r) \<and>
    hk_Fingerprint k = hk_Fingerprint (server_key r)"
  by (rule connect_needs_key [OF assms])

definition example_transport :: "MockRDSServer transport" where
  "example_transport = (mock_transport example_key)\<lparr>tParseAuthorizedKey := \<lambda>_. Some example_key\<rparr>"

definition example_config :: ClientConfig where
  "example_config =
     \<lparr> cc_Protocol = [], cc_Address = ''10.0.0.1'', cc_Port = 0, cc_User = ''admin'', cc_PrivateKey = [], cc_Timeout = 0,
       cc_HostKey = ''ssh-rsa AAAA'', cc_HostKeyCallback = None, cc_InsecureSkipVerify = False \<rparr>"

theorem connect_checks_key_witness:
  "\<exists>c c' k. NewClient example_transport example_config example_server = Inr c \<and> ssh_Connect example_transport c = (None, c') \<and>
     parseHostKey example_transport ''ssh-rsa AAAA'' = Inr k \<and> hk_Fingerprint k = ''SHA256:x''"
proof -
  obtain c where c: "NewClient example_transport example_config example_server = Inr c"
    by (simp add: NewClient_def newSSHClient_def example_config_def hostKeyCallback_of_def parseHostKey_def
        example_transport_def mock_transport_def)
  then obtain c' where c': "ssh_Connect example_transport c = (None, c')"
    by (auto simp: NewClient_def newSSHClient_def example_config_def hostKeyCallback_of_def parseHostKey_def
        example_transport_def mock_transport_def ssh_Connect_def createHostKeyCallback_def)
  have "tDial example_transport addr cb r = (None, r') \<Longrightarrow> cb example_key = None" for addr cb r r'
    by (simp add: example_transport_def mock_transport_def)
  then have "\<exists>k. parseHostKey example_transport (cc_HostKey example_config) = Inr k \<and> hk_Type k = hk_Type example_key \<and>
      hk_Fingerprint k = hk_Fingerprint example_key"
    by (intro connect_checks_key [where t = example_transport and server_key = "\<lambda>_. example_key" and c = c and c' = c'
          and r = example_server and config = example_config] c c') (simp_all add: example_config_def)
  with c c' show ?thesis by (auto simp: example_config_def example_key_def)
qed

text \<open>C33. The command that creates a volume carries none of the characters that the validators call dangerous
  (separators, substitutions, quotes, brackets, line ends) when the options pass \<^verbatim>\<open>validateCreateVolumeOptions\<close> and the
  NQN passes \<^verbatim>\<open>ValidateNQN\<close>, whatever the size and the port are.\<close>

theorem create_command_inert:
  assumes "validateCreateVolumeOptions allowed opts = None" "ValidateNQN (co_NVMETCPNQN opts) = None"
  shows "list_all (\<lambda>c. [c] \<notin> set dangerousCharacters) (disk_add_command opts)"
proof -
  have "validateSlotName (co_Slot opts) = None" "ValidateFilePath allowed (co_FilePath opts) = None"
    using assms(1) by (auto simp: validateCreateVolumeOptions_def split: if_splits option.splits)
  then have "list_all inert (co_Slot opts)" "list_all inert (co_FilePath opts)" "list_all inert (co_NVMETCPNQN opts)"
    using inert_slot validate_slot_chars inert_path inert_nqn [OF assms(2)] by blast+
  then show ?thesis
    using inert_Itoa inert_formatBytes unfolding disk_add_command_def list_all_append by (simp add: dangerousCharacters_def)
qed

lemma example_nqn: "ValidateNQN (co_NVMETCPNQN example_options) = None"
  using nqnPattern_prefix [of "''pvc-1''"]
  by (simp add: ValidateNQN_None_iff example_options_def NQNPrefix_def ident_char_def is_digit_def is_lower_def)

theorem create_command_inert_witness:
  "validateCreateVolumeOptions [''/pool''] example_options = None \<and> ValidateNQN (co_NVMETCPNQN example_options) = None \<and>
   list_all (\<lambda>c. [c] \<notin> set dangerousCharacters) (disk_add_command example_options)"
  using create_command_inert [OF example_options_valid example_nqn] example_options_valid example_nqn by blast

subsection \<open>Limits of the text protocol\<close>

text \<open>
  A blank is not among the dangerous characters, and the path is not quoted in the command: a validated path
  can add a parameter of its own, here the slot that the server takes.
\<close>

lemma path_adds_parameter:
  "ValidateFilePath [''/pool''] ''/pool/a slot=evil'' = None \<and>
   extractParam (disk_add_command (example_options\<lparr>co_FilePath := ''/pool/a slot=evil''\<rparr>)) ''slot'' = ''evil''"
proof
  show "ValidateFilePath [''/pool''] ''/pool/a slot=evil'' = None" by code_simp
  let ?cmd = "disk_add_command (example_options\<lparr>co_FilePath := ''/pool/a slot=evil''\<rparr>)"
  have "Split (CHR ''='') ?cmd = [''/disk add type'', ''file file-path'', ''/pool/a slot''] @ tl (tl (tl (Split (CHR ''='') ?cmd))) \<and>
      (\<exists>r ps. tl (tl (tl (Split (CHR ''='') ?cmd))) = (''evil'' @ CHR '' '' # r) # ps)"
    by (simp add: disk_add_command_def example_options_def split: list.split)
  then obtain r ps where "Split (CHR ''='') ?cmd = [''/disk add type'', ''file file-path'', ''/pool/a slot'', ''evil'' @ CHR '' '' # r] @ ps"
    by auto
  moreover have "class_at not_space (Join (CHR ''='') ((''evil'' @ CHR '' '' # r) # ps)) = Some ''evil''"
    by (cases ps) (simp_all add: class_at_def not_space_def rx_space_def)
  ultimately show "extractParam ?cmd ''slot'' = ''evil''"
    by (simp add: extractParam_def class_field_scan scan_eval del: Join.simps)
qed

text \<open>A line that contains the word \<^verbatim>\<open>disabled\<close> anywhere is dropped as a header, so a volume below a directory of that
  name cannot be found.\<close>

lemma disabled_path_invisible:
  "normalizeRouterOSOutput (formatDiskDetail ((disk_of example_options)\<lparr>mv_FilePath := ''/pool/disabled/pvc-1.img''\<rparr>)) = []"
proof -
  let ?l = "formatDiskDetail ((disk_of example_options)\<lparr>mv_FilePath := ''/pool/disabled/pvc-1.img''\<rparr>)"
  have i: "nl \<notin> set (Itoa n)" if "0 \<le> n" for n
    using Itoa_digits [OF that] by (auto simp: list_all_iff is_digit_def)
  have "nl \<notin> set ?l"
    using i [of "granted 5000000000"] i [of 4420] granted_bounds [of 5000000000]
    by (simp add: formatDiskDetail_def disk_of_def example_options_def)
  moreover have "TrimRight_cr ?l = ?l" by (simp add: formatDiskDetail_def TrimRight_cr_def)
  moreover have "Contains ?l ''disabled''"
    unfolding formatDiskDetail_def by (simp add: disk_of_def example_options_def HasPrefix_def)
  ultimately show ?thesis by (simp add: normalizeRouterOSOutput_def Split_nosep normalize_line_def Let_def)
qed

text \<open>The number pattern takes a line end along: a free size at the end of a line is read as 0.\<close>

lemma free_at_line_end:
  "parseCapacityInfo (''size=10 free=4'' @ [nl]) = Inr \<lparr> ci_TotalBytes = 10, ci_FreeBytes = 0, ci_UsedBytes = 0 \<rparr>"
  by code_simp

text \<open>
  The error of a failed command carries the error stream only. A server that reports on the standard output, as
  the server here does, has its \<^verbatim>\<open>not enough space\<close> retried and never turned into \<^verbatim>\<open>ErrResourceExhausted\<close>.
\<close>

definition disk_full :: "MockRDSServer sshClient \<Rightarrow> bool" where
  "disk_full c \<longleftrightarrow> sc_connected c \<and> ms_mode (sc_rds c) = ErrorModeDiskFull \<and>
     ms_triggerAfter (sc_rds c) \<le> ms_operationNum (sc_rds c)"

lemma disk_full_run:
  assumes "disk_full c" "addable opts"
  shows "\<exists>c'. runCommand (mock_transport key) (disk_add_command opts) c = (Inl (GoErr ''command failed (exit 1): ''), c') \<and> disk_full c'"
proof -
  have "HasPrefix (disk_add_command opts) ''/disk add''" by (simp add: disk_add_command_def HasPrefix_def)
  then have "executeCommand (disk_add_command opts) s = handleDiskAdd (disk_add_command opts) s" for s
    by (simp add: executeCommand_def TrimSpace_add [OF assms(2)] Let_def)
  moreover have "Itoa 1 = ''1''" by code_simp
  ultimately show ?thesis
    using assms(1)
    by (simp add: disk_full_def runCommand_def mock_transport_def session_result_def handleDiskAdd_def ShouldFailDiskAdd_def Let_def)
qed

lemma full_disk_retried:
  assumes "disk_full c" "addable opts"
  shows "\<exists>c'. runCommandWithRetry (mock_transport key) (disk_add_command opts) 3 c =
    (Inl (wrap_err ''max retries (3) exceeded: '' (GoErr ''command failed (exit 1): '')), c')"
proof -
  let ?t = "mock_transport key" and ?cmd = "disk_add_command opts" and ?e = "GoErr ''command failed (exit 1): ''"
  have "\<not> list_ex (containsString (err_msg ?e)) nonRetryablePatterns" by code_simp
  then have retry: "isRetryableError ?t ?e" by (simp add: isRetryableError_def)
  have step: "\<exists>c'. retry_loop ?t ?cmd (Suc n) i le c = retry_loop ?t ?cmd n (Suc i) (Some ?e) c' \<and> disk_full c'"
    if "disk_full c" for n i le c
  proof -
    define c0 where "c0 = (if i > 0 then c\<lparr>sc_rds := tSleep ?t (retry_backoff i) (sc_rds c)\<rparr> else c)"
    have c0: "disk_full c0" using that by (auto simp: c0_def disk_full_def mock_transport_def)
    then have "ssh_IsConnected ?t c0 = (True, c0)" by (simp add: ssh_IsConnected_def disk_full_def mock_transport_def)
    then show ?thesis
      using disk_full_run [OF c0 assms(2), of key] retry by (auto simp: c0_def [symmetric] Let_def)
  qed
  obtain c1 where c1: "retry_loop ?t ?cmd 3 0 None c = retry_loop ?t ?cmd 2 1 (Some ?e) c1" "disk_full c1"
    using step [OF assms(1), of 2 0 None] by (auto simp: numeral_3_eq_3 numeral_2_eq_2)
  obtain c2 where c2: "retry_loop ?t ?cmd 2 1 (Some ?e) c1 = retry_loop ?t ?cmd 1 2 (Some ?e) c2" "disk_full c2"
    using step [OF c1(2), of 1 1 "Some ?e"] by (auto simp: numeral_2_eq_2)
  obtain c3 where c3: "retry_loop ?t ?cmd 1 2 (Some ?e) c2 = retry_loop ?t ?cmd 0 3 (Some ?e) c3"
    using step [OF c2(2), of 0 2 "Some ?e"] by (auto simp: numeral_3_eq_3 numeral_2_eq_2)
  have "Itoa 3 = ''3''" by code_simp
  moreover have "retry_loop ?t ?cmd 3 0 None c = (Inl (Some ?e), c3)" unfolding c1(1) c2(1) c3 by simp
  ultimately show ?thesis by (simp add: runCommandWithRetry_def Let_def)
qed

end
