(* ===== verification/SshController.thy ===== *)
theory SshController
  imports SshStore Controller
begin

text \<open>
  The controller over the SSH client of \<^verbatim>\<open>pkg/rds/ssh_client.go\<close>: the contract \<open>volume_service\<close> is discharged for this client
  against the RouterOS server of \<^verbatim>\<open>test/mock/rds_server.go\<close>, so creating, deleting and expanding volumes are shown end to end, from
  the request of the controller to the table of the server. Names, paths and sizes that the text protocol cannot carry are excluded.
\<close>

subsection \<open>What the text protocol carries\<close>

lemma HasPrefix_sep: "c \<notin> set w \<Longrightarrow> HasPrefix (a @ c # b) w \<longleftrightarrow> HasPrefix a w"
proof (induction w arbitrary: a)
  case (Cons x w)
  then show ?case by (cases a) (auto simp: HasPrefix_def)
qed (simp add: HasPrefix_def)

lemma Contains_sep: "c \<notin> set w \<Longrightarrow> w \<noteq> [] \<Longrightarrow> Contains (a @ c # b) w \<longleftrightarrow> Contains a w \<or> Contains b w"
proof (induction a)
  case Nil
  then show ?case using HasPrefix_sep [of c w "[]" b] by (cases w) (auto simp: HasPrefix_def)
next
  case (Cons x a)
  then show ?case using HasPrefix_sep [of c w "x # a" b] by auto
qed

lemma ToLower_keeps: "Contains s w \<Longrightarrow> ToLower w = w \<Longrightarrow> Contains (ToLower s) w"
  by (auto simp: Contains_iff ToLower_def) metis

lemma ValidateVolumeID_vol_name: "ValidateVolumeID v = None \<Longrightarrow> \<not> HasPrefix v ''snap-'' \<Longrightarrow> vol_name v"
  using ValidateVolumeID_slot [of v] by (simp add: vol_name_def SnapshotIDPrefix_def)

text \<open>A base path that is allowed and has neither blanks nor equals signs, a name that is not that of a snapshot, the word
  \<^verbatim>\<open>disabled\<close> in neither, and a port.\<close>

definition carried :: "string list \<Rightarrow> CreateVolumeRequest \<Rightarrow> bool" where
  "carried allowed req \<longleftrightarrow>
     (let base = volume_base_path (cv_Parameters req); port = nvme_port_param (cv_Parameters req)
      in base \<in> set allowed \<and> base_ok base \<and> base \<noteq> ''/'' \<and> list_all (\<lambda>c. c \<noteq> CHR ''='' \<and> \<not> is_space c) base \<and>
         \<not> Contains base ''disabled'' \<and> \<not> Contains (ToLower (cv_Name req)) ''disabled'' \<and>
         \<not> HasPrefix (cv_Name req) ''snap-'' \<and> 0 \<le> port \<and> port \<le> 65535)"

definition ssh_fits :: "string list \<Rightarrow> CreateVolumeOptions \<Rightarrow> bool" where
  "ssh_fits allowed opts \<longleftrightarrow> addable opts \<and> validateCreateVolumeOptions allowed opts = None \<and>
     granted (co_FileSizeBytes opts) = co_FileSizeBytes opts"

lemma image_path_carried:
  assumes "base_ok base" "list_all (\<lambda>c. c \<noteq> CHR ''='' \<and> \<not> is_space c) base" "\<not> Contains base ''disabled''"
    "list_all slot_char v" "v \<noteq> []" "\<not> Contains v ''disabled''"
  shows "token (base @ ''/'' @ v @ ''.img'')" "HasPrefix (base @ ''/'' @ v @ ''.img'') ''/''"
    "\<not> Contains (base @ ''/'' @ v @ ''.img'') ''disabled''"
proof -
  have "dq \<notin> set base"
  proof
    assume "dq \<in> set base"
    then have "Contains base [dq]" by (metis Contains_iff append_Cons append_Nil split_list)
    with assms(1) show False by (auto simp: base_ok_def dangerousCharacters_def)
  qed
  moreover have "token v" using assms(4,5) slot_char_token by blast
  ultimately show "token (base @ ''/'' @ v @ ''.img'')"
    using assms(2) by (auto simp: token_def list_all_iff is_space_def)
  show "HasPrefix (base @ ''/'' @ v @ ''.img'') ''/''"
    using assms(1) by (auto simp: base_ok_def clean_abs_def HasPrefix_def)
  have "\<not> Contains ''img'' ''disabled''" by code_simp
  then show "\<not> Contains (base @ ''/'' @ v @ ''.img'') ''disabled''"
    using assms(3,6) Contains_sep [of "CHR ''/''" "''disabled''" base "v @ ''.img''"] Contains_sep [of "CHR ''.''" "''disabled''" v "''img''"]
    by simp
qed

lemma nqn_carried:
  assumes "list_all slot_char v" "\<not> Contains (ToLower v) ''disabled''"
  shows "token (NQNPrefix @ '':'' @ ToLower v)" "\<not> Contains (NQNPrefix @ '':'' @ ToLower v) ''disabled''"
proof -
  have "\<And>c. ident_char c \<Longrightarrow> c \<noteq> dq \<and> c \<noteq> CHR ''='' \<and> \<not> is_space c"
    by (auto simp: ident_char_def is_lower_def is_digit_def is_space_def)
  then show "token (NQNPrefix @ '':'' @ ToLower v)"
    using ident_ToLower [OF assms(1)] by (auto simp: token_def NQNPrefix_def list_all_iff is_space_def)
  have "\<not> Contains NQNPrefix ''disabled''" unfolding NQNPrefix_def by code_simp
  then show "\<not> Contains (NQNPrefix @ '':'' @ ToLower v) ''disabled''"
    using assms(2) Contains_sep [of "CHR '':''" "''disabled''" NQNPrefix "ToLower v"] by simp
qed

lemma carried_fits:
  assumes "carried allowed req" "ValidateVolumeID (cv_Name req) = None" "create_size req = Inr n" "granted n = n"
  shows "carries vol_name (ssh_fits allowed) req"
proof -
  let ?v = "cv_Name req" and ?base = "volume_base_path (cv_Parameters req)"
  note v = ValidateVolumeID_slot [OF assms(2)]
  note c = assms(1) [unfolded carried_def Let_def]
  have name: "vol_name ?v" using ValidateVolumeID_vol_name [OF assms(2)] c by blast
  have "ToLower ''disabled'' = ''disabled''" by code_simp
  then have plain_name: "\<not> Contains ?v ''disabled''" using c ToLower_keeps by blast
  note path = image_path_carried [of ?base ?v]
  have size: "0 < n" "n \<le> max_int64"
    using create_size_Inr [OF assms(3)] by (simp_all add: minVolumeSizeBytes_def maxVolumeSizeBytes_def max_int64_def)
  have "ssh_fits allowed (options_for req n (?base @ ''/'' @ ?v @ ''.img'') (NQNPrefix @ '':'' @ ToLower ?v))"
    using c v name plain_name path nqn_carried [OF v(2)] size assms(4) slot_char_token [OF v(1,2)] validate_slot [OF name]
      image_path_valid [of ?base ?v allowed]
    by (simp add: ssh_fits_def options_for_def addable_def disk_ok_def disk_of_def validateCreateVolumeOptions_def max_int64_def)
  moreover have "?base \<noteq> []" using c by (auto simp: base_ok_def clean_abs_def)
  ultimately show ?thesis
    using name assms(2,3) by (auto simp: carries_def VolumeIDToNQN_Inr_iff VolumeIDToFilePath_def Let_def)
qed

subsection \<open>The SSH client fulfils the contract\<close>

abbreviation table :: "MockRDSServer sshClient \<Rightarrow> string \<rightharpoonup> MockVolume" where
  "table c \<equiv> ms_volumes (sc_rds c)"

definition ssh_volumes :: "MockRDSServer sshClient \<Rightarrow> string \<rightharpoonup> VolumeInfo" where
  "ssh_volumes c = (\<lambda>k. map_option info_of (table c k))"

definition connected :: "MockRDSServer sshClient \<Rightarrow> bool" where
  "connected c \<longleftrightarrow> sc_connected c \<and> server_ok (sc_rds c)"

lemma connected_up: "connected c \<longleftrightarrow> mock_server.up c"
  by (simp add: connected_def mock_server.up_def)

lemma info_of_inj: "info_of a = info_of b \<longleftrightarrow> a = b"
  by (cases a; cases b) (auto simp: info_of_def)

lemma info_of_disk: "granted (co_FileSizeBytes opts) = co_FileSizeBytes opts \<Longrightarrow> info_of (disk_of opts) = volume_of opts"
  by (simp add: info_of_def disk_of_def volume_of_def)

lemma ssh_volumes_upd:
  "table c' = (table c)(k := x) \<Longrightarrow> ssh_volumes c' = (ssh_volumes c)(k := map_option info_of x)"
  by (auto simp: ssh_volumes_def)

lemma ssh_volumes_eq: "ssh_volumes c' = ssh_volumes c \<longleftrightarrow> table c' = table c"
proof
  assume eq: "ssh_volumes c' = ssh_volumes c"
  have "map_option info_of (table c' k) = map_option info_of (table c k)" for k
    using fun_cong [OF eq, of k] by (simp add: ssh_volumes_def)
  then have "table c' k = table c k" for k using option.inj_map_strong [of _ _ info_of info_of] info_of_inj by metis
  then show "table c' = table c" by blast
qed (simp add: ssh_volumes_def)

lemma ssh_volumes_eq_upd: "ssh_volumes c' = (ssh_volumes c)(k \<mapsto> info_of m) \<longleftrightarrow> table c' = (table c)(k \<mapsto> m)"
proof
  assume eq: "ssh_volumes c' = (ssh_volumes c)(k \<mapsto> info_of m)"
  have "map_option info_of (table c' i) = map_option info_of (((table c)(k \<mapsto> m)) i)" for i
    using fun_cong [OF eq, of i] by (simp add: ssh_volumes_def)
  then have "table c' i = ((table c)(k \<mapsto> m)) i" for i using option.inj_map_strong [of _ _ info_of info_of] info_of_inj by metis
  then show "table c' = (table c)(k \<mapsto> m)" by blast
qed (use ssh_volumes_upd in fastforce)

interpretation ssh: volume_service "ssh_client (mock_transport key) allowed" ssh_volumes connected vol_name "ssh_fits allowed"
  "\<lambda>n. 0 < n \<and> n \<le> max_int64 \<and> granted n = n"
proof
  fix r :: "MockRDSServer sshClient" and s v opts n
  let ?c = "ssh_client (mock_transport key) allowed"
  assume up: "connected r"
  then have up': "mock_server.up r" by (simp add: connected_up)
  { assume s: "vol_name s" "ssh_volumes r s = Some v"
    then obtain m where m: "table r s = Some m" "v = info_of m" by (auto simp: ssh_volumes_def)
    with mock_server.get_found [OF up' s(1) m(1)] show "rGetVolume ?c s r = (Inr v, r)" by (simp add: ssh_client_def) }
  { assume s: "vol_name s" "ssh_volumes r s = None"
    then have "table r s = None" by (simp add: ssh_volumes_def)
    with mock_server.get_missing [OF up' s(1)]
    show "\<exists>e. rGetVolume ?c s r = (Inl e, r) \<and> volume_missing e \<and> \<not> is_unavailable e"
      by (simp add: ssh_client_def volume_missing_def is_unavailable_def) }
  { assume o: "ssh_fits allowed opts" "ssh_volumes r (co_Slot opts) = None"
    then have "table r (co_Slot opts) = None" by (simp add: ssh_volumes_def)
    with mock_server.create_new [OF up', of opts allowed key] o(1) obtain c' where
      c': "ssh_CreateVolume (mock_transport key) allowed opts r = (None, c')" "connected c'"
        "table c' = (table r)(co_Slot opts \<mapsto> disk_of opts)"
      by (auto simp: ssh_fits_def connected_up)
    with ssh_volumes_upd [OF c'(3)] info_of_disk o(1)
    show "\<exists>r'. rCreateVolume ?c opts r = (None, r') \<and> connected r' \<and> ssh_volumes r' = (ssh_volumes r)(co_Slot opts \<mapsto> volume_of opts)"
      by (simp add: ssh_client_def ssh_fits_def) }
  { assume s: "vol_name s"
    with mock_server.delete [OF up', of s key allowed] obtain c' where
      c': "ssh_DeleteVolume (mock_transport key) allowed s r = (None, c')" "connected c'" "table c' = (table r)(s := None)"
      by (auto simp: connected_up)
    with ssh_volumes_upd [OF c'(3)]
    show "\<exists>r'. rDeleteVolume ?c s r = (None, r') \<and> connected r' \<and> ssh_volumes r' = (ssh_volumes r)(s := None)"
      by (simp add: ssh_client_def) }
  { assume s: "vol_name s" "0 < n \<and> n \<le> max_int64 \<and> granted n = n" "ssh_volumes r s = Some v" "vi_FileSizeBytes v < n"
    then obtain m where m: "table r s = Some m" "v = info_of m" by (auto simp: ssh_volumes_def)
    moreover have "mv_FileSizeBytes m < n" using s(4) m(2) by (simp add: info_of_def)
    ultimately obtain c' where c': "ssh_ResizeVolume (mock_transport key) s n r = (None, c')" "connected c'"
        "table c' = (table r)(s \<mapsto> m\<lparr>mv_FileSizeBytes := n\<rparr>)"
      using mock_server.resize [OF up' s(1), of m n key] s(2) by (auto simp: connected_up)
    moreover have "info_of (m\<lparr>mv_FileSizeBytes := n\<rparr>) = v\<lparr>vi_FileSizeBytes := n\<rparr>" by (simp add: m(2) info_of_def)
    ultimately show "\<exists>r'. rResizeVolume ?c s n r = (None, r') \<and> connected r' \<and> ssh_volumes r' = (ssh_volumes r)(s \<mapsto> v\<lparr>vi_FileSizeBytes := n\<rparr>)"
      using ssh_volumes_upd [OF c'(3)] by (simp add: ssh_client_def) }
qed

subsection \<open>An example\<close>

definition ssh_driver :: "(MockRDSServer sshClient, unit) Driver" where
  "ssh_driver = addVolumeCapabilities
     \<lparr>drv_rdsClient = Some (ssh_client (mock_transport example_key) [defaultVolumeBasePath]), drv_k8sClient = None, drv_nodeID = [],
      drv_attachmentManager = True, drv_attachmentGracePeriod = 30 * second, drv_vcaps = [], drv_cscaps = []\<rparr>"

definition ssh_state :: "(MockRDSServer sshClient, unit) CtrlState" where
  "ssh_state = \<lparr>st_rds = example_ssh example_server, st_am = NewAttachmentManager, st_k = ()\<rparr>"

lemma ssh_example [simp]:
  "drv_rdsClient ssh_driver = Some (ssh_client (mock_transport example_key) [defaultVolumeBasePath])"
  "drv_vcaps ssh_driver = drv_vcaps example_driver" "sc_connected (st_rds ssh_state)" "server_ok (sc_rds (st_rds ssh_state))"
  "table (st_rds ssh_state) = Map.empty"
  by (simp_all add: ssh_driver_def example_driver_def addVolumeCapabilities_def ssh_state_def example_ssh_def example_server_def server_ok_def)

lemma example_carried: "carried [defaultVolumeBasePath] example_create"
proof -
  have "Clean defaultVolumeBasePath = defaultVolumeBasePath" "IsAbs defaultVolumeBasePath"
    "\<not> list_ex (Contains defaultVolumeBasePath) dangerousCharacters"
    "list_all (\<lambda>c. c \<noteq> CHR ''='' \<and> \<not> is_space c) defaultVolumeBasePath" "\<not> Contains defaultVolumeBasePath ''disabled''"
    "\<not> Contains (ToLower ''vol-2'') ''disabled''" "defaultVolumeBasePath \<noteq> ''/''"
    by code_simp+
  then show ?thesis
    by (simp add: carried_def Let_def base_ok_def Clean_fixed_iff volume_base_path_def nvme_port_param_def defaultNVMETCPPort_def HasPrefix_def)
qed

lemma example_whole: "granted 1073741824 = 1073741824" "granted (2 * 1024 ^ 3) = 2 * 1024 ^ 3"
  by (simp_all add: granted_def unit_values)

lemma ssh_example_create: "\<exists>resp st'. CreateVolume ssh_driver example_create ssh_state = (Inr resp, st')"
proof -
  have "connected (st_rds ssh_state)" "ssh_volumes (st_rds ssh_state) ''vol-2'' = None" by (simp_all add: connected_def ssh_volumes_def)
  with ssh.create_delete [of ssh_driver example_key "[defaultVolumeBasePath]" ssh_state example_create 1073741824]
    carried_fits [OF example_carried] example_whole(1)
  show ?thesis by simp blast
qed

text \<open>The name and the capacity of an answer.\<close>

lemma CreateVolume_answer:
  assumes "CreateVolume d req st = (Inr resp, st')" "plain_request req" "create_size req = Inr n"
  shows "ValidateVolumeID (cv_Name req) = None" "cr_CapacityBytes resp = n"
proof -
  obtain c n' where n': "create_size req = Inr n'" "ValidateVolumeID (cv_Name req) = None"
    and C: "\<And>st2. CreateVolume d req st2 =
       (case rGetVolume c (cv_Name req) (st_rds st2) of
          (Inr v, r) \<Rightarrow> create_existing c req n' v (st2\<lparr>st_rds := r\<rparr>)
        | (Inl err, r) \<Rightarrow> create_empty c req n' (st2\<lparr>st_rds := r\<rparr>))"
    using assms(1,2) by (rule CreateVolume_Inr) blast
  show "ValidateVolumeID (cv_Name req) = None" by (rule n'(2))
  obtain g r where g: "rGetVolume c (cv_Name req) (st_rds st) = (g, r)" by fastforce
  show "cr_CapacityBytes resp = n"
  proof (cases g)
    case (Inl e)
    with C [of st] g assms(1) have "create_empty c req n' (st\<lparr>st_rds := r\<rparr>) = (Inr resp, st')" by simp
    then show ?thesis using n'(1) assms(3) by (elim create_empty_Inr) simp
  next
    case (Inr v)
    with C [of st] g assms(1) have "create_existing c req n' v (st\<lparr>st_rds := r\<rparr>) = (Inr resp, st')" by simp
    from create_existing_Inr [OF this] n'(1) assms(3) show ?thesis by simp
  qed
qed

subsection \<open>Properties\<close>

text \<open>C4. Creation is idempotent, over the SSH client and the RouterOS server of the tests: take a connected client, a server without
  injected failures, a request without a content source whose base path is allowed, clean, not the root and free of blanks and
  equals signs, whose name is not that of a snapshot, with the word \<^verbatim>\<open>disabled\<close> in neither, whose port is in range and whose size \<open>n\<close> is a whole
  number of the largest unit that fits. If the request succeeds, the server has an entry of size \<open>n\<close>, the answered capacity, under the
  requested name and no other entry changed, and the same request again gives the same answer and changes nothing.\<close>

theorem CreateVolume_idempotent:
  assumes "drv_rdsClient d = Some (ssh_client (mock_transport key) allowed)"
    and "sc_connected (st_rds st)" "server_ok (sc_rds (st_rds st))"
    and "plain_request req" "carried allowed req" "create_size req = Inr n" "granted n = n"
    and "CreateVolume d req st = (Inr resp, st')"
  shows "(\<exists>v. ms_volumes (sc_rds (st_rds st')) = (ms_volumes (sc_rds (st_rds st)))(cv_Name req \<mapsto> v) \<and> mv_FileSizeBytes v = n) \<and>
    cr_CapacityBytes resp = n \<and> CreateVolume d req st' = (Inr resp, st')"
proof -
  have up: "connected (st_rds st)" using assms(2,3) by (simp add: connected_def)
  have valid: "ValidateVolumeID (cv_Name req) = None" "cr_CapacityBytes resp = n"
    using assms(8,4) assms(6) by (rule CreateVolume_answer)+
  from ssh.CreateVolume_ok [OF assms(1) up assms(4,8) carried_fits [OF assms(5) valid(1) assms(6,7)]]
  obtain v where v: "ssh_volumes (st_rds st') = (ssh_volumes (st_rds st))(cv_Name req \<mapsto> v)" "vi_FileSizeBytes v = n"
      "CreateVolume d req st' = (Inr resp, st')"
    using valid(2) by blast
  have "map_option info_of (table (st_rds st') (cv_Name req)) = Some v"
    using fun_cong [OF v(1), of "cv_Name req"] by (simp add: ssh_volumes_def)
  then obtain m where m: "v = info_of m" by auto
  then have "table (st_rds st') = (table (st_rds st))(cv_Name req \<mapsto> m)"
    using v(1) ssh_volumes_eq_upd by simp
  moreover have "mv_FileSizeBytes m = n" using v(2) m by (simp add: info_of_def)
  ultimately show ?thesis using v(3) valid(2) by blast
qed

theorem CreateVolume_idempotent_witness:
  "\<exists>resp st'. CreateVolume ssh_driver example_create ssh_state = (Inr resp, st') \<and> cr_CapacityBytes resp = 1073741824 \<and>
     CreateVolume ssh_driver example_create st' = (Inr resp, st')"
proof -
  obtain resp st' where c: "CreateVolume ssh_driver example_create ssh_state = (Inr resp, st')"
    using ssh_example_create by blast
  from CreateVolume_idempotent [OF _ _ _ _ example_carried _ example_whole(1) c] c show ?thesis by simp
qed

text \<open>C9. Creating a new volume and deleting it, over the SSH client and the RouterOS server of the tests: take a connected client, a
  server without injected failures, and a request without a content source whose base path is allowed, clean, not the root and free of
  blanks and equals signs, whose port is in range and whose size is a whole number of the largest unit that fits. Its name is a valid
  identifier of at most 198 characters, not that of a snapshot, for which the server has no entry; neither name nor base path contains
  the word \<^verbatim>\<open>disabled\<close>; the driver accepts its capabilities and connection parameters. Then creation succeeds and the server gains an entry of that name, deletion succeeds and
  gives back exactly the table from before, and a second deletion succeeds too and changes nothing.\<close>

theorem create_delete_roundtrip:
  assumes "drv_rdsClient d = Some (ssh_client (mock_transport key) allowed)"
    and "sc_connected (st_rds st)" "server_ok (sc_rds (st_rds st))"
    and "plain_request req" "carried allowed req" "create_size req = Inr n" "granted n = n"
    and "ms_volumes (sc_rds (st_rds st)) (cv_Name req) = None" "ValidateVolumeID (cv_Name req) = None"
    and "length (cv_Name req) \<le> 198" "cv_Capabilities req \<noteq> []"
    and "validateVolumeCapabilities (drv_vcaps d) (cv_Capabilities req) = None"
    and "ParseNVMEConnectionParams (cv_Parameters req) = Inr p"
  shows "\<exists>resp st1 st2 st3. CreateVolume d req st = (Inr resp, st1) \<and>
    ms_volumes (sc_rds (st_rds st1)) (cv_Name req) \<noteq> None \<and>
    DeleteVolume d (cv_Name req) st1 = (Inr (), st2) \<and> ms_volumes (sc_rds (st_rds st2)) = ms_volumes (sc_rds (st_rds st)) \<and>
    DeleteVolume d (cv_Name req) st2 = (Inr (), st3) \<and> ms_volumes (sc_rds (st_rds st3)) = ms_volumes (sc_rds (st_rds st))"
proof -
  have up: "connected (st_rds st)" using assms(2,3) by (simp add: connected_def)
  have new: "ssh_volumes (st_rds st) (cv_Name req) = None" using assms(8) by (simp add: ssh_volumes_def)
  from ssh.create_delete [OF assms(1) up assms(4) new assms(9-12) assms(6,13) carried_fits [OF assms(5,9,6,7)]]
  obtain resp st1 st2 st3 where c: "CreateVolume d req st = (Inr resp, st1)" "ssh_volumes (st_rds st1) (cv_Name req) \<noteq> None"
    "DeleteVolume d (cv_Name req) st1 = (Inr (), st2)" "ssh_volumes (st_rds st2) = ssh_volumes (st_rds st)"
    "DeleteVolume d (cv_Name req) st2 = (Inr (), st3)" "ssh_volumes (st_rds st3) = ssh_volumes (st_rds st)" by blast
  then have "table (st_rds st1) (cv_Name req) \<noteq> None" "table (st_rds st2) = table (st_rds st)" "table (st_rds st3) = table (st_rds st)"
    by (simp_all only: ssh_volumes_eq) (simp add: ssh_volumes_def)
  with c show ?thesis by blast
qed

theorem create_delete_roundtrip_witness:
  "\<exists>resp st1 st2. CreateVolume ssh_driver example_create ssh_state = (Inr resp, st1) \<and>
     ms_volumes (sc_rds (st_rds st1)) ''vol-2'' \<noteq> None \<and> DeleteVolume ssh_driver ''vol-2'' st1 = (Inr (), st2) \<and>
     ms_volumes (sc_rds (st_rds st2)) = Map.empty"
  using create_delete_roundtrip [of ssh_driver example_key "[defaultVolumeBasePath]" ssh_state example_create 1073741824]
    example_carried example_whole(1) by fastforce

text \<open>C30. Expansion, over the SSH client and the RouterOS server of the tests, for a connected client and a server without injected
  failures: an existing volume with a valid identifier that is not that of a snapshot grows to the required size when that is between
  1 GiB and 16 TiB, within the limit and a whole number of the largest unit that fits, and keeps its size when it is already as
  large; the answer is the size it then has, and a file system has to be grown exactly when the volume grew and is not used as a block
  device. Only the size of that entry changes at the server.\<close>

theorem ControllerExpandVolume_grows:
  assumes "drv_rdsClient d = Some (ssh_client (mock_transport key) allowed)"
    and "sc_connected (st_rds st)" "server_ok (sc_rds (st_rds st))"
    and "ValidateVolumeID v = None" "\<not> HasPrefix v ''snap-''" "ms_volumes (sc_rds (st_rds st)) v = Some m"
    and "1024 ^ 3 \<le> n" "n \<le> 16 * 1024 ^ 4" "0 < l \<longrightarrow> n \<le> l" "granted n = n"
  shows "\<exists>st'. ControllerExpandVolume d v n l cap st =
      (Inr (max n (mv_FileSizeBytes m), mv_FileSizeBytes m < n \<and> (\<forall>cp. cap = Some cp \<longrightarrow> cap_Type cp \<noteq> Block)), st') \<and>
    ms_volumes (sc_rds (st_rds st')) = (ms_volumes (sc_rds (st_rds st)))(v \<mapsto> m\<lparr>mv_FileSizeBytes := max n (mv_FileSizeBytes m)\<rparr>)"
proof -
  have up: "connected (st_rds st)" using assms(2,3) by (simp add: connected_def)
  have vi: "ssh_volumes (st_rds st) v = Some (info_of m)" using assms(6) by (simp add: ssh_volumes_def)
  have n: "minVolumeSizeBytes \<le> n" "n \<le> maxVolumeSizeBytes" "0 < n \<and> n \<le> max_int64 \<and> granted n = n"
    using assms(7,8,10) by (simp_all add: minVolumeSizeBytes_def maxVolumeSizeBytes_def max_int64_def)
  have size: "vi_FileSizeBytes (info_of m) = mv_FileSizeBytes m" by (simp add: info_of_def)
  from ssh.ExpandVolume_ok [OF assms(1) up assms(4) vi n(1,2) assms(9) ValidateVolumeID_vol_name [OF assms(4,5)] n(3), of cap]
  obtain st' where st': "ControllerExpandVolume d v n l cap st =
      (Inr (max n (mv_FileSizeBytes m), mv_FileSizeBytes m < n \<and> (\<forall>cp. cap = Some cp \<longrightarrow> cap_Type cp \<noteq> Block)), st')"
    "ssh_volumes (st_rds st') = (ssh_volumes (st_rds st))(v \<mapsto> (info_of m)\<lparr>vi_FileSizeBytes := max n (mv_FileSizeBytes m)\<rparr>)"
    unfolding size by blast
  have "(info_of m)\<lparr>vi_FileSizeBytes := k\<rparr> = info_of (m\<lparr>mv_FileSizeBytes := k\<rparr>)" for k by (simp add: info_of_def)
  with st' ssh_volumes_eq_upd show ?thesis by auto
qed

text \<open>A volume of 4 GiB that is expanded to 8 GiB.\<close>

definition ssh_occupied :: "(MockRDSServer sshClient, unit) CtrlState" where
  "ssh_occupied = ssh_state\<lparr>st_rds := example_ssh (example_server\<lparr>ms_volumes := [''vol-1'' \<mapsto> (disk_of example_options)\<lparr>mv_Slot := ''vol-1''\<rparr>]\<rparr>)\<rparr>"

theorem ControllerExpandVolume_grows_witness:
  "\<exists>st'. ControllerExpandVolume ssh_driver ''vol-1'' (8 * 1024 ^ 3) 0 None ssh_occupied = (Inr (8 * 1024 ^ 3, True), st')"
proof -
  let ?m = "(disk_of example_options)\<lparr>mv_Slot := ''vol-1''\<rparr>"
  have m: "disk_ok ?m" using example_disk_ok by (simp add: disk_ok_def token_def is_space_def HasPrefix_def)
  then have o: "sc_connected (st_rds ssh_occupied)" "server_ok (sc_rds (st_rds ssh_occupied))" "table (st_rds ssh_occupied) ''vol-1'' = Some ?m"
    by (simp_all add: ssh_occupied_def example_ssh_def example_server_def server_ok_def)
  have "mv_FileSizeBytes ?m = 4 * 1024 ^ 3" "granted (8 * 1024 ^ 3) = 8 * 1024 ^ 3"
    by (simp_all add: disk_of_def example_options_def granted_def unit_values)
  then show ?thesis
    using ControllerExpandVolume_grows [of ssh_driver example_key "[defaultVolumeBasePath]", OF _ o(1,2) _ _ o(3), of "8 * 1024 ^ 3" 0 None]
    by (simp add: HasPrefix_def) blast
qed

subsection \<open>Observations on the source\<close>

text \<open>
  A size that is not a whole number of its largest unit is cut in the command, so the entry at the server is smaller than
  the answered capacity. The comparison of the sizes then makes a repetition of the request fail.
\<close>

lemma cut_size_conflicts:
  assumes "drv_rdsClient d = Some (ssh_client (mock_transport key) allowed)"
    and "sc_connected (st_rds st)" "server_ok (sc_rds (st_rds st))"
    and "plain_request req" "create_size req = Inr n" "granted n \<noteq> n"
    and "ValidateVolumeID (cv_Name req) = None" "\<not> HasPrefix (cv_Name req) ''snap-''" "cv_Capabilities req \<noteq> []"
    and "validateVolumeCapabilities (drv_vcaps d) (cv_Capabilities req) = None"
    and "ms_volumes (sc_rds (st_rds st)) (cv_Name req) = Some (disk_of (options_for req n path nqn))"
  shows "CreateVolume d req st = (Inl (Status AlreadyExists), st)"
proof -
  have up: "connected (st_rds st)" using assms(2,3) by (simp add: connected_def)
  have "ssh_volumes (st_rds st) (cv_Name req) = Some (info_of (disk_of (options_for req n path nqn)))"
    using assms(11) by (simp add: ssh_volumes_def)
  from ssh.get_found [OF up ValidateVolumeID_vol_name [OF assms(7,8)] this]
  have "rGetVolume (ssh_client (mock_transport key) allowed) (cv_Name req) (st_rds st) =
      (Inr (info_of (disk_of (options_for req n path nqn))), st_rds st)" .
  moreover have "vi_FileSizeBytes (info_of (disk_of (options_for req n path nqn))) = granted n"
    by (simp add: info_of_def disk_of_def options_for_def)
  moreover have "cv_Name req \<noteq> []" using ValidateVolumeID_slot [OF assms(7)] by simp
  ultimately show ?thesis using assms by (auto simp: CreateVolume_def create_existing_def Let_def plain_request_def)
qed

end
