(* ===== verification/Orphan.thy ===== *)
theory Orphan
  imports RdsClient "HOL-Library.List_Lexorder" "HOL-Library.Char_ord"
begin

text \<open>
  The orphan reconciler of \<^verbatim>\<open>pkg/reconciler/orphan_reconciler.go\<close>: it lists the volumes of the storage server and the
  persistent volumes of the cluster, and deletes the volumes that no persistent volume refers to, then the image
  files that belong to neither. The storage client is the record of operations of \<open>RdsClient\<close>; what the cluster
  answers and the readings of the clock are arguments.
\<close>

subsection \<open>Definitions\<close>

record OrphanReconcilerConfig =
  oc_CheckInterval :: duration
  oc_GracePeriod :: duration
  oc_DryRun :: bool
  oc_Enabled :: bool
  oc_BasePath :: string

record OrphanedVolume =
  ov_VolumeID :: string
  ov_FilePath :: string
  ov_SizeBytes :: int
  ov_CreatedAt :: time

record OrphanedFile =
  of_FileName :: string
  of_FilePath :: string
  of_SizeBytes :: int
  of_CreatedAt :: time

record PersistentVolume =
  pv_CSI :: "(string \<times> string) option" \<comment> \<open>\<^verbatim>\<open>Spec.CSI\<close>: driver name and volume handle\<close>

definition DefaultOrphanCheckInterval :: duration where
  "DefaultOrphanCheckInterval = hour"

definition DefaultOrphanGracePeriod :: duration where
  "DefaultOrphanGracePeriod = 5 * minute"

definition OrphanVolumePrefix :: string where
  "OrphanVolumePrefix = ''pvc-''"

definition NewOrphanReconciler :: "bool \<Rightarrow> bool \<Rightarrow> OrphanReconcilerConfig \<Rightarrow> goerr + OrphanReconcilerConfig" where
  "NewOrphanReconciler hasRDS hasK8s config =
     (if \<not> hasRDS then Inl (GoErr ''RDSClient is required'')
      else if \<not> hasK8s then Inl (GoErr ''K8sClient is required'')
      else Inr (config\<lparr>
        oc_CheckInterval := (if oc_CheckInterval config = 0 then DefaultOrphanCheckInterval else oc_CheckInterval config),
        oc_GracePeriod := (if oc_GracePeriod config = 0 then DefaultOrphanGracePeriod else oc_GracePeriod config)\<rparr>))"

definition activeVolumeIDs :: "PersistentVolume list \<Rightarrow> string \<Rightarrow> bool" where
  "activeVolumeIDs pvs v = list_ex (\<lambda>pv. pv_CSI pv = Some (''rds.csi.srvlab.io'', v)) pvs"

text \<open>The first loop: the candidates, each stamped with its own reading of the clock; the index of the next reading
  is returned.\<close>

fun collect_disks :: "OrphanReconcilerConfig \<Rightarrow> (nat \<Rightarrow> time) \<Rightarrow> (string \<Rightarrow> bool) \<Rightarrow> nat \<Rightarrow> VolumeInfo list
    \<Rightarrow> OrphanedVolume list \<times> nat" where
  "collect_disks cfg clk active i [] = ([], i)"
| "collect_disks cfg clk active i (vol # vols) =
     (if \<not> HasPrefix (vi_Slot vol) OrphanVolumePrefix then collect_disks cfg clk active i vols
      else if active (vi_Slot vol) then collect_disks cfg clk active i vols
      else (case collect_disks cfg clk active (Suc i) vols of (os, j) \<Rightarrow>
        (\<lparr> ov_VolumeID = vi_Slot vol, ov_FilePath = vi_FilePath vol, ov_SizeBytes = vi_FileSizeBytes vol,
           ov_CreatedAt = clk i + wrap64 (- oc_GracePeriod cfg * 2) \<rparr> # os, j)))"

definition deleteOrphanedVolume :: "'r RDSClient \<Rightarrow> OrphanedVolume \<Rightarrow> 'r \<Rightarrow> goerr option \<times> 'r" where
  "deleteOrphanedVolume c orphan r =
     (case rDeleteVolume c (ov_VolumeID orphan) r of
        (Some err, r) \<Rightarrow> (Some (wrap_err ''failed to delete volume from RDS: '' err), r)
      | (None, r) \<Rightarrow> (None, r))"

fun cleanup_disks :: "OrphanReconcilerConfig \<Rightarrow> 'r RDSClient \<Rightarrow> (nat \<Rightarrow> time) \<Rightarrow> nat \<Rightarrow> OrphanedVolume list \<Rightarrow> 'r \<Rightarrow> 'r" where
  "cleanup_disks cfg c clk i [] r = r"
| "cleanup_disks cfg c clk i (orphan # os) r =
     (if since (clk i) (ov_CreatedAt orphan) < oc_GracePeriod cfg then cleanup_disks cfg c clk (Suc i) os r
      else if oc_DryRun cfg then cleanup_disks cfg c clk (Suc i) os r
      else cleanup_disks cfg c clk (Suc i) os (snd (deleteOrphanedVolume c orphan r)))"

definition reconcileOrphanedDisks :: "OrphanReconcilerConfig \<Rightarrow> 'r RDSClient \<Rightarrow> (nat \<Rightarrow> time) \<Rightarrow> VolumeInfo list
    \<Rightarrow> (string \<Rightarrow> bool) \<Rightarrow> 'r \<Rightarrow> OrphanedVolume list \<times> 'r" where
  "reconcileOrphanedDisks cfg c clk rdsVolumes active r =
     (case collect_disks cfg clk active 0 rdsVolumes of (os, j) \<Rightarrow> (os, cleanup_disks cfg c clk j os r))"

definition orphaned_file :: "VolumeInfo list \<Rightarrow> (string \<Rightarrow> bool) \<Rightarrow> FileInfo \<Rightarrow> bool" where
  "orphaned_file rdsVolumes active file \<longleftrightarrow>
     HasSuffix (fi_Name file) ''.img'' \<and>
     \<not> list_ex (\<lambda>vol. vi_FilePath vol \<noteq> [] \<and> vi_FilePath vol = fi_Path file) rdsVolumes \<and>
     \<not> active (TrimSuffix (fi_Name file) ''.img'')"

fun cleanup_files :: "OrphanReconcilerConfig \<Rightarrow> 'r RDSClient \<Rightarrow> OrphanedFile list \<Rightarrow> 'r \<Rightarrow> 'r" where
  "cleanup_files cfg c [] r = r"
| "cleanup_files cfg c (orphan # os) r =
     (if oc_DryRun cfg then cleanup_files cfg c os r
      else cleanup_files cfg c os (snd (rDeleteFile c (of_FilePath orphan) r)))"

definition reconcileOrphanedFiles :: "OrphanReconcilerConfig \<Rightarrow> 'r RDSClient \<Rightarrow> VolumeInfo list \<Rightarrow> (string \<Rightarrow> bool) \<Rightarrow> 'r
    \<Rightarrow> (goerr + OrphanedFile list) \<times> 'r" where
  "reconcileOrphanedFiles cfg c rdsVolumes active r =
     (case rListFiles c (oc_BasePath cfg) r of
        (Inl err, r) \<Rightarrow> (Inl (wrap_err ''failed to list files: '' err), r)
      | (Inr files, r) \<Rightarrow>
          (let orphans = map (\<lambda>f. \<lparr> of_FileName = fi_Name f, of_FilePath = fi_Path f, of_SizeBytes = fi_SizeBytes f,
                 of_CreatedAt = fi_CreatedAt f \<rparr>) (filter (orphaned_file rdsVolumes active) files)
           in (Inr orphans, cleanup_files cfg c orphans r)))"

definition orphan_reconcile :: "OrphanReconcilerConfig \<Rightarrow> 'r RDSClient \<Rightarrow> (nat \<Rightarrow> time) \<Rightarrow> goerr + PersistentVolume list \<Rightarrow> 'r
    \<Rightarrow> goerr option \<times> 'r" where
  "orphan_reconcile cfg c clk pvList r =
     (case rListVolumes c r of
        (Inl err, r) \<Rightarrow> (Some (wrap_err ''failed to list RDS volumes: '' err), r)
      | (Inr rdsVolumes, r) \<Rightarrow>
          (case pvList of
             Inl err \<Rightarrow> (Some (wrap_err ''failed to list Kubernetes PVs: '' err), r)
           | Inr pvs \<Rightarrow>
               (let active = activeVolumeIDs pvs;
                    r = snd (reconcileOrphanedDisks cfg c clk rdsVolumes active r)
                in (None, if oc_BasePath cfg \<noteq> [] then snd (reconcileOrphanedFiles cfg c rdsVolumes active r) else r))))"

definition TriggerReconciliation :: "OrphanReconcilerConfig \<Rightarrow> 'r RDSClient \<Rightarrow> (nat \<Rightarrow> time) \<Rightarrow> goerr + PersistentVolume list \<Rightarrow> 'r
    \<Rightarrow> goerr option \<times> 'r" where
  "TriggerReconciliation cfg c clk pvList r =
     (if \<not> oc_Enabled cfg then (Some (GoErr ''reconciler is disabled''), r) else orphan_reconcile cfg c clk pvList r)"

text \<open>\<^verbatim>\<open>Start\<close> and \<^verbatim>\<open>run\<close>: a cycle at start-up and one for each tick before the stop, each with its own clock readings and
  answer of the cluster; errors are logged only.\<close>

definition orphan_run :: "OrphanReconcilerConfig \<Rightarrow> 'r RDSClient \<Rightarrow> ((nat \<Rightarrow> time) \<times> (goerr + PersistentVolume list)) list
    \<Rightarrow> 'r \<Rightarrow> 'r" where
  "orphan_run cfg c cycles r =
     (if \<not> oc_Enabled cfg then r else foldl (\<lambda>r (clk, pvs). snd (orphan_reconcile cfg c clk pvs r)) r cycles)"

subsection \<open>The files of a storage client\<close>

text \<open>The volumes that the second loop deletes.\<close>

fun doomed :: "OrphanReconcilerConfig \<Rightarrow> (nat \<Rightarrow> time) \<Rightarrow> nat \<Rightarrow> OrphanedVolume list \<Rightarrow> string set" where
  "doomed cfg clk i [] = {}"
| "doomed cfg clk i (orphan # os) =
     (if since (clk i) (ov_CreatedAt orphan) < oc_GracePeriod cfg \<or> oc_DryRun cfg then {} else {ov_VolumeID orphan}) \<union>
     doomed cfg clk (Suc i) os"

text \<open>What the reconciler relies on of the operations on files: they leave the volumes alone.\<close>

locale rds_files = rds_volumes +
  assumes list_files: "ok r \<Longrightarrow> \<exists>x r'. rListFiles c path r = (x, r') \<and> ok r' \<and> vols r' = vols r"
    and delete_file: "ok r \<Longrightarrow> \<exists>x r'. rDeleteFile c path r = (x, r') \<and> ok r' \<and> vols r' = vols r"
begin

lemma cleanup_files_keeps:
  "ok r \<Longrightarrow> ok (cleanup_files cfg c os r) \<and> vols (cleanup_files cfg c os r) = vols r"
proof (induction os arbitrary: r)
  case (Cons f os)
  obtain x r' where "rDeleteFile c (of_FilePath f) r = (x, r')" "ok r'" "vols r' = vols r"
    using delete_file Cons.prems by blast
  with Cons.IH Cons.prems show ?case by simp
qed simp

lemma files_keep:
  assumes "ok r"
  shows "ok (snd (reconcileOrphanedFiles cfg c rdsVolumes active r)) \<and>
    vols (snd (reconcileOrphanedFiles cfg c rdsVolumes active r)) = vols r"
proof -
  obtain x r' where "rListFiles c (oc_BasePath cfg) r = (x, r')" "ok r'" "vols r' = vols r"
    using list_files assms by blast
  then show ?thesis using cleanup_files_keeps by (cases x) (simp_all add: reconcileOrphanedFiles_def Let_def)
qed

lemma cleanup_disks_effect:
  "ok r \<Longrightarrow> ok (cleanup_disks cfg c clk i os r) \<and>
    vols (cleanup_disks cfg c clk i os r) = (\<lambda>k. if k \<in> doomed cfg clk i os then None else vols r k)"
proof (induction os arbitrary: i r)
  case Nil
  then show ?case by simp
next
  case (Cons orphan os)
  show ?case
  proof (cases "since (clk i) (ov_CreatedAt orphan) < oc_GracePeriod cfg \<or> oc_DryRun cfg")
    case True
    then show ?thesis using Cons by auto
  next
    case False
    obtain r' where r': "rDeleteVolume c (ov_VolumeID orphan) r = (None, r')" "ok r'" "vols r' = (vols r)(ov_VolumeID orphan := None)"
      using delete Cons.prems by blast
    then have "snd (deleteOrphanedVolume c orphan r) = r'" by (simp add: deleteOrphanedVolume_def)
    with False Cons.IH [OF r'(2)] r'(3) show ?thesis by auto
  qed
qed

lemma reconcile_effect:
  assumes "ok r"
  shows "\<exists>e r'. orphan_reconcile cfg c clk pvList r = (e, r') \<and> ok r' \<and>
    (case pvList of
       Inl _ \<Rightarrow> e \<noteq> None \<and> r' = r
     | Inr pvs \<Rightarrow> e = None \<and> (\<exists>l. set l = ran (vols r) \<and>
         vols r' = (\<lambda>k. if k \<in> (case collect_disks cfg clk (activeVolumeIDs pvs) 0 l of (os, j) \<Rightarrow> doomed cfg clk j os)
                        then None else vols r k)))"
proof -
  obtain l where l: "rListVolumes c r = (Inr l, r)" "set l = ran (vols r)" using list_volumes assms by blast
  show ?thesis
  proof (cases pvList)
    case (Inl err)
    with l assms show ?thesis by (simp add: orphan_reconcile_def)
  next
    case (Inr pvs)
    obtain os j where os: "collect_disks cfg clk (activeVolumeIDs pvs) 0 l = (os, j)" by fastforce
    note d = cleanup_disks_effect [OF assms, of cfg clk j os]
    note f = files_keep [OF d [THEN conjunct1], of cfg l "activeVolumeIDs pvs"]
    let ?r' = "if oc_BasePath cfg \<noteq> []
       then snd (reconcileOrphanedFiles cfg c l (activeVolumeIDs pvs) (cleanup_disks cfg c clk j os r))
       else cleanup_disks cfg c clk j os r"
    have "orphan_reconcile cfg c clk pvList r = (None, ?r')"
      by (simp add: orphan_reconcile_def l(1) Inr Let_def reconcileOrphanedDisks_def os)
    moreover have "ok ?r'" "vols ?r' = (\<lambda>k. if k \<in> doomed cfg clk j os then None else vols r k)"
      using d f by simp_all
    moreover have "(case collect_disks cfg clk (activeVolumeIDs pvs) 0 l of (os, j) \<Rightarrow> doomed cfg clk j os) = doomed cfg clk j os"
      using os by simp
    ultimately show ?thesis unfolding Inr sum.case using l(2) by metis
  qed
qed

end

interpretation mock_files: rds_files mock_client mc_volumes mock_ok
proof
  fix r :: MockClient and path
  show "mock_ok r \<Longrightarrow> \<exists>x r'. rListFiles mock_client path r = (x, r') \<and> mock_ok r' \<and> mc_volumes r' = mc_volumes r"
    by (simp add: mock_client_def mock_ListFiles_def)
  show "mock_ok r \<Longrightarrow> \<exists>x r'. rDeleteFile mock_client path r = (x, r') \<and> mock_ok r' \<and> mc_volumes r' = mc_volumes r"
    by (simp add: mock_client_def mock_DeleteFile_def)
qed

subsection \<open>Which volumes are deleted\<close>

lemma collect_disks_ids:
  "collect_disks cfg clk active i l = (os, j) \<Longrightarrow>
    ov_VolumeID ` set os = {vi_Slot v | v. v \<in> set l \<and> HasPrefix (vi_Slot v) OrphanVolumePrefix \<and> \<not> active (vi_Slot v)}"
proof (induction l arbitrary: i os j)
  case (Cons v l)
  then show ?case by (auto split: if_splits prod.splits) fastforce+
qed simp

lemma collect_disks_created:
  assumes "\<And>m n. m \<le> n \<Longrightarrow> clk m \<le> clk n"
  shows "collect_disks cfg clk active i l = (os, j) \<Longrightarrow>
    i \<le> j \<and> (\<forall>x \<in> set os. \<exists>k \<le> j. ov_CreatedAt x = clk k + wrap64 (- oc_GracePeriod cfg * 2))"
proof (induction l arbitrary: i os j)
  case (Cons v l)
  show ?case
  proof (cases "HasPrefix (vi_Slot v) OrphanVolumePrefix \<and> \<not> active (vi_Slot v)")
    case True
    obtain os' where os': "collect_disks cfg clk active (Suc i) l = (os', j)"
        "os = \<lparr> ov_VolumeID = vi_Slot v, ov_FilePath = vi_FilePath v, ov_SizeBytes = vi_FileSizeBytes v,
           ov_CreatedAt = clk i + wrap64 (- oc_GracePeriod cfg * 2) \<rparr> # os'"
      using Cons.prems True by (auto split: prod.splits)
    with Cons.IH [OF os'(1)] show ?thesis by (auto intro: exI [of _ i])
  next
    case False
    then show ?thesis using Cons by (auto split: if_splits)
  qed
qed simp

text \<open>No candidate is ever too young: its age counts from twice the grace period before it was looked at.\<close>

lemma doomed_all:
  assumes "\<And>m n. m \<le> n \<Longrightarrow> clk m \<le> clk n" "0 \<le> g" "g \<le> 2 ^ 61" "oc_GracePeriod cfg = g" "\<not> oc_DryRun cfg"
  shows "\<forall>x \<in> set os. \<exists>k \<le> j. ov_CreatedAt x = clk k + wrap64 (- g * 2) \<Longrightarrow> j \<le> i \<Longrightarrow>
    doomed cfg clk i os = ov_VolumeID ` set os"
proof (induction os arbitrary: i)
  case (Cons x os)
  obtain k where k: "k \<le> j" "ov_CreatedAt x = clk k + wrap64 (- g * 2)" using Cons.prems by auto
  have "wrap64 (- g * 2) = - g * 2" using assms(2,3) by (intro wrap64_id) (simp_all add: min_int64_def max_int64_def)
  moreover have "clk k \<le> clk i" using assms(1) k(1) Cons.prems(2) by simp
  ultimately have "g \<le> clk i - ov_CreatedAt x" using k(2) assms(2) by simp
  then have "\<not> since (clk i) (ov_CreatedAt x) < g"
    using assms(2,3) by (auto simp: sub_time_def sat64_def min_int64_def max_int64_def)
  with Cons assms(4,5) show ?case by auto
qed simp

lemma doomed_dry: "oc_DryRun cfg \<Longrightarrow> doomed cfg clk i os = {}"
  by (induction os arbitrary: i) auto

lemma mock_slot: "mock_ok m \<Longrightarrow> mc_volumes m k = Some v \<Longrightarrow> vi_Slot v = k"
  by (auto simp: mock_ok_def filed_def)

subsection \<open>A client with a record of its deletions\<close>

datatype deletion = DeletedVolume string | DeletedFile string | DeletedSnapshot string

definition kept :: "('r \<Rightarrow> 'a \<times> 'r) \<Rightarrow> 'r \<times> deletion list \<Rightarrow> 'a \<times> 'r \<times> deletion list" where
  "kept f rl = (case f (fst rl) of (x, r) \<Rightarrow> (x, r, snd rl))"

definition noted :: "deletion \<Rightarrow> ('r \<Rightarrow> 'a \<times> 'r) \<Rightarrow> 'r \<times> deletion list \<Rightarrow> 'a \<times> 'r \<times> deletion list" where
  "noted d f rl = (case f (fst rl) of (x, r) \<Rightarrow> (x, r, d # snd rl))"

definition recording :: "'r RDSClient \<Rightarrow> ('r \<times> deletion list) RDSClient" where
  "recording c =
     \<lparr>rCreateVolume = (\<lambda>opts. kept (rCreateVolume c opts)), rDeleteVolume = (\<lambda>slot. noted (DeletedVolume slot) (rDeleteVolume c slot)),
      rResizeVolume = (\<lambda>slot n. kept (rResizeVolume c slot n)), rGetVolume = (\<lambda>slot. kept (rGetVolume c slot)),
      rListVolumes = kept (rListVolumes c), rListFiles = (\<lambda>path. kept (rListFiles c path)),
      rDeleteFile = (\<lambda>path. noted (DeletedFile path) (rDeleteFile c path)), rGetCapacity = (\<lambda>path. kept (rGetCapacity c path)),
      rGetAddress = (\<lambda>rl. rGetAddress c (fst rl)), rCreateSnapshot = (\<lambda>opts. kept (rCreateSnapshot c opts)),
      rDeleteSnapshot = (\<lambda>name. noted (DeletedSnapshot name) (rDeleteSnapshot c name)),
      rGetSnapshot = (\<lambda>name. kept (rGetSnapshot c name)), rListSnapshots = kept (rListSnapshots c),
      rRestoreSnapshot = (\<lambda>name opts. kept (rRestoreSnapshot c name opts))\<rparr>"

lemma cleanup_disks_log:
  "d \<in> set (snd (cleanup_disks cfg (recording c) clk i os rl)) \<Longrightarrow>
     d \<in> set (snd rl) \<or> \<not> oc_DryRun cfg \<and> d \<in> (\<lambda>x. DeletedVolume (ov_VolumeID x)) ` set os"
proof (induction os arbitrary: i rl)
  case (Cons x os)
  let ?rl = "snd (deleteOrphanedVolume (recording c) x rl)"
  have "snd ?rl = DeletedVolume (ov_VolumeID x) # snd rl"
    by (auto simp: deleteOrphanedVolume_def recording_def noted_def split: prod.split option.split)
  with Cons.prems Cons.IH [of "Suc i" rl] Cons.IH [of "Suc i" ?rl] show ?case by (auto split: if_splits)
qed simp

lemma cleanup_files_log:
  "d \<in> set (snd (cleanup_files cfg (recording c) os rl)) \<Longrightarrow>
     d \<in> set (snd rl) \<or> \<not> oc_DryRun cfg \<and> d \<in> (\<lambda>x. DeletedFile (of_FilePath x)) ` set os"
proof (induction os arbitrary: rl)
  case (Cons x os)
  let ?rl = "snd (rDeleteFile (recording c) (of_FilePath x) rl)"
  have "snd ?rl = DeletedFile (of_FilePath x) # snd rl"
    by (simp add: recording_def noted_def split: prod.split)
  with Cons.prems Cons.IH [of rl] Cons.IH [of ?rl] show ?case by (auto split: if_splits)
qed simp

text \<open>A file that counts as orphaned, said without the functions of the code.\<close>

lemma orphaned_file_spec:
  assumes "orphaned_file vols (activeVolumeIDs pvs) f"
  shows "\<exists>name. fi_Name f = name @ ''.img'' \<and> (fi_Path f \<noteq> [] \<longrightarrow> fi_Path f \<notin> vi_FilePath ` set vols) \<and>
    (\<forall>pv \<in> set pvs. pv_CSI pv \<noteq> Some (''rds.csi.srvlab.io'', name))"
proof -
  have "HasSuffix (fi_Name f) ''.img''" using assms(1) by (simp add: orphaned_file_def)
  then obtain name where name: "fi_Name f = name @ ''.img''"
    unfolding HasSuffix_def by (metis append_take_drop_id)
  moreover have "TrimSuffix (fi_Name f) ''.img'' = name" by (simp add: name TrimSuffix_append)
  ultimately show ?thesis using assms by (auto simp: orphaned_file_def activeVolumeIDs_def list_ex_iff)
qed

lemma files_log:
  assumes "d \<in> set (snd (snd (reconcileOrphanedFiles cfg (recording c) vols (activeVolumeIDs pvs) rl)))" "d \<notin> set (snd rl)"
  shows "\<not> oc_DryRun cfg \<and> (\<exists>p q q' files f. d = DeletedFile p \<and> rListFiles c (oc_BasePath cfg) q = (Inr files, q') \<and> f \<in> set files \<and>
    fi_Path f = p \<and> orphaned_file vols (activeVolumeIDs pvs) f)"
proof (cases "rListFiles c (oc_BasePath cfg) (fst rl)")
  case (Pair x q')
  have l: "rListFiles (recording c) (oc_BasePath cfg) rl = (x, q', snd rl)" using Pair by (simp add: recording_def kept_def)
  show ?thesis
  proof (cases x)
    case (Inl e)
    with assms l show ?thesis by (simp add: reconcileOrphanedFiles_def)
  next
    case (Inr files)
    from assms l Inr cleanup_files_log [of d cfg c _ "(q', snd rl)"] show ?thesis
      using Pair by (fastforce simp: reconcileOrphanedFiles_def Let_def)
  qed
qed

subsection \<open>Properties\<close>

text \<open>Run against the in-memory client, a cycle deletes at once every volume whose slot starts with \<^verbatim>\<open>pvc-\<close> and that no persistent
  volume of this driver refers to: the grace period of the configuration protects none of them. The clock must not run backwards, and
  twice the grace period must fit a duration.\<close>

lemma grace_period_unused:
  assumes "mock_ok m" "\<And>i j. i \<le> j \<Longrightarrow> clk i \<le> clk j" "0 \<le> oc_GracePeriod cfg" "oc_GracePeriod cfg \<le> 2 ^ 61"
  shows "\<exists>e m'. orphan_reconcile cfg mock_client clk pvList m = (e, m') \<and> mock_ok m' \<and>
    (case pvList of
       Inl _ \<Rightarrow> e \<noteq> None \<and> m' = m
     | Inr pvs \<Rightarrow> e = None \<and> mc_volumes m' =
         (\<lambda>k. if HasPrefix k ''pvc-'' \<and> \<not> activeVolumeIDs pvs k \<and> \<not> oc_DryRun cfg then None else mc_volumes m k))"
proof (cases pvList)
  case (Inl err)
  then show ?thesis using mock_files.reconcile_effect [OF assms(1), of cfg clk pvList] by auto
next
  case (Inr pvs)
  obtain e m' l where m': "orphan_reconcile cfg mock_client clk pvList m = (e, m')" "mock_ok m'" "e = None"
      "set l = ran (mc_volumes m)"
      "mc_volumes m' = (\<lambda>k. if k \<in> (case collect_disks cfg clk (activeVolumeIDs pvs) 0 l of (os, j) \<Rightarrow> doomed cfg clk j os)
         then None else mc_volumes m k)"
    using mock_files.reconcile_effect [OF assms(1), of cfg clk pvList] Inr by auto
  obtain os j where os: "collect_disks cfg clk (activeVolumeIDs pvs) 0 l = (os, j)" by fastforce
  have "doomed cfg clk j os = (if oc_DryRun cfg then {} else ov_VolumeID ` set os)"
    using doomed_all [of clk, OF assms(2-4) refl, of os j j] collect_disks_created [of clk, OF assms(2) os] doomed_dry by auto
  moreover have "k \<in> ov_VolumeID ` set os \<longleftrightarrow> HasPrefix k ''pvc-'' \<and> \<not> activeVolumeIDs pvs k"
    if "mc_volumes m k = Some v" for k v
    unfolding collect_disks_ids [OF os] m'(4) OrphanVolumePrefix_def using that mock_slot [OF assms(1)]
    by (force simp: ran_def)
  ultimately have "mc_volumes m' k = (if HasPrefix k ''pvc-'' \<and> \<not> activeVolumeIDs pvs k \<and> \<not> oc_DryRun cfg then None else mc_volumes m k)" for k
    unfolding m'(5) os prod.case by (cases "mc_volumes m k") auto
  with m' Inr show ?thesis by auto
qed

definition example_orphan_config :: OrphanReconcilerConfig where
  "example_orphan_config =
     \<lparr> oc_CheckInterval = hour, oc_GracePeriod = 5 * minute, oc_DryRun = False, oc_Enabled = True, oc_BasePath = [] \<rparr>"

definition example_orphan_volume :: "string \<Rightarrow> VolumeInfo" where
  "example_orphan_volume slot = volume_of \<lparr> co_Slot = slot, co_FilePath = ''/pool/'' @ slot @ ''.img'', co_FileSizeBytes = 1073741824,
     co_NVMETCPPort = 4420, co_NVMETCPNQN = ''nqn'' \<rparr>"

definition example_orphan_store :: MockClient where
  "example_orphan_store =
     mock_AddVolume (example_orphan_volume ''pvc-1'') (mock_AddVolume (example_orphan_volume ''pvc-2'') (NewMockClient sorted_list_of_set 0))"

lemma example_orphan_store_ok: "mock_ok example_orphan_store"
  by (simp add: example_orphan_store_def example_orphan_volume_def mock_ok_def NewMockClient_def filed_def mock_AddVolume_def)

text \<open>C19. One cycle of the orphan reconciler, over any storage client whatever its operations do, cannot touch what is in use. It asks the
  client to delete a volume only if the client has listed it at the start of the cycle, its slot starts with \<^verbatim>\<open>pvc-\<close> and no persistent
  volume of this driver has it as its handle; and a file only if a base path is configured, the client has listed the file there, its
  name ends in \<^verbatim>\<open>.img\<close>, no listed volume has it as its backing file (an empty path aside) and no persistent volume of this driver has the name without the
  suffix as its handle. It deletes nothing in a dry run, when the volumes cannot be listed and when the cluster cannot list its
  persistent volumes.\<close>

theorem orphan_spares_referenced:
  assumes "rListVolumes c r = (listed, r1)" and "orphan_reconcile cfg (recording c) clk pvList (r, []) = (e, r', log)"
    and "d \<in> set log"
  shows "\<exists>vols pvs. listed = Inr vols \<and> pvList = Inr pvs \<and> \<not> oc_DryRun cfg \<and>
    (case d of
       DeletedVolume v \<Rightarrow> HasPrefix v ''pvc-'' \<and> v \<in> vi_Slot ` set vols \<and>
         (\<forall>pv \<in> set pvs. pv_CSI pv \<noteq> Some (''rds.csi.srvlab.io'', v))
     | DeletedFile p \<Rightarrow> oc_BasePath cfg \<noteq> [] \<and>
         (\<exists>q q' files f name. rListFiles c (oc_BasePath cfg) q = (Inr files, q') \<and> f \<in> set files \<and> fi_Path f = p \<and>
            fi_Name f = name @ ''.img'' \<and> (p \<noteq> [] \<longrightarrow> p \<notin> vi_FilePath ` set vols) \<and>
            (\<forall>pv \<in> set pvs. pv_CSI pv \<noteq> Some (''rds.csi.srvlab.io'', name)))
     | DeletedSnapshot _ \<Rightarrow> False)"
proof -
  have l: "rListVolumes (recording c) (r, []) = (listed, r1, [])" using assms(1) by (simp add: recording_def kept_def)
  have vols: "\<exists>vols pvs. listed = Inr vols \<and> pvList = Inr pvs"
    using assms(2,3) l by (auto simp: orphan_reconcile_def split: sum.splits)
  then obtain vols pvs where v: "listed = Inr vols" "pvList = Inr pvs" by blast
  obtain os j where os: "collect_disks cfg clk (activeVolumeIDs pvs) 0 vols = (os, j)" by fastforce
  define rl where "rl = cleanup_disks cfg (recording c) clk j os (r1, [])"
  have log: "(r', log) = (if oc_BasePath cfg \<noteq> [] then snd (reconcileOrphanedFiles cfg (recording c) vols (activeVolumeIDs pvs) rl) else rl)"
    using assms(2) l v os by (auto simp: orphan_reconcile_def reconcileOrphanedDisks_def rl_def Let_def)
  show ?thesis
  proof (cases "d \<in> set (snd rl)")
    case True
    from cleanup_disks_log [of d cfg c clk j os "(r1, [])"] True
    obtain x where "\<not> oc_DryRun cfg" "d = DeletedVolume (ov_VolumeID x)" "x \<in> set os" by (auto simp: rl_def)
    moreover from this collect_disks_ids [OF os]
    have "ov_VolumeID x \<in> {vi_Slot v | v. v \<in> set vols \<and> HasPrefix (vi_Slot v) OrphanVolumePrefix \<and> \<not> activeVolumeIDs pvs (vi_Slot v)}"
      by blast
    ultimately show ?thesis using v by (auto simp: OrphanVolumePrefix_def activeVolumeIDs_def list_ex_iff)
  next
    case False
    with assms(3) log have base: "oc_BasePath cfg \<noteq> []"
      and d: "d \<in> set (snd (snd (reconcileOrphanedFiles cfg (recording c) vols (activeVolumeIDs pvs) rl)))"
      by (auto split: if_splits simp: prod_eq_iff)
    from files_log [OF d False] obtain p q q' files f where f: "\<not> oc_DryRun cfg" "d = DeletedFile p"
      "rListFiles c (oc_BasePath cfg) q = (Inr files, q')" "f \<in> set files" "fi_Path f = p" "orphaned_file vols (activeVolumeIDs pvs) f"
      by blast
    from orphaned_file_spec [OF f(6)] obtain name where "fi_Name f = name @ ''.img''"
      "fi_Path f \<noteq> [] \<longrightarrow> fi_Path f \<notin> vi_FilePath ` set vols" "\<forall>pv \<in> set pvs. pv_CSI pv \<noteq> Some (''rds.csi.srvlab.io'', name)"
      by blast
    with f base v show ?thesis by simp blast
  qed
qed

text \<open>Of two volumes, one referred to, the other is deleted.\<close>

definition example_orphan_client :: "MockClient RDSClient" where
  "example_orphan_client =
     mock_client\<lparr>rListVolumes := \<lambda>m. (Inr [example_orphan_volume ''pvc-1'', example_orphan_volume ''pvc-2''], m)\<rparr>"

theorem orphan_spares_referenced_witness:
  "\<exists>e m log. orphan_reconcile example_orphan_config (recording example_orphan_client) (\<lambda>_. 0)
       (Inr [\<lparr>pv_CSI = Some (''rds.csi.srvlab.io'', ''pvc-1'')\<rparr>]) (example_orphan_store, []) = (e, m, log) \<and>
     log = [DeletedVolume ''pvc-2''] \<and> HasPrefix ''pvc-2'' ''pvc-''"
proof -
  let ?pvs = "[\<lparr>pv_CSI = Some (''rds.csi.srvlab.io'', ''pvc-1'')\<rparr>]" and ?c = example_orphan_client
  have l: "rListVolumes ?c example_orphan_store =
      (Inr [example_orphan_volume ''pvc-1'', example_orphan_volume ''pvc-2''], example_orphan_store)"
    by (simp add: example_orphan_client_def)
  obtain e m log where r: "orphan_reconcile example_orphan_config (recording ?c) (\<lambda>_. 0) (Inr ?pvs) (example_orphan_store, []) = (e, m, log)"
    by (cases "orphan_reconcile example_orphan_config (recording ?c) (\<lambda>_. 0) (Inr ?pvs) (example_orphan_store, [])")
  have "rListVolumes (recording ?c) (example_orphan_store, []) =
      (Inr [example_orphan_volume ''pvc-1'', example_orphan_volume ''pvc-2''], example_orphan_store, [])"
    by (simp add: recording_def kept_def l)
  then have log: "log = [DeletedVolume ''pvc-2'']"
    using r
    by (auto simp: orphan_reconcile_def reconcileOrphanedDisks_def example_orphan_config_def example_orphan_volume_def activeVolumeIDs_def
        volume_of_def HasPrefix_def OrphanVolumePrefix_def minute_def second_def wrap64_def sub_time_def sat64_def max_int64_def min_int64_def
        deleteOrphanedVolume_def recording_def noted_def Let_def split: prod.splits option.splits)
  then have "HasPrefix ''pvc-2'' ''pvc-''" using orphan_spares_referenced [OF l r, of "DeletedVolume ''pvc-2''"] by simp
  with r log show ?thesis by blast
qed

subsection \<open>Limits\<close>

text \<open>
  The image file of a snapshot lies in the same directory and has no entry among the listed volumes: it counts as an
  orphaned file, however young it is.
\<close>

lemma snapshot_file_orphaned:
  assumes "list_all (\<lambda>v. vi_FilePath v \<noteq> fi_Path f) vols" "fi_Name f = ''snap-'' @ x @ ''.img''" "\<not> active (''snap-'' @ x)"
  shows "orphaned_file vols active f"
proof -
  have "HasSuffix (fi_Name f) ''.img''" using assms(2) by (simp add: HasSuffix_def)
  moreover have "TrimSuffix (fi_Name f) ''.img'' = ''snap-'' @ x"
    using TrimSuffix_append [of "''snap-'' @ x" "''.img''"] assms(2) by simp
  ultimately show ?thesis using assms by (auto simp: orphaned_file_def list_all_iff list_ex_iff)
qed

end
