(* ===== verification/Host.thy ===== *)
theory Host
  imports Events PathValidation "HOL-Library.List_Lexorder" "HOL-Library.Char_ord"
begin

text \<open>
  The machine a node service runs on. The operating system and the programs it calls (\<^verbatim>\<open>mount\<close>, \<^verbatim>\<open>nvme\<close>,
  \<^verbatim>\<open>blkid\<close>, \<^verbatim>\<open>lsof\<close> and so on) are not part of the repository, so they are the fields of a record \<open>host\<close>
  over a world of any type \<open>'w\<close>. Reading the clock, a file, a directory or a link depends on the world and
  leaves it as it is; running a program, waiting and changing files may change all of it, which is also where
  other processes take their turn. Nothing is assumed of a host except where a theorem says so.
\<close>

subsection \<open>Errors of the operating system\<close>

datatype file_err = NotExist string | Exist string | FileErr string

fun file_msg :: "file_err \<Rightarrow> string" where
  "file_msg (NotExist m) = m"
| "file_msg (Exist m) = m"
| "file_msg (FileErr m) = m"

abbreviation file_error :: "file_err \<Rightarrow> goerr" where
  "file_error e \<equiv> GoErr (file_msg e)"

text \<open>The error of a command: an \<^verbatim>\<open>exec.ExitError\<close> with its exit code, or any other error.\<close>

datatype exec_err = ExitError int string | ExecError string

fun exec_msg :: "exec_err \<Rightarrow> string" where
  "exec_msg (ExitError code m) = m"
| "exec_msg (ExecError m) = m"

abbreviation exec_error :: "exec_err \<Rightarrow> goerr" where
  "exec_error e \<equiv> GoErr (exec_msg e)"

datatype file_kind = RegularFile | Directory | BlockDevice | OtherFile

record filestat =
  st_kind :: file_kind
  st_rdev :: nat

text \<open>An entry of \<^verbatim>\<open>mountinfo.GetMounts\<close> (package \<^verbatim>\<open>github.com/moby/sys/mountinfo\<close>).\<close>

record moby_mount =
  mm_Source :: string
  mm_Mountpoint :: string
  mm_FSType :: string
  mm_Options :: string

subsection \<open>Contexts\<close>

datatype ctx_err = Canceled | DeadlineExceeded

fun ctx_msg :: "ctx_err \<Rightarrow> string" where
  "ctx_msg Canceled = ''context canceled''"
| "ctx_msg DeadlineExceeded = ''context deadline exceeded''"

abbreviation ctx_error :: "ctx_err \<Rightarrow> goerr" where
  "ctx_error e \<equiv> GoErr (ctx_msg e)"

text \<open>A \<^verbatim>\<open>context.Context\<close>: what \<^verbatim>\<open>Err\<close> returns in a world, and whether a deadline is set.\<close>

record 'w ctx =
  ctxErr :: "'w \<Rightarrow> ctx_err option"
  ctxDeadline :: bool

definition Background :: "'w ctx" where
  "Background = \<lparr> ctxErr = (\<lambda>_. None), ctxDeadline = False \<rparr>"

subsection \<open>The host\<close>

record 'w host =
  oNow :: "'w \<Rightarrow> time"
  oGetpid :: "'w \<Rightarrow> int"
  oStat :: "string \<Rightarrow> 'w \<Rightarrow> file_err + filestat"
  oReadFile :: "string \<Rightarrow> 'w \<Rightarrow> file_err + string"
  oReadDir :: "string \<Rightarrow> 'w \<Rightarrow> file_err + (string \<times> bool) list" \<comment> \<open>names, and which are directories\<close>
  oReadlink :: "string \<Rightarrow> 'w \<Rightarrow> file_err + string"
  oEvalSymlinks :: "string \<Rightarrow> 'w \<Rightarrow> file_err + string"
  oMobyMounts :: "'w ctx \<Rightarrow> 'w \<Rightarrow> (ctx_err + (goerr + moby_mount list)) \<times> 'w"
    \<comment> \<open>\<open>Inl\<close>: not finished when the context was done\<close>
  oExec :: "string \<Rightarrow> string list \<Rightarrow> 'w \<Rightarrow> (string \<times> exec_err option) \<times> 'w"
    \<comment> \<open>\<^verbatim>\<open>exec.Command\<close> and \<^verbatim>\<open>CombinedOutput\<close>\<close>
  oExecCtx :: "'w ctx \<Rightarrow> string \<Rightarrow> string list \<Rightarrow> 'w \<Rightarrow> (string \<times> exec_err option) \<times> 'w"
    \<comment> \<open>the same with \<^verbatim>\<open>exec.CommandContext\<close>\<close>
  oOutputCtx :: "'w ctx \<Rightarrow> string \<Rightarrow> string list \<Rightarrow> 'w \<Rightarrow> (string \<times> exec_err option) \<times> 'w"
    \<comment> \<open>\<^verbatim>\<open>exec.CommandContext\<close> and \<^verbatim>\<open>Output\<close>\<close>
  oWait :: "'w ctx \<Rightarrow> duration \<Rightarrow> 'w \<Rightarrow> ctx_err option \<times> 'w"
    \<comment> \<open>a \<^verbatim>\<open>select\<close> on \<^verbatim>\<open>ctx.Done()\<close> and a timer or tick: the error of the context when it won\<close>
  oTick :: "duration \<Rightarrow> duration \<Rightarrow> 'w \<Rightarrow> bool \<times> 'w"
    \<comment> \<open>a \<^verbatim>\<open>select\<close> on a ticker and \<^verbatim>\<open>time.After\<close>; \<open>True\<close> when the latter won\<close>
  oMkdirAll :: "string \<Rightarrow> nat \<Rightarrow> 'w \<Rightarrow> file_err option \<times> 'w"
  oMknod :: "string \<Rightarrow> nat \<Rightarrow> nat \<Rightarrow> 'w \<Rightarrow> file_err option \<times> 'w" \<comment> \<open>path, permissions of a block device, device number\<close>
  oRemove :: "string \<Rightarrow> 'w \<Rightarrow> file_err option \<times> 'w"
  oRemoveAll :: "string \<Rightarrow> 'w \<Rightarrow> file_err option \<times> 'w"
  oCreateExcl :: "string \<Rightarrow> nat \<Rightarrow> 'w \<Rightarrow> file_err option \<times> 'w" \<comment> \<open>\<^verbatim>\<open>os.OpenFile\<close> with \<^verbatim>\<open>O_CREATE|O_EXCL\<close>, closed again\<close>

text \<open>\<^verbatim>\<open>context.WithTimeout\<close> in a world.\<close>

definition WithTimeout :: "'w host \<Rightarrow> 'w ctx \<Rightarrow> duration \<Rightarrow> 'w \<Rightarrow> 'w ctx" where
  "WithTimeout h ctx d w =
     \<lparr> ctxErr = (\<lambda>v. case ctxErr ctx v of
                       Some e \<Rightarrow> Some e
                     | None \<Rightarrow> if oNow h v \<ge> oNow h w + d then Some DeadlineExceeded else None),
       ctxDeadline = True \<rparr>"

lemma WithTimeout_sel [simp]:
  "ctxDeadline (WithTimeout h ctx d w)"
  "ctxErr (WithTimeout h ctx d w) v =
     (case ctxErr ctx v of Some e \<Rightarrow> Some e
      | None \<Rightarrow> if oNow h v \<ge> oNow h w + d then Some DeadlineExceeded else None)"
  by (simp_all add: WithTimeout_def)

lemma Background_sel [simp]: "ctxErr Background w = None" "ctxDeadline Background = False"
  by (simp_all add: Background_def)

subsection \<open>Package path/filepath\<close>

definition filepath_Join :: "string \<Rightarrow> string \<Rightarrow> string" where
  "filepath_Join a b =
     (if a = [] then (if b = [] then [] else Clean b)
      else if b = [] then Clean a else Clean (a @ ''/'' @ b))"

definition Base :: "string \<Rightarrow> string" where
  "Base path =
     (if path = [] then ''.''
      else let t = dropWhile (\<lambda>c. c = CHR ''/'') (rev path)
           in if t = [] then ''/'' else rev (takeWhile (\<lambda>c. c \<noteq> CHR ''/'') t))"

definition Dir :: "string \<Rightarrow> string" where
  "Dir path = Clean (rev (dropWhile (\<lambda>c. c \<noteq> CHR ''/'') (rev path)))"

text \<open>
  \<^verbatim>\<open>filepath.Match\<close> for patterns of plain characters and stars, and \<^verbatim>\<open>filepath.Glob\<close> for a directory without
  wildcards and a pattern for the names in it: the matching names in order, none if the directory cannot be read.
\<close>

fun glob_match :: "string \<Rightarrow> string \<Rightarrow> bool" where
  "glob_match [] s = (s = [])"
| "glob_match (p # ps) [] = (p = CHR ''*'' \<and> glob_match ps [])"
| "glob_match (p # ps) (c # cs) =
     (if p = CHR ''*'' then glob_match ps (c # cs) \<or> (c \<noteq> CHR ''/'' \<and> glob_match (p # ps) cs)
      else p = c \<and> glob_match ps cs)"

definition Glob :: "'w host \<Rightarrow> string \<Rightarrow> string \<Rightarrow> 'w \<Rightarrow> string list" where
  "Glob h dir pat w =
     (case oReadDir h dir w of
        Inl _ \<Rightarrow> []
      | Inr es \<Rightarrow> map (filepath_Join dir) (filter (glob_match pat) (sort (map fst es))))"

subsection \<open>Package fmt: lists\<close>

text \<open>The verb \<^verbatim>\<open>%v\<close> for a list.\<close>

definition fmt_list :: "string list \<Rightarrow> string" where
  "fmt_list xs = ''['' @ Join (CHR '' '') xs @ '']''"

subsection \<open>Hosts with rules about what may be run\<close>

text \<open>
  The contract for theorems about what the driver never does to a machine: a property \<open>ok\<close> of the world that waiting and
  file operations keep, and that running a program keeps if the program \<open>may\<close> be run. What an operation of the driver is
  proved to keep here it keeps for every host and every such property.
\<close>

named_theorems keeps \<open>operations keep the property of a guarded host\<close>

locale guarded_host =
  fixes h :: "'w host" and ok :: "'w \<Rightarrow> bool" and may :: "string \<Rightarrow> string list \<Rightarrow> 'w \<Rightarrow> bool"
  assumes ok_exec: "oExec h name args w = (r, v) \<Longrightarrow> ok w \<Longrightarrow> may name args w \<Longrightarrow> ok v"
    and ok_execctx: "oExecCtx h ctx name args w = (r, v) \<Longrightarrow> ok w \<Longrightarrow> may name args w \<Longrightarrow> ok v"
    and ok_output: "oOutputCtx h ctx name args w = (r, v) \<Longrightarrow> ok w \<Longrightarrow> may name args w \<Longrightarrow> ok v"
    and ok_moby [keeps]: "oMobyMounts h ctx w = (ms, v) \<Longrightarrow> ok w \<Longrightarrow> ok v"
    and ok_wait [keeps]: "oWait h ctx d w = (e, v) \<Longrightarrow> ok w \<Longrightarrow> ok v"
    and ok_tick [keeps]: "oTick h d t w = (b, v) \<Longrightarrow> ok w \<Longrightarrow> ok v"
    and ok_mkdir [keeps]: "oMkdirAll h p m w = (fe, v) \<Longrightarrow> ok w \<Longrightarrow> ok v"
    and ok_mknod [keeps]: "oMknod h p m n w = (fe, v) \<Longrightarrow> ok w \<Longrightarrow> ok v"
    and ok_remove [keeps]: "oRemove h p w = (fe, v) \<Longrightarrow> ok w \<Longrightarrow> ok v"
    and ok_removeall [keeps]: "oRemoveAll h p w = (fe, v) \<Longrightarrow> ok w \<Longrightarrow> ok v"
    and ok_create [keeps]: "oCreateExcl h p m w = (fe, v) \<Longrightarrow> ok w \<Longrightarrow> ok v"

text \<open>
  \<open>logged h\<close> is the host \<open>h\<close> with a record of every program it has run, newest first: its name, its arguments, its output,
  its error, and the world it was started in.
\<close>

record 'w command =
  cmd_name :: string
  cmd_args :: "string list"
  cmd_out :: string
  cmd_err :: "exec_err option"
  cmd_world :: 'w

type_synonym 'w logworld = "'w command list \<times> 'w"

definition log_run :: "string \<Rightarrow> string list \<Rightarrow> ('w \<Rightarrow> (string \<times> exec_err option) \<times> 'w)
    \<Rightarrow> 'w logworld \<Rightarrow> (string \<times> exec_err option) \<times> 'w logworld" where
  "log_run name args run lw =
     (case run (snd lw) of
        (r, w) \<Rightarrow> (r, \<lparr> cmd_name = name, cmd_args = args, cmd_out = fst r, cmd_err = snd r, cmd_world = snd lw \<rparr> # fst lw, w))"

definition log_keep :: "('w \<Rightarrow> 'a \<times> 'w) \<Rightarrow> 'w logworld \<Rightarrow> 'a \<times> 'w logworld" where
  "log_keep run lw = (case run (snd lw) of (r, w) \<Rightarrow> (r, fst lw, w))"

definition ctx_at :: "'w command list \<Rightarrow> 'w logworld ctx \<Rightarrow> 'w ctx" where
  "ctx_at log ctx = \<lparr> ctxErr = (\<lambda>w. ctxErr ctx (log, w)), ctxDeadline = ctxDeadline ctx \<rparr>"

definition logged :: "'w host \<Rightarrow> 'w logworld host" where
  "logged h =
     \<lparr> oNow = (\<lambda>lw. oNow h (snd lw)), oGetpid = (\<lambda>lw. oGetpid h (snd lw)),
       oStat = (\<lambda>p lw. oStat h p (snd lw)), oReadFile = (\<lambda>p lw. oReadFile h p (snd lw)),
       oReadDir = (\<lambda>p lw. oReadDir h p (snd lw)), oReadlink = (\<lambda>p lw. oReadlink h p (snd lw)),
       oEvalSymlinks = (\<lambda>p lw. oEvalSymlinks h p (snd lw)),
       oMobyMounts = (\<lambda>ctx lw. log_keep (oMobyMounts h (ctx_at (fst lw) ctx)) lw),
       oExec = (\<lambda>name args. log_run name args (oExec h name args)),
       oExecCtx = (\<lambda>ctx name args lw. log_run name args (oExecCtx h (ctx_at (fst lw) ctx) name args) lw),
       oOutputCtx = (\<lambda>ctx name args lw. log_run name args (oOutputCtx h (ctx_at (fst lw) ctx) name args) lw),
       oWait = (\<lambda>ctx d lw. log_keep (oWait h (ctx_at (fst lw) ctx) d) lw),
       oTick = (\<lambda>d t. log_keep (oTick h d t)),
       oMkdirAll = (\<lambda>p m. log_keep (oMkdirAll h p m)), oMknod = (\<lambda>p m r. log_keep (oMknod h p m r)),
       oRemove = (\<lambda>p. log_keep (oRemove h p)), oRemoveAll = (\<lambda>p. log_keep (oRemoveAll h p)),
       oCreateExcl = (\<lambda>p m. log_keep (oCreateExcl h p m)) \<rparr>"

lemma logged_reads [simp]:
  "oNow (logged h) lw = oNow h (snd lw)" "oGetpid (logged h) lw = oGetpid h (snd lw)"
  "oStat (logged h) p lw = oStat h p (snd lw)" "oReadFile (logged h) p lw = oReadFile h p (snd lw)"
  "oReadDir (logged h) p lw = oReadDir h p (snd lw)" "oReadlink (logged h) p lw = oReadlink h p (snd lw)"
  "oEvalSymlinks (logged h) p lw = oEvalSymlinks h p (snd lw)"
  by (simp_all add: logged_def)

lemma logged_exec [simp]: "oExec (logged h) name args = log_run name args (oExec h name args)"
  by (simp add: logged_def)

text \<open>
  A rule says of a program, the record so far and the world whether the program may be run; a record is lawful when every
  program in it was. The logged host keeps its record lawful.
\<close>

type_synonym 'w rule = "string \<Rightarrow> string list \<Rightarrow> 'w command list \<Rightarrow> 'w \<Rightarrow> bool"

fun lawful :: "'w rule \<Rightarrow> 'w command list \<Rightarrow> bool" where
  "lawful rule [] = True"
| "lawful rule (c # log) = (rule (cmd_name c) (cmd_args c) log (cmd_world c) \<and> lawful rule log)"

lemma guarded_logged:
  "guarded_host (logged h) (\<lambda>lw. lawful rule (fst lw)) (\<lambda>name args lw. rule name args (fst lw) (snd lw))"
  by unfold_locales (auto simp: logged_def log_run_def log_keep_def split: prod.splits)

lemma lawful_entry: "lawful rule log \<Longrightarrow> log = later @ c # earlier \<Longrightarrow> rule (cmd_name c) (cmd_args c) earlier (cmd_world c)"
  by (induction later arbitrary: log) auto

end
