(* ===== verification/Mounts.thy ===== *)
theory Mounts
  imports Host "HOL-Library.Monad_Syntax"
begin

text \<open>
  Package \<^verbatim>\<open>pkg/mount\<close> without the parts about NVMe targets: the mount table of the kernel
  (\<^verbatim>\<open>procmounts.go\<close>), mount options and the mounter (\<^verbatim>\<open>mount.go\<close>), and the check of a file system before it is
  mounted (\<^verbatim>\<open>health.go\<close>). Everything works on a \<open>host\<close>; logging is left out.
\<close>

subsection \<open>The mount table\<close>

record MountInfo =
  mi_Source :: string
  mi_Target :: string
  mi_FSType :: string
  mi_Options :: string

definition ProcmountsTimeout :: duration where
  "ProcmountsTimeout = 10 * second"

definition MaxDuplicateMountsPerDevice :: nat where
  "MaxDuplicateMountsPerDevice = 100"

text \<open>\<^verbatim>\<open>strings.NewReplacer\<close>: at every position the first pattern that fits is replaced.\<close>

function Replace :: "(string \<times> string) list \<Rightarrow> string \<Rightarrow> string" where
  "Replace prs [] = []"
| "Replace prs (c # cs) =
     (case find (\<lambda>p. HasPrefix (c # cs) (fst p)) prs of
        Some p \<Rightarrow> snd p @ Replace prs (drop (length (fst p) - 1) cs)
      | None \<Rightarrow> c # Replace prs cs)"
  by pat_completeness auto
termination by (relation "measure (\<lambda>(prs, s). length s)") auto

definition unescapePath :: "string \<Rightarrow> string" where
  "unescapePath path =
     Replace [(CHR 0x5C # ''040'', '' ''), (CHR 0x5C # ''011'', [CHR 0x09]), (CHR 0x5C # ''012'', [CHR 0x0A]),
              (CHR 0x5C # ''134'', [CHR 0x5C])] path"

fun index_of :: "'a \<Rightarrow> 'a list \<Rightarrow> nat option" where
  "index_of a [] = None"
| "index_of a (x # xs) = (if x = a then Some 0 else map_option Suc (index_of a xs))"

definition parseMountInfoLine :: "string \<Rightarrow> goerr + MountInfo" where
  "parseMountInfoLine line =
     (let fields = Fields line
      in if length fields < 10
         then Inl (GoErr (''invalid mountinfo line: expected at least 10 fields, got '' @ Itoa (int (length fields))))
         else case index_of ''-'' fields of
           None \<Rightarrow> Inl (GoErr (''invalid mountinfo line: missing separator '' @ [CHR 0x27] @ ''-'' @ [CHR 0x27]))
         | Some separatorIndex \<Rightarrow>
             if separatorIndex + 2 \<ge> length fields
             then Inl (GoErr (''invalid mountinfo line: missing separator '' @ [CHR 0x27] @ ''-'' @ [CHR 0x27]))
             else Inr \<lparr> mi_Source = unescapePath (fields ! (separatorIndex + 2)),
                        mi_Target = unescapePath (fields ! 4),
                        mi_FSType = fields ! (separatorIndex + 1),
                        mi_Options = fields ! 5 \<rparr>)"

text \<open>
  \<^verbatim>\<open>bufio.Scanner\<close> over the lines of a text: a carriage return at the end of a line is dropped, as is an empty
  last line. A line of 64 KiB or more is an error.
\<close>

definition scan_lines :: "string \<Rightarrow> goerr + string list" where
  "scan_lines s =
     (let ls = Split (CHR 0x0A) s;
          ls = (if last ls = [] then butlast ls else ls)
      in if list_all (\<lambda>l. length l < 65536) ls then Inr (map (\<lambda>l. TrimSuffix l [CHR 0x0D]) ls)
         else Inl (GoErr ''bufio.Scanner: token too long''))"

definition GetMounts :: "'w host \<Rightarrow> 'w \<Rightarrow> goerr + MountInfo list" where
  "GetMounts h w =
     (case oReadFile h ''/proc/self/mountinfo'' w of
        Inl err \<Rightarrow> Inl (wrap_err ''failed to open /proc/self/mountinfo: '' (file_error err))
      | Inr text \<Rightarrow>
          (case scan_lines text of
             Inl err \<Rightarrow> Inl (wrap_err ''error reading /proc/self/mountinfo: '' err)
           | Inr lines \<Rightarrow>
               Inr (concat (map (\<lambda>line. case parseMountInfoLine line of Inl _ \<Rightarrow> [] | Inr m \<Rightarrow> [m]) lines))))"

definition GetMountDevice :: "'w host \<Rightarrow> string \<Rightarrow> 'w \<Rightarrow> goerr + string" where
  "GetMountDevice h mountPath w =
     (case GetMounts h w of
        Inl err \<Rightarrow> Inl (wrap_err ''failed to get mounts: '' err)
      | Inr mounts \<Rightarrow>
          (case find (\<lambda>m. mi_Target m = mountPath) mounts of
             Some m \<Rightarrow> Inr (mi_Source m)
           | None \<Rightarrow> Inl (GoErr (''mount point not found: '' @ mountPath))))"

definition GetMountInfo :: "'w host \<Rightarrow> string \<Rightarrow> 'w \<Rightarrow> goerr + MountInfo" where
  "GetMountInfo h mountPath w =
     (case GetMounts h w of
        Inl err \<Rightarrow> Inl (wrap_err ''failed to get mounts: '' err)
      | Inr mounts \<Rightarrow>
          (case find (\<lambda>m. mi_Target m = mountPath) mounts of
             Some m \<Rightarrow> Inr m
           | None \<Rightarrow> Inl (GoErr (''mount point not found: '' @ mountPath))))"

definition GetMountsWithTimeout :: "'w host \<Rightarrow> 'w ctx \<Rightarrow> 'w \<Rightarrow> (goerr + moby_mount list) \<times> 'w" where
  "GetMountsWithTimeout h ctx w =
     (let ctx = WithTimeout h ctx ProcmountsTimeout w
      in case oMobyMounts h ctx w of
           (Inr res, w) \<Rightarrow> (res, w)
         | (Inl e, w) \<Rightarrow>
             (Inl (GoWrap (''procmounts parsing timed out after '' @ duration_String ProcmountsTimeout @ '': '') (ctx_error e)
                ('' This may indicate filesystem corruption or an excessive number of mount entries. '' @
                 ''Check /proc/mounts manually and consider unmounting stale entries'')), w))"

definition DetectDuplicateMounts :: "moby_mount list \<Rightarrow> string \<Rightarrow> nat \<times> goerr option" where
  "DetectDuplicateMounts mounts devicePath =
     (let count = length (filter (\<lambda>m. mm_Source m = devicePath) mounts)
      in (count,
          if count \<ge> MaxDuplicateMountsPerDevice
          then Some (GoErr (''mount storm detected: device '' @ devicePath @ '' has '' @ Itoa (int count) @
                 '' mount entries (threshold: '' @ Itoa (int MaxDuplicateMountsPerDevice) @ '') '' @
                 ''This indicates filesystem corruption or a runaway mount loop '' @
                 ''Manual cleanup required: identify and unmount duplicate entries with '' @
                 [CHR 0x27] @ ''findmnt'' @ [CHR 0x27] @ '' and '' @ [CHR 0x27] @ ''umount'' @ [CHR 0x27]))
          else None))"

definition ConvertMobyMount :: "moby_mount \<Rightarrow> MountInfo" where
  "ConvertMobyMount m =
     \<lparr> mi_Source = mm_Source m, mi_Target = mm_Mountpoint m, mi_FSType = mm_FSType m, mi_Options = mm_Options m \<rparr>"

subsection \<open>Mount options\<close>

definition dangerousMountOptions :: "string list" where
  "dangerousMountOptions = [''suid'', ''dev'', ''exec'']"

definition defaultSecureMountOptions :: "string list" where
  "defaultSecureMountOptions = [''nosuid'', ''nodev'', ''noexec'']"

definition allowedMountOptions :: "string list" where
  "allowedMountOptions =
     [''nosuid'', ''nodev'', ''noexec'', ''ro'', ''rw'', ''relatime'', ''noatime'', ''nodiratime'',
      ''defaults'', ''sync'', ''async'', ''auto'', ''noauto'', ''user'', ''nouser'', ''_netdev'',
      ''bind'', ''rbind'', ''remount'', ''strictatime'', ''lazytime'', ''nolazytime'']"

definition optName :: "string \<Rightarrow> string" where
  "optName opt = hd (Split (CHR ''='') opt)"

fun ValidateMountOptions :: "string list \<Rightarrow> goerr option" where
  "ValidateMountOptions [] = None"
| "ValidateMountOptions (opt # options) =
     (if optName opt \<in> set dangerousMountOptions
      then Some (GoErr (''dangerous mount option not allowed: '' @ optName opt))
      else if optName opt \<notin> set allowedMountOptions
      then Some (GoErr (''mount option not in whitelist: '' @ optName opt))
      else ValidateMountOptions options)"

definition opposite :: "string \<Rightarrow> string" where
  "opposite secureOpt =
     (if secureOpt = ''nosuid'' then ''suid'' else if secureOpt = ''nodev'' then ''dev''
      else if secureOpt = ''noexec'' then ''exec'' else [])"

definition SanitizeMountOptions :: "string list \<Rightarrow> bool \<Rightarrow> goerr + string list" where
  "SanitizeMountOptions options isBindMount =
     (case ValidateMountOptions options of
        Some err \<Rightarrow> Inl err
      | None \<Rightarrow>
          if isBindMount
          then (let existingOpts = map optName options;
                    secureOpts = filter (\<lambda>secureOpt. secureOpt \<notin> set existingOpts \<and> opposite secureOpt \<notin> set existingOpts)
                                   defaultSecureMountOptions
                in Inr (secureOpts @ options))
          else Inr options)"

subsection \<open>The mounter\<close>

record DeviceStats =
  ds_TotalBytes :: int
  ds_UsedBytes :: int
  ds_AvailableBytes :: int
  ds_TotalInodes :: int
  ds_UsedInodes :: int
  ds_AvailableInodes :: int

text \<open>
  The interface \<^verbatim>\<open>Mounter\<close>. \<^verbatim>\<open>ForceUnmount\<close> waits in a loop, so its result is an option; \<open>None\<close> is a call that
  does not return.
\<close>

record 'w Mounter =
  mMount :: "string \<Rightarrow> string \<Rightarrow> string \<Rightarrow> string list \<Rightarrow> 'w \<Rightarrow> goerr option \<times> 'w"
  mUnmount :: "string \<Rightarrow> 'w \<Rightarrow> goerr option \<times> 'w"
  mIsLikelyMountPoint :: "string \<Rightarrow> 'w \<Rightarrow> (goerr + bool) \<times> 'w"
  mFormat :: "string \<Rightarrow> string \<Rightarrow> 'w \<Rightarrow> goerr option \<times> 'w"
  mIsFormatted :: "string \<Rightarrow> 'w \<Rightarrow> (goerr + bool) \<times> 'w"
  mResizeFilesystem :: "string \<Rightarrow> string \<Rightarrow> 'w \<Rightarrow> goerr option \<times> 'w"
  mGetDeviceStats :: "string \<Rightarrow> 'w \<Rightarrow> (goerr + DeviceStats) \<times> 'w"
  mForceUnmount :: "string \<Rightarrow> duration \<Rightarrow> 'w \<Rightarrow> (goerr option \<times> 'w) option"
  mIsMountInUse :: "string \<Rightarrow> 'w \<Rightarrow> (goerr + int list) \<times> 'w"
  mMakeFile :: "string \<Rightarrow> 'w \<Rightarrow> goerr option \<times> 'w"

definition IsLikelyMountPoint :: "'w host \<Rightarrow> string \<Rightarrow> 'w \<Rightarrow> (goerr + bool) \<times> 'w" where
  "IsLikelyMountPoint h path w =
     (case oStat h path w of
        Inl (NotExist _) \<Rightarrow> (Inr False, w)
      | _ \<Rightarrow>
          (case oExec h ''findmnt'' [''-o'', ''TARGET'', ''-n'', ''-M'', path] w of
             ((output, Some err), w) \<Rightarrow> (Inr False, w)
           | ((output, None), w) \<Rightarrow> (Inr (output \<noteq> []), w)))"

text \<open>The part of \<^verbatim>\<open>Mount\<close> that makes sure the target exists.\<close>

definition ensure_target :: "'w host \<Rightarrow> string \<Rightarrow> 'w \<Rightarrow> goerr option \<times> 'w" where
  "ensure_target h target w =
     (case oStat h target w of
        Inl (NotExist _) \<Rightarrow>
          (case oMkdirAll h target 488 w of
             (Some err, w) \<Rightarrow> (Some (wrap_err ''failed to create target directory: '' (file_error err)), w)
           | (None, w) \<Rightarrow> (None, w))
      | Inl err \<Rightarrow> (Some (wrap_err ''failed to stat target: '' (file_error err)), w)
      | Inr st \<Rightarrow> (None, w))"

definition mount_args :: "string \<Rightarrow> string \<Rightarrow> string \<Rightarrow> string list \<Rightarrow> string list" where
  "mount_args source target fsType options =
     (if fsType \<noteq> [] then [''-t'', fsType] else []) @
     (if options \<noteq> [] then [''-o'', Join (CHR '','') options] else []) @ [source, target]"

definition storm_check :: "'w host \<Rightarrow> string \<Rightarrow> 'w \<Rightarrow> goerr option \<times> 'w" where
  "storm_check h source w =
     (case GetMountsWithTimeout h (WithTimeout h Background (10 * second) w) w of
        (Inl err, w) \<Rightarrow> (None, w)
      | (Inr mounts, w) \<Rightarrow>
          (case DetectDuplicateMounts mounts source of
             (count, Some stormErr) \<Rightarrow> (Some (wrap_err ''mount operation aborted due to mount storm: '' stormErr), w)
           | (count, None) \<Rightarrow> (None, w)))"

definition Mount :: "'w host \<Rightarrow> string \<Rightarrow> string \<Rightarrow> string \<Rightarrow> string list \<Rightarrow> 'w \<Rightarrow> goerr option \<times> 'w" where
  "Mount h source target fsType options w =
     (case storm_check h source w of
        (Some err, w) \<Rightarrow> (Some err, w)
      | (None, w) \<Rightarrow>
          (let isBindMount = list_ex (\<lambda>opt. opt = ''bind'' \<or> opt = ''rbind'') options
           in case SanitizeMountOptions options isBindMount of
                Inl err \<Rightarrow> (Some (wrap_err ''mount options validation failed: '' err), w)
              | Inr options \<Rightarrow>
                  (case ensure_target h target w of
                     (Some err, w) \<Rightarrow> (Some err, w)
                   | (None, w) \<Rightarrow>
                       (case oExec h ''mount'' (mount_args source target fsType options) w of
                          ((output, Some err), w) \<Rightarrow>
                            (Some (GoWrap ''mount failed: '' (exec_error err) ('', output: '' @ output)), w)
                        | ((output, None), w) \<Rightarrow> (None, w)))))"

definition Unmount :: "'w host \<Rightarrow> string \<Rightarrow> 'w \<Rightarrow> goerr option \<times> 'w" where
  "Unmount h target w =
     (case IsLikelyMountPoint h target w of
        (Inl err, w) \<Rightarrow> (Some (wrap_err ''failed to check if mounted: '' err), w)
      | (Inr False, w) \<Rightarrow> (None, w)
      | (Inr True, w) \<Rightarrow>
          (case oExec h ''umount'' [target] w of
             ((output, Some err), w) \<Rightarrow>
               (Some (GoWrap ''umount failed: '' (exec_error err) ('', output: '' @ output)), w)
           | ((output, None), w) \<Rightarrow> (None, w)))"

definition IsFormatted :: "'w host \<Rightarrow> string \<Rightarrow> 'w \<Rightarrow> (goerr + bool) \<times> 'w" where
  "IsFormatted h device w =
     (case oExec h ''blkid'' [''-o'', ''value'', ''-s'', ''TYPE'', device] w of
        ((output, Some err), w) \<Rightarrow>
          (case err of
             ExitError code m \<Rightarrow>
               if code = 2 then (Inr False, w)
               else if code = 1
               then (Inl (GoErr (''blkid cannot read device '' @ device @
                       '' (exit status 1): device may not be ready or has I/O errors'')), w)
               else (Inl (wrap_err (''blkid failed on '' @ device @ '' with exit code '' @ Itoa code @ '': '')
                       (exec_error err)), w)
           | ExecError m \<Rightarrow> (Inl (wrap_err ''blkid failed: '' (exec_error err)), w))
      | ((output, None), w) \<Rightarrow> (Inr (TrimSpace output \<noteq> []), w))"

definition mkfs_command :: "string \<Rightarrow> string \<Rightarrow> (string \<times> string list) option" where
  "mkfs_command device fsType =
     (if fsType = ''ext4'' then Some (''mkfs.ext4'', [''-F'', device])
      else if fsType = ''ext3'' then Some (''mkfs.ext3'', [''-F'', device])
      else if fsType = ''xfs'' then Some (''mkfs.xfs'', [''-f'', device])
      else None)"

definition Format :: "'w host \<Rightarrow> string \<Rightarrow> string \<Rightarrow> 'w \<Rightarrow> goerr option \<times> 'w" where
  "Format h device fsType w =
     (case IsFormatted h device w of
        (Inl err, w) \<Rightarrow> (Some (wrap_err ''failed to check if device is formatted: '' err), w)
      | (Inr True, w) \<Rightarrow> (None, w)
      | (Inr False, w) \<Rightarrow>
          (case mkfs_command device fsType of
             None \<Rightarrow> (Some (GoErr (''unsupported filesystem type: '' @ fsType)), w)
           | Some (cmd, args) \<Rightarrow>
               (case oExec h cmd args w of
                  ((output, Some err), w) \<Rightarrow>
                    (Some (GoWrap (''mkfs.'' @ fsType @ '' failed: '') (exec_error err) ('', output: '' @ output)), w)
                | ((output, None), w) \<Rightarrow> (None, w))))"

definition ResizeFilesystem :: "'w host \<Rightarrow> string \<Rightarrow> string \<Rightarrow> 'w \<Rightarrow> goerr option \<times> 'w" where
  "ResizeFilesystem h device volumePath w =
     (case oExec h ''blkid'' [''-o'', ''value'', ''-s'', ''TYPE'', device] w of
        ((output, Some err), w) \<Rightarrow>
          (Some (GoWrap ''failed to detect filesystem type: '' (exec_error err) ('', output: '' @ output)), w)
      | ((output, None), w) \<Rightarrow>
          (let fsType = TrimSpace output;
               run = (\<lambda>cmd args. case oExec h cmd args w of
                   ((output, Some err), w) \<Rightarrow>
                     (Some (GoWrap ''filesystem resize failed: '' (exec_error err) ('', output: '' @ output)), w)
                 | ((output, None), w) \<Rightarrow> (None, w))
           in if fsType = []
              then (Some (GoErr (''could not detect filesystem type for device '' @ device)), w)
              else if fsType \<in> {''ext4'', ''ext3'', ''ext2''} then run ''resize2fs'' [device]
              else if fsType = ''xfs''
              then (if volumePath = [] then (Some (GoErr ''volume path is required for xfs filesystem resize''), w)
                    else run ''xfs_growfs'' [volumePath])
              else (Some (GoErr (''unsupported filesystem type for resize: '' @ fsType)), w)))"

definition stat_field :: "string \<Rightarrow> int" where
  "stat_field s = (case Sscanf_d s of None \<Rightarrow> 0 | Some i \<Rightarrow> i)"

definition GetDeviceStats :: "'w host \<Rightarrow> string \<Rightarrow> 'w \<Rightarrow> (goerr + DeviceStats) \<times> 'w" where
  "GetDeviceStats h path w =
     (case oExec h ''df'' [''--output=size,used,avail,itotal,iused,iavail'', ''-B1'', path] w of
        ((output, Some err), w) \<Rightarrow> (Inl (GoWrap ''df failed: '' (exec_error err) ('', output: '' @ output)), w)
      | ((output, None), w) \<Rightarrow>
          (let lines = Split (CHR 0x0A) (TrimSpace output)
           in if length lines < 2 then (Inl (GoErr (''unexpected df output: '' @ output)), w)
              else let fields = Fields (lines ! 1)
                   in if length fields < 6
                      then (Inl (GoErr (''unexpected df output format: '' @ lines ! 1)), w)
                      else (Inr \<lparr> ds_TotalBytes = stat_field (fields ! 0), ds_UsedBytes = stat_field (fields ! 1),
                                  ds_AvailableBytes = stat_field (fields ! 2), ds_TotalInodes = stat_field (fields ! 3),
                                  ds_UsedInodes = stat_field (fields ! 4),
                                  ds_AvailableInodes = stat_field (fields ! 5) \<rparr>, w)))"

text \<open>\<^verbatim>\<open>IsMountInUse\<close> returns the processes; the mount is in use when there is one.\<close>

definition holds_open :: "'w host \<Rightarrow> string \<Rightarrow> 'w \<Rightarrow> int \<Rightarrow> bool" where
  "holds_open h canonicalPath w pid =
     (let fdPath = ''/proc/'' @ Itoa pid @ ''/fd''
      in case oReadDir h fdPath w of
           Inl _ \<Rightarrow> False
         | Inr fdEntries \<Rightarrow>
             list_ex (\<lambda>e. case oReadlink h (filepath_Join fdPath (fst e)) w of
                            Inl _ \<Rightarrow> False
                          | Inr target \<Rightarrow> target = canonicalPath \<or> HasPrefix target (canonicalPath @ ''/'')) fdEntries)"

definition IsMountInUse :: "'w host \<Rightarrow> string \<Rightarrow> 'w \<Rightarrow> goerr + int list" where
  "IsMountInUse h path w =
     (case oEvalSymlinks h path w of
        Inl (NotExist _) \<Rightarrow> Inr []
      | Inl err \<Rightarrow> Inl (wrap_err (''failed to resolve symlinks for '' @ path @ '': '') (file_error err))
      | Inr canonicalPath \<Rightarrow>
          (let canonicalPath = TrimSuffix canonicalPath ''/''
           in case oReadDir h ''/proc'' w of
                Inl err \<Rightarrow> Inl (wrap_err ''failed to open /proc: '' (file_error err))
              | Inr entries \<Rightarrow>
                  Inr (concat (map (\<lambda>e. case Atoi (fst e) of
                                          None \<Rightarrow> []
                                        | Some pid \<Rightarrow> if holds_open h canonicalPath w pid then [pid] else []) entries))))"

definition MakeFile :: "'w host \<Rightarrow> string \<Rightarrow> 'w \<Rightarrow> goerr option \<times> 'w" where
  "MakeFile h pathname w =
     (case oMkdirAll h (Dir pathname) 488 w of
        (Some err, w) \<Rightarrow> (Some (wrap_err ''failed to create parent directory: '' (file_error err)), w)
      | (None, w) \<Rightarrow>
          (case oCreateExcl h pathname 416 w of
             (None, w) \<Rightarrow> (None, w)
           | (Some (Exist _), w) \<Rightarrow> (None, w)
           | (Some err, w) \<Rightarrow> (Some (wrap_err ''failed to create file: '' (file_error err)), w)))"

text \<open>The loop of \<^verbatim>\<open>ForceUnmount\<close>: \<open>True\<close> when it ends in the jump to \<^verbatim>\<open>escalate\<close>.\<close>

definition still_mounted :: "'w host \<Rightarrow> string \<Rightarrow> 'w \<Rightarrow> bool \<times> 'w" where
  "still_mounted h target w =
     (case IsLikelyMountPoint h target w of (Inl _, w) \<Rightarrow> (False, w) | (Inr mounted, w) \<Rightarrow> (mounted, w))"

partial_function (option) force_wait ::
    "'w host \<Rightarrow> string \<Rightarrow> duration \<Rightarrow> time \<Rightarrow> 'w \<Rightarrow> (bool \<times> 'w) option" where
  "force_wait h target timeout startTime w =
     (case oTick h (500 * millisecond) timeout w of
        (timer, w) \<Rightarrow>
          if timer then Some (True, w)
          else (case still_mounted h target w of
             (mounted, w) \<Rightarrow>
               if \<not> mounted then Some (False, w)
               else if since (oNow h w) startTime \<ge> timeout then Some (True, w)
               else force_wait h target timeout startTime w))"

definition escalate :: "'w host \<Rightarrow> string \<Rightarrow> 'w \<Rightarrow> goerr option \<times> 'w" where
  "escalate h target w =
     (case IsMountInUse h target w of
        Inr (pid # pids) \<Rightarrow>
          (Some (GoErr (''refusing to force unmount '' @ target @ '': mount is in use by processes: '' @
             fmt_list (map Itoa (pid # pids)))), w)
      | _ \<Rightarrow>
          (case oExec h ''umount'' [''-l'', target] w of
             ((output, Some err), w) \<Rightarrow>
               (Some (GoWrap (''lazy unmount failed for '' @ target @ '': '') (exec_error err)
                  ('', output: '' @ output)), w)
           | ((output, None), w) \<Rightarrow> (None, w)))"

definition ForceUnmount :: "'w host \<Rightarrow> string \<Rightarrow> duration \<Rightarrow> 'w \<Rightarrow> (goerr option \<times> 'w) option" where
  "ForceUnmount h target timeout w =
     (case Unmount h target w of
        (None, w) \<Rightarrow> Some (None, w)
      | (Some err, w) \<Rightarrow>
          do { (esc, w) \<leftarrow> force_wait h target timeout (oNow h w) w;
               if esc then Some (escalate h target w) else Some (None, w) })"

text \<open>The mounter of the driver.\<close>

definition mounter :: "'w host \<Rightarrow> 'w Mounter" where
  "mounter h =
     \<lparr> mMount = Mount h, mUnmount = Unmount h, mIsLikelyMountPoint = IsLikelyMountPoint h, mFormat = Format h,
       mIsFormatted = IsFormatted h, mResizeFilesystem = ResizeFilesystem h, mGetDeviceStats = GetDeviceStats h,
       mForceUnmount = ForceUnmount h, mIsMountInUse = (\<lambda>path w. (IsMountInUse h path w, w)), mMakeFile = MakeFile h \<rparr>"

subsection \<open>Health of a file system\<close>

definition HealthCheckTimeout :: duration where
  "HealthCheckTimeout = 60 * second"

definition fsck_command :: "string \<Rightarrow> string \<Rightarrow> (string \<times> string list) option" where
  "fsck_command devicePath fsType =
     (if fsType \<in> {''ext4'', ''ext3'', ''ext2''} then Some (''fsck.ext4'', [''-n'', devicePath])
      else if fsType = ''xfs'' then Some (''xfs_repair'', [''-n'', devicePath])
      else None)"

definition CheckFilesystemHealth :: "'w host \<Rightarrow> 'w ctx \<Rightarrow> string \<Rightarrow> string \<Rightarrow> 'w \<Rightarrow> goerr option \<times> 'w" where
  "CheckFilesystemHealth h ctx devicePath fsType w =
     (let ctx = WithTimeout h ctx HealthCheckTimeout w
      in case fsck_command devicePath fsType of
           None \<Rightarrow> (None, w)
         | Some (cmd, args) \<Rightarrow>
             (case oExecCtx h ctx cmd args w of
                ((output, err), w) \<Rightarrow>
                  if ctxErr ctx w = Some DeadlineExceeded
                  then (Some (GoErr (''filesystem health check timed out after '' @ duration_String HealthCheckTimeout @
                          '' for device '' @ devicePath @ ''. Device may be unresponsive or severely corrupted'')), w)
                  else (case err of
                     None \<Rightarrow> (None, w)
                   | Some e \<Rightarrow>
                       if Contains (exec_msg e) ''executable file not found'' \<or> Contains (exec_msg e) ''no such file or directory''
                       then (None, w)
                       else if Contains output ''No such file or directory while trying to open'' \<or>
                               Contains output ''Possibly non-existent device''
                       then (None, w)
                       else (Some (GoWrap (''filesystem health check failed for device '' @ devicePath @ '' (fsType: '' @ fsType @ ''): '')
                               (exec_error e) (''. Filesystem may be corrupted. Output: '' @ output @
                               ''. Consider running fsck manually after unmounting any existing mounts'')), w))))"


subsection \<open>What the mounter may do to a machine\<close>

text \<open>The answer of \<^verbatim>\<open>blkid\<close> that stands for a device without a file system.\<close>

fun no_filesystem :: "string \<times> exec_err option \<Rightarrow> bool" where
  "no_filesystem (out, None) = (TrimSpace out = [])"
| "no_filesystem (out, Some (ExitError code m)) = (code = 2)"
| "no_filesystem (out, Some (ExecError m)) = False"

abbreviation blkid_args :: "string \<Rightarrow> string list" where
  "blkid_args device \<equiv> [''-o'', ''value'', ''-s'', ''TYPE'', device]"

definition in_use :: "'w host \<Rightarrow> string \<Rightarrow> 'w \<Rightarrow> bool" where
  "in_use h target w \<longleftrightarrow> (\<exists>pid pids. IsMountInUse h target w = Inr (pid # pids))"

lemma IsFormatted_no_filesystem:
  "IsFormatted h device w = (Inr False, v) \<Longrightarrow> \<exists>r. oExec h ''blkid'' (blkid_args device) w = (r, v) \<and> no_filesystem r"
  by (auto simp: IsFormatted_def split: prod.splits option.splits exec_err.splits if_splits)

text \<open>
  The contract of the mounter: the programs that only look at things and the ordinary mount and unmount may always be run,
  a file system may be made right after \<^verbatim>\<open>blkid\<close> has found none, and a lazy unmount may be run on a mount that no process
  uses.
\<close>

locale guarded_mounts = guarded_host +
  assumes may_plain: "name \<in> {''findmnt'', ''mount'', ''blkid'', ''df'', ''resize2fs'', ''xfs_growfs'', ''fsck.ext4'', ''xfs_repair''} \<Longrightarrow> may name args w"
    and may_umount: "may ''umount'' [target] w"
    and may_lazy: "\<not> in_use h target w \<Longrightarrow> may ''umount'' [''-l'', target] w"
    and may_mkfs: "oExec h ''blkid'' (blkid_args device) w = (r, v) \<Longrightarrow> no_filesystem r \<Longrightarrow>
      mkfs_command device fsType = Some (cmd, args) \<Longrightarrow> may cmd args v"
begin

lemma exec_plain [keeps]:
  "oExec h name args w = (r, v) \<Longrightarrow> ok w \<Longrightarrow>
    name \<in> {''findmnt'', ''mount'', ''blkid'', ''df'', ''resize2fs'', ''xfs_growfs''} \<Longrightarrow> ok v"
  by (rule ok_exec) (auto intro!: may_plain)

lemma exec_umount [keeps]: "oExec h ''umount'' [target] w = (r, v) \<Longrightarrow> ok w \<Longrightarrow> ok v"
  by (rule ok_exec) (auto intro: may_umount)

lemma IsLikelyMountPoint_ok [keeps]: "IsLikelyMountPoint h path w = (r, v) \<Longrightarrow> ok w \<Longrightarrow> ok v"
  by (auto simp: IsLikelyMountPoint_def split: sum.splits file_err.splits prod.splits option.splits dest: keeps)

lemma GetMountsWithTimeout_ok [keeps]: "GetMountsWithTimeout h ctx w = (r, v) \<Longrightarrow> ok w \<Longrightarrow> ok v"
  by (auto simp: GetMountsWithTimeout_def Let_def split: sum.splits prod.splits dest: keeps)

lemma storm_check_ok [keeps]: "storm_check h source w = (r, v) \<Longrightarrow> ok w \<Longrightarrow> ok v"
  by (auto simp: storm_check_def split: sum.splits prod.splits option.splits dest: keeps)

lemma ensure_target_ok [keeps]: "ensure_target h target w = (r, v) \<Longrightarrow> ok w \<Longrightarrow> ok v"
  by (auto simp: ensure_target_def split: sum.splits prod.splits option.splits file_err.splits dest: keeps)

lemma Mount_ok [keeps]: "Mount h source target fsType options w = (r, v) \<Longrightarrow> ok w \<Longrightarrow> ok v"
  by (auto simp: Mount_def Let_def split: sum.splits prod.splits option.splits dest!: keeps)

lemma Unmount_ok [keeps]: "Unmount h target w = (r, v) \<Longrightarrow> ok w \<Longrightarrow> ok v"
  by (auto simp: Unmount_def split: sum.splits prod.splits option.splits bool.splits dest!: keeps)

lemma IsFormatted_ok [keeps]: "IsFormatted h device w = (r, v) \<Longrightarrow> ok w \<Longrightarrow> ok v"
  by (auto simp: IsFormatted_def split: prod.splits option.splits exec_err.splits if_splits dest!: keeps)

lemma mkfs_ok:
  assumes "oExec h ''blkid'' (blkid_args device) w = (r, v)" "no_filesystem r" "mkfs_command device fsType = Some (cmd, args)"
    and "ok v" "oExec h cmd args v = (x, u)"
  shows "ok u"
  using ok_exec [OF assms(5) assms(4)] may_mkfs [OF assms(1-3)] by blast

lemma Format_ok [keeps]:
  assumes "Format h device fsType w = (r, v)" "ok w"
  shows "ok v"
proof -
  obtain x u where u: "IsFormatted h device w = (x, u)" by fastforce
  note ok = IsFormatted_ok [OF u assms(2)]
  show ?thesis
  proof (cases "x = Inr False")
    case True
    then obtain b where b: "oExec h ''blkid'' (blkid_args device) w = (b, u)" "no_filesystem b"
      using IsFormatted_no_filesystem [of h device w u] u by auto
    show ?thesis
      using assms(1) u True ok mkfs_ok [OF b]
      by (auto simp: Format_def split: prod.splits option.splits)
  next
    case False
    then show ?thesis using assms(1) u ok by (auto simp: Format_def split: sum.splits bool.splits)
  qed
qed

lemma ResizeFilesystem_ok [keeps]: "ResizeFilesystem h device volumePath w = (r, v) \<Longrightarrow> ok w \<Longrightarrow> ok v"
  by (auto simp: ResizeFilesystem_def Let_def split: prod.splits option.splits if_splits dest!: keeps)

lemma GetDeviceStats_ok [keeps]: "GetDeviceStats h path w = (r, v) \<Longrightarrow> ok w \<Longrightarrow> ok v"
  by (auto simp: GetDeviceStats_def Let_def split: prod.splits option.splits if_splits dest!: keeps)

lemma MakeFile_ok [keeps]: "MakeFile h pathname w = (r, v) \<Longrightarrow> ok w \<Longrightarrow> ok v"
  by (auto simp: MakeFile_def split: prod.splits option.splits file_err.splits dest!: keeps)

lemma still_mounted_ok [keeps]: "still_mounted h target w = (r, v) \<Longrightarrow> ok w \<Longrightarrow> ok v"
  by (auto simp: still_mounted_def split: prod.splits sum.splits dest: keeps)

lemma force_wait_ok [keeps]:
  assumes "force_wait h target timeout startTime w = Some (b, v)" "ok w"
  shows "ok v"
proof -
  have "hh = h \<longrightarrow> ok u \<longrightarrow> ok (snd y)" if "force_wait hh target timeout startTime u = Some y" for hh u y
    by (rule force_wait.raw_induct [where P = "\<lambda>hh _ _ _ u y. hh = h \<longrightarrow> ok u \<longrightarrow> ok (snd y)", OF _ that])
      (auto split: prod.splits if_splits dest!: ok_tick still_mounted_ok)
  from this [OF assms(1)] assms(2) show ?thesis by simp
qed

lemma escalate_ok [keeps]:
  assumes "escalate h target w = (r, v)" "ok w"
  shows "ok v"
proof (cases "in_use h target w")
  case True
  then show ?thesis using assms by (auto simp: escalate_def in_use_def)
next
  case False
  have "ok u" if "oExec h ''umount'' [''-l'', target] w = (x, u)" for x u
    using that assms(2) may_lazy [OF False] by (rule ok_exec)
  then show ?thesis using assms False
    by (auto simp: escalate_def in_use_def split: sum.splits list.splits prod.splits option.splits)
qed

lemma ForceUnmount_ok [keeps]: "ForceUnmount h target timeout w = Some (r, v) \<Longrightarrow> ok w \<Longrightarrow> ok v"
  by (auto simp: ForceUnmount_def bind_eq_Some_conv split: prod.splits option.splits if_splits dest!: keeps)

lemma CheckFilesystemHealth_ok [keeps]:
  assumes "CheckFilesystemHealth h ctx devicePath fsType w = (r, v)" "ok w"
  shows "ok v"
proof -
  have "ok u" if "oExecCtx h c cmd args w = (x, u)" "fsck_command devicePath fsType = Some (cmd, args)" for c cmd args x u
    using ok_execctx [OF that(1) assms(2)] that(2) by (auto simp: fsck_command_def may_plain split: if_splits)
  then show ?thesis using assms
    by (auto simp: CheckFilesystemHealth_def Let_def split: prod.splits option.splits if_splits)
qed

end

end
