(* ===== verification/Nvme.thy ===== *)
theory Nvme
  imports Host "HOL-Library.Monad_Syntax" "HOL-Library.AList"
begin

text \<open>
  Package \<^verbatim>\<open>pkg/nvme\<close> and the retry helper of \<^verbatim>\<open>pkg/utils/retry.go\<close>: prefixes of NQNs, the arguments of
  \<^verbatim>\<open>nvme connect\<close>, the scan of sysfs, the resolver with its cache, the check whether a device is in use, the
  connector, and the clean-up of orphaned connections. Everything works on a \<open>host\<close>; the state of a connector
  (its cache, counters and running operations) is passed along explicitly. Logging and the Prometheus
  metrics are left out, as are the functions marked deprecated, which nothing calls.
\<close>

subsection \<open>Prefixes of NQNs\<close>

definition EnvManagedNQNPrefix :: string where
  "EnvManagedNQNPrefix = ''CSI_MANAGED_NQN_PREFIX''"

definition ValidateNQNPrefix :: "string \<Rightarrow> goerr option" where
  "ValidateNQNPrefix prefix =
     (if prefix = [] then Some (GoErr (''managed NQN prefix is required (set '' @ EnvManagedNQNPrefix @ '')''))
      else if length prefix > 223
      then Some (GoErr (''NQN prefix must not exceed 223 bytes (got '' @ Itoa (int (length prefix)) @ '' bytes)''))
      else if \<not> HasPrefix prefix ''nqn.''
      then Some (GoErr (''NQN prefix must start with '' @ [CHR 0x27] @ ''nqn.'' @ [CHR 0x27] @
             '' per NVMe spec (got '' @ Quote prefix @ '')''))
      else if \<not> Contains prefix '':''
      then Some (GoErr (''NQN prefix must contain '' @ [CHR 0x27] @ '':'' @ [CHR 0x27] @
             '' per NVMe format (nqn.yyyy-mm.domain:identifier), got '' @ Quote prefix))
      else None)"

definition NQNMatchesPrefix :: "string \<Rightarrow> string \<Rightarrow> bool" where
  "NQNMatchesPrefix nqn prefix = HasPrefix nqn prefix"

definition GetManagedNQNPrefix :: "(string \<Rightarrow> string) \<Rightarrow> goerr + string" where
  "GetManagedNQNPrefix Getenv =
     (let prefix = Getenv EnvManagedNQNPrefix
      in case ValidateNQNPrefix prefix of Some err \<Rightarrow> Inl err | None \<Rightarrow> Inr prefix)"

subsection \<open>Connection parameters\<close>

record Target =
  tg_Transport :: string
  tg_NQN :: string
  tg_TargetAddress :: string
  tg_TargetPort :: int
  tg_HostNQN :: string

record ConnectionConfig =
  cn_CtrlLossTmo :: int
  cn_ReconnectDelay :: int
  cn_KeepAliveTmo :: int

definition DefaultConnectionConfig :: ConnectionConfig where
  "DefaultConnectionConfig = \<lparr> cn_CtrlLossTmo = -1, cn_ReconnectDelay = 5, cn_KeepAliveTmo = 0 \<rparr>"

definition BuildConnectArgs :: "Target \<Rightarrow> ConnectionConfig \<Rightarrow> string list" where
  "BuildConnectArgs target config =
     [''connect'', ''-t'', tg_Transport target, ''-a'', tg_TargetAddress target,
      ''-s'', Itoa (tg_TargetPort target), ''-n'', tg_NQN target] @
     (if cn_CtrlLossTmo config \<noteq> 0 then [''-l'', Itoa (cn_CtrlLossTmo config)] else []) @
     (if cn_ReconnectDelay config > 0 then [''-c'', Itoa (cn_ReconnectDelay config)] else []) @
     (if cn_KeepAliveTmo config > 0 then [''-k'', Itoa (cn_KeepAliveTmo config)] else []) @
     (if tg_HostNQN target \<noteq> [] then [''-q'', tg_HostNQN target] else [])"

subsection \<open>The scan of sysfs\<close>

text \<open>
  \<^verbatim>\<open>fmt.Sscanf\<close> with the format \<^verbatim>\<open>nvme%dc%dn%d\<close>: what follows the last number is ignored. \<open>scan_d\<close> reads one
  number and returns the rest of the text.
\<close>

definition scan_d :: "string \<Rightarrow> (int \<times> string) option" where
  "scan_d s =
     (let t = dropWhile sscanf_blank s;
          ds = (case t of [] \<Rightarrow> [] | c # cs \<Rightarrow> if c = CHR ''-'' \<or> c = CHR ''+'' then cs else t)
      in map_option (\<lambda>i. (i, dropWhile is_digit ds)) (Sscanf_d s))"

definition Sscanf_nvme :: "string \<Rightarrow> (int \<times> int \<times> int) option" where
  "Sscanf_nvme s =
     (if \<not> HasPrefix s ''nvme'' then None
      else case scan_d (drop 4 s) of
        Some (subsys, c # r) \<Rightarrow>
          if c \<noteq> CHR ''c'' then None
          else (case scan_d r of
            Some (ctrl, c # r) \<Rightarrow>
              if c \<noteq> CHR ''n'' then None else map_option (\<lambda>x. (subsys, ctrl, fst x)) (scan_d r)
          | _ \<Rightarrow> None)
      | _ \<Rightarrow> None)"

abbreviation exists :: "'w host \<Rightarrow> string \<Rightarrow> 'w \<Rightarrow> bool" where
  "exists h path w \<equiv> (case oStat h path w of Inl _ \<Rightarrow> False | Inr _ \<Rightarrow> True)"

definition ScanControllers :: "'w host \<Rightarrow> string \<Rightarrow> 'w \<Rightarrow> string list" where
  "ScanControllers h root w = Glob h (filepath_Join (filepath_Join root ''class'') ''nvme'') ''nvme*'' w"

definition ReadSubsysNQN :: "'w host \<Rightarrow> string \<Rightarrow> 'w \<Rightarrow> goerr + string" where
  "ReadSubsysNQN h controllerPath w =
     (let nqnPath = filepath_Join controllerPath ''subsysnqn''
      in case oReadFile h nqnPath w of
           Inl err \<Rightarrow> Inl (wrap_err (''failed to read subsysnqn from '' @ nqnPath @ '': '') (file_error err))
         | Inr data \<Rightarrow>
             (let nqn = TrimSpace data
              in if nqn = [] then Inl (GoErr (''empty subsysnqn at '' @ nqnPath)) else Inr nqn))"

text \<open>The device of one namespace directory, if there is one.\<close>

definition namespace_device :: "'w host \<Rightarrow> 'w \<Rightarrow> string \<Rightarrow> string option" where
  "namespace_device h w ns =
     (let nsName = Base ns; devPath = ''/dev/'' @ nsName
      in if exists h devPath w then Some devPath
         else if Contains nsName ''c''
         then (case Sscanf_nvme nsName of
                 None \<Rightarrow> None
               | Some (subsys, ctrl, namespace) \<Rightarrow>
                   (let devPath = ''/dev/nvme'' @ Itoa subsys @ ''n'' @ Itoa namespace
                    in if exists h devPath w then Some devPath else None))
         else None)"

fun first_some :: "('a \<Rightarrow> 'b option) \<Rightarrow> 'a list \<Rightarrow> 'b option" where
  "first_some f [] = None"
| "first_some f (x # xs) = (case f x of Some y \<Rightarrow> Some y | None \<Rightarrow> first_some f xs)"

definition FindBlockDevice :: "'w host \<Rightarrow> string \<Rightarrow> string \<Rightarrow> 'w \<Rightarrow> goerr + string" where
  "FindBlockDevice h root controllerPath w =
     (let controllerName = Base controllerPath
      in case first_some (namespace_device h w) (Glob h controllerPath ''nvme*n*'' w) of
           Some devPath \<Rightarrow> Inr devPath
         | None \<Rightarrow>
             (let blockDevices = Glob h (filepath_Join (filepath_Join root ''class'') ''block'') (controllerName @ ''n*'') w
              in case find (\<lambda>d. \<not> Contains (Base d) ''c'') blockDevices of
                   Some d \<Rightarrow> Inr (''/dev/'' @ Base d)
                 | None \<Rightarrow>
                     (case blockDevices of
                        d # _ \<Rightarrow> Inr (''/dev/'' @ Base d)
                      | [] \<Rightarrow> Inl (GoErr (''no block device found for controller '' @ controllerName)))))"

definition ListSubsystemNQNs :: "'w host \<Rightarrow> string \<Rightarrow> 'w \<Rightarrow> goerr + string list" where
  "ListSubsystemNQNs h root w =
     (let subsysDir = filepath_Join (filepath_Join root ''class'') ''nvme-subsystem''
      in case oReadDir h subsysDir w of
           Inl (NotExist _) \<Rightarrow> Inr []
         | Inl err \<Rightarrow> Inl (wrap_err ''failed to read nvme-subsystem directory: '' (file_error err))
         | Inr entries \<Rightarrow>
             Inr (concat (map (\<lambda>e.
               if \<not> snd e then []
               else (case oReadFile h (filepath_Join (filepath_Join subsysDir (fst e)) ''subsysnqn'') w of
                       Inl _ \<Rightarrow> []
                     | Inr data \<Rightarrow> if TrimSpace data \<noteq> [] then [TrimSpace data] else []))
               (sort_key fst entries))))"

definition FindDeviceByNQN :: "'w host \<Rightarrow> string \<Rightarrow> string \<Rightarrow> 'w \<Rightarrow> goerr + string" where
  "FindDeviceByNQN h root nqn w =
     (case find (\<lambda>controller. ReadSubsysNQN h controller w = Inr nqn) (ScanControllers h root w) of
        None \<Rightarrow> Inl (GoErr (''no device found for NQN: '' @ nqn))
      | Some controller \<Rightarrow>
          (case FindBlockDevice h root controller w of
             Inl err \<Rightarrow> Inl (wrap_err (''found controller for NQN '' @ nqn @ '' but no block device: '') err)
           | Inr devicePath \<Rightarrow> Inr devicePath))"

subsection \<open>The resolver\<close>

record cacheEntry =
  ce_devicePath :: string
  ce_resolvedAt :: time

record DeviceResolver =
  dr_root :: string
  dr_cache :: "string \<rightharpoonup> cacheEntry"
  dr_ttl :: duration

record ResolverConfig =
  rv_SysfsRoot :: string
  rv_TTL :: duration

definition DefaultSysfsRoot :: string where
  "DefaultSysfsRoot = ''/sys''"

definition DefaultResolverTTL :: duration where
  "DefaultResolverTTL = 10 * second"

definition DefaultResolverConfig :: ResolverConfig where
  "DefaultResolverConfig = \<lparr> rv_SysfsRoot = DefaultSysfsRoot, rv_TTL = DefaultResolverTTL \<rparr>"

definition NewDeviceResolverWithConfig :: "ResolverConfig \<Rightarrow> DeviceResolver" where
  "NewDeviceResolverWithConfig cfg =
     \<lparr> dr_root = (if rv_SysfsRoot cfg = [] then DefaultSysfsRoot else rv_SysfsRoot cfg),
       dr_cache = Map.empty,
       dr_ttl = (if rv_TTL cfg = 0 then DefaultResolverTTL else rv_TTL cfg) \<rparr>"

definition NewDeviceResolver :: DeviceResolver where
  "NewDeviceResolver = NewDeviceResolverWithConfig DefaultResolverConfig"

definition ResolveDevicePath :: "'w host \<Rightarrow> string \<Rightarrow> DeviceResolver \<Rightarrow> 'w \<Rightarrow> (goerr + string) \<times> DeviceResolver" where
  "ResolveDevicePath h nqn r w =
     (case (case dr_cache r nqn of
              Some entry \<Rightarrow>
                if since (oNow h w) (ce_resolvedAt entry) < dr_ttl r \<and> exists h (ce_devicePath entry) w
                then Some (ce_devicePath entry) else None
            | None \<Rightarrow> None) of
        Some devicePath \<Rightarrow> (Inr devicePath, r)
      | None \<Rightarrow>
          (case FindDeviceByNQN h (dr_root r) nqn w of
             Inl err \<Rightarrow> (Inl err, r)
           | Inr devicePath \<Rightarrow>
               (Inr devicePath,
                r\<lparr>dr_cache := (dr_cache r)(nqn \<mapsto> \<lparr> ce_devicePath = devicePath, ce_resolvedAt = oNow h w \<rparr>)\<rparr>)))"

definition Invalidate :: "string \<Rightarrow> DeviceResolver \<Rightarrow> DeviceResolver" where
  "Invalidate nqn r = r\<lparr>dr_cache := (dr_cache r)(nqn := None)\<rparr>"

definition InvalidateAll :: "DeviceResolver \<Rightarrow> DeviceResolver" where
  "InvalidateAll r = r\<lparr>dr_cache := Map.empty\<rparr>"

definition IsCached :: "'w host \<Rightarrow> string \<Rightarrow> DeviceResolver \<Rightarrow> 'w \<Rightarrow> bool" where
  "IsCached h nqn r w =
     (case dr_cache r nqn of
        None \<Rightarrow> False
      | Some entry \<Rightarrow> since (oNow h w) (ce_resolvedAt entry) < dr_ttl r)"

definition GetCachedPath :: "string \<Rightarrow> DeviceResolver \<Rightarrow> string" where
  "GetCachedPath nqn r = (case dr_cache r nqn of None \<Rightarrow> [] | Some entry \<Rightarrow> ce_devicePath entry)"

definition ListConnectedSubsystems :: "'w host \<Rightarrow> DeviceResolver \<Rightarrow> 'w \<Rightarrow> goerr + string list" where
  "ListConnectedSubsystems h r w = ListSubsystemNQNs h (dr_root r) w"

text \<open>The function a connector installs with \<^verbatim>\<open>SetIsConnectedFn\<close> is an argument, \<open>None\<close> while it is not set.\<close>

type_synonym 'w connected_fn = "string \<Rightarrow> 'w \<Rightarrow> (goerr + bool) \<times> 'w"

definition IsOrphanedSubsystem ::
    "'w host \<Rightarrow> 'w connected_fn option \<Rightarrow> string \<Rightarrow> DeviceResolver \<Rightarrow> 'w \<Rightarrow> (goerr + bool) \<times> 'w" where
  "IsOrphanedSubsystem h isConnectedFn nqn r w =
     (case isConnectedFn of
        None \<Rightarrow> (Inr False, w)
      | Some fn \<Rightarrow>
          (case fn nqn w of
             (Inl err, w) \<Rightarrow> (Inl (wrap_err (''failed to check connection state for NQN '' @ nqn @ '': '') err), w)
           | (Inr False, w) \<Rightarrow> (Inr False, w)
           | (Inr True, w) \<Rightarrow>
               (case FindDeviceByNQN h (dr_root r) nqn w of
                  Inr devicePath \<Rightarrow> (Inr (devicePath = []), w)
                | Inl _ \<Rightarrow> (Inr True, w))))"

subsection \<open>Devices in use\<close>

definition DeviceCheckTimeout :: duration where
  "DeviceCheckTimeout = 5 * second"

record DeviceUsageResult =
  du_InUse :: bool
  du_Processes :: "string list"
  du_TimedOut :: bool
  du_Error :: "goerr option"
  du_FilteredSelfPIDs :: nat

definition not_in_use :: DeviceUsageResult where
  "not_in_use = \<lparr> du_InUse = False, du_Processes = [], du_TimedOut = False, du_Error = None, du_FilteredSelfPIDs = 0 \<rparr>"

text \<open>The loop over the lines of \<^verbatim>\<open>lsof\<close>: the processes other than the driver, and how often the driver is listed.\<close>

fun lsof_lines :: "int \<Rightarrow> string list \<Rightarrow> string list \<times> nat" where
  "lsof_lines ownPID [] = ([], 0)"
| "lsof_lines ownPID (line # lines) =
     (let fields = Fields line; (processes, filteredCount) = lsof_lines ownPID lines
      in if length fields < 2 then (processes, filteredCount)
         else case Atoi (fields ! 1) of
           None \<Rightarrow> (processes, filteredCount)
         | Some pid \<Rightarrow>
             if pid = ownPID then (processes, Suc filteredCount)
             else ((fields ! 0 @ ''[PID:'' @ fields ! 1 @ '']'') # processes, filteredCount))"

definition CheckDeviceInUse :: "'w host \<Rightarrow> 'w ctx \<Rightarrow> string \<Rightarrow> 'w \<Rightarrow> DeviceUsageResult \<times> 'w" where
  "CheckDeviceInUse h ctx devicePath w =
     (let checkCtx = WithTimeout h ctx DeviceCheckTimeout w
      in case oOutputCtx h checkCtx ''lsof'' [devicePath] w of
           ((out, err), w) \<Rightarrow>
             if ctxErr checkCtx w = Some DeadlineExceeded then (not_in_use\<lparr>du_TimedOut := True\<rparr>, w)
             else (case err of
                Some (ExitError code m) \<Rightarrow>
                  if code = 1 then (not_in_use, w)
                  else (not_in_use\<lparr>du_Error := Some (wrap_err ''lsof failed: '' (GoErr m))\<rparr>, w)
              | Some (ExecError m) \<Rightarrow> (not_in_use\<lparr>du_Error := Some (wrap_err ''lsof failed: '' (GoErr m))\<rparr>, w)
              | None \<Rightarrow>
                  (let lines = Split (CHR 0x0A) (TrimSpace out)
                   in if length lines \<le> 1 then (not_in_use, w)
                      else let (processes, filteredCount) = lsof_lines (oGetpid h w) (tl lines)
                           in if processes \<noteq> []
                              then (not_in_use\<lparr>du_InUse := True, du_Processes := processes,
                                               du_FilteredSelfPIDs := filteredCount\<rparr>, w)
                              else (not_in_use\<lparr>du_FilteredSelfPIDs := filteredCount\<rparr>, w))))"

text \<open>The loop of \<^verbatim>\<open>CheckDeviceInUseWithRetry\<close> with \<open>Suc n\<close> attempts left.\<close>

fun check_loop :: "'w host \<Rightarrow> 'w ctx \<Rightarrow> string \<Rightarrow> duration \<Rightarrow> nat \<Rightarrow> 'w \<Rightarrow> DeviceUsageResult \<times> 'w" where
  "check_loop h ctx devicePath retryDelay n w =
     (case CheckDeviceInUse h ctx devicePath w of
        (lastResult, w) \<Rightarrow>
          if \<not> du_InUse lastResult then (lastResult, w)
          else if du_TimedOut lastResult \<or> du_Error lastResult \<noteq> None then (lastResult, w)
          else (case n of
             0 \<Rightarrow> (lastResult, w)
           | Suc m \<Rightarrow>
               (case oWait h ctx retryDelay w of
                  (Some _, w) \<Rightarrow> (lastResult, w)
                | (None, w) \<Rightarrow> check_loop h ctx devicePath retryDelay m w)))"

declare check_loop.simps [simp del]

definition CheckDeviceInUseWithRetry ::
    "'w host \<Rightarrow> 'w ctx \<Rightarrow> string \<Rightarrow> int \<Rightarrow> duration \<Rightarrow> 'w \<Rightarrow> DeviceUsageResult \<times> 'w" where
  "CheckDeviceInUseWithRetry h ctx devicePath retries retryDelay w =
     (let retries = (if retries < 1 then 1 else retries)
      in check_loop h ctx devicePath retryDelay (nat (retries - 1)) w)"

subsection \<open>Retries with backoff\<close>

record wait_Backoff =
  bo_Steps :: nat
  bo_Duration :: duration
  bo_Factor :: int
  bo_Jitter :: "int \<times> int" \<comment> \<open>a fraction\<close>

definition DefaultBackoffConfig :: wait_Backoff where
  "DefaultBackoffConfig = \<lparr> bo_Steps = 5, bo_Duration = second, bo_Factor = 2, bo_Jitter = (1, 10) \<rparr>"

definition retryablePatterns :: "string list" where
  "retryablePatterns =
     [''connection refused'', ''connection reset'', ''connection timeout'', ''connection timed out'',
      ''no route to host'', ''network unreachable'', ''network is unreachable'', ''host is unreachable'',
      ''device did not appear'', ''i/o timeout'', ''io timeout'', ''temporary failure'',
      ''resource temporarily unavailable'', ''try again'']"

definition IsRetryableError :: "goerr option \<Rightarrow> bool" where
  "IsRetryableError err =
     (case err of None \<Rightarrow> False | Some e \<Rightarrow> list_ex (Contains (ToLower (err_msg e))) retryablePatterns)"

text \<open>
  \<^verbatim>\<open>wait.ExponentialBackoffWithContext\<close> of \<^verbatim>\<open>k8s.io/apimachinery\<close> is a parameter. It is given a condition over a
  state that holds the world and the variables the condition assigns; \<open>None\<close> is a call that does not return.
\<close>

type_synonym ('w, 's) backoff_wait =
  "'w ctx \<Rightarrow> wait_Backoff \<Rightarrow> ('s \<Rightarrow> ((goerr + bool) \<times> 's) option) \<Rightarrow> 's \<Rightarrow> (goerr option \<times> 's) option"

definition retry_condition :: "('s \<Rightarrow> (goerr option \<times> 's) option) \<Rightarrow> 's \<Rightarrow> ((goerr + bool) \<times> 's) option" where
  "retry_condition fn s =
     do { (lastErr, s) \<leftarrow> fn s;
          Some (case lastErr of
             None \<Rightarrow> Inr True
           | Some e \<Rightarrow> if IsRetryableError lastErr then Inr False else Inl e, s) }"

definition RetryWithBackoff ::
    "('w, 's) backoff_wait \<Rightarrow> 'w ctx \<Rightarrow> wait_Backoff \<Rightarrow> ('s \<Rightarrow> (goerr option \<times> 's) option) \<Rightarrow> 's \<Rightarrow> (goerr option \<times> 's) option" where
  "RetryWithBackoff expBackoff ctx backoff fn s = expBackoff ctx backoff (retry_condition fn) s"

subsection \<open>The connector\<close>

record Config =
  cf_ConnectTimeout :: duration
  cf_DisconnectTimeout :: duration
  cf_ListTimeout :: duration
  cf_DeviceWaitTimeout :: duration
  cf_CommandTimeout :: duration
  cf_EnableHealthcheck :: bool
  cf_HealthcheckInterval :: duration

definition DefaultConfig :: Config where
  "DefaultConfig =
     \<lparr> cf_ConnectTimeout = 30 * second, cf_DisconnectTimeout = 15 * second, cf_ListTimeout = 10 * second,
       cf_DeviceWaitTimeout = 30 * second, cf_CommandTimeout = 20 * second, cf_EnableHealthcheck = True,
       cf_HealthcheckInterval = 5 * second \<rparr>"

record Metrics =
  mt_connectCount :: int
  mt_disconnectCount :: int
  mt_connectErrors :: int
  mt_disconnectErrors :: int
  mt_connectDurationTotal :: duration
  mt_disconnectDurationTotal :: duration
  mt_timeoutCount :: int
  mt_stuckOperations :: int
  mt_activeOperations :: int

definition zero_metrics :: Metrics where
  "zero_metrics =
     \<lparr> mt_connectCount = 0, mt_disconnectCount = 0, mt_connectErrors = 0, mt_disconnectErrors = 0,
       mt_connectDurationTotal = 0, mt_disconnectDurationTotal = 0, mt_timeoutCount = 0,
       mt_stuckOperations = 0, mt_activeOperations = 0 \<rparr>"

definition metrics_String :: "Metrics \<Rightarrow> string" where
  "metrics_String m =
     (let avgConnect = (if mt_connectCount m > 0 then mt_connectDurationTotal m div mt_connectCount m else 0);
          avgDisconnect = (if mt_disconnectCount m > 0 then mt_disconnectDurationTotal m div mt_disconnectCount m else 0)
      in ''Connects(total='' @ Itoa (mt_connectCount m) @ '', errors='' @ Itoa (mt_connectErrors m) @
         '', avg='' @ duration_String avgConnect @ '') Disconnects(total='' @ Itoa (mt_disconnectCount m) @
         '', errors='' @ Itoa (mt_disconnectErrors m) @ '', avg='' @ duration_String avgDisconnect @
         '') Timeouts='' @ Itoa (mt_timeoutCount m) @ '' Stuck='' @ Itoa (mt_stuckOperations m) @
         '' Active='' @ Itoa (mt_activeOperations m))"

record operationTracker =
  ot_nqn :: string
  ot_operation :: string
  ot_startTime :: time

text \<open>
  \<open>nc_execCommand\<close> says whether the field of that name is set. The constructor sets it, so commands run without a
  context.
\<close>

record connector =
  nc_execCommand :: bool
  nc_config :: Config
  nc_metrics :: Metrics
  nc_activeOperations :: "(string \<times> operationTracker) list"
  nc_resolver :: DeviceResolver

definition NewConnectorWithConfig :: "Config \<Rightarrow> connector" where
  "NewConnectorWithConfig config =
     \<lparr> nc_execCommand = True, nc_config = config, nc_metrics = zero_metrics, nc_activeOperations = [],
       nc_resolver = NewDeviceResolver \<rparr>"

definition NewConnector :: connector where
  "NewConnector = NewConnectorWithConfig DefaultConfig"

abbreviation upd_metrics :: "(Metrics \<Rightarrow> Metrics) \<Rightarrow> connector \<Rightarrow> connector" where
  "upd_metrics f c \<equiv> c\<lparr>nc_metrics := f (nc_metrics c)\<rparr>"

definition trackOperation :: "'w host \<Rightarrow> string \<Rightarrow> string \<Rightarrow> connector \<Rightarrow> 'w \<Rightarrow> string \<times> connector" where
  "trackOperation h nqn operation c w =
     (let opID = operation @ ''-'' @ nqn @ ''-'' @ Itoa (oNow h w)
      in (opID,
          upd_metrics (mt_activeOperations_update (\<lambda>n. n + 1))
            (c\<lparr>nc_activeOperations := AList.update opID
                \<lparr> ot_nqn = nqn, ot_operation = operation, ot_startTime = oNow h w \<rparr> (nc_activeOperations c)\<rparr>)))"

definition untrackOperation :: "string \<Rightarrow> connector \<Rightarrow> connector" where
  "untrackOperation opID c =
     upd_metrics (mt_activeOperations_update (\<lambda>n. n - 1))
       (c\<lparr>nc_activeOperations := AList.delete opID (nc_activeOperations c)\<rparr>)"

definition stuck_threshold :: "Config \<Rightarrow> operationTracker \<Rightarrow> duration" where
  "stuck_threshold config op =
     (if ot_operation op = ''connect'' then cf_ConnectTimeout config * 2
      else if ot_operation op = ''disconnect'' then cf_DisconnectTimeout config * 2
      else cf_CommandTimeout config * 2)"

definition checkStuckOperations :: "time \<Rightarrow> connector \<Rightarrow> connector" where
  "checkStuckOperations now c =
     (let stuck = filter (\<lambda>(k, op). sub_time now (ot_startTime op) > stuck_threshold (nc_config c) op)
                    (nc_activeOperations c)
      in upd_metrics (mt_stuckOperations_update (\<lambda>n. n + int (length stuck))) c)"

text \<open>The choice of a deadline, and the way a command is started.\<close>

definition with_deadline :: "'w host \<Rightarrow> 'w ctx \<Rightarrow> duration \<Rightarrow> 'w \<Rightarrow> 'w ctx" where
  "with_deadline h ctx d w = (if ctxDeadline ctx then ctx else WithTimeout h ctx d w)"

definition nvme_command :: "'w host \<Rightarrow> 'w ctx \<Rightarrow> connector \<Rightarrow> string list \<Rightarrow> 'w \<Rightarrow> (string \<times> exec_err option) \<times> 'w" where
  "nvme_command h ctx c args w =
     (if nc_execCommand c then oExec h ''nvme'' args w else oExecCtx h ctx ''nvme'' args w)"

definition IsConnectedWithContext :: "'w host \<Rightarrow> 'w ctx \<Rightarrow> string \<Rightarrow> connector \<Rightarrow> 'w \<Rightarrow> (goerr + bool) \<times> 'w" where
  "IsConnectedWithContext h ctx nqn c w =
     (case ValidateNQN nqn of
        Some err \<Rightarrow> (Inl (wrap_err ''invalid NQN: '' err), w)
      | None \<Rightarrow>
          (let ctx = with_deadline h ctx (cf_ListTimeout (nc_config c)) w
           in case nvme_command h ctx c [''list-subsys'', ''-o'', ''json''] w of
                ((output, Some err), w) \<Rightarrow> (Inr False, w)
              | ((output, None), w) \<Rightarrow> (Inr (Contains output nqn), w)))"

definition nvme_IsConnected :: "'w host \<Rightarrow> string \<Rightarrow> connector \<Rightarrow> 'w \<Rightarrow> (goerr + bool) \<times> 'w" where
  "nvme_IsConnected h nqn c w =
     (case ValidateNQN nqn of
        Some err \<Rightarrow> (Inl (wrap_err ''invalid NQN: '' err), w)
      | None \<Rightarrow> IsConnectedWithContext h (WithTimeout h Background (cf_ListTimeout (nc_config c)) w) nqn c w)"

definition GetDevicePath :: "'w host \<Rightarrow> string \<Rightarrow> connector \<Rightarrow> 'w \<Rightarrow> (goerr + string) \<times> connector" where
  "GetDevicePath h nqn c w =
     (case ResolveDevicePath h nqn (nc_resolver c) w of (res, r) \<Rightarrow> (res, c\<lparr>nc_resolver := r\<rparr>))"

definition managed :: "string \<Rightarrow> bool" where
  "managed nqn = HasPrefix nqn ''nqn.2000-02.com.mikrotik:pvc-''"

text \<open>\<^verbatim>\<open>DisconnectWithContext\<close> after its checks, and the whole with the deferred bookkeeping.\<close>

definition disconnect_body :: "'w host \<Rightarrow> 'w ctx \<Rightarrow> string \<Rightarrow> connector \<Rightarrow> 'w \<Rightarrow> goerr option \<times> connector \<times> 'w" where
  "disconnect_body h ctx nqn c w =
     (case IsConnectedWithContext h ctx nqn c w of
        (Inl err, w) \<Rightarrow> (Some (wrap_err ''failed to check connection status: '' err), c, w)
      | (Inr False, w) \<Rightarrow> (None, c, w)
      | (Inr True, w) \<Rightarrow>
          (case nvme_command h ctx c [''disconnect'', ''-n'', nqn] w of
             ((output, Some err), w) \<Rightarrow>
               (let c = upd_metrics (mt_disconnectErrors_update (\<lambda>n. n + 1)) c
                in case ctxErr ctx w of
                     Some e \<Rightarrow> (Some (wrap_err ''nvme disconnect timed out: '' (ctx_error e)),
                                upd_metrics (mt_timeoutCount_update (\<lambda>n. n + 1)) c, w)
                   | None \<Rightarrow> (Some (GoWrap ''nvme disconnect failed: '' (exec_error err) ('', output: '' @ output)), c, w))
           | ((output, None), w) \<Rightarrow> (None, c\<lparr>nc_resolver := Invalidate nqn (nc_resolver c)\<rparr>, w)))"

definition DisconnectWithContext :: "'w host \<Rightarrow> 'w ctx \<Rightarrow> string \<Rightarrow> connector \<Rightarrow> 'w \<Rightarrow> goerr option \<times> connector \<times> 'w" where
  "DisconnectWithContext h ctx nqn c w =
     (case ValidateNQN nqn of
        Some err \<Rightarrow> (Some (wrap_err ''invalid NQN: '' err), c, w)
      | None \<Rightarrow>
          if \<not> managed nqn
          then (Some (GoErr (''refusing to disconnect non-CSI volume: '' @ nqn @
                  '' (only pvc-* volumes are managed by this driver)'')), c, w)
          else
            (let ctx = with_deadline h ctx (cf_DisconnectTimeout (nc_config c)) w;
                 (opID, c) = trackOperation h nqn ''disconnect'' c w;
                 startTime = oNow h w;
                 (res, c, w) = disconnect_body h ctx nqn c w;
                 c = upd_metrics (mt_disconnectCount_update (\<lambda>n. n + 1) \<circ>
                                  mt_disconnectDurationTotal_update (\<lambda>d. d + since (oNow h w) startTime)) c
             in (res, untrackOperation opID c, w)))"

definition Disconnect :: "'w host \<Rightarrow> string \<Rightarrow> connector \<Rightarrow> 'w \<Rightarrow> goerr option \<times> connector \<times> 'w" where
  "Disconnect h nqn c w =
     DisconnectWithContext h (WithTimeout h Background (cf_DisconnectTimeout (nc_config c)) w) nqn c w"

text \<open>Waiting for the device: at most ten looks at its node, and the loop until sysfs lists it.\<close>

fun wait_node :: "'w host \<Rightarrow> 'w ctx \<Rightarrow> string \<Rightarrow> nat \<Rightarrow> 'w \<Rightarrow> ctx_err option \<times> 'w" where
  "wait_node h ctx devicePath 0 w = (None, w)"
| "wait_node h ctx devicePath (Suc n) w =
     (if exists h devicePath w then (None, w)
      else (case oWait h ctx (100 * millisecond) w of
              (Some e, w) \<Rightarrow> (Some e, w)
            | (None, w) \<Rightarrow> wait_node h ctx devicePath n w))"

partial_function (option) waitForDeviceWithContext ::
    "'w host \<Rightarrow> 'w ctx \<Rightarrow> string \<Rightarrow> connector \<Rightarrow> 'w \<Rightarrow> ((goerr + string) \<times> connector \<times> 'w) option" where
  "waitForDeviceWithContext h ctx nqn c w =
     (case oWait h ctx (500 * millisecond) w of
        (Some e, w) \<Rightarrow> Some (Inl (wrap_err (''timeout waiting for device with NQN '' @ nqn @ '': '') (ctx_error e)), c, w)
      | (None, w) \<Rightarrow>
          (case GetDevicePath h nqn c w of
             (Inl err, c) \<Rightarrow> waitForDeviceWithContext h ctx nqn c w
           | (Inr devicePath, c) \<Rightarrow>
               (case wait_node h ctx devicePath 10 w of
                  (Some e, w) \<Rightarrow> Some (Inl (ctx_error e), c, w)
                | (None, w) \<Rightarrow> Some (Inr devicePath, c, w))))"

partial_function (option) WaitForDevice_loop ::
    "'w host \<Rightarrow> string \<Rightarrow> duration \<Rightarrow> time \<Rightarrow> connector \<Rightarrow> 'w \<Rightarrow> ((goerr + string) \<times> connector \<times> 'w) option" where
  "WaitForDevice_loop h nqn timeout deadline c w =
     (case oTick h (500 * millisecond) timeout w of
        (timer, w) \<Rightarrow>
          if timer then Some (Inl (GoErr (''timeout waiting for device with NQN '' @ nqn)), c, w)
          else (case GetDevicePath h nqn c w of
             (Inr devicePath, c) \<Rightarrow> Some (Inr devicePath, c, w)
           | (Inl err, c) \<Rightarrow>
               if oNow h w > deadline then Some (Inl (GoErr (''timeout waiting for device with NQN '' @ nqn)), c, w)
               else WaitForDevice_loop h nqn timeout deadline c w))"

definition WaitForDevice ::
    "'w host \<Rightarrow> string \<Rightarrow> duration \<Rightarrow> connector \<Rightarrow> 'w \<Rightarrow> ((goerr + string) \<times> connector \<times> 'w) option" where
  "WaitForDevice h nqn timeout c w = WaitForDevice_loop h nqn timeout (oNow h w + timeout) c w"

text \<open>\<^verbatim>\<open>ConnectWithConfig\<close> from the building of the command on, from the first check on, and as a whole.\<close>

definition connect_run ::
    "'w host \<Rightarrow> 'w ctx \<Rightarrow> Target \<Rightarrow> ConnectionConfig \<Rightarrow> connector \<Rightarrow> 'w \<Rightarrow> ((goerr + string) \<times> connector \<times> 'w) option" where
  "connect_run h ctx target config c w =
     (case nvme_command h ctx c (BuildConnectArgs target config) w of
        ((output, Some err), w) \<Rightarrow>
          (let c = upd_metrics (mt_connectErrors_update (\<lambda>n. n + 1)) c
           in Some (case ctxErr ctx w of
                Some e \<Rightarrow> (Inl (wrap_err ''nvme connect timed out: '' (ctx_error e)),
                           upd_metrics (mt_timeoutCount_update (\<lambda>n. n + 1)) c, w)
              | None \<Rightarrow> (Inl (GoWrap ''nvme connect failed: '' (exec_error err) ('', output: '' @ output)), c, w)))
      | ((output, None), w) \<Rightarrow>
          do { (res, c, w) \<leftarrow> waitForDeviceWithContext h ctx (tg_NQN target) c w;
               Some (case res of
                  Inr devicePath \<Rightarrow> (Inr devicePath, c, w)
                | Inl err \<Rightarrow>
                    (let (_, c, w) = DisconnectWithContext h Background (tg_NQN target) c w
                     in (Inl (wrap_err ''device did not appear: '' err),
                         upd_metrics (mt_connectErrors_update (\<lambda>n. n + 1)) c, w))) })"

definition connect_body ::
    "'w host \<Rightarrow> 'w ctx \<Rightarrow> Target \<Rightarrow> ConnectionConfig \<Rightarrow> connector \<Rightarrow> 'w \<Rightarrow> ((goerr + string) \<times> connector \<times> 'w) option" where
  "connect_body h ctx target config c w =
     (let nqn = tg_NQN target
      in case IsConnectedWithContext h ctx nqn c w of
           (Inl err, w) \<Rightarrow> Some (Inl (wrap_err ''failed to check connection status: '' err), c, w)
         | (Inr False, w) \<Rightarrow> connect_run h ctx target config c w
         | (Inr True, w) \<Rightarrow>
             (case IsOrphanedSubsystem h (Some (\<lambda>n. nvme_IsConnected h n c)) nqn (nc_resolver c) w of
                (Inr True, w) \<Rightarrow>
                  (let c = c\<lparr>nc_resolver := Invalidate nqn (nc_resolver c)\<rparr>;
                       (_, c, w) = DisconnectWithContext h ctx nqn c w
                   in connect_run h ctx target config c w)
              | (_, w) \<Rightarrow>
                  (case GetDevicePath h nqn c w of (res, c) \<Rightarrow> Some (res, c, w))))"

definition ConnectWithConfig ::
    "'w host \<Rightarrow> 'w ctx \<Rightarrow> Target \<Rightarrow> ConnectionConfig \<Rightarrow> connector \<Rightarrow> 'w \<Rightarrow> ((goerr + string) \<times> connector \<times> 'w) option" where
  "ConnectWithConfig h ctx target config c w =
     (case ValidateNQN (tg_NQN target) of
        Some err \<Rightarrow> Some (Inl (wrap_err ''invalid target NQN: '' err), c, w)
      | None \<Rightarrow>
          (case (if tg_HostNQN target \<noteq> [] then ValidateNQN (tg_HostNQN target) else None) of
             Some err \<Rightarrow> Some (Inl (wrap_err ''invalid host NQN: '' err), c, w)
           | None \<Rightarrow>
               (let ctx = with_deadline h ctx (cf_ConnectTimeout (nc_config c)) w;
                    (opID, c) = trackOperation h (tg_NQN target) ''connect'' c w;
                    startTime = oNow h w
                in do { (res, c, w) \<leftarrow> connect_body h ctx target config c w;
                        let c = upd_metrics (mt_connectCount_update (\<lambda>n. n + 1) \<circ>
                                  mt_connectDurationTotal_update (\<lambda>d. d + since (oNow h w) startTime)) c;
                        Some (res, untrackOperation opID c, w) })))"

definition ConnectWithContext ::
    "'w host \<Rightarrow> 'w ctx \<Rightarrow> Target \<Rightarrow> connector \<Rightarrow> 'w \<Rightarrow> ((goerr + string) \<times> connector \<times> 'w) option" where
  "ConnectWithContext h ctx target = ConnectWithConfig h ctx target DefaultConnectionConfig"

definition nvme_Connect :: "'w host \<Rightarrow> Target \<Rightarrow> connector \<Rightarrow> 'w \<Rightarrow> ((goerr + string) \<times> connector \<times> 'w) option" where
  "nvme_Connect h target c w =
     ConnectWithContext h (WithTimeout h Background (cf_ConnectTimeout (nc_config c)) w) target c w"

text \<open>\<^verbatim>\<open>ConnectWithRetry\<close>: the closure assigns the device path and the last error.\<close>

type_synonym 'w retry_state = "string \<times> goerr option \<times> connector \<times> 'w"

definition connect_attempt ::
    "'w host \<Rightarrow> 'w ctx \<Rightarrow> Target \<Rightarrow> ConnectionConfig \<Rightarrow> 'w retry_state \<Rightarrow> (goerr option \<times> 'w retry_state) option" where
  "connect_attempt h ctx target config s =
     (case s of (devicePath, lastErr, c, w) \<Rightarrow>
        do { (res, c, w) \<leftarrow> ConnectWithConfig h ctx target config c w;
             Some (case res of
                Inl connectErr \<Rightarrow> (Some connectErr, devicePath, Some connectErr, c, w)
              | Inr path \<Rightarrow> (None, path, lastErr, c, w)) })"

definition ConnectWithRetry ::
    "'w host \<Rightarrow> ('w, 'w retry_state) backoff_wait \<Rightarrow> 'w ctx \<Rightarrow> Target \<Rightarrow> ConnectionConfig \<Rightarrow> connector \<Rightarrow> 'w
     \<Rightarrow> ((goerr + string) \<times> connector \<times> 'w) option" where
  "ConnectWithRetry h expBackoff ctx target config c w =
     do { (err, devicePath, lastErr, c, w) \<leftarrow>
            RetryWithBackoff expBackoff ctx DefaultBackoffConfig (connect_attempt h ctx target config) ([], None, c, w);
          Some (case err of
             None \<Rightarrow> Inr devicePath
           | Some e \<Rightarrow> (case lastErr of Some l \<Rightarrow> Inl (wrap_err ''connection failed after retries: '' l) | None \<Rightarrow> Inl e), c, w) }"

subsection \<open>The interface of a connector\<close>

text \<open>
  The interface \<^verbatim>\<open>Connector\<close>, as far as other packages call it. A pointer to the resolver is the pair of functions that
  read and write it in the world; \<open>None\<close> is \<^verbatim>\<open>nil\<close>. \<open>nConnectedFn\<close> is the function installed in it.
\<close>

record 'w Connector =
  nConnectWithRetry :: "'w ctx \<Rightarrow> Target \<Rightarrow> ConnectionConfig \<Rightarrow> 'w \<Rightarrow> ((goerr + string) \<times> 'w) option"
  nDisconnect :: "string \<Rightarrow> 'w \<Rightarrow> goerr option \<times> 'w"
  nDisconnectWithContext :: "'w ctx \<Rightarrow> string \<Rightarrow> 'w \<Rightarrow> goerr option \<times> 'w"
  nGetDevicePath :: "string \<Rightarrow> 'w \<Rightarrow> (goerr + string) \<times> 'w"
  nResolver :: "(('w \<Rightarrow> DeviceResolver) \<times> (DeviceResolver \<Rightarrow> 'w \<Rightarrow> 'w)) option"
  nConnectedFn :: "'w connected_fn option"

text \<open>The connector of the driver, kept in the world at the place \<open>getc\<close>, \<open>putc\<close>.\<close>

definition nvme_connector ::
    "'w host \<Rightarrow> ('w, 'w retry_state) backoff_wait \<Rightarrow> ('w \<Rightarrow> connector) \<Rightarrow> (connector \<Rightarrow> 'w \<Rightarrow> 'w) \<Rightarrow> 'w Connector" where
  "nvme_connector h expBackoff getc putc =
     \<lparr> nConnectWithRetry = (\<lambda>ctx target config w.
         do { (res, c, w) \<leftarrow> ConnectWithRetry h expBackoff ctx target config (getc w) w; Some (res, putc c w) }),
       nDisconnect = (\<lambda>nqn w. case Disconnect h nqn (getc w) w of (res, c, w) \<Rightarrow> (res, putc c w)),
       nDisconnectWithContext = (\<lambda>ctx nqn w.
         case DisconnectWithContext h ctx nqn (getc w) w of (res, c, w) \<Rightarrow> (res, putc c w)),
       nGetDevicePath = (\<lambda>nqn w. case GetDevicePath h nqn (getc w) w of (res, c) \<Rightarrow> (res, putc c w)),
       nResolver = Some (\<lambda>w. nc_resolver (getc w), \<lambda>r w. putc ((getc w)\<lparr>nc_resolver := r\<rparr>) w),
       nConnectedFn = Some (\<lambda>nqn w. nvme_IsConnected h nqn (getc w) w) \<rparr>"

subsection \<open>Orphaned connections\<close>

record 'w OrphanCleaner =
  oc_connector :: "'w Connector"
  oc_managedNQNPrefix :: string

definition NewOrphanCleaner :: "'w Connector \<Rightarrow> string \<Rightarrow> 'w OrphanCleaner" where
  "NewOrphanCleaner connector managedNQNPrefix =
     \<lparr> oc_connector = connector, oc_managedNQNPrefix = managedNQNPrefix \<rparr>"

fun cleanup_loop :: "'w host \<Rightarrow> 'w OrphanCleaner \<Rightarrow> ('w \<Rightarrow> DeviceResolver) \<Rightarrow> 'w ctx \<Rightarrow> string list \<Rightarrow> 'w \<Rightarrow> goerr option \<times> 'w" where
  "cleanup_loop h oc getr ctx [] w = (None, w)"
| "cleanup_loop h oc getr ctx (nqn # nqns) w =
     (if \<not> NQNMatchesPrefix nqn (oc_managedNQNPrefix oc) then cleanup_loop h oc getr ctx nqns w
      else (case ctxErr ctx w of
         Some e \<Rightarrow> (Some (ctx_error e), w)
       | None \<Rightarrow>
           (case IsOrphanedSubsystem h (nConnectedFn (oc_connector oc)) nqn (getr w) w of
              (Inr True, w) \<Rightarrow>
                (case nDisconnectWithContext (oc_connector oc) ctx nqn w of
                   (_, w) \<Rightarrow> cleanup_loop h oc getr ctx nqns w)
            | (_, w) \<Rightarrow> cleanup_loop h oc getr ctx nqns w)))"

text \<open>A cleaner is made with a connector that has a resolver; without one the call of the source panics.\<close>

definition CleanupOrphanedConnections :: "'w host \<Rightarrow> 'w OrphanCleaner \<Rightarrow> 'w ctx \<Rightarrow> 'w \<Rightarrow> (goerr option \<times> 'w) option" where
  "CleanupOrphanedConnections h oc ctx w =
     (case nResolver (oc_connector oc) of
        None \<Rightarrow> None
      | Some (getr, putr) \<Rightarrow>
          (case ListConnectedSubsystems h (getr w) w of
             Inl err \<Rightarrow> Some (Some (wrap_err ''failed to list connected subsystems: '' err), w)
           | Inr nqns \<Rightarrow> Some (cleanup_loop h oc getr ctx nqns w)))"

end
