(* ===== verification/Stale.thy ===== *)
theory Stale
  imports Mounts Nvme
begin

text \<open>
  Stale mounts: the check of \<^verbatim>\<open>pkg/mount/stale.go\<close>, which compares the device of a mount with the device of its NQN,
  and the recovery of \<^verbatim>\<open>pkg/mount/recovery.go\<close>, which unmounts and mounts again. The multiplier of the backoff is a
  whole number here; the only configuration in the source has 2.0. Metrics are left out.
\<close>

subsection \<open>The check\<close>

datatype StaleReason = NotStale | MountNotFound | DeviceDisappeared | DeviceMismatch

fun reason_text :: "StaleReason \<Rightarrow> string" where
  "reason_text NotStale = []"
| "reason_text MountNotFound = ''mount_not_found''"
| "reason_text DeviceDisappeared = ''device_disappeared''"
| "reason_text DeviceMismatch = ''device_path_mismatch''"

record StaleInfo =
  si_MountDevice :: string
  si_ResolvedMount :: string
  si_CurrentDevice :: string
  si_ResolvedCurrent :: string
  si_IsStale :: bool
  si_Reason :: StaleReason

type_synonym 'w resolver_ptr = "('w \<Rightarrow> DeviceResolver) \<times> (DeviceResolver \<Rightarrow> 'w \<Rightarrow> 'w)"

record 'w StaleMountChecker =
  sm_resolver :: "'w resolver_ptr option"
  sm_getMountDev :: "string \<Rightarrow> 'w \<Rightarrow> goerr + string"

definition NewStaleMountChecker :: "'w host \<Rightarrow> 'w resolver_ptr option \<Rightarrow> 'w StaleMountChecker" where
  "NewStaleMountChecker h resolver = \<lparr> sm_resolver = resolver, sm_getMountDev = GetMountDevice h \<rparr>"

definition SetMountDeviceFunc :: "(string \<Rightarrow> 'w \<Rightarrow> goerr + string) \<Rightarrow> 'w StaleMountChecker \<Rightarrow> 'w StaleMountChecker" where
  "SetMountDeviceFunc fn c = c\<lparr>sm_getMountDev := fn\<rparr>"

text \<open>A call of \<^verbatim>\<open>ResolveDevicePath\<close> through the pointer.\<close>

definition resolve :: "'w host \<Rightarrow> 'w resolver_ptr \<Rightarrow> string \<Rightarrow> 'w \<Rightarrow> (goerr + string) \<times> 'w" where
  "resolve h p nqn w = (case ResolveDevicePath h nqn (fst p w) w of (res, r) \<Rightarrow> (res, snd p r w))"

definition IsMountStale ::
    "'w host \<Rightarrow> 'w StaleMountChecker \<Rightarrow> string \<Rightarrow> string \<Rightarrow> 'w \<Rightarrow> (goerr + bool \<times> StaleReason) \<times> 'w" where
  "IsMountStale h c mountPath nqn w =
     (case sm_getMountDev c mountPath w of
        Inl err \<Rightarrow> (Inr (True, MountNotFound), w)
      | Inr mountDevice \<Rightarrow>
          (case oEvalSymlinks h mountDevice w of
             Inl (NotExist _) \<Rightarrow> (Inr (True, DeviceDisappeared), w)
           | Inl err \<Rightarrow> (Inl (wrap_err (''failed to resolve mount device symlinks for '' @ mountDevice @ '': '') (file_error err)), w)
           | Inr resolvedMount \<Rightarrow>
               (case sm_resolver c of
                  None \<Rightarrow> (Inr (False, NotStale), w)
                | Some p \<Rightarrow>
                    (case resolve h p nqn w of
                       (Inl err, w) \<Rightarrow> (Inl (wrap_err (''failed to resolve NQN '' @ nqn @ '': '') err), w)
                     | (Inr currentDevice, w) \<Rightarrow>
                         (case oEvalSymlinks h currentDevice w of
                            Inl err \<Rightarrow> (Inl (wrap_err (''failed to resolve current device symlinks for '' @ currentDevice @ '': '')
                                         (file_error err)), w)
                          | Inr resolvedCurrent \<Rightarrow>
                              (if resolvedMount \<noteq> resolvedCurrent then (Inr (True, DeviceMismatch), w)
                               else (Inr (False, NotStale), w)))))))"

definition no_info :: StaleInfo where
  "no_info = \<lparr> si_MountDevice = [], si_ResolvedMount = [], si_CurrentDevice = [], si_ResolvedCurrent = [],
               si_IsStale = False, si_Reason = NotStale \<rparr>"

definition GetStaleInfo ::
    "'w host \<Rightarrow> 'w StaleMountChecker \<Rightarrow> string \<Rightarrow> string \<Rightarrow> 'w \<Rightarrow> (goerr + StaleInfo) \<times> 'w" where
  "GetStaleInfo h c mountPath nqn w =
     (case sm_resolver c of
        None \<Rightarrow> (Inr no_info, w)
      | Some p \<Rightarrow>
          (case sm_getMountDev c mountPath w of
             Inl err \<Rightarrow> (Inr (no_info\<lparr>si_IsStale := True, si_Reason := MountNotFound\<rparr>), w)
           | Inr mountDevice \<Rightarrow>
               (let info = no_info\<lparr>si_MountDevice := mountDevice\<rparr>
                in case oEvalSymlinks h mountDevice w of
                     Inl (NotExist _) \<Rightarrow> (Inr (info\<lparr>si_IsStale := True, si_Reason := DeviceDisappeared\<rparr>), w)
                   | Inl err \<Rightarrow> (Inl (wrap_err ''failed to resolve mount device symlinks: '' (file_error err)), w)
                   | Inr resolvedMount \<Rightarrow>
                       (case resolve h p nqn w of
                          (Inl err, w) \<Rightarrow> (Inl (wrap_err ''failed to resolve NQN: '' err), w)
                        | (Inr currentDevice, w) \<Rightarrow>
                            (case oEvalSymlinks h currentDevice w of
                               Inl err \<Rightarrow> (Inl (wrap_err ''failed to resolve current device symlinks: '' (file_error err)), w)
                             | Inr resolvedCurrent \<Rightarrow>
                                 (Inr (info\<lparr>si_ResolvedMount := resolvedMount, si_CurrentDevice := currentDevice,
                                            si_ResolvedCurrent := resolvedCurrent,
                                            si_IsStale := (resolvedMount \<noteq> resolvedCurrent),
                                            si_Reason := (if resolvedMount \<noteq> resolvedCurrent then DeviceMismatch
                                                          else NotStale)\<rparr>), w))))))"

subsection \<open>Recovery\<close>

record RecoveryConfig =
  ry_MaxAttempts :: int
  ry_InitialBackoff :: duration
  ry_BackoffMultiplier :: int
  ry_NormalUnmountWait :: duration

definition DefaultRecoveryConfig :: RecoveryConfig where
  "DefaultRecoveryConfig =
     \<lparr> ry_MaxAttempts = 3, ry_InitialBackoff = second, ry_BackoffMultiplier = 2, ry_NormalUnmountWait = 10 * second \<rparr>"

record RecoveryResult =
  rr_Recovered :: bool
  rr_Attempts :: int
  rr_FinalError :: "goerr option"
  rr_OldDevice :: string
  rr_NewDevice :: string

record 'w MountRecoverer =
  mr_config :: RecoveryConfig
  mr_mounter :: "'w Mounter"
  mr_checker :: "'w StaleMountChecker"
  mr_resolver :: "'w resolver_ptr option"

type_synonym 'w recovery = "((RecoveryResult \<times> goerr option) \<times> 'w) option"

text \<open>
  What every failed attempt ends with: keep the error, wait unless this was the last attempt, go on. \<open>n\<close> attempts
  are left, \<open>next\<close> makes them.
\<close>

definition recover_again ::
    "'w host \<Rightarrow> 'w ctx \<Rightarrow> nat \<Rightarrow> duration \<Rightarrow> RecoveryResult \<Rightarrow> goerr \<Rightarrow> (RecoveryResult \<Rightarrow> 'w \<Rightarrow> 'w recovery) \<Rightarrow> 'w \<Rightarrow> 'w recovery" where
  "recover_again h ctx n backoff result err next w =
     (let result = result\<lparr>rr_FinalError := Some err\<rparr>
      in if n = 0 then next result w
         else (case oWait h ctx backoff w of
            (Some e, w) \<Rightarrow>
              Some ((result\<lparr>rr_FinalError := Some (ctx_error e)\<rparr>,
                     Some (wrap_err ''recovery cancelled during backoff: '' (ctx_error e))), w)
          | (None, w) \<Rightarrow> next result w))"

fun recover_loop ::
    "'w host \<Rightarrow> 'w MountRecoverer \<Rightarrow> 'w resolver_ptr \<Rightarrow> 'w ctx \<Rightarrow> string \<Rightarrow> string \<Rightarrow> string \<Rightarrow> string list
     \<Rightarrow> nat \<Rightarrow> int \<Rightarrow> duration \<Rightarrow> RecoveryResult \<Rightarrow> 'w \<Rightarrow> 'w recovery" where
  "recover_loop h r p ctx mountPath nqn fsType mountOptions 0 attempt backoff result w =
     Some ((result, rr_FinalError result), w)"
| "recover_loop h r p ctx mountPath nqn fsType mountOptions (Suc n) attempt backoff result w =
     (let result = result\<lparr>rr_Attempts := attempt\<rparr>;
          again = (\<lambda>result err. recover_again h ctx n backoff result err
            (\<lambda>result. recover_loop h r p ctx mountPath nqn fsType mountOptions n (attempt + 1)
               (backoff * ry_BackoffMultiplier (mr_config r)) result))
      in case ctxErr ctx w of
           Some e \<Rightarrow> Some ((result\<lparr>rr_FinalError := Some (ctx_error e)\<rparr>, Some (wrap_err ''recovery cancelled: '' (ctx_error e))), w)
         | None \<Rightarrow>
             do { (err, w) \<leftarrow> mForceUnmount (mr_mounter r) mountPath (ry_NormalUnmountWait (mr_config r)) w;
                  case err of
                    Some err \<Rightarrow>
                      (case mIsMountInUse (mr_mounter r) mountPath w of
                         (Inr (pid # pids), w) \<Rightarrow>
                           (let e = GoErr (''mount is in use by processes '' @ fmt_list (map Itoa (pid # pids)) @
                                      '', refusing to force unmount'')
                            in Some ((result\<lparr>rr_FinalError := Some e\<rparr>, Some e), w))
                       | (_, w) \<Rightarrow> again result (wrap_err ''unmount failed: '' err) w)
                  | None \<Rightarrow>
                      (case resolve h p nqn w of
                         (Inl err, w) \<Rightarrow> again result (wrap_err ''failed to resolve NQN after unmount: '' err) w
                       | (Inr newDevice, w) \<Rightarrow>
                           (let result = result\<lparr>rr_NewDevice := newDevice\<rparr>
                            in case mMount (mr_mounter r) newDevice mountPath fsType mountOptions w of
                                 (Some err, w) \<Rightarrow> again result (wrap_err ''mount failed: '' err) w
                               | (None, w) \<Rightarrow>
                                   Some ((result\<lparr>rr_Recovered := True, rr_FinalError := None\<rparr>, None), w))) })"

definition Recover ::
    "'w host \<Rightarrow> 'w MountRecoverer \<Rightarrow> 'w ctx \<Rightarrow> string \<Rightarrow> string \<Rightarrow> string \<Rightarrow> string list \<Rightarrow> 'w \<Rightarrow> 'w recovery" where
  "Recover h r ctx mountPath nqn fsType mountOptions w =
     (let result = \<lparr> rr_Recovered = False, rr_Attempts = 0, rr_FinalError = None, rr_OldDevice = [], rr_NewDevice = [] \<rparr>
      in case mr_resolver r of
           None \<Rightarrow>
             (let e = GoErr ''recovery not available in test mode''
              in Some ((result\<lparr>rr_FinalError := Some e\<rparr>, Some e), w))
         | Some p \<Rightarrow>
             (case GetStaleInfo h (mr_checker r) mountPath nqn w of
                (info, w) \<Rightarrow>
                  (let result = (case info of Inl _ \<Rightarrow> result | Inr i \<Rightarrow> result\<lparr>rr_OldDevice := si_MountDevice i\<rparr>)
                   in recover_loop h r p ctx mountPath nqn fsType mountOptions (nat (ry_MaxAttempts (mr_config r))) 1
                        (ry_InitialBackoff (mr_config r)) result w)))"

end
