(* ===== verification/NodeService.thy ===== *)
theory NodeService
  imports Stale
begin

text \<open>
  The CSI node service of \<^verbatim>\<open>pkg/driver/node.go\<close> and the circuit breaker of \<^verbatim>\<open>pkg/circuitbreaker\<close>. A handler is a function
  of the server, the request, the breakers and the world; \<open>None\<close> is a call that does not return. Security logging and
  metrics are left out, as are the texts of the statuses.
\<close>

subsection \<open>Circuit breakers\<close>

text \<open>
  Package \<^verbatim>\<open>github.com/sony/gobreaker\<close> is a parameter: a breaker is made from settings and runs a function or refuses to.
\<close>

datatype gb_outcome = OpenState | TooManyRequests | Ran "goerr option"

record gb_settings =
  gs_Name :: string
  gs_MaxRequests :: nat
  gs_Interval :: duration
  gs_Timeout :: duration
  gs_ReadyToTrip :: "nat \<Rightarrow> bool" \<comment> \<open>of the number of consecutive failures\<close>

record ('b, 'w) gobreaker =
  gbNew :: "gb_settings \<Rightarrow> 'w \<Rightarrow> 'b"
  gbExecute :: "('w \<Rightarrow> goerr option \<times> 'w) \<Rightarrow> 'b \<Rightarrow> 'w \<Rightarrow> gb_outcome \<times> 'b \<times> 'w"
  gbState :: "'b \<Rightarrow> 'w \<Rightarrow> string"

type_synonym 'b breakers = "string \<rightharpoonup> 'b"

definition DefaultConsecutiveFailures :: nat where
  "DefaultConsecutiveFailures = 3"

definition DefaultTimeout :: duration where
  "DefaultTimeout = 5 * minute"

definition DefaultInterval :: duration where
  "DefaultInterval = minute"

definition ResetAnnotation :: string where
  "ResetAnnotation = ''rds.csi.srvlab.io/reset-circuit-breaker''"

definition breaker_settings :: "string \<Rightarrow> gb_settings" where
  "breaker_settings volumeID =
     \<lparr> gs_Name = volumeID, gs_MaxRequests = 1, gs_Interval = DefaultInterval, gs_Timeout = DefaultTimeout,
       gs_ReadyToTrip = (\<lambda>failures. failures \<ge> DefaultConsecutiveFailures) \<rparr>"

definition getBreaker :: "('b, 'w) gobreaker \<Rightarrow> string \<Rightarrow> 'b breakers \<Rightarrow> 'w \<Rightarrow> 'b \<times> 'b breakers" where
  "getBreaker gb volumeID cbs w =
     (case cbs volumeID of
        Some cb \<Rightarrow> (cb, cbs)
      | None \<Rightarrow> (let cb = gbNew gb (breaker_settings volumeID) w in (cb, cbs(volumeID \<mapsto> cb))))"

text \<open>The text of a status error, as \<^verbatim>\<open>Error()\<close> of package \<^verbatim>\<open>grpc/status\<close> prints it.\<close>

abbreviation unavailable :: "string \<Rightarrow> goerr" where
  "unavailable desc \<equiv> GoErr (''rpc error: code = Unavailable desc = '' @ desc)"

definition Execute ::
    "('b, 'w) gobreaker \<Rightarrow> string \<Rightarrow> ('w \<Rightarrow> goerr option \<times> 'w) \<Rightarrow> 'b breakers \<Rightarrow> 'w \<Rightarrow> goerr option \<times> 'b breakers \<times> 'w" where
  "Execute gb volumeID fn cbs w =
     (case getBreaker gb volumeID cbs w of
        (cb, cbs) \<Rightarrow>
          (case gbExecute gb fn cb w of
             (out, cb, w) \<Rightarrow>
               (case out of
                  OpenState \<Rightarrow> Some (unavailable (''Volume '' @ volumeID @ '' circuit breaker is OPEN due to '' @
                    Itoa (int DefaultConsecutiveFailures) @ '' consecutive failures. Filesystem may be corrupted. '' @
                    ''To retry: add annotation '' @ [CHR 0x27] @ ResetAnnotation @ ''=true'' @ [CHR 0x27] @
                    '' to the PV and delete the pod. The circuit will reset on next mount attempt.''))
                | TooManyRequests \<Rightarrow> Some (unavailable (''Volume '' @ volumeID @
                    '' circuit breaker is HALF-OPEN and already has a request in progress. '' @
                    ''Wait for the current request to complete.''))
                | Ran err \<Rightarrow> err,
                cbs(volumeID \<mapsto> cb), w)))"

definition CheckReset :: "string \<Rightarrow> (string \<rightharpoonup> string) option \<Rightarrow> 'b breakers \<Rightarrow> bool \<times> 'b breakers" where
  "CheckReset volumeID annotations cbs =
     (case annotations of
        None \<Rightarrow> (False, cbs)
      | Some a \<Rightarrow>
          if map_str a ResetAnnotation = ''true'' \<and> cbs volumeID \<noteq> None then (True, cbs(volumeID := None))
          else (False, cbs))"

definition breaker_State :: "('b, 'w) gobreaker \<Rightarrow> string \<Rightarrow> 'b breakers \<Rightarrow> 'w \<Rightarrow> string" where
  "breaker_State gb volumeID cbs w = (case cbs volumeID of None \<Rightarrow> ''closed'' | Some cb \<Rightarrow> gbState gb cb w)"

subsection \<open>The server\<close>

datatype access = BlockAccess | MountAccess string "string list" | NoAccess \<comment> \<open>file system type and mount flags\<close>

record ('w, 'b) NodeServer =
  ns_host :: "'w host"
  ns_nvmeConn :: "'w Connector"
  ns_mounter :: "'w Mounter"
  ns_nodeID :: string
  ns_eventPoster :: "'w kube option"
  ns_staleChecker :: "'w StaleMountChecker option"
  ns_recoverer :: "'w MountRecoverer"
  ns_gobreaker :: "('b, 'w) gobreaker"

text \<open>
  \<^verbatim>\<open>NewNodeServer\<close>: \<open>mounter\<close>, \<open>connector\<close> and \<open>getMountDevFunc\<close> are what the driver injects or makes.
\<close>

definition NewNodeServer ::
    "'w host \<Rightarrow> ('b, 'w) gobreaker \<Rightarrow> 'w Mounter \<Rightarrow> 'w Connector \<Rightarrow> (string \<Rightarrow> 'w \<Rightarrow> goerr + string) option
     \<Rightarrow> string \<Rightarrow> 'w kube option \<Rightarrow> ('w, 'b) NodeServer" where
  "NewNodeServer h gb m connector getMountDevFunc nodeID k8sClient =
     (let staleChecker = NewStaleMountChecker h (nResolver connector);
          staleChecker = (case getMountDevFunc of None \<Rightarrow> staleChecker | Some fn \<Rightarrow> SetMountDeviceFunc fn staleChecker)
      in \<lparr> ns_host = h, ns_nvmeConn = connector, ns_mounter = m, ns_nodeID = nodeID, ns_eventPoster = k8sClient,
           ns_staleChecker = Some staleChecker,
           ns_recoverer = \<lparr> mr_config = DefaultRecoveryConfig, mr_mounter = m, mr_checker = staleChecker,
                            mr_resolver = nResolver connector \<rparr>,
           ns_gobreaker = gb \<rparr>)"

text \<open>Events are posted when there is a poster and the claim is known; what posting returns is ignored.\<close>

definition post_if :: "bool \<Rightarrow> 'w kube option \<Rightarrow> ('w kube \<Rightarrow> 'w \<Rightarrow> goerr option \<times> 'w) \<Rightarrow> 'w \<Rightarrow> 'w" where
  "post_if b poster post w = (case poster of Some k \<Rightarrow> if b then snd (post k w) else w | None \<Rightarrow> w)"

subsection \<open>Staging\<close>

record NodeStageVolumeRequest =
  sg_VolumeId :: string
  sg_StagingTargetPath :: string
  sg_VolumeCapability :: "access option"
  sg_VolumeContext :: "string \<rightharpoonup> string"

definition int_param :: "(string \<rightharpoonup> string) \<Rightarrow> string \<Rightarrow> int \<Rightarrow> int" where
  "int_param m key dflt =
     (case m key of None \<Rightarrow> dflt | Some val \<Rightarrow> (case Atoi val of None \<Rightarrow> dflt | Some parsed \<Rightarrow> parsed))"

definition stage_config :: "(string \<rightharpoonup> string) \<Rightarrow> ConnectionConfig" where
  "stage_config volumeContext =
     (let d = DefaultConnectionConfig
      in \<lparr> cn_CtrlLossTmo = int_param volumeContext ''ctrlLossTmo'' (cn_CtrlLossTmo d),
           cn_ReconnectDelay = int_param volumeContext ''reconnectDelay'' (cn_ReconnectDelay d),
           cn_KeepAliveTmo = int_param volumeContext ''keepAliveTmo'' (cn_KeepAliveTmo d) \<rparr>)"

text \<open>The target of a request, with every check up to the connection.\<close>

definition stage_target :: "NodeStageVolumeRequest \<Rightarrow> grpc_code + Target" where
  "stage_target req =
     (let volumeContext = sg_VolumeContext req;
          nqn = map_str volumeContext ''nqn'';
          nvmeAddress = (if map_str volumeContext ''nvmeAddress'' = [] then map_str volumeContext ''rdsAddress''
                         else map_str volumeContext ''nvmeAddress'');
          nvmePort = map_str volumeContext ''nvmePort''
      in if sg_VolumeId req = [] \<or> sg_StagingTargetPath req = [] \<or> sg_VolumeCapability req = None
         then Inl InvalidArgument
         else if nqn = [] \<or> nvmeAddress = [] \<or> nvmePort = [] then Inl InvalidArgument
         else case ValidatePortString nvmePort True of
           Inl _ \<Rightarrow> Inl InvalidArgument
         | Inr port \<Rightarrow>
             if ValidateIPAddress nvmeAddress \<noteq> None then Inl InvalidArgument
             else if ValidateNVMETargetContext nqn nvmeAddress port [] \<noteq> None then Inl InvalidArgument
             else Inr \<lparr> tg_Transport = ''tcp'', tg_NQN = nqn, tg_TargetAddress = nvmeAddress, tg_TargetPort = port,
                        tg_HostNQN = [] \<rparr>)"

definition defaultFSType :: string where
  "defaultFSType = ''ext4''"

definition fs_type :: "access option \<Rightarrow> string" where
  "fs_type cap =
     (case cap of Some (MountAccess fsType _) \<Rightarrow> if fsType \<noteq> [] then fsType else defaultFSType | _ \<Rightarrow> defaultFSType)"

definition mount_flags :: "access option \<Rightarrow> string list" where
  "mount_flags cap = (case cap of Some (MountAccess _ flags) \<Rightarrow> flags | _ \<Rightarrow> [])"

definition isFormattedMaxRetries :: nat where
  "isFormattedMaxRetries = 5"

text \<open>The loop over \<^verbatim>\<open>IsFormatted\<close> with \<open>Suc n\<close> attempts left.\<close>

fun formatted_loop :: "('w, 'b) NodeServer \<Rightarrow> 'w ctx \<Rightarrow> string \<Rightarrow> nat \<Rightarrow> 'w \<Rightarrow> (goerr + bool) \<times> 'w" where
  "formatted_loop ns ctx devicePath n w =
     (case mIsFormatted (ns_mounter ns) devicePath w of
        (Inr formatted, w) \<Rightarrow> (Inr formatted, w)
      | (Inl err, w) \<Rightarrow>
          (case n of
             0 \<Rightarrow> (Inl (GoWrap (''cannot determine filesystem state of device '' @ devicePath @ '' after '' @
                     Itoa (int isFormattedMaxRetries) @ '' attempts (last error: '') err
                     '') - refusing to format to prevent potential data loss''), w)
           | Suc m \<Rightarrow>
               (case oWait (ns_host ns) ctx (2 * second) w of
                  (Some e, w) \<Rightarrow>
                    (Inl (wrap_err (''context cancelled while waiting for device '' @ devicePath @ '' to be ready: '') (ctx_error e)), w)
                | (None, w) \<Rightarrow> formatted_loop ns ctx devicePath m w)))"

declare formatted_loop.simps [simp del]

definition stage_filesystem ::
    "('w, 'b) NodeServer \<Rightarrow> 'w ctx \<Rightarrow> NodeStageVolumeRequest \<Rightarrow> string \<Rightarrow> 'w \<Rightarrow> goerr option \<times> 'w" where
  "stage_filesystem ns ctx req devicePath w =
     (let fsType = fs_type (sg_VolumeCapability req)
      in case formatted_loop ns ctx devicePath (isFormattedMaxRetries - 1) w of
           (Inl err, w) \<Rightarrow> (Some err, w)
         | (Inr formatted, w) \<Rightarrow>
             (case (if formatted then CheckFilesystemHealth (ns_host ns) ctx devicePath fsType w else (None, w)) of
                (Some healthErr, w) \<Rightarrow> (Some (wrap_err ''filesystem health check failed: '' healthErr), w)
              | (None, w) \<Rightarrow>
                  (case mFormat (ns_mounter ns) devicePath fsType w of
                     (Some formatErr, w) \<Rightarrow> (Some (wrap_err ''failed to format device: '' formatErr), w)
                   | (None, w) \<Rightarrow>
                       (case mMount (ns_mounter ns) devicePath (sg_StagingTargetPath req) fsType
                               (mount_flags (sg_VolumeCapability req)) w of
                          (Some mountErr, w) \<Rightarrow> (Some (wrap_err ''failed to mount device: '' mountErr), w)
                        | (None, w) \<Rightarrow> (None, w)))))"

definition pvcNamespace :: "(string \<rightharpoonup> string) \<Rightarrow> string" where
  "pvcNamespace volumeContext = map_str volumeContext ''csi.storage.k8s.io/pvc/namespace''"

definition pvcName :: "(string \<rightharpoonup> string) \<Rightarrow> string" where
  "pvcName volumeContext = map_str volumeContext ''csi.storage.k8s.io/pvc/name''"

definition NodeStageVolume ::
    "('w, 'b) NodeServer \<Rightarrow> 'w ctx \<Rightarrow> NodeStageVolumeRequest \<Rightarrow> 'b breakers \<Rightarrow> 'w
     \<Rightarrow> ((grpc_code + unit) \<times> 'b breakers \<times> 'w) option" where
  "NodeStageVolume ns ctx req cbs w =
     (case stage_target req of
        Inl code \<Rightarrow> Some (Inl code, cbs, w)
      | Inr target \<Rightarrow>
          (let volumeID = sg_VolumeId req;
               namespace = pvcNamespace (sg_VolumeContext req); name = pvcName (sg_VolumeContext req);
               post = post_if (namespace \<noteq> [] \<and> name \<noteq> []) (ns_eventPoster ns)
           in do { (dev, w) \<leftarrow> nConnectWithRetry (ns_nvmeConn ns) ctx target (stage_config (sg_VolumeContext req)) w;
                   case dev of
                     Inl err \<Rightarrow>
                       Some (Inl Internal, cbs, post (\<lambda>k. PostConnectionFailure k namespace name volumeID (ns_nodeID ns)
                         (tg_TargetAddress target @ '':'' @ Itoa (tg_TargetPort target)) err) w)
                   | Inr devicePath \<Rightarrow>
                       if sg_VolumeCapability req = Some BlockAccess then Some (Inr (), cbs, w)
                       else (case Execute (ns_gobreaker ns) volumeID (stage_filesystem ns ctx req devicePath) cbs w of
                          (None, cbs, w) \<Rightarrow> Some (Inr (), cbs, w)
                        | (Some err, cbs, w) \<Rightarrow>
                            (let w = post (\<lambda>k. PostMountFailure k namespace name volumeID (ns_nodeID ns)
                                       (''stage volume failed: '' @ err_msg err)) w;
                                 (_, w) = nDisconnect (ns_nvmeConn ns) (tg_NQN target) w
                             in Some (Inl Internal, cbs, w))) }))"

subsection \<open>Unstaging\<close>

fun cleanup_mounts :: "'w Mounter \<Rightarrow> string \<Rightarrow> moby_mount list \<Rightarrow> 'w \<Rightarrow> nat \<times> 'w" where
  "cleanup_mounts m devicePath [] w = (0, w)"
| "cleanup_mounts m devicePath (mnt # mounts) w =
     (if mm_Source mnt = devicePath
      then (case mUnmount m (mm_Mountpoint mnt) w of
              (err, w) \<Rightarrow>
                (case cleanup_mounts m devicePath mounts w of
                   (cleanedCount, w) \<Rightarrow> (if err = None then Suc cleanedCount else cleanedCount, w)))
      else cleanup_mounts m devicePath mounts w)"

definition findAndCleanupOrphanedMounts :: "('w, 'b) NodeServer \<Rightarrow> 'w ctx \<Rightarrow> string \<Rightarrow> 'w \<Rightarrow> (goerr + nat) \<times> 'w" where
  "findAndCleanupOrphanedMounts ns ctx devicePath w =
     (case GetMountsWithTimeout (ns_host ns) ctx w of
        (Inl err, w) \<Rightarrow> (Inl (wrap_err ''failed to get mounts: '' err), w)
      | (Inr mounts, w) \<Rightarrow>
          (case cleanup_mounts (ns_mounter ns) devicePath mounts w of (cleanedCount, w) \<Rightarrow> (Inr cleanedCount, w)))"

text \<open>Whether the check of a device stops an unstage; a shutdown overrides it for block volumes.\<close>

definition busy :: "DeviceUsageResult \<Rightarrow> bool" where
  "busy result \<longleftrightarrow> \<not> du_TimedOut result \<and> du_InUse result"

definition unstage_block :: "('w, 'b) NodeServer \<Rightarrow> 'w ctx \<Rightarrow> string \<Rightarrow> 'w \<Rightarrow> grpc_code option \<times> 'w" where
  "unstage_block ns ctx nqn w =
     (if nqn = [] then (None, w)
      else case nGetDevicePath (ns_nvmeConn ns) nqn w of
        (Inl err, w) \<Rightarrow> (None, w)
      | (Inr devicePath, w) \<Rightarrow>
          (case findAndCleanupOrphanedMounts ns ctx devicePath w of
             (_, w) \<Rightarrow>
               (case CheckDeviceInUseWithRetry (ns_host ns) ctx devicePath 3 second w of
                  (result, w) \<Rightarrow>
                    if busy result \<and> ctxErr ctx w = None then (Some FailedPrecondition, w) else (None, w))))"

definition unstage_filesystem :: "('w, 'b) NodeServer \<Rightarrow> 'w ctx \<Rightarrow> string \<Rightarrow> string \<Rightarrow> 'w \<Rightarrow> grpc_code option \<times> 'w" where
  "unstage_filesystem ns ctx stagingPath nqn w =
     (case mUnmount (ns_mounter ns) stagingPath w of
        (Some err, w) \<Rightarrow> (Some Internal, w)
      | (None, w) \<Rightarrow>
          if nqn = [] then (None, w)
          else (case nGetDevicePath (ns_nvmeConn ns) nqn w of
             (Inl err, w) \<Rightarrow> (None, w)
           | (Inr devicePath, w) \<Rightarrow>
               (case CheckDeviceInUseWithRetry (ns_host ns) ctx devicePath 3 second w of
                  (result, w) \<Rightarrow> if busy result then (Some FailedPrecondition, w) else (None, w))))"

definition NodeUnstageVolume :: "('w, 'b) NodeServer \<Rightarrow> 'w ctx \<Rightarrow> string \<Rightarrow> string \<Rightarrow> 'w \<Rightarrow> (grpc_code + unit) \<times> 'w" where
  "NodeUnstageVolume ns ctx volumeID stagingPath w =
     (if volumeID = [] \<or> stagingPath = [] then (Inl InvalidArgument, w)
      else
        (let nqn = (case VolumeIDToNQN volumeID of Inl _ \<Rightarrow> [] | Inr nqn \<Rightarrow> nqn)
         in case mIsLikelyMountPoint (ns_mounter ns) stagingPath w of
              (mounted, w) \<Rightarrow>
                (case (if mounted = Inr True then unstage_filesystem ns ctx stagingPath nqn w
                       else unstage_block ns ctx nqn w) of
                   (Some code, w) \<Rightarrow> (Inl code, w)
                 | (None, w) \<Rightarrow>
                     (if nqn \<noteq> [] then (case nDisconnect (ns_nvmeConn ns) nqn w of (_, w) \<Rightarrow> (Inr (), w))
                      else (Inr (), w)))))"

subsection \<open>Publishing\<close>

record NodePublishVolumeRequest =
  np_VolumeId :: string
  np_StagingTargetPath :: string
  np_TargetPath :: string
  np_VolumeCapability :: "access option"
  np_VolumeContext :: "string \<rightharpoonup> string"
  np_Readonly :: bool

definition checkAndRecoverMount ::
    "('w, 'b) NodeServer \<Rightarrow> 'w ctx \<Rightarrow> string \<Rightarrow> string \<Rightarrow> string \<Rightarrow> string list \<Rightarrow> string \<Rightarrow> string \<Rightarrow> string \<Rightarrow> 'w
     \<Rightarrow> (goerr option \<times> 'w) option" where
  "checkAndRecoverMount ns ctx stagingPath nqn fsType mountOptions namespace name volumeID w =
     (case ns_staleChecker ns of
        None \<Rightarrow> Some (None, w)
      | Some checker \<Rightarrow>
          (case GetStaleInfo (ns_host ns) checker stagingPath nqn w of
             (Inl err, w) \<Rightarrow> Some (None, w)
           | (Inr staleInfo, w) \<Rightarrow>
               if \<not> si_IsStale staleInfo then Some (None, w)
               else
                 (let w = post_if (namespace \<noteq> [] \<and> name \<noteq> []) (ns_eventPoster ns)
                        (\<lambda>k. PostStaleMountDetected k namespace name volumeID (ns_nodeID ns)
                           (si_MountDevice staleInfo) (si_CurrentDevice staleInfo)) w
                  in do { ((result, err), w) \<leftarrow> Recover (ns_host ns) (ns_recoverer ns) ctx stagingPath nqn fsType mountOptions w;
                          Some (case err of
                             None \<Rightarrow> (None, w)
                           | Some e \<Rightarrow>
                               (Some (wrap_err ''mount recovery failed: '' e),
                                post_if True (ns_eventPoster ns)
                                  (\<lambda>k. PostRecoveryFailed k namespace name volumeID (ns_nodeID ns) (rr_Attempts result) e) w)) })))"

definition publish_nqn :: "NodePublishVolumeRequest \<Rightarrow> goerr + string" where
  "publish_nqn req =
     (let nqn = map_str (np_VolumeContext req) ''nqn''
      in if nqn \<noteq> [] then Inr nqn else VolumeIDToNQN (np_VolumeId req))"

definition publish_block :: "('w, 'b) NodeServer \<Rightarrow> NodePublishVolumeRequest \<Rightarrow> 'w \<Rightarrow> (grpc_code + unit) \<times> 'w" where
  "publish_block ns req w =
     (case publish_nqn req of
        Inl err \<Rightarrow> (Inl Internal, w)
      | Inr nqn \<Rightarrow>
          (case nGetDevicePath (ns_nvmeConn ns) nqn w of
             (Inl err, w) \<Rightarrow> (Inl FailedPrecondition, w)
           | (Inr devicePath, w) \<Rightarrow>
               (case oStat (ns_host ns) devicePath w of
                  Inl err \<Rightarrow> (Inl Internal, w)
                | Inr stat \<Rightarrow>
                    (case oMkdirAll (ns_host ns) (Dir (np_TargetPath req)) 488 w of
                       (Some err, w) \<Rightarrow> (Inl Internal, w)
                     | (None, w) \<Rightarrow>
                         if exists (ns_host ns) (np_TargetPath req) w then (Inr (), w)
                         else (case oMknod (ns_host ns) (np_TargetPath req) (if np_Readonly req then 288 else 432)
                                      (st_rdev stat) w of
                            (Some err, w) \<Rightarrow> (Inl Internal, w)
                          | (None, w) \<Rightarrow> (Inr (), w))))))"

definition publish_filesystem ::
    "('w, 'b) NodeServer \<Rightarrow> 'w ctx \<Rightarrow> NodePublishVolumeRequest \<Rightarrow> 'w \<Rightarrow> ((grpc_code + unit) \<times> 'w) option" where
  "publish_filesystem ns ctx req w =
     (case mIsLikelyMountPoint (ns_mounter ns) (np_StagingTargetPath req) w of
        (Inl err, w) \<Rightarrow> Some (Inl Internal, w)
      | (Inr False, w) \<Rightarrow> Some (Inl FailedPrecondition, w)
      | (Inr True, w) \<Rightarrow>
          (let nqn = (case publish_nqn req of Inl _ \<Rightarrow> [] | Inr nqn \<Rightarrow> nqn);
               cap = np_VolumeCapability req
           in do { (err, w) \<leftarrow>
                     (if nqn \<noteq> []
                      then checkAndRecoverMount ns ctx (np_StagingTargetPath req) nqn (fs_type cap) (mount_flags cap)
                             (pvcNamespace (np_VolumeContext req)) (pvcName (np_VolumeContext req)) (np_VolumeId req) w
                      else Some (None, w));
                   case err of
                     Some e \<Rightarrow> Some (Inl Internal, w)
                   | None \<Rightarrow>
                       (case mMount (ns_mounter ns) (np_StagingTargetPath req) (np_TargetPath req) []
                               ([''bind''] @ (if np_Readonly req then [''ro''] else []) @ mount_flags cap) w of
                          (Some err, w) \<Rightarrow> Some (Inl Internal, w)
                        | (None, w) \<Rightarrow> Some (Inr (), w)) }))"

definition NodePublishVolume ::
    "('w, 'b) NodeServer \<Rightarrow> 'w ctx \<Rightarrow> NodePublishVolumeRequest \<Rightarrow> 'w \<Rightarrow> ((grpc_code + unit) \<times> 'w) option" where
  "NodePublishVolume ns ctx req w =
     (if np_VolumeId req = [] \<or> np_StagingTargetPath req = [] \<or> np_TargetPath req = [] \<or> np_VolumeCapability req = None
      then Some (Inl InvalidArgument, w)
      else if np_VolumeCapability req = Some BlockAccess then Some (publish_block ns req w)
      else publish_filesystem ns ctx req w)"

definition NodeUnpublishVolume :: "('w, 'b) NodeServer \<Rightarrow> string \<Rightarrow> string \<Rightarrow> 'w \<Rightarrow> (grpc_code + unit) \<times> 'w" where
  "NodeUnpublishVolume ns volumeID targetPath w =
     (if volumeID = [] \<or> targetPath = [] then (Inl InvalidArgument, w)
      else case oStat (ns_host ns) targetPath w of
        Inl (NotExist _) \<Rightarrow> (Inr (), w)
      | Inl err \<Rightarrow> (Inl Internal, w)
      | Inr stat \<Rightarrow>
          (case (if st_kind stat = BlockDevice
                 then (case oRemove (ns_host ns) targetPath w of
                         (None, w) \<Rightarrow> (None, w)
                       | (Some (NotExist _), w) \<Rightarrow> (None, w)
                       | (Some err, w) \<Rightarrow> (Some (file_error err), w))
                 else mUnmount (ns_mounter ns) targetPath w) of
             (Some err, w) \<Rightarrow> (Inl Internal, w)
           | (None, w) \<Rightarrow> (case oRemoveAll (ns_host ns) targetPath w of (_, w) \<Rightarrow> (Inr (), w))))"

subsection \<open>Statistics, capabilities and expansion\<close>

record VolumeCondition =
  vc_Abnormal :: bool
  vc_Message :: string

datatype usage_unit = BYTES | INODES

record VolumeUsage =
  vu_Unit :: usage_unit
  vu_Total :: int
  vu_Used :: int
  vu_Available :: int

record NodeGetVolumeStatsResponse =
  vs_Usage :: "VolumeUsage list"
  vs_VolumeCondition :: VolumeCondition

definition NodeGetVolumeStats ::
    "('w, 'b) NodeServer \<Rightarrow> string \<Rightarrow> string \<Rightarrow> 'w \<Rightarrow> (grpc_code + NodeGetVolumeStatsResponse) \<times> 'w" where
  "NodeGetVolumeStats ns volumeID volumePath w =
     (if volumeID = [] \<or> volumePath = [] then (Inl InvalidArgument, w)
      else case mIsLikelyMountPoint (ns_mounter ns) volumePath w of
        (mounted, w) \<Rightarrow>
          if mounted \<noteq> Inr True then (Inl NotFound, w)
          else
            (let healthy = \<lparr> vc_Abnormal = False, vc_Message = ''Volume is healthy'' \<rparr>
             in case (case (VolumeIDToNQN volumeID, ns_staleChecker ns) of
                        (Inr nqn, Some checker) \<Rightarrow>
                          (case IsMountStale (ns_host ns) checker volumePath nqn w of
                             (Inl checkErr, w) \<Rightarrow>
                               (\<lparr> vc_Abnormal = False, vc_Message = ''Health check inconclusive: '' @ err_msg checkErr \<rparr>, w)
                           | (Inr (True, reason), w) \<Rightarrow>
                               (\<lparr> vc_Abnormal = True, vc_Message = ''Stale mount detected: '' @ reason_text reason \<rparr>, w)
                           | (Inr (False, reason), w) \<Rightarrow> (healthy, w))
                      | _ \<Rightarrow> (healthy, w)) of
                  (condition, w) \<Rightarrow>
                    if vc_Abnormal condition then (Inr \<lparr> vs_Usage = [], vs_VolumeCondition = condition \<rparr>, w)
                    else (case mGetDeviceStats (ns_mounter ns) volumePath w of
                       (Inl err, w) \<Rightarrow>
                         (Inl (if Contains (err_msg err) ''No such file or directory'' \<or> Contains (err_msg err) ''not mounted''
                                  \<or> Contains (err_msg err) ''not a mountpoint'' then NotFound else Internal), w)
                     | (Inr stats, w) \<Rightarrow>
                         (Inr \<lparr> vs_Usage = [\<lparr> vu_Unit = BYTES, vu_Total = ds_TotalBytes stats, vu_Used = ds_UsedBytes stats,
                                               vu_Available = ds_AvailableBytes stats \<rparr>,
                                             \<lparr> vu_Unit = INODES, vu_Total = ds_TotalInodes stats, vu_Used = ds_UsedInodes stats,
                                               vu_Available = ds_AvailableInodes stats \<rparr>],
                                vs_VolumeCondition = condition \<rparr>, w))))"

definition NodeGetInfo :: "('w, 'b) NodeServer \<Rightarrow> string \<times> int \<times> (string \<rightharpoonup> string)" where
  "NodeGetInfo ns = (ns_nodeID ns, 0, [''topology.rds.csi.srvlab.io/zone'' \<mapsto> ''default''])"

definition NodeExpandVolume :: "('w, 'b) NodeServer \<Rightarrow> string \<Rightarrow> string \<Rightarrow> int \<Rightarrow> 'w \<Rightarrow> (grpc_code + int) \<times> 'w" where
  "NodeExpandVolume ns volumeID volumePath requiredBytes w =
     (if volumeID = [] \<or> volumePath = [] then (Inl InvalidArgument, w)
      else case mIsLikelyMountPoint (ns_mounter ns) volumePath w of
        (mounted, w) \<Rightarrow>
          if mounted \<noteq> Inr True then (Inl NotFound, w)
          else (case VolumeIDToNQN volumeID of
             Inl err \<Rightarrow> (Inl Internal, w)
           | Inr nqn \<Rightarrow>
               (case nGetDevicePath (ns_nvmeConn ns) nqn w of
                  (Inl err, w) \<Rightarrow> (Inl Internal, w)
                | (Inr devicePath, w) \<Rightarrow>
                    (case mResizeFilesystem (ns_mounter ns) devicePath volumePath w of
                       (Some err, w) \<Rightarrow> (Inl Internal, w)
                     | (None, w) \<Rightarrow> (Inr requiredBytes, w)))))"

end
