(* ===== verification/NodeGuard.thy ===== *)
theory NodeGuard
  imports NodeService
begin

text \<open>
  What the node service may do to a machine. The contract \<open>guarded_node\<close> adds the programs of the NVMe connector to those of
  the mounter; every operation of the connector, of the recovery and of the node service keeps the property of the host.
  The contract is then met by any host with a record of the programs it has run, which gives the safety properties at
  the end.
\<close>

lemma bind_SomeE: "Option.bind m f = Some y \<Longrightarrow> (\<And>x. m = Some x \<Longrightarrow> f x = Some y \<Longrightarrow> P) \<Longrightarrow> P"
  by (auto simp: bind_eq_Some_conv)

lemma mounter_sel [simp]:
  "mMount (mounter h) = Mount h" "mUnmount (mounter h) = Unmount h" "mIsLikelyMountPoint (mounter h) = IsLikelyMountPoint h"
  "mFormat (mounter h) = Format h" "mIsFormatted (mounter h) = IsFormatted h"
  "mResizeFilesystem (mounter h) = ResizeFilesystem h" "mGetDeviceStats (mounter h) = GetDeviceStats h"
  "mForceUnmount (mounter h) = ForceUnmount h" "mIsMountInUse (mounter h) path w = (IsMountInUse h path w, w)"
  by (simp_all add: mounter_def)

subsection \<open>Looking at devices\<close>

locale guarded_device = guarded_mounts +
  assumes may_lsof: "may ''lsof'' args w"
begin

lemma CheckDeviceInUse_ok [keeps]: "CheckDeviceInUse h ctx devicePath w = (r, v) \<Longrightarrow> ok w \<Longrightarrow> ok v"
  by (auto simp: CheckDeviceInUse_def Let_def split: prod.splits if_splits option.splits exec_err.splits
      dest!: ok_output [OF _ _ may_lsof])

lemma check_loop_ok [keeps]: "check_loop h ctx devicePath retryDelay n w = (r, v) \<Longrightarrow> ok w \<Longrightarrow> ok v"
proof (induction n arbitrary: w)
  case 0
  then show ?case
    by (subst (asm) check_loop.simps) (auto split: prod.splits if_splits dest: CheckDeviceInUse_ok)
next
  case (Suc n)
  from Suc.prems show ?case
    by (subst (asm) check_loop.simps)
      (auto split: prod.splits if_splits option.splits dest!: CheckDeviceInUse_ok ok_wait dest: Suc.IH)
qed

lemma CheckDeviceInUseWithRetry_ok [keeps]:
  "CheckDeviceInUseWithRetry h ctx devicePath retries retryDelay w = (r, v) \<Longrightarrow> ok w \<Longrightarrow> ok v"
  by (auto simp: CheckDeviceInUseWithRetry_def Let_def dest: check_loop_ok)

lemma cleanup_mounts_ok: "cleanup_mounts (mounter h) devicePath mounts w = (n, v) \<Longrightarrow> ok w \<Longrightarrow> ok v"
  by (induction mounts arbitrary: n w) (auto split: if_splits prod.splits dest!: Unmount_ok)

lemma unstage_ok:
  assumes "ns_host ns = h" "ns_mounter ns = mounter h"
    and path: "\<And>nqn w r v. nGetDevicePath (ns_nvmeConn ns) nqn w = (r, v) \<Longrightarrow> ok w \<Longrightarrow> ok v"
  shows "unstage_block ns ctx nqn w = (x, v) \<Longrightarrow> ok w \<Longrightarrow> ok v"
    and "unstage_filesystem ns ctx stagingPath nqn w = (x, v) \<Longrightarrow> ok w \<Longrightarrow> ok v"
  by (auto simp: assms(1,2) unstage_block_def unstage_filesystem_def findAndCleanupOrphanedMounts_def
      split: if_splits prod.splits sum.splits option.splits
      dest!: path GetMountsWithTimeout_ok cleanup_mounts_ok CheckDeviceInUseWithRetry_ok Unmount_ok)

end

subsection \<open>The connector\<close>

locale guarded_node = guarded_device +
  assumes may_nvme: "args \<noteq> [] \<Longrightarrow> hd args \<noteq> ''disconnect'' \<Longrightarrow> may ''nvme'' args w"
    and may_disconnect: "ValidateNQN nqn = None \<Longrightarrow> managed nqn \<Longrightarrow> may ''nvme'' [''disconnect'', ''-n'', nqn] w"
begin

lemma nvme_command_ok: "nvme_command h ctx c args w = (r, v) \<Longrightarrow> ok w \<Longrightarrow> may ''nvme'' args w \<Longrightarrow> ok v"
  by (auto simp: nvme_command_def split: if_splits intro: ok_exec ok_execctx)

lemma IsConnectedWithContext_ok [keeps]: "IsConnectedWithContext h ctx nqn c w = (r, v) \<Longrightarrow> ok w \<Longrightarrow> ok v"
  by (auto simp: IsConnectedWithContext_def Let_def split: prod.splits option.splits
      dest!: nvme_command_ok [OF _ _ may_nvme])

lemma nvme_IsConnected_ok [keeps]: "nvme_IsConnected h nqn c w = (r, v) \<Longrightarrow> ok w \<Longrightarrow> ok v"
  by (auto simp: nvme_IsConnected_def split: option.splits dest: keeps)

lemma IsOrphanedSubsystem_ok:
  "IsOrphanedSubsystem h fn nqn r w = (x, v) \<Longrightarrow> ok w \<Longrightarrow>
    (\<And>f n w x v. fn = Some f \<Longrightarrow> f n w = (x, v) \<Longrightarrow> ok w \<Longrightarrow> ok v) \<Longrightarrow> ok v"
  by (auto simp: IsOrphanedSubsystem_def split: option.splits prod.splits sum.splits bool.splits)

lemma disconnect_body_ok:
  assumes "disconnect_body h ctx nqn c w = (r, c', v)" "ok w" "ValidateNQN nqn = None" "managed nqn"
  shows "ok v"
  using assms(1,2)
  by (auto simp: disconnect_body_def Let_def split: prod.splits sum.splits bool.splits option.splits
      dest!: IsConnectedWithContext_ok nvme_command_ok [OF _ _ may_disconnect [OF assms(3,4)]])

lemma DisconnectWithContext_ok [keeps]:
  "DisconnectWithContext h ctx nqn c w = (r, c', v) \<Longrightarrow> ok w \<Longrightarrow> ok v"
  by (auto simp: DisconnectWithContext_def Let_def split: option.splits prod.splits if_splits dest: disconnect_body_ok)

lemma Disconnect_ok [keeps]: "Disconnect h nqn c w = (r, c', v) \<Longrightarrow> ok w \<Longrightarrow> ok v"
  by (auto simp: Disconnect_def dest: keeps)

lemma wait_node_ok [keeps]: "wait_node h ctx devicePath n w = (r, v) \<Longrightarrow> ok w \<Longrightarrow> ok v"
  by (induction n arbitrary: w) (auto split: if_splits prod.splits option.splits dest: ok_wait)

lemma waitForDevice_ok [keeps]:
  assumes "waitForDeviceWithContext h ctx nqn c w = Some (r, c', v)" "ok w"
  shows "ok v"
proof -
  have "hh = h \<longrightarrow> ok u \<longrightarrow> ok (snd (snd y))" if "waitForDeviceWithContext hh ctx nqn c u = Some y" for hh u y
    by (rule waitForDeviceWithContext.raw_induct [where P = "\<lambda>hh _ _ _ u y. hh = h \<longrightarrow> ok u \<longrightarrow> ok (snd (snd y))", OF _ that])
      (auto split: prod.splits option.splits sum.splits dest!: ok_wait wait_node_ok)
  from this [OF assms(1)] assms(2) show ?thesis by simp
qed

lemma connect_run_ok [keeps]:
  assumes "connect_run h ctx target config c w = Some (r, c', v)" "ok w"
  shows "ok v"
proof -
  have may: "may ''nvme'' (BuildConnectArgs target config) w"
    by (rule may_nvme) (simp_all add: BuildConnectArgs_def)
  obtain out e u where u: "nvme_command h ctx c (BuildConnectArgs target config) w = ((out, e), u)"
    by (metis surj_pair)
  note oku = nvme_command_ok [OF u assms(2) may]
  show ?thesis
  proof (cases e)
    case (Some err)
    then show ?thesis using assms(1) u oku by (auto simp: connect_run_def Let_def split: option.splits)
  next
    case None
    then obtain res c1 w1 where w1: "waitForDeviceWithContext h ctx (tg_NQN target) c u = Some (res, c1, w1)"
      using assms(1) u by (auto simp: connect_run_def bind_eq_Some_conv)
    note okw = waitForDevice_ok [OF w1 oku]
    show ?thesis
      using assms(1) u None w1 okw
      by (cases res) (auto simp: connect_run_def Let_def split: prod.splits dest: DisconnectWithContext_ok)
  qed
qed

lemma orphan_check_ok:
  "IsOrphanedSubsystem h (Some (\<lambda>n. nvme_IsConnected h n c)) nqn r w = (x, v) \<Longrightarrow> ok w \<Longrightarrow> ok v"
  by (rule IsOrphanedSubsystem_ok) (auto dest: nvme_IsConnected_ok)

lemma connect_body_ok [keeps]: "connect_body h ctx target config c w = Some (r, c', v) \<Longrightarrow> ok w \<Longrightarrow> ok v"
  by (auto simp: connect_body_def Let_def split: prod.splits sum.splits bool.splits
      dest!: IsConnectedWithContext_ok orphan_check_ok DisconnectWithContext_ok dest: connect_run_ok)

lemma ConnectWithConfig_ok [keeps]: "ConnectWithConfig h ctx target config c w = Some (r, c', v) \<Longrightarrow> ok w \<Longrightarrow> ok v"
  by (auto simp: ConnectWithConfig_def Let_def bind_eq_Some_conv split: prod.splits option.splits if_splits dest: connect_body_ok)

end

subsection \<open>Mount recovery and the node service\<close>

text \<open>
  The server made by \<^verbatim>\<open>NewNodeServer\<close> with the mounter and the connector of the driver. The connector is kept in the world,
  and the libraries run the functions they are given and nothing else that matters to the property.
\<close>

abbreviation retry_world :: "'w retry_state \<Rightarrow> 'w" where
  "retry_world s \<equiv> snd (snd (snd s))"

locale guarded_server = guarded_node h ok may
  for h :: "'w host" and ok :: "'w \<Rightarrow> bool" and may :: "string \<Rightarrow> string list \<Rightarrow> 'w \<Rightarrow> bool" +
  fixes expBackoff :: "('w, 'w retry_state) backoff_wait" and getc :: "'w \<Rightarrow> connector" and putc :: "connector \<Rightarrow> 'w \<Rightarrow> 'w"
    and gb :: "('b, 'w) gobreaker" and nodeID :: string and poster :: "'w kube option"
  assumes ok_putc [simp]: "ok (putc c w) = ok w"
    and ok_backoff: "expBackoff ctx bo cond s = Some (e, s') \<Longrightarrow> ok (retry_world s) \<Longrightarrow>
      (\<And>s r s'. cond s = Some (r, s') \<Longrightarrow> ok (retry_world s) \<Longrightarrow> ok (retry_world s')) \<Longrightarrow> ok (retry_world s')"
    and ok_breaker: "gbExecute gb fn b w = (out, b', v) \<Longrightarrow> ok w \<Longrightarrow>
      (\<And>w r v. fn w = (r, v) \<Longrightarrow> ok w \<Longrightarrow> ok v) \<Longrightarrow> ok v"
    and ok_claim [keeps]: "poster = Some k \<Longrightarrow> kPVCGet k ns n w = (x, v) \<Longrightarrow> ok w \<Longrightarrow> ok v"
    and ok_event: "poster = Some k \<Longrightarrow> ok (kEvent k claim ty r m w) = ok w"
begin

abbreviation conn :: "'w Connector" where
  "conn \<equiv> nvme_connector h expBackoff getc putc"

abbreviation server :: "('w, 'b) NodeServer" where
  "server \<equiv> NewNodeServer h gb (mounter h) conn None nodeID poster"

lemma server_sel [simp]:
  "ns_host server = h" "ns_mounter server = mounter h" "ns_nvmeConn server = conn" "ns_eventPoster server = poster"
  "ns_gobreaker server = gb" "ns_nodeID server = nodeID"
  "ns_staleChecker server = Some \<lparr> sm_resolver = nResolver conn, sm_getMountDev = GetMountDevice h \<rparr>"
  "ns_recoverer server = \<lparr> mr_config = DefaultRecoveryConfig, mr_mounter = mounter h,
     mr_checker = \<lparr> sm_resolver = nResolver conn, sm_getMountDev = GetMountDevice h \<rparr>, mr_resolver = nResolver conn \<rparr>"
  by (simp_all add: NewNodeServer_def NewStaleMountChecker_def Let_def)

lemma connect_attempt_ok:
  assumes "connect_attempt h ctx target config s = Some (r, s')" "ok (retry_world s)"
  shows "ok (retry_world s')"
proof -
  obtain d l c w where s: "s = (d, l, c, w)" by (cases s)
  obtain res c1 w1 where res: "ConnectWithConfig h ctx target config c w = Some (res, c1, w1)"
    using assms(1) s by (auto simp: connect_attempt_def bind_eq_Some_conv)
  have "ok w1" using ConnectWithConfig_ok [OF res] assms(2) s by simp
  then show ?thesis using assms(1) s res by (cases res) (auto simp: connect_attempt_def)
qed

lemma ConnectWithRetry_ok [keeps]:
  assumes "ConnectWithRetry h expBackoff ctx target config c w = Some (r, c', v)" "ok w"
  shows "ok v"
proof -
  obtain e d l where "expBackoff ctx DefaultBackoffConfig (retry_condition (connect_attempt h ctx target config)) ([], None, c, w)
      = Some (e, d, l, c', v)"
    using assms(1) by (auto simp: ConnectWithRetry_def RetryWithBackoff_def bind_eq_Some_conv)
  from ok_backoff [OF this] show ?thesis
    using assms(2) connect_attempt_ok by (fastforce simp: retry_condition_def bind_eq_Some_conv)
qed

lemma conn_ok [keeps]:
  "nConnectWithRetry conn ctx target config w = Some (r, v) \<Longrightarrow> ok w \<Longrightarrow> ok v"
  "nDisconnect conn nqn w = (e, v) \<Longrightarrow> ok w \<Longrightarrow> ok v"
  "nDisconnectWithContext conn ctx nqn w = (e, v) \<Longrightarrow> ok w \<Longrightarrow> ok v"
  "nGetDevicePath conn nqn w = (r, v) \<Longrightarrow> ok w \<Longrightarrow> ok v"
  by (auto simp: nvme_connector_def bind_eq_Some_conv split: prod.splits dest: keeps)

lemma resolver_sel [simp]:
  "nResolver conn = Some (\<lambda>w. nc_resolver (getc w), \<lambda>r w. putc ((getc w)\<lparr>nc_resolver := r\<rparr>) w)"
  "nConnectedFn conn = Some (\<lambda>nqn w. nvme_IsConnected h nqn (getc w) w)"
  by (simp_all add: nvme_connector_def)

lemma resolve_ok [keeps]: "resolve h (\<lambda>w. nc_resolver (getc w), \<lambda>r w. putc ((getc w)\<lparr>nc_resolver := r\<rparr>) w) nqn w = (x, v) \<Longrightarrow> ok w \<Longrightarrow> ok v"
  by (auto simp: resolve_def split: prod.splits)

lemma GetStaleInfo_ok [keeps]:
  "GetStaleInfo h \<lparr> sm_resolver = nResolver conn, sm_getMountDev = g \<rparr> mountPath nqn w = (x, v) \<Longrightarrow> ok w \<Longrightarrow> ok v"
  by (auto simp: GetStaleInfo_def Let_def split: sum.splits file_err.splits prod.splits dest: resolve_ok)

lemma IsMountStale_ok [keeps]:
  "IsMountStale h \<lparr> sm_resolver = nResolver conn, sm_getMountDev = g \<rparr> mountPath nqn w = (x, v) \<Longrightarrow> ok w \<Longrightarrow> ok v"
  by (auto simp: IsMountStale_def split: sum.splits file_err.splits prod.splits if_splits dest: resolve_ok)

lemma recover_again_ok:
  "recover_again h ctx n backoff result err next w = Some (x, v) \<Longrightarrow> ok w \<Longrightarrow>
    (\<And>result w x v. next result w = Some (x, v) \<Longrightarrow> ok w \<Longrightarrow> ok v) \<Longrightarrow> ok v"
  by (cases x) (auto simp: recover_again_def Let_def split: if_splits prod.splits option.splits dest!: ok_wait)

lemma post_if_ok [simp]: "ok w \<Longrightarrow> (\<And>k x v. poster = Some k \<Longrightarrow> post k w = (x, v) \<Longrightarrow> ok v) \<Longrightarrow> ok (post_if b poster post w)"
  by (auto simp: post_if_def split: option.splits) (metis prod.collapse)

lemma post_event_ok [keeps]: "post_event k ns n ty r m w = (x, v) \<Longrightarrow> poster = Some k \<Longrightarrow> ok w \<Longrightarrow> ok v"
  by (auto simp: post_event_def ok_event split: prod.splits option.splits dest: ok_claim)

lemma Execute_ok:
  "Execute gb volumeID fn cbs w = (x, cbs', v) \<Longrightarrow> ok w \<Longrightarrow> (\<And>w r v. fn w = (r, v) \<Longrightarrow> ok w \<Longrightarrow> ok v) \<Longrightarrow> ok v"
  by (auto simp: Execute_def split: prod.splits dest: ok_breaker)

lemma recover_loop_ok:
  assumes "mr_mounter r = mounter h"
  shows "recover_loop h r (\<lambda>w. nc_resolver (getc w), \<lambda>r w. putc ((getc w)\<lparr>nc_resolver := r\<rparr>) w) ctx mountPath nqn fsType
    mountOptions n attempt backoff result w = Some (x, v) \<Longrightarrow> ok w \<Longrightarrow> ok v"
proof (induction n arbitrary: attempt backoff result w x v)
  case 0
  then show ?case by auto
next
  case (Suc n)
  note step = recover_again_ok [OF _ _ Suc.IH]
  from Suc.prems show ?case
    by (auto simp: assms Let_def split: option.splits prod.splits sum.splits list.splits
        elim!: bind_SomeE dest!: ForceUnmount_ok resolve_ok Mount_ok step)
qed

lemma Recover_ok [keeps]: "Recover h (ns_recoverer server) ctx mountPath nqn fsType mountOptions w = Some (x, v) \<Longrightarrow> ok w \<Longrightarrow> ok v"
  by (auto simp: Recover_def Let_def simp del: recover_loop.simps split: prod.splits dest!: GetStaleInfo_ok [unfolded resolver_sel] recover_loop_ok [rotated])

lemmas posts = PostConnectionFailure_def PostMountFailure_def PostStaleMountDetected_def PostRecoveryFailed_def

lemma checkAndRecoverMount_ok [keeps]:
  "checkAndRecoverMount server ctx stagingPath nqn fsType mountOptions namespace name volumeID w = Some (x, v) \<Longrightarrow> ok w \<Longrightarrow> ok v"
  by (auto simp: checkAndRecoverMount_def Let_def posts split: prod.splits sum.splits if_splits option.splits elim!: bind_SomeE
      dest!: GetStaleInfo_ok [unfolded resolver_sel] Recover_ok [unfolded server_sel resolver_sel]
      intro!: post_if_ok dest: post_event_ok)

lemma formatted_loop_ok: "formatted_loop server ctx devicePath n w = (x, v) \<Longrightarrow> ok w \<Longrightarrow> ok v"
proof (induction n arbitrary: w)
  case 0
  then show ?case by (subst (asm) formatted_loop.simps) (auto split: prod.splits sum.splits dest: IsFormatted_ok)
next
  case (Suc n)
  from Suc.prems show ?case
    by (subst (asm) formatted_loop.simps)
      (auto split: prod.splits sum.splits option.splits dest!: IsFormatted_ok ok_wait dest: Suc.IH)
qed

lemma stage_filesystem_ok: "stage_filesystem server ctx req devicePath w = (x, v) \<Longrightarrow> ok w \<Longrightarrow> ok v"
  by (auto simp: stage_filesystem_def Let_def split: prod.splits sum.splits option.splits if_splits
      dest!: formatted_loop_ok CheckFilesystemHealth_ok Format_ok Mount_ok)

lemma NodeStageVolume_ok [keeps]:
  "NodeStageVolume server ctx req cbs w = Some (x, cbs', v) \<Longrightarrow> ok w \<Longrightarrow> ok v"
  by (auto simp: NodeStageVolume_def Let_def posts split: sum.splits prod.splits if_splits option.splits elim!: bind_SomeE
      dest!: conn_ok(1) conn_ok(2) Execute_ok [OF _ _ stage_filesystem_ok]
      intro!: post_if_ok dest: post_event_ok)

lemma server_unstage_ok:
  "unstage_block server ctx nqn w = (x, v) \<Longrightarrow> ok w \<Longrightarrow> ok v"
  "unstage_filesystem server ctx stagingPath nqn w = (x, v) \<Longrightarrow> ok w \<Longrightarrow> ok v"
  by (rule unstage_ok [of server]; simp add: conn_ok(4); blast intro: conn_ok(4))+

lemma NodeUnstageVolume_ok [keeps]: "NodeUnstageVolume server ctx volumeID stagingPath w = (x, v) \<Longrightarrow> ok w \<Longrightarrow> ok v"
  by (auto simp: NodeUnstageVolume_def Let_def split: if_splits prod.splits option.splits
      dest!: IsLikelyMountPoint_ok server_unstage_ok conn_ok(2))

lemma publish_block_ok: "publish_block server req w = (x, v) \<Longrightarrow> ok w \<Longrightarrow> ok v"
  by (auto simp: publish_block_def split: sum.splits prod.splits option.splits if_splits
      dest!: conn_ok(4) ok_mkdir ok_mknod)

lemma publish_filesystem_ok: "publish_filesystem server ctx req w = Some (x, v) \<Longrightarrow> ok w \<Longrightarrow> ok v"
  by (auto simp: publish_filesystem_def Let_def split: sum.splits prod.splits option.splits if_splits bool.splits elim!: bind_SomeE
      dest!: IsLikelyMountPoint_ok checkAndRecoverMount_ok Mount_ok)

lemma NodePublishVolume_ok [keeps]: "NodePublishVolume server ctx req w = Some (x, v) \<Longrightarrow> ok w \<Longrightarrow> ok v"
  by (auto simp: NodePublishVolume_def split: if_splits dest: publish_block_ok publish_filesystem_ok)

lemma NodeUnpublishVolume_ok [keeps]: "NodeUnpublishVolume server volumeID targetPath w = (x, v) \<Longrightarrow> ok w \<Longrightarrow> ok v"
  by (auto simp: NodeUnpublishVolume_def split: if_splits sum.splits file_err.splits prod.splits option.splits
      dest!: ok_remove ok_removeall Unmount_ok)

lemma NodeGetVolumeStats_ok [keeps]: "NodeGetVolumeStats server volumeID volumePath w = (x, v) \<Longrightarrow> ok w \<Longrightarrow> ok v"
  by (auto simp: NodeGetVolumeStats_def Let_def split: if_splits sum.splits prod.splits bool.splits
      dest!: IsLikelyMountPoint_ok IsMountStale_ok [unfolded resolver_sel] GetDeviceStats_ok)

lemma NodeExpandVolume_ok [keeps]: "NodeExpandVolume server volumeID volumePath n w = (x, v) \<Longrightarrow> ok w \<Longrightarrow> ok v"
  by (auto simp: NodeExpandVolume_def split: if_splits sum.splits prod.splits option.splits
      dest!: IsLikelyMountPoint_ok conn_ok(4) ResizeFilesystem_ok)

lemma cleanup_loop_ok:
  "oc_connector oc = conn \<Longrightarrow> cleanup_loop h oc getr ctx nqns w = (x, v) \<Longrightarrow> ok w \<Longrightarrow> ok v"
proof (induction nqns arbitrary: w)
  case Nil
  then show ?case by simp
next
  case (Cons nqn nqns)
  have orphan: "IsOrphanedSubsystem h (nConnectedFn conn) nqn r u = (y, u') \<Longrightarrow> ok u \<Longrightarrow> ok u'" for r u y u'
    by (rule IsOrphanedSubsystem_ok) (auto dest: nvme_IsConnected_ok)
  from Cons.prems show ?case
    by (auto simp del: resolver_sel split: if_splits option.splits prod.splits sum.splits bool.splits
        dest!: orphan conn_ok(3) Cons.IH [OF Cons.prems(1)])
qed

lemma CleanupOrphanedConnections_ok [keeps]:
  "CleanupOrphanedConnections h (NewOrphanCleaner conn prefix) ctx w = Some (x, v) \<Longrightarrow> ok w \<Longrightarrow> ok v"
  by (auto simp: CleanupOrphanedConnections_def NewOrphanCleaner_def split: option.splits sum.splits dest: cleanup_loop_ok [rotated])

end

subsection \<open>Runs of the node service\<close>

text \<open>
  Any sequence of calls of the handlers and of the clean-up, with any contexts and requests, in which the world moves on
  between the calls as \<open>env\<close> allows.
\<close>

inductive node_run :: "('w \<Rightarrow> 'w \<Rightarrow> bool) \<Rightarrow> ('w, 'b) NodeServer \<Rightarrow> 'b breakers \<times> 'w \<Rightarrow> 'b breakers \<times> 'w \<Rightarrow> bool"
  for env :: "'w \<Rightarrow> 'w \<Rightarrow> bool" and ns :: "('w, 'b) NodeServer" and s :: "'b breakers \<times> 'w" where
  start: "node_run env ns s s"
| other: "node_run env ns s (cbs, w) \<Longrightarrow> env w v \<Longrightarrow> node_run env ns s (cbs, v)"
| stage: "node_run env ns s (cbs, w) \<Longrightarrow> NodeStageVolume ns ctx req cbs w = Some (x, cbs', v) \<Longrightarrow> node_run env ns s (cbs', v)"
| unstage: "node_run env ns s (cbs, w) \<Longrightarrow> NodeUnstageVolume ns ctx volumeID path w = (x, v) \<Longrightarrow> node_run env ns s (cbs, v)"
| publish: "node_run env ns s (cbs, w) \<Longrightarrow> NodePublishVolume ns ctx preq w = Some (x, v) \<Longrightarrow> node_run env ns s (cbs, v)"
| unpublish: "node_run env ns s (cbs, w) \<Longrightarrow> NodeUnpublishVolume ns volumeID path w = (x, v) \<Longrightarrow> node_run env ns s (cbs, v)"
| stats: "node_run env ns s (cbs, w) \<Longrightarrow> NodeGetVolumeStats ns volumeID path w = (y, v) \<Longrightarrow> node_run env ns s (cbs, v)"
| expand: "node_run env ns s (cbs, w) \<Longrightarrow> NodeExpandVolume ns volumeID path n w = (z, v) \<Longrightarrow> node_run env ns s (cbs, v)"
| cleanup: "node_run env ns s (cbs, w) \<Longrightarrow>
    CleanupOrphanedConnections (ns_host ns) (NewOrphanCleaner (ns_nvmeConn ns) prefix) ctx w = Some (e, v) \<Longrightarrow>
    node_run env ns s (cbs, v)"

context guarded_server
begin

lemma node_run_ok:
  assumes env: "\<And>w v. env w v \<Longrightarrow> ok w \<Longrightarrow> ok v"
  shows "node_run env server s t \<Longrightarrow> ok (snd s) \<Longrightarrow> ok (snd t)"
proof (induction rule: node_run.induct)
  case start
  then show ?case .
next
  case (cleanup cbs w prefix ctx e v)
  then show ?case using CleanupOrphanedConnections_ok by simp
qed (auto simp del: server_sel dest: env keeps)

end

subsection \<open>The record of a machine\<close>

text \<open>
  The rule for the programs of the node service: a file system is made on a device only right after \<^verbatim>\<open>blkid\<close> found none on it,
  a mount that a process uses is not unmounted lazily, and only targets of volumes of the driver are disconnected.
\<close>

definition node_rule :: "'w host \<Rightarrow> 'w rule" where
  "node_rule h name args log w \<longleftrightarrow>
     (name \<in> {''mkfs.ext4'', ''mkfs.ext3'', ''mkfs.xfs''} \<longrightarrow>
        (\<exists>b rest. log = b # rest \<and> cmd_name b = ''blkid'' \<and> cmd_args b = blkid_args (last args)
           \<and> no_filesystem (cmd_out b, cmd_err b))) \<and>
     (\<forall>target. name = ''umount'' \<and> args = [''-l'', target] \<longrightarrow> \<not> in_use h target w) \<and>
     (name = ''nvme'' \<and> args \<noteq> [] \<and> hd args = ''disconnect'' \<longrightarrow>
        (\<exists>nqn. args = [''disconnect'', ''-n'', nqn] \<and> ValidateNQN nqn = None \<and> managed nqn))"

lemma logged_holds_open [simp]: "holds_open (logged h) p lw pid = holds_open h p (snd lw) pid"
  by (simp add: holds_open_def Let_def split: sum.split)

lemma logged_in_use [simp]: "in_use (logged h) target lw = in_use h target (snd lw)"
  by (simp add: in_use_def IsMountInUse_def Let_def split: sum.split file_err.split cong: option.case_cong)

lemma mkfs_args: "mkfs_command device fsType = Some (cmd, args) \<Longrightarrow>
    cmd \<in> {''mkfs.ext4'', ''mkfs.ext3'', ''mkfs.xfs''} \<and> last args = device"
  by (auto simp: mkfs_command_def split: if_splits)

interpretation node_log: guarded_node "logged h" "\<lambda>lw. lawful (node_rule h) (fst lw)"
  "\<lambda>name args lw. node_rule h name args (fst lw) (snd lw)" for h :: "'w host"
proof (intro guarded_node.intro guarded_device.intro guarded_mounts.intro guarded_logged)
  show "guarded_mounts_axioms (logged h) (\<lambda>name args lw. node_rule h name args (fst lw) (snd lw))"
    by unfold_locales
      (auto simp: node_rule_def log_run_def split: prod.splits dest!: mkfs_args)
  show "guarded_device_axioms (\<lambda>name args lw. node_rule h name args (fst lw) (snd lw))"
    by unfold_locales (auto simp: node_rule_def)
  show "guarded_node_axioms (\<lambda>name args lw. node_rule h name args (fst lw) (snd lw))"
    by unfold_locales (auto simp: node_rule_def)
qed

text \<open>
  What the libraries are documented to do: a breaker runs the function once or refuses to run it; the backoff runs its
  condition and waits, any number of times in any order; posting an event runs no program.
\<close>

definition runs_once :: "('b, 'w) gobreaker \<Rightarrow> bool" where
  "runs_once gb \<longleftrightarrow> (\<forall>fn b w out b' v. gbExecute gb fn b w = (out, b', v) \<longrightarrow>
     (case out of Ran e \<Rightarrow> fn w = (e, v) | _ \<Rightarrow> v = w))"

inductive backoff_run :: "('s \<Rightarrow> ((goerr + bool) \<times> 's) option) \<Rightarrow> ('s \<Rightarrow> 's \<Rightarrow> bool) \<Rightarrow> 's \<Rightarrow> 's \<Rightarrow> bool"
  for cond :: "'s \<Rightarrow> ((goerr + bool) \<times> 's) option" and waits :: "'s \<Rightarrow> 's \<Rightarrow> bool" where
  "backoff_run cond waits s s"
| "cond s = Some (r, s1) \<Longrightarrow> backoff_run cond waits s1 s2 \<Longrightarrow> backoff_run cond waits s s2"
| "waits s s1 \<Longrightarrow> backoff_run cond waits s1 s2 \<Longrightarrow> backoff_run cond waits s s2"

fun log_waits :: "'w logworld retry_state \<Rightarrow> 'w logworld retry_state \<Rightarrow> bool" where
  "log_waits (path, err, c, lw) (path', err', c', lw') = (path = path' \<and> err = err' \<and> c = c' \<and> fst lw = fst lw')"

definition iterates :: "('w logworld, 'w logworld retry_state) backoff_wait \<Rightarrow> bool" where
  "iterates expBackoff \<longleftrightarrow>
     (\<forall>ctx bo cond s e s'. expBackoff ctx bo cond s = Some (e, s') \<longrightarrow> backoff_run cond log_waits s s')"

definition posts_only :: "'w logworld kube option \<Rightarrow> bool" where
  "posts_only poster \<longleftrightarrow> (\<forall>k. poster = Some k \<longrightarrow>
     (\<forall>ns n lw. fst (snd (kPVCGet k ns n lw)) = fst lw) \<and> (\<forall>claim ty r m lw. fst (kEvent k claim ty r m lw) = fst lw))"

text \<open>The server of a machine with a record; its connector is kept in the world.\<close>

definition node_on ::
    "'w host \<Rightarrow> ('b, 'w logworld) gobreaker \<Rightarrow> ('w logworld, 'w logworld retry_state) backoff_wait \<Rightarrow> ('w \<Rightarrow> connector)
     \<Rightarrow> (connector \<Rightarrow> 'w \<Rightarrow> 'w) \<Rightarrow> string \<Rightarrow> 'w logworld kube option \<Rightarrow> ('w logworld, 'b) NodeServer" where
  "node_on h gb expBackoff getc putc nodeID poster =
     NewNodeServer (logged h) gb (mounter (logged h))
       (nvme_connector (logged h) expBackoff (\<lambda>lw. getc (snd lw)) (\<lambda>c lw. (fst lw, putc c (snd lw)))) None nodeID poster"

lemma backoff_run_invariant:
  "backoff_run cond waits s s' \<Longrightarrow> P s \<Longrightarrow> (\<And>s r s'. cond s = Some (r, s') \<Longrightarrow> P s \<Longrightarrow> P s') \<Longrightarrow>
    (\<And>s s'. waits s s' \<Longrightarrow> P s \<Longrightarrow> P s') \<Longrightarrow> P s'"
  by (induction rule: backoff_run.induct) blast+

lemma server_guarded:
  fixes h :: "'w host"
  assumes "runs_once gb" "iterates expBackoff" "posts_only poster"
  shows "guarded_server (logged h) (\<lambda>lw. lawful (node_rule h) (fst lw)) (\<lambda>name args lw. node_rule h name args (fst lw) (snd lw))
    expBackoff (\<lambda>c lw. (fst lw, putc c (snd lw))) gb poster"
proof (intro guarded_server.intro node_log.guarded_node_axioms, unfold_locales)
  show "lawful (node_rule h) (fst (retry_world s'))"
    if "expBackoff ctx bo cond s = Some (e, s')" "lawful (node_rule h) (fst (retry_world s))"
      "\<And>s r s'. cond s = Some (r, s') \<Longrightarrow> lawful (node_rule h) (fst (retry_world s)) \<Longrightarrow> lawful (node_rule h) (fst (retry_world s'))"
    for ctx bo cond s e s'
  proof -
    have "backoff_run cond log_waits s s'" using that(1) assms(2) unfolding iterates_def by blast
    then show ?thesis
      using that(2)
      by (rule backoff_run_invariant [where P = "\<lambda>s. lawful (node_rule h) (fst (retry_world s))"]) (auto dest: that(3))
  qed
  show "lawful (node_rule h) (fst v)"
    if "gbExecute gb fn b w = (out, b', v)" "lawful (node_rule h) (fst w)"
      "\<And>w r v. fn w = (r, v) \<Longrightarrow> lawful (node_rule h) (fst w) \<Longrightarrow> lawful (node_rule h) (fst v)"
    for fn b w out b' v
  proof -
    from assms(1) that(1) have "case out of Ran e \<Rightarrow> fn w = (e, v) | _ \<Rightarrow> v = w"
      unfolding runs_once_def by blast
    with that(2,3) show ?thesis by (cases out) auto
  qed
  show "lawful (node_rule h) (fst v)"
    if "poster = Some k" "kPVCGet k ns n lw = (x, v)" "lawful (node_rule h) (fst lw)" for k ns n lw x v
  proof -
    from assms(3) that(1) have "fst (snd (kPVCGet k ns n lw)) = fst lw" unfolding posts_only_def by blast
    with that(2,3) show ?thesis by simp
  qed
  show "lawful (node_rule h) (fst (kEvent k claim ty r m lw)) = lawful (node_rule h) (fst lw)"
    if "poster = Some k" for k claim ty r m lw
  proof -
    from assms(3) that have "fst (kEvent k claim ty r m lw) = fst lw" unfolding posts_only_def by blast
    then show ?thesis by simp
  qed
qed simp

lemma node_log_lawful:
  assumes "runs_once gb" "iterates expBackoff" "posts_only poster"
    and "node_run (\<lambda>lw lv. fst lw = fst lv) (node_on h gb expBackoff getc putc nodeID poster) (cbs, [], w) (cbs', log, w')"
  shows "lawful (node_rule h) log"
  using guarded_server.node_run_ok [OF server_guarded [OF assms(1-3)] _ assms(4) [unfolded node_on_def]] by auto

end
