(* ===== verification/NodeProps.thy ===== *)
theory NodeProps
  imports NodeGuard
begin

text \<open>
  Properties of the node service on any machine, with examples on a small one: what it never does to the machine, when it
  refuses to unstage a volume, and what its handlers leave behind.
\<close>

subsection \<open>An example\<close>

text \<open>
  A machine that is connected to one target; the device has a file system or not, and ordinary unmounting works or fails. Its
  world is the connector of the node service. The breaker always runs the function and the backoff runs its condition once.
\<close>

definition example_id :: string where
  "example_id = ''pvc-12345678-1234-1234-1234-123456789abc''"

definition target_nqn :: string where
  "target_nqn = NQNPrefix @ '':'' @ example_id"

definition example_host :: "bool \<Rightarrow> bool \<Rightarrow> connector host" where
  "example_host formatted stuck =
     \<lparr> oNow = (\<lambda>_. 0), oGetpid = (\<lambda>_. 7), oStat = (\<lambda>_ _. Inr \<lparr> st_kind = Directory, st_rdev = 0 \<rparr>),
       oReadFile = (\<lambda>_ _. Inr target_nqn),
       oReadDir = (\<lambda>p _. Inr [(if p = ''/sys/class/nvme'' then ''nvme0'' else if p = ''/proc'' then ''42''
                    else if p = ''/proc/42/fd'' then ''3'' else ''nvme0n1'', True)]),
       oReadlink = (\<lambda>_ _. Inr ''/dev/null''), oEvalSymlinks = (\<lambda>p _. Inr p),
       oMobyMounts = (\<lambda>_ w. (Inr (Inr []), w)),
       oExec = (\<lambda>name args w. (if name = ''nvme'' then (target_nqn, None)
                 else if name = ''blkid'' then (if formatted then (''ext4'', None) else ([], Some (ExitError 2 ''exit status 2'')))
                 else if name = ''findmnt'' then (''/mnt'', None)
                 else if name = ''umount'' \<and> stuck \<and> length args = 1 then (''busy'', Some (ExitError 32 ''exit status 32''))
                 else ([], None), w)),
       oExecCtx = (\<lambda>_ name args w. (([], None), w)),
       oOutputCtx = (\<lambda>_ name args w. (([], Some (ExitError 1 ''exit status 1'')), w)),
       oWait = (\<lambda>_ _ w. (None, w)), oTick = (\<lambda>_ _ w. (True, w)),
       oMkdirAll = (\<lambda>_ _ w. (None, w)), oMknod = (\<lambda>_ _ _ w. (None, w)), oRemove = (\<lambda>_ w. (None, w)),
       oRemoveAll = (\<lambda>_ w. (None, w)), oCreateExcl = (\<lambda>_ _ w. (None, w)) \<rparr>"

definition example_breaker :: "(unit, 'w) gobreaker" where
  "example_breaker =
     \<lparr> gbNew = (\<lambda>_ _. ()), gbExecute = (\<lambda>fn b w. case fn w of (e, w) \<Rightarrow> (Ran e, b, w)), gbState = (\<lambda>_ _. ''closed'') \<rparr>"

definition example_backoff :: "('w, 's) backoff_wait" where
  "example_backoff ctx bo cond s =
     (case cond s of
        None \<Rightarrow> None
      | Some (Inl e, s) \<Rightarrow> Some (Some e, s)
      | Some (Inr True, s) \<Rightarrow> Some (None, s)
      | Some (Inr False, s) \<Rightarrow> Some (Some (GoErr ''timed out waiting for the condition''), s))"

definition example_node :: "bool \<Rightarrow> bool \<Rightarrow> (connector logworld, unit) NodeServer" where
  "example_node formatted stuck =
     node_on (example_host formatted stuck) example_breaker example_backoff (\<lambda>c. c) (\<lambda>c _. c) ''node-1'' None"

definition example_request :: NodeStageVolumeRequest where
  "example_request =
     \<lparr> sg_VolumeId = example_id, sg_StagingTargetPath = ''/staging'', sg_VolumeCapability = Some (MountAccess [] []),
       sg_VolumeContext = [''nqn'' \<mapsto> target_nqn, ''nvmeAddress'' \<mapsto> ''10.0.0.1'', ''nvmePort'' \<mapsto> ''4420''] \<rparr>"

lemma example_libraries: "runs_once example_breaker" "iterates example_backoff" "posts_only None"
  by (auto simp: runs_once_def example_breaker_def iterates_def example_backoff_def posts_only_def
      split: prod.splits option.splits sum.splits bool.splits intro: backoff_run.intros)

interpretation example_server: guarded_server "logged h" "\<lambda>lw. lawful (node_rule h) (fst lw)"
  "\<lambda>name args lw. node_rule h name args (fst lw) (snd lw)" example_backoff "\<lambda>lw. getc (snd lw)"
  "\<lambda>c lw. (fst lw, putc c (snd lw))" example_breaker nodeID None
  for h :: "'w host" and getc putc nodeID
  by (rule server_guarded [OF example_libraries])

lemma example_id_nqn: "VolumeIDToNQN example_id = Inr target_nqn"
proof -
  have "uuid_text lhex (drop 4 example_id)" by code_simp
  then have "ValidateVolumeID example_id = None"
    unfolding ValidateVolumeID_None_iff by (intro disjI1 exI [of _ "drop 4 example_id"]) (simp add: example_id_def)
  moreover have "ToLower example_id = example_id" "length example_id \<le> 198" by code_simp+
  ultimately show ?thesis by (simp add: VolumeIDToNQN_Inr_iff target_nqn_def)
qed

lemma target_nqn_valid: "ValidateNQN target_nqn = None"
  using nqnPattern_prefix [of example_id]
  by (simp add: ValidateNQN_None_iff target_nqn_def NQNPrefix_def example_id_def ident_char_def is_digit_def is_lower_def)

lemma example_target: "stage_target example_request = Inr \<lparr> tg_Transport = ''tcp'', tg_NQN = target_nqn,
    tg_TargetAddress = ''10.0.0.1'', tg_TargetPort = 4420, tg_HostNQN = [] \<rparr>"
proof -
  have "ValidatePortString ''4420'' True = Inr 4420" by code_simp
  moreover have "ValidateIPAddress ''10.0.0.1'' = None" by code_simp
  moreover have "ValidateNVMETargetContext target_nqn ''10.0.0.1'' 4420 [] = None"
    by (simp add: ValidateNVMETargetContext_def target_nqn_valid ValidateNVMEAddress_def) code_simp
  moreover have "target_nqn \<noteq> []" "example_id \<noteq> []" by (simp_all add: target_nqn_def example_id_def)
  ultimately show ?thesis by (simp add: stage_target_def example_request_def map_str_def Let_def)
qed

lemma example_reads [simp]:
  "oNow (example_host b s) w = 0" "oStat (example_host b s) p w = Inr \<lparr> st_kind = Directory, st_rdev = 0 \<rparr>"
  "oReadFile (example_host b s) p w = Inr target_nqn"
  "oReadDir (example_host b s) p w = Inr [(if p = ''/sys/class/nvme'' then ''nvme0'' else if p = ''/proc'' then ''42''
     else if p = ''/proc/42/fd'' then ''3'' else ''nvme0n1'', True)]"
  by (simp_all add: example_host_def)

lemma example_paths:
  "filepath_Join (filepath_Join ''/sys'' ''class'') ''nvme'' = ''/sys/class/nvme''"
  "filepath_Join ''/sys/class/nvme'' ''nvme0'' = ''/sys/class/nvme/nvme0''"
  "filepath_Join ''/sys/class/nvme/nvme0'' ''nvme0n1'' = ''/sys/class/nvme/nvme0/nvme0n1''"
  "Base ''/sys/class/nvme/nvme0/nvme0n1'' = ''nvme0n1''"
  "glob_match ''nvme*'' ''nvme0''" "glob_match ''nvme*n*'' ''nvme0n1''"
  by code_simp+

lemma example_trim: "TrimSpace target_nqn = target_nqn" "target_nqn \<noteq> []" "Contains target_nqn target_nqn"
  by code_simp+

lemma example_device: "FindDeviceByNQN (logged (example_host b s)) ''/sys'' target_nqn lw = Inr ''/dev/nvme0n1''"
  by (simp add: FindDeviceByNQN_def ScanControllers_def Glob_def ReadSubsysNQN_def FindBlockDevice_def namespace_device_def
      example_paths example_trim Let_def)

lemma example_exec:
  "oExec (example_host b s) name args w =
     (if name = ''nvme'' then (target_nqn, None)
      else if name = ''blkid'' then (if b then (''ext4'', None) else ([], Some (ExitError 2 ''exit status 2'')))
      else if name = ''findmnt'' then (''/mnt'', None)
      else if name = ''umount'' \<and> s \<and> length args = 1 then (''busy'', Some (ExitError 32 ''exit status 32''))
      else ([], None), w)"
  by (simp add: example_host_def)

lemma example_new_resolver: "dr_root (nc_resolver NewConnector) = ''/sys''" "dr_cache (nc_resolver NewConnector) = Map.empty"
    "nc_execCommand NewConnector"
  by (simp_all add: NewConnector_def NewConnectorWithConfig_def NewDeviceResolver_def NewDeviceResolverWithConfig_def
      DefaultResolverConfig_def DefaultSysfsRoot_def)

abbreviation prog :: "string \<Rightarrow> string list \<Rightarrow> string \<Rightarrow> exec_err option \<Rightarrow> 'w \<Rightarrow> 'w command" where
  "prog name args out err w \<equiv> \<lparr> cmd_name = name, cmd_args = args, cmd_out = out, cmd_err = err, cmd_world = w \<rparr>"

lemma example_moby [simp]: "oMobyMounts (logged (example_host b s)) ctx lw = (Inr (Inr []), lw)"
  by (simp add: logged_def log_keep_def example_host_def)

lemma example_connect:
  "\<exists>c. ConnectWithConfig (logged (example_host b s)) ctx \<lparr> tg_Transport = ''tcp'', tg_NQN = target_nqn,
    tg_TargetAddress = ''10.0.0.1'', tg_TargetPort = 4420, tg_HostNQN = [] \<rparr> cfg NewConnector (log, w) =
    Some (Inr ''/dev/nvme0n1'', c, prog ''nvme'' [''list-subsys'', ''-o'', ''json''] target_nqn None w #
      prog ''nvme'' [''list-subsys'', ''-o'', ''json''] target_nqn None w # log, w)"
  by (simp add: ConnectWithConfig_def target_nqn_valid connect_body_def IsConnectedWithContext_def nvme_IsConnected_def nvme_command_def
    IsOrphanedSubsystem_def GetDevicePath_def ResolveDevicePath_def example_exec log_run_def example_trim example_device
    example_new_resolver trackOperation_def untrackOperation_def Let_def)

abbreviation blank_answer :: "'w \<Rightarrow> 'w command" where
  "blank_answer w \<equiv> prog ''blkid'' (blkid_args ''/dev/nvme0n1'') [] (Some (ExitError 2 ''exit status 2'')) w"

lemma example_filesystem:
  "stage_filesystem (example_node False False) ctx example_request ''/dev/nvme0n1'' (log, w) =
    (None, prog ''mount'' [''-t'', ''ext4'', ''/dev/nvme0n1'', ''/staging''] [] None w #
       prog ''mkfs.ext4'' [''-F'', ''/dev/nvme0n1''] [] None w # blank_answer w # blank_answer w # log, w)"
  by (simp add: stage_filesystem_def example_node_def node_on_def NewNodeServer_def formatted_loop.simps isFormattedMaxRetries_def
   mounter_def IsFormatted_def Format_def Mount_def example_exec log_run_def example_request_def fs_type_def defaultFSType_def mount_flags_def Let_def
   mkfs_command_def storm_check_def GetMountsWithTimeout_def DetectDuplicateMounts_def MaxDuplicateMountsPerDevice_def
   SanitizeMountOptions_def ensure_target_def mount_args_def)

lemma example_sel [simp]:
  "ns_host (example_node b s) = logged (example_host b s)" "ns_mounter (example_node b s) = mounter (logged (example_host b s))"
  "ns_nvmeConn (example_node b s) = nvme_connector (logged (example_host b s)) example_backoff snd (\<lambda>c lw. (fst lw, c))"
  "ns_gobreaker (example_node b s) = example_breaker" "ns_eventPoster (example_node b s) = None"
  by (simp_all add: example_node_def node_on_def NewNodeServer_def Let_def)

lemma example_checker [simp]:
  "ns_staleChecker (example_node b s) = Some \<lparr> sm_resolver = nResolver (ns_nvmeConn (example_node b s)),
     sm_getMountDev = GetMountDevice (logged (example_host b s)) \<rparr>"
  "ns_recoverer (example_node b s) = \<lparr> mr_config = DefaultRecoveryConfig, mr_mounter = mounter (logged (example_host b s)),
     mr_checker = the (ns_staleChecker (example_node b s)), mr_resolver = nResolver (ns_nvmeConn (example_node b s)) \<rparr>"
  by (simp_all add: example_node_def node_on_def NewNodeServer_def NewStaleMountChecker_def Let_def)

lemma example_stage:
  "\<exists>cbs c q. NodeStageVolume (example_node False False) Background example_request Map.empty ([], NewConnector) =
    Some (Inr (), cbs, prog ''mount'' [''-t'', ''ext4'', ''/dev/nvme0n1'', ''/staging''] [] None c #
       prog ''mkfs.ext4'' [''-F'', ''/dev/nvme0n1''] [] None c # blank_answer c # blank_answer c # q, c)"
proof -
  let ?target = "\<lparr> tg_Transport = ''tcp'', tg_NQN = target_nqn, tg_TargetAddress = ''10.0.0.1'', tg_TargetPort = 4420, tg_HostNQN = [] \<rparr>"
  obtain c q where "ConnectWithConfig (logged (example_host False False)) Background ?target (stage_config (sg_VolumeContext example_request))
      NewConnector ([], NewConnector) = Some (Inr ''/dev/nvme0n1'', c, q, NewConnector)"
    using example_connect by blast
  then have "nConnectWithRetry (ns_nvmeConn (example_node False False)) Background ?target
      (stage_config (sg_VolumeContext example_request)) ([], NewConnector) = Some (Inr ''/dev/nvme0n1'', q, c)"
    by (simp add: nvme_connector_def ConnectWithRetry_def RetryWithBackoff_def example_backoff_def retry_condition_def connect_attempt_def)
  moreover have "sg_VolumeCapability example_request \<noteq> Some BlockAccess" by (simp add: example_request_def)
  ultimately show ?thesis
    by (simp add: NodeStageVolume_def example_target Execute_def getBreaker_def example_breaker_def example_filesystem
        Let_def del: example_sel(1,2,3))
qed

subsection \<open>What the node service never does\<close>

text \<open>C3. Whatever the machine does and whatever the node service is asked to do, in any order: it makes a file system on a
  device only directly after \<^verbatim>\<open>blkid\<close> has reported that there is none on this device.\<close>

theorem mkfs_only_on_blank_device:
  assumes "runs_once gb" "iterates expBackoff" "posts_only poster"
    and "node_run (\<lambda>lw lv. fst lw = fst lv) (node_on h gb expBackoff getc putc nodeID poster) (cbs, [], w) (cbs', log, w')"
    and "log = later @ c # earlier" "cmd_name c \<in> {''mkfs.ext4'', ''mkfs.ext3'', ''mkfs.xfs''}"
  shows "\<exists>b rest. earlier = b # rest \<and> cmd_name b = ''blkid'' \<and> cmd_args b = blkid_args (last (cmd_args c))
    \<and> no_filesystem (cmd_out b, cmd_err b)"
  using lawful_entry [OF node_log_lawful [OF assms(1-4)] assms(5)] assms(6) unfolding node_rule_def by blast

theorem mkfs_only_on_blank_device_witness:
  "\<exists>cbs log c later rest. node_run (\<lambda>lw lv. fst lw = fst lv) (example_node False False) (Map.empty, [], NewConnector) (cbs, log, c) \<and>
    log = later @ prog ''mkfs.ext4'' [''-F'', ''/dev/nvme0n1''] [] None c # blank_answer c # rest \<and>
    no_filesystem (cmd_out (blank_answer c), cmd_err (blank_answer c))"
proof -
  obtain cbs c q where stage: "NodeStageVolume (example_node False False) Background example_request Map.empty ([], NewConnector) =
    Some (Inr (), cbs, [prog ''mount'' [''-t'', ''ext4'', ''/dev/nvme0n1'', ''/staging''] [] None c] @
       prog ''mkfs.ext4'' [''-F'', ''/dev/nvme0n1''] [] None c # blank_answer c # blank_answer c # q, c)" (is "_ = Some (_, _, ?log, _)")
    using example_stage by auto
  note run = node_run.stage [OF node_run.start stage, of "\<lambda>lw lv. fst lw = fst lv"]
  have "\<exists>b rest. blank_answer c # blank_answer c # q = b # rest \<and> cmd_name b = ''blkid'' \<and>
      cmd_args b = blkid_args (last [''-F'', ''/dev/nvme0n1'']) \<and> no_filesystem (cmd_out b, cmd_err b)"
    using mkfs_only_on_blank_device [OF example_libraries run [unfolded example_node_def] refl] by simp
  with run show ?thesis by blast
qed

lemma example_output [simp]:
  "oOutputCtx (logged (example_host b s)) ctx name args lw =
    (([], Some (ExitError 1 ''exit status 1'')), prog name args [] (Some (ExitError 1 ''exit status 1'')) (snd lw) # fst lw, snd lw)"
  by (simp add: logged_def log_run_def example_host_def)

lemma example_managed: "managed target_nqn" "example_id \<noteq> []"
  by code_simp+

lemmas example_eval = mounter_def nvme_connector_def example_exec log_run_def example_trim example_device example_new_resolver
  example_managed target_nqn_valid example_id_nqn IsLikelyMountPoint_def Unmount_def GetDevicePath_def ResolveDevicePath_def

lemma example_unstage:
  "\<exists>c q v. NodeUnstageVolume (example_node True False) Background example_id ''/staging'' ([], NewConnector) =
    (Inr (), prog ''nvme'' [''disconnect'', ''-n'', target_nqn] target_nqn None v # q, c)"
  by (simp add: NodeUnstageVolume_def unstage_filesystem_def CheckDeviceInUseWithRetry_def check_loop.simps CheckDeviceInUse_def
      DeviceCheckTimeout_def second_def not_in_use_def busy_def Disconnect_def DisconnectWithContext_def disconnect_body_def trackOperation_def
      IsConnectedWithContext_def nvme_command_def example_eval Let_def)

definition example_publish :: NodePublishVolumeRequest where
  "example_publish =
     \<lparr> np_VolumeId = example_id, np_StagingTargetPath = ''/staging'', np_TargetPath = ''/target'',
       np_VolumeCapability = Some (MountAccess [] []), np_VolumeContext = Map.empty, np_Readonly = False \<rparr>"

lemma example_mount_device: "GetMountDevice (logged (example_host b s)) path lw = Inl (GoErr (''mount point not found: '' @ path))"
proof -
  have "Split (CHR 0x0A) target_nqn = [target_nqn]" "length (Fields target_nqn) < 10" "TrimSuffix target_nqn [CHR 0x0D] = target_nqn"
    by code_simp+
  moreover from this have "scan_lines target_nqn = Inr [target_nqn]"
    by (simp add: scan_lines_def example_trim) (simp add: target_nqn_def NQNPrefix_def example_id_def)
  ultimately show ?thesis by (simp add: GetMountDevice_def GetMounts_def parseMountInfoLine_def Let_def)
qed

lemma example_idle: "IsMountInUse (logged (example_host b s)) ''/staging'' lw = Inr []" "\<not> in_use (example_host b s) ''/staging'' w"
proof -
  have "Atoi ''42'' = Some 42" "Itoa 42 = ''42''" "TrimSuffix ''/staging'' ''/'' = ''/staging''"
    "HasPrefix ''/dev/null'' ''/staging/'' = False" by code_simp+
  moreover from this have "\<not> holds_open (example_host b s) ''/staging'' w 42" for w
    by (simp add: holds_open_def) (simp add: example_host_def)
  moreover have "oEvalSymlinks (example_host b s) p w = Inr p" for p w by (simp add: example_host_def)
  ultimately show "IsMountInUse (logged (example_host b s)) ''/staging'' lw = Inr []" "\<not> in_use (example_host b s) ''/staging'' w"
    by (simp_all add: IsMountInUse_def in_use_def)
qed

lemma example_tick [simp]: "oTick (logged (example_host b s)) d t lw = (True, lw)"
  by (simp add: logged_def log_keep_def example_host_def)

lemma example_options:
  "SanitizeMountOptions [] False = Inr []" "SanitizeMountOptions [''bind''] True = Inr [''nosuid'', ''nodev'', ''noexec'', ''bind'']"
  by code_simp+

lemma example_recover:
  "\<exists>a b q c. NodePublishVolume (example_node True True) Background example_publish ([], NewConnector) =
    Some (Inr (), [a, b] @ prog ''umount'' [''-l'', ''/staging''] [] None NewConnector # q, c)"
  by (simp add: NodePublishVolume_def publish_filesystem_def example_publish_def publish_nqn_def map_str_def checkAndRecoverMount_def
      GetStaleInfo_def example_mount_device no_info_def Recover_def DefaultRecoveryConfig_def ForceUnmount_def force_wait.simps
      escalate_def example_idle recover_again_def resolve_def Mount_def storm_check_def GetMountsWithTimeout_def DetectDuplicateMounts_def
      MaxDuplicateMountsPerDevice_def example_options ensure_target_def mount_args_def fs_type_def mount_flags_def defaultFSType_def
      post_if_def numeral_3_eq_3 example_eval Let_def)

text \<open>C12. Whatever the machine does and whatever the node service is asked to do, in any order: it disconnects only targets whose
  NQN is valid and has the prefix of the volumes of the driver, and never any other target of the machine.\<close>

theorem disconnects_managed_only:
  assumes "runs_once gb" "iterates expBackoff" "posts_only poster"
    and "node_run (\<lambda>lw lv. fst lw = fst lv) (node_on h gb expBackoff getc putc nodeID poster) (cbs, [], w) (cbs', log, w')"
    and "c \<in> set log" "cmd_name c = ''nvme''" "cmd_args c = ''disconnect'' # args"
  shows "\<exists>nqn. args = [''-n'', nqn] \<and> ValidateNQN nqn = None \<and> HasPrefix nqn ''nqn.2000-02.com.mikrotik:pvc-''"
proof -
  obtain later earlier where log: "log = later @ c # earlier" using assms(5) split_list by metis
  from lawful_entry [OF node_log_lawful [OF assms(1-4)] log] assms(6,7)
  show ?thesis by (simp add: node_rule_def managed_def)
qed

theorem disconnects_managed_only_witness:
  "\<exists>log c v. node_run (\<lambda>lw lv. fst lw = fst lv) (example_node True False) (Map.empty, [], NewConnector) (Map.empty, log, c) \<and>
    prog ''nvme'' [''disconnect'', ''-n'', target_nqn] target_nqn None v \<in> set log \<and> ValidateNQN target_nqn = None \<and>
    HasPrefix target_nqn ''nqn.2000-02.com.mikrotik:pvc-''"
proof -
  obtain c q v where unstage: "NodeUnstageVolume (example_node True False) Background example_id ''/staging'' ([], NewConnector) =
      (Inr (), prog ''nvme'' [''disconnect'', ''-n'', target_nqn] target_nqn None v # q, c)"
    using example_unstage by blast
  note run = node_run.unstage [OF node_run.start unstage, of "\<lambda>lw lv. fst lw = fst lv" Map.empty]
  from disconnects_managed_only [OF example_libraries run [unfolded example_node_def] list.set_intros(1)]
  have "ValidateNQN target_nqn = None \<and> HasPrefix target_nqn ''nqn.2000-02.com.mikrotik:pvc-''" by simp
  with run show ?thesis by (metis list.set_intros(1))
qed

text \<open>
  What the machine shows of a process that has a file open at or below a mount: the mount point resolves, \<^verbatim>\<open>/proc\<close> lists the
  process, and a descriptor in its descriptor directory is a link to the resolved mount point or to something below it. A process whose
  descriptors cannot be read does not count.
\<close>

definition process_holds :: "'w host \<Rightarrow> string \<Rightarrow> 'w \<Rightarrow> nat \<Rightarrow> bool" where
  "process_holds h target w pid \<longleftrightarrow> pid < 2 ^ 63 \<and>
     (\<exists>canonical procs fds fd rest. oEvalSymlinks h target w = Inr canonical \<and>
        oReadDir h ''/proc'' w = Inr procs \<and> dec_nat pid \<in> fst ` set procs \<and>
        oReadDir h (''/proc/'' @ dec_nat pid @ ''/fd'') w = Inr fds \<and> dec_nat fd \<in> fst ` set fds \<and>
        oReadlink h (''/proc/'' @ dec_nat pid @ ''/fd/'' @ dec_nat fd) w = Inr (canonical @ rest) \<and>
        (rest = [] \<or> HasPrefix rest ''/'' \<or> HasSuffix canonical ''/''))"

lemma dec_nat_plain: "plain (dec_nat n)"
  using dec_nat_digits [of n] by (auto simp: plain_def is_digit_def list_all_iff)

lemma fd_path: "filepath_Join (''/proc/'' @ dec_nat p @ ''/fd'') (dec_nat n) = ''/proc/'' @ dec_nat p @ ''/fd/'' @ dec_nat n"
proof -
  have "list_all plain [''proc'', dec_nat p, ''fd'', dec_nat n]" by (simp add: dec_nat_plain) (simp add: plain_def)
  from Clean_Join_plain [OF this] show ?thesis by (simp add: filepath_Join_def)
qed

lemma trim_slash: 
  assumes "rest = [] \<or> HasPrefix rest ''/'' \<or> HasSuffix p ''/''"
  shows "p @ rest = TrimSuffix p ''/'' \<or> HasPrefix (p @ rest) (TrimSuffix p ''/'' @ ''/'')"
proof (cases "HasSuffix p ''/''")
  case True
  then obtain q where "p = q @ ''/''" by (auto simp: HasSuffix_def) (metis append_take_drop_id)
  then show ?thesis by (auto simp: TrimSuffix_def HasSuffix_def HasPrefix_iff)
next
  case False
  with assms show ?thesis by (auto simp: TrimSuffix_def HasPrefix_iff)
qed

lemma process_holds_seen:
  assumes "process_holds h target w pid"
  shows "\<exists>pid pids. IsMountInUse h target w = Inr (pid # pids)"
proof -
  from assms obtain canonical procs fds fd rest where o: "oEvalSymlinks h target w = Inr canonical"
      "oReadDir h ''/proc'' w = Inr procs" "dec_nat pid \<in> fst ` set procs"
      "oReadDir h (''/proc/'' @ dec_nat pid @ ''/fd'') w = Inr fds" "dec_nat fd \<in> fst ` set fds"
      "oReadlink h (''/proc/'' @ dec_nat pid @ ''/fd/'' @ dec_nat fd) w = Inr (canonical @ rest)"
      "rest = [] \<or> HasPrefix rest ''/'' \<or> HasSuffix canonical ''/''"
    unfolding process_holds_def by blast
  have pid: "in_int64 (int pid)" using assms by (simp add: process_holds_def in_int64_def min_int64_def max_int64_def)
  have i: "Itoa (int pid) = dec_nat pid" by (simp add: Itoa_def)
  have "holds_open h (TrimSuffix canonical ''/'') w (int pid)"
    unfolding holds_open_def Let_def i list_ex_iff o(4) sum.case
    using o(5,6) trim_slash [OF o(7)] by (auto simp: fd_path [simplified] intro!: bexI)
  moreover have "Atoi (dec_nat pid) = Some (int pid)" using Atoi_Itoa [OF pid] by (simp add: i)
  ultimately have "\<exists>e \<in> set procs. (case Atoi (fst e) of None \<Rightarrow> []
      | Some p \<Rightarrow> if holds_open h (TrimSuffix canonical ''/'') w p then [p] else []) \<noteq> []"
    using o(3) by force
  then show ?thesis using o(1,2) by (auto simp: IsMountInUse_def Let_def neq_Nil_conv [symmetric])
qed

text \<open>C13. Whatever the machine does and whatever the node service is asked to do, in any order: it never runs \<^verbatim>\<open>umount -l\<close> on a
  mount while \<^verbatim>\<open>/proc\<close> shows a process with a descriptor open at or below it. The mount point must resolve and the
  descriptor directory of the process must be readable, and no other program runs between the scan of \<^verbatim>\<open>/proc\<close> and the
  command. The circuit breaker runs the function it is given once, the backoff only repeats it, and posting an event runs no program.\<close>

theorem lazy_unmount_only_unused:
  assumes "runs_once gb" "iterates expBackoff" "posts_only poster"
    and "node_run (\<lambda>lw lv. fst lw = fst lv) (node_on h gb expBackoff getc putc nodeID poster) (cbs, [], w) (cbs', log, w')"
    and "c \<in> set log" "cmd_name c = ''umount''" "cmd_args c = [''-l'', target]"
  shows "\<not> process_holds h target (cmd_world c) pid"
proof
  assume "process_holds h target (cmd_world c) pid"
  then have busy: "in_use h target (cmd_world c)" unfolding in_use_def by (rule process_holds_seen)
  obtain later earlier where log: "log = later @ c # earlier" using assms(5) split_list by metis
  from lawful_entry [OF node_log_lawful [OF assms(1-4)] log] assms(6,7) busy show False by (simp add: node_rule_def)
qed

text \<open>A stuck mount is detached lazily on a machine where one process runs, with a file elsewhere open.\<close>

theorem lazy_unmount_only_unused_witness:
  "\<exists>log c. node_run (\<lambda>lw lv. fst lw = fst lv) (example_node True True) (Map.empty, [], NewConnector) (Map.empty, log, c) \<and>
    prog ''umount'' [''-l'', ''/staging''] [] None NewConnector \<in> set log \<and>
    oReadDir (example_host True True) ''/proc'' NewConnector = Inr [(''42'', True)] \<and>
    \<not> process_holds (example_host True True) ''/staging'' NewConnector 42"
proof -
  obtain a b q c where publish: "NodePublishVolume (example_node True True) Background example_publish ([], NewConnector) =
    Some (Inr (), [a, b] @ prog ''umount'' [''-l'', ''/staging''] [] None NewConnector # q, c)"
    using example_recover by blast
  note run = node_run.publish [OF node_run.start publish, of "\<lambda>lw lv. fst lw = fst lv" Map.empty]
  have mem: "prog ''umount'' [''-l'', ''/staging''] [] None NewConnector \<in>
      set ([a, b] @ prog ''umount'' [''-l'', ''/staging''] [] None NewConnector # q)" by simp
  from lazy_unmount_only_unused [OF example_libraries run [unfolded example_node_def] mem]
  have "\<not> process_holds (example_host True True) ''/staging'' NewConnector 42" by simp
  moreover have "oReadDir (example_host True True) ''/proc'' NewConnector = Inr [(''42'', True)]" by simp
  ultimately show ?thesis using run mem by blast
qed

subsection \<open>Devices that are in use\<close>

text \<open>What the output of \<^verbatim>\<open>lsof\<close> says: some line after the first names a process other than \<open>own\<close>.\<close>

definition lists_other :: "int \<Rightarrow> string list \<Rightarrow> bool" where
  "lists_other own lines \<longleftrightarrow>
     (\<exists>line \<in> set lines. length (Fields line) \<ge> 2 \<and> (\<exists>pid. Atoi (Fields line ! 1) = Some pid \<and> pid \<noteq> own))"

lemma lsof_lines_other: "fst (lsof_lines own lines) \<noteq> [] \<longleftrightarrow> lists_other own lines"
  by (induction lines) (auto simp: lists_other_def Let_def split: prod.splits option.splits)

lemma CheckDeviceInUse_busy:
  assumes "oOutputCtx h (WithTimeout h ctx DeviceCheckTimeout w) ''lsof'' [dev] w = ((out, err), v)"
  shows "\<exists>res. CheckDeviceInUse h ctx dev w = (res, v) \<and> \<not> (du_InUse res \<and> (du_TimedOut res \<or> du_Error res \<noteq> None)) \<and>
    (du_InUse res \<longleftrightarrow> ctxErr (WithTimeout h ctx DeviceCheckTimeout w) v \<noteq> Some DeadlineExceeded \<and> err = None \<and>
       lists_other (oGetpid h v) (tl (Split (CHR 0x0A) (TrimSpace out))))"
proof -
  let ?ls = "Split (CHR 0x0A) (TrimSpace out)"
  have one: "\<not> lists_other n (tl ?ls)" if "length ?ls \<le> 1" for n
    using that by (cases ?ls) (auto simp: lists_other_def)
  show ?thesis
    using assms one lsof_lines_other [of "oGetpid h v" "tl ?ls"]
    by (auto simp: CheckDeviceInUse_def not_in_use_def Let_def simp del: WithTimeout_sel split: option.splits exec_err.splits prod.splits)
qed

text \<open>The machine keeps reporting another process on the device, is not cancelled and lets no check time out.\<close>

definition keeps_busy :: "'w host \<Rightarrow> 'w ctx \<Rightarrow> string \<Rightarrow> bool" where
  "keeps_busy h ctx dev \<longleftrightarrow>
     (\<forall>w c. \<exists>out v. oOutputCtx h c ''lsof'' [dev] w = ((out, None), v) \<and> oNow h v < oNow h w + DeviceCheckTimeout \<and>
        lists_other (oGetpid h v) (tl (Split (CHR 0x0A) (TrimSpace out)))) \<and>
     (\<forall>w. ctxErr ctx w = None) \<and> (\<forall>d w. fst (oWait h ctx d w) = None)"

lemma keeps_busy_check:
  assumes "keeps_busy h ctx dev"
  shows "\<exists>res v. CheckDeviceInUse h ctx dev w = (res, v) \<and> du_InUse res \<and> \<not> du_TimedOut res \<and> du_Error res = None"
proof -
  obtain out v where v: "oOutputCtx h (WithTimeout h ctx DeviceCheckTimeout w) ''lsof'' [dev] w = ((out, None), v)"
    "oNow h v < oNow h w + DeviceCheckTimeout" "lists_other (oGetpid h v) (tl (Split (CHR 0x0A) (TrimSpace out)))"
    using assms unfolding keeps_busy_def by blast
  have "ctxErr ctx v = None" using assms unfolding keeps_busy_def by blast
  with CheckDeviceInUse_busy [OF v(1)] v(2,3) show ?thesis by auto
qed

lemma keeps_busy_loop:
  assumes "keeps_busy h ctx dev"
  shows "busy (fst (check_loop h ctx dev d n w))"
proof (induction n arbitrary: w)
  case 0
  obtain res v where "CheckDeviceInUse h ctx dev w = (res, v)" "du_InUse res" "\<not> du_TimedOut res" "du_Error res = None"
    using keeps_busy_check [OF assms] by blast
  then show ?case by (subst check_loop.simps) (simp add: busy_def)
next
  case (Suc n)
  obtain res v where v: "CheckDeviceInUse h ctx dev w = (res, v)" "du_InUse res" "\<not> du_TimedOut res" "du_Error res = None"
    using keeps_busy_check [OF assms] by blast
  obtain e u where u: "oWait h ctx d v = (e, u)" by fastforce
  have "fst (oWait h ctx d v) = None" using assms unfolding keeps_busy_def by blast
  with u v Suc.IH show ?case by (subst check_loop.simps) (simp add: busy_def)
qed

text \<open>Unstaging never runs \<^verbatim>\<open>nvme\<close> before it disconnects.\<close>

interpretation quiet_log: guarded_device "logged h" "\<lambda>lw. lawful (\<lambda>name args log w. name \<noteq> ''nvme'') (fst lw)"
  "\<lambda>name args lw. name \<noteq> ''nvme''" for h :: "'w host"
proof (intro guarded_device.intro guarded_mounts.intro guarded_logged [where rule = "\<lambda>name args log w. name \<noteq> ''nvme''"])
  show "guarded_mounts_axioms (logged h) (\<lambda>name args lw. name \<noteq> ''nvme'')"
    by unfold_locales (auto dest: mkfs_args)
  show "guarded_device_axioms (\<lambda>name args lw. name \<noteq> ''nvme'')" by unfold_locales auto
qed

lemma quiet_record: "lawful (\<lambda>name args log w. name \<noteq> ''nvme'') log \<longleftrightarrow> (\<forall>c \<in> set log. cmd_name c \<noteq> ''nvme'')"
  by (induction log) auto

lemma Unmount_fails:
  "Unmount (logged h) target lw = (Some e, lv) \<Longrightarrow> \<exists>c \<in> set (fst lv). cmd_name c = ''umount'' \<and> cmd_err c \<noteq> None"
  by (auto simp: Unmount_def IsLikelyMountPoint_def log_run_def split: sum.splits file_err.splits prod.splits option.splits bool.splits if_splits)

lemma node_on_sel [simp]:
  "ns_host (node_on h gb expBackoff getc putc nodeID poster) = logged h"
  "ns_mounter (node_on h gb expBackoff getc putc nodeID poster) = mounter (logged h)"
  "nGetDevicePath (ns_nvmeConn (node_on h gb expBackoff getc putc nodeID poster)) nqn lw =
     (case ResolveDevicePath (logged h) nqn (nc_resolver (getc (snd lw))) lw of
        (r, res) \<Rightarrow> (r, fst lw, putc ((getc (snd lw))\<lparr>nc_resolver := res\<rparr>) (snd lw)))"
  by (simp_all add: node_on_def NewNodeServer_def nvme_connector_def GetDevicePath_def Let_def split: prod.split)

lemma unstage_quiet:
  assumes "\<forall>c \<in> set (fst lw). cmd_name c \<noteq> ''nvme''"
  shows "unstage_block (node_on h gb expBackoff getc putc nodeID poster) ctx nqn lw = (x, lv) \<Longrightarrow>
      \<forall>c \<in> set (fst lv). cmd_name c \<noteq> ''nvme''"
    and "unstage_filesystem (node_on h gb expBackoff getc putc nodeID poster) ctx path nqn lw = (x, lv) \<Longrightarrow>
      \<forall>c \<in> set (fst lv). cmd_name c \<noteq> ''nvme''"
  using assms unfolding quiet_record [symmetric]
  by (auto intro: quiet_log.unstage_ok [rotated 3] split: prod.splits)

lemma unstage_busy:
  assumes "nqn \<noteq> []" "\<And>lw. fst (ResolveDevicePath (logged h) nqn (nc_resolver (getc (snd lw))) lw) = Inr dev" "keeps_busy (logged h) ctx dev"
  shows "fst (unstage_block (node_on h gb expBackoff getc putc nodeID poster) ctx nqn lw) = Some FailedPrecondition"
    and "unstage_filesystem (node_on h gb expBackoff getc putc nodeID poster) ctx path nqn lw = (x, lv) \<Longrightarrow>
      x = Some FailedPrecondition \<or> x = Some Internal \<and> (\<exists>c \<in> set (fst lv). cmd_name c = ''umount'' \<and> cmd_err c \<noteq> None)"
proof -
  have alive: "ctxErr ctx u = None" for u using assms(3) unfolding keeps_busy_def by blast
  have busy: "busy r" if "CheckDeviceInUseWithRetry (logged h) ctx dev 3 second u = (r, u')" for r u u'
    using keeps_busy_loop [OF assms(3), of second 2 u] that by (simp add: CheckDeviceInUseWithRetry_def)
  have dev: "r = Inr dev" if "ResolveDevicePath (logged h) nqn (nc_resolver (getc (snd u))) u = (r, res)" for u r res
    using assms(2) [of u] that by simp
  show "fst (unstage_block (node_on h gb expBackoff getc putc nodeID poster) ctx nqn lw) = Some FailedPrecondition"
    using assms(1) by (auto simp: unstage_block_def alive split: prod.splits sum.splits dest: dev dest!: busy)
  show "x = Some FailedPrecondition \<or> x = Some Internal \<and> (\<exists>c \<in> set (fst lv). cmd_name c = ''umount'' \<and> cmd_err c \<noteq> None)"
    if "unstage_filesystem (node_on h gb expBackoff getc putc nodeID poster) ctx path nqn lw = (x, lv)"
    using that assms(1)
    by (auto simp: unstage_filesystem_def split: prod.splits sum.splits option.splits if_splits dest: dev Unmount_fails dest!: busy)
qed

text \<open>C5. Unstaging a volume in use. The request has a non-empty volume ID that converts to an NQN and a non-empty staging path, the NQN
  resolves to the same device at every moment, every run of \<^verbatim>\<open>lsof\<close> on that device ends in time and lists a process other than
  the driver, and the call is not cancelled. Then unstaging is refused: the answer is \<^verbatim>\<open>FailedPrecondition\<close>, or \<^verbatim>\<open>Internal\<close> after a run
  of \<^verbatim>\<open>umount\<close> that failed, and the target is not disconnected, in fact \<^verbatim>\<open>nvme\<close> is not run at all.\<close>

theorem unstage_refuses_busy:
  assumes "VolumeIDToNQN volumeID = Inr nqn" "volumeID \<noteq> []" "path \<noteq> []"
    and "\<And>lw. fst (ResolveDevicePath (logged h) nqn (nc_resolver (getc (snd lw))) lw) = Inr dev"
    and "keeps_busy (logged h) ctx dev"
    and "NodeUnstageVolume (node_on h gb expBackoff getc putc nodeID poster) ctx volumeID path ([], w) = (r, log, v)"
  shows "(r = Inl FailedPrecondition \<or> r = Inl Internal \<and> (\<exists>c \<in> set log. cmd_name c = ''umount'' \<and> cmd_err c \<noteq> None)) \<and>
    (\<forall>c \<in> set log. cmd_name c \<noteq> ''nvme'')"
proof -
  let ?ns = "node_on h gb expBackoff getc putc nodeID poster"
  have "nqn \<noteq> []" using assms(1) by (auto simp: VolumeIDToNQN_Inr_iff NQNPrefix_def)
  note busy = unstage_busy [OF this assms(4,5), of gb expBackoff putc nodeID poster]
  obtain m lw where m: "IsLikelyMountPoint (logged h) path ([], w) = (m, lw)" by (rule prod.exhaust)
  have quiet: "\<forall>c \<in> set (fst lw). cmd_name c \<noteq> ''nvme''"
    using quiet_log.IsLikelyMountPoint_ok [OF m] by (simp add: quiet_record)
  show ?thesis
  proof (cases "m = Inr True")
    case True
    obtain x lv where x: "unstage_filesystem ?ns ctx path nqn lw = (x, lv)" by (rule prod.exhaust)
    from busy(2) [OF x] unstage_quiet(2) [OF quiet x] show ?thesis
      using assms(1,2,3,6) m True x by (auto simp: NodeUnstageVolume_def)
  next
    case False
    obtain x lv where x: "unstage_block ?ns ctx nqn lw = (x, lv)" by (rule prod.exhaust)
    from busy(1) [of lw] x have "x = Some FailedPrecondition" by simp
    with unstage_quiet(1) [OF quiet x] show ?thesis
      using assms(1,2,3,6) m False x by (auto simp: NodeUnstageVolume_def)
  qed
qed

definition busy_host :: "connector host" where
  "busy_host = (example_host True False)\<lparr> oOutputCtx := (\<lambda>_ name args w. ((''COMMAND PID USER'' @ [CHR 0x0A] @ ''mysqld 42 root'', None), w)) \<rparr>"

lemma busy_host_busy: "keeps_busy (logged busy_host) Background ''/dev/nvme0n1''"
proof -
  have "tl (Split (CHR 0x0A) (TrimSpace (''COMMAND PID USER'' @ [CHR 0x0A] @ ''mysqld 42 root''))) = [''mysqld 42 root'']"
    "Fields ''mysqld 42 root'' = [''mysqld'', ''42'', ''root'']" "Atoi ''42'' = Some 42"
    by code_simp+
  then have "lists_other 7 (tl (Split (CHR 0x0A) (TrimSpace (''COMMAND PID USER'' @ [CHR 0x0A] @ ''mysqld 42 root''))))"
    unfolding lists_other_def by simp
  then show ?thesis
    by (simp add: keeps_busy_def busy_host_def logged_def log_run_def log_keep_def example_host_def DeviceCheckTimeout_def second_def)
qed

theorem unstage_refuses_busy_witness:
  "\<exists>r log v. NodeUnstageVolume (node_on busy_host example_breaker example_backoff (\<lambda>_. NewConnector) (\<lambda>_ w. w) ''node-1'' None)
      Background example_id ''/staging'' ([], NewConnector) = (r, log, v) \<and>
    (r = Inl FailedPrecondition \<or> r = Inl Internal \<and> (\<exists>c \<in> set log. cmd_name c = ''umount'' \<and> cmd_err c \<noteq> None)) \<and>
    (\<forall>c \<in> set log. cmd_name c \<noteq> ''nvme'')"
proof -
  obtain r log v where run: "NodeUnstageVolume (node_on busy_host example_breaker example_backoff (\<lambda>_. NewConnector) (\<lambda>_ w. w) ''node-1'' None)
      Background example_id ''/staging'' ([], NewConnector) = (r, log, v)" by (metis surj_pair)
  have "FindDeviceByNQN (logged busy_host) ''/sys'' target_nqn lw = FindDeviceByNQN (logged (example_host True False)) ''/sys'' target_nqn lw" for lw
    by (simp add: FindDeviceByNQN_def ScanControllers_def ReadSubsysNQN_def FindBlockDevice_def Glob_def namespace_device_def busy_host_def cong: if_cong)
  then have "fst (ResolveDevicePath (logged busy_host) target_nqn (nc_resolver NewConnector) lw) = Inr ''/dev/nvme0n1''" for lw
    by (simp add: ResolveDevicePath_def example_new_resolver example_device)
  from unstage_refuses_busy [OF example_id_nqn _ _ this busy_host_busy run] run example_managed show ?thesis by blast
qed

end
