(* ===== verification/MountProps.thy ===== *)
theory MountProps
  imports NodeProps
begin

text \<open>
  Properties of mounts: the options that \<^verbatim>\<open>mount\<close> is run with, the table of the kernel as it is read, and the two checks for
  stale mounts. The waits of a forced unmount end when time passes, so publishing a volume always answers.
\<close>

subsection \<open>Mount options\<close>

definition safe_option :: "string \<Rightarrow> bool" where
  "safe_option opt \<longleftrightarrow> optName opt \<in> set allowedMountOptions \<and> optName opt \<notin> set dangerousMountOptions"

lemma ValidateMountOptions_iff: "ValidateMountOptions options = None \<longleftrightarrow> (\<forall>opt \<in> set options. safe_option opt)"
  by (induction options) (auto simp: safe_option_def)

lemma optName_plain: "CHR ''='' \<notin> set opt \<Longrightarrow> optName opt = opt"
  by (simp add: optName_def Split_nosep)

lemma secure_names: "opt \<in> set defaultSecureMountOptions \<Longrightarrow> optName opt = opt \<and> safe_option opt"
  by (auto simp: defaultSecureMountOptions_def safe_option_def optName_plain allowedMountOptions_def dangerousMountOptions_def)

lemma opposite_dangerous: "opt \<in> set defaultSecureMountOptions \<Longrightarrow> opposite opt \<in> set dangerousMountOptions"
  by (auto simp: defaultSecureMountOptions_def opposite_def dangerousMountOptions_def)

lemma SanitizeMountOptions_safe:
  assumes "SanitizeMountOptions options isBindMount = Inr opts"
  shows "\<forall>opt \<in> set opts. safe_option opt"
    and "isBindMount \<Longrightarrow> set defaultSecureMountOptions \<subseteq> optName ` set opts"
proof -
  have valid: "\<forall>opt \<in> set options. safe_option opt"
    using assms by (auto simp: SanitizeMountOptions_def ValidateMountOptions_iff [symmetric] split: option.splits)
  then show "\<forall>opt \<in> set opts. safe_option opt"
    using assms secure_names by (auto simp: SanitizeMountOptions_def split: option.splits if_splits)
  show "set defaultSecureMountOptions \<subseteq> optName ` set opts" if isBindMount
  proof
    fix opt
    assume opt: "opt \<in> set defaultSecureMountOptions"
    have "opposite opt \<notin> optName ` set options"
      using valid opposite_dangerous [OF opt] by (auto simp: safe_option_def)
    then have "opt \<in> set opts \<or> opt \<in> optName ` set options" "set options \<subseteq> set opts"
      using assms that opt by (auto simp: SanitizeMountOptions_def split: option.splits)
    then show "opt \<in> optName ` set opts" using secure_names [OF opt] by (metis image_eqI image_mono subsetD)
  qed
qed

lemma storm_check_record: "storm_check (logged h) source lw = (r, lv) \<Longrightarrow> fst lv = fst lw"
  by (auto simp: storm_check_def GetMountsWithTimeout_def logged_def log_keep_def Let_def
      split: prod.splits sum.splits option.splits)

lemma ensure_target_record: "ensure_target (logged h) target lw = (r, lv) \<Longrightarrow> fst lv = fst lw"
  by (auto simp: ensure_target_def logged_def log_keep_def split: prod.splits sum.splits option.splits file_err.splits)

text \<open>How \<^verbatim>\<open>mount\<close> reads its arguments: the value after \<^verbatim>\<open>-o\<close> is a list of options, separated by commas.\<close>

fun given_options :: "string list \<Rightarrow> string list" where
  "given_options (flag # val # args) =
     (if flag = ''-o'' then Split (CHR '','') val @ given_options args
      else if flag = ''-t'' then given_options args else [])"
| "given_options _ = []"

lemma SanitizeMountOptions_parts:
  assumes "SanitizeMountOptions options isBindMount = Inr opts"
  shows "set options \<subseteq> set opts" "set opts \<subseteq> set options \<union> set defaultSecureMountOptions"
  using assms by (auto simp: SanitizeMountOptions_def split: option.splits if_splits)

lemma given_mount_args:
  assumes "\<forall>opt \<in> set opts. CHR '','' \<notin> set opt" "HasPrefix source ''/''"
  shows "given_options (mount_args source target fsType opts) = opts"
proof -
  have "source \<noteq> ''-o''" "source \<noteq> ''-t''" using assms(2) by (auto simp: HasPrefix_def)
  moreover have "Split (CHR '','') (Join (CHR '','') opts) = opts" if "opts \<noteq> []"
    using assms(1) that by (intro Split_Join) auto
  ultimately show ?thesis by (simp add: mount_args_def)
qed

text \<open>C17. Mounting from an absolute path with requested options that contain no comma runs at most one program, \<^verbatim>\<open>mount\<close> with
  the given source and target last. Every option in the comma separated list after its \<^verbatim>\<open>-o\<close> has an allowed name, never \<^verbatim>\<open>suid\<close>,
  \<^verbatim>\<open>dev\<close> or \<^verbatim>\<open>exec\<close>; it is a requested option or one of \<^verbatim>\<open>nosuid\<close>, \<^verbatim>\<open>nodev\<close> and \<^verbatim>\<open>noexec\<close>, all requested options
  are there, and for a bind mount options of these three names are. A request with an option whose name is not allowed,
  or is one of the dangerous ones, fails and runs nothing.\<close>

theorem mount_options_safe:
  assumes "Mount (logged h) source target fsType options ([], w) = (r, log, v)"
    and "\<forall>opt \<in> set options. CHR '','' \<notin> set opt" and "HasPrefix source ''/''"
  shows "(log = [] \<or> (\<exists>c args os. log = [c] \<and> cmd_name c = ''mount'' \<and> cmd_args c = args @ [source, target] \<and>
            os = given_options (cmd_args c) \<and> set options \<subseteq> set os \<and> set os \<subseteq> set options \<union> {''nosuid'', ''nodev'', ''noexec''} \<and>
            (\<forall>opt \<in> set os. optName opt \<in> set allowedMountOptions \<and> optName opt \<notin> {''suid'', ''dev'', ''exec''}) \<and>
            (''bind'' \<in> set options \<or> ''rbind'' \<in> set options \<longrightarrow> {''nosuid'', ''nodev'', ''noexec''} \<subseteq> optName ` set os))) \<and>
    ((\<exists>opt \<in> set options. optName opt \<notin> set allowedMountOptions \<or> optName opt \<in> {''suid'', ''dev'', ''exec''}) \<longrightarrow>
       r \<noteq> None \<and> log = [])"
proof -
  let ?bind = "list_ex (\<lambda>opt. opt = ''bind'' \<or> opt = ''rbind'') options"
  have bind: "?bind \<longleftrightarrow> ''bind'' \<in> set options \<or> ''rbind'' \<in> set options" by (auto simp: list_ex_iff)
  have bad: "SanitizeMountOptions options ?bind \<noteq> Inr opts"
    if "\<exists>opt \<in> set options. optName opt \<notin> set allowedMountOptions \<or> optName opt \<in> {''suid'', ''dev'', ''exec''}" for opts
    using that ValidateMountOptions_iff [of options]
    by (auto simp: SanitizeMountOptions_def safe_option_def dangerousMountOptions_def split: option.splits)
  show ?thesis
  proof (cases "SanitizeMountOptions options ?bind")
    case (Inl e)
    then show ?thesis using assms(1)
      by (auto simp: Mount_def Let_def split: prod.splits option.splits dest!: storm_check_record)
  next
    case (Inr opts)
    note safe = SanitizeMountOptions_safe [OF Inr] and parts = SanitizeMountOptions_parts [OF Inr]
    have names: "\<forall>opt \<in> set opts. optName opt \<in> set allowedMountOptions \<and> optName opt \<notin> {''suid'', ''dev'', ''exec''}"
      using safe(1) by (auto simp: safe_option_def dangerousMountOptions_def)
    have secure: "''bind'' \<in> set options \<or> ''rbind'' \<in> set options \<longrightarrow> {''nosuid'', ''nodev'', ''noexec''} \<subseteq> optName ` set opts"
      using safe(2) bind by (simp add: defaultSecureMountOptions_def)
    have only: "set opts \<subseteq> set options \<union> {''nosuid'', ''nodev'', ''noexec''}" using parts(2) by (simp add: defaultSecureMountOptions_def)
    then have "\<forall>opt \<in> set opts. CHR '','' \<notin> set opt" using assms(2) by auto
    note given = given_mount_args [OF this assms(3), of target fsType]
    have "log = [] \<or> (\<exists>c. log = [c] \<and> cmd_name c = ''mount'' \<and> cmd_args c = mount_args source target fsType opts)"
      using assms(1) Inr
      by (auto simp: Mount_def Let_def log_run_def split: prod.splits option.splits dest!: storm_check_record ensure_target_record)
    then show ?thesis
    proof
      assume "log = []"
      with bad Inr show ?thesis by blast
    next
      assume "\<exists>c. log = [c] \<and> cmd_name c = ''mount'' \<and> cmd_args c = mount_args source target fsType opts"
      then obtain c where c: "log = [c]" "cmd_name c = ''mount''" "cmd_args c = mount_args source target fsType opts" by blast
      obtain args where args: "cmd_args c = args @ [source, target]" by (simp add: c(3) mount_args_def)
      have os: "opts = given_options (cmd_args c)" unfolding c(3) by (rule given [symmetric])
      have ok: "\<not> (\<exists>opt \<in> set options. optName opt \<notin> set allowedMountOptions \<or> optName opt \<in> {''suid'', ''dev'', ''exec''})"
        using bad [of opts] Inr by blast
      show ?thesis
        by (rule conjI, rule disjI2, (rule exI)+, intro conjI)
          (rule c(1) c(2) args os parts(1) only names secure impI [OF notE [OF ok]], assumption?)+
    qed
  qed
qed

theorem mount_options_safe_witness:
  "\<exists>c v. Mount (logged (example_host True False)) ''/staging'' ''/target'' [] [''bind'', ''ro''] ([], NewConnector) = (None, [c], v) \<and>
     {''nosuid'', ''nodev'', ''noexec''} \<subseteq> optName ` set (given_options (cmd_args c)) \<and>
     {''bind'', ''ro''} \<subseteq> set (given_options (cmd_args c))"
proof -
  have "SanitizeMountOptions [''bind'', ''ro''] True = Inr [''nosuid'', ''nodev'', ''noexec'', ''bind'', ''ro'']" by code_simp
  then obtain c v where run: "Mount (logged (example_host True False)) ''/staging'' ''/target'' [] [''bind'', ''ro''] ([], NewConnector) = (None, [c], v)"
    by (simp add: Mount_def storm_check_def GetMountsWithTimeout_def DetectDuplicateMounts_def MaxDuplicateMountsPerDevice_def
        ensure_target_def log_run_def example_exec Let_def)
  from mount_options_safe [OF run] show ?thesis using run by (simp add: HasPrefix_def)
qed

text \<open>An option with a comma in its value is checked by its name only and brings further options with it.\<close>

lemma option_adds_suid: "ValidateMountOptions [''ro=x,suid''] = None \<and> mount_args s t [] [''ro=x,suid''] = [''-o'', ''ro=x,suid'', s, t]"
  by code_simp

subsection \<open>Reading the mount table\<close>

text \<open>How the kernel prints an entry: blanks, tabs, line ends and backslashes of the paths are octal escapes.\<close>

definition escape_char :: "char \<Rightarrow> string" where
  "escape_char c =
     (if c = CHR '' '' then CHR 0x5C # ''040'' else if c = CHR 0x09 then CHR 0x5C # ''011''
      else if c = CHR 0x0A then CHR 0x5C # ''012'' else if c = CHR 0x5C then CHR 0x5C # ''134'' else [c])"

definition escape_path :: "string \<Rightarrow> string" where
  "escape_path p = concat (map escape_char p)"

record kernel_mount =
  km_ids :: "string list" \<comment> \<open>mount ID, parent ID, device number, root\<close>
  km_target :: string
  km_options :: string
  km_optional :: "string list"
  km_fstype :: string
  km_source :: string
  km_super :: string

definition mountinfo_line :: "kernel_mount \<Rightarrow> string" where
  "mountinfo_line m = Join (CHR '' '') (km_ids m @ [escape_path (km_target m), km_options m] @ km_optional m @
     [''-'', km_fstype m, escape_path (km_source m), km_super m])"

definition word_field :: "string \<Rightarrow> bool" where
  "word_field f \<longleftrightarrow> f \<noteq> [] \<and> (\<forall>c \<in> set f. \<not> is_space c)"

definition path_field :: "string \<Rightarrow> bool" where
  "path_field p \<longleftrightarrow> p \<noteq> [] \<and> p \<noteq> ''-'' \<and> (\<forall>c \<in> set p. c \<notin> {CHR 0x0B, CHR 0x0C, CHR 0x0D})"

definition wf_mount :: "kernel_mount \<Rightarrow> bool" where
  "wf_mount m \<longleftrightarrow> length (km_ids m) = 4 \<and> (\<forall>f \<in> set (km_ids m @ km_options m # km_optional m). word_field f \<and> f \<noteq> ''-'') \<and>
     word_field (km_fstype m) \<and> word_field (km_super m) \<and> path_field (km_target m) \<and> path_field (km_source m) \<and>
     length (mountinfo_line m) < 65536"

lemma fields_from_word: "\<forall>c \<in> set v. \<not> is_space c \<Longrightarrow> fields_from u (v @ s) = fields_from (u @ v) s"
  by (induction v arbitrary: u) auto

lemma Fields_word: "word_field w \<Longrightarrow> Fields w = [w]"
  using fields_from_word [of w "[]" "[]"] by (simp add: Fields_def word_field_def)

lemma Fields_word_blank: "word_field w \<Longrightarrow> Fields (w @ CHR '' '' # s) = w # Fields s"
  using fields_from_word [of w "[]" "CHR '' '' # s"] by (simp add: Fields_def word_field_def is_space_def [of "CHR '' ''"])

lemma Fields_Join: "\<forall>f \<in> set fs. word_field f \<Longrightarrow> Fields (Join (CHR '' '') fs) = fs"
  by (induction "CHR '' ''" fs rule: Join.induct) (simp_all add: Fields_word Fields_word_blank, simp add: Fields_def)

lemma escape_char_word:
  assumes "c \<notin> {CHR 0x0B, CHR 0x0C, CHR 0x0D}" "d \<in> set (escape_char c)"
  shows "\<not> is_space d"
  using assms by (auto simp: escape_char_def is_space_def split: if_split_asm)

lemma escape_word:
  assumes "path_field p"
  shows "word_field (escape_path p)"
proof -
  have "escape_path p \<noteq> []" using assms by (cases p) (auto simp: path_field_def escape_path_def escape_char_def)
  moreover have "\<not> is_space d" if "d \<in> set (escape_path p)" for d
    using that assms escape_char_word unfolding escape_path_def path_field_def by fastforce
  ultimately show ?thesis by (simp add: word_field_def)
qed

lemma HasPrefix_cons: "HasPrefix (c # s) (d # p) \<longleftrightarrow> c = d \<and> HasPrefix s p"
  by (simp add: HasPrefix_def)

lemma unescape_char: "unescapePath (escape_char c @ s) = c # unescapePath s"
proof -
  consider "c = CHR '' ''" | "c = CHR 0x09" | "c = CHR 0x0A" | "c = CHR 0x5C" | "c \<notin> {CHR '' '', CHR 0x09, CHR 0x0A, CHR 0x5C}"
    by auto
  then show ?thesis by cases (simp_all add: unescapePath_def escape_char_def HasPrefix_cons)
qed

lemma unescape_escape: "unescapePath (escape_path p) = p"
  by (induction p) (simp_all add: escape_path_def unescape_char, simp add: unescapePath_def)

lemma escape_not_dash: "path_field p \<Longrightarrow> escape_path p \<noteq> ''-''"
proof -
  have "unescapePath ''-'' = ''-''" by code_simp
  then show "path_field p \<Longrightarrow> escape_path p \<noteq> ''-''" using unescape_escape [of p] by (metis path_field_def)
qed

lemma word_dash: "word_field ''-''"
  by (simp add: word_field_def is_space_def)

lemma index_of_append: "a \<notin> set xs \<Longrightarrow> index_of a (xs @ a # ys) = Some (length xs)"
  by (induction xs) auto

lemma parse_line:
  assumes "wf_mount m"
  shows "parseMountInfoLine (mountinfo_line m) =
    Inr \<lparr> mi_Source = km_source m, mi_Target = km_target m, mi_FSType = km_fstype m, mi_Options = km_options m \<rparr>"
proof -
  let ?pre = "km_ids m @ [escape_path (km_target m), km_options m] @ km_optional m"
  let ?fs = "?pre @ ''-'' # [km_fstype m, escape_path (km_source m), km_super m]"
  have "\<forall>f \<in> set ?fs. word_field f"
    using assms escape_word word_dash by (simp add: wf_mount_def ball_Un)
  then have fields: "Fields (mountinfo_line m) = ?fs"
    using Fields_Join [of ?fs] by (simp add: mountinfo_line_def)
  have "index_of ''-'' ?fs = Some (length ?pre)"
    using assms escape_not_dash [of "km_target m"] by (intro index_of_append) (auto simp: wf_mount_def)
  moreover have "length (km_ids m) = Suc (Suc (Suc (Suc 0)))" using assms by (simp add: wf_mount_def)
  then obtain a b c d where "km_ids m = [a, b, c, d]" by (auto simp: length_Suc_conv)
  ultimately show ?thesis
    by (simp add: parseMountInfoLine_def fields unescape_escape nth_append del: index_of.simps)
qed

lemma set_Join: "set (Join sep ws) \<subseteq> insert sep (\<Union>(set ` set ws))"
  by (induction sep ws rule: Join.induct) auto

lemma mountinfo_line_chars: "wf_mount m \<Longrightarrow> c \<in> set (mountinfo_line m) \<Longrightarrow> c = CHR '' '' \<or> \<not> is_space c"
proof -
  assume wf: "wf_mount m" and c: "c \<in> set (mountinfo_line m)"
  let ?fs = "km_ids m @ [escape_path (km_target m), km_options m] @ km_optional m @
    [''-'', km_fstype m, escape_path (km_source m), km_super m]"
  have "\<forall>f \<in> set ?fs. word_field f" using wf escape_word word_dash by (simp add: wf_mount_def ball_Un)
  moreover have "c \<in> insert (CHR '' '') (\<Union>(set ` set ?fs))" using c set_Join unfolding mountinfo_line_def by blast
  ultimately show ?thesis unfolding word_field_def by blast
qed

lemma find_map: "find P (map f xs) = map_option f (find (P \<circ> f) xs)"
  by (induction xs) auto

lemma scan_table:
  assumes "\<forall>m \<in> set ms. wf_mount m"
  shows "scan_lines (concat (map (\<lambda>m. mountinfo_line m @ [CHR 0x0A]) ms)) = Inr (map mountinfo_line ms)"
proof -
  have line: "CHR 0x0A \<notin> set (mountinfo_line m) \<and> TrimSuffix (mountinfo_line m) [CHR 0x0D] = mountinfo_line m" if "wf_mount m" for m
    using mountinfo_line_chars [OF that, of "CHR 0x0A"] mountinfo_line_chars [OF that, of "CHR 0x0D"]
    by (auto simp: TrimSuffix_def HasSuffix_iff is_space_def)
  have "Split (CHR 0x0A) (concat (map (\<lambda>m. mountinfo_line m @ [CHR 0x0A]) ms)) = map mountinfo_line ms @ [[]]"
    using assms by (induction ms) (auto simp: Split_append line)
  moreover have "list_all (\<lambda>l. length l < 65536) (map mountinfo_line ms)" using assms by (simp add: list_all_iff wf_mount_def)
  ultimately show ?thesis using assms line by (simp add: scan_lines_def Let_def)
qed

text \<open>C20. Reading the mount table inverts what the kernel prints: for every table of well-formed entries, whatever blanks, tabs, line
  ends and backslashes their paths contain, the device of a mount point is the source of the first entry with this
  target, and there is none when no entry has it.\<close>

theorem mount_table_roundtrip:
  assumes "\<forall>m \<in> set ms. wf_mount m"
    and "oReadFile h ''/proc/self/mountinfo'' w = Inr (concat (map (\<lambda>m. mountinfo_line m @ [CHR 0x0A]) ms))"
  shows "GetMountDevice h path w =
    (case find (\<lambda>m. km_target m = path) ms of
       Some m \<Rightarrow> Inr (km_source m)
     | None \<Rightarrow> Inl (GoErr (''mount point not found: '' @ path)))"
proof -
  have "GetMounts h w = Inr (map (\<lambda>m. \<lparr> mi_Source = km_source m, mi_Target = km_target m, mi_FSType = km_fstype m,
      mi_Options = km_options m \<rparr>) ms)"
    using assms(1) by (simp add: GetMounts_def assms(2) scan_table [OF assms(1)]) (induction ms; simp add: parse_line)
  then show ?thesis by (simp add: GetMountDevice_def find_map o_def option.case_eq_if option.map_sel)
qed

definition example_mount :: kernel_mount where
  "example_mount =
     \<lparr> km_ids = [''36'', ''35'', ''259:1'', ''/''], km_target = ''/mnt/my data'', km_options = ''rw,nosuid'',
       km_optional = [''shared:1''], km_fstype = ''ext4'', km_source = ''/dev/nvme0n1'', km_super = ''rw'' \<rparr>"

theorem mount_table_roundtrip_witness:
  "GetMountDevice \<lparr> oNow = (\<lambda>_. 0), oGetpid = (\<lambda>_. 7), oStat = (\<lambda>_ _. Inl (NotExist [])),
      oReadFile = (\<lambda>_ _. Inr (mountinfo_line example_mount @ [CHR 0x0A])), oReadDir = (\<lambda>_ _. Inr []), oReadlink = (\<lambda>p _. Inr p),
      oEvalSymlinks = (\<lambda>p _. Inr p), oMobyMounts = (\<lambda>_ w. (Inr (Inr []), w)), oExec = (\<lambda>_ _ w. (([], None), w)),
      oExecCtx = (\<lambda>_ _ _ w. (([], None), w)), oOutputCtx = (\<lambda>_ _ _ w. (([], None), w)), oWait = (\<lambda>_ _ w. (None, w)),
      oTick = (\<lambda>_ _ w. (True, w)), oMkdirAll = (\<lambda>_ _ w. (None, w)), oMknod = (\<lambda>_ _ _ w. (None, w)), oRemove = (\<lambda>_ w. (None, w)),
      oRemoveAll = (\<lambda>_ w. (None, w)), oCreateExcl = (\<lambda>_ _ w. (None, w)) \<rparr> ''/mnt/my data'' () = Inr ''/dev/nvme0n1''"
proof -
  have "length (km_ids example_mount) = 4 \<and> (\<forall>f \<in> set (km_ids example_mount @ km_options example_mount # km_optional example_mount).
      word_field f \<and> f \<noteq> ''-'') \<and> word_field (km_fstype example_mount) \<and> word_field (km_super example_mount) \<and>
      path_field (km_target example_mount) \<and> path_field (km_source example_mount)" by code_simp
  moreover have "length (mountinfo_line example_mount) < 100" by code_simp
  ultimately have wf: "\<forall>m \<in> set [example_mount]. wf_mount m" by (simp add: wf_mount_def)
  show ?thesis
    by (subst mount_table_roundtrip [OF wf]) (simp_all add: example_mount_def)
qed

subsection \<open>Stale mounts\<close>

text \<open>The two ways to ask whether a mount is stale agree: with a resolver, the quick check and the detailed one change the world
  alike, fail together, and otherwise give the same verdict and reason. The paths the detailed one reports explain the verdict:
  where both devices were found, the mount is stale exactly when the two differ once links are resolved, and the mounted one
  is the resolved device of the mount table.\<close>

theorem stale_checks_agree:
  assumes "sm_resolver c = Some p"
  shows "(case (IsMountStale h c mountPath nqn w, GetStaleInfo h c mountPath nqn w) of
      ((Inr (stale, reason), v), (Inr info, v')) \<Rightarrow> v = v' \<and> si_IsStale info = stale \<and> si_Reason info = reason \<and>
        (stale \<longleftrightarrow> reason \<noteq> NotStale) \<and>
        (reason = NotStale \<or> reason = DeviceMismatch \<longrightarrow> (stale \<longleftrightarrow> si_ResolvedMount info \<noteq> si_ResolvedCurrent info) \<and>
          sm_getMountDev c mountPath w = Inr (si_MountDevice info) \<and> oEvalSymlinks h (si_MountDevice info) w = Inr (si_ResolvedMount info))
    | ((Inl e, v), (Inl e', v')) \<Rightarrow> v = v'
    | _ \<Rightarrow> False)"
  using assms
  by (auto simp: IsMountStale_def GetStaleInfo_def no_info_def Let_def split: sum.split file_err.split prod.split)

theorem stale_checks_agree_witness:
  "\<exists>info v. IsMountStale (example_host True False) \<lparr> sm_resolver = Some (nc_resolver, \<lambda>r c. c\<lparr>nc_resolver := r\<rparr>),
      sm_getMountDev = (\<lambda>_ _. Inr ''/dev/nvme7n1'') \<rparr> ''/staging'' target_nqn NewConnector = (Inr (True, DeviceMismatch), v) \<and>
    GetStaleInfo (example_host True False) \<lparr> sm_resolver = Some (nc_resolver, \<lambda>r c. c\<lparr>nc_resolver := r\<rparr>),
      sm_getMountDev = (\<lambda>_ _. Inr ''/dev/nvme7n1'') \<rparr> ''/staging'' target_nqn NewConnector = (Inr info, v) \<and>
    si_IsStale info \<and> si_Reason info = DeviceMismatch"
proof -
  let ?c = "\<lparr> sm_resolver = Some (nc_resolver, \<lambda>r c. c\<lparr>nc_resolver := r\<rparr>), sm_getMountDev = (\<lambda>_ _. Inr ''/dev/nvme7n1'') \<rparr>"
  have "FindDeviceByNQN (example_host True False) ''/sys'' target_nqn c = FindDeviceByNQN (logged (example_host True False)) ''/sys'' target_nqn ([], c)" for c
    by (simp add: FindDeviceByNQN_def ScanControllers_def ReadSubsysNQN_def FindBlockDevice_def Glob_def namespace_device_def cong: if_cong)
  moreover have links: "oEvalSymlinks (example_host True False) dev c = Inr dev" for dev c by (simp add: example_host_def)
  ultimately obtain v where stale: "IsMountStale (example_host True False) ?c ''/staging'' target_nqn NewConnector = (Inr (True, DeviceMismatch), v)"
    by (simp add: IsMountStale_def resolve_def ResolveDevicePath_def example_new_resolver example_device links)
  have "sm_resolver ?c = Some (nc_resolver, \<lambda>r c. c\<lparr>nc_resolver := r\<rparr>)" by simp
  from stale_checks_agree [OF this, of "''/staging''" NewConnector "example_host True False" target_nqn] stale
  show ?thesis by (auto split: prod.splits sum.splits)
qed

subsection \<open>Publishing answers\<close>

text \<open>Programs do not turn the clock back, and it has moved on when a ticker fires.\<close>

definition time_passes :: "'w host \<Rightarrow> bool" where
  "time_passes h \<longleftrightarrow>
     (\<forall>name args w. oNow h w \<le> oNow h (snd (oExec h name args w))) \<and>
     (\<forall>d t w. \<not> fst (oTick h d t w) \<longrightarrow> oNow h w < oNow h (snd (oTick h d t w)))"

lemma still_mounted_time: "time_passes h \<Longrightarrow> still_mounted h target w = (m, v) \<Longrightarrow> oNow h w \<le> oNow h v"
  unfolding time_passes_def
  by (auto simp: still_mounted_def IsLikelyMountPoint_def split: prod.splits sum.splits file_err.splits option.splits)
    (metis snd_conv)+

lemma since_reached: "timeout \<le> max_int64 \<Longrightarrow> t + timeout \<le> now \<Longrightarrow> timeout \<le> since now t"
  by (auto simp: sub_time_def sat64_def min_int64_def)

lemma force_wait_returns:
  assumes "time_passes h" "timeout \<le> max_int64"
  shows "\<exists>b v. force_wait h target timeout startTime w = Some (b, v)"
proof (induction "nat (startTime + timeout - oNow h w)" arbitrary: w rule: less_induct)
  case less
  obtain timer u where u: "oTick h (500 * millisecond) timeout w = (timer, u)" by fastforce
  obtain m v where v: "still_mounted h target u = (m, v)" by fastforce
  show ?case
  proof (cases "timer \<or> \<not> m \<or> since (oNow h v) startTime \<ge> timeout")
    case True
    then show ?thesis using u v by (subst force_wait.simps) auto
  next
    case False
    then have "oNow h w < oNow h u" using assms(1) u unfolding time_passes_def by (metis fst_conv snd_conv)
    moreover have "oNow h u \<le> oNow h v" using still_mounted_time [OF assms(1) v] .
    moreover have "oNow h v < startTime + timeout" using False since_reached [OF assms(2)] by force
    ultimately have "nat (startTime + timeout - oNow h v) < nat (startTime + timeout - oNow h w)" by simp
    from less [OF this] show ?thesis using u v False by (subst force_wait.simps) auto
  qed
qed

lemma ForceUnmount_returns:
  assumes "time_passes h" "timeout \<le> max_int64"
  shows "\<exists>e v. ForceUnmount h target timeout w = Some (e, v)"
proof -
  obtain e u where u: "Unmount h target w = (e, u)" by fastforce
  obtain b v where "force_wait h target timeout (oNow h u) u = Some (b, v)" using force_wait_returns [OF assms] by blast
  with u show ?thesis by (cases e) (auto simp: ForceUnmount_def)
qed

lemma recover_again_returns:
  "(\<And>result w. \<exists>y. next result w = Some y) \<Longrightarrow> \<exists>y. recover_again h ctx n backoff result err next w = Some y"
  by (auto simp: recover_again_def Let_def split: prod.split option.split)

lemma recover_loop_returns:
  assumes "\<And>target w. \<exists>e v. mForceUnmount (mr_mounter r) target (ry_NormalUnmountWait (mr_config r)) w = Some (e, v)"
  shows "\<exists>y. recover_loop h r p ctx mountPath nqn fsType mountOptions n attempt backoff result w = Some y"
proof (induction n arbitrary: attempt backoff result w)
  case (Suc n)
  obtain e v where v: "mForceUnmount (mr_mounter r) mountPath (ry_NormalUnmountWait (mr_config r)) w = Some (e, v)"
    using assms by blast
  show ?case
    using v recover_again_returns [OF Suc.IH]
    by (simp add: Let_def split: option.split prod.split sum.split list.split)
qed simp

lemma bind_returns: "\<exists>x. m = Some x \<Longrightarrow> (\<And>x. \<exists>y. f x = Some y) \<Longrightarrow> \<exists>y. Option.bind m f = Some y"
  by auto

lemma Recover_returns:
  assumes "\<And>target w. \<exists>e v. mForceUnmount (mr_mounter r) target (ry_NormalUnmountWait (mr_config r)) w = Some (e, v)"
  shows "\<exists>y. Recover h r ctx mountPath nqn fsType mountOptions w = Some y"
  using recover_loop_returns [OF assms]
  by (auto simp: Recover_def Let_def simp del: recover_loop.simps split: option.split prod.split)

text \<open>C18. On a machine on which every program that is run and every call of the operating system returns, and on which time passes
  (no program run moves the clock back, and it has advanced when a ticker fires), publishing a volume always comes to an answer,
  whatever else the machine does and whatever state the mount is in: the wait for a stuck mount ends and stale mounts are recovered in
  a bounded number of attempts.\<close>

theorem publish_answers:
  assumes "time_passes h"
  shows "\<exists>r v. NodePublishVolume (NewNodeServer h gb (mounter h) connector getMountDevFunc nodeID poster) ctx req w = Some (r, v)"
proof -
  let ?ns = "NewNodeServer h gb (mounter h) connector getMountDevFunc nodeID poster"
  have wait: "ry_NormalUnmountWait (mr_config (ns_recoverer ?ns)) \<le> max_int64" "mr_mounter (ns_recoverer ?ns) = mounter h" "ns_host ?ns = h"
    by (simp_all add: NewNodeServer_def DefaultRecoveryConfig_def second_def max_int64_def Let_def)
  then have rec: "\<exists>y. Recover h (ns_recoverer ?ns) ctx mountPath nqn fsType mountOptions u = Some y" for mountPath nqn fsType mountOptions u
    using ForceUnmount_returns [OF assms wait(1)] by (intro Recover_returns) simp
  have check: "\<exists>y. checkAndRecoverMount ?ns ctx path nqn fsType options namespace name volumeID u = Some y"
    for path nqn fsType options namespace name volumeID u
    using wait(3) unfolding checkAndRecoverMount_def Let_def
    by (auto simp del: split_paired_Ex split: option.split sum.split prod.split intro!: bind_returns rec)
  have "\<exists>y. publish_filesystem ?ns ctx req w = Some y"
    unfolding publish_filesystem_def Let_def
    by (auto simp del: split_paired_Ex split: option.split sum.split prod.split bool.split intro!: bind_returns check)
  then show ?thesis by (auto simp: NodePublishVolume_def)
qed

text \<open>A machine with a clock that the ticks advance, on which a mount stays busy.\<close>

definition ticking_host :: "(connector \<times> time) host" where
  "ticking_host =
     \<lparr> oNow = snd, oGetpid = (\<lambda>_. 7), oStat = (\<lambda>_ _. Inr \<lparr> st_kind = Directory, st_rdev = 0 \<rparr>),
       oReadFile = (\<lambda>_ _. Inr target_nqn), oReadDir = (\<lambda>_ _. Inr [(''nvme0'', True)]),
       oReadlink = (\<lambda>_ _. Inr ''/dev/null''), oEvalSymlinks = (\<lambda>p _. Inr p), oMobyMounts = (\<lambda>_ w. (Inr (Inr []), w)),
       oExec = (\<lambda>name args w. (if name = ''findmnt'' then (''/mnt'', None)
                 else if name = ''umount'' \<and> length args = 1 then (''busy'', Some (ExitError 32 ''exit status 32''))
                 else ([], None), w)),
       oExecCtx = (\<lambda>_ name args w. (([], None), w)), oOutputCtx = (\<lambda>_ name args w. (([], Some (ExitError 1 ''exit status 1'')), w)),
       oWait = (\<lambda>_ d (c, t). (None, c, t + d)), oTick = (\<lambda>d _ (c, t). (d \<le> 0, c, t + d)),
       oMkdirAll = (\<lambda>_ _ w. (None, w)), oMknod = (\<lambda>_ _ _ w. (None, w)), oRemove = (\<lambda>_ w. (None, w)),
       oRemoveAll = (\<lambda>_ w. (None, w)), oCreateExcl = (\<lambda>_ _ w. (None, w)) \<rparr>"

lemma ticking_step: "force_wait ticking_host path timeout startTime (c, t) =
    (if since (t + 500 * millisecond) startTime \<ge> timeout then Some (True, c, t + 500 * millisecond)
     else force_wait ticking_host path timeout startTime (c, t + 500 * millisecond))"
proof -
  have "oTick ticking_host (500 * millisecond) timeout (c, t) = (False, c, t + 500 * millisecond)"
    "\<And>w. still_mounted ticking_host path w = (True, w)" "\<And>w. oNow ticking_host w = snd w"
    by (simp_all add: ticking_host_def still_mounted_def IsLikelyMountPoint_def millisecond_def)
  then show ?thesis by (subst force_wait.simps) simp
qed

lemma ticking_wait:
  "n < 20 \<Longrightarrow> t = 10 * second - (int n + 1) * (500 * millisecond) \<Longrightarrow>
     force_wait ticking_host ''/staging'' (10 * second) 0 (c, t) = Some (True, c, 10 * second)"
proof (induction n arbitrary: t)
  case 0
  then show ?case
    by (subst ticking_step) (simp add: sub_time_def sat64_def max_int64_def min_int64_def second_def millisecond_def)
next
  case (Suc n)
  let ?t = "10 * second - (int n + 1) * (500 * millisecond)"
  have t: "t + 500 * millisecond = ?t" unfolding Suc.prems(2) by (simp add: algebra_simps)
  have "\<not> 10 * second \<le> since ?t 0" using Suc.prems(1)
    by (auto simp: sub_time_def sat64_def max_int64_def min_int64_def second_def millisecond_def)
  moreover have "force_wait ticking_host ''/staging'' (10 * second) 0 (c, ?t) = Some (True, c, 10 * second)"
    using Suc.IH Suc.prems(1) by simp
  ultimately show ?case by (subst ticking_step) (simp only: t if_False)
qed

text \<open>On this machine the wait polls twenty times before it gives up, and the publication answers.\<close>

theorem publish_answers_witness:
  "time_passes ticking_host \<and>
    force_wait ticking_host ''/staging'' (10 * second) 0 (NewConnector, 0) = Some (True, NewConnector, 10 * second) \<and>
    (\<exists>r v. NodePublishVolume (NewNodeServer ticking_host example_breaker (mounter ticking_host)
       (nvme_connector ticking_host example_backoff fst (\<lambda>c w. (c, snd w))) None ''node-1'' None)
       Background example_publish (NewConnector, 0) = Some (r, v))"
proof -
  have time: "time_passes ticking_host" by (auto simp: time_passes_def ticking_host_def)
  have "force_wait ticking_host ''/staging'' (10 * second) 0 (NewConnector, 0) = Some (True, NewConnector, 10 * second)"
    using ticking_wait [of 19 0 NewConnector] by (simp add: second_def millisecond_def)
  with time show ?thesis by (intro conjI publish_answers [OF time])
qed

end
