(* ===== verification/NvmeProps.thy ===== *)
theory NvmeProps
  imports NodeProps
begin

text \<open>
  The bookkeeping of the NVMe connector: what every call does to the table of operations and to the counters, and which
  targets it can disconnect at all.
\<close>

subsection \<open>What a call books\<close>

text \<open>
  \<open>books k c c'\<close>: the step from \<open>c\<close> to \<open>c'\<close> leaves the table of operations, the number of active operations and of
  connects alone, and books at most \<open>k\<close> connect errors; every disconnect error is booked with a disconnect and every timeout with an
  error.
\<close>

definition books :: "nat \<Rightarrow> connector \<Rightarrow> connector \<Rightarrow> bool" where
  "books k c c' \<longleftrightarrow>
     nc_activeOperations c' = nc_activeOperations c \<and> nc_config c' = nc_config c \<and>
     mt_activeOperations (nc_metrics c') = mt_activeOperations (nc_metrics c) \<and>
     mt_connectCount (nc_metrics c') = mt_connectCount (nc_metrics c) \<and>
     (\<exists>e d n t :: nat. e \<le> k \<and> d \<le> n \<and> t \<le> e + d \<and>
        mt_connectErrors (nc_metrics c') = mt_connectErrors (nc_metrics c) + int e \<and>
        mt_disconnectErrors (nc_metrics c') = mt_disconnectErrors (nc_metrics c) + int d \<and>
        mt_disconnectCount (nc_metrics c') = mt_disconnectCount (nc_metrics c) + int n \<and>
        mt_timeoutCount (nc_metrics c') = mt_timeoutCount (nc_metrics c) + int t)"

lemma booksI:
  assumes "nc_activeOperations c' = nc_activeOperations c" "nc_config c' = nc_config c"
    and "mt_activeOperations (nc_metrics c') = mt_activeOperations (nc_metrics c)"
    and "mt_connectCount (nc_metrics c') = mt_connectCount (nc_metrics c)"
    and "mt_connectErrors (nc_metrics c') = mt_connectErrors (nc_metrics c) + int e"
    and "mt_disconnectErrors (nc_metrics c') = mt_disconnectErrors (nc_metrics c) + int d"
    and "mt_disconnectCount (nc_metrics c') = mt_disconnectCount (nc_metrics c) + int n"
    and "mt_timeoutCount (nc_metrics c') = mt_timeoutCount (nc_metrics c) + int t"
    and "e \<le> k" "d \<le> n" "t \<le> e + d"
  shows "books k c c'"
  using assms unfolding books_def by blast

lemma books_refl: "books k c c"
  by (rule booksI [where e = 0 and d = 0 and n = 0 and t = 0]) auto

lemma books_resolver: "books k c (c\<lparr>nc_resolver := r\<rparr>)"
  by (rule booksI [where e = 0 and d = 0 and n = 0 and t = 0]) auto

lemma books_trans:
  assumes "books k c c1" "books l c1 c2" "k + l \<le> m"
  shows "books m c c2"
proof -
  obtain e d n t :: nat where 1: "e \<le> k" "d \<le> n" "t \<le> e + d"
      "mt_connectErrors (nc_metrics c1) = mt_connectErrors (nc_metrics c) + int e"
      "mt_disconnectErrors (nc_metrics c1) = mt_disconnectErrors (nc_metrics c) + int d"
      "mt_disconnectCount (nc_metrics c1) = mt_disconnectCount (nc_metrics c) + int n"
      "mt_timeoutCount (nc_metrics c1) = mt_timeoutCount (nc_metrics c) + int t"
    using assms(1) unfolding books_def by blast
  obtain e' d' n' t' :: nat where 2: "e' \<le> l" "d' \<le> n'" "t' \<le> e' + d'"
      "mt_connectErrors (nc_metrics c2) = mt_connectErrors (nc_metrics c1) + int e'"
      "mt_disconnectErrors (nc_metrics c2) = mt_disconnectErrors (nc_metrics c1) + int d'"
      "mt_disconnectCount (nc_metrics c2) = mt_disconnectCount (nc_metrics c1) + int n'"
      "mt_timeoutCount (nc_metrics c2) = mt_timeoutCount (nc_metrics c1) + int t'"
    using assms(2) unfolding books_def by blast
  show ?thesis
    by (rule booksI [where e = "e + e'" and d = "d + d'" and n = "n + n'" and t = "t + t'"])
      (use assms 1 2 in \<open>auto simp: books_def\<close>)
qed

text \<open>Operations are tracked under names that start with what they do.\<close>

definition no_disconnects :: "connector \<Rightarrow> bool" where
  "no_disconnects c \<longleftrightarrow> (\<forall>k \<in> fst ` set (nc_activeOperations c). hd k = CHR ''c'')"

lemma disconnect_body_books:
  assumes "disconnect_body h ctx nqn c w = (r, c', v)"
  shows "\<exists>d t :: nat. d \<le> 1 \<and> t \<le> d \<and> nc_activeOperations c' = nc_activeOperations c \<and> nc_config c' = nc_config c \<and>
    mt_activeOperations (nc_metrics c') = mt_activeOperations (nc_metrics c) \<and>
    mt_connectCount (nc_metrics c') = mt_connectCount (nc_metrics c) \<and>
    mt_connectErrors (nc_metrics c') = mt_connectErrors (nc_metrics c) \<and>
    mt_disconnectCount (nc_metrics c') = mt_disconnectCount (nc_metrics c) \<and>
    mt_disconnectErrors (nc_metrics c') = mt_disconnectErrors (nc_metrics c) + int d \<and>
    mt_timeoutCount (nc_metrics c') = mt_timeoutCount (nc_metrics c) + int t"
  using assms
  by (auto simp: disconnect_body_def Let_def split: prod.splits sum.splits bool.splits option.splits
      intro: exI [of _ 0] exI [of _ 1] exI [of _ "Suc 0"])

lemma DisconnectWithContext_books:
  assumes "DisconnectWithContext h ctx nqn c w = (r, c', v)" "no_disconnects c"
  shows "books 0 c c'"
proof (cases "ValidateNQN nqn = None \<and> managed nqn")
  case True
  let ?id = "''disconnect'' @ ''-'' @ nqn @ ''-'' @ Itoa (oNow h w)"
  let ?c = "snd (trackOperation h nqn ''disconnect'' c w)"
  have new: "?id \<notin> fst ` set (nc_activeOperations c)" using assms(2) by (fastforce simp: no_disconnects_def)
  obtain res c1 u where body: "disconnect_body h (with_deadline h ctx (cf_DisconnectTimeout (nc_config c)) w) nqn ?c w = (res, c1, u)"
    by (metis surj_pair)
  obtain d t :: nat where dt: "d \<le> 1" "t \<le> d" "nc_activeOperations c1 = nc_activeOperations ?c" "nc_config c1 = nc_config ?c"
      "mt_activeOperations (nc_metrics c1) = mt_activeOperations (nc_metrics ?c)"
      "mt_connectCount (nc_metrics c1) = mt_connectCount (nc_metrics ?c)"
      "mt_connectErrors (nc_metrics c1) = mt_connectErrors (nc_metrics ?c)"
      "mt_disconnectCount (nc_metrics c1) = mt_disconnectCount (nc_metrics ?c)"
      "mt_disconnectErrors (nc_metrics c1) = mt_disconnectErrors (nc_metrics ?c) + int d"
      "mt_timeoutCount (nc_metrics c1) = mt_timeoutCount (nc_metrics ?c) + int t"
    using disconnect_body_books [OF body] by blast
  have c': "c' = untrackOperation ?id (upd_metrics (mt_disconnectCount_update (\<lambda>n. n + 1) \<circ>
      mt_disconnectDurationTotal_update (\<lambda>d. d + since (oNow h u) (oNow h w))) c1)"
    using assms(1) True body by (auto simp: DisconnectWithContext_def trackOperation_def Let_def split: prod.splits)
  show ?thesis
    by (rule booksI [where e = 0 and d = d and n = 1 and t = t])
      (use dt new in \<open>auto simp: c' untrackOperation_def trackOperation_def Let_def AList.delete_update_same AList.delete_id\<close>)
next
  case False
  then show ?thesis using assms by (auto simp: DisconnectWithContext_def books_refl split: option.splits)
qed

lemma books_keeps: "books k c c' \<Longrightarrow> no_disconnects c' = no_disconnects c"
  by (simp add: books_def no_disconnects_def)

lemma books_via: "books k (c\<lparr>nc_resolver := r\<rparr>) c' \<Longrightarrow> books k c c'"
  by (rule books_trans [where k = 0, OF books_resolver]) auto

lemma waitForDevice_books:
  assumes "waitForDeviceWithContext h ctx nqn c w = Some (r, c', v)"
  shows "books 0 c c'"
proof -
  have "books 0 c (fst (snd y))" if "waitForDeviceWithContext h ctx nqn c w = Some y" for y
    by (rule waitForDeviceWithContext.raw_induct [where P = "\<lambda>_ _ _ c _ y. books 0 c (fst (snd y))", OF _ that])
      (auto simp: GetDevicePath_def books_refl books_resolver split: prod.splits option.splits sum.splits, rule books_via, blast)
  from this [OF assms] show ?thesis by simp
qed

lemma connect_run_books:
  assumes "connect_run h ctx target config c w = Some (r, c', v)" "no_disconnects c"
  shows "books 1 c c'"
proof -
  obtain out e u where u: "nvme_command h ctx c (BuildConnectArgs target config) w = ((out, e), u)" by (metis surj_pair)
  show ?thesis
  proof (cases e)
    case (Some err)
    then show ?thesis using assms(1) u
      by (cases "ctxErr ctx u") (auto simp: connect_run_def Let_def intro: booksI [where e = 1 and d = 0 and n = 0 and t = 0]
          booksI [where e = 1 and d = 0 and n = 0 and t = 1])
  next
    case None
    then obtain res c1 w1 where w1: "waitForDeviceWithContext h ctx (tg_NQN target) c u = Some (res, c1, w1)"
      using assms(1) u by (auto simp: connect_run_def bind_eq_Some_conv)
    note b1 = waitForDevice_books [OF w1]
    show ?thesis
    proof (cases res)
      case (Inr dev)
      then show ?thesis using assms(1) u None w1 books_trans [OF b1 books_refl [of 1]] by (simp add: connect_run_def)
    next
      case (Inl err)
      obtain x c2 w2 where d: "DisconnectWithContext h Background (tg_NQN target) c1 w1 = (x, c2, w2)" by (metis surj_pair)
      have "books 0 c1 c2" using DisconnectWithContext_books [OF d] assms(2) books_keeps [OF b1] by simp
      moreover have "books 1 c2 (upd_metrics (mt_connectErrors_update (\<lambda>n. n + 1)) c2)"
        by (rule booksI [where e = 1 and d = 0 and n = 0 and t = 0]) auto
      ultimately have "books 1 c (upd_metrics (mt_connectErrors_update (\<lambda>n. n + 1)) c2)"
        using books_trans [OF b1] books_trans [where k = 0 and l = 1 and m = 1] by fastforce
      then show ?thesis using assms(1) u None w1 Inl d by (auto simp: connect_run_def Let_def)
    qed
  qed
qed

lemma connect_body_books:
  assumes "connect_body h ctx target config c w = Some (r, c', v)" "no_disconnects c"
  shows "books 1 c c'"
proof -
  have path: "books 1 c c''" if "GetDevicePath h nqn c u = (x, c'')" for nqn u x c''
    using that by (auto simp: GetDevicePath_def books_resolver split: prod.splits)
  have again: "books 1 c c'"
    if "DisconnectWithContext h ctx nqn (c\<lparr>nc_resolver := r'\<rparr>) u = (x, c1, u1)" "connect_run h ctx target config c1 u1 = Some (r, c', v)"
    for nqn r' u x c1 u1
  proof -
    have 1: "books 0 c c1"
      using books_via [OF DisconnectWithContext_books [OF that(1)]] assms(2) by (simp add: no_disconnects_def)
    show ?thesis
      by (rule books_trans [OF 1 connect_run_books [OF that(2)]]) (use assms(2) books_keeps [OF 1] in auto)
  qed
  show ?thesis using assms(1) connect_run_books [OF _ assms(2)]
    by (auto simp: connect_body_def Let_def books_refl split: prod.splits sum.splits bool.splits dest: path again)
qed

lemma ConnectWithConfig_books:
  assumes "ConnectWithConfig h ctx target config c w = Some (r, c', v)" "nc_activeOperations c = []"
  shows "\<exists>k::nat. k \<le> 1 \<and> books k c (upd_metrics (mt_connectCount_update (\<lambda>n. n - int k)) c')"
proof (cases "ValidateNQN (tg_NQN target) = None \<and> (tg_HostNQN target = [] \<or> ValidateNQN (tg_HostNQN target) = None)")
  case True
  let ?id = "''connect'' @ ''-'' @ tg_NQN target @ ''-'' @ Itoa (oNow h w)"
  let ?c = "snd (trackOperation h (tg_NQN target) ''connect'' c w)"
  have host: "(if tg_HostNQN target \<noteq> [] then ValidateNQN (tg_HostNQN target) else None) = None" using True by auto
  obtain res c1 u where body: "connect_body h (with_deadline h ctx (cf_ConnectTimeout (nc_config c)) w) target config ?c w = Some (res, c1, u)"
    using assms(1) True unfolding ConnectWithConfig_def host by (auto simp: trackOperation_def Let_def bind_eq_Some_conv)
  have c': "c' = untrackOperation ?id (upd_metrics (mt_connectCount_update (\<lambda>n. n + 1) \<circ>
      mt_connectDurationTotal_update (\<lambda>d. d + since (oNow h u) (oNow h w))) c1)"
    using assms(1) True body unfolding ConnectWithConfig_def host by (auto simp: trackOperation_def Let_def bind_eq_Some_conv)
  have "no_disconnects ?c" using assms(2) by (simp add: no_disconnects_def trackOperation_def Let_def)
  from connect_body_books [OF body this]
  have "books 1 c (upd_metrics (mt_connectCount_update (\<lambda>n. n - int 1)) c')"
    using assms(2) by (auto simp: books_def c' untrackOperation_def trackOperation_def Let_def)
  then show ?thesis by blast
next
  case False
  then have "c' = c" using assms(1) by (auto simp: ConnectWithConfig_def split: option.splits if_splits)
  then have "books 0 c (upd_metrics (mt_connectCount_update (\<lambda>n. n - int 0)) c')"
    by (intro booksI [where e = 0 and d = 0 and n = 0 and t = 0]) auto
  then show ?thesis by blast
qed

subsection \<open>The books of a connector\<close>

text \<open>
  Any sequence of calls of a connector, one at a time, in which the world moves on between the calls. A connect that does not
  return has no successor.
\<close>

inductive connector_run :: "'w host \<Rightarrow> connector \<times> 'w \<Rightarrow> connector \<times> 'w \<Rightarrow> bool" for h :: "'w host" and s :: "connector \<times> 'w" where
  start: "connector_run h s s"
| other: "connector_run h s (c, w) \<Longrightarrow> connector_run h s (c, v)"
| connect: "connector_run h s (c, w) \<Longrightarrow> ConnectWithConfig h ctx target config c w = Some (r, c', v) \<Longrightarrow> connector_run h s (c', v)"
| disconnect: "connector_run h s (c, w) \<Longrightarrow> DisconnectWithContext h ctx nqn c w = (e, c', v) \<Longrightarrow> connector_run h s (c', v)"
| path: "connector_run h s (c, w) \<Longrightarrow> GetDevicePath h nqn c w = (p, c') \<Longrightarrow> connector_run h s (c', w)"

definition settled :: "connector \<Rightarrow> bool" where
  "settled c \<longleftrightarrow>
     nc_activeOperations c = [] \<and> mt_activeOperations (nc_metrics c) = 0 \<and>
     0 \<le> mt_connectErrors (nc_metrics c) \<and> mt_connectErrors (nc_metrics c) \<le> mt_connectCount (nc_metrics c) \<and>
     0 \<le> mt_disconnectErrors (nc_metrics c) \<and> mt_disconnectErrors (nc_metrics c) \<le> mt_disconnectCount (nc_metrics c) \<and>
     0 \<le> mt_timeoutCount (nc_metrics c) \<and>
     mt_timeoutCount (nc_metrics c) \<le> mt_connectErrors (nc_metrics c) + mt_disconnectErrors (nc_metrics c)"

lemma settled_books:
  assumes "settled c" "books k c (upd_metrics (mt_connectCount_update (\<lambda>n. n - int k)) c')"
  shows "settled c'"
  using assms unfolding settled_def books_def by clarsimp

text \<open>C34. Whatever the machine does, after any sequence of calls a connector has settled: no operation is left in its table, none is
  counted as active, every error was counted with its operation and every timeout with an error.\<close>

theorem connector_settles:
  assumes "connector_run h (NewConnectorWithConfig config, w) (c, v)"
  shows "settled c"
proof -
  have "settled (fst t)" if "connector_run h s t" "settled (fst s)" for s t
    using that
  proof (induction rule: connector_run.induct)
    case (connect c w ctx target config r c' v)
    then have "nc_activeOperations c = []" by (simp add: settled_def)
    from ConnectWithConfig_books [OF connect.hyps(2) this] connect show ?case by (auto intro: settled_books)
  next
    case (disconnect c w ctx nqn e c' v)
    then have "no_disconnects c" by (simp add: settled_def no_disconnects_def)
    from DisconnectWithContext_books [OF disconnect.hyps(2) this] disconnect show ?case
      using settled_books [of c 0 c'] by (simp add: books_def)
  next
    case (path c w nqn p c')
    then show ?case using settled_books [of c 0 c'] books_resolver [of 0 c]
      by (auto simp: GetDevicePath_def settled_def split: prod.splits)
  qed auto
  from this [OF assms] show ?thesis by (simp add: settled_def NewConnectorWithConfig_def zero_metrics_def)
qed

theorem connector_settles_witness:
  "\<exists>e c. DisconnectWithContext (example_host True False) Background target_nqn NewConnector NewConnector = (e, c, NewConnector) \<and>
    mt_disconnectCount (nc_metrics c) = 1 \<and> settled c"
proof -
  obtain e c where run: "DisconnectWithContext (example_host True False) Background target_nqn NewConnector NewConnector = (e, c, NewConnector)"
      "mt_disconnectCount (nc_metrics c) = 1"
    by (simp add: DisconnectWithContext_def target_nqn_valid example_managed trackOperation_def disconnect_body_def untrackOperation_def
        IsConnectedWithContext_def nvme_command_def example_exec example_trim NewConnector_def NewConnectorWithConfig_def zero_metrics_def Let_def)
  from connector_run.disconnect [OF connector_run.start run(1)]
  have "connector_run (example_host True False) (NewConnectorWithConfig DefaultConfig, NewConnector) (c, NewConnector)"
    by (simp add: NewConnector_def)
  from connector_settles [OF this] run show ?thesis by blast
qed

subsection \<open>Targets that cannot be disconnected\<close>

text \<open>Volumes with an accepted ID of another form get a target that the connector refuses to disconnect.\<close>

lemma unmanaged_volume: "\<exists>nqn. VolumeIDToNQN ''vol-1'' = Inr nqn \<and> fst (Disconnect h nqn c w) \<noteq> None \<and> snd (Disconnect h nqn c w) = (c, w)"
proof -
  have "VolumeIDToNQN ''vol-1'' = Inr (NQNPrefix @ '':vol-1'')" "\<not> managed (NQNPrefix @ '':vol-1'')" by code_simp+
  then show ?thesis by (auto simp: Disconnect_def DisconnectWithContext_def split: option.split)
qed

text \<open>With another prefix of managed targets the clean-up of orphaned connections never disconnects anything.\<close>

lemma other_prefix_never_disconnects:
  assumes "HasPrefix nqn ''nqn.2000-02.com.example:''"
  shows "fst (DisconnectWithContext h ctx nqn c w) \<noteq> None \<and> snd (DisconnectWithContext h ctx nqn c w) = (c, w)"
proof -
  have "\<not> managed nqn" using assms by (auto simp: managed_def HasPrefix_iff)
  then show ?thesis by (simp add: DisconnectWithContext_def split: option.split)
qed

text \<open>A target counts as connected when its name is part of the name of a connected one.\<close>

lemma connected_by_prefix:
  "Contains (''{'' @ NQNPrefix @ '':pvc-1-snap}'') (NQNPrefix @ '':pvc-1'')"
  by code_simp

end
