(* ===== verification/MockNode.thy ===== *)
theory MockNode
  imports NodeProps
begin

text \<open>
  The mounter and the connector of \<^verbatim>\<open>test/mock\<close> (\<^verbatim>\<open>mounter.go\<close> and \<^verbatim>\<open>nvme_connector.go\<close>), which replace the real
  ones in the sanity tests of the driver, and the life of a volume on a node that uses them. Mutexes are left out: every
  operation holds the mutex of its object from start to end.
\<close>

subsection \<open>The mounter\<close>

record MountCall =
  ml_Source :: string
  ml_Target :: string
  ml_FSType :: string
  ml_Options :: "string list"

record FormatCall =
  fl_Device :: string
  fl_FSType :: string

record MockMounter =
  mk_mounted :: "string \<rightharpoonup> string" \<comment> \<open>target path to source\<close>
  mk_formatted :: "string \<rightharpoonup> string" \<comment> \<open>device to file system type\<close>
  mk_mountErr :: "goerr option"
  mk_unmountErr :: "goerr option"
  mk_formatErr :: "goerr option"
  mk_mountCalls :: "MountCall list"
  mk_unmountCalls :: "string list"
  mk_formatCalls :: "FormatCall list"

definition NewMockMounter :: MockMounter where
  "NewMockMounter =
     \<lparr> mk_mounted = Map.empty, mk_formatted = Map.empty, mk_mountErr = None, mk_unmountErr = None, mk_formatErr = None,
       mk_mountCalls = [], mk_unmountCalls = [], mk_formatCalls = [] \<rparr>"

definition mockm_Mount ::
    "'w host \<Rightarrow> string \<Rightarrow> string \<Rightarrow> string \<Rightarrow> string list \<Rightarrow> MockMounter \<Rightarrow> 'w \<Rightarrow> goerr option \<times> MockMounter \<times> 'w" where
  "mockm_Mount h source target fsType options m w =
     (let m = m\<lparr>mk_mountCalls := mk_mountCalls m @
            [\<lparr> ml_Source = source, ml_Target = target, ml_FSType = fsType, ml_Options = options \<rparr>]\<rparr>
      in case mk_mountErr m of
           Some err \<Rightarrow> (Some err, m, w)
         | None \<Rightarrow>
             (case oMkdirAll h target 493 w of
                (Some err, w) \<Rightarrow> (Some (wrap_err ''failed to create target directory: '' (file_error err)), m, w)
              | (None, w) \<Rightarrow> (None, m\<lparr>mk_mounted := (mk_mounted m)(target \<mapsto> source)\<rparr>, w)))"

definition mockm_Unmount :: "string \<Rightarrow> MockMounter \<Rightarrow> goerr option \<times> MockMounter" where
  "mockm_Unmount target m =
     (let m = m\<lparr>mk_unmountCalls := mk_unmountCalls m @ [target]\<rparr>
      in case mk_unmountErr m of
           Some err \<Rightarrow> (Some err, m)
         | None \<Rightarrow> (None, m\<lparr>mk_mounted := (mk_mounted m)(target := None)\<rparr>))"

definition mockm_IsLikelyMountPoint :: "string \<Rightarrow> MockMounter \<Rightarrow> bool" where
  "mockm_IsLikelyMountPoint path m = (mk_mounted m path \<noteq> None)"

definition mockm_Format :: "string \<Rightarrow> string \<Rightarrow> MockMounter \<Rightarrow> goerr option \<times> MockMounter" where
  "mockm_Format device fsType m =
     (let m = m\<lparr>mk_formatCalls := mk_formatCalls m @ [\<lparr> fl_Device = device, fl_FSType = fsType \<rparr>]\<rparr>
      in case mk_formatErr m of
           Some err \<Rightarrow> (Some err, m)
         | None \<Rightarrow> (None, m\<lparr>mk_formatted := (mk_formatted m)(device \<mapsto> fsType)\<rparr>))"

definition mockm_IsFormatted :: "string \<Rightarrow> MockMounter \<Rightarrow> bool" where
  "mockm_IsFormatted device m = (mk_formatted m device \<noteq> None)"

definition mockm_GetDeviceStats :: "string \<Rightarrow> MockMounter \<Rightarrow> goerr + DeviceStats" where
  "mockm_GetDeviceStats path m =
     (case mk_mounted m path of
        None \<Rightarrow> Inl (GoErr (''not mounted: '' @ path))
      | Some _ \<Rightarrow> Inr \<lparr> ds_TotalBytes = 10 * 1024 * 1024 * 1024, ds_UsedBytes = 1 * 1024 * 1024 * 1024,
                        ds_AvailableBytes = 9 * 1024 * 1024 * 1024, ds_TotalInodes = 1000000, ds_UsedInodes = 100000,
                        ds_AvailableInodes = 900000 \<rparr>)"

definition SetMountError :: "goerr option \<Rightarrow> MockMounter \<Rightarrow> MockMounter" where
  "SetMountError err m = m\<lparr>mk_mountErr := err\<rparr>"

definition SetUnmountError :: "goerr option \<Rightarrow> MockMounter \<Rightarrow> MockMounter" where
  "SetUnmountError err m = m\<lparr>mk_unmountErr := err\<rparr>"

definition SetFormatError :: "goerr option \<Rightarrow> MockMounter \<Rightarrow> MockMounter" where
  "SetFormatError err m = m\<lparr>mk_formatErr := err\<rparr>"

definition mockm_ClearErrors :: "MockMounter \<Rightarrow> MockMounter" where
  "mockm_ClearErrors m = m\<lparr>mk_mountErr := None, mk_unmountErr := None, mk_formatErr := None\<rparr>"

definition mockm_GetMountDevice :: "string \<Rightarrow> MockMounter \<Rightarrow> goerr + string" where
  "mockm_GetMountDevice path m =
     (case mk_mounted m path of None \<Rightarrow> Inl (GoErr (''path '' @ path @ '' is not mounted'')) | Some device \<Rightarrow> Inr device)"

subsection \<open>The connector\<close>

record MockNVMEConnector =
  mn_connected :: "string \<rightharpoonup> string" \<comment> \<open>NQN to device path\<close>
  mn_deviceCounter :: nat
  mn_connectErr :: "goerr option"
  mn_disconnectErr :: "goerr option"
  mn_getDevicePathErr :: "goerr option"
  mn_persistentErr :: "goerr option"
  mn_connectCalls :: "Target list"
  mn_disconnectCalls :: "string list"

definition NewMockNVMEConnector :: MockNVMEConnector where
  "NewMockNVMEConnector =
     \<lparr> mn_connected = Map.empty, mn_deviceCounter = 0, mn_connectErr = None, mn_disconnectErr = None,
       mn_getDevicePathErr = None, mn_persistentErr = None, mn_connectCalls = [], mn_disconnectCalls = [] \<rparr>"

definition SetConnectError :: "goerr option \<Rightarrow> MockNVMEConnector \<Rightarrow> MockNVMEConnector" where
  "SetConnectError err c = c\<lparr>mn_connectErr := err\<rparr>"

definition SetDisconnectError :: "goerr option \<Rightarrow> MockNVMEConnector \<Rightarrow> MockNVMEConnector" where
  "SetDisconnectError err c = c\<lparr>mn_disconnectErr := err\<rparr>"

definition SetGetDevicePathError :: "goerr option \<Rightarrow> MockNVMEConnector \<Rightarrow> MockNVMEConnector" where
  "SetGetDevicePathError err c = c\<lparr>mn_getDevicePathErr := err\<rparr>"

definition SetPersistentError :: "goerr option \<Rightarrow> MockNVMEConnector \<Rightarrow> MockNVMEConnector" where
  "SetPersistentError err c = c\<lparr>mn_persistentErr := err\<rparr>"

definition mockn_ClearErrors :: "MockNVMEConnector \<Rightarrow> MockNVMEConnector" where
  "mockn_ClearErrors c =
     c\<lparr>mn_connectErr := None, mn_disconnectErr := None, mn_getDevicePathErr := None, mn_persistentErr := None\<rparr>"

definition mockn_checkError :: "goerr option \<Rightarrow> MockNVMEConnector \<Rightarrow> goerr option" where
  "mockn_checkError specificErr c = (case mn_persistentErr c of Some err \<Rightarrow> Some err | None \<Rightarrow> specificErr)"

definition mockn_ConnectWithConfig ::
    "'w ctx \<Rightarrow> Target \<Rightarrow> MockNVMEConnector \<Rightarrow> 'w \<Rightarrow> (goerr + string) \<times> MockNVMEConnector" where
  "mockn_ConnectWithConfig ctx target c w =
     (let c = c\<lparr>mn_connectCalls := mn_connectCalls c @ [target]\<rparr>
      in case mockn_checkError (mn_connectErr c) c of
           Some err \<Rightarrow> (Inl err, c)
         | None \<Rightarrow>
             (case ctxErr ctx w of
                Some e \<Rightarrow> (Inl (ctx_error e), c)
              | None \<Rightarrow>
                  (case mn_connected c (tg_NQN target) of
                     Some devicePath \<Rightarrow> (Inr devicePath, c)
                   | None \<Rightarrow>
                       (let devicePath = ''/dev/nvme'' @ Itoa (int (mn_deviceCounter c)) @ ''n1''
                        in (Inr devicePath,
                            c\<lparr>mn_deviceCounter := mn_deviceCounter c + 1,
                              mn_connected := (mn_connected c)(tg_NQN target \<mapsto> devicePath)\<rparr>)))))"

definition mockn_DisconnectWithContext ::
    "'w ctx \<Rightarrow> string \<Rightarrow> MockNVMEConnector \<Rightarrow> 'w \<Rightarrow> goerr option \<times> MockNVMEConnector" where
  "mockn_DisconnectWithContext ctx nqn c w =
     (let c = c\<lparr>mn_disconnectCalls := mn_disconnectCalls c @ [nqn]\<rparr>
      in case mockn_checkError (mn_disconnectErr c) c of
           Some err \<Rightarrow> (Some err, c)
         | None \<Rightarrow>
             (case ctxErr ctx w of
                Some e \<Rightarrow> (Some (ctx_error e), c)
              | None \<Rightarrow> (None, c\<lparr>mn_connected := (mn_connected c)(nqn := None)\<rparr>)))"

definition mockn_IsConnectedWithContext :: "'w ctx \<Rightarrow> string \<Rightarrow> MockNVMEConnector \<Rightarrow> 'w \<Rightarrow> goerr + bool" where
  "mockn_IsConnectedWithContext ctx nqn c w =
     (case mn_persistentErr c of
        Some err \<Rightarrow> Inl err
      | None \<Rightarrow> (case ctxErr ctx w of Some e \<Rightarrow> Inl (ctx_error e) | None \<Rightarrow> Inr (mn_connected c nqn \<noteq> None)))"

definition mockn_GetDevicePath :: "string \<Rightarrow> MockNVMEConnector \<Rightarrow> goerr + string" where
  "mockn_GetDevicePath nqn c =
     (case mockn_checkError (mn_getDevicePathErr c) c of
        Some err \<Rightarrow> Inl err
      | None \<Rightarrow>
          (case mn_connected c nqn of
             None \<Rightarrow> Inl (GoErr (''device not found for NQN '' @ nqn))
           | Some devicePath \<Rightarrow> Inr devicePath))"

subsection \<open>A node with both\<close>

text \<open>The world of such a node: the two mock objects and the machine, whose other programs and files are real.\<close>

record 'w mock_world =
  mw_mounter :: MockMounter
  mw_connector :: MockNVMEConnector
  mw_os :: 'w

definition on_os :: "('w \<Rightarrow> 'a \<times> 'w) \<Rightarrow> 'w mock_world \<Rightarrow> 'a \<times> 'w mock_world" where
  "on_os f x = (case f (mw_os x) of (r, w) \<Rightarrow> (r, x\<lparr>mw_os := w\<rparr>))"

definition os_ctx :: "'w mock_world \<Rightarrow> 'w mock_world ctx \<Rightarrow> 'w ctx" where
  "os_ctx x ctx = \<lparr> ctxErr = (\<lambda>w. ctxErr ctx (x\<lparr>mw_os := w\<rparr>)), ctxDeadline = ctxDeadline ctx \<rparr>"

definition mock_host :: "'w host \<Rightarrow> 'w mock_world host" where
  "mock_host h =
     \<lparr> oNow = (\<lambda>x. oNow h (mw_os x)), oGetpid = (\<lambda>x. oGetpid h (mw_os x)), oStat = (\<lambda>p x. oStat h p (mw_os x)),
       oReadFile = (\<lambda>p x. oReadFile h p (mw_os x)), oReadDir = (\<lambda>p x. oReadDir h p (mw_os x)),
       oReadlink = (\<lambda>p x. oReadlink h p (mw_os x)), oEvalSymlinks = (\<lambda>p x. oEvalSymlinks h p (mw_os x)),
       oMobyMounts = (\<lambda>ctx x. on_os (oMobyMounts h (os_ctx x ctx)) x),
       oExec = (\<lambda>name args. on_os (oExec h name args)),
       oExecCtx = (\<lambda>ctx name args x. on_os (oExecCtx h (os_ctx x ctx) name args) x),
       oOutputCtx = (\<lambda>ctx name args x. on_os (oOutputCtx h (os_ctx x ctx) name args) x),
       oWait = (\<lambda>ctx d x. on_os (oWait h (os_ctx x ctx) d) x), oTick = (\<lambda>d t. on_os (oTick h d t)),
       oMkdirAll = (\<lambda>p m. on_os (oMkdirAll h p m)), oMknod = (\<lambda>p m r. on_os (oMknod h p m r)),
       oRemove = (\<lambda>p. on_os (oRemove h p)), oRemoveAll = (\<lambda>p. on_os (oRemoveAll h p)),
       oCreateExcl = (\<lambda>p m. on_os (oCreateExcl h p m)) \<rparr>"

text \<open>\<^verbatim>\<open>osCreate\<close> stands for \<^verbatim>\<open>os.Create\<close> followed by \<^verbatim>\<open>Close\<close>.\<close>

definition mock_mounter :: "'w host \<Rightarrow> (string \<Rightarrow> 'w \<Rightarrow> goerr option \<times> 'w) \<Rightarrow> 'w mock_world Mounter" where
  "mock_mounter h osCreate =
     \<lparr> mMount = (\<lambda>source target fsType options x.
         case mockm_Mount h source target fsType options (mw_mounter x) (mw_os x) of (e, m, w) \<Rightarrow> (e, x\<lparr>mw_mounter := m, mw_os := w\<rparr>)),
       mUnmount = (\<lambda>target x. case mockm_Unmount target (mw_mounter x) of (e, m) \<Rightarrow> (e, x\<lparr>mw_mounter := m\<rparr>)),
       mIsLikelyMountPoint = (\<lambda>path x. (Inr (mockm_IsLikelyMountPoint path (mw_mounter x)), x)),
       mFormat = (\<lambda>device fsType x. case mockm_Format device fsType (mw_mounter x) of (e, m) \<Rightarrow> (e, x\<lparr>mw_mounter := m\<rparr>)),
       mIsFormatted = (\<lambda>device x. (Inr (mockm_IsFormatted device (mw_mounter x)), x)),
       mResizeFilesystem = (\<lambda>device volumePath x. (None, x)),
       mGetDeviceStats = (\<lambda>path x. (mockm_GetDeviceStats path (mw_mounter x), x)),
       mForceUnmount = (\<lambda>target timeout x. Some (case mockm_Unmount target (mw_mounter x) of (e, m) \<Rightarrow> (e, x\<lparr>mw_mounter := m\<rparr>))),
       mIsMountInUse = (\<lambda>path x. (Inr [], x)),
       mMakeFile = (\<lambda>pathname. on_os (osCreate pathname)) \<rparr>"

definition mock_connector :: "'w mock_world Connector" where
  "mock_connector =
     \<lparr> nConnectWithRetry = (\<lambda>ctx target config x.
         Some (case mockn_ConnectWithConfig ctx target (mw_connector x) x of (r, c) \<Rightarrow> (r, x\<lparr>mw_connector := c\<rparr>))),
       nDisconnect = (\<lambda>nqn x.
         case mockn_DisconnectWithContext Background nqn (mw_connector x) x of (e, c) \<Rightarrow> (e, x\<lparr>mw_connector := c\<rparr>)),
       nDisconnectWithContext = (\<lambda>ctx nqn x.
         case mockn_DisconnectWithContext ctx nqn (mw_connector x) x of (e, c) \<Rightarrow> (e, x\<lparr>mw_connector := c\<rparr>)),
       nGetDevicePath = (\<lambda>nqn x. (mockn_GetDevicePath nqn (mw_connector x), x)),
       nResolver = None, nConnectedFn = None \<rparr>"

text \<open>The node server of the sanity tests, which asks the mock mounter for the devices of mounts.\<close>

definition mock_node ::
    "'w host \<Rightarrow> (string \<Rightarrow> 'w \<Rightarrow> goerr option \<times> 'w) \<Rightarrow> ('b, 'w mock_world) gobreaker \<Rightarrow> string \<Rightarrow> ('w mock_world, 'b) NodeServer" where
  "mock_node h osCreate gb nodeID =
     NewNodeServer (mock_host h) gb (mock_mounter h osCreate) mock_connector
       (Some (\<lambda>path x. mockm_GetMountDevice path (mw_mounter x))) nodeID None"

subsection \<open>The life of a volume\<close>

text \<open>
  What the machine has to do: directories can be made, target paths are not block devices, and nobody has a device open, which
  \<^verbatim>\<open>lsof\<close> reports by exit code 1.
\<close>

definition calm :: "'w host \<Rightarrow> bool" where
  "calm h \<longleftrightarrow>
     (\<forall>p m w. fst (oMkdirAll h p m w) = None) \<and>
     (\<forall>p w. \<exists>st. oStat h p w = Inr st \<and> st_kind st \<noteq> BlockDevice) \<and>
     (\<forall>ctx dev w. \<exists>out m. fst (oOutputCtx h ctx ''lsof'' [dev] w) = (out, Some (ExitError 1 m)))"

text \<open>A breaker that is closed for every volume.\<close>

definition closed_breaker :: "('b, 'w) gobreaker \<Rightarrow> bool" where
  "closed_breaker gb \<longleftrightarrow> (\<forall>fn b w. \<exists>b'. gbExecute gb fn b w = (Ran (fst (fn w)), b', snd (fn w)))"

definition no_errors :: "'w mock_world \<Rightarrow> bool" where
  "no_errors x \<longleftrightarrow>
     mk_mountErr (mw_mounter x) = None \<and> mk_unmountErr (mw_mounter x) = None \<and> mk_formatErr (mw_mounter x) = None \<and>
     mn_connectErr (mw_connector x) = None \<and> mn_disconnectErr (mw_connector x) = None \<and>
     mn_getDevicePathErr (mw_connector x) = None \<and> mn_persistentErr (mw_connector x) = None"

lemma mock_node_sel [simp]:
  "ns_host (mock_node h osCreate gb nodeID) = mock_host h"
  "ns_mounter (mock_node h osCreate gb nodeID) = mock_mounter h osCreate"
  "ns_nvmeConn (mock_node h osCreate gb nodeID) = mock_connector"
  "ns_eventPoster (mock_node h osCreate gb nodeID) = None"
  "ns_gobreaker (mock_node h osCreate gb nodeID) = gb"
  "\<exists>c. ns_staleChecker (mock_node h osCreate gb nodeID) = Some c \<and> sm_resolver c = None"
  by (simp_all add: mock_node_def NewNodeServer_def NewStaleMountChecker_def SetMountDeviceFunc_def mock_connector_def Let_def)

lemma calm_mkdir: "calm h \<Longrightarrow> \<exists>v. oMkdirAll h p m w = (None, v)"
  unfolding calm_def by (metis prod.collapse)

lemma mock_stage:
  assumes "calm h" "closed_breaker gb" "no_errors x" "stage_target req = Inr target" "ctxErr ctx x = None"
    and "mn_connected (mw_connector x) (tg_NQN target) = None"
    and "dev = ''/dev/nvme'' @ Itoa (int (mn_deviceCounter (mw_connector x))) @ ''n1''" "mk_formatted (mw_mounter x) dev = None"
    and "sg_VolumeCapability req \<noteq> Some BlockAccess"
  shows "\<exists>cbs' y. NodeStageVolume (mock_node h osCreate gb nodeID) ctx req cbs x = Some (Inr (), cbs', y) \<and> no_errors y \<and>
    mk_mounted (mw_mounter y) = (mk_mounted (mw_mounter x))(sg_StagingTargetPath req \<mapsto> dev) \<and>
    mk_formatted (mw_mounter y) = (mk_formatted (mw_mounter x))(dev \<mapsto> fs_type (sg_VolumeCapability req)) \<and>
    mn_connected (mw_connector y) = (mn_connected (mw_connector x))(tg_NQN target \<mapsto> dev)"
proof -
  let ?ns = "mock_node h osCreate gb nodeID"
  let ?c = "mw_connector x"
  define x1 where "x1 = x\<lparr>mw_connector := ?c\<lparr>mn_connectCalls := mn_connectCalls ?c @ [target],
    mn_deviceCounter := mn_deviceCounter ?c + 1, mn_connected := (mn_connected ?c)(tg_NQN target \<mapsto> dev)\<rparr>\<rparr>"
  have conn: "nConnectWithRetry (ns_nvmeConn ?ns) ctx target config x = Some (Inr dev, x1)" for config
    using assms(3,5,6,7)
    by (simp add: mock_connector_def mockn_ConnectWithConfig_def mockn_checkError_def no_errors_def x1_def Let_def)
  obtain v where v: "oMkdirAll h (sg_StagingTargetPath req) 493 (mw_os x) = (None, v)" using calm_mkdir [OF assms(1)] by blast
  obtain y where y: "stage_filesystem ?ns ctx req dev x1 = (None, y)" "no_errors y"
      "mk_mounted (mw_mounter y) = (mk_mounted (mw_mounter x))(sg_StagingTargetPath req \<mapsto> dev)"
      "mk_formatted (mw_mounter y) = (mk_formatted (mw_mounter x))(dev \<mapsto> fs_type (sg_VolumeCapability req))"
      "mn_connected (mw_connector y) = (mn_connected (mw_connector x))(tg_NQN target \<mapsto> dev)"
    using assms(3,8) v
    by (simp add: stage_filesystem_def formatted_loop.simps mock_mounter_def mockm_IsFormatted_def mockm_Format_def mockm_Mount_def
        no_errors_def x1_def Let_def)
  obtain b' where "gbExecute gb (stage_filesystem ?ns ctx req dev) (fst (getBreaker gb (sg_VolumeId req) cbs x1)) x1 = (Ran None, b', y)"
    using assms(2) y(1) unfolding closed_breaker_def by (metis fst_conv snd_conv)
  then have "\<exists>cbs'. Execute gb (sg_VolumeId req) (stage_filesystem ?ns ctx req dev) cbs x1 = (None, cbs', y)"
    by (auto simp: Execute_def split: prod.split)
  with conn y assms(4,9) show ?thesis by (auto simp: NodeStageVolume_def Let_def)
qed

lemma mock_publish:
  assumes "calm h" "no_errors x" "np_VolumeId req \<noteq> []" "np_StagingTargetPath req \<noteq> []" "np_TargetPath req \<noteq> []"
    and "np_VolumeCapability req \<noteq> None" "np_VolumeCapability req \<noteq> Some BlockAccess"
    and "mk_mounted (mw_mounter x) (np_StagingTargetPath req) \<noteq> None"
  shows "\<exists>y. NodePublishVolume (mock_node h osCreate gb nodeID) ctx req x = Some (Inr (), y) \<and> no_errors y \<and>
    mk_mounted (mw_mounter y) = (mk_mounted (mw_mounter x))(np_TargetPath req \<mapsto> np_StagingTargetPath req) \<and>
    mw_connector y = mw_connector x"
proof -
  let ?ns = "mock_node h osCreate gb nodeID"
  obtain v where v: "oMkdirAll h (np_TargetPath req) 493 (mw_os x) = (None, v)" using calm_mkdir [OF assms(1)] by blast
  obtain c where c: "ns_staleChecker ?ns = Some c" "sm_resolver c = None" using mock_node_sel(6) by blast
  have "checkAndRecoverMount ?ns ctx path nqn fsType opts namespace name volumeID x = Some (None, x)"
    for path nqn fsType opts namespace name volumeID
    by (simp add: checkAndRecoverMount_def c GetStaleInfo_def no_info_def)
  then have "publish_filesystem ?ns ctx req x =
      (case mMount (mock_mounter h osCreate) (np_StagingTargetPath req) (np_TargetPath req) []
         ([''bind''] @ (if np_Readonly req then [''ro''] else []) @ mount_flags (np_VolumeCapability req)) x of
        (Some err, w) \<Rightarrow> Some (Inl Internal, w) | (None, w) \<Rightarrow> Some (Inr (), w))"
    using assms(8) by (simp add: publish_filesystem_def mockm_IsLikelyMountPoint_def Let_def mock_mounter_def)
  with v assms show ?thesis
    by (auto simp: NodePublishVolume_def mock_mounter_def mockm_Mount_def no_errors_def Let_def)
qed

lemma mock_unpublish:
  assumes "calm h" "no_errors x" "volumeID \<noteq> []" "path \<noteq> []"
  shows "\<exists>y. NodeUnpublishVolume (mock_node h osCreate gb nodeID) volumeID path x = (Inr (), y) \<and> no_errors y \<and>
    mk_mounted (mw_mounter y) = (mk_mounted (mw_mounter x))(path := None) \<and> mw_connector y = mw_connector x"
proof -
  obtain st where "oStat h path (mw_os x) = Inr st" "st_kind st \<noteq> BlockDevice" using assms(1) unfolding calm_def by blast
  with assms(2-4) show ?thesis
    by (simp add: NodeUnpublishVolume_def mock_host_def mock_mounter_def mockm_Unmount_def no_errors_def on_os_def Let_def split: prod.split)
qed

lemma mock_idle:
  assumes "calm h" "CheckDeviceInUse (mock_host h) ctx dev x = (res, y)"
  shows "\<not> du_InUse res" "mw_mounter y = mw_mounter x" "mw_connector y = mw_connector x"
proof -
  let ?c = "WithTimeout (mock_host h) ctx DeviceCheckTimeout x"
  obtain out m v where "oOutputCtx h (os_ctx x ?c) ''lsof'' [dev] (mw_os x) = ((out, Some (ExitError 1 m)), v)"
    using assms(1) unfolding calm_def by (metis prod.collapse)
  then have "oOutputCtx (mock_host h) ?c ''lsof'' [dev] x = ((out, Some (ExitError 1 m)), x\<lparr>mw_os := v\<rparr>)"
    by (simp add: mock_host_def on_os_def)
  with assms(2) show "\<not> du_InUse res" "mw_mounter y = mw_mounter x" "mw_connector y = mw_connector x"
    by (auto simp: CheckDeviceInUse_def not_in_use_def Let_def simp del: WithTimeout_sel split: if_splits)
qed

lemma mock_unstage:
  assumes "calm h" "no_errors x" "VolumeIDToNQN volumeID = Inr nqn" "volumeID \<noteq> []" "path \<noteq> []"
    and "mk_mounted (mw_mounter x) path \<noteq> None" "mn_connected (mw_connector x) nqn = Some dev"
  shows "\<exists>y. NodeUnstageVolume (mock_node h osCreate gb nodeID) ctx volumeID path x = (Inr (), y) \<and>
    mk_mounted (mw_mounter y) = (mk_mounted (mw_mounter x))(path := None) \<and>
    mn_connected (mw_connector y) = (mn_connected (mw_connector x))(nqn := None)"
proof -
  let ?x = "x\<lparr>mw_mounter := (mw_mounter x)\<lparr>mk_unmountCalls := mk_unmountCalls (mw_mounter x) @ [path],
    mk_mounted := (mk_mounted (mw_mounter x))(path := None)\<rparr>\<rparr>"
  have nqn: "nqn \<noteq> []" using assms(3) by (auto simp: VolumeIDToNQN_Inr_iff NQNPrefix_def)
  obtain res y where y: "CheckDeviceInUse (mock_host h) ctx dev ?x = (res, y)" by (rule prod.exhaust)
  note idle = mock_idle [OF assms(1) y]
  have "CheckDeviceInUseWithRetry (mock_host h) ctx dev 3 second ?x = (res, y)"
    using idle(1) y by (simp add: CheckDeviceInUseWithRetry_def check_loop.simps)
  then have "unstage_filesystem (mock_node h osCreate gb nodeID) ctx path nqn x = (None, y)"
    using assms(2,7) nqn idle(1)
    by (simp add: unstage_filesystem_def mock_mounter_def mockm_Unmount_def mock_connector_def mockn_GetDevicePath_def mockn_checkError_def
        no_errors_def busy_def Let_def)
  then show ?thesis
    using assms(2,3,4,5,6) nqn idle(2,3)
    by (auto simp: NodeUnstageVolume_def mock_mounter_def mockm_IsLikelyMountPoint_def mock_connector_def mockn_DisconnectWithContext_def
        mockn_checkError_def no_errors_def Background_def Let_def)
qed

text \<open>C7. The life of a volume on a node: staging a new volume formats its device and mounts it, publishing mounts it at the target,
  unpublishing and unstaging succeed and leave the mounts and the connections as they were before.\<close>

theorem node_lifecycle:
  assumes "calm h" "closed_breaker gb" "no_errors x"
    and "stage_target req = Inr target" "VolumeIDToNQN (sg_VolumeId req) = Inr (tg_NQN target)" "ctxErr ctx x = None"
    and "mn_connected (mw_connector x) (tg_NQN target) = None"
    and "dev = ''/dev/nvme'' @ Itoa (int (mn_deviceCounter (mw_connector x))) @ ''n1''" "mk_formatted (mw_mounter x) dev = None"
    and "sg_VolumeCapability req = Some (MountAccess fsType flags)"
    and "path \<noteq> []" "path \<noteq> sg_StagingTargetPath req"
    and "mk_mounted (mw_mounter x) (sg_StagingTargetPath req) = None" "mk_mounted (mw_mounter x) path = None"
  shows "\<exists>cbs' y1 y2 y3 y4.
    NodeStageVolume (mock_node h osCreate gb nodeID) ctx req cbs x = Some (Inr (), cbs', y1) \<and>
    mk_mounted (mw_mounter y1) = (mk_mounted (mw_mounter x))(sg_StagingTargetPath req \<mapsto> dev) \<and>
    mk_formatted (mw_mounter y1) dev = Some (fs_type (sg_VolumeCapability req)) \<and>
    NodePublishVolume (mock_node h osCreate gb nodeID) ctx
      \<lparr> np_VolumeId = sg_VolumeId req, np_StagingTargetPath = sg_StagingTargetPath req, np_TargetPath = path,
        np_VolumeCapability = sg_VolumeCapability req, np_VolumeContext = sg_VolumeContext req, np_Readonly = ro \<rparr> y1 = Some (Inr (), y2) \<and>
    mk_mounted (mw_mounter y2) path = Some (sg_StagingTargetPath req) \<and>
    NodeUnpublishVolume (mock_node h osCreate gb nodeID) (sg_VolumeId req) path y2 = (Inr (), y3) \<and>
    NodeUnstageVolume (mock_node h osCreate gb nodeID) ctx (sg_VolumeId req) (sg_StagingTargetPath req) y3 = (Inr (), y4) \<and>
    mk_mounted (mw_mounter y4) = mk_mounted (mw_mounter x) \<and> mn_connected (mw_connector y4) = mn_connected (mw_connector x)"
proof -
  let ?ns = "mock_node h osCreate gb nodeID"
  let ?preq = "\<lparr> np_VolumeId = sg_VolumeId req, np_StagingTargetPath = sg_StagingTargetPath req, np_TargetPath = path,
    np_VolumeCapability = sg_VolumeCapability req, np_VolumeContext = sg_VolumeContext req, np_Readonly = ro \<rparr>"
  have ids: "sg_VolumeId req \<noteq> []" "sg_StagingTargetPath req \<noteq> []"
    using assms(4) by (auto simp: stage_target_def Let_def split: if_splits)
  obtain cbs' y1 where y1: "NodeStageVolume ?ns ctx req cbs x = Some (Inr (), cbs', y1)" "no_errors y1"
      "mk_mounted (mw_mounter y1) = (mk_mounted (mw_mounter x))(sg_StagingTargetPath req \<mapsto> dev)"
      "mk_formatted (mw_mounter y1) = (mk_formatted (mw_mounter x))(dev \<mapsto> fs_type (sg_VolumeCapability req))"
      "mn_connected (mw_connector y1) = (mn_connected (mw_connector x))(tg_NQN target \<mapsto> dev)"
    using mock_stage [OF assms(1,2,3,4,6,7,8,9)] assms(10) by fastforce
  obtain y2 where y2: "NodePublishVolume ?ns ctx ?preq y1 = Some (Inr (), y2)" "no_errors y2"
      "mk_mounted (mw_mounter y2) = (mk_mounted (mw_mounter y1))(path \<mapsto> sg_StagingTargetPath req)" "mw_connector y2 = mw_connector y1"
    using mock_publish [OF assms(1) y1(2), of ?preq osCreate gb nodeID ctx] ids assms(10,11) y1(3) by auto
  obtain y3 where y3: "NodeUnpublishVolume ?ns (sg_VolumeId req) path y2 = (Inr (), y3)" "no_errors y3"
      "mk_mounted (mw_mounter y3) = (mk_mounted (mw_mounter y2))(path := None)" "mw_connector y3 = mw_connector y2"
    using mock_unpublish [OF assms(1) y2(2) ids(1) assms(11)] by blast
  obtain y4 where y4: "NodeUnstageVolume ?ns ctx (sg_VolumeId req) (sg_StagingTargetPath req) y3 = (Inr (), y4)"
      "mk_mounted (mw_mounter y4) = (mk_mounted (mw_mounter y3))(sg_StagingTargetPath req := None)"
      "mn_connected (mw_connector y4) = (mn_connected (mw_connector y3))(tg_NQN target := None)"
    using mock_unstage [OF assms(1) y3(2) assms(5) ids, of dev osCreate gb nodeID ctx] y1 y2 y3 assms(12) by auto
  have "mk_mounted (mw_mounter y4) = mk_mounted (mw_mounter x)" "mn_connected (mw_connector y4) = mn_connected (mw_connector x)"
    using y1(3,5) y2(3,4) y3(3,4) y4(2,3) assms(7,12,13,14) by (auto simp: fun_eq_iff)
  with y1 y2 y3 y4 show ?thesis by fastforce
qed

definition example_world :: "unit mock_world" where
  "example_world = \<lparr> mw_mounter = NewMockMounter, mw_connector = NewMockNVMEConnector, mw_os = () \<rparr>"

definition example_machine :: "unit host" where
  "example_machine =
     \<lparr> oNow = (\<lambda>_. 0), oGetpid = (\<lambda>_. 7), oStat = (\<lambda>_ _. Inr \<lparr> st_kind = Directory, st_rdev = 0 \<rparr>),
       oReadFile = (\<lambda>p _. Inl (NotExist p)), oReadDir = (\<lambda>_ _. Inr []), oReadlink = (\<lambda>p _. Inr p), oEvalSymlinks = (\<lambda>p _. Inr p),
       oMobyMounts = (\<lambda>_ w. (Inr (Inr []), w)), oExec = (\<lambda>_ _ w. (([], None), w)), oExecCtx = (\<lambda>_ _ _ w. (([], None), w)),
       oOutputCtx = (\<lambda>_ _ _ w. (([], Some (ExitError 1 ''exit status 1'')), w)), oWait = (\<lambda>_ _ w. (None, w)), oTick = (\<lambda>_ _ w. (True, w)),
       oMkdirAll = (\<lambda>_ _ w. (None, w)), oMknod = (\<lambda>_ _ _ w. (None, w)), oRemove = (\<lambda>_ w. (None, w)), oRemoveAll = (\<lambda>_ w. (None, w)),
       oCreateExcl = (\<lambda>_ _ w. (None, w)) \<rparr>"

theorem node_lifecycle_witness:
  "\<exists>cbs' y1 y2 y3 y4.
    NodeStageVolume (mock_node example_machine (\<lambda>_ w. (None, w)) example_breaker ''node-1'') Background example_request Map.empty example_world
      = Some (Inr (), cbs', y1) \<and>
    mk_mounted (mw_mounter y1) = [''/staging'' \<mapsto> ''/dev/nvme0n1''] \<and>
    NodePublishVolume (mock_node example_machine (\<lambda>_ w. (None, w)) example_breaker ''node-1'') Background
      \<lparr> np_VolumeId = example_id, np_StagingTargetPath = ''/staging'', np_TargetPath = ''/target'',
        np_VolumeCapability = Some (MountAccess [] []), np_VolumeContext = sg_VolumeContext example_request, np_Readonly = False \<rparr> y1
      = Some (Inr (), y2) \<and>
    NodeUnpublishVolume (mock_node example_machine (\<lambda>_ w. (None, w)) example_breaker ''node-1'') example_id ''/target'' y2 = (Inr (), y3) \<and>
    NodeUnstageVolume (mock_node example_machine (\<lambda>_ w. (None, w)) example_breaker ''node-1'') Background example_id ''/staging'' y3 = (Inr (), y4) \<and>
    mk_mounted (mw_mounter y4) = Map.empty \<and> mn_connected (mw_connector y4) = Map.empty"
proof -
  have calm: "calm example_machine" by (simp add: calm_def example_machine_def)
  have closed: "closed_breaker example_breaker" by (simp add: closed_breaker_def example_breaker_def case_prod_unfold)
  have none: "no_errors example_world" by (simp add: no_errors_def example_world_def NewMockMounter_def NewMockNVMEConnector_def)
  have zero: "Itoa 0 = ''0''" by code_simp
  have req: "sg_VolumeId example_request = example_id" "sg_StagingTargetPath example_request = ''/staging''"
    "sg_VolumeCapability example_request = Some (MountAccess [] [])" by (simp_all add: example_request_def)
  show ?thesis
    using node_lifecycle [OF calm closed none example_target, of Background "''/dev/nvme0n1''" "[]" "[]" "''/target''"
        "\<lambda>_ w. (None, w)" "''node-1''" Map.empty False]
    by (simp add: zero req example_id_nqn Background_def example_world_def NewMockMounter_def NewMockNVMEConnector_def) blast
qed

end
