(* ===== verification/VmiGrouper.thy ===== *)
theory VmiGrouper
  imports Locks
begin

text \<open>
  Serialisation per virtual machine: \<^verbatim>\<open>pkg/driver/vmi_grouper.go\<close>. The first part is the look-up of the machine that owns a
  claim with its cache; the list of pods of a namespace is an argument, since client-go and the API server are not part of
  the repository. The second part is the table of reference-counted locks under any number of goroutines, as a step relation
  like the one of theory \<open>Locks\<close>, whose invariants it reuses: here entries are also removed from the table, and the
  invariant that makes this safe is that the reference count of a lock is the number of goroutines that know its address.
\<close>

subsection \<open>The machine of a claim\<close>

record Pod =
  pod_Namespace :: string
  pod_Claims :: "string option list" \<comment> \<open>\<^verbatim>\<open>Spec.Volumes\<close>: the claim name of each volume that has one\<close>
  pod_Owners :: "(string \<times> string) list" \<comment> \<open>\<^verbatim>\<open>OwnerReferences\<close>: kind and name\<close>
  pod_Labels :: "string \<rightharpoonup> string"

record vmiCacheEntry =
  ce_vmiKey :: string
  ce_expiresAt :: time
  ce_found :: bool

record VMIGrouper =
  vg_k8sClient :: bool \<comment> \<open>whether there is one\<close>
  vg_cache :: "string \<rightharpoonup> vmiCacheEntry"
  vg_cacheTTL :: duration
  vg_cacheClean :: time
  vg_enabled :: bool

definition NewVMIGrouper :: "bool \<Rightarrow> duration \<Rightarrow> bool \<Rightarrow> VMIGrouper" where
  "NewVMIGrouper k8sClient ttl on =
     \<lparr>vg_k8sClient = k8sClient, vg_cache = Map.empty, vg_cacheTTL = (if ttl \<le> 0 then 60 * second else ttl),
      vg_cacheClean = zero_time, vg_enabled = on\<rparr>"

definition podMountsPVC :: "Pod \<Rightarrow> string \<Rightarrow> bool" where
  "podMountsPVC pod pvcName = list_ex (\<lambda>c. c = Some pvcName) (pod_Claims pod)"

definition extractVMIFromPod :: "Pod \<Rightarrow> string" where
  "extractVMIFromPod pod =
     (case List.find (\<lambda>(kind, _). kind = ''VirtualMachineInstance'') (pod_Owners pod) of
        Some (_, name) \<Rightarrow> pod_Namespace pod @ ''/'' @ name
      | None \<Rightarrow>
          (case pod_Labels pod ''kubevirt.io/vmi'' of
             Some vmiName \<Rightarrow> pod_Namespace pod @ ''/'' @ vmiName
           | None \<Rightarrow>
               (case pod_Labels pod ''vm.kubevirt.io/name'' of
                  Some vmiName \<Rightarrow> pod_Namespace pod @ ''/'' @ vmiName
                | None \<Rightarrow> [])))"

fun find_vmi :: "string \<Rightarrow> Pod list \<Rightarrow> string \<times> bool" where
  "find_vmi pvcName [] = ([], False)"
| "find_vmi pvcName (pod # pods) =
     (if podMountsPVC pod pvcName \<and> extractVMIFromPod pod \<noteq> [] then (extractVMIFromPod pod, True)
      else find_vmi pvcName pods)"

text \<open>The pods are what the list call for the namespace of the claim returned; a failed call is \<open>Inl\<close>.\<close>

definition lookupVMIFromAPI :: "goerr + Pod list \<Rightarrow> string \<Rightarrow> string \<times> bool" where
  "lookupVMIFromAPI pods pvcName = (case pods of Inl err \<Rightarrow> ([], False) | Inr pods \<Rightarrow> find_vmi pvcName pods)"

definition getCached :: "time \<Rightarrow> string \<Rightarrow> VMIGrouper \<Rightarrow> vmiCacheEntry option" where
  "getCached now pvcKey g =
     (case vg_cache g pvcKey of
        None \<Rightarrow> None
      | Some entry \<Rightarrow> if ce_expiresAt entry < now then None else Some entry)"

definition cleanExpiredLocked :: "time \<Rightarrow> VMIGrouper \<Rightarrow> VMIGrouper" where
  "cleanExpiredLocked now g =
     g\<lparr>vg_cache := (\<lambda>key. case vg_cache g key of
          Some entry \<Rightarrow> if ce_expiresAt entry < now then None else Some entry | None \<Rightarrow> None)\<rparr>"

definition setCache :: "time \<Rightarrow> string \<Rightarrow> string \<Rightarrow> bool \<Rightarrow> VMIGrouper \<Rightarrow> VMIGrouper" where
  "setCache now pvcKey vmiKey found g =
     (let g = (if since now (vg_cacheClean g) > 5 * minute then (cleanExpiredLocked now g)\<lparr>vg_cacheClean := now\<rparr> else g)
      in g\<lparr>vg_cache := (vg_cache g)(pvcKey \<mapsto>
             \<lparr>ce_vmiKey = vmiKey, ce_expiresAt = now + vg_cacheTTL g, ce_found = found\<rparr>)\<rparr>)"

definition InvalidateCache :: "string \<Rightarrow> string \<Rightarrow> VMIGrouper \<Rightarrow> VMIGrouper" where
  "InvalidateCache pvcNamespace pvcName g = g\<lparr>vg_cache := (vg_cache g)(pvcNamespace @ ''/'' @ pvcName := None)\<rparr>"

text \<open>\<open>list\<close> is the list call; \<open>now\<close> and \<open>now'\<close> are the two readings of the clock.\<close>

definition resolveVMIForPVC ::
    "(string \<Rightarrow> goerr + Pod list) \<Rightarrow> time \<Rightarrow> time \<Rightarrow> string \<Rightarrow> string \<Rightarrow> VMIGrouper \<Rightarrow> string \<times> VMIGrouper" where
  "resolveVMIForPVC list now now' pvcNamespace pvcName g =
     (let cacheKey = pvcNamespace @ ''/'' @ pvcName
      in case getCached now cacheKey g of
           Some entry \<Rightarrow> (if ce_found entry then ce_vmiKey entry else [], g)
         | None \<Rightarrow>
             (let (vmiKey, found) = lookupVMIFromAPI (list pvcNamespace) pvcName
              in (vmiKey, setCache now' cacheKey vmiKey found g)))"

text \<open>The part of \<^verbatim>\<open>LockVMI\<close> before the lock: the key whose lock is taken next, or the empty string for no lock.\<close>

definition LockVMI_key ::
    "(string \<Rightarrow> goerr + Pod list) \<Rightarrow> time \<Rightarrow> time \<Rightarrow> string \<Rightarrow> string \<Rightarrow> VMIGrouper \<Rightarrow> string \<times> VMIGrouper" where
  "LockVMI_key list now now' pvcNamespace pvcName g =
     (if \<not> vg_enabled g \<or> \<not> vg_k8sClient g then ([], g) else resolveVMIForPVC list now now' pvcNamespace pvcName g)"

subsection \<open>The locks\<close>

text \<open>The positions of a goroutine in \<^verbatim>\<open>LockVMI\<close> and in the function it returns; the latter captures the key and the lock.\<close>

datatype vmi_pc =
    VIdle
  | GetStart string \<comment> \<open>in \<^verbatim>\<open>getOrCreateLock\<close>, before \<^verbatim>\<open>g.mu.Lock()\<close>\<close>
  | GetMu string \<comment> \<open>in \<^verbatim>\<open>getOrCreateLock\<close>, holding \<open>mu\<close>\<close>
  | VWait string addr \<comment> \<open>before \<^verbatim>\<open>lock.mu.Lock()\<close>\<close>
  | Serving string addr \<comment> \<open>between \<^verbatim>\<open>LockVMI\<close> and \<^verbatim>\<open>lock.mu.Unlock()\<close>\<close>
  | RelStart string addr \<comment> \<open>in \<^verbatim>\<open>releaseLock\<close>, before \<^verbatim>\<open>g.mu.Lock()\<close>\<close>
  | RelMu string addr \<comment> \<open>in \<^verbatim>\<open>releaseLock\<close>, holding \<open>mu\<close>\<close>

record vmiLocks =
  vl_mu :: "thread option"
  vl_locks :: "string \<rightharpoonup> addr"
  vl_fresh :: addr \<comment> \<open>the next address the allocator gives out\<close>
  vl_refCount :: "addr \<Rightarrow> int"
  vl_owner :: "addr \<Rightarrow> thread option" \<comment> \<open>of the mutex in the lock\<close>
  vl_pc :: "thread \<Rightarrow> vmi_pc"

definition no_vmi_locks :: vmiLocks where
  "no_vmi_locks = \<lparr>vl_mu = None, vl_locks = Map.empty, vl_fresh = 0, vl_refCount = (\<lambda>_. 0),
     vl_owner = (\<lambda>_. None), vl_pc = (\<lambda>_. VIdle)\<rparr>"

definition getOrCreateLock :: "string \<Rightarrow> vmiLocks \<Rightarrow> addr \<times> vmiLocks" where
  "getOrCreateLock vmiKey s =
     (let (lock, s) =
        (case vl_locks s vmiKey of
           Some a \<Rightarrow> (a, s)
         | None \<Rightarrow> (vl_fresh s, s\<lparr>vl_locks := (vl_locks s)(vmiKey \<mapsto> vl_fresh s), vl_fresh := Suc (vl_fresh s),
                      vl_refCount := (vl_refCount s)(vl_fresh s := 0)\<rparr>))
      in (lock, s\<lparr>vl_refCount := (vl_refCount s)(lock := vl_refCount s lock + 1)\<rparr>))"

definition releaseLock :: "string \<Rightarrow> vmiLocks \<Rightarrow> vmiLocks" where
  "releaseLock vmiKey s =
     (case vl_locks s vmiKey of
        None \<Rightarrow> s
      | Some lock \<Rightarrow>
          (let s = s\<lparr>vl_refCount := (vl_refCount s)(lock := vl_refCount s lock - 1)\<rparr>
           in if vl_refCount s lock \<le> 0 then s\<lparr>vl_locks := (vl_locks s)(vmiKey := None)\<rparr> else s))"

definition vgoto :: "thread \<Rightarrow> vmi_pc \<Rightarrow> vmiLocks \<Rightarrow> vmiLocks" where
  "vgoto t p s = s\<lparr>vl_pc := (vl_pc s)(t := p)\<rparr>"

inductive vmi_step :: "thread \<Rightarrow> vmiLocks \<Rightarrow> vmiLocks \<Rightarrow> bool" where
  call_LockVMI: "vl_pc s t = VIdle \<Longrightarrow> vmi_step t s (vgoto t (GetStart k) s)"
| Get_mu: "vl_pc s t = GetStart k \<Longrightarrow> vl_mu s = None \<Longrightarrow> vmi_step t s (vgoto t (GetMu k) (s\<lparr>vl_mu := Some t\<rparr>))"
| Get_lock: "vl_pc s t = GetMu k \<Longrightarrow> getOrCreateLock k s = (a, s') \<Longrightarrow>
    vmi_step t s (vgoto t (VWait k a) (s'\<lparr>vl_mu := None\<rparr>))"
| Acquire: "vl_pc s t = VWait k a \<Longrightarrow> vl_owner s a = None \<Longrightarrow>
    vmi_step t s (vgoto t (Serving k a) (s\<lparr>vl_owner := (vl_owner s)(a := Some t)\<rparr>))"
| Unlock: "vl_pc s t = Serving k a \<Longrightarrow>
    vmi_step t s (vgoto t (RelStart k a) (s\<lparr>vl_owner := (vl_owner s)(a := None)\<rparr>))"
| Rel_mu: "vl_pc s t = RelStart k a \<Longrightarrow> vl_mu s = None \<Longrightarrow> vmi_step t s (vgoto t (RelMu k a) (s\<lparr>vl_mu := Some t\<rparr>))"
| Release: "vl_pc s t = RelMu k a \<Longrightarrow> vmi_step t s (vgoto t VIdle ((releaseLock k s)\<lparr>vl_mu := None\<rparr>))"

inductive vmi_reachable :: "vmiLocks \<Rightarrow> bool" where
  vmi_start: "vmi_reachable no_vmi_locks"
| vmi_next: "vmi_reachable s \<Longrightarrow> vmi_step t s s' \<Longrightarrow> vmi_reachable s'"

subsection \<open>The invariant\<close>

fun serves :: "vmi_pc \<Rightarrow> string option" where
  "serves (Serving k a) = Some k"
| "serves _ = None"

fun vmi_in_mu :: "vmi_pc \<Rightarrow> bool" where
  "vmi_in_mu (GetMu k) = True"
| "vmi_in_mu (RelMu k a) = True"
| "vmi_in_mu _ = False"

fun refers :: "vmi_pc \<Rightarrow> (string \<times> addr) option" where
  "refers (VWait k a) = Some (k, a)"
| "refers (Serving k a) = Some (k, a)"
| "refers (RelStart k a) = Some (k, a)"
| "refers (RelMu k a) = Some (k, a)"
| "refers _ = None"

text \<open>A lock in the table is counted, and its count is the number of goroutines that refer to it.\<close>

definition ref_inv :: "(string \<rightharpoonup> addr) \<Rightarrow> (addr \<Rightarrow> int) \<Rightarrow> (thread \<Rightarrow> (string \<times> addr) option) \<Rightarrow> bool" where
  "ref_inv l n r \<longleftrightarrow> finite {t. r t \<noteq> None} \<and>
     (\<forall>k a. l k = Some a \<longrightarrow> 0 < n a \<and> n a = int (card {t. r t = Some (k, a)}))"

definition vmi_inv :: "vmiLocks \<Rightarrow> bool" where
  "vmi_inv s \<longleftrightarrow> mu_inv (vl_mu s) (vmi_in_mu \<circ> vl_pc s) \<and> alloc_inv (vl_locks s) (vl_fresh s) \<and>
     know_inv (vl_locks s) (refers \<circ> vl_pc s) \<and> own_inv (vl_locks s) (vl_owner s) (serves \<circ> vl_pc s) \<and>
     ref_inv (vl_locks s) (vl_refCount s) (refers \<circ> vl_pc s)"

lemma vmi_invD:
  assumes "vmi_inv s"
  shows "vl_mu s = Some t \<longleftrightarrow> vmi_in_mu (vl_pc s t)"
    and "vl_locks s k = Some a \<Longrightarrow> a < vl_fresh s"
    and "vl_locks s k = Some a \<Longrightarrow> vl_locks s j = Some a \<Longrightarrow> k = j"
    and "refers (vl_pc s t) = Some (k, a) \<Longrightarrow> vl_locks s k = Some a"
    and "serves (vl_pc s t) = Some k \<Longrightarrow> \<exists>a. vl_locks s k = Some a \<and> vl_owner s a = Some t"
    and "vl_owner s a = Some t \<Longrightarrow> \<exists>k. vl_locks s k = Some a \<and> serves (vl_pc s t) = Some k"
    and "vl_locks s k = Some a \<Longrightarrow> 0 < vl_refCount s a \<and> vl_refCount s a = int (card {t. refers (vl_pc s t) = Some (k, a)})"
    and "finite {t. refers (vl_pc s t) \<noteq> None}"
  using assms unfolding vmi_inv_def mu_inv_def alloc_inv_def know_inv_def own_inv_def ref_inv_def comp_def by blast+

lemma finite_referring: "finite {t. r t \<noteq> None} \<Longrightarrow> finite {t. r t = Some x}"
  by (rule finite_subset [rotated]) auto

lemma ref_invD:
  assumes "ref_inv l n r" "l k = Some a"
  shows "0 < n a" "n a = int (card {t. r t = Some (k, a)})"
  using assms unfolding ref_inv_def by blast+

text \<open>One more reference, to a lock of the table or to a new one.\<close>

lemma ref_inv_take:
  assumes "ref_inv l n r" "alloc_inv l f" "r t = None" "l k = Some a"
  shows "ref_inv l (n(a := n a + 1)) (r(t := Some (k, a)))"
  unfolding ref_inv_def
proof (intro conjI allI impI)
  have fin: "finite {u. r u \<noteq> None}" using assms(1) by (simp add: ref_inv_def)
  have "{u. (r(t := Some (k, a))) u \<noteq> None} = insert t {u. r u \<noteq> None}" by auto
  then show "finite {u. (r(t := Some (k, a))) u \<noteq> None}" using fin by simp
  fix j b assume b: "l j = Some b"
  have c: "0 < n b" "n b = int (card {u. r u = Some (j, b)})" using ref_invD [OF assms(1) b] by blast+
  have "b = a \<longleftrightarrow> j = k" using assms(2,4) b by (auto simp: alloc_inv_def)
  moreover have "{u. (r(t := Some (k, a))) u = Some (k, a)} = insert t {u. r u = Some (k, a)}" by auto
  moreover have "{u. (r(t := Some (k, a))) u = Some (j, b)} = {u. r u = Some (j, b)}" if "j \<noteq> k"
    using that assms(3) by auto
  ultimately show "0 < (n(a := n a + 1)) b" "(n(a := n a + 1)) b = int (card {u. (r(t := Some (k, a))) u = Some (j, b)})"
    using c assms(3) finite_referring [OF fin, of "(k, a)"] by (cases "j = k"; simp)+
qed

lemma ref_inv_new:
  assumes "ref_inv l n r" "know_inv l r" "r t = None" "l k = None" "\<And>j. l j \<noteq> Some a"
  shows "ref_inv (l(k \<mapsto> a)) (n(a := 1)) (r(t := Some (k, a)))"
  unfolding ref_inv_def
proof (intro conjI allI impI)
  have "{u. (r(t := Some (k, a))) u \<noteq> None} = insert t {u. r u \<noteq> None}" by auto
  then show "finite {u. (r(t := Some (k, a))) u \<noteq> None}" using assms(1) by (simp add: ref_inv_def)
  have "r u \<noteq> Some (k, a)" for u using assms(2,4) unfolding know_inv_def by fastforce
  then have one: "{u. (r(t := Some (k, a))) u = Some (k, a)} = {t}" by auto
  fix j b assume b: "(l(k \<mapsto> a)) j = Some b"
  show "0 < (n(a := 1)) b" "(n(a := 1)) b = int (card {u. (r(t := Some (k, a))) u = Some (j, b)})"
  proof (atomize (full), cases "j = k")
    case True
    with b have "b = a" by simp
    with True one show "0 < (n(a := 1)) b \<and> (n(a := 1)) b = int (card {u. (r(t := Some (k, a))) u = Some (j, b)})"
      by simp
  next
    case False
    with b assms(5) have "l j = Some b" "b \<noteq> a" by auto
    moreover have "{u. (r(t := Some (k, a))) u = Some (j, b)} = {u. r u = Some (j, b)}" using False assms(3) by auto
    ultimately show "0 < (n(a := 1)) b \<and> (n(a := 1)) b = int (card {u. (r(t := Some (k, a))) u = Some (j, b)})"
      using ref_invD [OF assms(1)] by simp
  qed
qed

text \<open>One reference less: either others remain, or nobody refers to the key any more and its entry goes.\<close>

lemma refs_drop:
  assumes "ref_inv l n r" "alloc_inv l f" "r t = Some (k, a)" "l k = Some a"
  shows "int (card {u. (r(t := None)) u = Some (k, a)}) = n a - 1"
    and "j \<noteq> k \<Longrightarrow> {u. (r(t := None)) u = Some (j, b)} = {u. r u = Some (j, b)}"
    and "finite {u. (r(t := None)) u \<noteq> None}"
proof -
  have fin: "finite {u. r u \<noteq> None}" using assms(1) by (simp add: ref_inv_def)
  have "{u. (r(t := None)) u = Some (k, a)} = {u. r u = Some (k, a)} - {t}" by auto
  moreover have "t \<in> {u. r u = Some (k, a)}" using assms(3) by simp
  moreover have "n a = int (card {u. r u = Some (k, a)})" "0 < n a" using ref_invD [OF assms(1,4)] by blast+
  ultimately show "int (card {u. (r(t := None)) u = Some (k, a)}) = n a - 1" by (simp add: card_Diff_singleton)
  show "j \<noteq> k \<Longrightarrow> {u. (r(t := None)) u = Some (j, b)} = {u. r u = Some (j, b)}" using assms(3) by auto
  show "finite {u. (r(t := None)) u \<noteq> None}" by (rule finite_subset [OF _ fin]) auto
qed

lemma ref_inv_drop:
  assumes "ref_inv l n r" "alloc_inv l f" "r t = Some (k, a)" "l k = Some a" "1 < n a"
  shows "ref_inv l (n(a := n a - 1)) (r(t := None))"
  unfolding ref_inv_def
proof (intro conjI allI impI)
  show "finite {u. (r(t := None)) u \<noteq> None}" by (rule refs_drop(3) [OF assms(1-4)])
  fix j b assume b: "l j = Some b"
  have "b = a \<longleftrightarrow> j = k" using assms(2,4) b by (auto simp: alloc_inv_def)
  then show "0 < (n(a := n a - 1)) b" "(n(a := n a - 1)) b = int (card {u. (r(t := None)) u = Some (j, b)})"
    using refs_drop(1) [OF assms(1-4)] refs_drop(2) [OF assms(1-4), of j b] assms(5) ref_invD [OF assms(1) b]
    by (cases "j = k"; simp)+
qed

lemma ref_inv_last:
  assumes "ref_inv l n r" "alloc_inv l f" "know_inv l r" "r t = Some (k, a)" "l k = Some a" "n a = 1"
  shows "ref_inv (l(k := None)) (n(a := m)) (r(t := None))" "know_inv (l(k := None)) (r(t := None))"
proof -
  note drop = refs_drop [OF assms(1,2,4,5)]
  have "finite {u. (r(t := None)) u = Some (k, a)}" by (rule finite_referring [OF drop(3)])
  moreover have "card {u. (r(t := None)) u = Some (k, a)} = 0" using drop(1) assms(6) by simp
  ultimately have none: "(r(t := None)) u \<noteq> Some (k, a)" for u by (metis (mono_tags, lifting) card_0_eq empty_Collect_eq)
  show "know_inv (l(k := None)) (r(t := None))" unfolding know_inv_def
  proof (intro allI impI)
    fix u j b assume u: "(r(t := None)) u = Some (j, b)"
    then have "l j = Some b" using assms(3) unfolding know_inv_def by (metis fun_upd_apply option.distinct(1))
    moreover from this u none assms(5) have "j \<noteq> k" by (metis option.inject)
    ultimately show "(l(k := None)) j = Some b" by simp
  qed
  show "ref_inv (l(k := None)) (n(a := m)) (r(t := None))" unfolding ref_inv_def
  proof (intro conjI allI impI)
    show "finite {u. (r(t := None)) u \<noteq> None}" by (rule drop(3))
    fix j b assume "(l(k := None)) j = Some b"
    then have b: "j \<noteq> k" "l j = Some b" by (auto split: if_splits)
    moreover from this assms(2,5) have "b \<noteq> a" by (auto simp: alloc_inv_def)
    ultimately show "0 < (n(a := m)) b" "(n(a := m)) b = int (card {u. (r(t := None)) u = Some (j, b)})"
      using drop(2) [OF b(1), of b] ref_invD [OF assms(1) b(2)] by simp_all
  qed
qed

lemma ref_inv_same: "ref_inv l n r \<Longrightarrow> r t = x \<Longrightarrow> ref_inv l n (r(t := x))"
  by (metis fun_upd_triv)

lemma alloc_inv_delete: "alloc_inv l f \<Longrightarrow> alloc_inv (l(k := None)) f"
  by (auto simp: alloc_inv_def)

lemma own_inv_delete:
  assumes "own_inv l own h" "\<And>t. h t \<noteq> Some k"
  shows "own_inv (l(k := None)) own h"
  using assms unfolding own_inv_def by (metis fun_upd_apply)

lemma getOrCreateLock_inv:
  assumes "vmi_inv s" "vl_pc s t = GetMu k" "getOrCreateLock k s = (a, s')"
  shows "vmi_inv (vgoto t (VWait k a) (s'\<lparr>vl_mu := None\<rparr>))"
proof -
  note inv = assms(1) [unfolded vmi_inv_def]
  have mu: "mu_inv None ((vmi_in_mu \<circ> vl_pc s)(t := False))"
    using inv assms(2) by (intro mu_inv_leave) auto
  have idle: "(refers \<circ> vl_pc s) t = None" "(serves \<circ> vl_pc s) t = None" using assms(2) by auto
  show ?thesis
  proof (cases "vl_locks s k")
    case (Some b)
    then have "a = b" "s' = s\<lparr>vl_refCount := (vl_refCount s)(a := vl_refCount s a + 1)\<rparr>"
      using assms(3) by (auto simp: getOrCreateLock_def)
    with Some inv mu idle show ?thesis
      by (simp add: vmi_inv_def vgoto_def fun_upd_comp upd_same know_inv_learn ref_inv_take [where f = "vl_fresh s"])
  next
    case None
    then have a: "a = vl_fresh s" "s' = s\<lparr>vl_locks := (vl_locks s)(k \<mapsto> a), vl_fresh := Suc a, vl_refCount := (vl_refCount s)(a := 1)\<rparr>"
      using assms(3) by (auto simp: getOrCreateLock_def)
    have new: "vl_locks s j \<noteq> Some a" for j using vmi_invD(2) [OF assms(1), of j] a(1) by auto
    have "know_inv ((vl_locks s)(k \<mapsto> a)) ((refers \<circ> vl_pc s)(t := Some (k, a)))"
      using inv None by (intro know_inv_learn know_inv_create) auto
    moreover have "ref_inv ((vl_locks s)(k \<mapsto> a)) ((vl_refCount s)(a := 1)) ((refers \<circ> vl_pc s)(t := Some (k, a)))"
      using inv None idle new by (intro ref_inv_new) auto
    ultimately show ?thesis using inv mu idle None a
      by (simp add: vmi_inv_def vgoto_def fun_upd_comp upd_same alloc_inv_create own_inv_create)
  qed
qed

lemma releaseLock_inv:
  assumes "vmi_inv s" "vl_pc s t = RelMu k a"
  shows "vmi_inv (vgoto t VIdle ((releaseLock k s)\<lparr>vl_mu := None\<rparr>))"
proof -
  note inv = assms(1) [unfolded vmi_inv_def]
  have mu: "mu_inv None ((vmi_in_mu \<circ> vl_pc s)(t := False))"
    using inv assms(2) by (intro mu_inv_leave) auto
  have idle: "(refers \<circ> vl_pc s) t = Some (k, a)" "(serves \<circ> vl_pc s) t = None" using assms(2) by auto
  have l: "vl_locks s k = Some a" using vmi_invD(4) [OF assms(1), of t] assms(2) by simp
  have own: "own_inv (vl_locks s) (vl_owner s) ((serves \<circ> vl_pc s)(t := None))"
    using inv idle(2) by (simp add: upd_same)
  show ?thesis
  proof (cases "vl_refCount s a \<le> 1")
    case True
    then have one: "vl_refCount s a = 1" using vmi_invD(7) [OF assms(1) l] by simp
    note last = ref_inv_last [of "vl_locks s" "vl_refCount s" "refers \<circ> vl_pc s" "vl_fresh s" t k a, OF _ _ _ idle(1) l one]
    have "serves (vl_pc s u) \<noteq> Some k" for u
    proof
      assume u: "serves (vl_pc s u) = Some k"
      then obtain b where b: "vl_pc s u = Serving k b" by (cases "vl_pc s u") auto
      with vmi_invD(4) [OF assms(1), of u k b] l have "b = a" by simp
      with b assms(2) have "{t, u} \<subseteq> {v. refers (vl_pc s v) = Some (k, a)}" "t \<noteq> u" by auto
      moreover have "finite {v. refers (vl_pc s v) = Some (k, a)}"
        by (rule finite_referring [OF vmi_invD(8) [OF assms(1)]])
      ultimately have "2 \<le> card {v. refers (vl_pc s v) = Some (k, a)}" by (metis card_2_iff card_mono)
      with vmi_invD(7) [OF assms(1) l] one show False by simp
    qed
    then have "own_inv ((vl_locks s)(k := None)) (vl_owner s) ((serves \<circ> vl_pc s)(t := None))"
      by (intro own_inv_delete [OF own]) simp
    with True one l inv mu last show ?thesis
      by (simp add: vmi_inv_def vgoto_def releaseLock_def fun_upd_comp alloc_inv_delete)
  next
    case False
    with l inv mu own idle(1) show ?thesis
      by (simp add: vmi_inv_def vgoto_def releaseLock_def fun_upd_comp know_inv_forget ref_inv_drop [where f = "vl_fresh s"])
  qed
qed

lemma serving: "serves p = Some k \<Longrightarrow> \<exists>a. p = Serving k a"
  by (cases p) auto

lemma vmi_inv_init: "vmi_inv no_vmi_locks"
  by (simp add: vmi_inv_def no_vmi_locks_def mu_inv_def alloc_inv_def know_inv_def own_inv_def ref_inv_def)

lemmas vmi_parts = vmi_inv_def vgoto_def fun_upd_comp upd_same ref_inv_same

lemma vmi_inv_step:
  assumes "vmi_step t s s'" "vmi_inv s"
  shows "vmi_inv s'"
  using assms
proof (induction rule: vmi_step.induct)
  case (Get_lock s t k a s')
  then show ?case by (intro getOrCreateLock_inv)
next
  case (Acquire s t k a)
  then have "vl_locks s k = Some a" using vmi_invD(4) [of s t k a] by simp
  with Acquire show ?case by (simp add: vmi_parts own_inv_acquire)
next
  case (Unlock s t k a)
  then have l: "vl_locks s k = Some a" using vmi_invD(4) [of s t k a] by simp
  have "own_inv (vl_locks s) ((vl_owner s)(a := None)) ((serves \<circ> vl_pc s)(t := None))"
    using Unlock l vmi_invD(3) by (intro own_inv_free [where v = k]) (auto simp: vmi_inv_def)
  with Unlock show ?case by (simp add: vmi_parts)
next
  case (Release s t k a)
  then show ?case by (intro releaseLock_inv)
qed (simp_all add: vmi_parts mu_inv_enter)

lemma vmi_inv_reachable: "vmi_reachable s \<Longrightarrow> vmi_inv s"
  by (induction rule: vmi_reachable.induct) (auto intro: vmi_inv_init vmi_inv_step)

subsection \<open>Properties\<close>

text \<open>C35. Whatever the interleaving, two goroutines never serve the same machine at the same time. The table has an entry exactly
  for the machines that some goroutine waits for, serves or is about to release, so no lock is removed while it is in use and
  none is left behind. There is no deadlock: as long as some goroutine is inside, one of those can take a step.\<close>

theorem vmi_serialised:
  assumes "vmi_reachable s"
  shows "(serves (vl_pc s t) = Some k \<and> serves (vl_pc s t') = Some k \<longrightarrow> t = t') \<and>
    (vl_locks s k \<noteq> None \<longleftrightarrow> (\<exists>u a. refers (vl_pc s u) = Some (k, a))) \<and>
    ((\<exists>u. vl_pc s u \<noteq> VIdle) \<longrightarrow> (\<exists>u s'. vl_pc s u \<noteq> VIdle \<and> vmi_step u s s'))"
proof (intro conjI impI)
  note i = vmi_inv_reachable [OF assms]
  show "t = t'" if "serves (vl_pc s t) = Some k \<and> serves (vl_pc s t') = Some k"
    using that vmi_invD(5) [OF i, of t k] vmi_invD(5) [OF i, of t' k] by auto
  show "vl_locks s k \<noteq> None \<longleftrightarrow> (\<exists>u a. refers (vl_pc s u) = Some (k, a))"
  proof
    assume "vl_locks s k \<noteq> None"
    then obtain a where "vl_locks s k = Some a" by auto
    from vmi_invD(7) [OF i this] have "{u. refers (vl_pc s u) = Some (k, a)} \<noteq> {}" by (metis card.empty less_irrefl of_nat_0)
    then show "\<exists>u a. refers (vl_pc s u) = Some (k, a)" by auto
  qed (use vmi_invD(4) [OF i] in auto)
  show "\<exists>u s'. vl_pc s u \<noteq> VIdle \<and> vmi_step u s s'" if ex: "\<exists>u. vl_pc s u \<noteq> VIdle"
  proof (cases "vl_mu s")
    case (Some u)
    then have u: "vmi_in_mu (vl_pc s u)" using vmi_invD(1) [OF i] by simp
    then have "\<exists>s'. vmi_step u s s'"
      by (cases "vl_pc s u") (auto intro: Get_lock [OF _ prod.collapse [symmetric]] Release)
    with u show ?thesis by (intro exI [of _ u]) auto
  next
    case None
    obtain u where u: "vl_pc s u \<noteq> VIdle" using ex by blast
    then have out: "\<not> vmi_in_mu (vl_pc s u)" using vmi_invD(1) [OF i, of u] None by simp
    show ?thesis
    proof (cases "\<exists>k a v. vl_pc s u = VWait k a \<and> vl_owner s a = Some v")
      case True
      then obtain v k a where v: "vl_pc s v = Serving k a"
        using vmi_invD(6) [OF i] serving by blast
      from Unlock [OF v] v show ?thesis by (metis vmi_pc.distinct(7))
    next
      case False
      with u out None have "\<exists>s'. vmi_step u s s'"
        by (cases "vl_pc s u") (auto intro: Get_mu Acquire Unlock Rel_mu)
      with u show ?thesis by blast
    qed
  qed
qed

lemma reach_serving: "\<exists>s. vmi_reachable s \<and> vl_pc s 0 = Serving ''ns/vm'' 0"
proof -
  let ?s1 = "vgoto 0 (GetStart ''ns/vm'') no_vmi_locks"
  let ?s2 = "vgoto 0 (GetMu ''ns/vm'') (?s1\<lparr>vl_mu := Some 0\<rparr>)"
  let ?s3 = "vgoto 0 (VWait ''ns/vm'' 0) ((snd (getOrCreateLock ''ns/vm'' ?s2))\<lparr>vl_mu := None\<rparr>)"
  let ?s4 = "vgoto 0 (Serving ''ns/vm'' 0) (?s3\<lparr>vl_owner := (vl_owner ?s3)(0 := Some 0)\<rparr>)"
  have "vmi_reachable ?s1" by (rule vmi_next [OF vmi_start call_LockVMI]) (simp add: no_vmi_locks_def)
  then have "vmi_reachable ?s2" by (rule vmi_next [OF _ Get_mu]) (simp_all add: vgoto_def no_vmi_locks_def)
  then have "vmi_reachable ?s3"
    by (rule vmi_next [OF _ Get_lock]) (simp_all add: vgoto_def getOrCreateLock_def no_vmi_locks_def)
  then have "vmi_reachable ?s4"
    by (rule vmi_next [OF _ Acquire]) (simp_all add: vgoto_def getOrCreateLock_def no_vmi_locks_def)
  then show ?thesis by (intro exI conjI) (auto simp: vgoto_def)
qed

theorem vmi_serialised_witness:
  "\<exists>s. vmi_reachable s \<and> serves (vl_pc s 0) = Some ''ns/vm'' \<and> serves (vl_pc s 1) \<noteq> Some ''ns/vm'' \<and> vl_locks s ''ns/vm'' \<noteq> None \<and>
    (\<exists>u s'. vl_pc s u \<noteq> VIdle \<and> vmi_step u s s')"
proof -
  obtain s where s: "vmi_reachable s" "vl_pc s 0 = Serving ''ns/vm'' 0" using reach_serving by blast
  with vmi_serialised [OF s(1), of 0 "''ns/vm''" 1]
  have "serves (vl_pc s 1) \<noteq> Some ''ns/vm''" "vl_locks s ''ns/vm'' \<noteq> None" "\<exists>u s'. vl_pc s u \<noteq> VIdle \<and> vmi_step u s s'"
    by (auto intro: exI [of _ 0])
  with s show ?thesis by (intro exI [of _ s]) simp
qed

text \<open>A claim gets the machine of the first pod of its namespace that mounts it and belongs to a machine.\<close>

lemma lookup_found:
  "lookupVMIFromAPI (Inr pods) pvcName =
     (case List.find (\<lambda>pod. podMountsPVC pod pvcName \<and> extractVMIFromPod pod \<noteq> []) pods of
        Some pod \<Rightarrow> (extractVMIFromPod pod, True) | None \<Rightarrow> ([], False))"
  by (induction pods) (auto simp: lookupVMIFromAPI_def)

text \<open>A failed list call is remembered like an answer: until the entry expires the claim is not serialised at all, whatever the
  cluster says by then.\<close>

lemma failed_lookup_cached:
  assumes "list ns = Inl err" "getCached now (ns @ ''/'' @ name) g = None" "vg_enabled g" "vg_k8sClient g" "later \<le> now' + vg_cacheTTL g"
  shows "fst (LockVMI_key list' later later' ns name (snd (LockVMI_key list now now' ns name g))) = []"
  using assms
  by (auto simp: LockVMI_key_def resolveVMIForPVC_def lookupVMIFromAPI_def getCached_def setCache_def cleanExpiredLocked_def Let_def)

end
