(* ===== verification/ConnManager.thy ===== *)
theory ConnManager
  imports SshClient
begin

text \<open>
  The connection manager of \<^verbatim>\<open>pkg/rds/connection_manager.go\<close>, which polls the connection to the storage server and
  reconnects when it is lost. The client it manages, the ticker, the timer, the two stop signals and the backoff library are
  fields of a record \<open>link\<close> over a state \<open>'c\<close> of the client and the world; \<open>ssh_link\<close> is the record with the methods of the
  SSH client. The callback runs in a goroutine of its own, so the manager only counts how often it was started. Metrics and
  logging are left out.
\<close>

record ConnectionManagerConfig =
  cm_InitialInterval :: duration
  cm_MaxInterval :: duration
  cm_MaxElapsedTime :: duration
  cm_Multiplier :: "int \<times> int" \<comment> \<open>a fraction\<close>
  cm_RandomizationFactor :: "int \<times> int" \<comment> \<open>a fraction\<close>
  cm_OnReconnect :: bool \<comment> \<open>whether there is a callback\<close>

record ('b, 'c) link =
  lkConnect :: "'c \<Rightarrow> goerr option \<times> 'c"
  lkClose :: "'c \<Rightarrow> goerr option \<times> 'c"
  lkIsConnected :: "'c \<Rightarrow> bool \<times> 'c"
  lkStopped :: "'c \<Rightarrow> bool" \<comment> \<open>\<^verbatim>\<open>ctx\<close> is done or \<^verbatim>\<open>stopCh\<close> is closed\<close>
  lkTick :: "'c \<Rightarrow> bool \<times> 'c" \<comment> \<open>waiting for the ticker; \<open>True\<close>: a stop signal came first\<close>
  lkAfter :: "duration \<Rightarrow> 'c \<Rightarrow> bool \<times> 'c" \<comment> \<open>\<^verbatim>\<open>time.After\<close>; \<open>True\<close>: a stop signal came first\<close>
  lkBackOff :: "ConnectionManagerConfig \<Rightarrow> 'c \<Rightarrow> 'b" \<comment> \<open>a configured and reset \<^verbatim>\<open>ExponentialBackOff\<close>\<close>
  lkNextBackOff :: "'b \<Rightarrow> 'c \<Rightarrow> duration option \<times> 'b" \<comment> \<open>\<open>None\<close>: \<^verbatim>\<open>backoff.Stop\<close>\<close>

record ConnectionManager =
  cm_config :: ConnectionManagerConfig
  cm_connected :: bool
  cm_callbacks :: nat

definition NewConnectionManager ::
    "('b, 'c) link option \<Rightarrow> ConnectionManagerConfig \<Rightarrow> 'c \<Rightarrow> (goerr + ConnectionManager) \<times> 'c" where
  "NewConnectionManager client config c =
     (case client of
        None \<Rightarrow> (Inl (GoErr ''client is required''), c)
      | Some lk \<Rightarrow>
          (let config = config\<lparr>
             cm_InitialInterval := (if cm_InitialInterval config = 0 then second else cm_InitialInterval config),
             cm_MaxInterval := (if cm_MaxInterval config = 0 then 16 * second else cm_MaxInterval config),
             cm_Multiplier := (if fst (cm_Multiplier config) = 0 then (2, 1) else cm_Multiplier config),
             cm_RandomizationFactor :=
               (if fst (cm_RandomizationFactor config) = 0 then (1, 10) else cm_RandomizationFactor config)\<rparr>;
             (connected, c) = lkIsConnected lk c
           in (Inr \<lparr>cm_config = config, cm_connected = connected, cm_callbacks = 0\<rparr>, c)))"

text \<open>Closing the old connection, whose error is only logged, and dialling.\<close>

definition redial :: "('b, 'c) link \<Rightarrow> 'c \<Rightarrow> goerr option \<times> 'c" where
  "redial lk c = (let (_, c) = lkClose lk c in lkConnect lk c)"

definition reconnected :: "ConnectionManager \<Rightarrow> ConnectionManager" where
  "reconnected cm = cm\<lparr>cm_connected := True,
     cm_callbacks := (if cm_OnReconnect (cm_config cm) then Suc (cm_callbacks cm) else cm_callbacks cm)\<rparr>"

text \<open>The loop of \<^verbatim>\<open>attemptReconnection\<close>; \<open>None\<close> is a loop that never ends.\<close>

partial_function (option) reconnect_loop ::
    "('b, 'c) link \<Rightarrow> ConnectionManager \<Rightarrow> 'b \<Rightarrow> 'c \<Rightarrow> (ConnectionManager \<times> 'c) option" where
  "reconnect_loop lk cm bo c =
     (if lkStopped lk c then Some (cm, c)
      else (case redial lk c of
        (None, c) \<Rightarrow> Some (reconnected cm, c)
      | (Some err, c) \<Rightarrow>
          (case lkNextBackOff lk bo c of
             (None, bo) \<Rightarrow> Some (cm, c)
           | (Some nextBackoff, bo) \<Rightarrow>
               (case lkAfter lk nextBackoff c of
                  (stopped, c) \<Rightarrow> if stopped then Some (cm, c) else reconnect_loop lk cm bo c))))"

definition attemptReconnection ::
    "('b, 'c) link \<Rightarrow> ConnectionManager \<Rightarrow> 'c \<Rightarrow> (ConnectionManager \<times> 'c) option" where
  "attemptReconnection lk cm c = reconnect_loop lk cm (lkBackOff lk (cm_config cm) c) c"

text \<open>The reaction of \<^verbatim>\<open>monitorLoop\<close> to a tick, and the loop.\<close>

definition monitor_tick :: "('b, 'c) link \<Rightarrow> ConnectionManager \<Rightarrow> 'c \<Rightarrow> (ConnectionManager \<times> 'c) option" where
  "monitor_tick lk cm c =
     (let (isConnected, c) = lkIsConnected lk c; wasConnected = cm_connected cm; cm = cm\<lparr>cm_connected := isConnected\<rparr>
      in if wasConnected \<and> \<not> isConnected then attemptReconnection lk cm c else Some (cm, c))"

partial_function (option) monitorLoop ::
    "('b, 'c) link \<Rightarrow> ConnectionManager \<Rightarrow> 'c \<Rightarrow> (ConnectionManager \<times> 'c) option" where
  "monitorLoop lk cm c =
     (case lkTick lk c of
        (stopped, c) \<Rightarrow>
          if stopped then Some (cm, c) else Option.bind (monitor_tick lk cm c) (\<lambda>(cm, c). monitorLoop lk cm c))"

definition Reconnect :: "('b, 'c) link \<Rightarrow> ConnectionManager \<Rightarrow> 'c \<Rightarrow> goerr option \<times> ConnectionManager \<times> 'c" where
  "Reconnect lk cm c = (let (err, c) = redial lk c in (err, cm\<lparr>cm_connected := (err = None)\<rparr>, c))"

text \<open>The SSH client as the managed client; what remains open are the timers, the signals and the backoff library.\<close>

definition ssh_link ::
    "'r transport \<Rightarrow> ('r sshClient \<Rightarrow> bool) \<Rightarrow> ('r sshClient \<Rightarrow> bool \<times> 'r sshClient) \<Rightarrow>
     (duration \<Rightarrow> 'r sshClient \<Rightarrow> bool \<times> 'r sshClient) \<Rightarrow> (ConnectionManagerConfig \<Rightarrow> 'r sshClient \<Rightarrow> 'b) \<Rightarrow>
     ('b \<Rightarrow> 'r sshClient \<Rightarrow> duration option \<times> 'b) \<Rightarrow> ('b, 'r sshClient) link" where
  "ssh_link t stopped tick waitFor backOff nextBackOff =
     \<lparr>lkConnect = ssh_Connect t, lkClose = ssh_Close t, lkIsConnected = ssh_IsConnected t, lkStopped = stopped,
      lkTick = tick, lkAfter = waitFor, lkBackOff = backOff, lkNextBackOff = nextBackOff\<rparr>"

subsection \<open>Rounds of the loop\<close>

text \<open>One failed round that goes on: not stopped, dialling failed, the backoff gave a delay and the delay passed.\<close>

inductive failed_rounds :: "('b, 'c) link \<Rightarrow> 'b \<Rightarrow> 'c \<Rightarrow> 'b \<Rightarrow> 'c \<Rightarrow> bool" for lk where
  no_round: "failed_rounds lk bo c bo c"
| one_more: "\<not> lkStopped lk c \<Longrightarrow> redial lk c = (Some err, c') \<Longrightarrow> lkNextBackOff lk bo c' = (Some d, bo') \<Longrightarrow>
    lkAfter lk d c' = (False, c'') \<Longrightarrow> failed_rounds lk bo' c'' bo2 c2 \<Longrightarrow> failed_rounds lk bo c bo2 c2"

text \<open>How the last round ends: stopped, reconnected, given up, or stopped while waiting.\<close>

inductive last_round :: "('b, 'c) link \<Rightarrow> ConnectionManager \<Rightarrow> 'b \<Rightarrow> 'c \<Rightarrow> ConnectionManager \<Rightarrow> 'c \<Rightarrow> bool" for lk cm where
  round_stopped: "lkStopped lk c \<Longrightarrow> last_round lk cm bo c cm c"
| round_succeeds: "\<not> lkStopped lk c \<Longrightarrow> redial lk c = (None, c') \<Longrightarrow> last_round lk cm bo c (reconnected cm) c'"
| round_gives_up: "\<not> lkStopped lk c \<Longrightarrow> redial lk c = (Some err, c') \<Longrightarrow> lkNextBackOff lk bo c' = (None, bo') \<Longrightarrow>
    last_round lk cm bo c cm c'"
| round_interrupted: "\<not> lkStopped lk c \<Longrightarrow> redial lk c = (Some err, c') \<Longrightarrow> lkNextBackOff lk bo c' = (Some d, bo') \<Longrightarrow>
    lkAfter lk d c' = (True, c'') \<Longrightarrow> last_round lk cm bo c cm c''"

inductive_cases last_roundE: "last_round lk cm bo c cm' c'"

lemma loop_returns:
  assumes "failed_rounds lk bo c bo' c'" "last_round lk cm bo' c' cm' d"
  shows "reconnect_loop lk cm bo c = Some (cm', d)"
  using assms
proof (induction rule: failed_rounds.induct)
  case (no_round bo c)
  then show ?case by (subst reconnect_loop.simps) (auto elim!: last_roundE)
next
  case (one_more c err c' bo d bo' c'' bo2 c2)
  then show ?case by (subst reconnect_loop.simps) simp
qed

lemma loop_rounds:
  assumes "reconnect_loop lk cm bo c = Some r"
  shows "\<exists>bo' c'. failed_rounds lk bo c bo' c' \<and> last_round lk cm bo' c' (fst r) (snd r)"
proof (rule reconnect_loop.raw_induct [OF _ assms])
  fix f lk cm bo c r
  assume IH: "\<And>lk cm bo c r. f lk cm bo c = Some r \<Longrightarrow>
      \<exists>bo' c'. failed_rounds lk bo c bo' c' \<and> last_round lk cm bo' c' (fst r) (snd r)"
    and body: "(if lkStopped lk c then Some (cm, c)
      else (case redial lk c of (None, c) \<Rightarrow> Some (reconnected cm, c)
      | (Some err, c) \<Rightarrow> (case lkNextBackOff lk bo c of (None, bo) \<Rightarrow> Some (cm, c)
           | (Some nextBackoff, bo) \<Rightarrow> (case lkAfter lk nextBackoff c of
                (stopped, c) \<Rightarrow> if stopped then Some (cm, c) else f lk cm bo c)))) = Some r"
  show "\<exists>bo' c'. failed_rounds lk bo c bo' c' \<and> last_round lk cm bo' c' (fst r) (snd r)"
  proof (cases "\<exists>e c1 d bo1 c2. \<not> lkStopped lk c \<and> redial lk c = (Some e, c1) \<and> lkNextBackOff lk bo c1 = (Some d, bo1) \<and>
      lkAfter lk d c1 = (False, c2)")
    case True
    then obtain e c1 d bo1 c2 where s: "\<not> lkStopped lk c" "redial lk c = (Some e, c1)" "lkNextBackOff lk bo c1 = (Some d, bo1)"
      "lkAfter lk d c1 = (False, c2)" by blast
    then have "f lk cm bo1 c2 = Some r" using body by simp
    with IH s show ?thesis by (meson one_more)
  next
    case False
    then have "last_round lk cm bo c (fst r) (snd r)"
      using body by (auto split: if_splits prod.splits option.splits bool.splits intro: last_round.intros)
    then show ?thesis by (blast intro: no_round)
  qed
qed

subsection \<open>Properties\<close>

text \<open>A tick never changes the configuration, starts the callback at most once, and leaves the manager believing in a
  connection only if the last probe found it or the last call of \<^verbatim>\<open>Connect\<close> succeeded.\<close>

lemma monitor_tick_honest:
  assumes "monitor_tick lk cm c = Some (cm', c')"
  shows "cm_config cm' = cm_config cm \<and> cm_callbacks cm' \<le> Suc (cm_callbacks cm) \<and>
    (cm_connected cm' \<longrightarrow> lkIsConnected lk c = (True, c') \<or> (\<exists>c1. lkConnect lk c1 = (None, c')))"
proof (cases "cm_connected cm \<and> \<not> fst (lkIsConnected lk c)")
  case True
  then obtain c0 where "lkIsConnected lk c = (False, c0)" by (cases "lkIsConnected lk c") auto
  with True assms have "reconnect_loop lk (cm\<lparr>cm_connected := False\<rparr>) (lkBackOff lk (cm_config cm) c0) c0 = Some (cm', c')"
    by (simp add: monitor_tick_def attemptReconnection_def)
  from loop_rounds [OF this] obtain bo d where "last_round lk (cm\<lparr>cm_connected := False\<rparr>) bo d cm' c'" by auto
  then show ?thesis by (auto elim!: last_roundE simp: reconnected_def redial_def split: prod.splits)
next
  case False
  then show ?thesis using assms by (auto simp: monitor_tick_def split: prod.splits if_splits)
qed

text \<open>C36. Reconnection. When a tick finds that the connection was lost, nobody stops the manager, the backoff never gives up (its
  documented behaviour without a maximal elapsed time, which is the default) and the server accepts a connection after finitely many attempts,
  as counted down by \<open>outage\<close>, then the manager comes to an answer: it ends up connected, by a call of \<^verbatim>\<open>Connect\<close> that
  succeeded, and starts the callback exactly once if there is one.\<close>

theorem monitor_reconnects:
  fixes outage :: "'c \<Rightarrow> nat"
  assumes "cm_connected cm" and "lkIsConnected lk c = (False, c0)"
    and "\<And>x. \<not> lkStopped lk x" and "\<And>d x. \<not> fst (lkAfter lk d x)" and "\<And>bo x. fst (lkNextBackOff lk bo x) \<noteq> None"
    and "\<And>x err y d. redial lk x = (Some err, y) \<Longrightarrow> outage (snd (lkAfter lk d y)) < outage x"
  shows "\<exists>cm' c' c1. monitor_tick lk cm c = Some (cm', c') \<and> lkConnect lk c1 = (None, c') \<and> cm_connected cm' \<and>
    cm_config cm' = cm_config cm \<and> cm_callbacks cm' = cm_callbacks cm + (if cm_OnReconnect (cm_config cm) then 1 else 0)"
proof -
  let ?cm = "cm\<lparr>cm_connected := False\<rparr>"
  have "\<exists>c' c1. reconnect_loop lk ?cm bo x = Some (reconnected ?cm, c') \<and> lkConnect lk c1 = (None, c')" for bo x
  proof (induction "outage x" arbitrary: bo x rule: less_induct)
    case less
    obtain err y where y: "redial lk x = (err, y)" by fastforce
    show ?case
    proof (cases err)
      case None
      with y assms(3) have "reconnect_loop lk ?cm bo x = Some (reconnected ?cm, y)"
        by (intro loop_returns [OF no_round round_succeeds]) auto
      moreover have "lkConnect lk (snd (lkClose lk x)) = (None, y)" using y None by (simp add: redial_def split: prod.splits)
      ultimately show ?thesis by blast
    next
      case (Some e)
      obtain d bo' where d: "lkNextBackOff lk bo y = (Some d, bo')" using assms(5) [of bo y] by (cases "lkNextBackOff lk bo y") auto
      obtain z where z: "lkAfter lk d y = (False, z)" using assms(4) [of d y] by (cases "lkAfter lk d y") auto
      have "outage z < outage x" using assms(6) [of x e y d] y Some z by simp
      from less [OF this] obtain c' c1 where
        "reconnect_loop lk ?cm bo' z = Some (reconnected ?cm, c') \<and> lkConnect lk c1 = (None, c')" by blast
      with y Some d z assms(3) show ?thesis by (subst reconnect_loop.simps) auto
    qed
  qed
  then obtain c' c1 where "reconnect_loop lk ?cm (lkBackOff lk (cm_config cm) c0) c0 = Some (reconnected ?cm, c')"
    "lkConnect lk c1 = (None, c')" by blast
  with assms(1,2) show ?thesis
    by (intro exI [of _ "reconnected ?cm"] exI [of _ c'] exI [of _ c1]) (simp add: monitor_tick_def attemptReconnection_def reconnected_def)
qed

text \<open>A server that is down for a number of attempts.\<close>

definition example_link :: "(unit, nat) link" where
  "example_link = \<lparr>lkConnect = (\<lambda>n. (if n = 0 then None else Some (GoErr ''refused''), n)), lkClose = (\<lambda>n. (None, n)),
     lkIsConnected = (\<lambda>n. (False, n)), lkStopped = (\<lambda>_. False), lkTick = (\<lambda>n. (False, n)),
     lkAfter = (\<lambda>_ n. (False, n - 1)), lkBackOff = (\<lambda>_ _. ()), lkNextBackOff = (\<lambda>_ _. (Some second, ()))\<rparr>"

theorem monitor_reconnects_witness:
  "\<exists>cm c. NewConnectionManager (Some (example_link\<lparr>lkIsConnected := \<lambda>n. (True, n)\<rparr>))
       \<lparr>cm_InitialInterval = 0, cm_MaxInterval = 0, cm_MaxElapsedTime = 0, cm_Multiplier = (0, 1), cm_RandomizationFactor = (0, 1),
        cm_OnReconnect = True\<rparr> (3::nat) = (Inr cm, c) \<and>
     (\<exists>cm' c'. monitor_tick example_link cm c = Some (cm', c') \<and> cm_connected cm' \<and> cm_callbacks cm' = 1)"
proof -
  let ?cm = "\<lparr>cm_config = \<lparr>cm_InitialInterval = second, cm_MaxInterval = 16 * second, cm_MaxElapsedTime = 0, cm_Multiplier = (2, 1),
      cm_RandomizationFactor = (1, 10), cm_OnReconnect = True\<rparr>, cm_connected = True, cm_callbacks = 0\<rparr>"
  have "redial example_link x = (Some err, y) \<Longrightarrow> snd (lkAfter example_link d y) < x" for x err y d
    by (auto simp: redial_def example_link_def split: if_splits)
  then have "\<exists>cm' c' c1. monitor_tick example_link ?cm 3 = Some (cm', c') \<and> lkConnect example_link c1 = (None, c') \<and> cm_connected cm' \<and>
    cm_config cm' = cm_config ?cm \<and> cm_callbacks cm' = cm_callbacks ?cm + (if cm_OnReconnect (cm_config ?cm) then 1 else 0)"
    by (intro monitor_reconnects [where outage = "\<lambda>n. n" and c0 = 3]) (simp_all add: example_link_def)
  then show ?thesis by (auto simp: NewConnectionManager_def)
qed

text \<open>The monitor reacts only to the loss of a connection it believed in: once it has seen the server down, no tick dials
  again, whatever the server does; it only notices when somebody else has reconnected.\<close>

lemma no_second_attempt:
  assumes "\<not> cm_connected cm" "lkIsConnected lk c = (b, c')"
  shows "monitor_tick lk cm c = Some (cm\<lparr>cm_connected := b\<rparr>, c')"
  using assms by (simp add: monitor_tick_def)

end
