(* ===== verification/Startup.thy ===== *)
theory Startup
  imports Publish Orphan VmiGrouper ConnManager Nvme
begin

text \<open>
  How the plugin is put together: the flags of \<^verbatim>\<open>cmd/rds-csi-plugin/main.go\<close>, the construction and the start of the driver in
  \<^verbatim>\<open>pkg/driver/driver.go\<close>, and the identity service of \<^verbatim>\<open>pkg/driver/identity.go\<close>. The struct \<^verbatim>\<open>Driver\<close> is the record \<open>plugin\<close>;
  its field \<open>pl_driver\<close> holds the part the controller service reads. The attachment manager is a value of its own, as in the
  other theories. Reading files and the environment, the client-go constructors, informers and the gRPC server are
  arguments. A fatal log line ends the process and is an error here. Metrics are left out.
\<close>

subsection \<open>Configuration\<close>

record 'k DriverConfig =
  dc_DriverName :: string
  dc_NodeID :: string
  dc_Version :: string
  dc_RDSAddress :: string
  dc_RDSPort :: int
  dc_RDSUser :: string
  dc_RDSPrivateKey :: string
  dc_RDSHostKey :: string
  dc_RDSInsecureSkipVerify :: bool
  dc_RDSVolumeBasePath :: string
  dc_K8sClient :: "'k kube option"
  dc_EnableOrphanReconciler :: bool
  dc_OrphanCheckInterval :: duration
  dc_OrphanGracePeriod :: duration
  dc_OrphanDryRun :: bool
  dc_EnableAttachmentReconciler :: bool
  dc_AttachmentReconcileInterval :: duration
  dc_AttachmentGracePeriod :: duration
  dc_EnableVMISerialization :: bool
  dc_VMICacheTTL :: duration
  dc_ManagedNQNPrefix :: string
  dc_EnableController :: bool
  dc_EnableNode :: bool

record flags =
  fl_nodeID :: string
  fl_driverName :: string
  fl_rdsAddress :: string
  fl_rdsPort :: int
  fl_rdsUser :: string
  fl_rdsKeyFile :: string
  fl_rdsHostKey :: string
  fl_rdsInsecure :: bool
  fl_rdsVolumeBasePath :: string
  fl_controllerMode :: bool
  fl_nodeMode :: bool
  fl_enableOrphanReconciler :: bool
  fl_orphanCheckInterval :: duration
  fl_orphanGracePeriod :: duration
  fl_orphanDryRun :: bool
  fl_attachmentGracePeriod :: duration
  fl_attachmentReconcileInterval :: duration
  fl_enableVMISerialization :: bool
  fl_vmiCacheTTL :: duration
  fl_kubeconfig :: string

definition default_flags :: flags where
  "default_flags =
     \<lparr>fl_nodeID = [], fl_driverName = ''rds.csi.srvlab.io'', fl_rdsAddress = [], fl_rdsPort = 22, fl_rdsUser = ''admin'',
      fl_rdsKeyFile = ''/etc/rds-csi/ssh-key/id_rsa'', fl_rdsHostKey = [], fl_rdsInsecure = False, fl_rdsVolumeBasePath = [],
      fl_controllerMode = False, fl_nodeMode = False, fl_enableOrphanReconciler = False, fl_orphanCheckInterval = hour,
      fl_orphanGracePeriod = 5 * minute, fl_orphanDryRun = True, fl_attachmentGracePeriod = 30 * second,
      fl_attachmentReconcileInterval = 5 * minute, fl_enableVMISerialization = False, fl_vmiCacheTTL = 60 * second,
      fl_kubeconfig = []\<rparr>"

text \<open>The keys \<^verbatim>\<open>main\<close> reads in controller mode, private key first.\<close>

definition read_keys :: "(string \<Rightarrow> goerr + string) \<Rightarrow> flags \<Rightarrow> goerr + string \<times> string" where
  "read_keys readFile f =
     (if \<not> fl_controllerMode f then Inr ([], [])
      else (case readFile (fl_rdsKeyFile f) of
        Inl err \<Rightarrow> Inl (wrap_err (''Failed to read SSH key from '' @ fl_rdsKeyFile f @ '': '') err)
      | Inr privateKey \<Rightarrow>
          if fl_rdsHostKey f = [] \<and> \<not> fl_rdsInsecure f
          then Inl (GoErr (''SECURITY: --rds-host-key is required for production use. Use --rds-insecure-skip-verify ONLY '' @
                 ''for testing.''))
          else if fl_rdsHostKey f \<noteq> []
          then (case readFile (fl_rdsHostKey f) of
            Inl err \<Rightarrow> Inl (wrap_err (''Failed to read SSH host key from '' @ fl_rdsHostKey f @ '': '') err)
          | Inr hostKey \<Rightarrow> Inr (privateKey, hostKey))
          else Inr (privateKey, [])))"

text \<open>\<^verbatim>\<open>main\<close> up to the configuration; \<open>createClient\<close> is \<^verbatim>\<open>createKubernetesClient\<close>, which only calls client-go.\<close>

definition main_config ::
    "(string \<Rightarrow> goerr + string) \<Rightarrow> (string \<Rightarrow> goerr + 'k kube) \<Rightarrow> (string \<Rightarrow> string) \<Rightarrow> flags \<Rightarrow> goerr + 'k DriverConfig" where
  "main_config readFile createClient Getenv f =
     (if \<not> fl_controllerMode f \<and> \<not> fl_nodeMode f then Inl (GoErr ''Must specify at least one of --controller or --node'')
      else if fl_controllerMode f \<and> fl_rdsAddress f = [] then Inl (GoErr ''--rds-address is required in controller mode'')
      else if fl_nodeMode f \<and> fl_nodeID f = [] then Inl (GoErr ''--node-id is required in node mode'')
      else (case read_keys readFile f of
        Inl err \<Rightarrow> Inl err
      | Inr (privateKey, hostKey) \<Rightarrow>
          (case (if fl_controllerMode f \<and> (fl_enableOrphanReconciler f \<or> fl_enableVMISerialization f)
                 then (case createClient (fl_kubeconfig f) of Inl err \<Rightarrow> Inl err | Inr k \<Rightarrow> Inr (Some k)) else Inr None) of
             Inl err \<Rightarrow> Inl (wrap_err ''Failed to create Kubernetes client: '' err)
           | Inr k8sClient \<Rightarrow> Inr
               \<lparr>dc_DriverName = fl_driverName f, dc_NodeID = fl_nodeID f, dc_Version = [], dc_RDSAddress = fl_rdsAddress f,
                dc_RDSPort = fl_rdsPort f, dc_RDSUser = fl_rdsUser f, dc_RDSPrivateKey = privateKey, dc_RDSHostKey = hostKey,
                dc_RDSInsecureSkipVerify = fl_rdsInsecure f, dc_RDSVolumeBasePath = fl_rdsVolumeBasePath f,
                dc_K8sClient = k8sClient, dc_EnableOrphanReconciler = fl_enableOrphanReconciler f,
                dc_OrphanCheckInterval = fl_orphanCheckInterval f, dc_OrphanGracePeriod = fl_orphanGracePeriod f,
                dc_OrphanDryRun = fl_orphanDryRun f, dc_EnableAttachmentReconciler = True,
                dc_AttachmentReconcileInterval = fl_attachmentReconcileInterval f,
                dc_AttachmentGracePeriod = fl_attachmentGracePeriod f, dc_EnableVMISerialization = fl_enableVMISerialization f,
                dc_VMICacheTTL = fl_vmiCacheTTL f, dc_ManagedNQNPrefix = Getenv EnvManagedNQNPrefix,
                dc_EnableController = fl_controllerMode f, dc_EnableNode = fl_nodeMode f\<rparr>)))"

subsection \<open>The driver\<close>

datatype ns_rpc = NS_STAGE_UNSTAGE_VOLUME | NS_EXPAND_VOLUME | NS_GET_VOLUME_STATS | NS_VOLUME_CONDITION

record ('r, 'k) plugin =
  pl_name :: string
  pl_version :: string
  pl_driver :: "('r sshClient, 'k) Driver"
  pl_client :: "'r sshClient option" \<comment> \<open>the object behind \<^verbatim>\<open>rdsClient\<close>\<close>
  pl_informers :: bool
  pl_reconciler :: "OrphanReconcilerConfig option"
  pl_attachmentReconciler :: "AttachmentReconciler option"
  pl_nodeWatcher :: bool
  pl_connectionManager :: "ConnectionManager option"
  pl_vmiGrouper :: "VMIGrouper option"
  pl_managedNQNPrefix :: string
  pl_nscaps :: "ns_rpc list"
  pl_ids :: bool \<comment> \<open>whether the services exist\<close>
  pl_cs :: bool
  pl_ns :: bool

definition addNodeServiceCapabilities :: "('r, 'k) plugin \<Rightarrow> ('r, 'k) plugin" where
  "addNodeServiceCapabilities d =
     d\<lparr>pl_nscaps := [NS_STAGE_UNSTAGE_VOLUME, NS_EXPAND_VOLUME, NS_GET_VOLUME_STATS, NS_VOLUME_CONDITION]\<rparr>"

definition NodeGetCapabilities :: "('r, 'k) plugin \<Rightarrow> ns_rpc list" where
  "NodeGetCapabilities d = pl_nscaps d"

definition check_prefix :: "'k DriverConfig \<Rightarrow> goerr option" where
  "check_prefix config =
     (if \<not> dc_EnableNode config then None
      else if dc_ManagedNQNPrefix config = []
      then Some (GoErr (''managed NQN prefix is required for node plugin (set '' @ EnvManagedNQNPrefix @ '')''))
      else map_option (wrap_err ''invalid NQN prefix: '') (ValidateNQNPrefix (dc_ManagedNQNPrefix config)))"

definition client_config :: "'k DriverConfig \<Rightarrow> ClientConfig" where
  "client_config config =
     \<lparr>cc_Protocol = [], cc_Address = dc_RDSAddress config, cc_Port = dc_RDSPort config, cc_User = dc_RDSUser config,
      cc_PrivateKey = dc_RDSPrivateKey config, cc_Timeout = 0, cc_HostKey = dc_RDSHostKey config, cc_HostKeyCallback = None,
      cc_InsecureSkipVerify = dc_RDSInsecureSkipVerify config\<rparr>"

definition connect_rds :: "'r transport \<Rightarrow> 'k DriverConfig \<Rightarrow> 'r \<Rightarrow> goerr + 'r sshClient option" where
  "connect_rds t config r =
     (if \<not> dc_EnableController config then Inr None
      else (case NewClient t (client_config config) r of
        Inl err \<Rightarrow> Inl (wrap_err ''failed to create RDS client: '' err)
      | Inr rdsClient \<Rightarrow>
          (case ssh_Connect t rdsClient of
             (Some err, _) \<Rightarrow> Inl (wrap_err ''failed to connect to RDS: '' err)
           | (None, rdsClient) \<Rightarrow> Inr (Some rdsClient))))"

definition new_attachment_reconciler :: "'k DriverConfig \<Rightarrow> goerr + AttachmentReconciler option" where
  "new_attachment_reconciler config =
     (if dc_EnableController config \<and> dc_EnableAttachmentReconciler config \<and> dc_K8sClient config \<noteq> None
      then (case NewAttachmentReconciler \<lparr>rc_Manager = True, rc_K8sClient = True, rc_NodeLister = True, rc_PVLister = True,
               rc_Interval = dc_AttachmentReconcileInterval config, rc_GracePeriod = dc_AttachmentGracePeriod config\<rparr> of
              Inl err \<Rightarrow> Inl (wrap_err ''failed to create attachment reconciler: '' err)
            | Inr ar \<Rightarrow> Inr (Some ar))
      else Inr None)"

definition new_orphan_reconciler :: "'k DriverConfig \<Rightarrow> bool \<Rightarrow> goerr + OrphanReconcilerConfig option" where
  "new_orphan_reconciler config hasRDS =
     (if dc_EnableController config \<and> dc_EnableOrphanReconciler config \<and> dc_K8sClient config \<noteq> None
      then (case NewOrphanReconciler hasRDS True
               \<lparr>oc_CheckInterval = dc_OrphanCheckInterval config, oc_GracePeriod = dc_OrphanGracePeriod config,
                oc_DryRun = dc_OrphanDryRun config, oc_Enabled = True, oc_BasePath = dc_RDSVolumeBasePath config\<rparr> of
              Inl err \<Rightarrow> Inl (wrap_err ''failed to create orphan reconciler: '' err)
            | Inr oc \<Rightarrow> Inr (Some oc))
      else Inr None)"

text \<open>The fields that \<^verbatim>\<open>NewDriver\<close> sets, once the parts that can fail exist.\<close>

definition assemble ::
    "string \<Rightarrow> 'r transport \<Rightarrow> 'k DriverConfig \<Rightarrow> string list \<Rightarrow> 'r sshClient option \<Rightarrow> AttachmentReconciler option
     \<Rightarrow> ('r, 'k) plugin" where
  "assemble version t config allowed client ar =
     (let k8s = dc_EnableController config \<and> dc_K8sClient config \<noteq> None;
          drv = addVolumeCapabilities
            \<lparr>drv_rdsClient = map_option (\<lambda>_. ssh_client t allowed) client, drv_k8sClient = dc_K8sClient config,
             drv_nodeID = dc_NodeID config, drv_attachmentManager = k8s,
             drv_attachmentGracePeriod =
               (if ar = None then 0 else if dc_AttachmentGracePeriod config \<le> 0 then 30 * second
                else dc_AttachmentGracePeriod config),
             drv_vcaps = [], drv_cscaps = []\<rparr>;
          d = \<lparr>pl_name = (if dc_DriverName config = [] then ''rds.csi.srvlab.io'' else dc_DriverName config),
             pl_version = (if dc_Version config = [] then version else dc_Version config),
             pl_driver = (if dc_EnableController config then addControllerServiceCapabilities drv else drv),
             pl_client = client, pl_informers = k8s, pl_reconciler = None, pl_attachmentReconciler = ar,
             pl_nodeWatcher = False, pl_connectionManager = None,
             pl_vmiGrouper = (if k8s \<and> dc_EnableVMISerialization config
               then Some (NewVMIGrouper True (dc_VMICacheTTL config) True) else None),
             pl_managedNQNPrefix = dc_ManagedNQNPrefix config, pl_nscaps = [],
             pl_ids = False, pl_cs = False, pl_ns = False\<rparr>
      in if dc_EnableNode config then addNodeServiceCapabilities d else d)"

text \<open>\<open>version\<close> is the variable the linker sets, \<open>allowed\<close> the list of allowed base paths.\<close>

definition NewDriver ::
    "string \<Rightarrow> 'r transport \<Rightarrow> 'k DriverConfig \<Rightarrow> string list \<Rightarrow> 'r \<Rightarrow> (goerr + ('r, 'k) plugin) \<times> string list" where
  "NewDriver version t config allowed r =
     (case (if dc_RDSVolumeBasePath config \<noteq> [] then SetAllowedBasePath (dc_RDSVolumeBasePath config) allowed else (None, allowed)) of
        (Some err, allowed) \<Rightarrow> (Inl (wrap_err ''failed to set allowed base path: '' err), allowed)
      | (None, allowed) \<Rightarrow>
          (case check_prefix config of
             Some err \<Rightarrow> (Inl err, allowed)
           | None \<Rightarrow>
               (case connect_rds t config r of
                  Inl err \<Rightarrow> (Inl err, allowed)
                | Inr client \<Rightarrow>
                    (case new_attachment_reconciler config of
                       Inl err \<Rightarrow> (Inl err, allowed)
                     | Inr ar \<Rightarrow>
                         (case new_orphan_reconciler config (client \<noteq> None) of
                            Inl err \<Rightarrow> (Inl err, allowed)
                          | Inr oc \<Rightarrow> (Inr ((assemble version t config allowed client ar)\<lparr>pl_reconciler := oc\<rparr>), allowed))))))"

subsection \<open>Start and stop\<close>

definition cm_default :: ConnectionManagerConfig where
  "cm_default = \<lparr>cm_InitialInterval = 0, cm_MaxInterval = 0, cm_MaxElapsedTime = 0, cm_Multiplier = (0, 1),
     cm_RandomizationFactor = (0, 1), cm_OnReconnect = True\<rparr>"

text \<open>The part of \<^verbatim>\<open>Run\<close> that starts the attachment reconciler and the connection manager.\<close>

definition start_reconciler ::
    "('b, 'r sshClient) link \<Rightarrow> ('r, 'k) plugin \<Rightarrow> goerr option \<times> ('r, 'k) plugin" where
  "start_reconciler lk d =
     (case pl_attachmentReconciler d of
        None \<Rightarrow> (None, d)
      | Some ar \<Rightarrow>
          (case ar_Start ar of
             (Some err, ar) \<Rightarrow> (Some (wrap_err ''failed to start attachment reconciler: '' err), d\<lparr>pl_attachmentReconciler := Some ar\<rparr>)
           | (None, ar) \<Rightarrow>
               (case (case pl_client d of
                        None \<Rightarrow> (None, d)
                      | Some client \<Rightarrow>
                          (case NewConnectionManager (Some lk) cm_default client of
                             (Inl err, client) \<Rightarrow> (Some (wrap_err ''failed to create connection manager: '' err), d\<lparr>pl_client := Some client\<rparr>)
                           | (Inr cm, client) \<Rightarrow> (None, d\<lparr>pl_client := Some client, pl_connectionManager := Some cm\<rparr>))) of
                  (Some err, d) \<Rightarrow> (Some err, d\<lparr>pl_attachmentReconciler := Some ar\<rparr>)
                | (None, d) \<Rightarrow> (None, d\<lparr>pl_attachmentReconciler := Some (TriggerReconcile ar)\<rparr>))))"

text \<open>
  \<^verbatim>\<open>Run\<close>: \<open>None\<close> as the error means that the plugin serves from then on. \<open>range_order\<close> is the order in which Go ranges over a
  map, \<open>serve\<close> the result of starting the gRPC server. \<^verbatim>\<open>Start\<close> of the orphan reconciler never fails.
\<close>

definition Run ::
    "('b, 'r sshClient) link \<Rightarrow> (string list \<Rightarrow> string list) \<Rightarrow> goerr option \<Rightarrow> ('r, 'k) plugin \<Rightarrow> AttachmentManager \<Rightarrow> 'k
     \<Rightarrow> goerr option \<times> ('r, 'k) plugin \<times> AttachmentManager \<times> 'k" where
  "Run lk range_order serve d am w =
     (let d = d\<lparr>pl_ids := True, pl_cs := (pl_client d \<noteq> None), pl_ns := (drv_nodeID (pl_driver d) \<noteq> []),
            pl_nodeWatcher := (pl_informers d \<and> pl_attachmentReconciler d \<noteq> None)\<rparr>;
          (am, w) = (if drv_attachmentManager (pl_driver d)
                     then snd (Initialize (drv_k8sClient (pl_driver d)) range_order am w) else (am, w))
      in case start_reconciler lk d of
           (Some err, d) \<Rightarrow> (Some err, d, am, w)
         | (None, d) \<Rightarrow> (map_option (wrap_err ''failed to start gRPC server: '') serve, d, am, w))"

definition Stop :: "'r transport \<Rightarrow> ('r, 'k) plugin \<Rightarrow> ('r, 'k) plugin" where
  "Stop t d =
     d\<lparr>pl_attachmentReconciler := map_option ar_Stop (pl_attachmentReconciler d),
       pl_client := map_option (\<lambda>c. snd (ssh_Close t c)) (pl_client d)\<rparr>"

subsection \<open>The identity service\<close>

datatype plugin_capability = CONTROLLER_SERVICE | VOLUME_ACCESSIBILITY_CONSTRAINTS

definition GetPluginInfo :: "('r, 'k) plugin \<Rightarrow> grpc_code + string \<times> string" where
  "GetPluginInfo d = (if pl_name d = [] then Inl Unavailable else Inr (pl_name d, pl_version d))"

definition GetPluginCapabilities :: "plugin_capability list" where
  "GetPluginCapabilities = [CONTROLLER_SERVICE, VOLUME_ACCESSIBILITY_CONSTRAINTS]"

text \<open>The probe asks the connection manager, or the client itself when there is none.\<close>

definition Probe :: "'r transport \<Rightarrow> ('r, 'k) plugin \<Rightarrow> bool \<times> ('r, 'k) plugin" where
  "Probe t d =
     (case pl_connectionManager d of
        Some cm \<Rightarrow> (cm_connected cm, d)
      | None \<Rightarrow>
          (case pl_client d of
             None \<Rightarrow> (True, d)
           | Some c \<Rightarrow> (case ssh_IsConnected t c of (b, c) \<Rightarrow> (b, d\<lparr>pl_client := Some c\<rparr>))))"

subsection \<open>Properties\<close>

lemma assemble_parts [simp]:
  "pl_client (assemble version t config allowed client ar) = client"
  "pl_attachmentReconciler (assemble version t config allowed client ar) = ar"
  "drv_k8sClient (pl_driver (assemble version t config allowed client ar)) = dc_K8sClient config"
  "drv_nodeID (pl_driver (assemble version t config allowed client ar)) = dc_NodeID config"
  "drv_attachmentManager (pl_driver (assemble version t config allowed client ar)) \<longleftrightarrow>
     dc_EnableController config \<and> dc_K8sClient config \<noteq> None"
  "drv_attachmentGracePeriod (pl_driver (assemble version t config allowed client ar)) =
     (if ar = None then 0 else if dc_AttachmentGracePeriod config \<le> 0 then 30 * second else dc_AttachmentGracePeriod config)"
  "drv_rdsClient (pl_driver (assemble version t config allowed client ar)) = map_option (\<lambda>_. ssh_client t allowed) client"
  "pl_vmiGrouper (assemble version t config allowed client ar) =
     (if dc_EnableController config \<and> dc_K8sClient config \<noteq> None \<and> dc_EnableVMISerialization config
      then Some (NewVMIGrouper True (dc_VMICacheTTL config) True) else None)"
  "pl_managedNQNPrefix (assemble version t config allowed client ar) = dc_ManagedNQNPrefix config"
  "pl_connectionManager (assemble version t config allowed client ar) = None"
  by (simp_all add: assemble_def Let_def addNodeServiceCapabilities_def addVolumeCapabilities_def addControllerServiceCapabilities_def)

lemma NewDriver_started:
  assumes "NewDriver version t config allowed r = (Inr d, allowed')"
  obtains client ar oc where "check_prefix config = None" "connect_rds t config r = Inr client"
    "new_attachment_reconciler config = Inr ar" "new_orphan_reconciler config (client \<noteq> None) = Inr oc"
    "d = (assemble version t config allowed' client ar)\<lparr>pl_reconciler := oc\<rparr>"
    "allowed_ok allowed \<Longrightarrow> allowed_ok allowed'"
  using assms SetAllowedBasePath_ok [of allowed "dc_RDSVolumeBasePath config"]
  by (auto simp: NewDriver_def split: prod.splits option.splits sum.splits if_splits)

lemma started_client:
  assumes "connect_rds t config r = Inr client"
  shows "client \<noteq> None \<longleftrightarrow> dc_EnableController config"
  using assms by (auto simp: connect_rds_def split: if_splits sum.splits prod.splits option.splits)

lemma started_reconcilers:
  "new_attachment_reconciler config = Inr ar \<Longrightarrow> ar \<noteq> None \<longleftrightarrow>
     dc_EnableController config \<and> dc_EnableAttachmentReconciler config \<and> dc_K8sClient config \<noteq> None"
  "new_attachment_reconciler config = Inr (Some x) \<Longrightarrow> \<not> ar_running x \<and> ar_triggerCh x = Some 0"
  "new_orphan_reconciler config b = Inr oc \<Longrightarrow> oc \<noteq> None \<longleftrightarrow>
     dc_EnableController config \<and> dc_EnableOrphanReconciler config \<and> dc_K8sClient config \<noteq> None"
  by (auto simp: new_attachment_reconciler_def new_orphan_reconciler_def NewAttachmentReconciler_def split: if_splits sum.splits)

lemma main_config_flags:
  assumes "main_config readFile createClient Getenv f = Inr config"
  shows "dc_EnableController config = fl_controllerMode f" "dc_EnableNode config = fl_nodeMode f" "dc_NodeID config = fl_nodeID f"
    "dc_EnableOrphanReconciler config = fl_enableOrphanReconciler f" "dc_EnableVMISerialization config = fl_enableVMISerialization f"
    "dc_EnableAttachmentReconciler config" "dc_RDSInsecureSkipVerify config = fl_rdsInsecure f"
    "dc_K8sClient config \<noteq> None \<longleftrightarrow> fl_controllerMode f \<and> (fl_enableOrphanReconciler f \<or> fl_enableVMISerialization f)"
    "read_keys readFile f = Inr (dc_RDSPrivateKey config, dc_RDSHostKey config)"
    "fl_controllerMode f \<or> fl_nodeMode f" "fl_nodeMode f \<longrightarrow> fl_nodeID f \<noteq> []"
  using assms by (auto simp: main_config_def split: if_splits sum.splits prod.splits)

lemma start_reconciler_ok:
  assumes "start_reconciler lk d = (None, d')"
  shows "\<exists>ar client cm. d' = d\<lparr>pl_attachmentReconciler := ar, pl_client := client, pl_connectionManager := cm\<rparr> \<and>
    (case pl_attachmentReconciler d of
       None \<Rightarrow> ar = None \<and> client = pl_client d \<and> cm = pl_connectionManager d
     | Some a \<Rightarrow> ar = Some (TriggerReconcile (a\<lparr>ar_running := True\<rparr>)) \<and> (pl_client d \<noteq> None \<longrightarrow> cm \<noteq> None))"
proof (cases "pl_attachmentReconciler d")
  case None
  then have "d' = d" using assms by (simp add: start_reconciler_def)
  with None show ?thesis by (intro exI [of _ "pl_attachmentReconciler d"] exI [of _ "pl_client d"] exI [of _ "pl_connectionManager d"]) simp
next
  case (Some a)
  then have a: "ar_Start a = (None, a\<lparr>ar_running := True\<rparr>)" using assms by (auto simp: start_reconciler_def ar_Start_def split: if_splits)
  show ?thesis
  proof (cases "pl_client d")
    case None
    then have "d' = d\<lparr>pl_attachmentReconciler := Some (TriggerReconcile (a\<lparr>ar_running := True\<rparr>))\<rparr>"
      using assms Some a by (simp add: start_reconciler_def)
    with None Some show ?thesis
      by (intro exI [of _ "pl_attachmentReconciler d'"] exI [of _ "pl_client d"] exI [of _ "pl_connectionManager d"]) simp
  next
    case client: (Some c)
    obtain cm c' where "NewConnectionManager (Some lk) cm_default c = (Inr cm, c')"
      by (cases "lkIsConnected lk c") (simp add: NewConnectionManager_def Let_def)
    then have "d' = d\<lparr>pl_client := Some c', pl_connectionManager := Some cm,
        pl_attachmentReconciler := Some (TriggerReconcile (a\<lparr>ar_running := True\<rparr>))\<rparr>"
      using assms Some client a by (simp add: start_reconciler_def)
    with Some show ?thesis
      by (intro exI [of _ "pl_attachmentReconciler d'"] exI [of _ "Some c'"] exI [of _ "Some cm"]) simp
  qed
qed

lemma Run_serves:
  assumes "Run lk range_order serve d am w = (None, d', am', w')"
  shows "pl_driver d' = pl_driver d" "pl_cs d' \<longleftrightarrow> pl_client d \<noteq> None" "pl_ns d' \<longleftrightarrow> drv_nodeID (pl_driver d) \<noteq> []" "pl_ids d'"
    "pl_vmiGrouper d' = pl_vmiGrouper d" "pl_reconciler d' = pl_reconciler d" "pl_managedNQNPrefix d' = pl_managedNQNPrefix d"
    "drv_attachmentManager (pl_driver d) \<Longrightarrow> \<exists>err. Initialize (drv_k8sClient (pl_driver d)) range_order am w = (err, am', w')"
    "pl_attachmentReconciler d = None \<Longrightarrow> pl_attachmentReconciler d' = None \<and> pl_connectionManager d' = pl_connectionManager d"
    "pl_attachmentReconciler d = Some ar \<Longrightarrow> pl_attachmentReconciler d' = Some (TriggerReconcile (ar\<lparr>ar_running := True\<rparr>)) \<and>
       (pl_client d \<noteq> None \<longrightarrow> pl_connectionManager d' \<noteq> None)"
proof -
  let ?d = "d\<lparr>pl_ids := True, pl_cs := (pl_client d \<noteq> None), pl_ns := (drv_nodeID (pl_driver d) \<noteq> []),
            pl_nodeWatcher := (pl_informers d \<and> pl_attachmentReconciler d \<noteq> None)\<rparr>"
  have s: "start_reconciler lk ?d = (None, d')"
    and i: "drv_attachmentManager (pl_driver d) \<Longrightarrow> snd (Initialize (drv_k8sClient (pl_driver d)) range_order am w) = (am', w')"
    using assms by (auto simp: Run_def Let_def split: prod.splits option.splits if_splits)
  obtain ar' client cm where d': "d' = ?d\<lparr>pl_attachmentReconciler := ar', pl_client := client, pl_connectionManager := cm\<rparr>"
    and parts: "case pl_attachmentReconciler ?d of
       None \<Rightarrow> ar' = None \<and> client = pl_client ?d \<and> cm = pl_connectionManager ?d
     | Some a \<Rightarrow> ar' = Some (TriggerReconcile (a\<lparr>ar_running := True\<rparr>)) \<and> (pl_client ?d \<noteq> None \<longrightarrow> cm \<noteq> None)"
    using start_reconciler_ok [OF s] by blast
  show "pl_driver d' = pl_driver d" "pl_cs d' \<longleftrightarrow> pl_client d \<noteq> None" "pl_ns d' \<longleftrightarrow> drv_nodeID (pl_driver d) \<noteq> []" "pl_ids d'"
    "pl_vmiGrouper d' = pl_vmiGrouper d" "pl_reconciler d' = pl_reconciler d" "pl_managedNQNPrefix d' = pl_managedNQNPrefix d"
    by (simp_all add: d')
  show "drv_attachmentManager (pl_driver d) \<Longrightarrow> \<exists>err. Initialize (drv_k8sClient (pl_driver d)) range_order am w = (err, am', w')"
    using i by (metis prod.collapse)
  show "pl_attachmentReconciler d = None \<Longrightarrow> pl_attachmentReconciler d' = None \<and> pl_connectionManager d' = pl_connectionManager d"
    "pl_attachmentReconciler d = Some ar \<Longrightarrow> pl_attachmentReconciler d' = Some (TriggerReconcile (ar\<lparr>ar_running := True\<rparr>)) \<and>
       (pl_client d \<noteq> None \<longrightarrow> pl_connectionManager d' \<noteq> None)"
    using parts by (simp_all add: d')
qed

lemma startup_parts:
  assumes "main_config readFile createClient Getenv f = Inr config"
    and "NewDriver version t config allowed r = (Inr d, allowed')" and "allowed_ok allowed"
    and "Run lk range_order serve d am w = (None, d', am', w')"
  shows "pl_cs d' = fl_controllerMode f" "pl_ns d' \<longleftrightarrow> fl_nodeID f \<noteq> []" "pl_cs d' \<or> pl_ns d'"
    "drv_rdsClient (pl_driver d') \<noteq> None \<longleftrightarrow> fl_controllerMode f"
    "drv_attachmentManager (pl_driver d') \<longleftrightarrow> fl_controllerMode f \<and> (fl_enableOrphanReconciler f \<or> fl_enableVMISerialization f)"
    "if drv_attachmentManager (pl_driver d')
     then (\<exists>ar. pl_attachmentReconciler d' = Some ar \<and> ar_running ar \<and> ar_triggerCh ar = Some 1) \<and>
       pl_connectionManager d' \<noteq> None \<and> 0 < drv_attachmentGracePeriod (pl_driver d') \<and> drv_k8sClient (pl_driver d') \<noteq> None
     else pl_attachmentReconciler d' = None \<and> pl_connectionManager d' = None"
    "pl_vmiGrouper d' \<noteq> None \<longleftrightarrow> fl_controllerMode f \<and> fl_enableVMISerialization f"
    "pl_reconciler d' \<noteq> None \<longleftrightarrow> fl_controllerMode f \<and> fl_enableOrphanReconciler f"
    "fl_nodeMode f \<Longrightarrow> ValidateNQNPrefix (pl_managedNQNPrefix d') = None" "allowed_ok allowed'"
proof -
  note m = main_config_flags [OF assms(1)]
  obtain client ar oc where n: "check_prefix config = None" "connect_rds t config r = Inr client"
      "new_attachment_reconciler config = Inr ar" "new_orphan_reconciler config (client \<noteq> None) = Inr oc"
    and d: "d = (assemble version t config allowed' client ar)\<lparr>pl_reconciler := oc\<rparr>" and ok: "allowed_ok allowed'"
    using NewDriver_started [OF assms(2)] assms(3) by metis
  note c = started_client [OF n(2)]
  note a = started_reconcilers(1) [OF n(3)]
  note o = started_reconcilers(3) [OF n(4)]
  note R = Run_serves [OF assms(4)]
  have client: "client \<noteq> None \<longleftrightarrow> fl_controllerMode f" and oc: "oc \<noteq> None \<longleftrightarrow> fl_controllerMode f \<and> fl_enableOrphanReconciler f"
    and ar: "ar \<noteq> None \<longleftrightarrow> fl_controllerMode f \<and> (fl_enableOrphanReconciler f \<or> fl_enableVMISerialization f)"
    unfolding c a o m(1,4,8) using m(6) by blast+
  show "pl_cs d' = fl_controllerMode f" "pl_ns d' \<longleftrightarrow> fl_nodeID f \<noteq> []" using R(2,3) client by (simp_all add: d m(3))
  then show "pl_cs d' \<or> pl_ns d'" using m(10,11) by blast
  show "drv_rdsClient (pl_driver d') \<noteq> None \<longleftrightarrow> fl_controllerMode f" using client by (simp add: R(1) d)
  show t: "drv_attachmentManager (pl_driver d') \<longleftrightarrow> fl_controllerMode f \<and> (fl_enableOrphanReconciler f \<or> fl_enableVMISerialization f)"
    using m(8) by (auto simp: R(1) d m(1))
  show "pl_vmiGrouper d' \<noteq> None \<longleftrightarrow> fl_controllerMode f \<and> fl_enableVMISerialization f"
    using m(8) by (auto simp: R(5) d m(1,5))
  show "pl_reconciler d' \<noteq> None \<longleftrightarrow> fl_controllerMode f \<and> fl_enableOrphanReconciler f" using oc by (simp add: R(6) d)
  show "fl_nodeMode f \<Longrightarrow> ValidateNQNPrefix (pl_managedNQNPrefix d') = None"
    using n(1) by (simp add: R(7) d check_prefix_def m(2) split: if_splits)
  show "allowed_ok allowed'" by (rule ok)
  show "if drv_attachmentManager (pl_driver d')
     then (\<exists>ar. pl_attachmentReconciler d' = Some ar \<and> ar_running ar \<and> ar_triggerCh ar = Some 1) \<and>
       pl_connectionManager d' \<noteq> None \<and> 0 < drv_attachmentGracePeriod (pl_driver d') \<and> drv_k8sClient (pl_driver d') \<noteq> None
     else pl_attachmentReconciler d' = None \<and> pl_connectionManager d' = None"
  proof (cases ar)
    case None
    then show ?thesis using ar t R(9) by (simp add: d)
  next
    case (Some x)
    have x: "ar_triggerCh x = Some 0" using started_reconcilers(2) [of config x] n(3) Some by simp
    have on: "fl_controllerMode f" "drv_attachmentManager (pl_driver d')" using Some ar t by auto
    have "pl_attachmentReconciler d' = Some (TriggerReconcile (x\<lparr>ar_running := True\<rparr>))" "pl_connectionManager d' \<noteq> None"
      using R(10) [of x] Some client on(1) by (simp_all add: d)
    moreover have "dc_K8sClient config \<noteq> None" using a Some by simp
    ultimately show ?thesis using x on Some by (simp add: R(1) d TriggerReconcile_def second_def)
  qed
qed

text \<open>C37. What a started plugin consists of, by its flags, provided that a controller is started with the orphan reconciler or the
  serialisation per machine switched on (otherwise it has no Kubernetes client) and the allowed base paths were well-formed before:
  the controller service with a client of the server in controller mode and the node service with a node ID, at least one of them; in
  controller mode, and only there, attachment tracking with a Kubernetes client, a running reconciler that has one pass pending, a
  connection manager and a positive grace period; the two optional parts by their own flag. In node mode the NQN prefix is valid,
  and the allowed base paths stay well-formed.\<close>

theorem startup_wiring:
  assumes "main_config readFile createClient Getenv f = Inr config"
    and "NewDriver version t config allowed r = (Inr d, allowed')" and "allowed_ok allowed"
    and "Run lk range_order serve d am w = (None, d', am', w')"
    and "fl_controllerMode f \<Longrightarrow> fl_enableOrphanReconciler f \<or> fl_enableVMISerialization f"
  shows "pl_cs d' = fl_controllerMode f \<and> (pl_ns d' \<longleftrightarrow> fl_nodeID f \<noteq> []) \<and> (pl_cs d' \<or> pl_ns d') \<and>
    (drv_rdsClient (pl_driver d') \<noteq> None \<longleftrightarrow> fl_controllerMode f) \<and>
    (drv_attachmentManager (pl_driver d') \<longleftrightarrow> fl_controllerMode f) \<and>
    (if fl_controllerMode f
     then (\<exists>ar. pl_attachmentReconciler d' = Some ar \<and> ar_running ar \<and> ar_triggerCh ar = Some 1) \<and>
       pl_connectionManager d' \<noteq> None \<and> 0 < drv_attachmentGracePeriod (pl_driver d') \<and> drv_k8sClient (pl_driver d') \<noteq> None
     else pl_attachmentReconciler d' = None \<and> pl_connectionManager d' = None) \<and>
    (pl_vmiGrouper d' \<noteq> None \<longleftrightarrow> fl_controllerMode f \<and> fl_enableVMISerialization f) \<and>
    (pl_reconciler d' \<noteq> None \<longleftrightarrow> fl_controllerMode f \<and> fl_enableOrphanReconciler f) \<and>
    (fl_nodeMode f \<longrightarrow> ValidateNQNPrefix (pl_managedNQNPrefix d') = None) \<and> allowed_ok allowed'"
proof -
  note parts = startup_parts [OF assms(1-4)]
  have "drv_attachmentManager (pl_driver d') \<longleftrightarrow> fl_controllerMode f" using parts(5) assms(5) by blast
  with parts(6) show ?thesis by (intro conjI impI parts(1-4,7-10)) simp_all
qed

text \<open>With neither switched on, as by default, a controller tracks no attachment.\<close>

lemma default_controller_tracks_nothing:
  assumes "main_config readFile createClient Getenv f = Inr config"
    and "NewDriver version t config allowed r = (Inr d, allowed')" and "allowed_ok allowed"
    and "Run lk range_order serve d am w = (None, d', am', w')"
    and "\<not> fl_enableOrphanReconciler f" "\<not> fl_enableVMISerialization f"
  shows "\<not> drv_attachmentManager (pl_driver d') \<and> pl_attachmentReconciler d' = None"
  using startup_parts(5,6) [OF assms(1-4)] assms(5,6) by simp

text \<open>A start on a small example: a server that answers, a cluster with one attached volume.\<close>

definition start_key :: hostkey where
  "start_key = \<lparr>hk_Type = ''ssh-ed25519'', hk_Fingerprint = ''SHA256:x''\<rparr>"

definition start_transport :: "unit transport" where
  "start_transport =
     \<lparr>tDial = \<lambda>_ cb r. (cb start_key, r), tSession = \<lambda>r. (None, r), tRun = \<lambda>_ r. (RunOK [], r), tClose = \<lambda>r. (None, r),
      tSleep = \<lambda>_ r. r, tTimeout = \<lambda>_. False, tEOF = \<lambda>_. False, tParseAuthorizedKey = \<lambda>_. Some start_key,
      tParsePublicKey = \<lambda>_. None, tParsePrivateKey = \<lambda>_. None\<rparr>"

definition start_kube :: "unit kube" where
  "start_kube =
     \<lparr>kPVGet = \<lambda>_ w. (Inl (GoErr ''x''), w), kPVUpdate = \<lambda>_ w. (None, w), kPVList = \<lambda>w. (Inr [], w),
      kVAList = \<lambda>w. (Inr [\<lparr>va_Name = ''va'', va_Attacher = driverName, va_PVName = Some ''v'', va_NodeName = ''a'',
         va_Attached = True, va_CreationTimestamp = 7\<rparr>], w), kNodeExists = \<lambda>_ w. (Inr True, w),
      kRetryOnConflict = \<lambda>f w. f w, kNowStamp = \<lambda>_. [], kPVCGet = \<lambda>_ _ w. (None, w), kEvent = \<lambda>_ _ _ _ w. w\<rparr>"

definition start_flags :: flags where
  "start_flags = default_flags\<lparr>fl_controllerMode := True, fl_rdsAddress := ''10.0.0.1'', fl_rdsHostKey := ''/key'',
     fl_enableOrphanReconciler := True\<rparr>"

definition start_link :: "(unit, unit sshClient) link" where
  "start_link = ssh_link start_transport (\<lambda>_. False) (\<lambda>c. (False, c)) (\<lambda>_ c. (False, c)) (\<lambda>_ _. ()) (\<lambda>_ _. (Some second, ()))"

lemma start_config: "\<exists>config. main_config (\<lambda>_. Inr ''key'') (\<lambda>_. Inr start_kube) (\<lambda>_. []) start_flags = Inr config \<and>
    dc_K8sClient config = Some start_kube \<and> dc_EnableController config \<and> dc_RDSVolumeBasePath config = [] \<and>
    \<not> dc_EnableNode config \<and> dc_RDSAddress config \<noteq> [] \<and> dc_RDSUser config \<noteq> [] \<and> dc_RDSHostKey config \<noteq> []"
  by (simp add: main_config_def read_keys_def start_flags_def default_flags_def)

lemma start_parts:
  "tParseAuthorizedKey start_transport x = Some start_key" "tParsePrivateKey start_transport x = None"
  "tDial start_transport addr cb () = (cb start_key, ())"
  by (simp_all add: start_transport_def)

lemma start_connect:
  "sc_hostKeyCallback c = Some (createHostKeyCallback start_key h) \<Longrightarrow>
    ssh_Connect start_transport c = (None, c\<lparr>sc_rds := (), sc_connected := True\<rparr>)"
  by (simp add: ssh_Connect_def start_parts createHostKeyCallback_def Let_def)

lemma start_reconciler_starts:
  assumes "\<And>a. pl_attachmentReconciler d = Some a \<Longrightarrow> \<not> ar_running a"
  shows "fst (start_reconciler lk d) = None"
proof (cases "pl_attachmentReconciler d")
  case (Some a)
  then have a: "ar_Start a = (None, a\<lparr>ar_running := True\<rparr>)" using assms by (simp add: ar_Start_def)
  show ?thesis
  proof (cases "pl_client d")
    case (Some c)
    have "\<exists>cm c'. NewConnectionManager (Some lk) cm_default c = (Inr cm, c')"
      by (cases "lkIsConnected lk c") (simp add: NewConnectionManager_def Let_def)
    with Some a \<open>pl_attachmentReconciler d = Some a\<close> show ?thesis by (auto simp: start_reconciler_def)
  qed (simp add: start_reconciler_def Some a)
qed (simp add: start_reconciler_def)

lemma Run_starts:
  fixes d :: "('r, unit) plugin"
  assumes "\<And>a. pl_attachmentReconciler d = Some a \<Longrightarrow> \<not> ar_running a"
  shows "\<exists>d' am'. Run lk range_order None d am () = (None, d', am', ())"
proof -
  let ?d = "d\<lparr>pl_ids := True, pl_cs := (pl_client d \<noteq> None), pl_ns := (drv_nodeID (pl_driver d) \<noteq> []),
            pl_nodeWatcher := (pl_informers d \<and> pl_attachmentReconciler d \<noteq> None)\<rparr>"
  have "fst (start_reconciler lk ?d) = None" using assms by (intro start_reconciler_starts) simp
  then obtain d' where "start_reconciler lk ?d = (None, d')" by (metis prod.collapse)
  moreover have "\<exists>am'. snd (Initialize (drv_k8sClient (pl_driver d)) range_order am ()) = (am', ())"
    by (metis prod.collapse unit.exhaust)
  ultimately show ?thesis by (simp add: Run_def Let_def split: prod.split)
qed

lemma start_driver:
  assumes "dc_K8sClient config = Some start_kube" "dc_EnableController config" "dc_RDSVolumeBasePath config = []"
    "\<not> dc_EnableNode config" "dc_RDSAddress config \<noteq> []" "dc_RDSUser config \<noteq> []" "dc_RDSHostKey config \<noteq> []"
  shows "\<exists>d. NewDriver ''dev'' start_transport config [] () = (Inr d, []) \<and>
    (\<exists>d' am. Run start_link (\<lambda>ks. ks) None d NewAttachmentManager () = (None, d', am, ()))"
proof -
  obtain c0 where "NewClient start_transport (client_config config) () = Inr c0"
      "sc_hostKeyCallback c0 = Some (createHostKeyCallback start_key (dc_RDSAddress config))"
    using assms by (simp add: NewClient_def newSSHClient_def client_config_def hostKeyCallback_of_def parseHostKey_def start_parts)
  then obtain c where c: "connect_rds start_transport config () = Inr c"
    using start_connect assms(2) by (simp add: connect_rds_def)
  have "c \<noteq> None" using started_client [OF c] assms(2) by simp
  then obtain oc where oc: "new_orphan_reconciler config (c \<noteq> None) = Inr oc"
    by (cases "dc_EnableController config \<and> dc_EnableOrphanReconciler config")
      (auto simp: new_orphan_reconciler_def NewOrphanReconciler_def assms(1,2))
  obtain ar where ar: "new_attachment_reconciler config = Inr ar"
    by (cases "dc_EnableAttachmentReconciler config")
      (auto simp: new_attachment_reconciler_def NewAttachmentReconciler_def assms(1,2))
  let ?d = "(assemble ''dev'' start_transport config [] c ar)\<lparr>pl_reconciler := oc\<rparr>"
  have "NewDriver ''dev'' start_transport config [] () = (Inr ?d, [])"
    using c ar oc assms by (simp add: NewDriver_def check_prefix_def)
  moreover have "\<exists>d' am. Run start_link (\<lambda>ks. ks) None ?d NewAttachmentManager () = (None, d', am, ())"
    using ar started_reconcilers(2) [of config] by (intro Run_starts) auto
  ultimately show ?thesis by blast
qed

theorem startup_wiring_witness:
  "\<exists>config d d' am. main_config (\<lambda>_. Inr ''key'') (\<lambda>_. Inr start_kube) (\<lambda>_. []) start_flags = Inr config \<and>
     NewDriver ''dev'' start_transport config [] () = (Inr d, []) \<and>
     Run start_link (\<lambda>ks. ks) None d NewAttachmentManager () = (None, d', am, ()) \<and>
     pl_cs d' \<and> \<not> pl_ns d' \<and> drv_attachmentManager (pl_driver d') \<and> pl_vmiGrouper d' = None \<and> pl_reconciler d' \<noteq> None"
proof -
  obtain config where config: "main_config (\<lambda>_. Inr ''key'') (\<lambda>_. Inr start_kube) (\<lambda>_. []) start_flags = Inr config"
    and parts: "dc_K8sClient config = Some start_kube" "dc_EnableController config" "dc_RDSVolumeBasePath config = []"
    "\<not> dc_EnableNode config" "dc_RDSAddress config \<noteq> []" "dc_RDSUser config \<noteq> []" "dc_RDSHostKey config \<noteq> []"
    using start_config by blast
  obtain d d' am where d: "NewDriver ''dev'' start_transport config [] () = (Inr d, [])"
    "Run start_link (\<lambda>ks. ks) None d NewAttachmentManager () = (None, d', am, ())"
    using start_driver [OF parts] by blast
  have "allowed_ok []" by (simp add: allowed_ok_def)
  moreover have "fl_enableOrphanReconciler start_flags" by (simp add: start_flags_def)
  ultimately show ?thesis using startup_wiring [OF config d(1) _ d(2)] config d
    by (intro exI [of _ config] exI [of _ d] exI [of _ d'] exI [of _ am]) (simp add: start_flags_def default_flags_def)
qed

text \<open>C38. A controller that was not told to skip the verification of host keys starts only if the server has the key in the
  configured file. The hypothesis on the transport is the documented behaviour of \<^verbatim>\<open>ssh.Dial\<close>.\<close>

theorem startup_verifies_host_key:
  assumes "\<And>addr cb r r'. tDial t addr cb r = (None, r') \<Longrightarrow> cb (server_key r) = None"
    and "main_config readFile createClient Getenv f = Inr config" "fl_controllerMode f" "\<not> fl_rdsInsecure f"
    and "NewDriver version t config allowed r = (Inr d, allowed')"
  shows "\<exists>hostKey k. readFile (fl_rdsHostKey f) = Inr hostKey \<and> parseHostKey t hostKey = Inr k \<and>
    hk_Type k = hk_Type (server_key r) \<and> hk_Fingerprint k = hk_Fingerprint (server_key r)"
proof -
  note m = main_config_flags [OF assms(2)]
  have rd: "readFile (fl_rdsHostKey f) = Inr (dc_RDSHostKey config)"
    using m(9) assms(3,4) by (auto simp: read_keys_def split: sum.splits if_splits)
  obtain c c' where c: "NewClient t (client_config config) r = Inr c" "ssh_Connect t c = (None, c')"
    using m(1) assms(3)
    by (auto intro: NewDriver_started [OF assms(5)] simp: connect_rds_def split: sum.splits prod.splits option.splits)
  have "\<exists>k. parseHostKey t (cc_HostKey (client_config config)) = Inr k \<and> hk_Type k = hk_Type (server_key r) \<and>
      hk_Fingerprint k = hk_Fingerprint (server_key r)"
    by (rule connect_needs_key [OF assms(1) c(1) _ _ c(2)]) (simp_all add: client_config_def m(7) assms(4))
  with rd show ?thesis by (auto simp: client_config_def)
qed

theorem startup_verifies_host_key_witness:
  "\<exists>config d hostKey k. main_config (\<lambda>_. Inr ''key'') (\<lambda>_. Inr start_kube) (\<lambda>_. []) start_flags = Inr config \<and>
     NewDriver ''dev'' start_transport config [] () = (Inr d, []) \<and> parseHostKey start_transport hostKey = Inr k \<and>
     hk_Fingerprint k = ''SHA256:x''"
proof -
  obtain config where config: "main_config (\<lambda>_. Inr ''key'') (\<lambda>_. Inr start_kube) (\<lambda>_. []) start_flags = Inr config"
    and parts: "dc_K8sClient config = Some start_kube" "dc_EnableController config" "dc_RDSVolumeBasePath config = []"
    "\<not> dc_EnableNode config" "dc_RDSAddress config \<noteq> []" "dc_RDSUser config \<noteq> []" "dc_RDSHostKey config \<noteq> []"
    using start_config by blast
  obtain d where d: "NewDriver ''dev'' start_transport config [] () = (Inr d, [])" using start_driver [OF parts] by blast
  have dial: "tDial start_transport addr cb r = (None, r') \<Longrightarrow> cb start_key = None" for addr cb r r'
    by (simp add: start_transport_def)
  have mode: "fl_controllerMode start_flags" "\<not> fl_rdsInsecure start_flags" by (simp_all add: start_flags_def default_flags_def)
  obtain hostKey k where "parseHostKey start_transport hostKey = Inr k" "hk_Fingerprint k = hk_Fingerprint start_key"
    using startup_verifies_host_key [where t = start_transport and server_key = "\<lambda>_. start_key", OF _ config mode d] dial by blast
  with config d show ?thesis
    by (intro exI [of _ config] exI [of _ d] exI [of _ hostKey] exI [of _ k]) (simp add: start_key_def)
qed

text \<open>C39. Exclusive attachment across a restart. A controller with a Kubernetes client starts, and at the start the cluster answers
  the request for its VolumeAttachment objects; of those attached by this driver no two bind the same volume to the same node, and at
  most one names the volume \<open>v\<close>. Then before the first request the table holds exactly the node the cluster has for \<open>v\<close>, and
  however publications, unpublications and reconciler passes follow each other afterwards, provided \<open>v\<close> is never requested in
  the shared mode, the table stays well-formed and \<open>v\<close> is never attached to two nodes.\<close>

theorem restart_exclusive:
  assumes "NewDriver version t config allowed r = (Inr d, allowed')"
    and "dc_EnableController config" "dc_K8sClient config = Some k"
    and "Run lk range_order serve d NewAttachmentManager w = (None, d', am, w')"
    and "kVAList k w = (Inr items, w1)" and "\<And>ks. set (range_order ks) = set ks"
    and "\<And>u. distinct (map va_NodeName (filter (va_for u) items))" "length (filter (va_for v) items) \<le> 1" "v \<noteq> []"
    and "st_am st0 = am" "(service_step (pl_driver d') A)\<^sup>*\<^sup>* st0 st"
    and "\<And>req. A req \<Longrightarrow> pr_VolumeId req = v \<Longrightarrow> \<not> is_rwx req"
  shows "nodes_of am v = map va_NodeName (filter (va_for v) items) \<and> am_ok (st_am st) \<and> length (nodes_of (st_am st) v) \<le> 1"
proof -
  have "drv_k8sClient (pl_driver d) = Some k" "drv_attachmentManager (pl_driver d)"
    by (rule NewDriver_started [OF assms(1)], simp add: assms(2,3))+
  then obtain err where "Initialize (Some k) range_order NewAttachmentManager w = (err, am, w')"
    using Run_serves(8) [OF assms(4)] by auto
  then have r: "RebuildStateFromVolumeAttachments (Some k) range_order NewAttachmentManager w = (None, am, w')"
    using assms(5) by (auto simp: Initialize_def RebuildStateFromVolumeAttachments_def ListDriverVolumeAttachments_def Let_def
        split: prod.splits option.splits)
  note ok = Rebuild_am_ok [OF r assms(5-7)]
  have nodes: "nodes_of am v = map va_NodeName (filter (va_for v) items)"
    using Rebuild_entries(1) [OF r assms(5,6,9)] assms(8) by (auto simp: nodes_of_def)
  then have one: "length (nodes_of (st_am st0) v) \<le> 1" using assms(8,10) by simp
  note p = service_path [OF assms(11)]
  have "\<not> adds_secondary v c" if "asked_for A c" for c using that assms(12) unfolding asked_for_def by blast
  with am_path_single [OF p _ _ _ one] am_path_ok [OF p] ok assms(10) nodes show ?thesis by auto
qed

theorem restart_exclusive_witness:
  "\<exists>config d d' am st. NewDriver ''dev'' start_transport config [] () = (Inr d, []) \<and>
     Run start_link (\<lambda>ks. ks) None d NewAttachmentManager () = (None, d', am, ()) \<and> nodes_of am ''v'' = [''a''] \<and>
     st = snd (ControllerPublishVolume (pl_driver d') (\<lambda>_. 9) (example_request ''b'' SINGLE_NODE_WRITER)
       \<lparr>st_rds = the (pl_client d'), st_am = am, st_k = ()\<rparr>) \<and> length (nodes_of (st_am st) ''v'') \<le> 1"
proof -
  obtain config :: "unit DriverConfig" where parts: "dc_K8sClient config = Some start_kube" "dc_EnableController config" "dc_RDSVolumeBasePath config = []"
    "\<not> dc_EnableNode config" "dc_RDSAddress config \<noteq> []" "dc_RDSUser config \<noteq> []" "dc_RDSHostKey config \<noteq> []"
    using start_config by blast
  obtain d d' am where d: "NewDriver ''dev'' start_transport config [] () = (Inr d, [])"
    "Run start_link (\<lambda>ks. ks) None d NewAttachmentManager () = (None, d', am, ())"
    using start_driver [OF parts] by blast
  let ?items = "[\<lparr>va_Name = ''va'', va_Attacher = driverName, va_PVName = Some ''v'', va_NodeName = ''a'',
         va_Attached = True, va_CreationTimestamp = 7\<rparr>]"
  let ?s = "\<lparr>st_rds = the (pl_client d'), st_am = am, st_k = ()\<rparr>"
  let ?u = "snd (ControllerPublishVolume (pl_driver d') (\<lambda>_. 9) (example_request ''b'' SINGLE_NODE_WRITER) ?s)"
  have list: "kVAList start_kube () = (Inr ?items, ())" by (simp add: start_kube_def)
  have run: "(service_step (pl_driver d') (\<lambda>req. \<not> is_rwx req))\<^sup>*\<^sup>* ?s ?u"
    by (rule r_into_rtranclp, rule step_publish) simp
  have "nodes_of am ''v'' = map va_NodeName (filter (va_for ''v'') ?items) \<and> am_ok (st_am ?u) \<and> length (nodes_of (st_am ?u) ''v'') \<le> 1"
    by (rule restart_exclusive [OF d(1) parts(2,1) d(2) list _ _ _ _ _ run]) (simp_all add: va_for_def)
  with d show ?thesis
    by (intro exI [of _ config] exI [of _ d] exI [of _ d'] exI [of _ am] exI [of _ ?u]) (simp add: va_for_def)
qed

subsection \<open>Where tracking is missing\<close>

text \<open>Without attachment tracking, which is how a controller with default flags runs, publishing looks at no attachment at
  all: every node that passes the checks gets the volume, in any access mode.\<close>

lemma untracked_publish:
  assumes "\<not> drv_attachmentManager d" "publish_checks d req (st_k st) = (None, w)" "drv_rdsClient d = Some c"
    and "rGetVolume c (pr_VolumeId req) (st_rds st) = (Inr vol, r)"
  shows "\<exists>ctx. ControllerPublishVolume d clk req st = (Inr ctx, st\<lparr>st_k := w, st_rds := r\<rparr>)"
  using assms by (simp add: ControllerPublishVolume_def)

text \<open>A start during which the VolumeAttachment objects cannot be listed serves with an empty table.\<close>

lemma start_without_list:
  assumes "dc_EnableController config" "dc_K8sClient config = Some k" "kVAList k w = (Inl err, w1)"
    and "NewDriver version t config allowed r = (Inr d, allowed')"
    and "Run lk range_order serve d NewAttachmentManager w = (None, d', am, w')"
  shows "am = NewAttachmentManager"
proof -
  have "drv_k8sClient (pl_driver d) = Some k" "drv_attachmentManager (pl_driver d)"
    by (rule NewDriver_started [OF assms(4)], simp add: assms(1,2))+
  then show ?thesis using Run_serves(8) [OF assms(5)] assms(3)
    by (auto simp: Initialize_def RebuildStateFromVolumeAttachments_def ListDriverVolumeAttachments_def split: prod.splits option.splits)
qed

text \<open>The name of the driver can be configured, but the orphan reconciler knows only the default name: under another name
  no volume counts as used.\<close>

lemma renamed_driver_orphans_all:
  assumes "\<And>pv. pv \<in> set pvs \<Longrightarrow> map_option fst (PersistentVolume.pv_CSI pv) \<noteq> Some ''rds.csi.srvlab.io''"
  shows "\<not> activeVolumeIDs pvs v"
  using assms by (fastforce simp: activeVolumeIDs_def list_ex_iff)

end
