(* ===== verification/Security.thy ===== *)
theory Security
  imports Prelude "HOL-Library.AList" "HOL-Library.Signed_Division"
begin

text \<open>
  Security events: package \<^verbatim>\<open>pkg/security\<close>. The string constants of \<^verbatim>\<open>events.go\<close> are datatypes with their texts, types and
  severities with a constructor for any other text; the empty outcome of a new event is \<open>NoOutcome\<close>. The lines that go to the log are returned with their level. \<^verbatim>\<open>Details\<close> is an association list in the order in which Go ranges
  over the map. The JSON copy of critical events is left out.
\<close>

subsection \<open>Events\<close>

datatype EventCategory =
    CategoryAuthentication | CategoryAuthorization | CategoryVolumeOperation | CategoryNetworkAccess | CategoryDataAccess
  | CategoryConfigChange | CategorySecurityViolation

datatype EventSeverity = SeverityInfo | SeverityWarning | SeverityError | SeverityCritical | OtherSeverity string

datatype EventOutcome = NoOutcome | OutcomeSuccess | OutcomeFailure | OutcomeDenied | OutcomeUnknown

datatype EventType =
    EventSSHConnectionAttempt | EventSSHConnectionSuccess | EventSSHConnectionFailure | EventSSHHostKeyVerified
  | EventSSHHostKeyMismatch | EventSSHAuthSuccess | EventSSHAuthFailure
  | EventVolumeCreateRequest | EventVolumeCreateSuccess | EventVolumeCreateFailure
  | EventVolumeDeleteRequest | EventVolumeDeleteSuccess | EventVolumeDeleteFailure
  | EventVolumeStageRequest | EventVolumeStageSuccess | EventVolumeStageFailure
  | EventVolumeUnstageRequest | EventVolumeUnstageSuccess | EventVolumeUnstageFailure
  | EventVolumePublishRequest | EventVolumePublishSuccess | EventVolumePublishFailure
  | EventVolumeUnpublishRequest | EventVolumeUnpublishSuccess | EventVolumeUnpublishFailure
  | EventNVMEConnectAttempt | EventNVMEConnectSuccess | EventNVMEConnectFailure | EventNVMEDisconnect
  | EventMountAttempt | EventMountSuccess | EventMountFailure | EventUnmountAttempt | EventUnmountSuccess | EventUnmountFailure
  | EventValidationFailure | EventInvalidParameter | EventCommandInjectionAttempt | EventPathTraversalAttempt
  | EventRateLimitExceeded | EventCircuitBreakerOpen | OtherType string

fun category_text :: "EventCategory \<Rightarrow> string" where
  "category_text CategoryAuthentication = ''authentication''"
| "category_text CategoryAuthorization = ''authorization''"
| "category_text CategoryVolumeOperation = ''volume_operation''"
| "category_text CategoryNetworkAccess = ''network_access''"
| "category_text CategoryDataAccess = ''data_access''"
| "category_text CategoryConfigChange = ''config_change''"
| "category_text CategorySecurityViolation = ''security_violation''"

fun severity_text :: "EventSeverity \<Rightarrow> string" where
  "severity_text SeverityInfo = ''info''"
| "severity_text SeverityWarning = ''warning''"
| "severity_text SeverityError = ''error''"
| "severity_text SeverityCritical = ''critical''"
| "severity_text (OtherSeverity s) = s"

fun outcome_text :: "EventOutcome \<Rightarrow> string" where
  "outcome_text NoOutcome = []"
| "outcome_text OutcomeSuccess = ''success''"
| "outcome_text OutcomeFailure = ''failure''"
| "outcome_text OutcomeDenied = ''denied''"
| "outcome_text OutcomeUnknown = ''unknown''"

fun type_text :: "EventType \<Rightarrow> string" where
  "type_text EventSSHConnectionAttempt = ''ssh_connection_attempt''"
| "type_text EventSSHConnectionSuccess = ''ssh_connection_success''"
| "type_text EventSSHConnectionFailure = ''ssh_connection_failure''"
| "type_text EventSSHHostKeyVerified = ''ssh_host_key_verified''"
| "type_text EventSSHHostKeyMismatch = ''ssh_host_key_mismatch''"
| "type_text EventSSHAuthSuccess = ''ssh_auth_success''"
| "type_text EventSSHAuthFailure = ''ssh_auth_failure''"
| "type_text EventVolumeCreateRequest = ''volume_create_request''"
| "type_text EventVolumeCreateSuccess = ''volume_create_success''"
| "type_text EventVolumeCreateFailure = ''volume_create_failure''"
| "type_text EventVolumeDeleteRequest = ''volume_delete_request''"
| "type_text EventVolumeDeleteSuccess = ''volume_delete_success''"
| "type_text EventVolumeDeleteFailure = ''volume_delete_failure''"
| "type_text EventVolumeStageRequest = ''volume_stage_request''"
| "type_text EventVolumeStageSuccess = ''volume_stage_success''"
| "type_text EventVolumeStageFailure = ''volume_stage_failure''"
| "type_text EventVolumeUnstageRequest = ''volume_unstage_request''"
| "type_text EventVolumeUnstageSuccess = ''volume_unstage_success''"
| "type_text EventVolumeUnstageFailure = ''volume_unstage_failure''"
| "type_text EventVolumePublishRequest = ''volume_publish_request''"
| "type_text EventVolumePublishSuccess = ''volume_publish_success''"
| "type_text EventVolumePublishFailure = ''volume_publish_failure''"
| "type_text EventVolumeUnpublishRequest = ''volume_unpublish_request''"
| "type_text EventVolumeUnpublishSuccess = ''volume_unpublish_success''"
| "type_text EventVolumeUnpublishFailure = ''volume_unpublish_failure''"
| "type_text EventNVMEConnectAttempt = ''nvme_connect_attempt''"
| "type_text EventNVMEConnectSuccess = ''nvme_connect_success''"
| "type_text EventNVMEConnectFailure = ''nvme_connect_failure''"
| "type_text EventNVMEDisconnect = ''nvme_disconnect''"
| "type_text EventMountAttempt = ''mount_attempt''"
| "type_text EventMountSuccess = ''mount_success''"
| "type_text EventMountFailure = ''mount_failure''"
| "type_text EventUnmountAttempt = ''unmount_attempt''"
| "type_text EventUnmountSuccess = ''unmount_success''"
| "type_text EventUnmountFailure = ''unmount_failure''"
| "type_text EventValidationFailure = ''validation_failure''"
| "type_text EventInvalidParameter = ''invalid_parameter''"
| "type_text EventCommandInjectionAttempt = ''command_injection_attempt''"
| "type_text EventPathTraversalAttempt = ''path_traversal_attempt''"
| "type_text EventRateLimitExceeded = ''rate_limit_exceeded''"
| "type_text EventCircuitBreakerOpen = ''circuit_breaker_open''"
| "type_text (OtherType s) = s"

record SecurityEvent =
  se_Timestamp :: time
  se_EventType :: EventType
  se_Category :: EventCategory
  se_Severity :: EventSeverity
  se_Outcome :: EventOutcome
  se_Message :: string
  se_SourceIP :: string
  se_TargetIP :: string
  se_Username :: string
  se_NodeID :: string
  se_Namespace :: string
  se_PodName :: string
  se_PVCName :: string
  se_VolumeID :: string
  se_VolumeName :: string
  se_DevicePath :: string
  se_MountPath :: string
  se_NQN :: string
  se_Operation :: string
  se_Duration :: duration
  se_Error :: string
  se_Details :: "(string \<times> string) list"

definition NewSecurityEvent :: "time \<Rightarrow> EventType \<Rightarrow> EventCategory \<Rightarrow> EventSeverity \<Rightarrow> string \<Rightarrow> SecurityEvent" where
  "NewSecurityEvent now eventType category severity message =
     \<lparr>se_Timestamp = now, se_EventType = eventType, se_Category = category, se_Severity = severity, se_Outcome = NoOutcome,
      se_Message = message, se_SourceIP = [], se_TargetIP = [], se_Username = [], se_NodeID = [], se_Namespace = [],
      se_PodName = [], se_PVCName = [], se_VolumeID = [], se_VolumeName = [], se_DevicePath = [], se_MountPath = [],
      se_NQN = [], se_Operation = [], se_Duration = 0, se_Error = [], se_Details = []\<rparr>"

definition WithOutcome :: "EventOutcome \<Rightarrow> SecurityEvent \<Rightarrow> SecurityEvent" where
  "WithOutcome outcome e = e\<lparr>se_Outcome := outcome\<rparr>"

definition WithIdentity :: "string \<Rightarrow> string \<Rightarrow> string \<Rightarrow> SecurityEvent \<Rightarrow> SecurityEvent" where
  "WithIdentity username sourceIP nodeID e = e\<lparr>se_Username := username, se_SourceIP := sourceIP, se_NodeID := nodeID\<rparr>"

definition WithVolume :: "string \<Rightarrow> string \<Rightarrow> SecurityEvent \<Rightarrow> SecurityEvent" where
  "WithVolume volumeID volumeName e = e\<lparr>se_VolumeID := volumeID, se_VolumeName := volumeName\<rparr>"

definition WithK8sContext :: "string \<Rightarrow> string \<Rightarrow> string \<Rightarrow> SecurityEvent \<Rightarrow> SecurityEvent" where
  "WithK8sContext namespace podName pvcName e = e\<lparr>se_Namespace := namespace, se_PodName := podName, se_PVCName := pvcName\<rparr>"

definition WithTarget :: "string \<Rightarrow> string \<Rightarrow> SecurityEvent \<Rightarrow> SecurityEvent" where
  "WithTarget targetIP nqn e = e\<lparr>se_TargetIP := targetIP, se_NQN := nqn\<rparr>"

definition WithOperation :: "string \<Rightarrow> duration \<Rightarrow> SecurityEvent \<Rightarrow> SecurityEvent" where
  "WithOperation operation d e = e\<lparr>se_Operation := operation, se_Duration := d\<rparr>"

definition WithError :: "goerr option \<Rightarrow> SecurityEvent \<Rightarrow> SecurityEvent" where
  "WithError err e = (case err of None \<Rightarrow> e | Some err \<Rightarrow> e\<lparr>se_Error := err_msg err\<rparr>)"

definition WithDetail :: "string \<Rightarrow> string \<Rightarrow> SecurityEvent \<Rightarrow> SecurityEvent" where
  "WithDetail key value e = e\<lparr>se_Details := AList.update key value (se_Details e)\<rparr>"

text \<open>The options of \<^verbatim>\<open>logger.go\<close> that have no method of the same effect.\<close>

definition WithNode :: "string \<Rightarrow> SecurityEvent \<Rightarrow> SecurityEvent" where
  "WithNode nodeID e = e\<lparr>se_NodeID := nodeID\<rparr>"

definition WithDuration :: "duration \<Rightarrow> SecurityEvent \<Rightarrow> SecurityEvent" where
  "WithDuration d e = e\<lparr>se_Duration := d\<rparr>"

definition WithMountPath :: "string \<Rightarrow> SecurityEvent \<Rightarrow> SecurityEvent" where
  "WithMountPath path e = e\<lparr>se_MountPath := path\<rparr>"

subsection \<open>Metrics\<close>

record SecurityMetrics =
  sm_SSHConnectionAttempts :: int
  sm_SSHConnectionSuccesses :: int
  sm_SSHConnectionFailures :: int
  sm_SSHHostKeyMismatches :: int
  sm_SSHAuthFailures :: int
  sm_VolumeCreateRequests :: int
  sm_VolumeCreateSuccesses :: int
  sm_VolumeCreateFailures :: int
  sm_VolumeDeleteRequests :: int
  sm_VolumeDeleteSuccesses :: int
  sm_VolumeDeleteFailures :: int
  sm_VolumeStageRequests :: int
  sm_VolumeStageSuccesses :: int
  sm_VolumeStageFailures :: int
  sm_VolumeUnstageRequests :: int
  sm_VolumeUnstageSuccesses :: int
  sm_VolumeUnstageFailures :: int
  sm_VolumePublishRequests :: int
  sm_VolumePublishSuccesses :: int
  sm_VolumePublishFailures :: int
  sm_VolumeUnpublishRequests :: int
  sm_VolumeUnpublishSuccesses :: int
  sm_VolumeUnpublishFailures :: int
  sm_NVMEConnectAttempts :: int
  sm_NVMEConnectSuccesses :: int
  sm_NVMEConnectFailures :: int
  sm_NVMEDisconnects :: int
  sm_MountAttempts :: int
  sm_MountSuccesses :: int
  sm_MountFailures :: int
  sm_UnmountAttempts :: int
  sm_UnmountSuccesses :: int
  sm_UnmountFailures :: int
  sm_ValidationFailures :: int
  sm_InvalidParameters :: int
  sm_CommandInjectionAttempts :: int
  sm_PathTraversalAttempts :: int
  sm_RateLimitExceeded :: int
  sm_CircuitBreakerOpens :: int
  sm_InfoEvents :: int
  sm_WarningEvents :: int
  sm_ErrorEvents :: int
  sm_CriticalEvents :: int
  sm_LastSSHConnection :: time
  sm_LastVolumeOperation :: time
  sm_LastSecurityViolation :: time
  sm_AverageOperationDuration :: duration
  sm_totalOperationTime :: duration
  sm_totalOperations :: int

definition no_metrics :: SecurityMetrics where
  "no_metrics =
     \<lparr>sm_SSHConnectionAttempts = 0, sm_SSHConnectionSuccesses = 0, sm_SSHConnectionFailures = 0, sm_SSHHostKeyMismatches = 0,
      sm_SSHAuthFailures = 0, sm_VolumeCreateRequests = 0, sm_VolumeCreateSuccesses = 0, sm_VolumeCreateFailures = 0,
      sm_VolumeDeleteRequests = 0, sm_VolumeDeleteSuccesses = 0, sm_VolumeDeleteFailures = 0, sm_VolumeStageRequests = 0,
      sm_VolumeStageSuccesses = 0, sm_VolumeStageFailures = 0, sm_VolumeUnstageRequests = 0, sm_VolumeUnstageSuccesses = 0,
      sm_VolumeUnstageFailures = 0, sm_VolumePublishRequests = 0, sm_VolumePublishSuccesses = 0, sm_VolumePublishFailures = 0,
      sm_VolumeUnpublishRequests = 0, sm_VolumeUnpublishSuccesses = 0, sm_VolumeUnpublishFailures = 0,
      sm_NVMEConnectAttempts = 0, sm_NVMEConnectSuccesses = 0, sm_NVMEConnectFailures = 0, sm_NVMEDisconnects = 0,
      sm_MountAttempts = 0, sm_MountSuccesses = 0, sm_MountFailures = 0, sm_UnmountAttempts = 0, sm_UnmountSuccesses = 0,
      sm_UnmountFailures = 0, sm_ValidationFailures = 0, sm_InvalidParameters = 0, sm_CommandInjectionAttempts = 0,
      sm_PathTraversalAttempts = 0, sm_RateLimitExceeded = 0, sm_CircuitBreakerOpens = 0, sm_InfoEvents = 0,
      sm_WarningEvents = 0, sm_ErrorEvents = 0, sm_CriticalEvents = 0, sm_LastSSHConnection = zero_time,
      sm_LastVolumeOperation = zero_time, sm_LastSecurityViolation = zero_time, sm_AverageOperationDuration = 0,
      sm_totalOperationTime = 0, sm_totalOperations = 0\<rparr>"

definition recordOperationDuration :: "duration \<Rightarrow> SecurityMetrics \<Rightarrow> SecurityMetrics" where
  "recordOperationDuration d m =
     (if d > 0
      then (let m = m\<lparr>sm_totalOperationTime := wrap64 (sm_totalOperationTime m + d), sm_totalOperations := wrap64 (sm_totalOperations m + 1)\<rparr>
            in if sm_totalOperations m > 0
               then m\<lparr>sm_AverageOperationDuration := sm_totalOperationTime m sdiv sm_totalOperations m\<rparr> else m)
      else m)"

text \<open>The two switches of \<^verbatim>\<open>RecordEvent\<close>; a severity or a type without a case is not counted.\<close>

definition record_severity :: "SecurityEvent \<Rightarrow> SecurityMetrics \<Rightarrow> SecurityMetrics" where
  "record_severity e m =
     (case se_Severity e of
        SeverityInfo \<Rightarrow> m\<lparr>sm_InfoEvents := wrap64 (sm_InfoEvents m + 1)\<rparr>
      | SeverityWarning \<Rightarrow> m\<lparr>sm_WarningEvents := wrap64 (sm_WarningEvents m + 1)\<rparr>
      | SeverityError \<Rightarrow> m\<lparr>sm_ErrorEvents := wrap64 (sm_ErrorEvents m + 1)\<rparr>
      | SeverityCritical \<Rightarrow> m\<lparr>sm_CriticalEvents := wrap64 (sm_CriticalEvents m + 1)\<rparr>
      | OtherSeverity _ \<Rightarrow> m)"

definition record_type :: "SecurityEvent \<Rightarrow> SecurityMetrics \<Rightarrow> SecurityMetrics" where
  "record_type e m =
     (case se_EventType e of
        EventSSHConnectionAttempt \<Rightarrow> m\<lparr>sm_SSHConnectionAttempts := wrap64 (sm_SSHConnectionAttempts m + 1), sm_LastSSHConnection := se_Timestamp e\<rparr>
      | EventSSHConnectionSuccess \<Rightarrow> m\<lparr>sm_SSHConnectionSuccesses := wrap64 (sm_SSHConnectionSuccesses m + 1)\<rparr>
      | EventSSHConnectionFailure \<Rightarrow> m\<lparr>sm_SSHConnectionFailures := wrap64 (sm_SSHConnectionFailures m + 1)\<rparr>
      | EventSSHHostKeyMismatch \<Rightarrow> m\<lparr>sm_SSHHostKeyMismatches := wrap64 (sm_SSHHostKeyMismatches m + 1), sm_LastSecurityViolation := se_Timestamp e\<rparr>
      | EventSSHAuthFailure \<Rightarrow> m\<lparr>sm_SSHAuthFailures := wrap64 (sm_SSHAuthFailures m + 1)\<rparr>
      | EventVolumeCreateRequest \<Rightarrow> m\<lparr>sm_VolumeCreateRequests := wrap64 (sm_VolumeCreateRequests m + 1), sm_LastVolumeOperation := se_Timestamp e\<rparr>
      | EventVolumeCreateSuccess \<Rightarrow> recordOperationDuration (se_Duration e) (m\<lparr>sm_VolumeCreateSuccesses := wrap64 (sm_VolumeCreateSuccesses m + 1)\<rparr>)
      | EventVolumeCreateFailure \<Rightarrow> m\<lparr>sm_VolumeCreateFailures := wrap64 (sm_VolumeCreateFailures m + 1)\<rparr>
      | EventVolumeDeleteRequest \<Rightarrow> m\<lparr>sm_VolumeDeleteRequests := wrap64 (sm_VolumeDeleteRequests m + 1), sm_LastVolumeOperation := se_Timestamp e\<rparr>
      | EventVolumeDeleteSuccess \<Rightarrow> recordOperationDuration (se_Duration e) (m\<lparr>sm_VolumeDeleteSuccesses := wrap64 (sm_VolumeDeleteSuccesses m + 1)\<rparr>)
      | EventVolumeDeleteFailure \<Rightarrow> m\<lparr>sm_VolumeDeleteFailures := wrap64 (sm_VolumeDeleteFailures m + 1)\<rparr>
      | EventVolumeStageRequest \<Rightarrow> m\<lparr>sm_VolumeStageRequests := wrap64 (sm_VolumeStageRequests m + 1), sm_LastVolumeOperation := se_Timestamp e\<rparr>
      | EventVolumeStageSuccess \<Rightarrow> recordOperationDuration (se_Duration e) (m\<lparr>sm_VolumeStageSuccesses := wrap64 (sm_VolumeStageSuccesses m + 1)\<rparr>)
      | EventVolumeStageFailure \<Rightarrow> m\<lparr>sm_VolumeStageFailures := wrap64 (sm_VolumeStageFailures m + 1)\<rparr>
      | EventVolumeUnstageRequest \<Rightarrow> m\<lparr>sm_VolumeUnstageRequests := wrap64 (sm_VolumeUnstageRequests m + 1), sm_LastVolumeOperation := se_Timestamp e\<rparr>
      | EventVolumeUnstageSuccess \<Rightarrow> recordOperationDuration (se_Duration e) (m\<lparr>sm_VolumeUnstageSuccesses := wrap64 (sm_VolumeUnstageSuccesses m + 1)\<rparr>)
      | EventVolumeUnstageFailure \<Rightarrow> m\<lparr>sm_VolumeUnstageFailures := wrap64 (sm_VolumeUnstageFailures m + 1)\<rparr>
      | EventVolumePublishRequest \<Rightarrow> m\<lparr>sm_VolumePublishRequests := wrap64 (sm_VolumePublishRequests m + 1), sm_LastVolumeOperation := se_Timestamp e\<rparr>
      | EventVolumePublishSuccess \<Rightarrow> recordOperationDuration (se_Duration e) (m\<lparr>sm_VolumePublishSuccesses := wrap64 (sm_VolumePublishSuccesses m + 1)\<rparr>)
      | EventVolumePublishFailure \<Rightarrow> m\<lparr>sm_VolumePublishFailures := wrap64 (sm_VolumePublishFailures m + 1)\<rparr>
      | EventVolumeUnpublishRequest \<Rightarrow> m\<lparr>sm_VolumeUnpublishRequests := wrap64 (sm_VolumeUnpublishRequests m + 1), sm_LastVolumeOperation := se_Timestamp e\<rparr>
      | EventVolumeUnpublishSuccess \<Rightarrow> recordOperationDuration (se_Duration e) (m\<lparr>sm_VolumeUnpublishSuccesses := wrap64 (sm_VolumeUnpublishSuccesses m + 1)\<rparr>)
      | EventVolumeUnpublishFailure \<Rightarrow> m\<lparr>sm_VolumeUnpublishFailures := wrap64 (sm_VolumeUnpublishFailures m + 1)\<rparr>
      | EventNVMEConnectAttempt \<Rightarrow> m\<lparr>sm_NVMEConnectAttempts := wrap64 (sm_NVMEConnectAttempts m + 1)\<rparr>
      | EventNVMEConnectSuccess \<Rightarrow> m\<lparr>sm_NVMEConnectSuccesses := wrap64 (sm_NVMEConnectSuccesses m + 1)\<rparr>
      | EventNVMEConnectFailure \<Rightarrow> m\<lparr>sm_NVMEConnectFailures := wrap64 (sm_NVMEConnectFailures m + 1)\<rparr>
      | EventNVMEDisconnect \<Rightarrow> m\<lparr>sm_NVMEDisconnects := wrap64 (sm_NVMEDisconnects m + 1)\<rparr>
      | EventMountAttempt \<Rightarrow> m\<lparr>sm_MountAttempts := wrap64 (sm_MountAttempts m + 1)\<rparr>
      | EventMountSuccess \<Rightarrow> m\<lparr>sm_MountSuccesses := wrap64 (sm_MountSuccesses m + 1)\<rparr>
      | EventMountFailure \<Rightarrow> m\<lparr>sm_MountFailures := wrap64 (sm_MountFailures m + 1)\<rparr>
      | EventUnmountAttempt \<Rightarrow> m\<lparr>sm_UnmountAttempts := wrap64 (sm_UnmountAttempts m + 1)\<rparr>
      | EventUnmountSuccess \<Rightarrow> m\<lparr>sm_UnmountSuccesses := wrap64 (sm_UnmountSuccesses m + 1)\<rparr>
      | EventUnmountFailure \<Rightarrow> m\<lparr>sm_UnmountFailures := wrap64 (sm_UnmountFailures m + 1)\<rparr>
      | EventValidationFailure \<Rightarrow> m\<lparr>sm_ValidationFailures := wrap64 (sm_ValidationFailures m + 1), sm_LastSecurityViolation := se_Timestamp e\<rparr>
      | EventInvalidParameter \<Rightarrow> m\<lparr>sm_InvalidParameters := wrap64 (sm_InvalidParameters m + 1), sm_LastSecurityViolation := se_Timestamp e\<rparr>
      | EventCommandInjectionAttempt \<Rightarrow> m\<lparr>sm_CommandInjectionAttempts := wrap64 (sm_CommandInjectionAttempts m + 1), sm_LastSecurityViolation := se_Timestamp e\<rparr>
      | EventPathTraversalAttempt \<Rightarrow> m\<lparr>sm_PathTraversalAttempts := wrap64 (sm_PathTraversalAttempts m + 1), sm_LastSecurityViolation := se_Timestamp e\<rparr>
      | EventRateLimitExceeded \<Rightarrow> m\<lparr>sm_RateLimitExceeded := wrap64 (sm_RateLimitExceeded m + 1), sm_LastSecurityViolation := se_Timestamp e\<rparr>
      | EventCircuitBreakerOpen \<Rightarrow> m\<lparr>sm_CircuitBreakerOpens := wrap64 (sm_CircuitBreakerOpens m + 1), sm_LastSecurityViolation := se_Timestamp e\<rparr>
      | _ \<Rightarrow> m)"

definition RecordEvent :: "SecurityEvent \<Rightarrow> SecurityMetrics \<Rightarrow> SecurityMetrics" where
  "RecordEvent e m = record_type e (record_severity e m)"

definition sec_Reset :: "SecurityMetrics \<Rightarrow> SecurityMetrics" where
  "sec_Reset m =
     m\<lparr>sm_SSHConnectionAttempts := 0, sm_SSHConnectionSuccesses := 0, sm_SSHConnectionFailures := 0,
       sm_SSHHostKeyMismatches := 0, sm_SSHAuthFailures := 0, sm_VolumeCreateRequests := 0, sm_VolumeCreateSuccesses := 0,
       sm_VolumeCreateFailures := 0, sm_VolumeDeleteRequests := 0, sm_VolumeDeleteSuccesses := 0, sm_VolumeDeleteFailures := 0,
       sm_VolumeStageRequests := 0, sm_VolumeStageSuccesses := 0, sm_VolumeStageFailures := 0, sm_VolumeUnstageRequests := 0,
       sm_VolumeUnstageSuccesses := 0, sm_VolumeUnstageFailures := 0, sm_VolumePublishRequests := 0,
       sm_VolumePublishSuccesses := 0, sm_VolumePublishFailures := 0, sm_VolumeUnpublishRequests := 0,
       sm_VolumeUnpublishSuccesses := 0, sm_VolumeUnpublishFailures := 0, sm_NVMEConnectAttempts := 0,
       sm_NVMEConnectSuccesses := 0, sm_NVMEConnectFailures := 0, sm_NVMEDisconnects := 0, sm_MountAttempts := 0,
       sm_MountSuccesses := 0, sm_MountFailures := 0, sm_UnmountAttempts := 0, sm_UnmountSuccesses := 0,
       sm_UnmountFailures := 0, sm_ValidationFailures := 0, sm_InvalidParameters := 0, sm_CommandInjectionAttempts := 0,
       sm_PathTraversalAttempts := 0, sm_RateLimitExceeded := 0, sm_CircuitBreakerOpens := 0, sm_InfoEvents := 0,
       sm_WarningEvents := 0, sm_ErrorEvents := 0, sm_CriticalEvents := 0, sm_LastSSHConnection := zero_time,
       sm_LastVolumeOperation := zero_time, sm_LastSecurityViolation := zero_time, sm_AverageOperationDuration := 0,
       sm_totalOperationTime := 0, sm_totalOperations := 0\<rparr>"

definition sec_Snapshot :: "SecurityMetrics \<Rightarrow> SecurityMetrics" where
  "sec_Snapshot m =
     \<lparr>sm_SSHConnectionAttempts = sm_SSHConnectionAttempts m, sm_SSHConnectionSuccesses = sm_SSHConnectionSuccesses m,
      sm_SSHConnectionFailures = sm_SSHConnectionFailures m, sm_SSHHostKeyMismatches = sm_SSHHostKeyMismatches m,
      sm_SSHAuthFailures = sm_SSHAuthFailures m, sm_VolumeCreateRequests = sm_VolumeCreateRequests m,
      sm_VolumeCreateSuccesses = sm_VolumeCreateSuccesses m, sm_VolumeCreateFailures = sm_VolumeCreateFailures m,
      sm_VolumeDeleteRequests = sm_VolumeDeleteRequests m, sm_VolumeDeleteSuccesses = sm_VolumeDeleteSuccesses m,
      sm_VolumeDeleteFailures = sm_VolumeDeleteFailures m, sm_VolumeStageRequests = sm_VolumeStageRequests m,
      sm_VolumeStageSuccesses = sm_VolumeStageSuccesses m, sm_VolumeStageFailures = sm_VolumeStageFailures m,
      sm_VolumeUnstageRequests = sm_VolumeUnstageRequests m, sm_VolumeUnstageSuccesses = sm_VolumeUnstageSuccesses m,
      sm_VolumeUnstageFailures = sm_VolumeUnstageFailures m, sm_VolumePublishRequests = sm_VolumePublishRequests m,
      sm_VolumePublishSuccesses = sm_VolumePublishSuccesses m, sm_VolumePublishFailures = sm_VolumePublishFailures m,
      sm_VolumeUnpublishRequests = sm_VolumeUnpublishRequests m, sm_VolumeUnpublishSuccesses = sm_VolumeUnpublishSuccesses m,
      sm_VolumeUnpublishFailures = sm_VolumeUnpublishFailures m, sm_NVMEConnectAttempts = sm_NVMEConnectAttempts m,
      sm_NVMEConnectSuccesses = sm_NVMEConnectSuccesses m, sm_NVMEConnectFailures = sm_NVMEConnectFailures m,
      sm_NVMEDisconnects = sm_NVMEDisconnects m, sm_MountAttempts = sm_MountAttempts m, sm_MountSuccesses = sm_MountSuccesses m,
      sm_MountFailures = sm_MountFailures m, sm_UnmountAttempts = sm_UnmountAttempts m,
      sm_UnmountSuccesses = sm_UnmountSuccesses m, sm_UnmountFailures = sm_UnmountFailures m,
      sm_ValidationFailures = sm_ValidationFailures m, sm_InvalidParameters = sm_InvalidParameters m,
      sm_CommandInjectionAttempts = sm_CommandInjectionAttempts m, sm_PathTraversalAttempts = sm_PathTraversalAttempts m,
      sm_RateLimitExceeded = sm_RateLimitExceeded m, sm_CircuitBreakerOpens = sm_CircuitBreakerOpens m,
      sm_InfoEvents = sm_InfoEvents m, sm_WarningEvents = sm_WarningEvents m, sm_ErrorEvents = sm_ErrorEvents m,
      sm_CriticalEvents = sm_CriticalEvents m, sm_LastSSHConnection = sm_LastSSHConnection m,
      sm_LastVolumeOperation = sm_LastVolumeOperation m, sm_LastSecurityViolation = sm_LastSecurityViolation m,
      sm_AverageOperationDuration = sm_AverageOperationDuration m, sm_totalOperationTime = sm_totalOperationTime m,
      sm_totalOperations = sm_totalOperations m\<rparr>"

subsection \<open>The logger\<close>

text \<open>\<^verbatim>\<open>Time.Format\<close> with the layout of the source: the civil date of a day count, and padded numbers.\<close>

definition pad :: "nat \<Rightarrow> nat \<Rightarrow> string" where
  "pad n k = (let s = dec_nat k in replicate (n - length s) CHR ''0'' @ s)"

definition civil_from_days :: "int \<Rightarrow> int \<times> int \<times> int" where
  "civil_from_days z =
     (let z = z + 719468; era = z div 146097; doe = z mod 146097;
          yoe = (doe - doe div 1460 + doe div 36524 - doe div 146096) div 365;
          doy = doe - (365 * yoe + yoe div 4 - yoe div 100); mp = (5 * doy + 2) div 153;
          d = doy - (153 * mp + 2) div 5 + 1; m = (if mp < 10 then mp + 3 else mp - 9)
      in (yoe + era * 400 + (if m \<le> 2 then 1 else 0), m, d))"

definition Format_ms :: "time \<Rightarrow> string" where
  "Format_ms t =
     (let (y, m, d) = civil_from_days (t div (24 * hour)); r = t mod (24 * hour)
      in pad 4 (nat y) @ ''-'' @ pad 2 (nat m) @ ''-'' @ pad 2 (nat d) @ ''T'' @ pad 2 (nat (r div hour)) @ '':'' @
         pad 2 (nat (r div minute mod 60)) @ '':'' @ pad 2 (nat (r div second mod 60)) @ ''.'' @
         pad 3 (nat (r div 1000000 mod 1000)) @ ''Z'')"

definition log_field :: "string \<Rightarrow> string \<Rightarrow> string" where
  "log_field name value = (if value \<noteq> [] then '' '' @ name @ ''='' @ value else [])"

definition in_quotes :: "string \<Rightarrow> string" where
  "in_quotes s = [CHR 0x22] @ s @ [CHR 0x22]"

definition formatLogMessage :: "SecurityEvent \<Rightarrow> string" where
  "formatLogMessage e =
     ''[SECURITY] category='' @ category_text (se_Category e) @ '' type='' @ type_text (se_EventType e) @
     '' severity='' @ severity_text (se_Severity e) @ '' outcome='' @ outcome_text (se_Outcome e) @ '' msg='' @ in_quotes (se_Message e) @
     log_field ''username'' (se_Username e) @ log_field ''source_ip'' (se_SourceIP e) @ log_field ''target_ip'' (se_TargetIP e) @
     log_field ''node_id'' (se_NodeID e) @ log_field ''namespace'' (se_Namespace e) @ log_field ''pod_name'' (se_PodName e) @
     log_field ''pvc_name'' (se_PVCName e) @ log_field ''volume_id'' (se_VolumeID e) @ log_field ''volume_name'' (se_VolumeName e) @
     log_field ''nqn'' (se_NQN e) @ log_field ''device_path'' (se_DevicePath e) @ log_field ''mount_path'' (se_MountPath e) @
     log_field ''operation'' (se_Operation e) @
     (if se_Duration e > 0 then '' duration_ms='' @ Itoa (se_Duration e div 1000000) else []) @
     (if se_Error e \<noteq> [] then '' error='' @ in_quotes (se_Error e) else []) @
     concat (map (\<lambda>(key, value). '' '' @ key @ ''='' @ in_quotes value) (se_Details e)) @
     '' timestamp='' @ Format_ms (se_Timestamp e)"

datatype log_level = LogInfo | LogWarning | LogError

fun severityMap :: "EventSeverity \<Rightarrow> log_level option" where
  "severityMap SeverityInfo = Some LogInfo"
| "severityMap SeverityWarning = Some LogWarning"
| "severityMap SeverityError = Some LogError"
| "severityMap SeverityCritical = Some LogError"
| "severityMap (OtherSeverity _) = None"

definition LogEvent :: "SecurityEvent \<Rightarrow> SecurityMetrics \<Rightarrow> (log_level \<times> string) \<times> SecurityMetrics" where
  "LogEvent e m =
     (let level = (case severityMap (se_Severity e) of Some level \<Rightarrow> level | None \<Rightarrow> LogInfo)
      in ((level, formatLogMessage e), RecordEvent e m))"

record OperationLogConfig =
  ol_Operation :: string
  ol_Category :: EventCategory
  ol_SuccessType :: EventType
  ol_FailureType :: EventType
  ol_RequestType :: EventType
  ol_SuccessSev :: EventSeverity
  ol_FailureSev :: EventSeverity
  ol_SuccessMsg :: string
  ol_FailureMsg :: string
  ol_RequestMsg :: string

datatype operation = VolumeCreate | VolumeDelete | VolumeStage | VolumeUnstage | VolumePublish | VolumeUnpublish | NVMEConnect

fun operationConfigs :: "operation \<Rightarrow> OperationLogConfig" where
  "operationConfigs VolumeCreate =
     \<lparr>ol_Operation = ''CreateVolume'', ol_Category = CategoryVolumeOperation, ol_SuccessType = EventVolumeCreateSuccess,
      ol_FailureType = EventVolumeCreateFailure, ol_RequestType = EventVolumeCreateRequest, ol_SuccessSev = SeverityInfo,
      ol_FailureSev = SeverityError, ol_SuccessMsg = ''Volume created successfully'', ol_FailureMsg = ''Volume creation failed'',
      ol_RequestMsg = ''Volume creation requested''\<rparr>"
| "operationConfigs VolumeDelete =
     \<lparr>ol_Operation = ''DeleteVolume'', ol_Category = CategoryVolumeOperation, ol_SuccessType = EventVolumeDeleteSuccess,
      ol_FailureType = EventVolumeDeleteFailure, ol_RequestType = EventVolumeDeleteRequest, ol_SuccessSev = SeverityInfo,
      ol_FailureSev = SeverityWarning, ol_SuccessMsg = ''Volume deleted successfully'', ol_FailureMsg = ''Volume deletion failed'',
      ol_RequestMsg = ''Volume deletion requested''\<rparr>"
| "operationConfigs VolumeStage =
     \<lparr>ol_Operation = ''NodeStageVolume'', ol_Category = CategoryVolumeOperation, ol_SuccessType = EventVolumeStageSuccess,
      ol_FailureType = EventVolumeStageFailure, ol_RequestType = EventVolumeStageRequest, ol_SuccessSev = SeverityInfo,
      ol_FailureSev = SeverityError, ol_SuccessMsg = ''Volume staged successfully'', ol_FailureMsg = ''Volume staging failed'',
      ol_RequestMsg = ''Volume staging requested''\<rparr>"
| "operationConfigs VolumeUnstage =
     \<lparr>ol_Operation = ''NodeUnstageVolume'', ol_Category = CategoryVolumeOperation, ol_SuccessType = EventVolumeUnstageSuccess,
      ol_FailureType = EventVolumeUnstageFailure, ol_RequestType = EventVolumeUnstageRequest, ol_SuccessSev = SeverityInfo,
      ol_FailureSev = SeverityWarning, ol_SuccessMsg = ''Volume unstaged successfully'', ol_FailureMsg = ''Volume unstaging failed'',
      ol_RequestMsg = ''Volume unstaging requested''\<rparr>"
| "operationConfigs VolumePublish =
     \<lparr>ol_Operation = ''NodePublishVolume'', ol_Category = CategoryVolumeOperation, ol_SuccessType = EventVolumePublishSuccess,
      ol_FailureType = EventVolumePublishFailure, ol_RequestType = EventVolumePublishRequest, ol_SuccessSev = SeverityInfo,
      ol_FailureSev = SeverityError, ol_SuccessMsg = ''Volume published successfully'', ol_FailureMsg = ''Volume publish failed'',
      ol_RequestMsg = ''Volume publish requested''\<rparr>"
| "operationConfigs VolumeUnpublish =
     \<lparr>ol_Operation = ''NodeUnpublishVolume'', ol_Category = CategoryVolumeOperation, ol_SuccessType = EventVolumeUnpublishSuccess,
      ol_FailureType = EventVolumeUnpublishFailure, ol_RequestType = EventVolumeUnpublishRequest, ol_SuccessSev = SeverityInfo,
      ol_FailureSev = SeverityWarning, ol_SuccessMsg = ''Volume unpublished successfully'', ol_FailureMsg = ''Volume unpublish failed'',
      ol_RequestMsg = ''Volume unpublish requested''\<rparr>"
| "operationConfigs NVMEConnect =
     \<lparr>ol_Operation = ''NVMEConnect'', ol_Category = CategoryNetworkAccess, ol_SuccessType = EventNVMEConnectSuccess,
      ol_FailureType = EventNVMEConnectFailure, ol_RequestType = EventNVMEConnectAttempt, ol_SuccessSev = SeverityInfo,
      ol_FailureSev = SeverityError, ol_SuccessMsg = ''NVMe connection established'', ol_FailureMsg = ''NVMe connection failed'',
      ol_RequestMsg = ''NVMe connection attempt''\<rparr>"

text \<open>The event that \<^verbatim>\<open>LogOperation\<close> logs; \<open>opts\<close> are the functional options in order.\<close>

definition operation_event ::
    "time \<Rightarrow> OperationLogConfig \<Rightarrow> EventOutcome \<Rightarrow> (SecurityEvent \<Rightarrow> SecurityEvent) list \<Rightarrow> SecurityEvent" where
  "operation_event now config outcome opts =
     (let (eventType, severity, message) =
        (case outcome of
           OutcomeSuccess \<Rightarrow> (ol_SuccessType config, ol_SuccessSev config, ol_SuccessMsg config)
         | OutcomeFailure \<Rightarrow> (ol_FailureType config, ol_FailureSev config, ol_FailureMsg config)
         | _ \<Rightarrow> (ol_RequestType config, SeverityInfo, ol_RequestMsg config));
        event = (NewSecurityEvent now eventType (ol_Category config) severity message)
          \<lparr>se_Operation := ol_Operation config, se_Outcome := outcome\<rparr>
      in foldl (\<lambda>e f. f e) event opts)"

definition LogOperation ::
    "time \<Rightarrow> OperationLogConfig \<Rightarrow> EventOutcome \<Rightarrow> (SecurityEvent \<Rightarrow> SecurityEvent) list \<Rightarrow> SecurityMetrics
     \<Rightarrow> (log_level \<times> string) \<times> SecurityMetrics" where
  "LogOperation now config outcome opts m = LogEvent (operation_event now config outcome opts) m"

definition LogVolumeCreate ::
    "time \<Rightarrow> string \<Rightarrow> string \<Rightarrow> EventOutcome \<Rightarrow> goerr option \<Rightarrow> duration \<Rightarrow> SecurityMetrics \<Rightarrow> (log_level \<times> string) \<times> SecurityMetrics" where
  "LogVolumeCreate now volumeID volumeName outcome err d =
     LogOperation now (operationConfigs VolumeCreate) outcome [WithVolume volumeID volumeName, WithDuration d, WithError err]"

definition LogVolumeDelete ::
    "time \<Rightarrow> string \<Rightarrow> string \<Rightarrow> EventOutcome \<Rightarrow> goerr option \<Rightarrow> duration \<Rightarrow> SecurityMetrics \<Rightarrow> (log_level \<times> string) \<times> SecurityMetrics" where
  "LogVolumeDelete now volumeID volumeName outcome err d =
     LogOperation now (operationConfigs VolumeDelete) outcome [WithVolume volumeID volumeName, WithDuration d, WithError err]"

definition LogVolumeStage ::
    "time \<Rightarrow> string \<Rightarrow> string \<Rightarrow> string \<Rightarrow> string \<Rightarrow> EventOutcome \<Rightarrow> goerr option \<Rightarrow> duration \<Rightarrow> SecurityMetrics
     \<Rightarrow> (log_level \<times> string) \<times> SecurityMetrics" where
  "LogVolumeStage now volumeID nodeID nqn targetIP outcome err d =
     LogOperation now (operationConfigs VolumeStage) outcome
       [WithVolume volumeID [], WithNode nodeID, WithTarget targetIP nqn, WithDuration d, WithError err]"

definition LogVolumeUnstage ::
    "time \<Rightarrow> string \<Rightarrow> string \<Rightarrow> string \<Rightarrow> EventOutcome \<Rightarrow> goerr option \<Rightarrow> duration \<Rightarrow> SecurityMetrics
     \<Rightarrow> (log_level \<times> string) \<times> SecurityMetrics" where
  "LogVolumeUnstage now volumeID nodeID nqn outcome err d =
     LogOperation now (operationConfigs VolumeUnstage) outcome
       [WithVolume volumeID [], WithNode nodeID, WithTarget [] nqn, WithDuration d, WithError err]"

definition LogVolumePublish ::
    "time \<Rightarrow> string \<Rightarrow> string \<Rightarrow> string \<Rightarrow> EventOutcome \<Rightarrow> goerr option \<Rightarrow> duration \<Rightarrow> SecurityMetrics
     \<Rightarrow> (log_level \<times> string) \<times> SecurityMetrics" where
  "LogVolumePublish now volumeID nodeID mountPath outcome err d =
     LogOperation now (operationConfigs VolumePublish) outcome
       [WithVolume volumeID [], WithNode nodeID, WithMountPath mountPath, WithDuration d, WithError err]"

definition LogVolumeUnpublish ::
    "time \<Rightarrow> string \<Rightarrow> string \<Rightarrow> string \<Rightarrow> EventOutcome \<Rightarrow> goerr option \<Rightarrow> duration \<Rightarrow> SecurityMetrics
     \<Rightarrow> (log_level \<times> string) \<times> SecurityMetrics" where
  "LogVolumeUnpublish now volumeID nodeID mountPath outcome err d =
     LogOperation now (operationConfigs VolumeUnpublish) outcome
       [WithVolume volumeID [], WithNode nodeID, WithMountPath mountPath, WithDuration d, WithError err]"

definition LogNVMEConnect ::
    "time \<Rightarrow> string \<Rightarrow> string \<Rightarrow> string \<Rightarrow> EventOutcome \<Rightarrow> goerr option \<Rightarrow> SecurityMetrics \<Rightarrow> (log_level \<times> string) \<times> SecurityMetrics" where
  "LogNVMEConnect now nqn address nodeID outcome err =
     LogOperation now (operationConfigs NVMEConnect) outcome [WithTarget address nqn, WithNode nodeID, WithError err]"

definition LogNVMEDisconnect ::
    "time \<Rightarrow> string \<Rightarrow> string \<Rightarrow> goerr option \<Rightarrow> SecurityMetrics \<Rightarrow> (log_level \<times> string) \<times> SecurityMetrics" where
  "LogNVMEDisconnect now nqn nodeID err m =
     (let outcome = (if err = None then OutcomeSuccess else OutcomeFailure);
          event = WithOutcome outcome (WithIdentity [] [] nodeID (WithTarget [] nqn
            (NewSecurityEvent now EventNVMEDisconnect CategoryNetworkAccess SeverityInfo ''NVMe disconnected'')))
      in LogEvent (WithError err event) m)"

definition LogSSHConnectionAttempt :: "time \<Rightarrow> string \<Rightarrow> string \<Rightarrow> SecurityMetrics \<Rightarrow> (log_level \<times> string) \<times> SecurityMetrics" where
  "LogSSHConnectionAttempt now username address =
     LogEvent (WithTarget address [] (WithIdentity username [] []
       (NewSecurityEvent now EventSSHConnectionAttempt CategoryAuthentication SeverityInfo ''SSH connection attempt'')))"

definition LogSSHConnectionSuccess :: "time \<Rightarrow> string \<Rightarrow> string \<Rightarrow> SecurityMetrics \<Rightarrow> (log_level \<times> string) \<times> SecurityMetrics" where
  "LogSSHConnectionSuccess now username address =
     LogEvent (WithOutcome OutcomeSuccess (WithTarget address [] (WithIdentity username [] []
       (NewSecurityEvent now EventSSHConnectionSuccess CategoryAuthentication SeverityInfo ''SSH connection established''))))"

definition LogSSHConnectionFailure ::
    "time \<Rightarrow> string \<Rightarrow> string \<Rightarrow> goerr option \<Rightarrow> SecurityMetrics \<Rightarrow> (log_level \<times> string) \<times> SecurityMetrics" where
  "LogSSHConnectionFailure now username address err =
     LogEvent (WithError err (WithOutcome OutcomeFailure (WithTarget address [] (WithIdentity username [] []
       (NewSecurityEvent now EventSSHConnectionFailure CategoryAuthentication SeverityError ''SSH connection failed'')))))"

definition LogSSHHostKeyVerified :: "time \<Rightarrow> string \<Rightarrow> string \<Rightarrow> SecurityMetrics \<Rightarrow> (log_level \<times> string) \<times> SecurityMetrics" where
  "LogSSHHostKeyVerified now address fingerprint =
     LogEvent (WithOutcome OutcomeSuccess (WithDetail ''fingerprint'' fingerprint (WithTarget address []
       (NewSecurityEvent now EventSSHHostKeyVerified CategoryAuthentication SeverityInfo ''SSH host key verified''))))"

definition LogSSHHostKeyMismatch ::
    "time \<Rightarrow> string \<Rightarrow> string \<Rightarrow> string \<Rightarrow> SecurityMetrics \<Rightarrow> (log_level \<times> string) \<times> SecurityMetrics" where
  "LogSSHHostKeyMismatch now address expectedFingerprint actualFingerprint =
     LogEvent (WithOutcome OutcomeDenied (WithDetail ''actual_fingerprint'' actualFingerprint
       (WithDetail ''expected_fingerprint'' expectedFingerprint (WithTarget address []
         (NewSecurityEvent now EventSSHHostKeyMismatch CategorySecurityViolation SeverityCritical
           ''SSH host key verification failed - possible MITM attack'')))))"

definition LogSecurityViolation ::
    "time \<Rightarrow> EventType \<Rightarrow> string \<Rightarrow> (string \<times> string) list \<Rightarrow> SecurityMetrics \<Rightarrow> (log_level \<times> string) \<times> SecurityMetrics" where
  "LogSecurityViolation now eventType message details =
     LogEvent (foldl (\<lambda>e (key, value). WithDetail key value e)
       (WithOutcome OutcomeDenied (NewSecurityEvent now eventType CategorySecurityViolation SeverityCritical message)) details)"

definition LogValidationFailure ::
    "time \<Rightarrow> string \<Rightarrow> string \<Rightarrow> string \<Rightarrow> SecurityMetrics \<Rightarrow> (log_level \<times> string) \<times> SecurityMetrics" where
  "LogValidationFailure now parameter value reason =
     LogSecurityViolation now EventValidationFailure ''Validation failure''
       [(''parameter'', parameter), (''value'', value), (''reason'', reason)]"

subsection \<open>Properties\<close>

text \<open>Which field counts which type.\<close>

fun counter_of :: "EventType \<Rightarrow> (SecurityMetrics \<Rightarrow> int) option" where
  "counter_of EventSSHConnectionAttempt = Some sm_SSHConnectionAttempts"
| "counter_of EventSSHConnectionSuccess = Some sm_SSHConnectionSuccesses"
| "counter_of EventSSHConnectionFailure = Some sm_SSHConnectionFailures"
| "counter_of EventSSHHostKeyMismatch = Some sm_SSHHostKeyMismatches"
| "counter_of EventSSHAuthFailure = Some sm_SSHAuthFailures"
| "counter_of EventVolumeCreateRequest = Some sm_VolumeCreateRequests"
| "counter_of EventVolumeCreateSuccess = Some sm_VolumeCreateSuccesses"
| "counter_of EventVolumeCreateFailure = Some sm_VolumeCreateFailures"
| "counter_of EventVolumeDeleteRequest = Some sm_VolumeDeleteRequests"
| "counter_of EventVolumeDeleteSuccess = Some sm_VolumeDeleteSuccesses"
| "counter_of EventVolumeDeleteFailure = Some sm_VolumeDeleteFailures"
| "counter_of EventVolumeStageRequest = Some sm_VolumeStageRequests"
| "counter_of EventVolumeStageSuccess = Some sm_VolumeStageSuccesses"
| "counter_of EventVolumeStageFailure = Some sm_VolumeStageFailures"
| "counter_of EventVolumeUnstageRequest = Some sm_VolumeUnstageRequests"
| "counter_of EventVolumeUnstageSuccess = Some sm_VolumeUnstageSuccesses"
| "counter_of EventVolumeUnstageFailure = Some sm_VolumeUnstageFailures"
| "counter_of EventVolumePublishRequest = Some sm_VolumePublishRequests"
| "counter_of EventVolumePublishSuccess = Some sm_VolumePublishSuccesses"
| "counter_of EventVolumePublishFailure = Some sm_VolumePublishFailures"
| "counter_of EventVolumeUnpublishRequest = Some sm_VolumeUnpublishRequests"
| "counter_of EventVolumeUnpublishSuccess = Some sm_VolumeUnpublishSuccesses"
| "counter_of EventVolumeUnpublishFailure = Some sm_VolumeUnpublishFailures"
| "counter_of EventNVMEConnectAttempt = Some sm_NVMEConnectAttempts"
| "counter_of EventNVMEConnectSuccess = Some sm_NVMEConnectSuccesses"
| "counter_of EventNVMEConnectFailure = Some sm_NVMEConnectFailures"
| "counter_of EventNVMEDisconnect = Some sm_NVMEDisconnects"
| "counter_of EventMountAttempt = Some sm_MountAttempts"
| "counter_of EventMountSuccess = Some sm_MountSuccesses"
| "counter_of EventMountFailure = Some sm_MountFailures"
| "counter_of EventUnmountAttempt = Some sm_UnmountAttempts"
| "counter_of EventUnmountSuccess = Some sm_UnmountSuccesses"
| "counter_of EventUnmountFailure = Some sm_UnmountFailures"
| "counter_of EventValidationFailure = Some sm_ValidationFailures"
| "counter_of EventInvalidParameter = Some sm_InvalidParameters"
| "counter_of EventCommandInjectionAttempt = Some sm_CommandInjectionAttempts"
| "counter_of EventPathTraversalAttempt = Some sm_PathTraversalAttempts"
| "counter_of EventRateLimitExceeded = Some sm_RateLimitExceeded"
| "counter_of EventCircuitBreakerOpen = Some sm_CircuitBreakerOpens"
| "counter_of _ = None"

text \<open>The requests, the successful volume operations and the violations.\<close>

definition request_type :: "EventType \<Rightarrow> bool" where
  "request_type t \<longleftrightarrow> t \<in> {EventVolumeCreateRequest, EventVolumeDeleteRequest, EventVolumeStageRequest, EventVolumeUnstageRequest,
     EventVolumePublishRequest, EventVolumeUnpublishRequest}"

definition success_type :: "EventType \<Rightarrow> bool" where
  "success_type t \<longleftrightarrow> t \<in> {EventVolumeCreateSuccess, EventVolumeDeleteSuccess, EventVolumeStageSuccess, EventVolumeUnstageSuccess,
     EventVolumePublishSuccess, EventVolumeUnpublishSuccess}"

definition violation_type :: "EventType \<Rightarrow> bool" where
  "violation_type t \<longleftrightarrow> t \<in> {EventSSHHostKeyMismatch, EventValidationFailure, EventInvalidParameter, EventCommandInjectionAttempt,
     EventPathTraversalAttempt, EventRateLimitExceeded, EventCircuitBreakerOpen}"

definition timed :: "SecurityEvent \<Rightarrow> bool" where
  "timed e \<longleftrightarrow> success_type (se_EventType e) \<and> se_Duration e > 0"

text \<open>The number of events of a kind, and the time of the latest one, zero if there is none.\<close>

definition number :: "(SecurityEvent \<Rightarrow> bool) \<Rightarrow> SecurityEvent list \<Rightarrow> int" where
  "number P es = int (length (filter P es))"

definition latest :: "(EventType \<Rightarrow> bool) \<Rightarrow> SecurityEvent list \<Rightarrow> time" where
  "latest P es =
     (let fs = filter (\<lambda>e. P (se_EventType e)) es in if fs = [] then zero_time else se_Timestamp (last fs))"

lemma number_snoc: "number P (es @ [e]) = number P es + (if P e then 1 else 0)"
  by (simp add: number_def)

lemma latest_snoc: "latest P (es @ [e]) = (if P (se_EventType e) then se_Timestamp e else latest P es)"
  by (simp add: latest_def Let_def)

lemma number_bounds: "0 \<le> number P es" "number P es \<le> int (length es)"
  by (simp_all add: number_def)

lemma wrap64_nonneg: "0 \<le> x \<Longrightarrow> x \<le> max_int64 \<Longrightarrow> wrap64 x = x"
  by (simp add: wrap64_def max_int64_def)

lemma counter_severity: "counter_of t = Some f \<Longrightarrow> f (record_severity e m) = f m"
  by (cases t) (auto simp: record_severity_def split: EventSeverity.split)

lemma counter_duration: "counter_of t = Some f \<Longrightarrow> f (recordOperationDuration d m) = f m"
  by (cases t) (auto simp: recordOperationDuration_def Let_def)

lemma counter_type: "counter_of t = Some f \<Longrightarrow> f (record_type e m) = (if se_EventType e = t then wrap64 (f m + 1) else f m)"
  by (cases "se_EventType e"; cases t; simp add: record_type_def recordOperationDuration_def Let_def)

lemma record_type_keeps:
  "sm_InfoEvents (record_type e m) = sm_InfoEvents m" "sm_WarningEvents (record_type e m) = sm_WarningEvents m"
  "sm_ErrorEvents (record_type e m) = sm_ErrorEvents m" "sm_CriticalEvents (record_type e m) = sm_CriticalEvents m"
  by (cases "se_EventType e"; simp add: record_type_def recordOperationDuration_def Let_def)+

lemma record_type_last:
  "sm_LastSSHConnection (record_type e m) = (if se_EventType e = EventSSHConnectionAttempt then se_Timestamp e else sm_LastSSHConnection m)"
  "sm_LastVolumeOperation (record_type e m) = (if request_type (se_EventType e) then se_Timestamp e else sm_LastVolumeOperation m)"
  "sm_LastSecurityViolation (record_type e m) = (if violation_type (se_EventType e) then se_Timestamp e else sm_LastSecurityViolation m)"
  by (cases "se_EventType e"; simp add: record_type_def recordOperationDuration_def Let_def request_type_def violation_type_def)+

lemma record_type_times:
  "sm_totalOperationTime (record_type e m) =
     (if timed e then wrap64 (sm_totalOperationTime m + se_Duration e) else sm_totalOperationTime m)"
  "sm_totalOperations (record_type e m) = (if timed e then wrap64 (sm_totalOperations m + 1) else sm_totalOperations m)"
  "sm_AverageOperationDuration (record_type e m) =
     (if timed e \<and> wrap64 (sm_totalOperations m + 1) > 0
      then wrap64 (sm_totalOperationTime m + se_Duration e) sdiv wrap64 (sm_totalOperations m + 1) else sm_AverageOperationDuration m)"
  by (cases "se_EventType e"; simp add: record_type_def recordOperationDuration_def Let_def timed_def success_type_def)+

lemma record_severity_times:
  "sm_LastSSHConnection (record_severity e m) = sm_LastSSHConnection m" "sm_LastVolumeOperation (record_severity e m) = sm_LastVolumeOperation m"
  "sm_LastSecurityViolation (record_severity e m) = sm_LastSecurityViolation m"
  "sm_totalOperationTime (record_severity e m) = sm_totalOperationTime m" "sm_totalOperations (record_severity e m) = sm_totalOperations m"
  "sm_AverageOperationDuration (record_severity e m) = sm_AverageOperationDuration m"
  by (simp_all add: record_severity_def split: EventSeverity.split)

lemma record_severities:
  "sm_InfoEvents (record_severity e m) = (if se_Severity e = SeverityInfo then wrap64 (sm_InfoEvents m + 1) else sm_InfoEvents m)"
  "sm_WarningEvents (record_severity e m) = (if se_Severity e = SeverityWarning then wrap64 (sm_WarningEvents m + 1) else sm_WarningEvents m)"
  "sm_ErrorEvents (record_severity e m) = (if se_Severity e = SeverityError then wrap64 (sm_ErrorEvents m + 1) else sm_ErrorEvents m)"
  "sm_CriticalEvents (record_severity e m) = (if se_Severity e = SeverityCritical then wrap64 (sm_CriticalEvents m + 1) else sm_CriticalEvents m)"
  by (simp_all add: record_severity_def split: EventSeverity.split)

lemmas record_fields = RecordEvent_def record_type_keeps record_type_last record_type_times record_severity_times record_severities

lemma Snapshot_copies: "sec_Snapshot m = m"
  by (simp add: sec_Snapshot_def)

lemma Reset_clears: "sec_Reset m = no_metrics"
  by (simp add: sec_Reset_def no_metrics_def)

lemma no_counter: "counter_of t = Some f \<Longrightarrow> f no_metrics = 0"
  by (cases t) (auto simp: no_metrics_def)

lemma timed_sum_nonneg: "0 \<le> sum_list (map se_Duration (filter timed es))"
  by (rule sum_list_nonneg) (auto simp: timed_def)

text \<open>The metrics after a sequence of events.\<close>

definition record_all :: "SecurityEvent list \<Rightarrow> SecurityMetrics \<Rightarrow> SecurityMetrics" where
  "record_all es m = foldl (\<lambda>m e. RecordEvent e m) m es"

lemma record_all_snoc: "record_all (es @ [e]) m = RecordEvent e (record_all es m)"
  by (simp add: record_all_def)

lemma record_all_Nil: "record_all [] m = m"
  by (simp add: record_all_def)

text \<open>What the fields are after events whose number fits.\<close>

lemma up_number:
  assumes "int (length es) + 1 \<le> max_int64"
  shows "wrap64 (number P es + 1) = number P es + 1"
  using assms number_bounds [of P es] by (intro wrap64_nonneg) linarith+

lemma recorded_counts:
  assumes "int (length es) \<le> max_int64"
  shows "counter_of t = Some f \<Longrightarrow> f (record_all es no_metrics) = number (\<lambda>e. se_EventType e = t) es"
    "sm_InfoEvents (record_all es no_metrics) = number (\<lambda>e. se_Severity e = SeverityInfo) es"
    "sm_WarningEvents (record_all es no_metrics) = number (\<lambda>e. se_Severity e = SeverityWarning) es"
    "sm_ErrorEvents (record_all es no_metrics) = number (\<lambda>e. se_Severity e = SeverityError) es"
    "sm_CriticalEvents (record_all es no_metrics) = number (\<lambda>e. se_Severity e = SeverityCritical) es"
  using assms
proof (induction es rule: rev_induct)
  case Nil
  { case 1
    then show ?case using no_counter by (simp add: record_all_Nil number_def)
  next
    case 2
    then show ?case by (simp add: record_all_Nil number_def no_metrics_def)
  next
    case 3
    then show ?case by (simp add: record_all_Nil number_def no_metrics_def)
  next
    case 4
    then show ?case by (simp add: record_all_Nil number_def no_metrics_def)
  next
    case 5
    then show ?case by (simp add: record_all_Nil number_def no_metrics_def)
  }
next
  case (snoc e es)
  { case 1
    with snoc.IH(1) show ?case
      by (simp add: record_all_snoc RecordEvent_def counter_type [OF 1(1)] counter_severity [OF 1(1)] number_snoc up_number)
  next
    case 2
    with snoc.IH(2) show ?case by (simp add: record_all_snoc record_fields number_snoc up_number)
  next
    case 3
    with snoc.IH(3) show ?case by (simp add: record_all_snoc record_fields number_snoc up_number)
  next
    case 4
    with snoc.IH(4) show ?case by (simp add: record_all_snoc record_fields number_snoc up_number)
  next
    case 5
    with snoc.IH(5) show ?case by (simp add: record_all_snoc record_fields number_snoc up_number)
  }
qed

lemma recorded_last:
  "sm_LastSSHConnection (record_all es no_metrics) = latest (\<lambda>t. t = EventSSHConnectionAttempt) es"
  "sm_LastVolumeOperation (record_all es no_metrics) = latest request_type es"
  "sm_LastSecurityViolation (record_all es no_metrics) = latest violation_type es"
  by (induction es rule: rev_induct)
    (simp_all add: record_all_Nil record_all_snoc record_fields latest_snoc, simp_all add: latest_def no_metrics_def)

lemma recorded_average:
  assumes "int (length es) \<le> max_int64" "sum_list (map se_Duration (filter timed es)) \<le> max_int64"
  shows "sm_totalOperations (record_all es no_metrics) = number timed es \<and>
    sm_totalOperationTime (record_all es no_metrics) = sum_list (map se_Duration (filter timed es)) \<and>
    sm_AverageOperationDuration (record_all es no_metrics) =
      (if filter timed es = [] then 0 else sum_list (map se_Duration (filter timed es)) div number timed es)"
  using assms
proof (induction es rule: rev_induct)
  case Nil
  then show ?case by (simp add: record_all_Nil number_def no_metrics_def)
next
  case (snoc e es)
  let ?sum = "sum_list (map se_Duration (filter timed es))"
  have fit: "int (length es) + 1 \<le> max_int64" "?sum + (if timed e then se_Duration e else 0) \<le> max_int64"
    using snoc.prems by (auto split: if_splits)
  have pos: "0 < se_Duration e" if "timed e" using that by (simp add: timed_def)
  then have small: "?sum \<le> max_int64" using fit(2) by (cases "timed e") auto
  have IH: "sm_totalOperations (record_all es no_metrics) = number timed es" "sm_totalOperationTime (record_all es no_metrics) = ?sum"
    "sm_AverageOperationDuration (record_all es no_metrics) = (if filter timed es = [] then 0 else ?sum div number timed es)"
    using snoc.IH fit(1) small by auto
  have time: "wrap64 (?sum + se_Duration e) = ?sum + se_Duration e" if "timed e"
    using fit(2) that pos timed_sum_nonneg [of es] by (intro wrap64_nonneg) auto
  have "0 < number timed es + 1" using number_bounds(1) [of timed es] by simp
  moreover have "(?sum + se_Duration e) sdiv (number timed es + 1) = (?sum + se_Duration e) div (number timed es + 1)" if "timed e"
    using pos [OF that] timed_sum_nonneg [of es] number_bounds(1) [of timed es] by (simp add: signed_divide_int_def)
  ultimately show ?case using time
    by (simp add: record_all_snoc record_fields IH number_snoc up_number [OF fit(1)])
qed

text \<open>C40. The metrics agree with the events. After a reset and any sequence of events whose number, and the sum of whose durations of
  successful volume operations, fit \<^verbatim>\<open>int64\<close>, a snapshot shows in the counter field of an event type (\<open>counter_of\<close>) the number of its events,
  in the field of each of the four severities the number of events with it, in the three time fields the time of the latest SSH
  connection attempt, volume request and security violation, and as average the mean of the positive durations of successful volume
  operations, rounded down.\<close>

theorem security_metrics_account:
  assumes "int (length es) \<le> max_int64" and "sum_list (map se_Duration (filter timed es)) \<le> max_int64"
    and "m = sec_Snapshot (record_all es (sec_Reset old))"
  shows "(\<forall>t f. counter_of t = Some f \<longrightarrow> f m = number (\<lambda>e. se_EventType e = t) es) \<and>
    sm_InfoEvents m = number (\<lambda>e. se_Severity e = SeverityInfo) es \<and> sm_WarningEvents m = number (\<lambda>e. se_Severity e = SeverityWarning) es \<and>
    sm_ErrorEvents m = number (\<lambda>e. se_Severity e = SeverityError) es \<and> sm_CriticalEvents m = number (\<lambda>e. se_Severity e = SeverityCritical) es \<and>
    sm_LastSSHConnection m = latest (\<lambda>t. t = EventSSHConnectionAttempt) es \<and> sm_LastVolumeOperation m = latest request_type es \<and>
    sm_LastSecurityViolation m = latest violation_type es \<and>
    sm_AverageOperationDuration m =
      (if filter timed es = [] then 0 else sum_list (map se_Duration (filter timed es)) div number timed es)"
  unfolding assms(3) Snapshot_copies Reset_clears
  using recorded_counts [OF assms(1)] recorded_average [OF assms(1,2)] by (simp add: recorded_last)

theorem security_metrics_account_witness:
  "sm_VolumeStageSuccesses (sec_Snapshot (record_all [operation_event 5 (operationConfigs VolumeStage) OutcomeSuccess [WithDuration 7],
       operation_event 6 (operationConfigs VolumeStage) OutcomeFailure []] (sec_Reset no_metrics))) = 1 \<and>
   sm_AverageOperationDuration (sec_Snapshot (record_all [operation_event 5 (operationConfigs VolumeStage) OutcomeSuccess [WithDuration 7],
       operation_event 6 (operationConfigs VolumeStage) OutcomeFailure []] (sec_Reset no_metrics))) = 7"
proof -
  let ?a = "operation_event 5 (operationConfigs VolumeStage) OutcomeSuccess [WithDuration 7]"
  let ?b = "operation_event 6 (operationConfigs VolumeStage) OutcomeFailure []"
  have e: "se_EventType ?a = EventVolumeStageSuccess" "se_Duration ?a = 7" "se_EventType ?b = EventVolumeStageFailure" "se_Duration ?b = 0"
    by (simp_all add: operation_event_def WithDuration_def NewSecurityEvent_def)
  then have t: "filter timed [?a, ?b] = [?a]" by (simp add: timed_def success_type_def)
  have "int (length [?a, ?b]) \<le> max_int64" "sum_list (map se_Duration (filter timed [?a, ?b])) \<le> max_int64"
    using e by (simp_all add: t max_int64_def)
  note m = security_metrics_account [OF this refl, of no_metrics]
  have "sm_VolumeStageSuccesses (sec_Snapshot (record_all [?a, ?b] (sec_Reset no_metrics))) = number (\<lambda>e. se_EventType e = EventVolumeStageSuccess) [?a, ?b]"
    using m by simp
  moreover have "sm_AverageOperationDuration (sec_Snapshot (record_all [?a, ?b] (sec_Reset no_metrics))) = 7"
    using m e unfolding t number_def by simp
  ultimately show ?thesis using e by (simp add: number_def)
qed

text \<open>The fields of a log line are not quoted: an event whose volume name ends in the text of another field gives the same line
  as an event that has this field. The name of a volume to create is logged before anything has looked at it.\<close>

lemma log_line_forged:
  assumes "name \<noteq> []" "nqn \<noteq> []"
  shows "formatLogMessage (WithTarget ip [] (WithVolume volumeID (name @ '' nqn='' @ nqn) e)) =
    formatLogMessage (WithTarget ip nqn (WithVolume volumeID name e))"
  using assms by (simp add: formatLogMessage_def WithTarget_def WithVolume_def log_field_def)

text \<open>A failed disconnection is logged as a piece of information, not as an error.\<close>

lemma failed_disconnect_is_info: "fst (fst (LogNVMEDisconnect now nqn nodeID (Some err) m)) = LogInfo"
  by (simp add: LogNVMEDisconnect_def LogEvent_def WithError_def WithOutcome_def WithIdentity_def WithTarget_def NewSecurityEvent_def)

text \<open>Every logged violation is critical and denied, is counted as critical, and moves the time of the last violation.\<close>

lemma violation_recorded:
  assumes "violation_type eventType" "sm_CriticalEvents m < max_int64" "0 \<le> sm_CriticalEvents m"
  shows "sm_CriticalEvents (snd (LogSecurityViolation now eventType message details m)) = sm_CriticalEvents m + 1"
    "sm_LastSecurityViolation (snd (LogSecurityViolation now eventType message details m)) = now"
    "fst (fst (LogSecurityViolation now eventType message details m)) = LogError"
proof -
  define e where "e = foldl (\<lambda>e (key, value). WithDetail key value e)
       (WithOutcome OutcomeDenied (NewSecurityEvent now eventType CategorySecurityViolation SeverityCritical message)) details"
  have "se_EventType (foldl (\<lambda>e (key, value). WithDetail key value e) x details) = se_EventType x \<and>
      se_Severity (foldl (\<lambda>e (key, value). WithDetail key value e) x details) = se_Severity x \<and>
      se_Timestamp (foldl (\<lambda>e (key, value). WithDetail key value e) x details) = se_Timestamp x" for x
    by (induction details arbitrary: x) (auto simp: WithDetail_def)
  then have e: "se_EventType e = eventType" "se_Severity e = SeverityCritical" "se_Timestamp e = now"
    by (simp_all add: e_def WithOutcome_def NewSecurityEvent_def)
  have l: "LogSecurityViolation now eventType message details m = LogEvent e m" by (simp add: LogSecurityViolation_def e_def)
  show "sm_CriticalEvents (snd (LogSecurityViolation now eventType message details m)) = sm_CriticalEvents m + 1"
    using assms(2,3) by (simp add: l LogEvent_def record_fields e wrap64_nonneg)
  show "sm_LastSecurityViolation (snd (LogSecurityViolation now eventType message details m)) = now"
    using assms(1) by (simp add: l LogEvent_def record_fields e)
  show "fst (fst (LogSecurityViolation now eventType message details m)) = LogError" by (simp add: l LogEvent_def e)
qed

end
