(* ===== verification/Sanitize.thy ===== *)
theory Sanitize
  imports GoRegex Host Security
begin

text \<open>
  Errors for users: \<^verbatim>\<open>pkg/utils/errors.go\<close>. A Go error is a value of type \<open>gerror\<close>: an error of the rest of the driver, an error
  wrapped by \<^verbatim>\<open>fmt.Errorf\<close> with \<^verbatim>\<open>%w\<close>, or a \<^verbatim>\<open>SanitizedError\<close>, whose original error every constructor sets. The
  context of a sanitised error is an association list without duplicate keys. Lines for the log are returned with their level.
  The message of \<^verbatim>\<open>SanitizeErrorf\<close> and \<^verbatim>\<open>WrapError\<close> is an argument with its format already applied. The order in which
  Go ranges over a map is the argument \<open>range_order\<close>.
\<close>

subsection \<open>Replacing by a function, and package strings\<close>

text \<open>
  \<^verbatim>\<open>ReplaceAllStringFunc\<close>: each match is replaced by what the function returns for it. In the second form the function also
  writes a variable of its environment.
\<close>

fun rx_subst :: "nat \<Rightarrow> rx \<Rightarrow> (string \<Rightarrow> string) \<Rightarrow> char option \<Rightarrow> string \<Rightarrow> string" where
  "rx_subst 0 r f p s = s"
| "rx_subst (Suc n) r f p s =
     (case rx_find r p s of
        None \<Rightarrow> s
      | Some (pre, p1, s1, cs) \<Rightarrow>
          pre @ f (take (length s - length pre - length s1) (drop (length pre) s)) @ rx_subst n r f p1 s1)"

definition ReplaceAllStringFunc :: "rx \<Rightarrow> string \<Rightarrow> (string \<Rightarrow> string) \<Rightarrow> string" where
  "ReplaceAllStringFunc r s f = rx_subst (length s) r f None s"

fun rx_subst_st :: "nat \<Rightarrow> rx \<Rightarrow> (string \<Rightarrow> 'a \<Rightarrow> string \<times> 'a) \<Rightarrow> char option \<Rightarrow> string \<Rightarrow> 'a \<Rightarrow> string \<times> 'a" where
  "rx_subst_st 0 r f p s x = (s, x)"
| "rx_subst_st (Suc n) r f p s x =
     (case rx_find r p s of
        None \<Rightarrow> (s, x)
      | Some (pre, p1, s1, cs) \<Rightarrow>
          (let (w, x) = f (take (length s - length pre - length s1) (drop (length pre) s)) x;
               (t, x) = rx_subst_st n r f p1 s1 x
           in (pre @ w @ t, x)))"

text \<open>\<^verbatim>\<open>strings.ReplaceAll\<close> for a pattern that is not empty.\<close>

function ReplaceAll :: "string \<Rightarrow> string \<Rightarrow> string \<Rightarrow> string" where
  "ReplaceAll old new [] = []"
| "ReplaceAll old new (c # cs) =
     (if old \<noteq> [] \<and> HasPrefix (c # cs) old then new @ ReplaceAll old new (drop (length old) (c # cs))
      else c # ReplaceAll old new cs)"
  by pat_completeness auto
termination
  by (relation "measure (\<lambda>(old, new, s). length s)") auto

subsection \<open>The patterns\<close>

definition digit_rx :: rx where
  "digit_rx = RCls is_digit"

definition octet_rx :: rx where
  "octet_rx = RSeq digit_rx (rx_upto 2 digit_rx)"

definition dotted_quad_rx :: rx where
  "dotted_quad_rx = rx_seq [octet_rx, rx_lit ''.'', octet_rx, rx_lit ''.'', octet_rx, rx_lit ''.'', octet_rx]"

definition ipv4Pattern :: rx where
  "ipv4Pattern = RSeq RWordB (RSeq dotted_quad_rx RWordB)"

definition is_hex :: "char \<Rightarrow> bool" where
  "is_hex c \<longleftrightarrow> is_digit c \<or> c \<in> set ''abcdef'' \<or> c \<in> set ''ABCDEF''"

definition hex_group_rx :: rx where
  "hex_group_rx = RSeq (RCls is_hex) (rx_upto 3 (RCls is_hex))"

definition ipv6Pattern :: rx where
  "ipv6Pattern = RSeq RWordB (RSeq (RSeq (rx_rep 7 (RSeq hex_group_rx (rx_lit '':''))) hex_group_rx) RWordB)"

definition is_alnum :: "char \<Rightarrow> bool" where
  "is_alnum c \<longleftrightarrow> is_digit c \<or> is_upper c \<or> is_lower c"

definition first_component :: "char \<Rightarrow> bool" where
  "first_component c \<longleftrightarrow> is_alnum c \<or> c \<in> set ''_-''"

definition path_component :: "char \<Rightarrow> bool" where
  "path_component c \<longleftrightarrow> is_alnum c \<or> c \<in> set ''_.-''"

definition unixPathPattern :: rx where
  "unixPathPattern = RSeq (rx_lit ''/'')
     (RSeq (rx_plus (RCls first_component)) (RStar (RSeq (rx_lit ''/'') (rx_plus (RCls path_component)))))"

definition windowsPathPattern :: rx where
  "windowsPathPattern = RSeq (RCls is_upper) (RSeq (rx_lit [CHR '':'', CHR 0x5C])
     (rx_plus (RCls (\<lambda>c. is_word c \<or> c \<in> {CHR 0x5C, CHR ''-'', CHR ''.''}))))"

definition host_char :: "char \<Rightarrow> bool" where
  "host_char c \<longleftrightarrow> is_digit c \<or> is_lower c"

definition host_label_rx :: rx where
  "host_label_rx = RSeq (RCls host_char)
     (rx_opt (RGrp (RSeq (rx_upto 61 (RCls (\<lambda>c. host_char c \<or> c = CHR ''-''))) (RCls host_char))))"

definition top_level_rx :: rx where
  "top_level_rx = RGrp (foldr RAlt [rx_lit ''com'', rx_lit ''net'', rx_lit ''org'', rx_lit ''io'', rx_lit ''local''] (rx_lit ''lan''))"

definition hostnamePattern :: rx where
  "hostnamePattern = RSeq RWordB (RSeq
     (RSeq host_label_rx (RSeq (RStar (RGrp (RSeq (rx_lit ''.'') host_label_rx))) (RSeq (rx_lit ''.'') top_level_rx)))
     RWordB)"

definition base64_char :: "char \<Rightarrow> bool" where
  "base64_char c \<longleftrightarrow> is_alnum c \<or> c \<in> set ''+/=''"

definition fingerprintPattern :: rx where
  "fingerprintPattern = RSeq (rx_lit ''SHA256:'') (rx_plus (RCls base64_char))"

definition rest_of_line :: rx where
  "rest_of_line = RStar (RCls (\<lambda>c. c \<noteq> CHR 0x0A))"

definition stackTracePattern :: rx where
  "stackTracePattern = RAlt
     (RSeq (rx_lit [CHR 0x0A]) (RSeq (rx_plus (RCls rx_space)) (RSeq (rx_lit ''at'') (RSeq (rx_plus (RCls rx_space)) rest_of_line))))
     (RSeq (rx_lit ''goroutine'') (RSeq (rx_plus (RCls rx_space)) (RSeq (rx_plus digit_rx) rest_of_line)))"

definition relativePathPattern :: rx where
  "relativePathPattern = RSeq (rx_lit ''./'') (rx_plus (RCls path_component))"

subsection \<open>Sanitising a message\<close>

definition hide_unix :: "string \<Rightarrow> string" where
  "hide_unix path =
     (if HasPrefix path ''/dev/'' then path
      else if HasPrefix path ''/sys/'' then path
      else if HasPrefix path ''/proc/'' then path
      else let base = Base path in if base \<noteq> ''.'' \<and> base \<noteq> ''/'' then ''[PATH]/'' @ base else ''[PATH]'')"

definition hide_windows :: "string \<Rightarrow> string" where
  "hide_windows path =
     (let parts = Split (CHR 0x5C) path; base = last parts
      in if base \<noteq> [] \<and> base \<noteq> ''.'' then ''[PATH]'' @ CHR 0x5C # base else ''[PATH]'')"

definition keep_relative :: "string \<Rightarrow> (string \<times> string) list \<Rightarrow> string \<times> (string \<times> string) list" where
  "keep_relative path relativePaths =
     (let placeholder = ''__RELATIVE_PATH_'' @ Itoa (int (length relativePaths)) @ ''__''
      in (placeholder, relativePaths @ [(placeholder, path)]))"

definition sanitizePaths :: "((string \<times> string) list \<Rightarrow> (string \<times> string) list) \<Rightarrow> string \<Rightarrow> string" where
  "sanitizePaths range_order msg =
     (let (msg, relativePaths) = rx_subst_st (length msg) relativePathPattern keep_relative None msg [];
          msg = ReplaceAllStringFunc unixPathPattern msg hide_unix;
          msg = foldl (\<lambda>msg (placeholder, originalPath). ReplaceAll placeholder originalPath msg) msg (range_order relativePaths)
      in ReplaceAllStringFunc windowsPathPattern msg hide_windows)"

definition sanitizeHostnames :: "string \<Rightarrow> string" where
  "sanitizeHostnames msg = ReplaceAllString hostnamePattern msg ''[HOSTNAME]''"

definition SanitizeErrorMessage :: "((string \<times> string) list \<Rightarrow> (string \<times> string) list) \<Rightarrow> string \<Rightarrow> string" where
  "SanitizeErrorMessage range_order msg =
     (let msg = ReplaceAllString ipv4Pattern msg ''[IP-ADDRESS]'';
          msg = ReplaceAllString ipv6Pattern msg ''[IP-ADDRESS]'';
          msg = ReplaceAllString fingerprintPattern msg ''[FINGERPRINT]'';
          msg = sanitizePaths range_order msg;
          msg = sanitizeHostnames msg;
          msg = ReplaceAllString stackTracePattern msg [];
          msg = ReplaceAllString (rx_plus (RCls rx_space)) msg '' ''
      in TrimSpace msg)"

subsection \<open>Errors\<close>

datatype ErrorType = ErrorTypeInternal | ErrorTypeUser | ErrorTypeValidation

datatype gerror =
    Plain goerr
  | Wrapf string gerror
  | SanitizedError (originalErr: gerror) (sanitizedMsg: string) (errorType: ErrorType) (internalContext: "(string \<times> string) list")

fun error_text :: "gerror \<Rightarrow> string" where
  "error_text (Plain e) = err_msg e"
| "error_text (Wrapf pre e) = pre @ error_text e"
| "error_text (SanitizedError orig msg ty context) = msg"

text \<open>\<^verbatim>\<open>errors.As\<close> for \<^verbatim>\<open>*SanitizedError\<close>, and \<^verbatim>\<open>errors.Is\<close> for a sentinel.\<close>

fun as_sanitized :: "gerror \<Rightarrow> gerror option" where
  "as_sanitized (Plain e) = None"
| "as_sanitized (Wrapf pre e) = as_sanitized e"
| "as_sanitized (SanitizedError orig msg ty context) = Some (SanitizedError orig msg ty context)"

fun error_is :: "gerror \<Rightarrow> sentinel \<Rightarrow> bool" where
  "error_is (Plain e) s = errors_is e s"
| "error_is (Wrapf pre e) s = error_is e s"
| "error_is (SanitizedError orig msg ty context) s = error_is orig s"

text \<open>The verb \<^verbatim>\<open>%v\<close> for a map: the entries in the order of their keys.\<close>

definition fmt_map :: "(string \<times> string) list \<Rightarrow> string" where
  "fmt_map m = ''map['' @ Join (CHR '' '') (map (\<lambda>(k, v). k @ '':'' @ v) (sort_key fst m)) @ '']''"

definition sanitized_Log :: "gerror \<Rightarrow> log_level \<times> string" where
  "sanitized_Log e =
     (let msg = ''Error: '' @ sanitizedMsg e;
          msg = msg @ '' (internal: '' @ error_text (originalErr e) @ '')'';
          msg = (if internalContext e \<noteq> [] then msg @ '' context='' @ fmt_map (internalContext e) else msg)
      in case errorType e of
           ErrorTypeInternal \<Rightarrow> (LogError, ''[INTERNAL ERROR] '' @ msg)
         | ErrorTypeUser \<Rightarrow> (LogWarning, ''[USER ERROR] '' @ msg)
         | ErrorTypeValidation \<Rightarrow> (LogInfo, ''[VALIDATION ERROR] '' @ msg))"

definition NewInternalError :: "gerror option \<Rightarrow> string \<Rightarrow> gerror \<times> (log_level \<times> string)" where
  "NewInternalError err userMsg =
     (let err = (case err of None \<Rightarrow> Plain (GoErr ''internal error'') | Some err \<Rightarrow> err);
          sanitized = SanitizedError err userMsg ErrorTypeInternal []
      in (sanitized, sanitized_Log sanitized))"

definition NewUserError ::
    "((string \<times> string) list \<Rightarrow> (string \<times> string) list) \<Rightarrow> gerror option \<Rightarrow> string \<Rightarrow> gerror \<times> (log_level \<times> string)" where
  "NewUserError range_order err operation =
     (let err = (case err of None \<Rightarrow> Plain (GoErr ''operation failed'') | Some err \<Rightarrow> err);
          msg = SanitizeErrorMessage range_order (error_text err);
          sanitized = SanitizedError err (operation @ '' failed: '' @ msg) ErrorTypeUser [(''operation'', operation)]
      in (sanitized, sanitized_Log sanitized))"

definition NewValidationError :: "string \<Rightarrow> string \<Rightarrow> gerror" where
  "NewValidationError field reason =
     (let msg = ''validation failed for '' @ field @ '': '' @ reason
      in SanitizedError (Plain (GoErr msg)) msg ErrorTypeValidation [(''field'', field), (''reason'', reason)])"

definition WithContext :: "string \<Rightarrow> string \<Rightarrow> gerror \<Rightarrow> gerror" where
  "WithContext key value e =
     SanitizedError (originalErr e) (sanitizedMsg e) (errorType e) (AList.update key value (internalContext e))"

definition SanitizeError ::
    "((string \<times> string) list \<Rightarrow> (string \<times> string) list) \<Rightarrow> gerror option \<Rightarrow> gerror option" where
  "SanitizeError range_order err =
     (case err of
        None \<Rightarrow> None
      | Some err \<Rightarrow>
          if as_sanitized err \<noteq> None then Some err
          else Some (SanitizedError err (SanitizeErrorMessage range_order (error_text err)) ErrorTypeUser []))"

definition SanitizeErrorf :: "((string \<times> string) list \<Rightarrow> (string \<times> string) list) \<Rightarrow> string \<Rightarrow> gerror" where
  "SanitizeErrorf range_order msg =
     SanitizedError (Plain (GoErr msg)) (SanitizeErrorMessage range_order msg) ErrorTypeUser []"

definition WrapError ::
    "((string \<times> string) list \<Rightarrow> (string \<times> string) list) \<Rightarrow> gerror option \<Rightarrow> string \<Rightarrow> gerror option" where
  "WrapError range_order err contextMsg =
     (case err of
        None \<Rightarrow> None
      | Some err \<Rightarrow>
          (let orig = (case as_sanitized err of None \<Rightarrow> err | Some se \<Rightarrow> originalErr se);
               wrappedErr = Wrapf (contextMsg @ '': '') orig
           in Some (SanitizedError wrappedErr (SanitizeErrorMessage range_order (error_text wrappedErr)) ErrorTypeUser
                [(''context'', contextMsg)])))"

definition has_type :: "ErrorType \<Rightarrow> gerror \<Rightarrow> bool" where
  "has_type ty err = (case as_sanitized err of None \<Rightarrow> False | Some se \<Rightarrow> errorType se = ty)"

definition IsInternalError :: "gerror \<Rightarrow> bool" where
  "IsInternalError err = has_type ErrorTypeInternal err"

definition IsUserError :: "gerror \<Rightarrow> bool" where
  "IsUserError err = has_type ErrorTypeUser err"

definition IsValidationError :: "gerror \<Rightarrow> bool" where
  "IsValidationError err = has_type ErrorTypeValidation err"

definition LogErrorDetails :: "gerror option \<Rightarrow> (log_level \<times> string) option" where
  "LogErrorDetails err =
     (case err of
        None \<Rightarrow> None
      | Some err \<Rightarrow>
          (case as_sanitized err of
             Some se \<Rightarrow> Some (sanitized_Log se)
           | None \<Rightarrow> Some (LogError, ''Error: '' @ error_text err)))"

definition GetSanitizedMessage ::
    "((string \<times> string) list \<Rightarrow> (string \<times> string) list) \<Rightarrow> gerror option \<Rightarrow> string" where
  "GetSanitizedMessage range_order err =
     (case err of
        None \<Rightarrow> []
      | Some err \<Rightarrow>
          (case as_sanitized err of
             Some se \<Rightarrow> sanitizedMsg se
           | None \<Rightarrow> SanitizeErrorMessage range_order (error_text err)))"

text \<open>\<^verbatim>\<open>WrapNodeError\<close>, \<^verbatim>\<open>WrapDeviceError\<close> and \<^verbatim>\<open>WrapMountError\<close>.\<close>

definition wrap_sentinel :: "string \<Rightarrow> sentinel \<Rightarrow> string \<Rightarrow> string \<Rightarrow> goerr" where
  "wrap_sentinel kind s name details =
     (if details \<noteq> [] then GoWrap (kind @ '' '' @ name @ '': '' @ details @ '': '') (Sentinel s) []
      else GoWrap (kind @ '' '' @ name @ '': '') (Sentinel s) [])"

definition WrapNodeError :: "sentinel \<Rightarrow> string \<Rightarrow> string \<Rightarrow> goerr" where
  "WrapNodeError = wrap_sentinel ''node''"

definition WrapDeviceError :: "sentinel \<Rightarrow> string \<Rightarrow> string \<Rightarrow> goerr" where
  "WrapDeviceError = wrap_sentinel ''device''"

definition WrapMountError :: "sentinel \<Rightarrow> string \<Rightarrow> string \<Rightarrow> goerr" where
  "WrapMountError = wrap_sentinel ''mount''"

subsection \<open>Error chains\<close>

text \<open>Wrapping and sanitising keep the sentinel of the chain, however often they are applied.\<close>

lemma error_is_original: "as_sanitized e = Some se \<Longrightarrow> error_is (originalErr se) s \<longleftrightarrow> error_is e s"
  by (induction e) auto

lemma WrapError_is: "WrapError range_order (Some e) contextMsg = Some e' \<Longrightarrow> error_is e' s \<longleftrightarrow> error_is e s"
  by (auto simp: WrapError_def Let_def error_is_original split: option.splits)

lemma SanitizeError_is: "SanitizeError range_order (Some e) = Some e' \<Longrightarrow> error_is e' s \<longleftrightarrow> error_is e s"
  by (auto simp: SanitizeError_def split: if_splits)

lemma SanitizeError_idem: "SanitizeError range_order (SanitizeError range_order e) = SanitizeError range_order e"
  by (auto simp: SanitizeError_def split: option.splits)

lemma wrap_sentinel_is [simp]:
  "errors_is (WrapNodeError s n d) t \<longleftrightarrow> s = t" "errors_is (WrapDeviceError s n d) t \<longleftrightarrow> s = t"
  "errors_is (WrapMountError s n d) t \<longleftrightarrow> s = t"
  by (simp_all add: WrapNodeError_def WrapDeviceError_def WrapMountError_def wrap_sentinel_def)

text \<open>An error wrapped around a sanitised one is lost: \<^verbatim>\<open>WrapError\<close> goes back to the original error below it.\<close>

lemma WrapError_drops_context:
  "map_option originalErr (WrapError range_order (Some (Wrapf outer (SanitizedError orig msg ty context))) contextMsg) =
    Some (Wrapf (contextMsg @ '': '') orig)"
  by (simp add: WrapError_def Let_def)

end
