(* ===== verification/SanitizeProps.thy ===== *)
theory SanitizeProps
  imports Sanitize
begin

text \<open>
  What a sanitised message no longer contains. Locale \<open>leak\<close> describes a kind of text that must not survive: which texts, between
  which neighbours. Each pass over the message replaces its matches by a marker, possibly keeping the end of a match (\<open>tidy\<close>),
  and no such pass uncovers a text of the kind that was not there before (\<open>keeps\<close>); a pass whose pattern finds every text of the kind
  removes them all (\<open>removes\<close>).
\<close>

subsection \<open>Matches\<close>

lemma rx_ends_WordB [rx_simps]:
  "(p1, s1) \<in> rx_ends RWordB p s \<longleftrightarrow> word_at p \<noteq> word_at (next_char s) \<and> p1 = p \<and> s1 = s"
  by (auto simp: rx_ends_iff)

lemma rx_ends_BegLine [rx_simps]:
  "(p1, s1) \<in> rx_ends RBegLine p s \<longleftrightarrow> (p = None \<or> p = Some (CHR 0x0A)) \<and> p1 = p \<and> s1 = s"
  by (auto simp: rx_ends_iff)

text \<open>A match consumes a prefix of the text.\<close>

lemma rx_ends_split: "(p1, s1) \<in> rx_ends r p s \<Longrightarrow> \<exists>m. s = m @ s1 \<and> p1 = after p m"
proof (induction r arbitrary: p s p1 s1)
  case (RSeq a b)
  then obtain p2 s2 where "(p2, s2) \<in> rx_ends a p s" "(p1, s1) \<in> rx_ends b p2 s2" by (auto simp: rx_ends_Seq)
  with RSeq.IH obtain m m' where "s = m @ s2" "p2 = after p m" "s2 = m' @ s1" "p1 = after p2 m'" by metis
  then show ?case by (intro exI [of _ "m @ m'"]) simp
next
  case (RStar a)
  from RStar.prems show ?case
  proof (induction "length s" arbitrary: p s rule: less_induct)
    case less
    from less.prems consider "p1 = p \<and> s1 = s"
      | p2 s2 where "(p2, s2) \<in> rx_ends a p s" "length s2 < length s" "(p1, s1) \<in> rx_ends (RStar a) p2 s2"
      by (subst (asm) rx_ends_Star_unfold) blast
    then show ?case
    proof cases
      case 2
      with RStar.IH less.hyps obtain m m' where "s = m @ s2" "p2 = after p m" "s2 = m' @ s1" "p1 = after p2 m'" by metis
      then show ?thesis by (intro exI [of _ "m @ m'"]) simp
    qed simp
  qed
qed (auto simp: rx_simps)

text \<open>The leftmost match: the pattern fails at every position before it.\<close>

lemma rx_find_first:
  "rx_find r p s = Some (pre, p1, s1, cs) \<Longrightarrow>
    \<exists>m rest. s = pre @ m @ s1 \<and> rx_run r (after p pre) (m @ s1) = (p1, s1, cs) # rest \<and> p1 = after p (pre @ m) \<and>
      (\<forall>a t. pre = a @ t \<and> t \<noteq> [] \<longrightarrow> rx_run r (after p a) (t @ m @ s1) = [])"
proof (induction r p s arbitrary: pre rule: rx_find.induct)
  case (1 r p)
  then obtain rest where run: "rx_run r p [] = (p1, s1, cs) # rest" and "pre = []"
    by (auto split: list.splits prod.splits)
  then have "(p1, s1) \<in> rx_ends r p []" by (auto simp: rx_ends_iff)
  with run \<open>pre = []\<close> show ?case by (auto dest: rx_ends_split)
next
  case (2 r p c t)
  show ?case
  proof (cases "rx_run r p (c # t)")
    case Nil
    with 2 obtain pre' where find: "rx_find r (Some c) t = Some (pre', p1, s1, cs)" and pre: "pre = c # pre'"
      by (auto split: option.splits)
    from "2.IH" [OF Nil find] obtain m rest where m: "t = pre' @ m @ s1"
      "rx_run r (after (Some c) pre') (m @ s1) = (p1, s1, cs) # rest" "p1 = after (Some c) (pre' @ m)"
      and first: "\<And>a u. pre' = a @ u \<Longrightarrow> u \<noteq> [] \<Longrightarrow> rx_run r (after (Some c) a) (u @ m @ s1) = []" by blast
    have "rx_run r (after p a) (u @ m @ s1) = []" if "pre = a @ u" "u \<noteq> []" for a u
      using that Nil m(1) first by (cases a) (auto simp: pre)
    with m show ?thesis by (auto simp: pre)
  next
    case (Cons x xs)
    with "2.prems" have "x = (p1, s1, cs)" "pre = []" by (auto split: prod.splits)
    with Cons have "rx_run r p (c # t) = (p1, s1, cs) # xs" by simp
    moreover from this have "(p1, s1) \<in> rx_ends r p (c # t)" by (auto simp: rx_ends_iff)
    ultimately show ?thesis using \<open>pre = []\<close> by (auto dest: rx_ends_split)
  qed
qed

lemma rx_replace_subst: "rx_replace n r w p s = rx_subst n r (\<lambda>_. w) p s"
  by (induction n arbitrary: p s) (auto split: option.splits)

subsection \<open>Texts that must not survive\<close>

definition digit_at :: "string \<Rightarrow> bool" where
  "digit_at s \<longleftrightarrow> s \<noteq> [] \<and> is_digit (hd s)"

definition markers :: "string set" where
  "markers = {''[IP-ADDRESS]'', ''[FINGERPRINT]'', ''[PATH]'', ''[HOSTNAME]'', '' ''}"

text \<open>A text of the kind \<open>pat\<close> stands in \<open>s\<close> between suitable neighbours.\<close>

definition exposed :: "(string \<Rightarrow> bool) \<Rightarrow> (char option \<Rightarrow> bool) \<Rightarrow> (string \<Rightarrow> bool) \<Rightarrow> char option \<Rightarrow> string \<Rightarrow> bool" where
  "exposed pat lctx rctx p s \<longleftrightarrow> (\<exists>a x b. s = a @ x @ b \<and> pat x \<and> lctx (after p a) \<and> rctx b)"

text \<open>
  The pass that replaces the matches of \<open>r\<close> by \<open>f\<close> puts a marker for the part \<open>d\<close> of a match, keeps the rest \<open>k\<close> of it, and
  leaves no digit at either side of the marker that was not at the edge of a word before. It may also keep the match as it is.
\<close>

definition tidy :: "rx \<Rightarrow> (string \<Rightarrow> string) \<Rightarrow> bool" where
  "tidy r f \<longleftrightarrow> (\<forall>p s p1 s1 cs rest. rx_run r p s = (p1, s1, cs) # rest \<longrightarrow>
     (\<exists>d k br. s = d @ k @ s1 \<and> d @ k \<noteq> [] \<and> f (d @ k) = br @ k \<and>
       (d = [] \<and> br = [] \<or>
        br \<in> markers \<and> (\<not> digit_at s \<or> \<not> word_at p) \<and> (\<not> digit_at (k @ s1) \<or> \<not> word_at (after p d)))))"

text \<open>The case that every match is replaced as a whole.\<close>

definition drops :: "rx \<Rightarrow> bool" where
  "drops r \<longleftrightarrow> (\<forall>p s p1 s1 cs rest. rx_run r p s = (p1, s1, cs) # rest \<longrightarrow>
     s1 \<noteq> s \<and> (\<not> digit_at s \<or> \<not> word_at p) \<and> (\<not> digit_at s1 \<or> \<not> word_at p1))"

lemma drops_tidy:
  assumes "drops r" "w \<in> markers"
  shows "tidy r (\<lambda>_. w)"
  unfolding tidy_def
proof (intro allI impI)
  fix p s p1 s1 cs rest
  assume run: "rx_run r p s = (p1, s1, cs) # rest"
  then have "(p1, s1) \<in> rx_ends r p s" by (auto simp: rx_ends_iff)
  then obtain m where "s = m @ s1" "p1 = after p m" by (auto dest: rx_ends_split)
  with assms(1) [unfolded drops_def, rule_format, OF run] assms(2)
  show "\<exists>d k br. s = d @ k @ s1 \<and> d @ k \<noteq> [] \<and> w = br @ k \<and> (d = [] \<and> br = [] \<or>
    br \<in> markers \<and> (\<not> digit_at s \<or> \<not> word_at p) \<and> (\<not> digit_at (k @ s1) \<or> \<not> word_at (after p d)))"
    by (intro exI [of _ m] exI [of _ "[]"] exI [of _ w]) auto
qed

text \<open>Two ways to cut the same text.\<close>

lemma two_cuts:
  assumes "A @ T = a @ s"
  obtains (inside) u where "A = a @ u" "u \<noteq> []" "u @ T = s" | (behind) u where "a = A @ u" "T = u @ s"
proof -
  from assms obtain u where "A = a @ u \<and> u @ T = s \<or> a = A @ u \<and> T = u @ s" by (metis append_eq_append_conv2)
  then show thesis using that by (cases u) auto
qed

locale leak =
  fixes pat :: "string \<Rightarrow> bool" and lctx :: "char option \<Rightarrow> bool" and rctx :: "string \<Rightarrow> bool"
  assumes pat_marker: "pat x \<Longrightarrow> br \<in> markers \<Longrightarrow> hd br \<notin> set x \<and> last br \<notin> set x \<and> \<not> set x \<subseteq> set br"
    and pat_line: "pat x \<Longrightarrow> x \<noteq> [] \<and> CHR 0x0A \<notin> set x"
    and rctx_free: "\<not> digit_at t \<Longrightarrow> rctx t"
    and rctx_Cons: "rctx (c # t) = rctx [c]"
    and pat_end: "pat x \<Longrightarrow> rctx t \<or> is_word (last x)"
    and lctx_free: "\<not> word_at p \<Longrightarrow> lctx p"
    and pat_start: "pat x \<Longrightarrow> lctx p \<or> is_digit (hd x)"
begin

lemma rctx_prefix: "rctx (b @ t) \<Longrightarrow> rctx b"
  by (cases b) (auto simp: rctx_Cons [of _ "_ @ _"] rctx_Cons [of _ "_ # _"] rctx_free digit_at_def intro: rctx_Cons [THEN iffD2])

lemma cut:
  assumes "exposed pat lctx rctx q (A @ T)" and "\<And>x. pat x \<Longrightarrow> T = [] \<or> hd T \<notin> set x"
  shows "exposed pat lctx rctx q A \<or> exposed pat lctx rctx (after q A) T"
proof -
  from assms(1) obtain a x b where eq: "A @ T = a @ x @ b" and x: "pat x" "lctx (after q a)" "rctx b"
    by (auto simp: exposed_def)
  from eq show ?thesis
  proof (cases rule: two_cuts)
    case inside: (inside u)
    from inside(3) [symmetric] show ?thesis
    proof (cases rule: two_cuts)
      case over: (inside v)
      then have "hd T \<in> set x" "T \<noteq> []" by (metis UnCI hd_append2 hd_in_set set_append) (use over in auto)
      with assms(2) [OF x(1)] show ?thesis by blast
    next
      case (behind v)
      with x(3) have "rctx v" using rctx_prefix [of v T] by simp
      with inside(1) behind(1) x show ?thesis by (auto simp: exposed_def)
    qed
  next
    case (behind u)
    with x show ?thesis by (auto simp: exposed_def)
  qed
qed

lemma skip_marker:
  assumes "exposed pat lctx rctx q (br @ B)" "br \<in> markers"
  shows "exposed pat lctx rctx (Some (last br)) B"
proof -
  have ne: "br \<noteq> []" using assms(2) by (auto simp: markers_def)
  from assms(1) obtain a x b where eq: "br @ B = a @ x @ b" and x: "pat x" "lctx (after q a)" "rctx b"
    by (auto simp: exposed_def)
  from eq show ?thesis
  proof (cases rule: two_cuts)
    case inside: (inside u)
    from inside(3) have "set x \<subseteq> set br \<or> last br \<in> set x"
    proof (cases rule: two_cuts)
      case (inside v)
      with \<open>br = a @ u\<close> show ?thesis by auto
    next
      case (behind v)
      with inside(1,2) have "last br = last u" "last u \<in> set x" by auto
      then show ?thesis by simp
    qed
    with pat_marker [OF x(1) assms(2)] show ?thesis by blast
  next
    case (behind u)
    with ne have "after q a = after (Some (last br)) u" by (simp add: after_def)
    with x behind show ?thesis unfolding exposed_def by metis
  qed
qed

lemma exposed_at:
  assumes "exposed pat lctx rctx p A" "\<not> digit_at T \<or> \<not> word_at (after p A)"
  obtains a x b where "A = a @ x @ b" "pat x" "lctx (after p a)" "rctx (b @ T)"
proof -
  from assms(1) obtain a x b where A: "A = a @ x @ b" and x: "pat x" "lctx (after p a)" "rctx b" by (auto simp: exposed_def)
  have "rctx (b @ T)"
  proof (cases b)
    case Nil
    with A x(1) have "after p A = Some (last x)" using pat_line [OF x(1)] by (simp add: after_def)
    with assms(2) pat_end [OF x(1), of T] Nil show ?thesis by (auto simp: word_at_def intro: rctx_free)
  next
    case (Cons c b')
    with x(3) show ?thesis using rctx_Cons [of c "b' @ T"] rctx_Cons [of c b'] by simp
  qed
  with A x(1,2) show thesis by (rule that)
qed

lemma exposed_left:
  "exposed pat lctx rctx p A \<Longrightarrow> \<not> digit_at T \<or> \<not> word_at (after p A) \<Longrightarrow> exposed pat lctx rctx p (A @ T)"
  by (erule (1) exposed_at) (auto simp: exposed_def)

lemma exposed_right: "exposed pat lctx rctx (after p A) T \<Longrightarrow> exposed pat lctx rctx p (A @ T)"
  unfolding exposed_def by (metis append_assoc after_append)

lemma exposed_ctx:
  assumes "exposed pat lctx rctx q B" "lctx q \<longrightarrow> lctx p \<or> (\<forall>x b. pat x \<longrightarrow> B \<noteq> x @ b)"
  shows "exposed pat lctx rctx p B"
proof -
  from assms(1) obtain a x b where "B = a @ x @ b" "pat x" "lctx (after q a)" "rctx b" by (auto simp: exposed_def)
  moreover from this assms(2) have "lctx (after p a)" by (cases a) auto
  ultimately show ?thesis by (auto simp: exposed_def)
qed

text \<open>One match: what the pass writes before the next one.\<close>

lemma rx_subst_step:
  assumes "rx_find r (after p k) s = Some (pre, p1, s1, cs)"
  obtains m rest where "s = pre @ m @ s1" "rx_run r (after p (k @ pre)) (m @ s1) = (p1, s1, cs) # rest"
    "k @ rx_subst (Suc n) r f (after p k) s = k @ pre @ f m @ rx_subst n r f (after p (k @ pre @ m)) s1"
    "\<And>a t. pre = a @ t \<Longrightarrow> t \<noteq> [] \<Longrightarrow> rx_run r (after p (k @ a)) (t @ m @ s1) = []"
proof -
  from rx_find_first [OF assms] obtain m rest where m: "s = pre @ m @ s1"
    "rx_run r (after (after p k) pre) (m @ s1) = (p1, s1, cs) # rest" "p1 = after (after p k) (pre @ m)"
    "\<forall>a t. pre = a @ t \<and> t \<noteq> [] \<longrightarrow> rx_run r (after (after p k) a) (t @ m @ s1) = []" by blast
  with assms show thesis by (intro that [of m rest]) simp_all
qed

lemma keeps:
  assumes "tidy r f"
  shows "\<not> exposed pat lctx rctx p (k @ s) \<Longrightarrow> lctx q \<longrightarrow> lctx p \<or> (\<forall>x b. pat x \<longrightarrow> k @ s \<noteq> x @ b) \<Longrightarrow>
    \<not> exposed pat lctx rctx q (k @ rx_subst n r f (after p k) s)"
proof (induction n arbitrary: p q k s)
  case 0
  then show ?case using exposed_ctx by auto
next
  case (Suc n)
  show ?case
  proof (cases "rx_find r (after p k) s")
    case None
    with Suc.prems show ?thesis using exposed_ctx by auto
  next
    case (Some y)
    obtain pre p1 s1 cs where y: "y = (pre, p1, s1, cs)" by (cases y)
    obtain m rest where s: "s = pre @ m @ s1" and run: "rx_run r (after p (k @ pre)) (m @ s1) = (p1, s1, cs) # rest"
      and out: "k @ rx_subst (Suc n) r f (after p k) s = k @ pre @ f m @ rx_subst n r f (after p (k @ pre @ m)) s1"
      using rx_subst_step [OF Some [unfolded y]] by metis
    from assms [unfolded tidy_def, rule_format, OF run] obtain d k' br where m: "m = d @ k'" and fm: "f m = br @ k'"
      and how: "d = [] \<and> br = [] \<or> br \<in> markers \<and> (\<not> digit_at (m @ s1) \<or> \<not> word_at (after p (k @ pre))) \<and>
        (\<not> digit_at (k' @ s1) \<or> \<not> word_at (after (after p (k @ pre)) d))" by auto
    let ?t = "rx_subst n r f (after p (k @ pre @ m)) s1"
    from how show ?thesis
    proof
      assume "d = [] \<and> br = []"
      with Suc.IH [of p "k @ pre @ m" s1 q] Suc.prems show ?thesis unfolding out fm by (simp add: s m)
    next
      assume br: "br \<in> markers \<and> (\<not> digit_at (m @ s1) \<or> \<not> word_at (after p (k @ pre))) \<and>
        (\<not> digit_at (k' @ s1) \<or> \<not> word_at (after (after p (k @ pre)) d))"
      have "\<not> exposed pat lctx rctx q (k @ pre)"
      proof
        assume "exposed pat lctx rctx q (k @ pre)"
        moreover have "lctx q \<longrightarrow> lctx p \<or> (\<forall>x b. pat x \<longrightarrow> k @ pre \<noteq> x @ b)"
          using Suc.prems(2) s by (metis append_assoc)
        ultimately have "exposed pat lctx rctx p (k @ pre)" by (rule exposed_ctx)
        with br have "exposed pat lctx rctx p ((k @ pre) @ m @ s1)" using exposed_left [of p "k @ pre" "m @ s1"] by blast
        with Suc.prems(1) s show False by simp
      qed
      moreover have "\<not> exposed pat lctx rctx (Some (last br)) (k' @ rx_subst n r f (after (after p (k @ pre @ d)) k') s1)"
      proof (rule Suc.IH)
        show "\<not> exposed pat lctx rctx (after p (k @ pre @ d)) (k' @ s1)"
          using Suc.prems(1) exposed_right [of p "k @ pre @ d" "k' @ s1"] by (auto simp: s m)
        have "k' @ s1 \<noteq> x @ b" if "pat x" "digit_at (k' @ s1) \<longrightarrow> lctx (after p (k @ pre @ d))"
          "\<not> lctx (after p (k @ pre @ d))" for x b
          using pat_start [OF that(1), of "after p (k @ pre @ d)"] pat_line [OF that(1)] that(2,3)
          by (auto simp: digit_at_def)
        with br lctx_free show "lctx (Some (last br)) \<longrightarrow>
          lctx (after p (k @ pre @ d)) \<or> (\<forall>x b. pat x \<longrightarrow> k' @ s1 \<noteq> x @ b)" by auto
      qed
      then have "\<not> exposed pat lctx rctx (after q (k @ pre)) (br @ k' @ ?t)"
        using skip_marker [of _ br "k' @ ?t"] br by (auto simp: m)
      moreover have "br \<noteq> []" "hd (br @ k' @ ?t) = hd br" using br by (auto simp: markers_def)
      ultimately show ?thesis
        using cut [of q "k @ pre" "br @ k' @ ?t"] pat_marker br unfolding out by (auto simp: fm)
    qed
  qed
qed

text \<open>A pass that finds every text of the kind leaves none.\<close>

lemma removes:
  assumes "drops r" "w \<in> markers"
  shows "length s \<le> n \<Longrightarrow> lctx q \<longrightarrow> lctx p \<or> (\<forall>x b. pat x \<longrightarrow> s \<noteq> x @ b) \<Longrightarrow>
    (\<And>a x b. s = a @ x @ b \<Longrightarrow> pat x \<Longrightarrow> lctx (after p a) \<Longrightarrow> rctx b \<Longrightarrow> rx_run r (after p a) (x @ b) \<noteq> []) \<Longrightarrow>
    \<not> exposed pat lctx rctx q (rx_subst n r (\<lambda>_. w) p s)"
proof (induction n arbitrary: p q s)
  case 0
  then show ?case using pat_line by (auto simp: exposed_def)
next
  case (Suc n)
  show ?case
  proof (cases "rx_find r p s")
    case None
    then have "rx_run r (after p a) t = []" if "s = a @ t" for a t using that by (simp add: rx_find_None_iff)
    then have "\<not> exposed pat lctx rctx p s" using Suc.prems(3) unfolding exposed_def by metis
    with None Suc.prems(2) show ?thesis using exposed_ctx by auto
  next
    case (Some y)
    obtain pre p1 s1 cs where y: "y = (pre, p1, s1, cs)" by (cases y)
    obtain m rest where s: "s = pre @ m @ s1" and run: "rx_run r (after p pre) (m @ s1) = (p1, s1, cs) # rest"
      and out: "rx_subst (Suc n) r (\<lambda>_. w) p s = pre @ w @ rx_subst n r (\<lambda>_. w) (after p (pre @ m)) s1"
      and first: "\<And>a t. pre = a @ t \<Longrightarrow> t \<noteq> [] \<Longrightarrow> rx_run r (after p a) (t @ m @ s1) = []"
      using rx_subst_step [of r p "[]" s pre p1 s1 cs n "\<lambda>_. w"] Some y by (metis after_Nil append_Nil)
    let ?t = "rx_subst n r (\<lambda>_. w) (after p (pre @ m)) s1"
    from run have "(p1, s1) \<in> rx_ends r (after p pre) (m @ s1)" by (auto simp: rx_ends_iff)
    then have p1: "p1 = after p (pre @ m)" by (auto dest!: rx_ends_split)
    note drop = assms(1) [unfolded drops_def, rule_format, OF run]
    have "\<not> exposed pat lctx rctx q pre"
    proof
      assume "exposed pat lctx rctx q pre"
      moreover have "lctx q \<longrightarrow> lctx p \<or> (\<forall>x b. pat x \<longrightarrow> pre \<noteq> x @ b)" using Suc.prems(2) s by (metis append_assoc)
      ultimately have "exposed pat lctx rctx p pre" by (rule exposed_ctx)
      then obtain a x b where x: "pre = a @ x @ b" "pat x" "lctx (after p a)" "rctx (b @ m @ s1)"
        using exposed_at [of p pre "m @ s1"] drop by blast
      moreover have "rx_run r (after p a) (x @ b @ m @ s1) = []" using first [of a "x @ b"] x pat_line [OF x(2)] by simp
      ultimately show False using Suc.prems(3) [of a x "b @ m @ s1"] s by simp
    qed
    moreover have "\<not> exposed pat lctx rctx (Some (last w)) ?t"
    proof (rule Suc.IH)
      show "length s1 \<le> n" using Suc.prems(1) drop s by (cases m) auto
      show "rx_run r (after (after p (pre @ m)) a) (x @ b) \<noteq> []"
        if "s1 = a @ x @ b" "pat x" "lctx (after (after p (pre @ m)) a)" "rctx b" for a x b
        using Suc.prems(3) [of "pre @ m @ a" x b] that s by simp
      have "s1 \<noteq> x @ b" if "pat x" "\<not> digit_at s1" "\<not> lctx (after p (pre @ m))" for x b
        using pat_start [OF that(1), of "after p (pre @ m)"] pat_line [OF that(1)] that(2,3) by (auto simp: digit_at_def)
      with drop lctx_free p1 show "lctx (Some (last w)) \<longrightarrow> lctx (after p (pre @ m)) \<or> (\<forall>x b. pat x \<longrightarrow> s1 \<noteq> x @ b)"
        by blast
    qed
    then have "\<not> exposed pat lctx rctx (after q pre) (w @ ?t)" using skip_marker [of _ w ?t] assms(2) by blast
    moreover have "w \<noteq> []" using assms(2) by (auto simp: markers_def)
    ultimately show ?thesis using cut [of q pre "w @ ?t"] pat_marker assms(2) unfolding out by auto
  qed
qed

text \<open>A pass that deletes whole ends of lines.\<close>

lemma erases_head:
  assumes "\<And>p s p1 s1 cs rest. rx_run r p s = (p1, s1, cs) # rest \<Longrightarrow> s1 = [] \<or> hd s1 = CHR 0x0A"
  shows "s = [] \<or> hd s = CHR 0x0A \<Longrightarrow> rx_subst n r (\<lambda>_. []) p s = [] \<or> hd (rx_subst n r (\<lambda>_. []) p s) = CHR 0x0A"
proof (induction n arbitrary: p s)
  case (Suc n)
  show ?case
  proof (cases "rx_find r p s")
    case (Some y)
    obtain pre p1 s1 cs where y: "y = (pre, p1, s1, cs)" by (cases y)
    with Some obtain m rest where "s = pre @ m @ s1" "rx_run r (after p pre) (m @ s1) = (p1, s1, cs) # rest"
      using rx_find_first by blast
    with assms have "s1 = [] \<or> hd s1 = CHR 0x0A" "pre = [] \<or> hd pre = CHR 0x0A" using Suc.prems by (cases pre; auto)+
    with Suc.IH [of s1 p1] Some y show ?thesis by (cases pre) (simp_all del: rx_find.simps)
  qed (use Suc in simp)
qed simp

lemma erases:
  assumes line: "\<And>p s p1 s1 cs rest. rx_run r p s = (p1, s1, cs) # rest \<Longrightarrow> (s1 = [] \<or> hd s1 = CHR 0x0A) \<and> \<not> digit_at s"
  shows "\<not> exposed pat lctx rctx p s \<Longrightarrow> lctx q \<longrightarrow> lctx p \<or> (\<forall>x b. pat x \<longrightarrow> s \<noteq> x @ b) \<Longrightarrow>
    \<not> exposed pat lctx rctx q (rx_subst n r (\<lambda>_. []) p s)"
proof (induction n arbitrary: p q s)
  case 0
  then show ?case using exposed_ctx by auto
next
  case (Suc n)
  show ?case
  proof (cases "rx_find r p s")
    case None
    with Suc.prems show ?thesis using exposed_ctx by auto
  next
    case (Some y)
    obtain pre p1 s1 cs where y: "y = (pre, p1, s1, cs)" by (cases y)
    with Some obtain m rest where s: "s = pre @ m @ s1" and run: "rx_run r (after p pre) (m @ s1) = (p1, s1, cs) # rest"
      and p1: "p1 = after p (pre @ m)" using rx_find_first by blast
    let ?t = "rx_subst n r (\<lambda>_. []) p1 s1"
    have head: "?t = [] \<or> hd ?t = CHR 0x0A" using line [OF run] line by (intro erases_head) blast+
    have "\<not> exposed pat lctx rctx q pre"
    proof
      assume "exposed pat lctx rctx q pre"
      moreover have "lctx q \<longrightarrow> lctx p \<or> (\<forall>x b. pat x \<longrightarrow> pre \<noteq> x @ b)" using Suc.prems(2) s by (metis append_assoc)
      ultimately have "exposed pat lctx rctx p pre" by (rule exposed_ctx)
      with line [OF run] have "exposed pat lctx rctx p (pre @ m @ s1)" by (intro exposed_left) auto
      with Suc.prems(1) s show False by simp
    qed
    moreover have "\<not> exposed pat lctx rctx (after q pre) ?t"
    proof (rule Suc.IH)
      show "\<not> exposed pat lctx rctx p1 s1"
        using Suc.prems(1) exposed_right [of p "pre @ m" s1] by (auto simp: s p1)
      have "s1 \<noteq> x @ b" if "pat x" for x b using line [OF run] pat_line [OF that] by (cases x) auto
      then show "lctx (after q pre) \<longrightarrow> lctx p1 \<or> (\<forall>x b. pat x \<longrightarrow> s1 \<noteq> x @ b)" by blast
    qed
    ultimately show ?thesis using cut [of q pre ?t] head pat_line by (auto simp: Some y)
  qed
qed

text \<open>The passes of \<^verbatim>\<open>SanitizeErrorMessage\<close> over a whole message.\<close>

lemma pass:
  assumes "\<not> exposed pat lctx rctx None s"
  shows "tidy r f \<Longrightarrow> \<not> exposed pat lctx rctx None (ReplaceAllStringFunc r s f)"
    and "drops r \<Longrightarrow> w \<in> markers \<Longrightarrow> \<not> exposed pat lctx rctx None (ReplaceAllString r s w)"
proof -
  show "\<not> exposed pat lctx rctx None (ReplaceAllStringFunc r s f)" if "tidy r f" for r f
    using keeps [OF that, of None "[]" s None "length s"] assms by (simp add: ReplaceAllStringFunc_def)
  from this [OF drops_tidy] show "\<not> exposed pat lctx rctx None (ReplaceAllString r s w)" if "drops r" "w \<in> markers"
    using that by (simp add: ReplaceAllStringFunc_def ReplaceAllString_def rx_replace_subst)
qed

lemma pass_trim: "\<not> exposed pat lctx rctx None s \<Longrightarrow> \<not> exposed pat lctx rctx None (TrimSpace s)"
proof (rule contrapos_nn)
  assume "exposed pat lctx rctx None (TrimSpace s)"
  then obtain a x b where t: "TrimSpace s = a @ x @ b" and x: "pat x" "lctx (after None a)" "rctx b" by (auto simp: exposed_def)
  define u v where "u = takeWhile is_space s" and "v = rev (takeWhile is_space (rev (dropWhile is_space s)))"
  have "s = u @ TrimSpace s @ v"
    unfolding u_def v_def TrimSpace_def by (metis rev_append rev_rev_ident takeWhile_dropWhile_id)
  moreover have "list_all is_space u" "list_all is_space v"
    by (auto simp: u_def v_def list_all_iff dest: set_takeWhileD)
  moreover from this have "\<not> word_at (after None u)" "\<not> digit_at v"
    by (cases v; cases u rule: rev_cases; auto simp: after_def word_at_def digit_at_def is_space_def is_word_def
      is_digit_def is_upper_def is_lower_def)+
  moreover from this x(2) have "lctx (after (after None u) a)" by (cases a) (auto intro: lctx_free)
  moreover from x(3) \<open>\<not> digit_at v\<close> have "rctx (b @ v)" using rctx_Cons [of _ "_ @ v"] rctx_Cons
    by (cases b) (auto intro: rctx_free)
  ultimately show "exposed pat lctx rctx None s" using t x(1)
    unfolding exposed_def by (intro exI [of _ "u @ a"] exI [of _ x] exI [of _ "b @ v"]) simp
qed

end

subsection \<open>The patterns\<close>

lemma rx_ends_upto_Cls [rx_simps]:
  "(p1, s1) \<in> rx_ends (rx_upto n (RCls P)) p s \<longleftrightarrow> (\<exists>w. length w \<le> n \<and> s = w @ s1 \<and> list_all P w \<and> p1 = after p w)"
proof (induction n arbitrary: p s)
  case (Suc n)
  show ?case
  proof
    assume "(p1, s1) \<in> rx_ends (rx_upto (Suc n) (RCls P)) p s"
    then consider "p1 = p" "s1 = s" | c w where "length w \<le> n" "s = c # w @ s1" "P c" "list_all P w" "p1 = after (Some c) w"
      using Suc.IH by (auto simp: rx_ends_Alt rx_ends_Seq rx_ends_Cls rx_ends_Eps)
    then show "\<exists>w. length w \<le> Suc n \<and> s = w @ s1 \<and> list_all P w \<and> p1 = after p w"
    proof cases
      case 1
      then show ?thesis by (intro exI [of _ "[]"]) simp
    next
      case 2
      then show ?thesis by (intro exI [of _ "c # w"]) simp
    qed
  next
    assume "\<exists>w. length w \<le> Suc n \<and> s = w @ s1 \<and> list_all P w \<and> p1 = after p w"
    then obtain w where w: "length w \<le> Suc n" "s = w @ s1" "list_all P w" "p1 = after p w" by blast
    show "(p1, s1) \<in> rx_ends (rx_upto (Suc n) (RCls P)) p s"
    proof (cases w)
      case (Cons c v)
      with w have "(p1, s1) \<in> rx_ends (rx_upto n (RCls P)) (Some c) (v @ s1)" unfolding Suc.IH by auto
      with w Cons show ?thesis by (auto simp: rx_ends_Alt rx_ends_Seq rx_ends_Cls)
    qed (use w in \<open>simp add: rx_ends_Alt rx_ends_Eps\<close>)
  qed
qed (auto simp: rx_ends_Eps)

text \<open>The first and the last byte of every match, and the byte after the match that Go prefers.\<close>

definition starts_with :: "(char \<Rightarrow> bool) \<Rightarrow> rx \<Rightarrow> bool" where
  "starts_with P r \<longleftrightarrow> (\<forall>p s p1 s1. (p1, s1) \<in> rx_ends r p s \<longrightarrow> s \<noteq> [] \<and> P (hd s) \<and> length s1 < length s)"

definition ends_with :: "(char \<Rightarrow> bool) \<Rightarrow> rx \<Rightarrow> bool" where
  "ends_with P r \<longleftrightarrow> (\<forall>p s p1 s1. (p1, s1) \<in> rx_ends r p s \<longrightarrow> (\<exists>c. p1 = Some c \<and> P c))"

definition greedy :: "(char \<Rightarrow> bool) \<Rightarrow> rx \<Rightarrow> bool" where
  "greedy P r \<longleftrightarrow> (\<forall>p s p1 s1 cs rest. rx_run r p s = (p1, s1, cs) # rest \<longrightarrow> s1 = [] \<or> \<not> P (hd s1))"

lemma starts_Seq: "starts_with P a \<Longrightarrow> starts_with P (RSeq a b)"
  unfolding starts_with_def rx_ends_Seq
  by (metis (no_types, lifting) le_less_trans length_append le_add2 rx_ends_split)

lemma starts_Cls: "(\<And>c. Q c \<Longrightarrow> P c) \<Longrightarrow> starts_with P (RCls Q)"
  by (auto simp: starts_with_def rx_ends_Cls)

lemma starts_lit: "w \<noteq> [] \<Longrightarrow> P (hd w) \<Longrightarrow> starts_with P (rx_lit w)"
  by (auto simp: starts_with_def rx_ends_lit)

lemma ends_Seq: "ends_with P b \<Longrightarrow> ends_with P (RSeq a b)"
  unfolding ends_with_def rx_ends_Seq by blast

lemma ends_Eps: "ends_with P a \<Longrightarrow> ends_with P (RSeq a REps)"
  by (auto simp: ends_with_def rx_ends_Seq rx_ends_Eps)

lemma ends_run: "ends_with P a \<Longrightarrow> (\<And>c. Q c \<Longrightarrow> P c) \<Longrightarrow> ends_with P (RSeq a (rx_upto n (RCls Q)))"
  by (auto simp: ends_with_def rx_simps after_def list_all_iff split: if_splits) blast

lemma ends_Cls: "(\<And>c. Q c \<Longrightarrow> P c) \<Longrightarrow> ends_with P (RCls Q)"
  by (auto simp: ends_with_def rx_ends_Cls)

lemma ends_lit: "w \<noteq> [] \<Longrightarrow> P (last w) \<Longrightarrow> ends_with P (rx_lit w)"
  by (auto simp: ends_with_def rx_ends_lit after_def)

lemma ends_Alt: "ends_with P a \<Longrightarrow> ends_with P b \<Longrightarrow> ends_with P (RAlt a b)"
  unfolding ends_with_def rx_ends_Alt by blast

lemma ends_Grp: "ends_with P a \<Longrightarrow> ends_with P (RGrp a)"
  by (auto simp: ends_with_def rx_ends_Grp)

lemma greedy_Star: "greedy P (RStar (RCls P))"
proof -
  have "s1 = [] \<or> \<not> P (hd s1)" if "rx_run (RStar (RCls P)) p s = (p1, s1, cs) # rest" for p s p1 s1 cs rest
    using that
  proof (induction s arbitrary: p p1 s1 cs rest)
    case (Cons c s)
    show ?case
    proof (cases "P c")
      case True
      obtain y ys where run: "rx_run (RStar (RCls P)) (Some c) s = y # ys"
        by (cases "rx_run (RStar (RCls P)) (Some c) s") (auto simp: rx_run.simps(9) [of _ _ s])
      with Cons True show ?thesis by (auto simp: rx_run.simps(9) [of _ p] split: prod.splits)
    next
      case False
      with Cons.prems show ?thesis by (auto simp: rx_run.simps(9) [of _ p])
    qed
  qed (auto simp: rx_run.simps(9))
  then show ?thesis unfolding greedy_def by blast
qed

lemma concat_head: "concat (map f xs) = y # ys \<Longrightarrow> \<exists>x \<in> set xs. \<exists>zs. f x = y # zs"
  by (induction xs) (auto simp: append_eq_Cons_conv)

lemma greedy_Seq: "greedy P b \<Longrightarrow> greedy P (RSeq a b)"
  unfolding greedy_def rx_run.simps by (fastforce dest!: concat_head simp: map_eq_Cons_conv)

lemma greedy_Alt: "greedy P a \<Longrightarrow> greedy P b \<Longrightarrow> greedy P (RAlt a b)"
  unfolding greedy_def rx_run.simps append_eq_Cons_conv by blast

lemma digit_word: "is_digit c \<Longrightarrow> is_word c"
  by (simp add: is_word_def)

lemma is_hex_word: "is_hex c \<Longrightarrow> is_word c"
  by (auto simp: is_hex_def is_word_def is_upper_def is_lower_def)

lemma host_char_word: "host_char c \<Longrightarrow> is_word c"
  by (auto simp: host_char_def is_word_def)

text \<open>A pattern between two word boundaries.\<close>

lemma bounded_match:
  assumes "starts_with is_word r" "ends_with is_word r" "(p1, s1) \<in> rx_ends (RSeq RWordB (RSeq r RWordB)) p s"
  shows "s1 \<noteq> s" "\<not> word_at p" "\<not> digit_at s1"
proof -
  from assms(3) have m: "(p1, s1) \<in> rx_ends r p s" and bounds: "word_at p \<noteq> word_at (next_char s)" "word_at p1 \<noteq> word_at (next_char s1)"
    by (auto simp: rx_simps)
  from assms(1) m have s: "s \<noteq> []" "is_word (hd s)" "length s1 < length s" unfolding starts_with_def by blast+
  then show "s1 \<noteq> s" by auto
  from s bounds(1) show "\<not> word_at p" by (cases s) (auto simp: next_char_def word_at_def)
  from assms(2) m obtain c where "p1 = Some c" "is_word c" unfolding ends_with_def by blast
  with bounds(2) have "\<not> word_at (next_char s1)" by (simp add: word_at_def)
  then show "\<not> digit_at s1" by (cases s1) (auto simp: digit_at_def next_char_def word_at_def dest: digit_word)
qed

lemma bounded_drops: "starts_with is_word r \<Longrightarrow> ends_with is_word r \<Longrightarrow> drops (RSeq RWordB (RSeq r RWordB))"
  unfolding drops_def using bounded_match [of r] by (metis list.set_intros(1) rx_ends_iff)

lemma octet_ends: "starts_with is_word octet_rx" "ends_with is_word octet_rx"
  unfolding octet_rx_def digit_rx_def
  by (rule starts_Seq, rule starts_Cls, erule digit_word) (rule ends_run, rule ends_Cls, (erule digit_word)+)

lemma ipv4_drops: "drops ipv4Pattern"
  unfolding ipv4Pattern_def dotted_quad_rx_def rx_seq.simps
  by (intro bounded_drops starts_Seq octet_ends, rule ends_Seq, rule ends_Seq, rule ends_Seq, rule ends_Seq, rule ends_Seq,
      rule ends_Seq, intro ends_Eps octet_ends)

lemma ipv6_drops: "drops ipv6Pattern"
  unfolding ipv6Pattern_def
proof (rule bounded_drops)
  have seven: "rx_rep 7 r = RSeq r (rx_rep 6 r)" for r by (simp add: numeral_eq_Suc)
  show "starts_with is_word (RSeq (rx_rep 7 (RSeq hex_group_rx (rx_lit '':''))) hex_group_rx)"
    unfolding seven hex_group_rx_def by (intro starts_Seq starts_Cls is_hex_word)
  show "ends_with is_word (RSeq (rx_rep 7 (RSeq hex_group_rx (rx_lit '':''))) hex_group_rx)"
    unfolding hex_group_rx_def by (rule ends_Seq, intro ends_run ends_Cls is_hex_word)
qed

lemma hostname_drops: "drops hostnamePattern"
  unfolding hostnamePattern_def
proof (rule bounded_drops)
  show "starts_with is_word (RSeq host_label_rx (RSeq (RStar (RGrp (RSeq (rx_lit ''.'') host_label_rx))) (RSeq (rx_lit ''.'') top_level_rx)))"
    unfolding host_label_rx_def by (intro starts_Seq starts_Cls host_char_word)
  have "ends_with is_word top_level_rx"
    unfolding top_level_rx_def foldr.simps comp_def id_def
    by (intro ends_Grp ends_Alt ends_lit) (simp_all add: is_word_def is_lower_def)
  then show "ends_with is_word (RSeq host_label_rx (RSeq (RStar (RGrp (RSeq (rx_lit ''.'') host_label_rx))) (RSeq (rx_lit ''.'') top_level_rx)))"
    by (intro ends_Seq)
qed

lemma head_match: "rx_run r p s = (p1, s1, cs) # rest \<Longrightarrow> (p1, s1) \<in> rx_ends r p s"
  by (auto simp: rx_ends_iff)

lemma fingerprint_drops: "drops fingerprintPattern"
  unfolding drops_def
proof (intro allI impI)
  fix p s p1 s1 cs rest
  assume run: "rx_run fingerprintPattern p s = (p1, s1, cs) # rest"
  have "greedy base64_char fingerprintPattern"
    unfolding fingerprintPattern_def rx_plus_def by (intro greedy_Seq greedy_Star)
  with run have "s1 = [] \<or> \<not> base64_char (hd s1)" unfolding greedy_def by blast
  then have "\<not> digit_at s1" by (auto simp: digit_at_def base64_char_def is_alnum_def)
  moreover have "starts_with (\<lambda>c. c = CHR ''S'') fingerprintPattern"
    unfolding fingerprintPattern_def by (intro starts_Seq starts_lit) auto
  with head_match [OF run] have "s \<noteq> []" "hd s = CHR ''S''" "length s1 < length s" unfolding starts_with_def by blast+
  ultimately show "s1 \<noteq> s \<and> (\<not> digit_at s \<or> \<not> word_at p) \<and> (\<not> digit_at s1 \<or> \<not> word_at p1)"
    by (auto simp: digit_at_def is_digit_def)
qed

lemma space_drops: "drops (rx_plus (RCls rx_space))"
  unfolding drops_def
proof (intro allI impI)
  fix p s p1 s1 cs rest
  assume run: "rx_run (rx_plus (RCls rx_space)) p s = (p1, s1, cs) # rest"
  from head_match [OF run] obtain w where w: "w \<noteq> []" "s = w @ s1" "list_all rx_space w" "p1 = after p w"
    by (auto simp: rx_ends_plus_Cls)
  then have "rx_space (hd w)" "rx_space (last w)" by (auto simp: list_all_iff)
  moreover have "\<not> is_word c" if "rx_space c" for c
    using that by (auto simp: rx_space_def is_word_def is_digit_def is_upper_def is_lower_def)
  ultimately show "s1 \<noteq> s \<and> (\<not> digit_at s \<or> \<not> word_at p) \<and> (\<not> digit_at s1 \<or> \<not> word_at p1)"
    using w by (auto simp: digit_at_def word_at_def after_def dest: digit_word)
qed

lemma stack_lines:
  assumes "rx_run stackTracePattern p s = (p1, s1, cs) # rest"
  shows "(s1 = [] \<or> hd s1 = CHR 0x0A) \<and> \<not> digit_at s"
proof -
  have "greedy (\<lambda>c. c \<noteq> CHR 0x0A) stackTracePattern"
    unfolding stackTracePattern_def rest_of_line_def by (intro greedy_Alt greedy_Seq greedy_Star)
  with assms have "s1 = [] \<or> hd s1 = CHR 0x0A" unfolding greedy_def by blast
  moreover from head_match [OF assms] have "hd s = CHR 0x0A \<or> hd s = CHR ''g''"
    unfolding stackTracePattern_def rx_ends_Alt rx_ends_Seq rx_ends_lit by auto
  ultimately show ?thesis by (auto simp: digit_at_def is_digit_def)
qed

text \<open>The parts of a path that are kept start at its last separator.\<close>

lemma Base_split:
  assumes "CHR ''/'' \<in> set m" "last m \<noteq> CHR ''/''" "m \<noteq> []"
  shows "\<exists>d. m = d @ CHR ''/'' # Base m" "CHR ''/'' \<notin> set (Base m)"
proof -
  have "dropWhile (\<lambda>c. c = CHR ''/'') (rev m) = rev m" using assms(2,3) by (cases m rule: rev_cases) auto
  then have base: "Base m = rev (takeWhile (\<lambda>c. c \<noteq> CHR ''/'') (rev m))" using assms(3) by (simp add: Base_def)
  then show "CHR ''/'' \<notin> set (Base m)" by (auto dest: set_takeWhileD)
  let ?d = "dropWhile (\<lambda>c. c \<noteq> CHR ''/'') (rev m)"
  have "?d \<noteq> []" using assms(1) by auto
  then have "?d = CHR ''/'' # tl ?d" using hd_dropWhile [of "\<lambda>c. c \<noteq> CHR ''/''" "rev m"] by (cases ?d) auto
  then have "rev m = takeWhile (\<lambda>c. c \<noteq> CHR ''/'') (rev m) @ CHR ''/'' # tl ?d" by (metis takeWhile_dropWhile_id)
  then have "m = rev (tl ?d) @ CHR ''/'' # Base m" unfolding base by (metis append.assoc append_Cons append_Nil rev.simps(2) rev_append rev_rev_ident)
  then show "\<exists>d. m = d @ CHR ''/'' # Base m" by blast
qed

lemma Split_snoc: "Split sep (a @ sep # b) = Split sep a @ Split sep b"
  by (induction a) (auto split: list.splits)

lemma Split_last: "sep \<in> set m \<Longrightarrow> \<exists>d. m = d @ sep # last (Split sep m)"
  by (auto dest!: split_list_last simp: Split_snoc Split_nosep)

lemma slash_not_digit: "\<not> digit_at (CHR ''/'' # t)" "\<not> digit_at (CHR 0x5C # t)"
  by (auto simp: digit_at_def is_digit_def)

lemma unix_match:
  assumes "(p1, s1) \<in> rx_ends unixPathPattern p s"
  shows "\<exists>m. s = m @ s1 \<and> m \<noteq> [] \<and> hd m = CHR ''/'' \<and> last m \<noteq> CHR ''/''"
proof -
  let ?star = "RStar (RSeq (rx_lit ''/'') (rx_plus (RCls path_component)))"
  have name: "c \<noteq> CHR ''/''" if "path_component c" for c
    using that by (auto simp: path_component_def is_alnum_def is_digit_def is_upper_def is_lower_def)
  have more: "t2 = t1 \<and> q2 = q1 \<or> (\<exists>c. q2 = Some c \<and> path_component c)" if "(q2, t2) \<in> rx_ends ?star q1 t1" for q1 t1 q2 t2
    using that
  proof (induction "length t1" arbitrary: q1 t1 rule: less_induct)
    case less
    from less.prems consider "q2 = q1 \<and> t2 = t1"
      | q3 t3 where "(q3, t3) \<in> rx_ends (RSeq (rx_lit ''/'') (rx_plus (RCls path_component))) q1 t1" "length t3 < length t1"
        "(q2, t2) \<in> rx_ends ?star q3 t3"
      by (subst (asm) rx_ends_Star_unfold) blast
    then show ?case
    proof cases
      case 2
      then obtain w where "w \<noteq> []" "list_all path_component w" "q3 = after (Some (CHR ''/'')) w"
        by (auto simp: rx_simps)
      then have "\<exists>c. q3 = Some c \<and> path_component c" by (auto simp: after_def list_all_iff)
      with less.hyps [OF 2(2,3)] show ?thesis by auto
    qed simp
  qed
  from assms obtain w t where w: "w \<noteq> []" "s = CHR ''/'' # w @ t" "list_all first_component w"
    "(p1, s1) \<in> rx_ends ?star (after (Some (CHR ''/'')) w) t"
    unfolding unixPathPattern_def rx_ends_Seq rx_ends_lit rx_ends_plus_Cls by auto
  from rx_ends_split [OF w(4)] obtain v where v: "t = v @ s1" "p1 = after (after (Some (CHR ''/'')) w) v" by blast
  have first: "path_component c" if "first_component c" for c using that by (auto simp: path_component_def first_component_def)
  have "path_component (last w)" using w(1,3) by (auto simp: list_all_iff intro: first)
  then have "\<exists>c. p1 = Some c \<and> path_component c" using more [OF w(4)] w(1) by (auto simp: after_def)
  then have "last (CHR ''/'' # w @ v) \<noteq> CHR ''/''" using v w(1) by (auto simp: after_def dest: name split: if_splits)
  with w v show ?thesis by (intro exI [of _ "CHR ''/'' # w @ v"]) simp
qed

lemma unix_tidy: "tidy unixPathPattern hide_unix"
  unfolding tidy_def
proof (intro allI impI)
  fix p s p1 s1 cs rest
  assume "rx_run unixPathPattern p s = (p1, s1, cs) # rest"
  from unix_match [OF head_match [OF this]] obtain m where m: "s = m @ s1" "m \<noteq> []" "hd m = CHR ''/''" "last m \<noteq> CHR ''/''"
    by blast
  then have "CHR ''/'' \<in> set m" by (cases m) auto
  from Base_split [OF this m(4,2)] obtain d where d: "m = d @ CHR ''/'' # Base m" "CHR ''/'' \<notin> set (Base m)" by blast
  have s: "\<not> digit_at s" using m slash_not_digit(1) by (cases m) auto
  have "Base m \<noteq> ''/''" using d(2) by auto
  then have "hide_unix m = m \<or> hide_unix m = ''[PATH]'' @ CHR ''/'' # Base m \<or> hide_unix m = ''[PATH]'' \<and> Base m = ''.''"
    by (simp add: hide_unix_def Let_def)
  then consider "hide_unix m = m" | "hide_unix m = ''[PATH]'' @ CHR ''/'' # Base m" | "hide_unix m = ''[PATH]''" "Base m = ''.''"
    by blast
  then show "\<exists>d k br. s = d @ k @ s1 \<and> d @ k \<noteq> [] \<and> hide_unix (d @ k) = br @ k \<and> (d = [] \<and> br = [] \<or>
    br \<in> markers \<and> (\<not> digit_at s \<or> \<not> word_at p) \<and> (\<not> digit_at (k @ s1) \<or> \<not> word_at (after p d)))"
  proof cases
    case 1
    with m show ?thesis by (intro exI [of _ "[]"] exI [of _ m]) simp
  next
    case 2
    with m d s show ?thesis using slash_not_digit(1) [of "Base m @ s1"]
      by (intro exI [of _ d] exI [of _ "CHR ''/'' # Base m"] exI [of _ "''[PATH]''"]) (simp add: markers_def)
  next
    case 3
    with d(1) have "last m = CHR ''.''" by (metis last_appendR last.simps list.discI)
    with m(2) have "\<not> word_at (after p m)" by (simp add: after_def word_at_def is_word_def is_digit_def is_upper_def is_lower_def)
    with 3 m s show ?thesis
      by (intro exI [of _ m] exI [of _ "[]"] exI [of _ "''[PATH]''"]) (simp add: markers_def)
  qed
qed

lemma windows_tidy: "tidy windowsPathPattern hide_windows"
  unfolding tidy_def
proof (intro allI impI)
  fix p s p1 s1 cs rest
  assume "rx_run windowsPathPattern p s = (p1, s1, cs) # rest"
  from head_match [OF this] obtain u w where u: "is_upper u" "s = u # CHR '':'' # CHR 0x5C # w @ s1"
    by (auto simp: windowsPathPattern_def rx_simps)
  define m where "m = u # CHR '':'' # CHR 0x5C # w"
  have m: "s = m @ s1" "m \<noteq> []" and "CHR 0x5C \<in> set m" using u by (auto simp: m_def)
  from Split_last [OF this(3)] obtain d where d: "m = d @ CHR 0x5C # last (Split (CHR 0x5C) m)" by blast
  have s: "\<not> digit_at s" using u by (auto simp: digit_at_def is_digit_def is_upper_def)
  let ?base = "last (Split (CHR 0x5C) m)"
  show "\<exists>d k br. s = d @ k @ s1 \<and> d @ k \<noteq> [] \<and> hide_windows (d @ k) = br @ k \<and> (d = [] \<and> br = [] \<or>
    br \<in> markers \<and> (\<not> digit_at s \<or> \<not> word_at p) \<and> (\<not> digit_at (k @ s1) \<or> \<not> word_at (after p d)))"
  proof (cases "?base \<noteq> [] \<and> ?base \<noteq> ''.''")
    case True
    then have "hide_windows m = ''[PATH]'' @ CHR 0x5C # ?base" by (simp add: hide_windows_def Let_def)
    with m d s show ?thesis using slash_not_digit(2) [of "?base @ s1"]
      by (intro exI [of _ d] exI [of _ "CHR 0x5C # ?base"] exI [of _ "''[PATH]''"]) (simp add: markers_def)
  next
    case False
    then have hide: "hide_windows m = ''[PATH]''" and "?base = [] \<or> ?base = ''.''" by (auto simp: hide_windows_def Let_def)
    then have "last m \<in> {CHR 0x5C, CHR ''.''}" using d by (metis insertCI last.simps last_appendR list.discI)
    with m(2) have "\<not> word_at (after p m)" by (auto simp: after_def word_at_def is_word_def is_digit_def is_upper_def is_lower_def)
    with hide m s show ?thesis
      by (intro exI [of _ m] exI [of _ "[]"] exI [of _ "''[PATH]''"]) (simp add: markers_def)
  qed
qed

subsection \<open>Addresses, fingerprints, relative paths\<close>

definition octet :: "string \<Rightarrow> bool" where
  "octet w \<longleftrightarrow> w \<noteq> [] \<and> length w \<le> 3 \<and> list_all is_digit w"

definition dotted_quad :: "string \<Rightarrow> bool" where
  "dotted_quad x \<longleftrightarrow> (\<exists>a b c d. octet a \<and> octet b \<and> octet c \<and> octet d \<and> x = a @ ''.'' @ b @ ''.'' @ c @ ''.'' @ d)"

definition fingerprint_start :: "string \<Rightarrow> bool" where
  "fingerprint_start x \<longleftrightarrow> (\<exists>c. base64_char c \<and> x = ''SHA256:'' @ [c])"

lemma rx_ends_octet:
  "(p1, s1) \<in> rx_ends octet_rx p s \<longleftrightarrow> (\<exists>w. octet w \<and> s = w @ s1 \<and> p1 = after p w)"
proof
  assume "(p1, s1) \<in> rx_ends octet_rx p s"
  then obtain c w where "is_digit c" "length w \<le> 2" "s = c # w @ s1" "list_all is_digit w" "p1 = after (Some c) w"
    by (auto simp: octet_rx_def digit_rx_def rx_ends_Seq rx_ends_Cls rx_ends_upto_Cls)
  then show "\<exists>w. octet w \<and> s = w @ s1 \<and> p1 = after p w" by (intro exI [of _ "c # w"]) (simp add: octet_def)
next
  assume "\<exists>w. octet w \<and> s = w @ s1 \<and> p1 = after p w"
  then obtain c w where "is_digit c" "length w \<le> 2" "list_all is_digit w" "s = c # w @ s1" "p1 = after (Some c) w"
    by (auto simp: octet_def neq_Nil_conv)
  then show "(p1, s1) \<in> rx_ends octet_rx p s"
    unfolding octet_rx_def digit_rx_def rx_ends_Seq rx_ends_Cls rx_ends_upto_Cls by auto
qed

lemma rx_ends_SeqI: "(p1, s1) \<in> rx_ends a p s \<Longrightarrow> (p2, s2) \<in> rx_ends b p1 s1 \<Longrightarrow> (p2, s2) \<in> rx_ends (RSeq a b) p s"
  by (auto simp: rx_ends_Seq)

lemma rx_ends_quad:
  "(p1, s1) \<in> rx_ends dotted_quad_rx p s \<longleftrightarrow> (\<exists>x. dotted_quad x \<and> s = x @ s1 \<and> p1 = after p x)"
proof
  assume "(p1, s1) \<in> rx_ends dotted_quad_rx p s"
  then obtain a b c d where "octet a" "octet b" "octet c" "octet d"
    "s = a @ ''.'' @ b @ ''.'' @ c @ ''.'' @ d @ s1" "p1 = after p (a @ ''.'' @ b @ ''.'' @ c @ ''.'' @ d)"
    unfolding dotted_quad_rx_def rx_seq.simps rx_ends_Seq rx_ends_Eps rx_ends_octet rx_ends_lit
    by (elim exE conjE) simp
  then show "\<exists>x. dotted_quad x \<and> s = x @ s1 \<and> p1 = after p x"
    by (intro exI [of _ "a @ ''.'' @ b @ ''.'' @ c @ ''.'' @ d"]) (auto simp: dotted_quad_def)
next
  assume "\<exists>x. dotted_quad x \<and> s = x @ s1 \<and> p1 = after p x"
  then obtain a b c d where o: "octet a" "octet b" "octet c" "octet d"
    and s: "s = a @ ''.'' @ b @ ''.'' @ c @ ''.'' @ d @ s1" "p1 = after p (a @ ''.'' @ b @ ''.'' @ c @ ''.'' @ d)"
    by (auto simp: dotted_quad_def)
  have oct: "(after q w, t) \<in> rx_ends octet_rx q (w @ t)" if "octet w" for q w t using that by (auto simp: rx_ends_octet)
  have dot: "(Some (CHR ''.''), t) \<in> rx_ends (rx_lit ''.'') q (CHR ''.'' # t)" for q t by (auto simp: rx_ends_Seq rx_ends_Cls rx_ends_Eps)
  have "(p1, s1) \<in> rx_ends REps p1 s1" by (simp add: rx_ends_Eps)
  with o show "(p1, s1) \<in> rx_ends dotted_quad_rx p s"
    unfolding dotted_quad_rx_def rx_seq.simps s after_append append_Cons append_Nil after_Cons after_Nil
    by (meson oct dot rx_ends_SeqI)
qed

lemma quad_chars:
  assumes "dotted_quad x"
  shows "x \<noteq> []" "is_digit (hd x)" "is_digit (last x)" "c \<in> set x \<Longrightarrow> is_digit c \<or> c = CHR ''.''"
  using assms by (auto simp: dotted_quad_def octet_def list_all_iff)

lemma quad_not_Nil [simp]: "\<not> dotted_quad []"
  by (auto dest: quad_chars)

interpretation ip: leak dotted_quad "\<lambda>p. \<not> word_at p" "\<lambda>t. \<not> digit_at t"
proof
  fix x br
  assume x: "dotted_quad x" and br: "br \<in> markers"
  have "hd x \<in> set x" using quad_chars(1) [OF x] by simp
  moreover have "\<not> is_digit c" if "c \<in> set br" for c using that br by (auto simp: markers_def is_digit_def)
  ultimately have "\<not> set x \<subseteq> set br" using quad_chars(2) [OF x] by blast
  moreover have "hd br \<noteq> CHR ''.''" "last br \<noteq> CHR ''.''" "hd br \<in> set br" "last br \<in> set br"
    using br by (auto simp: markers_def)
  ultimately show "hd br \<notin> set x \<and> last br \<notin> set x \<and> \<not> set x \<subseteq> set br"
    using quad_chars(4) [OF x] \<open>\<And>c. c \<in> set br \<Longrightarrow> \<not> is_digit c\<close> by blast
next
  show "x \<noteq> [] \<and> CHR 0x0A \<notin> set x" if "dotted_quad x" for x
    using quad_chars(1) [OF that] quad_chars(4) [OF that, of "CHR 0x0A"] by (auto simp: is_digit_def)
qed (auto simp: digit_at_def dest: quad_chars digit_word)

interpretation fp: leak fingerprint_start "\<lambda>_. True" "\<lambda>_. True"
proof
  fix x br
  assume "fingerprint_start x" "br \<in> markers"
  then show "hd br \<notin> set x \<and> last br \<notin> set x \<and> \<not> set x \<subseteq> set br"
    by (auto simp: fingerprint_start_def markers_def base64_char_def is_alnum_def is_digit_def is_upper_def is_lower_def)
qed (auto simp: fingerprint_start_def base64_char_def is_alnum_def is_digit_def is_upper_def is_lower_def)

interpretation rel: leak "\<lambda>x. x = ''./''" "\<lambda>_. True" "\<lambda>_. True"
  by unfold_locales (auto simp: markers_def)

text \<open>An address that runs into a word, which the pattern for addresses does not match.\<close>

definition glued_address :: rx where
  "glued_address = RSeq RWordB (RSeq dotted_quad_rx (RCls (\<lambda>c. is_word c \<and> \<not> is_digit c)))"

lemma ipv4_found:
  assumes "\<not> MatchString glued_address s" "s = a @ x @ b" "dotted_quad x" "\<not> word_at (after None a)" "\<not> digit_at b"
  shows "rx_run ipv4Pattern (after None a) (x @ b) \<noteq> []"
proof -
  have left: "word_at (after None a) \<noteq> word_at (next_char (x @ b))"
    using assms(4) quad_chars [OF assms(3)] by (cases x) (auto simp: next_char_def word_at_def dest: digit_word)
  have "\<not> word_at (next_char b)"
  proof
    assume "word_at (next_char b)"
    then obtain c b' where b: "b = c # b'" "is_word c" by (cases b) (auto simp: next_char_def word_at_def)
    with assms(5) have "\<not> is_digit c" by (simp add: digit_at_def)
    with b left assms(3) have "(Some c, b') \<in> rx_ends glued_address (after None a) (x @ b)"
      unfolding glued_address_def rx_ends_Seq rx_ends_WordB rx_ends_quad rx_ends_Cls by blast
    with assms(1,2) show False unfolding MatchString_iff by blast
  qed
  moreover have "word_at (after (after None a) x)"
    using quad_chars [OF assms(3)] by (simp add: after_def word_at_def digit_word)
  ultimately have "(after (after None a) x, b) \<in> rx_ends ipv4Pattern (after None a) (x @ b)"
    using left assms(3) unfolding ipv4Pattern_def rx_ends_Seq rx_ends_WordB rx_ends_quad by blast
  then show ?thesis by (auto simp: rx_run_Nil_iff)
qed

lemma fingerprint_run: "base64_char c \<Longrightarrow> rx_run fingerprintPattern p ((''SHA256:'' @ [c]) @ b) \<noteq> []"
proof -
  assume "base64_char c"
  then have "(Some c, b) \<in> rx_ends fingerprintPattern p ((''SHA256:'' @ [c]) @ b)"
    unfolding fingerprintPattern_def rx_ends_Seq rx_ends_lit rx_ends_plus_Cls
    by (intro exI [of _ "after p ''SHA256:''"] exI [of _ "[c] @ b"]) (auto intro!: exI [of _ "[c]"])
  then show ?thesis by (auto simp: rx_run_Nil_iff)
qed

subsection \<open>A sanitised message\<close>

text \<open>Without \<^verbatim>\<open>./\<close> in the message there are no relative paths to put aside.\<close>

lemma sanitizePaths_plain:
  assumes "\<not> exposed (\<lambda>x. x = ''./'') (\<lambda>_. True) (\<lambda>_. True) None s" "range_order [] = []"
  shows "sanitizePaths range_order s =
    ReplaceAllStringFunc windowsPathPattern (ReplaceAllStringFunc unixPathPattern s hide_unix) hide_windows"
proof -
  have "rx_run relativePathPattern (after None pre) t = []" if "s = pre @ t" for pre t
  proof -
    have "t \<noteq> ''./'' @ u" for u using assms(1) that unfolding exposed_def by blast
    then show ?thesis unfolding rx_run_Nil_iff relativePathPattern_def rx_ends_Seq rx_ends_lit by blast
  qed
  then have "rx_find relativePathPattern None s = None" unfolding rx_find_None_iff by blast
  then have "rx_subst_st (length s) relativePathPattern keep_relative None s [] = (s, [])" by (cases "length s") auto
  with assms(2) show ?thesis by (simp add: sanitizePaths_def)
qed

lemma exposed_free:
  assumes "\<not> exposed dotted_quad (\<lambda>p. \<not> word_at p) (\<lambda>t. \<not> digit_at t) None s"
    "\<not> exposed fingerprint_start (\<lambda>_. True) (\<lambda>_. True) None s"
  shows "(\<nexists>a x b. s = a @ x @ b \<and> dotted_quad x \<and> (a = [] \<or> \<not> is_word (last a)) \<and> (b = [] \<or> \<not> is_digit (hd b))) \<and>
    (\<nexists>a c b. s = a @ ''SHA256:'' @ c # b \<and> base64_char c)"
proof (intro conjI notI; elim exE conjE)
  fix a x b
  assume x: "s = a @ x @ b" "dotted_quad x" "a = [] \<or> \<not> is_word (last a)" "b = [] \<or> \<not> is_digit (hd b)"
  have "\<not> word_at (after None a)" using x(3) by (auto simp: after_def word_at_def)
  moreover have "\<not> digit_at b" using x(4) by (cases b) (auto simp: digit_at_def)
  ultimately show False using assms(1) x(1,2) by (auto simp: exposed_def)
next
  fix a c b
  assume x: "s = a @ ''SHA256:'' @ c # b" "base64_char c"
  then have "s = a @ (''SHA256:'' @ [c]) @ b" "fingerprint_start (''SHA256:'' @ [c])" by (auto simp: fingerprint_start_def)
  then show False using assms(2) unfolding exposed_def by blast
qed

text \<open>C29. What a sanitised message hides. Provided that in the original message no IPv4 address at the start of a word is followed by
  a letter or an underscore (\<open>glued_address\<close>) and no \<^verbatim>\<open>./\<close> occurs, the sanitised message contains no four groups of one to three digits joined by dots,
  neither preceded by a letter, digit or underscore nor followed by a digit, and no \<^verbatim>\<open>SHA256:\<close> followed by a base64 character, whatever
  the order in which Go ranges over the map of put-aside paths.\<close>

theorem sanitized_message_hides:
  assumes "\<And>xs. set (range_order xs) = set xs" and "\<not> Contains msg ''./''" and "\<not> MatchString glued_address msg"
  shows "(\<nexists>a x b. SanitizeErrorMessage range_order msg = a @ x @ b \<and> dotted_quad x \<and>
      (a = [] \<or> \<not> is_word (last a)) \<and> (b = [] \<or> \<not> is_digit (hd b))) \<and>
    (\<nexists>a c b. SanitizeErrorMessage range_order msg = a @ ''SHA256:'' @ c # b \<and> base64_char c)"
proof -
  define m1 where "m1 = ReplaceAllString ipv4Pattern msg ''[IP-ADDRESS]''"
  define m2 where "m2 = ReplaceAllString ipv6Pattern m1 ''[IP-ADDRESS]''"
  define m3 where "m3 = ReplaceAllString fingerprintPattern m2 ''[FINGERPRINT]''"
  define m4 where "m4 = ReplaceAllStringFunc unixPathPattern m3 hide_unix"
  define m5 where "m5 = ReplaceAllStringFunc windowsPathPattern m4 hide_windows"
  define m6 where "m6 = sanitizeHostnames m5"
  define m7 where "m7 = ReplaceAllString stackTracePattern m6 []"
  define m8 where "m8 = ReplaceAllString (rx_plus (RCls rx_space)) m7 '' ''"
  note defs = m1_def m2_def m3_def m4_def m5_def m6_def m7_def m8_def
  have marks: "''[IP-ADDRESS]'' \<in> markers" "''[FINGERPRINT]'' \<in> markers" "''[HOSTNAME]'' \<in> markers" "'' '' \<in> markers"
    by (auto simp: markers_def)
  note passes = ipv4_drops ipv6_drops fingerprint_drops hostname_drops space_drops unix_tidy windows_tidy marks
  have "\<not> exposed (\<lambda>x. x = ''./'') (\<lambda>_. True) (\<lambda>_. True) None msg" using assms(2) by (auto simp: exposed_def Contains_iff)
  then have "\<not> exposed (\<lambda>x. x = ''./'') (\<lambda>_. True) (\<lambda>_. True) None m3" unfolding m3_def m2_def m1_def by (intro rel.pass passes)
  then have result: "SanitizeErrorMessage range_order msg = TrimSpace m8"
    using sanitizePaths_plain [of m3 range_order] assms(1) [of "[]"] by (simp add: SanitizeErrorMessage_def Let_def defs)
  have "\<not> exposed dotted_quad (\<lambda>p. \<not> word_at p) (\<lambda>t. \<not> digit_at t) None m1"
    unfolding m1_def ReplaceAllString_def rx_replace_subst
    by (rule ip.removes [OF ipv4_drops marks(1)]) (simp, simp, rule ipv4_found [OF assms(3)], assumption+)
  then have "\<not> exposed dotted_quad (\<lambda>p. \<not> word_at p) (\<lambda>t. \<not> digit_at t) None m6"
    unfolding m6_def m5_def m4_def m3_def m2_def sanitizeHostnames_def by (intro ip.pass passes)
  then have "\<not> exposed dotted_quad (\<lambda>p. \<not> word_at p) (\<lambda>t. \<not> digit_at t) None m7"
    unfolding m7_def ReplaceAllString_def rx_replace_subst by (intro ip.erases stack_lines) simp_all
  then have address: "\<not> exposed dotted_quad (\<lambda>p. \<not> word_at p) (\<lambda>t. \<not> digit_at t) None (TrimSpace m8)"
    unfolding m8_def by (intro ip.pass_trim ip.pass passes)
  have "\<not> exposed fingerprint_start (\<lambda>_. True) (\<lambda>_. True) None m3"
    unfolding m3_def ReplaceAllString_def rx_replace_subst
    by (rule fp.removes [OF fingerprint_drops marks(2)]) (auto simp: fingerprint_start_def dest: fingerprint_run)
  then have "\<not> exposed fingerprint_start (\<lambda>_. True) (\<lambda>_. True) None m6"
    unfolding m6_def m5_def m4_def sanitizeHostnames_def by (intro fp.pass passes)
  then have "\<not> exposed fingerprint_start (\<lambda>_. True) (\<lambda>_. True) None m7"
    unfolding m7_def ReplaceAllString_def rx_replace_subst by (intro fp.erases stack_lines) simp_all
  then have "\<not> exposed fingerprint_start (\<lambda>_. True) (\<lambda>_. True) None (TrimSpace m8)"
    unfolding m8_def by (intro fp.pass_trim fp.pass passes)
  with address show ?thesis unfolding result by (rule exposed_free)
qed

theorem sanitized_message_hides_witness:
  "\<nexists>a x b. SanitizeErrorMessage (\<lambda>xs. xs) ''dial 10.0.0.1:22'' = a @ x @ b \<and> dotted_quad x \<and>
     (a = [] \<or> \<not> is_word (last a)) \<and> (b = [] \<or> \<not> is_digit (hd b))"
proof -
  have "\<not> Contains ''dial 10.0.0.1:22'' ''./''" "\<not> MatchString glued_address ''dial 10.0.0.1:22''" by code_simp+
  from sanitized_message_hides [OF _ this, of "\<lambda>xs. xs"] show ?thesis by simp
qed

end
