(* ===== verification/Spec2Isabelle.thy ===== *)
theory Spec2Isabelle
  imports Locks Pool Publish SshController Orphan MountProps NvmeProps MockNode VmiGrouper ConnManager Startup SanitizeProps
begin

text \<open>
  Verification of the RDS CSI driver, a storage driver for Kubernetes: it creates volumes on a MikroTik RDS storage
  server over SSH, exports them over NVMe/TCP and attaches, formats and mounts them on the nodes of a cluster. Paths below
  are relative to the directory \<^verbatim>\<open>src\<close> of the repository.

  \<^bold>\<open>The parts and how they interact.\<close> The controller service (\<^verbatim>\<open>pkg/driver/controller.go\<close>) answers requests for volumes,
  snapshots and attachments. It talks to the storage server through the interface \<^verbatim>\<open>RDSClient\<close>, which the SSH client
  (\<^verbatim>\<open>pkg/rds/ssh_client.go\<close>, \<^verbatim>\<open>commands.go\<close>) implements by printing RouterOS commands and parsing their output, and to the
  cluster through client-go. Which node has which volume is the table of the attachment manager (\<^verbatim>\<open>pkg/attachment\<close>), rebuilt
  from the cluster at start and reconciled with the nodes that still exist. The orphan reconciler (\<^verbatim>\<open>pkg/reconciler\<close>) deletes
  volumes nobody refers to. The node service (\<^verbatim>\<open>pkg/driver/node.go\<close>) connects a volume (\<^verbatim>\<open>pkg/nvme\<close>), formats and mounts it
  (\<^verbatim>\<open>pkg/mount\<close>) and recovers stale mounts. \<^verbatim>\<open>cmd/rds-csi-plugin/main.go\<close> and \<^verbatim>\<open>pkg/driver/driver.go\<close>
  put the parts together by the flags of the command line; a connection manager (\<^verbatim>\<open>pkg/rds/connection_manager.go\<close>) restores
  a lost connection, and \<^verbatim>\<open>pkg/security\<close> logs and counts what happens. \<^verbatim>\<open>test/mock\<close> holds doubles of the server, the mounter and the connector.

  \<^bold>\<open>Which theory models what.\<close> Definitions keep the names of the source, with a prefix where HOL or another package uses
  the name. A struct is a record, an error a value, a handler a function of the request and the state it changes.

  \<^item> Shared: \<open>Prelude\<close> (strings, numbers, errors, times and durations of Go), \<open>GoRegex\<close> (package \<^verbatim>\<open>regexp\<close>), \<open>Kube\<close>
    (the calls of client-go), \<open>RdsClient\<close> (\<^verbatim>\<open>pkg/rds/client.go\<close>, \<^verbatim>\<open>types.go\<close>, \<^verbatim>\<open>mock.go\<close>), \<open>Host\<close> (the operating system of a node).
  \<^item> Input: \<open>VolumeID\<close> (\<^verbatim>\<open>pkg/utils/volumeid.go\<close>, \<^verbatim>\<open>snapshotid.go\<close>), \<open>PathValidation\<close> (\<^verbatim>\<open>pkg/utils/validation.go\<close>), \<open>Params\<close>
    (\<^verbatim>\<open>pkg/driver/params.go\<close>).
  \<^item> Attachments: \<open>Attachment\<close> (\<^verbatim>\<open>manager.go\<close>, \<^verbatim>\<open>types.go\<close>, \<^verbatim>\<open>persist.go\<close>), \<open>Locks\<close> (\<^verbatim>\<open>lock.go\<close>), \<open>AttachReconciler\<close> (\<^verbatim>\<open>rebuild.go\<close>,
    \<^verbatim>\<open>reconciler.go\<close>, \<^verbatim>\<open>va_lister.go\<close>, \<^verbatim>\<open>node_watcher.go\<close>), all of \<^verbatim>\<open>pkg/attachment\<close>; \<open>VmiGrouper\<close> (\<^verbatim>\<open>pkg/driver/vmi_grouper.go\<close>).
  \<^item> Controller: \<open>Events\<close> (\<^verbatim>\<open>pkg/driver/events.go\<close>), \<open>Controller\<close> and \<open>Publish\<close> (\<^verbatim>\<open>pkg/driver/controller.go\<close>), \<open>Orphan\<close>
    (\<^verbatim>\<open>pkg/reconciler/orphan_reconciler.go\<close>).
  \<^item> Storage protocol: \<open>Pool\<close> (\<^verbatim>\<open>pkg/rds/pool.go\<close>), \<open>RouterOS\<close>, \<open>RouterText\<close>, \<open>SshClient\<close> (\<^verbatim>\<open>commands.go\<close>, \<^verbatim>\<open>ssh_client.go\<close>),
    \<open>MockServer\<close> (\<^verbatim>\<open>test/mock/rds_server.go\<close>), \<open>SshStore\<close> (the client against a server),
    \<open>SshController\<close> (the controller over that client).
  \<^item> Node: \<open>Mounts\<close>, \<open>Stale\<close> (\<^verbatim>\<open>pkg/mount\<close>), \<open>Nvme\<close> (\<^verbatim>\<open>pkg/nvme\<close>, \<^verbatim>\<open>pkg/utils/retry.go\<close>), \<open>NodeService\<close> (\<^verbatim>\<open>pkg/driver/node.go\<close>,
    \<^verbatim>\<open>pkg/circuitbreaker\<close>), \<open>MockNode\<close> (\<^verbatim>\<open>test/mock/mounter.go\<close>, \<^verbatim>\<open>nvme_connector.go\<close>); their properties are in \<open>NodeGuard\<close>,
    \<open>NodeProps\<close>, \<open>MountProps\<close> and \<open>NvmeProps\<close>.
  \<^item> The whole: \<open>ConnManager\<close> (\<^verbatim>\<open>pkg/rds/connection_manager.go\<close>), \<open>Startup\<close> (\<^verbatim>\<open>main.go\<close>, \<^verbatim>\<open>pkg/driver/driver.go\<close>, \<^verbatim>\<open>identity.go\<close>),
    \<open>Security\<close> (\<^verbatim>\<open>pkg/security\<close>), \<open>Sanitize\<close> (\<^verbatim>\<open>pkg/utils/errors.go\<close>) with its properties in \<open>SanitizeProps\<close>.

  \<^bold>\<open>Code outside the repository\<close> is a parameter: the Kubernetes API is a record \<open>kube\<close>, the SSH library a \<open>transport\<close>, the
  operating system with its programs a \<open>host\<close>, the backoff and breaker libraries records of their methods. Nothing is assumed
  of them but what a theorem states as a hypothesis, and every such theorem has a witness with concrete functions.

  \<^bold>\<open>What the theorems show.\<close>
  \<^item> Attachments: every reachable table is well-formed; in every run of publications, unpublications and reconciler
    passes a volume that is not shared has at most one node; outside the grace period a volume is taken from another
    node only when the cluster says that this node is gone; a rebuild yields the attachments of the cluster, two per volume at most;
    reconciliation fails open; the lock managers exclude per volume and per
    machine.
  \<^item> Volumes: over the SSH client and the mock server creation is idempotent, creation and deletion are inverse and expansion
    grows a volume, for sizes that the size text of RouterOS carries; listing by pages is complete; orphan cleaning deletes no
    volume that the cluster refers to and no file that backs a listed volume.
  \<^item> Protocol: over the text protocol the client refines updates of a table of disks; printing and parsing are inverse;
    accepted identifiers and commands carry no metacharacters; retries are bounded; the host key is checked.
  \<^item> Nodes: in every run of the node service a device is formatted only when blank, only targets of the driver are
    disconnected, a mount in use is not detached, a busy volume is not unstaged, mounting uses safe options only; publishing
    always answers; the life of a volume on a node leaves no trace.
  \<^item> The whole: which parts a plugin has by its flags; it starts only against the configured host key; a restart keeps
    attachments exclusive; a lost connection is restored; the security counters agree with the events;
    a sanitised message shows no IPv4 address and no key fingerprint.
  \<^item> Where the code departs from its comments, a lemma states what it does; the manifest lists these findings.

  \<^bold>\<open>Interfaces\<close> are locales: \<open>volume_service\<close>, what the controller needs of a storage client (interpreted on the SSH client with
  the mock server), \<open>rds_volumes\<close>, which implies it, \<open>rds_files\<close> and \<open>rds_store\<close> (on the in-memory client), \<open>disk_server\<close> (on the mock
  server), the contract of the attachment manager (on its operations), \<open>guarded_host\<close> and its extensions (on any machine
  that records the programs it has run), and \<open>leak\<close>, a kind of text that replacing cannot bring in (on addresses and
  fingerprints).

  \<^bold>\<open>Loops and bounds.\<close> Structural loops are \<open>fun\<close>; loops with a counter in the source count down the same number; loops that
  wait for the world are \<open>partial_function (option)\<close>, where \<open>None\<close> is a call that never returns, and the theorems that need
  an answer prove that there is one. Only the functions that split and replace
  by a pattern count down a number, the length of the text: no pattern of the source matches the empty text, so every match uses up a character. Go's \<open>int64\<close> is \<open>int\<close> with the wrap-around written out where a
  product or sum can leave the range.

  \<^bold>\<open>Not modelled.\<close> Prometheus metrics (\<^verbatim>\<open>pkg/observability\<close>) and log lines other than those of \<^verbatim>\<open>pkg/security\<close>, which nothing
  reads back; the gRPC and HTTP servers and signal handling (\<^verbatim>\<open>pkg/driver/server.go\<close>, the end of \<^verbatim>\<open>main\<close>), which are plumbing of
  libraries; the pattern table of \<^verbatim>\<open>pkg/utils/regex.go\<close>, which nothing calls; SNMP (\<^verbatim>\<open>pkg/rds/snmp.go\<close>), which decodes values of a
  library; delays and configuration of the test doubles. The NVMe connector is modelled one call at a time: its mutexes
  protect counters and the cache only. Texts of gRPC statuses are left out, their codes are not.

  \<^bold>\<open>Limits of the model.\<close> Every program and every call of the operating system returns (\<open>host\<close> is a record of total functions), so a
  hanging system call is outside the theorems on nodes. The calls of the node service follow one another in \<open>node_run\<close>; they do not
  overlap. A scan of \<^verbatim>\<open>/proc\<close> is one reading of the machine, and the lazy unmount that follows it starts from that state. A stale
  connection that the pool drops counts as closed when it leaves the pool, although the code closes it after it has released the
  mutex. The commands of the attachment manager that \<open>am_exec\<close> runs are those of the controller; \<^verbatim>\<open>ClearMigrationState\<close>, which nothing
  calls, and the rebuild have lemmas of their own. The multiplier of the recovery back-off is an integer, as it is by default. The
  contract of snapshots is discharged for the in-memory client only.
\<close>

end
